(* ===== verification/Prelude.thy ===== *)
theory Prelude
  imports Main "HOL-Library.Sublist" "HOL-Library.Char_ord" "HOL-Library.List_Lexorder"
begin

text \<open>
  Shared vocabulary of the development: how Python text, results, dictionaries and glob patterns
  are represented, and the generic lemmas on them that the component theories use.

  \<^item> A Python \<open>str\<close> is a \<^typ>\<open>string\<close> holding its UTF-8 bytes (lone surrogates in their
    three-byte form). Equality, concatenation, prefixes and the code-point order of Python are
    those of the byte lists; operations that count or classify characters work on the code points
    that \<open>chunks\<close> delivers.
  \<^item> A UUID is its canonical text, a time zone aware \<open>datetime\<close> its instant on the UTC time line
    in microseconds.
  \<^item> A call that may raise returns a sum, \<^const>\<open>Inl\<close> holding the exception.
  \<^item> A dictionary whose insertion order matters is an association list.
\<close>

named_theorems outcome_simps \<open>case analysis of calls that may raise\<close>
named_theorems text_simps \<open>Python text operations\<close>

type_synonym uuid = string
type_synonym digest = string
type_synonym instant = int

subsection \<open>Results of calls that may raise\<close>

text \<open>The first failing check of a sequence of guards, each paired with what it raises.\<close>

fun first_failure :: "(bool \<times> 'e) list \<Rightarrow> 'e option" where
  "first_failure [] = None"
| "first_failure ((bad, e) # checks) = (if bad then Some e else first_failure checks)"

definition guarded :: "(bool \<times> 'e) list \<Rightarrow> 'a \<Rightarrow> 'e + 'a" where
  "guarded checks x = (case first_failure checks of Some e \<Rightarrow> Inl e | None \<Rightarrow> Inr x)"

text \<open>The first check of a sequence that raises, the checks being given by what they raise.\<close>

fun first_error :: "'e option list \<Rightarrow> 'e option" where
  "first_error [] = None"
| "first_error (None # checks) = first_error checks"
| "first_error (Some e # checks) = Some e"

definition checked :: "'e option list \<Rightarrow> 'a \<Rightarrow> 'e + 'a" where
  "checked checks x = (case first_error checks of Some e \<Rightarrow> Inl e | None \<Rightarrow> Inr x)"

definition fail_if :: "bool \<Rightarrow> 'e \<Rightarrow> 'e option" where
  "fail_if bad e = (if bad then Some e else None)"

definition sbind :: "'e + 'a \<Rightarrow> ('a \<Rightarrow> 'e + 'b) \<Rightarrow> 'e + 'b" where
  "sbind m f = (case m of Inl e \<Rightarrow> Inl e | Inr x \<Rightarrow> f x)"

fun smap :: "('a \<Rightarrow> 'e + 'b) \<Rightarrow> 'a list \<Rightarrow> 'e + 'b list" where
  "smap f [] = Inr []"
| "smap f (x # xs) = sbind (f x) (\<lambda>y. sbind (smap f xs) (\<lambda>ys. Inr (y # ys)))"

lemma smap_cong [fundef_cong]:
  "xs = ys \<Longrightarrow> (\<And>x. x \<in> set ys \<Longrightarrow> f x = g x) \<Longrightarrow> smap f xs = smap g ys"
  by (induction ys arbitrary: xs) (auto simp: sbind_def split: sum.splits)

lemma first_failure_None_iff: "first_failure checks = None \<longleftrightarrow> (\<forall>(bad, e) \<in> set checks. \<not> bad)"
  by (induction checks rule: first_failure.induct) auto

lemma first_failure_append:
  "first_failure (xs @ ys) =
     (case first_failure xs of Some e \<Rightarrow> Some e | None \<Rightarrow> first_failure ys)"
  by (induction xs rule: first_failure.induct) auto

lemma first_failure_Some_mem: "first_failure checks = Some e \<Longrightarrow> (True, e) \<in> set checks"
  by (induction checks rule: first_failure.induct) (auto split: if_splits)

lemma guarded_Inr [outcome_simps]:
  "guarded checks x = Inr y \<longleftrightarrow> y = x \<and> first_failure checks = None"
  by (auto simp: guarded_def split: option.splits)

lemma guarded_Inl [outcome_simps]: "guarded checks x = Inl e \<longleftrightarrow> first_failure checks = Some e"
  by (auto simp: guarded_def split: option.splits)

lemma first_error_Cons:
  "first_error (c # checks) = (case c of Some e \<Rightarrow> Some e | None \<Rightarrow> first_error checks)"
  by (cases c) auto

lemma first_error_None_iff [outcome_simps]:
  "first_error checks = None \<longleftrightarrow> (\<forall>c \<in> set checks. c = None)"
  by (induction checks rule: first_error.induct) auto

lemma first_error_append:
  "first_error (xs @ ys) = (case first_error xs of Some e \<Rightarrow> Some e | None \<Rightarrow> first_error ys)"
  by (induction xs rule: first_error.induct) auto

lemma first_error_Some_mem: "first_error checks = Some e \<Longrightarrow> Some e \<in> set checks"
  by (induction checks rule: first_error.induct) auto

lemma checked_Inr [outcome_simps]:
  "checked checks x = Inr y \<longleftrightarrow> y = x \<and> (\<forall>c \<in> set checks. c = None)"
  by (auto simp: checked_def simp flip: first_error_None_iff split: option.splits)

lemma checked_Inl [outcome_simps]: "checked checks x = Inl e \<longleftrightarrow> first_error checks = Some e"
  by (auto simp: checked_def split: option.splits)

lemma checked_simps [simp]:
  "checked [] x = Inr x" "checked (None # checks) x = checked checks x"
  "checked (Some e # checks) x = Inl e"
  by (simp_all add: checked_def)

lemma fail_if_simps [simp]: "fail_if False e = None" "fail_if True e = Some e"
  by (simp_all add: fail_if_def)

lemma fail_if_None [simp]: "fail_if bad e = None \<longleftrightarrow> \<not> bad"
  by (simp add: fail_if_def)

lemma fail_if_Some [simp]: "fail_if bad e = Some e' \<longleftrightarrow> bad \<and> e' = e"
  by (auto simp: fail_if_def)

lemma first_error_concat:
  "first_error (concat (map f xs)) = None \<longleftrightarrow> (\<forall>x \<in> set xs. first_error (f x) = None)"
  by (induction xs) (simp_all add: first_error_append split: option.split)

lemma fail_if_case: "(case fail_if b e of Some e' \<Rightarrow> Some e' | None \<Rightarrow> r) = None \<longleftrightarrow> \<not> b \<and> r = None"
  by (simp add: fail_if_def)

lemma sbind_simps [simp]: "sbind (Inl e) f = Inl e" "sbind (Inr x) f = f x"
  by (simp_all add: sbind_def)

lemma sbind_Inr [outcome_simps]: "sbind m f = Inr y \<longleftrightarrow> (\<exists>x. m = Inr x \<and> f x = Inr y)"
  by (cases m) auto

lemma sbind_InrE: "sbind m f = Inr y \<Longrightarrow> (\<And>x. m = Inr x \<Longrightarrow> f x = Inr y \<Longrightarrow> P) \<Longrightarrow> P"
  by (auto simp: sbind_Inr)

lemma sbind_Inl [outcome_simps]:
  "sbind m f = Inl e \<longleftrightarrow> m = Inl e \<or> (\<exists>x. m = Inr x \<and> f x = Inl e)"
  by (cases m) auto

lemma smap_Inr_length: "smap f xs = Inr ys \<Longrightarrow> length ys = length xs"
  by (induction xs arbitrary: ys) (auto simp: sbind_Inr)

subsection \<open>Code points of a Python string\<close>

definition is_cont :: "char \<Rightarrow> bool" where
  "is_cont c = (128 \<le> (of_char c :: nat) \<and> (of_char c :: nat) < 192)"

function chunks :: "string \<Rightarrow> string list" where
  "chunks [] = []"
| "chunks (c # s) = (c # takeWhile is_cont s) # chunks (dropWhile is_cont s)"
  by pat_completeness auto
termination
  by (relation "measure length") (auto simp: le_imp_less_Suc length_dropWhile_le)

fun code_point :: "string \<Rightarrow> nat" where
  "code_point [a] = of_char a"
| "code_point [a, b] = (of_char a mod 32) * 64 + of_char b mod 64"
| "code_point [a, b, c] = (of_char a mod 16) * 4096 + (of_char b mod 64) * 64 + of_char c mod 64"
| "code_point [a, b, c, d] =
     (of_char a mod 8) * 262144 + (of_char b mod 64) * 4096 + (of_char c mod 64) * 64
       + of_char d mod 64"
| "code_point _ = 0"

definition code_points :: "string \<Rightarrow> nat list" where
  "code_points s = map code_point (chunks s)"

text \<open>\<open>len(s)\<close> counts code points; \<open>len(s.encode("utf-8"))\<close> counts bytes and raises on a
  lone surrogate.\<close>

definition py_len :: "string \<Rightarrow> nat" where
  "py_len s = length (chunks s)"

definition has_surrogate :: "string \<Rightarrow> bool" where
  "has_surrogate s = (\<exists>c \<in> set (code_points s). 55296 \<le> c \<and> c \<le> 57343)"

definition utf8_length :: "string \<Rightarrow> nat option" where
  "utf8_length s = (if has_surrogate s then None else Some (length s))"

text \<open>The characters \<open>str.strip\<close> removes, and the general categories Cc and Cf of the Unicode
  character database.\<close>

definition is_space :: "nat \<Rightarrow> bool" where
  "is_space n = (9 \<le> n \<and> n \<le> 13 \<or> 28 \<le> n \<and> n \<le> 32 \<or> n = 133 \<or> n = 160 \<or> n = 5760
     \<or> 8192 \<le> n \<and> n \<le> 8202 \<or> n = 8232 \<or> n = 8233 \<or> n = 8239 \<or> n = 8287 \<or> n = 12288)"

definition is_control :: "nat \<Rightarrow> bool" where
  "is_control n = (n < 32 \<or> 127 \<le> n \<and> n \<le> 159)"

definition is_format :: "nat \<Rightarrow> bool" where
  "is_format n = (n = 173 \<or> 1536 \<le> n \<and> n \<le> 1541 \<or> n = 1564 \<or> n = 1757 \<or> n = 1807
     \<or> n = 2192 \<or> n = 2193 \<or> n = 2274 \<or> n = 6158 \<or> 8203 \<le> n \<and> n \<le> 8207
     \<or> 8234 \<le> n \<and> n \<le> 8238 \<or> 8288 \<le> n \<and> n \<le> 8292 \<or> 8294 \<le> n \<and> n \<le> 8303
     \<or> n = 65279 \<or> 65529 \<le> n \<and> n \<le> 65531 \<or> n = 69821 \<or> n = 69837
     \<or> 78896 \<le> n \<and> n \<le> 78911 \<or> 113824 \<le> n \<and> n \<le> 113827
     \<or> 119155 \<le> n \<and> n \<le> 119162 \<or> n = 917505 \<or> 917536 \<le> n \<and> n \<le> 917631)"

definition has_control_characters :: "string \<Rightarrow> bool" where
  "has_control_characters s = (\<exists>c \<in> set (code_points s). is_control c \<or> is_format c)"

definition space_chunk :: "string \<Rightarrow> bool" where
  "space_chunk c = is_space (code_point c)"

definition strip_chunks :: "string list \<Rightarrow> string list" where
  "strip_chunks cs = rev (dropWhile space_chunk (rev (dropWhile space_chunk cs)))"

definition py_strip :: "string \<Rightarrow> string" where
  "py_strip s = concat (strip_chunks (chunks s))"

text \<open>\<open>not value.strip()\<close> and \<open>value != value.strip()\<close>, the two tests the sources use.\<close>

definition blank :: "string \<Rightarrow> bool" where
  "blank s = (py_strip s = [])"

definition trimmed :: "string \<Rightarrow> bool" where
  "trimmed s = (s = py_strip s)"

lemma concat_chunks [simp]: "concat (chunks s) = s"
  by (induction s rule: chunks.induct) simp_all

lemma chunks_nonempty: "c \<in> set (chunks s) \<Longrightarrow> c \<noteq> []"
  by (induction s rule: chunks.induct) auto

lemma chunks_Nil_iff [simp]: "chunks s = [] \<longleftrightarrow> s = []"
  by (cases s) auto

lemma chunks_inj: "chunks s = chunks t \<Longrightarrow> s = t"
  by (metis concat_chunks)

text \<open>Evaluation of the two tests on the bits of a byte: a text in ASCII has no continuation bytes and
  no surrogates.\<close>

lemma is_cont_code [code]: "is_cont c = (digit7 c \<and> \<not> digit6 c)"
proof (cases c)
  case (Char b0 b1 b2 b3 b4 b5 b6 b7)
  then show ?thesis
    by (cases b0; cases b1; cases b2; cases b3; cases b4; cases b5; cases b6; cases b7) (simp_all add: is_cont_def)
qed

lemma digit7_less: "\<not> digit7 c \<Longrightarrow> (of_char c :: nat) < 128"
proof (cases c)
  case (Char b0 b1 b2 b3 b4 b5 b6 b7)
  assume "\<not> digit7 c"
  then show ?thesis using Char
    by (cases b0; cases b1; cases b2; cases b3; cases b4; cases b5; cases b6) simp_all
qed

lemma ascii_code_points: "\<not> list_ex digit7 s \<Longrightarrow> code_points s = map of_char s"
proof (induction s rule: chunks.induct)
  case (2 c s)
  have "takeWhile is_cont s = []" "dropWhile is_cont s = s"
    using "2.prems" by (cases s; simp add: is_cont_code)+
  then show ?case using 2 by (simp add: code_points_def)
qed (simp add: code_points_def)

lemma has_surrogate_code [code]:
  "has_surrogate s = (list_ex digit7 s \<and> (\<exists>c \<in> set (code_points s). 55296 \<le> c \<and> c \<le> 57343))"
proof (cases "list_ex digit7 s")
  case False
  then have "\<forall>c \<in> set (code_points s). c < 128"
    by (auto simp: ascii_code_points list_ex_iff intro: digit7_less)
  then show ?thesis using False by (auto simp: has_surrogate_def)
qed (simp add: has_surrogate_def)

lemma set_strip_chunks: "set (strip_chunks cs) \<subseteq> set cs"
proof
  fix x assume "x \<in> set (strip_chunks cs)"
  then have "x \<in> set (dropWhile space_chunk (rev (dropWhile space_chunk cs)))"
    by (simp add: strip_chunks_def)
  then have "x \<in> set (dropWhile space_chunk cs)" by (auto dest: set_dropWhileD)
  then show "x \<in> set cs" by (auto dest: set_dropWhileD)
qed

lemma py_strip_Nil [simp]: "py_strip [] = []"
  by (simp add: py_strip_def strip_chunks_def)

lemma concat_chunk_list_Nil: "cs \<subseteq> set (chunks s) \<Longrightarrow> set ds \<subseteq> cs \<Longrightarrow> concat ds = [] \<longleftrightarrow> ds = []"
  using chunks_nonempty by (cases ds) auto

lemma blank_iff: "blank s \<longleftrightarrow> (\<forall>c \<in> set (chunks s). space_chunk c)"
proof -
  have "blank s \<longleftrightarrow> strip_chunks (chunks s) = []"
    unfolding blank_def py_strip_def
    using concat_chunk_list_Nil [OF subset_refl set_strip_chunks] by blast
  also have "\<dots> \<longleftrightarrow> (\<forall>c \<in> set (chunks s). space_chunk c)"
    unfolding strip_chunks_def by (auto simp: dropWhile_eq_Nil_conv dest: set_dropWhileD)
      (metis dropWhile_eq_Nil_conv hd_dropWhile hd_in_set)
  finally show ?thesis .
qed

lemma blank_Nil [simp]: "blank []"
  by (simp add: blank_def)

lemma not_blank_nonempty: "\<not> blank s \<Longrightarrow> s \<noteq> []"
  by auto

lemma trimmed_blank: "trimmed s \<Longrightarrow> s \<noteq> [] \<Longrightarrow> \<not> blank s"
  by (auto simp: trimmed_def blank_def)

lemma trimmed_Nil [simp]: "trimmed []"
  by (simp add: trimmed_def)

text \<open>A list of characters as \<open>chunks\<close> makes them, and that stripping a text twice is stripping it once.\<close>

definition chunk_list :: "string list \<Rightarrow> bool" where
  "chunk_list cs =
     ((\<forall>c \<in> set cs. c \<noteq> [] \<and> (\<forall>b \<in> set (tl c). is_cont b)) \<and> (\<forall>c \<in> set (tl cs). \<not> is_cont (hd c)))"

lemma chunk_list_Cons:
  "chunk_list (c # cs) \<longleftrightarrow>
     c \<noteq> [] \<and> (\<forall>b \<in> set (tl c). is_cont b) \<and> chunk_list cs \<and> (cs = [] \<or> \<not> is_cont (hd (hd cs)))"
  by (cases cs) (auto simp: chunk_list_def)

lemma chunk_list_drop: "chunk_list cs \<Longrightarrow> chunk_list (dropWhile p cs)"
  by (induction cs) (auto simp: chunk_list_Cons split: if_splits)

lemma chunk_list_append: "chunk_list (xs @ ys) \<Longrightarrow> chunk_list xs"
  by (induction xs) (auto simp: chunk_list_Cons split: if_splits, auto simp: chunk_list_def)

lemma chunk_list_chunks: "chunk_list (chunks s)"
proof (induction s rule: chunks.induct)
  case (2 c s)
  have "dropWhile is_cont s = [] \<or> \<not> is_cont (hd (dropWhile is_cont s))"
    using hd_dropWhile by blast
  then have "chunks (dropWhile is_cont s) = [] \<or> \<not> is_cont (hd (hd (chunks (dropWhile is_cont s))))"
    by (cases "dropWhile is_cont s") auto
  moreover have "\<forall>b \<in> set (takeWhile is_cont s). is_cont b" by (auto dest: set_takeWhileD)
  ultimately show ?case using 2 unfolding chunks.simps chunk_list_Cons by auto
qed (simp add: chunk_list_def)

lemma chunks_concat: "chunk_list cs \<Longrightarrow> chunks (concat cs) = cs"
proof (induction cs)
  case (Cons c cs)
  obtain b bs where c: "c = b # bs" "\<forall>x \<in> set bs. is_cont x" using Cons.prems by (cases c) (auto simp: chunk_list_Cons)
  have cs: "chunk_list cs" "cs = [] \<or> \<not> is_cont (hd (hd cs))" using Cons.prems by (auto simp: chunk_list_Cons)
  have first: "concat cs = [] \<or> \<not> is_cont (hd (concat cs))"
    using cs by (cases cs) (auto simp: chunk_list_Cons)
  then have "takeWhile is_cont (concat cs) = [] \<and> dropWhile is_cont (concat cs) = concat cs"
    by (cases "concat cs") (auto simp del: concat_eq_Nil_conv)
  then have "takeWhile is_cont (bs @ concat cs) = bs" "dropWhile is_cont (bs @ concat cs) = concat cs"
    using c(2) by (simp_all add: takeWhile_append2 dropWhile_append2)
  then show ?case using Cons.IH [OF cs(1)] c(1) by simp
qed simp

lemma dropWhile_suffix: "\<exists>ys. cs = ys @ dropWhile p cs"
  by (metis takeWhile_dropWhile_id)

lemma chunk_list_strip: "chunk_list cs \<Longrightarrow> chunk_list (strip_chunks cs)"
proof -
  assume "chunk_list cs"
  then have d: "chunk_list (dropWhile space_chunk cs)" by (rule chunk_list_drop)
  obtain ys where "rev (dropWhile space_chunk cs) = ys @ dropWhile space_chunk (rev (dropWhile space_chunk cs))"
    using dropWhile_suffix by blast
  then have "dropWhile space_chunk cs = strip_chunks cs @ rev ys"
    unfolding strip_chunks_def by (metis rev_append rev_rev_ident)
  then show ?thesis using d chunk_list_append by metis
qed

lemma strip_chunks_idem: "strip_chunks (strip_chunks cs) = strip_chunks cs"
proof -
  let ?d = "dropWhile space_chunk"
  have "?d (rev (?d (rev (?d cs)))) = rev (?d (rev (?d cs)))"
  proof (cases "rev (?d (rev (?d cs))) = []")
    case False
    obtain ys where "rev (?d cs) = ys @ ?d (rev (?d cs))" using dropWhile_suffix by blast
    then have "?d cs = rev (?d (rev (?d cs))) @ rev ys" by (metis rev_append rev_rev_ident)
    then have "hd (rev (?d (rev (?d cs)))) = hd (?d cs)" using False by (metis hd_append)
    moreover have "?d cs \<noteq> []" using False by force
    ultimately have "\<not> space_chunk (hd (rev (?d (rev (?d cs)))))" using hd_dropWhile by metis
    then show ?thesis using False by (cases "rev (?d (rev (?d cs)))") auto
  next
    case True
    then show ?thesis by (simp only: dropWhile.simps)
  qed
  then show ?thesis by (simp add: strip_chunks_def)
qed

lemma py_strip_idem [simp]: "py_strip (py_strip s) = py_strip s"
  by (simp add: py_strip_def chunks_concat chunk_list_strip chunk_list_chunks strip_chunks_idem)

lemma blank_strip [simp]: "blank (py_strip s) = blank s"
  by (simp add: blank_def)

lemma strip_not_blank: "\<not> blank s \<Longrightarrow> py_strip s \<noteq> []"
  by (simp add: blank_def)

subsection \<open>Joining text\<close>

fun py_join :: "string \<Rightarrow> string list \<Rightarrow> string" where
  "py_join sep [] = []"
| "py_join sep [x] = x"
| "py_join sep (x # y # xs) = x @ sep @ py_join sep (y # xs)"

text \<open>A field without the separator can be read back from the front of a joined text.\<close>

lemma split_at_separator:
  assumes "c \<notin> set x" and "c \<notin> set y" and "x @ [c] @ u = y @ [c] @ v"
  shows "x = y \<and> u = v"
  using assms
proof (induction x arbitrary: y)
  case Nil
  then show ?case by (cases y) auto
next
  case (Cons a x)
  then show ?case by (cases y) auto
qed

subsection \<open>Insertion-ordered dictionaries\<close>

text \<open>\<open>d[k] = v\<close>: an existing key keeps its position.\<close>

fun dict_put :: "'k \<Rightarrow> 'v \<Rightarrow> ('k \<times> 'v) list \<Rightarrow> ('k \<times> 'v) list" where
  "dict_put k v [] = [(k, v)]"
| "dict_put k v ((k', v') # d) = (if k' = k then (k, v) # d else (k', v') # dict_put k v d)"

lemma map_of_dict_put [simp]: "map_of (dict_put k v d) = (map_of d)(k \<mapsto> v)"
  by (induction k v d rule: dict_put.induct) (auto simp: fun_eq_iff)

lemma keys_dict_put [simp]: "fst ` set (dict_put k v d) = insert k (fst ` set d)"
  by (induction k v d rule: dict_put.induct) auto

lemma distinct_dict_put [simp]:
  "distinct (map fst (dict_put k v d)) \<longleftrightarrow> distinct (map fst d)"
  by (induction k v d rule: dict_put.induct) (auto simp: keys_dict_put)

lemma dict_put_members: "set (dict_put k v d) \<subseteq> insert (k, v) (set d)"
  by (induction k v d rule: dict_put.induct) auto

lemma snd_dict_put: "snd ` set (dict_put k v d) \<subseteq> insert v (snd ` set d)"
  by (induction k v d rule: dict_put.induct) auto

subsection \<open>Hexadecimal SHA-256 digests\<close>

definition hex_digits :: string where
  "hex_digits = ''0123456789abcdef''"

definition is_sha256 :: "string \<Rightarrow> bool" where
  "is_sha256 v = (length v = 64 \<and> (\<forall>c \<in> set v. c \<in> set hex_digits))"

end
