(* ===== verification/Fnmatch.thy ===== *)
theory Fnmatch
  imports Prelude
begin

text \<open>
  Python's \<open>fnmatch.fnmatch\<close> on POSIX, where \<open>os.path.normcase\<close> is the identity: the wildcard
  \<open>*\<close>, the single character \<open>?\<close> and bracket sets with ranges and negation. Policy and governance
  rules select capabilities with it. Matching runs over the code points of both strings.
\<close>

datatype glob =
    GStar
  | GAny
  | GLit string
  | GSet bool "(string \<times> string) list"

fun set_items :: "string list \<Rightarrow> (string \<times> string) list" where
  "set_items [] = []"
| "set_items [a] = [(a, a)]"
| "set_items [a, b] = [(a, a), (b, b)]"
| "set_items (a # b # c # rest) =
     (if b = ''-'' then (a, c) # set_items rest else (a, a) # set_items (b # c # rest))"

text \<open>The body of a bracket set: an exclamation mark negates, a closing bracket right after the
  opening is literal, and a set that is never closed is a literal opening bracket.\<close>

definition split_set :: "string list \<Rightarrow> (bool \<times> string list \<times> string list) option" where
  "split_set ps =
     (let (neg, qs) = (case ps of q # r \<Rightarrow> if q = ''!'' then (True, r) else (False, ps)
                                | [] \<Rightarrow> (False, []));
          (lead, body) = (case qs of q # r \<Rightarrow> if q = '']'' then ([q], r) else ([], qs)
                                   | [] \<Rightarrow> ([], []))
      in case dropWhile (\<lambda>c. c \<noteq> '']'') body of
           [] \<Rightarrow> None
         | _ # rest \<Rightarrow> Some (neg, lead @ takeWhile (\<lambda>c. c \<noteq> '']'') body, rest))"

lemma split_set_shorter: "split_set ps = Some (neg, items, rest) \<Longrightarrow> length rest < length ps"
proof -
  have strict: "length xs < length zs"
    if "dropWhile (\<lambda>c. c \<noteq> '']'') zs = x # xs" for x :: string and xs zs
    using length_dropWhile_le [of "\<lambda>c. c \<noteq> '']''" zs] that by simp
  assume "split_set ps = Some (neg, items, rest)"
  then show ?thesis
    unfolding split_set_def Let_def
    by (auto split: list.splits if_splits prod.splits dest!: strict)
qed

function glob_of :: "string list \<Rightarrow> glob list" where
  "glob_of [] = []"
| "glob_of (p # ps) =
     (if p = ''*'' then GStar # glob_of ps
      else if p = ''?'' then GAny # glob_of ps
      else if p = ''['' then
        (case split_set ps of
           None \<Rightarrow> GLit p # glob_of ps
         | Some (neg, items, rest) \<Rightarrow> GSet neg (set_items items) # glob_of rest)
      else GLit p # glob_of ps)"
  by pat_completeness auto
termination
  by (relation "measure length") (auto dest: split_set_shorter)

definition in_set :: "(string \<times> string) list \<Rightarrow> string \<Rightarrow> bool" where
  "in_set items c = (\<exists>(lo, hi) \<in> set items. lo \<le> c \<and> c \<le> hi)"

fun gmatch :: "glob list \<Rightarrow> string list \<Rightarrow> bool" where
  "gmatch [] s = (s = [])"
| "gmatch (GStar # g) [] = gmatch g []"
| "gmatch (GStar # g) (c # s) = (gmatch g (c # s) \<or> gmatch (GStar # g) s)"
| "gmatch (GAny # g) [] = False"
| "gmatch (GAny # g) (c # s) = gmatch g s"
| "gmatch (GLit l # g) [] = False"
| "gmatch (GLit l # g) (c # s) = (c = l \<and> gmatch g s)"
| "gmatch (GSet neg items # g) [] = False"
| "gmatch (GSet neg items # g) (c # s) = (in_set items c \<noteq> neg \<and> gmatch g s)"

definition fnmatch :: "string \<Rightarrow> string \<Rightarrow> bool" where
  "fnmatch name pat = gmatch (glob_of (chunks pat)) (chunks name)"

definition any_match :: "string \<Rightarrow> string list \<Rightarrow> bool" where
  "any_match name pats = (\<exists>p \<in> set pats. fnmatch name p)"

subsection \<open>What the patterns of the shipped configuration match\<close>

definition plain_pattern :: "string list \<Rightarrow> bool" where
  "plain_pattern ps = (\<forall>p \<in> set ps. p \<noteq> ''*'' \<and> p \<noteq> ''?'' \<and> p \<noteq> ''['')"

lemma glob_of_plain: "plain_pattern ps \<Longrightarrow> glob_of ps = map GLit ps"
  by (induction ps) (auto simp: plain_pattern_def)

lemma glob_of_plain_append: "plain_pattern ps \<Longrightarrow> glob_of (ps @ qs) = map GLit ps @ glob_of qs"
  by (induction ps) (auto simp: plain_pattern_def)

lemma gmatch_lits: "gmatch (map GLit ps @ g) s \<longleftrightarrow> (\<exists>t. s = ps @ t \<and> gmatch g t)"
proof (induction ps arbitrary: s)
  case (Cons p ps)
  then show ?case by (cases s) auto
qed simp

lemma gmatch_GStar [simp]: "gmatch [GStar] s"
  by (induction s) auto

text \<open>A pattern without wildcards names exactly one capability, and a literal followed by a star
  names exactly the capabilities it is a prefix of.\<close>

lemma fnmatch_plain: "plain_pattern (chunks pat) \<Longrightarrow> fnmatch name pat \<longleftrightarrow> name = pat"
  using gmatch_lits [of "chunks pat" "[]" "chunks name"] chunks_inj [of name pat]
  by (auto simp: fnmatch_def glob_of_plain)

lemma fnmatch_prefix_star:
  assumes "plain_pattern ps" and "chunks pat = ps @ [''*'']"
  shows "fnmatch name pat \<longleftrightarrow> prefix ps (chunks name)"
  using gmatch_lits [of ps "[GStar]" "chunks name"] assms
  by (auto simp: fnmatch_def glob_of_plain_append prefix_def)

lemma fnmatch_star [simp]: "fnmatch name ''*''"
  by (simp add: fnmatch_def is_cont_def)

lemma any_match_Nil [simp]: "\<not> any_match name []"
  by (simp add: any_match_def)

end
