(* ===== verification/Json.thy ===== *)
theory Json
  imports Prelude
begin

text \<open>
  JSON-compatible values and Python's canonical serialisation
  \<open>json.dumps(value, sort_keys=True, separators=(",", ":"), ensure_ascii=False)\<close>, the text that
  every fingerprint and signature of the runtime is computed over. A \<open>float\<close> carries whether it is
  finite and its \<open>repr\<close>; \<open>JOther\<close> is a Python value that JSON cannot hold, with its type name.
\<close>

datatype json =
    JNull
  | JBool bool
  | JInt int
  | JFloat bool string
  | JStr string
  | JList "json list"
  | JObj "(string \<times> json) list"
  | JOther string

type_synonym json_object = "(string \<times> json) list"

definition obj_get :: "json_object \<Rightarrow> string \<Rightarrow> json option" where
  "obj_get o1 k = map_of o1 k"

subsection \<open>Rendering\<close>

fun nat_digits :: "nat \<Rightarrow> string" where
  "nat_digits n =
     (if n < 10 then [char_of (48 + n)] else nat_digits (n div 10) @ [char_of (48 + n mod 10)])"

declare nat_digits.simps [simp del]

definition render_int :: "int \<Rightarrow> string" where
  "render_int i = (if i < 0 then ''-'' @ nat_digits (nat (- i)) else nat_digits (nat i))"

definition hex_char :: "nat \<Rightarrow> char" where
  "hex_char n = hex_digits ! (n mod 16)"

definition quote_char :: char where "quote_char = CHR 0x22"

definition backslash :: char where "backslash = CHR 0x5C"

definition escape_char :: "char \<Rightarrow> string" where
  "escape_char c =
     (if c = quote_char then [backslash, quote_char]
      else if c = backslash then [backslash, backslash]
      else if c = CHR 0x0A then [backslash, CHR ''n'']
      else if c = CHR 0x0D then [backslash, CHR ''r'']
      else if c = CHR 0x09 then [backslash, CHR ''t'']
      else if c = CHR 0x0C then [backslash, CHR ''f'']
      else if c = CHR 0x08 then [backslash, CHR ''b'']
      else if (of_char c :: nat) < 32
           then [backslash, CHR ''u'', CHR ''0'', CHR ''0'', hex_char (of_char c div 16),
                 hex_char (of_char c)]
      else [c])"

definition render_string :: "string \<Rightarrow> string" where
  "render_string s = [quote_char] @ concat (map escape_char s) @ [quote_char]"

fun comma_separated :: "string list \<Rightarrow> string" where
  "comma_separated [] = []"
| "comma_separated [x] = x"
| "comma_separated (x # y # xs) = x @ '','' @ comma_separated (y # xs)"

text \<open>\<open>sort_keys=True\<close> sorts the keys of every object, in the code-point order of Python.\<close>

fun stable_json :: "json \<Rightarrow> string" where
  "stable_json JNull = ''null''"
| "stable_json (JBool b) = (if b then ''true'' else ''false'')"
| "stable_json (JInt i) = render_int i"
| "stable_json (JFloat fin r) = r"
| "stable_json (JStr s) = render_string s"
| "stable_json (JList xs) = ''['' @ comma_separated (map stable_json xs) @ '']''"
| "stable_json (JObj kvs) =
     ''{'' @ comma_separated
        (map (\<lambda>(k, v). render_string k @ '':'' @ v)
          (sort_key fst (map (\<lambda>(k, v). (k, stable_json v)) kvs))) @ ''}''"
| "stable_json (JOther t) = t"

text \<open>\<open>sort_keys\<close> on the value itself: the object a stored JSON text denotes.\<close>

fun sort_keys :: "json \<Rightarrow> json" where
  "sort_keys (JList xs) = JList (map sort_keys xs)"
| "sort_keys (JObj kvs) = JObj (sort_key fst (map (\<lambda>kv. (fst kv, sort_keys (snd kv))) kvs))"
| "sort_keys j = j"

definition on_snd :: "('b \<Rightarrow> 'c) \<Rightarrow> 'a \<times> 'b \<Rightarrow> 'a \<times> 'c" where
  "on_snd f = (\<lambda>kv. (fst kv, f (snd kv)))"

lemma insort_key_on_snd:
  "insort_key fst (on_snd f kv) (map (on_snd f) xs) = map (on_snd f) (insort_key fst kv xs)"
  by (induction xs) (auto simp: on_snd_def)

lemma sort_key_on_snd: "sort_key fst (map (on_snd f) kvs) = map (on_snd f) (sort_key fst kvs)"
  by (induction kvs) (auto simp: insort_key_on_snd)

lemma sort_keys_JObj: "sort_keys (JObj kvs) = JObj (map (on_snd sort_keys) (sort_key fst kvs))"
  using sort_key_on_snd [of sort_keys kvs] by (simp add: on_snd_def)

lemma insort_key_sorted_id: "sorted (map f (x # xs)) \<Longrightarrow> insort_key f x xs = x # xs"
  by (cases xs) auto

lemma sort_key_sorted_id: "sorted (map f xs) \<Longrightarrow> sort_key f xs = xs"
proof (induction xs)
  case (Cons x xs)
  then have "sort_key f xs = xs" by simp
  with Cons.prems show ?case by (simp add: insort_key_sorted_id)
qed simp

lemma sort_key_idem [simp]: "sort_key f (sort_key f xs) = sort_key f xs"
  by (rule sort_key_sorted_id) (rule sorted_sort_key)

lemma sort_keys_idem: "sort_keys (sort_keys j) = sort_keys j"
proof (induction j)
  case (JObj kvs)
  have same: "map (on_snd sort_keys) (map (on_snd sort_keys) (sort_key fst kvs)) =
              map (on_snd sort_keys) (sort_key fst kvs)"
    using JObj by (auto simp: on_snd_def)
  show ?case
    by (simp only: sort_keys_JObj sort_key_on_snd sort_key_idem same)
qed auto

end
