(* ===== verification/Errors.thy ===== *)
theory Errors
  imports Prelude
begin

text \<open>
  The exception classes of \<open>errors.py\<close>, work_memory.py, advisory.py and advisory_budget.py with the built-in classes the runtime catches. An
  \<open>except\<close> clause is a membership test in the method resolution order of the raised class.
\<close>

datatype exn_class =
    MasterAgentError | StructuredDataTypeError | ValidationError | ConfigurationError
  | PolicyDeniedError | ApprovalRequiredError | ConnectorError | PreEffectError
  | UnsupportedCapabilityError | AuthenticationError | AuthorizationError
  | ResourceNotFoundError | RateLimitError | HttpRequestError | ConnectorHttpError
  | NetworkDnsError | NetworkTlsError | NetworkTimeoutError | ProxyAuthenticationError
  | VersionConflictError | VerificationError | WorkMemoryError | AdvisoryBudgetStateError
  | AdvisoryError | ProfileValidationError | AdvisoryDispatchDenied | AdvisoryPayloadRejected
  | AdvisoryReportRejected
  | KeyError | OSError | OverflowError | RuntimeError | TypeError | ValueError | SqliteError
  | BaseException

datatype exn = Exn (exn_kind: exn_class) (exn_text: string)

fun bases :: "exn_class \<Rightarrow> exn_class list" where
  "bases StructuredDataTypeError = [TypeError, ValueError]"
| "bases ValidationError = [MasterAgentError]"
| "bases ConfigurationError = [MasterAgentError]"
| "bases PolicyDeniedError = [MasterAgentError]"
| "bases ApprovalRequiredError = [MasterAgentError]"
| "bases ConnectorError = [MasterAgentError]"
| "bases PreEffectError = [ConnectorError]"
| "bases UnsupportedCapabilityError = [ConnectorError]"
| "bases AuthenticationError = [ConnectorError]"
| "bases AuthorizationError = [ConnectorError]"
| "bases ResourceNotFoundError = [ConnectorError]"
| "bases RateLimitError = [ConnectorError]"
| "bases HttpRequestError = [ConnectorError]"
| "bases ConnectorHttpError = [HttpRequestError]"
| "bases NetworkDnsError = [ConnectorHttpError]"
| "bases NetworkTlsError = [ConnectorHttpError]"
| "bases NetworkTimeoutError = [ConnectorHttpError]"
| "bases ProxyAuthenticationError = [AuthenticationError]"
| "bases VersionConflictError = [ConnectorError]"
| "bases VerificationError = [MasterAgentError]"
| "bases WorkMemoryError = [RuntimeError]"
| "bases AdvisoryBudgetStateError = [RuntimeError]"
| "bases AdvisoryError = [ValueError]"
| "bases ProfileValidationError = [AdvisoryError]"
| "bases AdvisoryDispatchDenied = [AdvisoryError]"
| "bases AdvisoryPayloadRejected = [AdvisoryError]"
| "bases AdvisoryReportRejected = [AdvisoryError]"
| "bases BaseException = []"
| "bases _ = [BaseException]"

fun class_rank :: "exn_class \<Rightarrow> nat" where
  "class_rank BaseException = 0"
| "class_rank StructuredDataTypeError = 2"
| "class_rank ValidationError = 2"
| "class_rank ConfigurationError = 2"
| "class_rank PolicyDeniedError = 2"
| "class_rank ApprovalRequiredError = 2"
| "class_rank VerificationError = 2"
| "class_rank ConnectorError = 2"
| "class_rank PreEffectError = 3"
| "class_rank UnsupportedCapabilityError = 3"
| "class_rank AuthenticationError = 3"
| "class_rank AuthorizationError = 3"
| "class_rank ResourceNotFoundError = 3"
| "class_rank RateLimitError = 3"
| "class_rank HttpRequestError = 3"
| "class_rank VersionConflictError = 3"
| "class_rank WorkMemoryError = 2"
| "class_rank AdvisoryError = 2"
| "class_rank ProfileValidationError = 3"
| "class_rank AdvisoryDispatchDenied = 3"
| "class_rank AdvisoryPayloadRejected = 3"
| "class_rank AdvisoryReportRejected = 3"
| "class_rank AdvisoryBudgetStateError = 2"
| "class_rank ConnectorHttpError = 4"
| "class_rank ProxyAuthenticationError = 4"
| "class_rank NetworkDnsError = 5"
| "class_rank NetworkTlsError = 5"
| "class_rank NetworkTimeoutError = 5"
| "class_rank _ = 1"

lemma bases_rank: "b \<in> set (bases c) \<Longrightarrow> class_rank b < class_rank c"
  by (cases c) auto

function mro :: "exn_class \<Rightarrow> exn_class list" where
  "mro c = c # concat (map mro (bases c))"
  by pat_completeness auto
termination
  by (relation "measure class_rank") (auto intro: bases_rank)

declare mro.simps [simp del]

definition caught_by :: "exn_class list \<Rightarrow> exn \<Rightarrow> bool" where
  "caught_by handlers e = (\<exists>h \<in> set handlers. h \<in> set (mro (exn_kind e)))"

lemma mro_self [simp]: "c \<in> set (mro c)"
  by (subst mro.simps) simp

lemma mro_base: "b \<in> set (bases c) \<Longrightarrow> d \<in> set (mro b) \<Longrightarrow> d \<in> set (mro c)"
  by (subst mro.simps) auto

lemma connector_errors_are_runtime_errors:
  assumes "ConnectorError \<in> set (mro c)"
  shows "MasterAgentError \<in> set (mro c)"
  using assms
proof (induction c rule: mro.induct)
  case (1 c)
  show ?case
  proof (cases "c = ConnectorError")
    case True
    then show ?thesis by (simp add: mro.simps)
  next
    case False
    with "1.prems" obtain b where "b \<in> set (bases c)" and "ConnectorError \<in> set (mro b)"
      by (subst (asm) mro.simps) auto
    then show ?thesis using "1.IH" mro_base by blast
  qed
qed

end
