(* ===== verification/Host.thy ===== *)
theory Host
  imports Json Errors
begin

text \<open>
  What the runtime takes from its Python host. The cryptographic primitives, Unicode
  normalisation, the splitting of URLs, the search of a regular expression (the span of the first
  match) and the text formats of \<open>datetime\<close>, \<open>UUID\<close> and \<open>str.__repr__\<close> are fields of a
  record that the definitions take as an argument; the documented laws the proofs need of them are
  \<open>host_laws\<close>. The rest of the theory is the small vocabulary with which every \<open>from_dict\<close> of the
  sources reads a decoded JSON object.
\<close>

text \<open>A \<open>datetime\<close>: its wall clock reading in microseconds and its UTC offset, absent when the value
  is naive.\<close>

record py_datetime =
  dt_wall :: int
  dt_offset :: "int option"

text \<open>A split URL. Reading the port of a URL whose port text is not a number raises; that is the outer
  \<open>None\<close> of \<open>url_port\<close>.\<close>

record url_parts =
  url_scheme :: string
  url_netloc :: string
  url_hostname :: "string option"
  url_username :: "string option"
  url_password :: "string option"
  url_path :: string
  url_query :: string
  url_fragment :: string
  url_port :: "int option option"

record host =
  h_sha256 :: "string \<Rightarrow> digest"
  h_hmac :: "string \<Rightarrow> string \<Rightarrow> digest"
  h_casefold :: "string \<Rightarrow> string"
  h_nfc :: "string \<Rightarrow> string"
  h_nfkc :: "string \<Rightarrow> string"
  h_repr :: "string \<Rightarrow> string"
  h_isoformat :: "py_datetime \<Rightarrow> string"
  h_fromisoformat :: "string \<Rightarrow> py_datetime option"
  h_uuid :: "string \<Rightarrow> uuid option"
  h_urlsplit :: "string \<Rightarrow> url_parts option"
  h_int :: "string \<Rightarrow> int option"
  h_trunc :: "string \<Rightarrow> int"
  h_lower :: "string \<Rightarrow> string"
  h_isprintable :: "string \<Rightarrow> bool"
  h_word :: "nat \<Rightarrow> bool"
  h_urlunsplit :: "string \<Rightarrow> string \<Rightarrow> string \<Rightarrow> string"
  h_search :: "string \<Rightarrow> string \<Rightarrow> (nat \<times> nat) option"

text \<open>The canonical text of a UUID is 32 lower-case hexadecimal digits in five groups.\<close>

definition canonical_uuid :: "string \<Rightarrow> bool" where
  "canonical_uuid u =
     (length u = 36 \<and> u ! 8 = CHR ''-'' \<and> u ! 13 = CHR ''-'' \<and> u ! 18 = CHR ''-''
      \<and> u ! 23 = CHR ''-''
      \<and> (\<forall>i < 36. i = 8 \<or> i = 13 \<or> i = 18 \<or> i = 23 \<or> u ! i \<in> set hex_digits))"

definition host_laws :: "host \<Rightarrow> bool" where
  "host_laws h =
     ((\<forall>m. is_sha256 (h_sha256 h m))
      \<and> (\<forall>u. canonical_uuid u \<longrightarrow> h_uuid h u = Some u)
      \<and> (\<forall>d. h_fromisoformat h (h_isoformat h d) = Some d))"

lemma host_lawsD:
  assumes "host_laws h"
  shows "is_sha256 (h_sha256 h m)" and "canonical_uuid u \<Longrightarrow> h_uuid h u = Some u"
    and "h_fromisoformat h (h_isoformat h d) = Some d"
  using assms by (simp_all add: host_laws_def)

subsection \<open>Instants\<close>

definition aware :: "py_datetime \<Rightarrow> bool" where
  "aware d = (dt_offset d \<noteq> None)"

definition instant_of :: "py_datetime \<Rightarrow> instant" where
  "instant_of d = dt_wall d - (case dt_offset d of Some o1 \<Rightarrow> o1 | None \<Rightarrow> 0)"

subsection \<open>Reading decoded JSON\<close>

fun py_repr :: "(string \<Rightarrow> string) \<Rightarrow> json \<Rightarrow> string" where
  "py_repr rs JNull = ''None''"
| "py_repr rs (JBool b) = (if b then ''True'' else ''False'')"
| "py_repr rs (JInt i) = render_int i"
| "py_repr rs (JFloat fin r) = r"
| "py_repr rs (JStr s) = rs s"
| "py_repr rs (JList xs) = ''['' @ py_join '', '' (map (py_repr rs) xs) @ '']''"
| "py_repr rs (JObj kvs) =
     ''{'' @ py_join '', '' (map (\<lambda>kv. rs (fst kv) @ '': '' @ py_repr rs (snd kv)) kvs) @ ''}''"
| "py_repr rs (JOther t) = t"

definition py_str :: "host \<Rightarrow> json \<Rightarrow> string" where
  "py_str h j = (case j of JStr s \<Rightarrow> s | _ \<Rightarrow> py_repr (h_repr h) j)"

abbreviation invalid :: "string \<Rightarrow> exn" where
  "invalid m \<equiv> Exn ValidationError m"

text \<open>\<open>str(data.get(k, default))\<close>, \<open>str(data[k])\<close> and
  \<open>str(data[k]) if data.get(k) is not None else None\<close>.\<close>

definition get_str :: "host \<Rightarrow> json_object \<Rightarrow> string \<Rightarrow> string \<Rightarrow> string" where
  "get_str h data k d = (case obj_get data k of None \<Rightarrow> d | Some j \<Rightarrow> py_str h j)"

definition need :: "json_object \<Rightarrow> string \<Rightarrow> exn + json" where
  "need data k = (case obj_get data k of None \<Rightarrow> Inl (Exn KeyError k) | Some j \<Rightarrow> Inr j)"

definition need_str :: "host \<Rightarrow> json_object \<Rightarrow> string \<Rightarrow> exn + string" where
  "need_str h data k = sbind (need data k) (\<lambda>j. Inr (py_str h j))"

definition present :: "json_object \<Rightarrow> string \<Rightarrow> bool" where
  "present data k = (obj_get data k \<noteq> None \<and> obj_get data k \<noteq> Some JNull)"

definition opt_str :: "host \<Rightarrow> json_object \<Rightarrow> string \<Rightarrow> string option" where
  "opt_str h data k =
     (case obj_get data k of
        None \<Rightarrow> None
      | Some j \<Rightarrow> (case j of JNull \<Rightarrow> None | _ \<Rightarrow> Some (py_str h j)))"

definition strict_bool :: "json option \<Rightarrow> string \<Rightarrow> exn + bool" where
  "strict_bool v name =
     (case v of Some (JBool b) \<Rightarrow> Inr b | _ \<Rightarrow> Inl (invalid (name @ '' must be a boolean'')))"

definition strict_int :: "json option \<Rightarrow> string \<Rightarrow> exn + int" where
  "strict_int v name =
     (case v of Some (JInt i) \<Rightarrow> Inr i | _ \<Rightarrow> Inl (invalid (name @ '' must be an integer'')))"

definition expect_mapping :: "json_object \<Rightarrow> string \<Rightarrow> exn + json_object" where
  "expect_mapping data k =
     (case obj_get data k of
        Some (JObj kvs) \<Rightarrow> Inr kvs
      | _ \<Rightarrow> Inl (invalid (k @ '' must be an object'')))"

fun json_strings :: "json list \<Rightarrow> string list option" where
  "json_strings [] = Some []"
| "json_strings (JStr s # js) = map_option (Cons s) (json_strings js)"
| "json_strings _ = None"

fun json_objects :: "json list \<Rightarrow> json_object list option" where
  "json_objects [] = Some []"
| "json_objects (JObj kvs # js) = map_option (Cons kvs) (json_objects js)"
| "json_objects _ = None"

text \<open>A list of strings, and a list of objects, from the value of a key.\<close>

definition string_list :: "json option \<Rightarrow> exn \<Rightarrow> exn + string list" where
  "string_list v e =
     (case v of
        Some (JList js) \<Rightarrow> (case json_strings js of Some ss \<Rightarrow> Inr ss | None \<Rightarrow> Inl e)
      | _ \<Rightarrow> Inl e)"

definition object_list :: "json option \<Rightarrow> exn \<Rightarrow> exn + json_object list" where
  "object_list v e =
     (case v of
        Some (JList js) \<Rightarrow> (case json_objects js of Some os \<Rightarrow> Inr os | None \<Rightarrow> Inl e)
      | _ \<Rightarrow> Inl e)"

definition parse_uuid :: "host \<Rightarrow> string \<Rightarrow> exn + uuid" where
  "parse_uuid h s =
     (case h_uuid h s of
        Some u \<Rightarrow> Inr u
      | None \<Rightarrow> Inl (Exn ValueError ''badly formed hexadecimal UUID string''))"

definition parse_datetime :: "host \<Rightarrow> string \<Rightarrow> exn + py_datetime" where
  "parse_datetime h s =
     (case h_fromisoformat h s of
        Some d \<Rightarrow> Inr d
      | None \<Rightarrow> Inl (Exn ValueError ''Invalid isoformat string''))"

text \<open>\<open>int(value)\<close>; the host reads the text of a string and truncates a float given by its \<open>repr\<close>.\<close>

definition py_int :: "host \<Rightarrow> json \<Rightarrow> exn + int" where
  "py_int h j =
     (case j of
        JInt i \<Rightarrow> Inr i
      | JBool b \<Rightarrow> Inr (if b then 1 else 0)
      | JFloat fin r \<Rightarrow>
          if fin then Inr (h_trunc h r) else Inl (Exn OverflowError ''cannot convert float to integer'')
      | JStr s \<Rightarrow> (case h_int h s of
            Some i \<Rightarrow> Inr i
          | None \<Rightarrow> Inl (Exn ValueError ''invalid literal for int()''))
      | _ \<Rightarrow> Inl (Exn TypeError ''int() argument must be a string or a number''))"

text \<open>\<open>Enum(text)\<close>: the member with that value, a \<open>ValueError\<close> otherwise.\<close>

definition parse_enum :: "(string \<times> 'a) list \<Rightarrow> string \<Rightarrow> exn + 'a" where
  "parse_enum members s =
     (case map_of members s of
        Some v \<Rightarrow> Inr v
      | None \<Rightarrow> Inl (Exn ValueError (s @ '' is not a valid member'')))"

text \<open>\<open>json == n\<close> for an integer \<open>n\<close>: booleans and integral floats compare equal to integers.\<close>

definition equals_int :: "json option \<Rightarrow> int \<Rightarrow> bool" where
  "equals_int v n =
     (case v of
        Some (JInt i) \<Rightarrow> i = n
      | Some (JBool b) \<Rightarrow> n = (if b then 1 else 0)
      | Some (JFloat fin r) \<Rightarrow> r = render_int n @ ''.0'' \<or> n = 0 \<and> r = ''-0.0''
      | _ \<Rightarrow> False)"

definition optional :: "('a \<Rightarrow> json) \<Rightarrow> 'a option \<Rightarrow> json" where
  "optional f v = (case v of None \<Rightarrow> JNull | Some x \<Rightarrow> f x)"

definition strings :: "string list \<Rightarrow> json" where
  "strings ss = JList (map JStr ss)"

definition stable_sha256 :: "host \<Rightarrow> json \<Rightarrow> digest" where
  "stable_sha256 h j = h_sha256 h (stable_json j)"

named_theorems decode_simps \<open>reading a serialised object back\<close>
named_theorems record_eta \<open>a record is the record of its fields\<close>

lemma obj_get_simps [decode_simps]:
  "obj_get [] k = None"
  "obj_get ((k', v) # o1) k = (if k' = k then Some v else obj_get o1 k)"
  by (auto simp: obj_get_def)

lemma obj_get_append [decode_simps]:
  "obj_get (o1 @ o2) k = (case obj_get o1 k of Some v \<Rightarrow> Some v | None \<Rightarrow> obj_get o2 k)"
  by (auto simp: obj_get_def map_add_def split: option.splits)

lemma py_str_JStr [simp]: "py_str h (JStr s) = s"
  by (simp add: py_str_def)

lemma json_strings_JStr [simp]: "json_strings (map JStr ss) = Some ss"
  by (induction ss) auto

lemma json_objects_JObj [simp]: "json_objects (map (\<lambda>x. JObj (f x)) xs) = Some (map f xs)"
  by (induction xs) auto

lemma string_list_strings [decode_simps]: "string_list (Some (strings ss)) e = Inr ss"
  by (simp add: string_list_def strings_def)

lemma object_list_JObj [decode_simps]:
  "object_list (Some (JList (map (\<lambda>x. JObj (f x)) xs))) e = Inr (map f xs)"
  by (simp add: object_list_def)

lemma strict_JBool [decode_simps]: "strict_bool (Some (JBool b)) name = Inr b"
  by (simp add: strict_bool_def)

lemma strict_JInt [decode_simps]: "strict_int (Some (JInt i)) name = Inr i"
  by (simp add: strict_int_def)

lemma equals_int_JInt [decode_simps]: "equals_int (Some (JInt i)) n \<longleftrightarrow> i = n"
  by (simp add: equals_int_def)

lemmas decode_defs = get_str_def need_def need_str_def opt_str_def expect_mapping_def present_def
  parse_uuid_def parse_datetime_def optional_def

lemma smap_map_Inr:
  "(\<And>x. x \<in> set xs \<Longrightarrow> f (g x) = Inr x) \<Longrightarrow> smap f (map g xs) = Inr xs"
  by (induction xs) auto

lemma smap_Inr_iff: "smap f xs = Inr ys \<longleftrightarrow> list_all2 (\<lambda>x y. f x = Inr y) xs ys"
proof (induction xs arbitrary: ys)
  case (Cons x xs)
  then show ?case by (cases ys) (auto simp: sbind_Inr)
qed (auto simp: list_all2_Nil)

lemma smap_member: "smap f xs = Inr ys \<Longrightarrow> y \<in> set ys \<Longrightarrow> \<exists>x \<in> set xs. f x = Inr y"
  by (induction xs arbitrary: ys) (auto simp: sbind_Inr)

lemma parse_enum_Inr: "parse_enum ms s = Inr v \<longleftrightarrow> map_of ms s = Some v"
  by (auto simp: parse_enum_def split: option.splits)

subsection \<open>Serialised classes\<close>

text \<open>A class whose \<open>from_dict\<close> reads back what \<open>to_dict\<close> writes. Its instances can be told apart
  by what they serialise to, alone and in a list.\<close>

locale codec =
  fixes valid :: "'a \<Rightarrow> bool"
    and to_dict :: "'a \<Rightarrow> json_object"
    and from_dict :: "json_object \<Rightarrow> exn + 'a"
  assumes reads_back: "valid x \<Longrightarrow> from_dict (to_dict x) = Inr x"
begin

lemma to_dict_inj: "valid x \<Longrightarrow> valid y \<Longrightarrow> to_dict x = to_dict y \<Longrightarrow> x = y"
  by (metis reads_back sum.inject(2))

lemma list_reads_back: "(\<And>x. x \<in> set xs \<Longrightarrow> valid x) \<Longrightarrow> smap from_dict (map to_dict xs) = Inr xs"
  by (rule smap_map_Inr) (simp add: reads_back)

end

end
