(* ===== verification/Resource_Limits.thy ===== *)
theory Resource_Limits
  imports Json Errors
begin

text \<open>
  The resource budgets of \<open>resource_limits.py\<close>: the iterative walk \<open>measure_json_resources\<close> over a
  JSON-compatible value, with its node, depth, fan-out, string and byte limits, and the bound on
  the decimal length of an integer. A value of the model is a finite tree whose object keys are
  strings, so the checks for reference cycles and non-string keys have nothing to reject; the
  markers that leave a container on the work stack only serve the former and are left out.
\<close>

definition MAX_PLAN_BYTES :: int where "MAX_PLAN_BYTES = 8 * 1024 * 1024"
definition MAX_PLAN_ACTIONS :: nat where "MAX_PLAN_ACTIONS = 256"
definition MAX_ACTION_DEPENDENCIES :: nat where "MAX_ACTION_DEPENDENCIES = 256"
definition MAX_JSON_DEPTH :: nat where "MAX_JSON_DEPTH = 32"
definition MAX_JSON_COLLECTION_ITEMS :: nat where "MAX_JSON_COLLECTION_ITEMS = 1024"
definition MAX_JSON_NODES :: nat where "MAX_JSON_NODES = 65536"
definition MAX_JSON_STRING_CHARACTERS :: nat where "MAX_JSON_STRING_CHARACTERS = 1048576"
definition MAX_ACTION_PARAMETER_BYTES :: int where "MAX_ACTION_PARAMETER_BYTES = 4 * 1024 * 1024"
definition MAX_PLAN_PARAMETER_BYTES :: int where "MAX_PLAN_PARAMETER_BYTES = 8 * 1024 * 1024"

lemmas resource_limit_defs = MAX_PLAN_BYTES_def MAX_PLAN_ACTIONS_def MAX_ACTION_DEPENDENCIES_def
  MAX_JSON_DEPTH_def MAX_JSON_COLLECTION_ITEMS_def MAX_JSON_NODES_def
  MAX_JSON_STRING_CHARACTERS_def MAX_ACTION_PARAMETER_BYTES_def MAX_PLAN_PARAMETER_BYTES_def

record json_usage =
  usage_nodes :: nat
  usage_scalar_bytes :: int
  usage_maximum_depth :: nat

subsection \<open>Scalars\<close>

definition bounded_string_bytes :: "string \<Rightarrow> exn + int" where
  "bounded_string_bytes s =
     (if py_len s > MAX_JSON_STRING_CHARACTERS
      then Inl (Exn ValidationError ''string exceeds the character limit'')
      else case utf8_length s of
        None \<Rightarrow> Inl (Exn ValidationError ''contains invalid Unicode'')
      | Some n \<Rightarrow> Inr (int n))"

definition validate_bounded_string :: "string \<Rightarrow> exn option" where
  "validate_bounded_string s = (case bounded_string_bytes s of Inl e \<Rightarrow> Some e | Inr _ \<Rightarrow> None)"

fun bit_length :: "nat \<Rightarrow> nat" where
  "bit_length n = (if n = 0 then 0 else Suc (bit_length (n div 2)))"

declare bit_length.simps [simp del]

definition integer_characters :: "int \<Rightarrow> int" where
  "integer_characters value =
     (if value = 0 then 1
      else (int (bit_length (nat \<bar>value\<bar>)) * 30103 + 99999) div 100000
             + (if value < 0 then 1 else 0))"

subsection \<open>The walk\<close>

fun add_keys :: "int \<Rightarrow> json_object \<Rightarrow> exn + int" where
  "add_keys bytes [] = Inr bytes"
| "add_keys bytes ((k, v) # kvs) =
     sbind (bounded_string_bytes k) (\<lambda>n. add_keys (bytes + n) kvs)"

text \<open>One node: the bytes it adds to the running total and the children it pushes.\<close>

definition measure_node :: "json \<Rightarrow> int \<Rightarrow> exn + int \<times> json list" where
  "measure_node current bytes =
     (case current of
        JObj kvs \<Rightarrow>
          if length kvs > MAX_JSON_COLLECTION_ITEMS
          then Inl (Exn ValidationError ''object exceeds the item limit'')
          else sbind (add_keys bytes kvs) (\<lambda>b. Inr (b, map snd kvs))
      | JList xs \<Rightarrow>
          if length xs > MAX_JSON_COLLECTION_ITEMS
          then Inl (Exn ValidationError ''array exceeds the item limit'')
          else Inr (bytes, xs)
      | JStr s \<Rightarrow> sbind (bounded_string_bytes s) (\<lambda>n. Inr (bytes + n, []))
      | JNull \<Rightarrow> Inr (bytes + 4, [])
      | JBool b \<Rightarrow> Inr (bytes + (if b then 4 else 5), [])
      | JInt i \<Rightarrow> Inr (bytes + integer_characters i, [])
      | JFloat finite_value r \<Rightarrow>
          if finite_value then Inr (bytes + 24, [])
          else Inl (Exn ValidationError ''contains a non-finite number'')
      | JOther t \<Rightarrow> Inl (Exn ValidationError ''contains a non-JSON-compatible value''))"

text \<open>The loop over the work stack. Every iteration counts a node before anything else, so the node
  limit bounds the number of iterations.\<close>

function measure_walk ::
  "int \<Rightarrow> (json \<times> nat) list \<Rightarrow> nat \<Rightarrow> int \<Rightarrow> nat \<Rightarrow> exn + json_usage"
where
  "measure_walk max_bytes [] visited bytes deepest =
     Inr \<lparr>usage_nodes = visited, usage_scalar_bytes = bytes, usage_maximum_depth = deepest\<rparr>"
| "measure_walk max_bytes ((current, depth) # stack) visited bytes deepest =
     (if visited + 1 > MAX_JSON_NODES
      then Inl (Exn ValidationError ''exceeds the node limit'')
      else if depth > MAX_JSON_DEPTH
      then Inl (Exn ValidationError ''exceeds the nesting limit'')
      else case measure_node current bytes of
        Inl e \<Rightarrow> Inl e
      | Inr (bytes', children) \<Rightarrow>
          if bytes' > max_bytes then Inl (Exn ValidationError ''exceeds the content limit'')
          else measure_walk max_bytes (map (\<lambda>c. (c, depth + 1)) children @ stack)
                 (visited + 1) bytes' (max deepest depth))"
  by pat_completeness auto
termination
  by (relation "measure (\<lambda>(_, _, visited, _, _). MAX_JSON_NODES - visited)") auto

definition measure_json_resources :: "json \<Rightarrow> int \<Rightarrow> exn + json_usage" where
  "measure_json_resources v max_bytes = measure_walk max_bytes [(v, 1)] 0 0 0"

subsection \<open>What the walk measures\<close>

text \<open>The same quantities by recursion on the value.\<close>

fun json_nodes :: "json \<Rightarrow> nat" where
  "json_nodes (JList xs) = Suc (sum_list (map json_nodes xs))"
| "json_nodes (JObj kvs) = Suc (sum_list (map (\<lambda>kv. json_nodes (snd kv)) kvs))"
| "json_nodes _ = 1"

fun json_depth :: "json \<Rightarrow> nat" where
  "json_depth (JList xs) = Suc (fold max (map json_depth xs) 0)"
| "json_depth (JObj kvs) = Suc (fold max (map (\<lambda>kv. json_depth (snd kv)) kvs) 0)"
| "json_depth _ = 1"

fun json_scalar_bytes :: "json \<Rightarrow> int" where
  "json_scalar_bytes JNull = 4"
| "json_scalar_bytes (JBool b) = (if b then 4 else 5)"
| "json_scalar_bytes (JInt i) = integer_characters i"
| "json_scalar_bytes (JFloat fin r) = 24"
| "json_scalar_bytes (JStr s) = int (length s)"
| "json_scalar_bytes (JList xs) = sum_list (map json_scalar_bytes xs)"
| "json_scalar_bytes (JObj kvs) =
     sum_list (map (\<lambda>kv. int (length (fst kv)) + json_scalar_bytes (snd kv)) kvs)"
| "json_scalar_bytes (JOther t) = 0"

definition bounded_text :: "string \<Rightarrow> bool" where
  "bounded_text s = (py_len s \<le> MAX_JSON_STRING_CHARACTERS \<and> \<not> has_surrogate s)"

fun admissible_json :: "json \<Rightarrow> bool" where
  "admissible_json (JFloat fin r) = fin"
| "admissible_json (JStr s) = bounded_text s"
| "admissible_json (JList xs) =
     (length xs \<le> MAX_JSON_COLLECTION_ITEMS \<and> (\<forall>x \<in> set xs. admissible_json x))"
| "admissible_json (JObj kvs) =
     (length kvs \<le> MAX_JSON_COLLECTION_ITEMS
      \<and> (\<forall>kv \<in> set kvs. bounded_text (fst kv) \<and> admissible_json (snd kv)))"
| "admissible_json (JOther t) = False"
| "admissible_json _ = True"

text \<open>The contribution of a node apart from its children, and its children.\<close>

fun own_bytes :: "json \<Rightarrow> int" where
  "own_bytes (JList xs) = 0"
| "own_bytes (JObj kvs) = sum_list (map (\<lambda>kv. int (length (fst kv))) kvs)"
| "own_bytes j = json_scalar_bytes j"

fun own_ok :: "json \<Rightarrow> bool" where
  "own_ok (JList xs) = (length xs \<le> MAX_JSON_COLLECTION_ITEMS)"
| "own_ok (JObj kvs) =
     (length kvs \<le> MAX_JSON_COLLECTION_ITEMS \<and> (\<forall>kv \<in> set kvs. bounded_text (fst kv)))"
| "own_ok j = admissible_json j"

fun json_children :: "json \<Rightarrow> json list" where
  "json_children (JList xs) = xs"
| "json_children (JObj kvs) = map snd kvs"
| "json_children j = []"

lemma bounded_string_bytes_Inr:
  "bounded_string_bytes s = Inr n \<longleftrightarrow> bounded_text s \<and> n = int (length s)"
  by (auto simp: bounded_string_bytes_def bounded_text_def utf8_length_def not_le)

lemma add_keys_Inr:
  "add_keys b kvs = Inr b' \<longleftrightarrow>
     (\<forall>kv \<in> set kvs. bounded_text (fst kv)) \<and> b' = b + sum_list (map (\<lambda>kv. int (length (fst kv))) kvs)"
  by (induction b kvs rule: add_keys.induct) (auto simp: sbind_Inr bounded_string_bytes_Inr)

lemma measure_node_Inr:
  "measure_node j b = Inr (b', cs) \<longleftrightarrow> own_ok j \<and> b' = b + own_bytes j \<and> cs = json_children j"
  by (cases j) (auto simp: measure_node_def sbind_Inr add_keys_Inr bounded_string_bytes_Inr not_le)

lemma measure_node_cases:
  "measure_node j b = (if own_ok j then Inr (b + own_bytes j, json_children j)
                       else Inl (projl (measure_node j b)))"
proof (cases "measure_node j b")
  case (Inl e)
  then show ?thesis using measure_node_Inr [of j b] by auto
next
  case (Inr x)
  then show ?thesis using measure_node_Inr [of j b "fst x" "snd x"] by (cases x) auto
qed

lemma integer_characters_nonneg: "0 \<le> integer_characters i"
  by (simp add: integer_characters_def)

lemma own_bytes_nonneg: "0 \<le> own_bytes j"
  by (cases j) (auto simp: integer_characters_nonneg intro!: sum_list_nonneg)

lemma nodes_unfold: "json_nodes j = Suc (sum_list (map json_nodes (json_children j)))"
  by (cases j) (simp_all add: o_def)

lemma depth_unfold: "json_depth j = Suc (fold max (map json_depth (json_children j)) 0)"
  by (cases j) (simp_all add: o_def)

lemma bytes_unfold: "json_scalar_bytes j = own_bytes j + sum_list (map json_scalar_bytes (json_children j))"
  by (cases j) (simp_all add: o_def sum_list_addf)

lemma admissible_unfold: "admissible_json j \<longleftrightarrow> own_ok j \<and> (\<forall>c \<in> set (json_children j). admissible_json c)"
  by (cases j) auto

lemma json_scalar_bytes_nonneg: "0 \<le> json_scalar_bytes j"
proof (induction j)
  case (JList xs)
  then show ?case by (auto intro!: sum_list_nonneg)
next
  case (JObj kvs)
  have "0 \<le> int (length (fst kv)) + json_scalar_bytes (snd kv)" if "kv \<in> set kvs" for kv
    using JObj [of kv "snd kv"] that by (cases kv) auto
  then show ?case by (auto intro!: sum_list_nonneg)
qed (simp_all add: integer_characters_nonneg)

text \<open>The quantities over a whole work stack, whose entries carry the depth they sit at.\<close>

definition stack_nodes :: "(json \<times> nat) list \<Rightarrow> nat" where
  "stack_nodes stack = sum_list (map (\<lambda>(j, d). json_nodes j) stack)"

definition stack_bytes :: "(json \<times> nat) list \<Rightarrow> int" where
  "stack_bytes stack = sum_list (map (\<lambda>(j, d). json_scalar_bytes j) stack)"

definition stack_depth :: "(json \<times> nat) list \<Rightarrow> nat" where
  "stack_depth stack = fold max (map (\<lambda>(j, d). json_depth j + d - 1) stack) 0"

definition stack_ok :: "(json \<times> nat) list \<Rightarrow> bool" where
  "stack_ok stack = (\<forall>(j, d) \<in> set stack. admissible_json j)"

lemma fold_max_acc: "fold max ns (a::nat) = max a (fold max ns 0)"
proof (induction ns arbitrary: a)
  case (Cons n ns)
  show ?case unfolding fold.simps o_apply Cons [of "max n a"] Cons [of "max n 0"] by simp
qed simp

lemma fold_max_shift: "fold max (map (\<lambda>j. f j + d) xs) d = fold max (map f xs) (0::nat) + d"
proof (induction xs)
  case (Cons x xs)
  have "fold max (map (\<lambda>j. f j + d) xs) (max (f x + d) d) = max (f x + d) (fold max (map f xs) 0 + d)"
    using Cons unfolding fold_max_acc [of _ "max (f x + d) d"] fold_max_acc [of _ d] by linarith
  moreover have "fold max (map f xs) (max (f x) 0) = max (f x) (fold max (map f xs) 0)"
    unfolding fold_max_acc [of _ "max (f x) 0"] by simp
  ultimately show ?case by simp
qed simp

lemma stack_Nil [simp]: "stack_nodes [] = 0" "stack_bytes [] = 0" "stack_depth [] = 0" "stack_ok []"
  by (simp_all add: stack_nodes_def stack_bytes_def stack_depth_def stack_ok_def)

lemma stack_nodes_push: "stack_nodes ((j, d) # stack) =
    Suc (stack_nodes (map (\<lambda>c. (c, d + 1)) (json_children j) @ stack))"
  by (simp add: stack_nodes_def nodes_unfold [of j] o_def)

lemma stack_bytes_push: "stack_bytes ((j, d) # stack) =
    own_bytes j + stack_bytes (map (\<lambda>c. (c, d + 1)) (json_children j) @ stack)"
  by (simp add: stack_bytes_def bytes_unfold [of j] o_def)

lemma stack_ok_push: "stack_ok ((j, d) # stack) \<longleftrightarrow>
    own_ok j \<and> stack_ok (map (\<lambda>c. (c, d + 1)) (json_children j) @ stack)"
  by (auto simp: stack_ok_def admissible_unfold [of j])

lemma stack_depth_push: "stack_depth ((j, d) # stack) =
    max d (stack_depth (map (\<lambda>c. (c, d + 1)) (json_children j) @ stack))"
proof -
  have "fold max (map (\<lambda>c. json_depth c + d) (json_children j)) d = json_depth j + d - 1"
    by (simp add: depth_unfold [of j] fold_max_shift)
  then have "fold max (map (\<lambda>c. json_depth c + (d + 1) - 1) (json_children j)) d = json_depth j + d - 1"
    by simp
  then have "max d (stack_depth (map (\<lambda>c. (c, d + 1)) (json_children j) @ stack)) =
      fold max (map (\<lambda>(j, d). json_depth j + d - 1) stack) (json_depth j + d - 1)"
    unfolding stack_depth_def by (subst fold_max_acc [symmetric]) (simp add: o_def)
  then show ?thesis by (simp add: stack_depth_def)
qed

lemma stack_nonneg: "0 \<le> stack_bytes stack"
  by (auto simp: stack_bytes_def json_scalar_bytes_nonneg intro!: sum_list_nonneg)

lemma measure_walk_Inr:
  assumes "bytes \<le> max_bytes" "visited \<le> MAX_JSON_NODES" "deepest \<le> MAX_JSON_DEPTH"
  shows "measure_walk max_bytes stack visited bytes deepest = Inr u \<longleftrightarrow>
     stack_ok stack \<and> visited + stack_nodes stack \<le> MAX_JSON_NODES
     \<and> max deepest (stack_depth stack) \<le> MAX_JSON_DEPTH
     \<and> bytes + stack_bytes stack \<le> max_bytes
     \<and> u = \<lparr>usage_nodes = visited + stack_nodes stack,
            usage_scalar_bytes = bytes + stack_bytes stack,
            usage_maximum_depth = max deepest (stack_depth stack)\<rparr>"
  using assms
proof (induction max_bytes stack visited bytes deepest rule: measure_walk.induct)
  case (1 max_bytes visited bytes deepest)
  then show ?case by auto
next
  case (2 max_bytes current depth stack visited bytes deepest)
  let ?stack = "map (\<lambda>c. (c, depth + 1)) (json_children current) @ stack"
  show ?case
  proof (cases "visited + 1 \<le> MAX_JSON_NODES \<and> depth \<le> MAX_JSON_DEPTH \<and> own_ok current
                \<and> bytes + own_bytes current \<le> max_bytes")
    case True
    then have node: "measure_node current bytes = Inr (bytes + own_bytes current, json_children current)"
      by (simp add: measure_node_Inr)
    have "measure_walk max_bytes ((current, depth) # stack) visited bytes deepest =
          measure_walk max_bytes ?stack (visited + 1) (bytes + own_bytes current) (max deepest depth)"
      using True by (simp add: node)
    moreover note "2.IH" [OF _ _ node refl]
    ultimately show ?thesis
      using True "2.prems"
      by (simp add: stack_nodes_push stack_bytes_push stack_ok_push stack_depth_push ac_simps)
  next
    case False
    moreover have "measure_walk max_bytes ((current, depth) # stack) visited bytes deepest \<noteq> Inr u"
      using False by (subst measure_walk.simps, subst measure_node_cases) auto
    ultimately show ?thesis
      using stack_nonneg [of ?stack]
      by (auto simp: stack_nodes_push stack_bytes_push stack_ok_push stack_depth_push)
  qed
qed

lemma measure_json_resources_Inr:
  assumes "0 \<le> max_bytes"
  shows "measure_json_resources v max_bytes = Inr u \<longleftrightarrow>
     admissible_json v \<and> json_nodes v \<le> MAX_JSON_NODES \<and> json_depth v \<le> MAX_JSON_DEPTH
     \<and> json_scalar_bytes v \<le> max_bytes
     \<and> u = \<lparr>usage_nodes = json_nodes v, usage_scalar_bytes = json_scalar_bytes v,
            usage_maximum_depth = json_depth v\<rparr>"
  using measure_walk_Inr [of 0 max_bytes 0 0 "[(v, 1)]" u] assms
  by (simp add: measure_json_resources_def stack_nodes_def stack_bytes_def stack_depth_def stack_ok_def
      resource_limit_defs)

subsection \<open>The integer bound\<close>

text \<open>\<open>30103/100000\<close> is an upper approximation of the decimal logarithm of two. The inequality
  between the two powers is proved with mantissas of twelve digits, rounded up at each squaring.\<close>

lemma power_bound_step:
  assumes "(2::nat) ^ k \<le> m * 10 ^ e" and "2 ^ b * (m * m) \<le> t * 10 ^ s"
    and "k' = b + (k + k)" and "e' = e + e + s"
  shows "(2::nat) ^ k' \<le> t * 10 ^ e'"
proof -
  have "(2::nat) ^ (k + k) \<le> (m * 10 ^ e) * (m * 10 ^ e)"
    unfolding power_add using assms(1) by (intro mult_mono) auto
  then have "(2::nat) ^ k' \<le> 2 ^ b * ((m * 10 ^ e) * (m * 10 ^ e))"
    unfolding assms(3) power_add by (intro mult_le_mono2)
  also have "\<dots> = (2 ^ b * (m * m)) * 10 ^ (e + e)" by (simp add: power_add)
  also have "\<dots> \<le> (t * 10 ^ s) * 10 ^ (e + e)" using assms(2) by (rule mult_le_mono1)
  finally show ?thesis by (simp add: assms(4) power_add ac_simps)
qed

lemma power_2_below_power_10: "(2::nat) ^ 100000 \<le> 10 ^ 30103"
proof -
  have 24: "(2::nat) ^ 24 \<le> 16777216 * 10 ^ 0" by simp
  have 48: "(2::nat) ^ 48 \<le> 281474976711 * 10 ^ 3"
    by (rule power_bound_step [OF 24, where s = 3 and b = 0]) simp_all
  have 97: "(2::nat) ^ 97 \<le> 158456325029 * 10 ^ 18"
    by (rule power_bound_step [OF 48, where s = 12 and b = 1]) simp_all
  have 195: "(2::nat) ^ 195 \<le> 502168138834 * 10 ^ 47"
    by (rule power_bound_step [OF 97, where s = 11 and b = 1]) simp_all
  have 390: "(2::nat) ^ 390 \<le> 252172839661 * 10 ^ 106"
    by (rule power_bound_step [OF 195, where s = 12 and b = 0]) simp_all
  have 781: "(2::nat) ^ 781 \<le> 127182282126 * 10 ^ 224"
    by (rule power_bound_step [OF 390, where s = 12 and b = 1]) simp_all
  have 1562: "(2::nat) ^ 1562 \<le> 161753328868 * 10 ^ 459"
    by (rule power_bound_step [OF 781, where s = 11 and b = 0]) simp_all
  have 3125: "(2::nat) ^ 3125 \<le> 523282787998 * 10 ^ 929"
    by (rule power_bound_step [OF 1562, where s = 11 and b = 1]) simp_all
  have 6250: "(2::nat) ^ 6250 \<le> 273824876215 * 10 ^ 1870"
    by (rule power_bound_step [OF 3125, where s = 12 and b = 0]) simp_all
  have 12500: "(2::nat) ^ 12500 \<le> 749800628342 * 10 ^ 3751"
    by (rule power_bound_step [OF 6250, where s = 11 and b = 0]) simp_all
  have 25000: "(2::nat) ^ 25000 \<le> 562200982263 * 10 ^ 7514"
    by (rule power_bound_step [OF 12500, where s = 12 and b = 0]) simp_all
  have 50000: "(2::nat) ^ 50000 \<le> 316069944458 * 10 ^ 15040"
    by (rule power_bound_step [OF 25000, where s = 12 and b = 0]) simp_all
  have 100000: "(2::nat) ^ 100000 \<le> 999002097897 * 10 ^ 30091"
    by (rule power_bound_step [OF 50000, where s = 11 and b = 0]) simp_all
  have last: "(t::nat) * 10 ^ e \<le> 10 ^ e'" if "t \<le> 10 ^ s" and "e' = s + e" for t s e e'
    unfolding that(2) power_add using that(1) by (rule mult_le_mono1)
  have "(999002097897::nat) * 10 ^ 30091 \<le> 10 ^ 30103" by (rule last [of _ 12]) simp_all
  with 100000 show ?thesis by (rule order_trans)
qed

lemma power_10_scale:
  fixes bits digits p q :: nat
  assumes bound: "(2::nat) ^ q \<le> 10 ^ p" and "bits * p \<le> digits * q" and "0 < q"
  shows "(2::nat) ^ bits \<le> 10 ^ digits"
proof -
  have "((2::nat) ^ bits) ^ q = (2 ^ q) ^ bits" by (simp add: power_mult [symmetric] mult.commute)
  also have "\<dots> \<le> (10 ^ p) ^ bits" by (rule power_mono [OF bound]) simp
  also have "\<dots> = 10 ^ (bits * p)" by (simp add: power_mult [symmetric] mult.commute)
  also have "\<dots> \<le> 10 ^ (digits * q)" using assms(2) by (rule power_increasing) simp
  also have "\<dots> = (10 ^ digits) ^ q" by (simp only: power_mult)
  finally have "((2::nat) ^ bits) ^ Suc (q - 1) \<le> (10 ^ digits) ^ Suc (q - 1)" using assms(3) by simp
  then show ?thesis by (rule power_le_imp_le_base) simp
qed

lemmas power_10_covers_bits = power_10_scale [OF power_2_below_power_10]

lemma bit_length_bound: "n < 2 ^ bit_length n"
proof (induction n rule: bit_length.induct)
  case (1 n)
  then show ?case by (cases "n = 0") (auto simp: bit_length.simps [of n])
qed

lemma nat_digits_length: "n < 10 ^ Suc d \<Longrightarrow> length (nat_digits n) \<le> Suc d"
proof (induction d arbitrary: n)
  case 0
  then show ?case by (simp add: nat_digits.simps)
next
  case (Suc d)
  then have "n div 10 < 10 ^ Suc d" by (simp add: less_mult_imp_div_less)
  then have "length (nat_digits (n div 10)) \<le> Suc d" by (rule Suc.IH)
  then show ?case by (subst nat_digits.simps) simp
qed

lemma nat_digits_within_bits:
  assumes "n \<noteq> 0"
  shows "length (nat_digits n) \<le> (bit_length n * 30103 + 99999) div 100000"
proof -
  define d where "d = (bit_length n * 30103 + 99999) div 100000"
  have pos: "0 < bit_length n" using assms by (simp add: bit_length.simps)
  then have "0 < d" by (simp add: d_def div_greater_zero_iff)
  then obtain e where e: "d = Suc e" by (cases d) auto
  have "bit_length n * 30103 \<le> d * 100000" unfolding d_def by linarith
  then have "n < 10 ^ Suc e"
    using bit_length_bound [of n] power_10_covers_bits [of "bit_length n" d] by (simp add: e)
  then show ?thesis using nat_digits_length e d_def by metis
qed

lemma render_int_within_bound: "int (length (render_int i)) \<le> integer_characters i"
proof -
  have "int (length (nat_digits n)) \<le> (int (bit_length n) * 30103 + 99999) div 100000" if "n \<noteq> 0" for n
    using nat_digits_within_bits [OF that] by (simp add: zdiv_int [symmetric] flip: of_nat_le_iff)
  from this [of "nat i"] this [of "nat (- i)"] show ?thesis
    by (auto simp: render_int_def integer_characters_def nat_digits.simps [of 0])
qed

end
