(* ===== verification/Systems_Models.thy ===== *)
theory Systems_Models
  imports Host Resource_Limits
begin

text \<open>
  The systems-governance records of \<open>models.py\<close>: complexity items, the strategy kernel and its
  traces, the systems assessment, the coherence review, the gate decision and the outcome records.
  A class is a \<open>record\<close>; \<open>mk_\<dots>\<close> is its constructor with \<open>__post_init__\<close>, raising or returning the
  normalised value; \<open>\<dots>_to_dict\<close> and \<open>\<dots>_from_dict\<close> are its serialisation. The \<open>isinstance\<close> tests
  of \<open>__post_init__\<close> are settled by the types of the fields.
\<close>

subsection \<open>Text checks\<close>

definition reject_control_characters :: "string \<Rightarrow> string \<Rightarrow> exn option" where
  "reject_control_characters v name =
     fail_if (has_control_characters v) (invalid (name @ '' must not contain control characters''))"

definition require_systems_text :: "string \<Rightarrow> string \<Rightarrow> exn option" where
  "require_systems_text v name =
     first_error
       [fail_if (blank v) (invalid (name @ '' must not be empty'')),
        fail_if (\<not> trimmed v) (invalid (name @ '' must be trimmed'')),
        validate_bounded_string v,
        reject_control_characters v name]"

definition require_systems_texts :: "string list \<Rightarrow> string \<Rightarrow> exn option" where
  "require_systems_texts vs name = first_error (map (\<lambda>v. require_systems_text v name) vs)"

definition validate_sha256 :: "string \<Rightarrow> string \<Rightarrow> exn option" where
  "validate_sha256 v name =
     fail_if (\<not> is_sha256 v) (invalid (name @ '' must be a lowercase SHA-256 digest''))"

definition systems_text_list :: "json_object \<Rightarrow> string \<Rightarrow> exn + string list" where
  "systems_text_list data k =
     string_list (obj_get data k) (invalid (''systems '' @ k @ '' must be a string list''))"

text \<open>The pattern \<open>[a-z][a-z0-9_]{0,63}\<close>.\<close>

definition is_lower :: "char \<Rightarrow> bool" where
  "is_lower c = (CHR ''a'' \<le> c \<and> c \<le> CHR ''z'')"

definition is_digit :: "char \<Rightarrow> bool" where
  "is_digit c = (CHR ''0'' \<le> c \<and> c \<le> CHR ''9'')"

definition code_pattern :: "string \<Rightarrow> bool" where
  "code_pattern s =
     (case s of
        [] \<Rightarrow> False
      | c # cs \<Rightarrow> is_lower c \<and> length cs \<le> 63
          \<and> (\<forall>d \<in> set cs. is_lower d \<or> is_digit d \<or> d = CHR ''_''))"

subsection \<open>Complexity\<close>

datatype complexity_kind =
    DEPENDENCY | PERSISTENT_SERVICE | AGENT | CONFIGURATION_SURFACE | AUTHORITATIVE_DOCUMENT
  | STATE_STORE | CONNECTOR | USER_WORKFLOW

fun kind_str :: "complexity_kind \<Rightarrow> string" where
  "kind_str DEPENDENCY = ''dependency''"
| "kind_str PERSISTENT_SERVICE = ''persistent_service''"
| "kind_str AGENT = ''agent''"
| "kind_str CONFIGURATION_SURFACE = ''configuration_surface''"
| "kind_str AUTHORITATIVE_DOCUMENT = ''authoritative_document''"
| "kind_str STATE_STORE = ''state_store''"
| "kind_str CONNECTOR = ''connector''"
| "kind_str USER_WORKFLOW = ''user_workflow''"

definition kind_members :: "(string \<times> complexity_kind) list" where
  "kind_members = map (\<lambda>k. (kind_str k, k))
     [DEPENDENCY, PERSISTENT_SERVICE, AGENT, CONFIGURATION_SURFACE, AUTHORITATIVE_DOCUMENT,
      STATE_STORE, CONNECTOR, USER_WORKFLOW]"

fun complexity_weight :: "complexity_kind \<Rightarrow> int" where
  "complexity_weight PERSISTENT_SERVICE = 2"
| "complexity_weight AGENT = 2"
| "complexity_weight STATE_STORE = 2"
| "complexity_weight _ = 1"

record complexity_item =
  ci_kind :: complexity_kind
  ci_description :: string

definition mk_complexity_item :: "complexity_item \<Rightarrow> exn + complexity_item" where
  "mk_complexity_item c =
     checked [require_systems_text (ci_description c) ''complexity item description''] c"

definition item_weight :: "complexity_item \<Rightarrow> int" where
  "item_weight c = complexity_weight (ci_kind c)"

definition complexity_item_to_dict :: "complexity_item \<Rightarrow> json_object" where
  "complexity_item_to_dict c =
     [(''kind'', JStr (kind_str (ci_kind c))), (''description'', JStr (ci_description c)),
      (''weight'', JInt (item_weight c))]"

definition complexity_item_from_dict :: "host \<Rightarrow> json_object \<Rightarrow> exn + complexity_item" where
  "complexity_item_from_dict h data =
     sbind (parse_enum kind_members (get_str h data ''kind'' [])) (\<lambda>k.
     sbind (mk_complexity_item \<lparr>ci_kind = k, ci_description = get_str h data ''description'' []\<rparr>) (\<lambda>c.
     sbind (strict_int (obj_get data ''weight'') ''complexity item weight'') (\<lambda>w.
     checked [fail_if (w \<noteq> item_weight c)
                (invalid ''complexity item weight does not match its kind'')] c)))"

subsection \<open>Strategy\<close>

record strategy_action_intent =
  si_intent_id :: string
  si_description :: string
  si_expected_effect :: string
  si_schema :: string

definition intent_schema :: string where
  "intent_schema = ''master-agent/strategy-action-intent@1''"

definition mk_intent :: "strategy_action_intent \<Rightarrow> exn + strategy_action_intent" where
  "mk_intent i =
     checked
       [fail_if (si_schema i \<noteq> intent_schema) (invalid ''unsupported strategy action intent schema''),
        fail_if (\<not> code_pattern (si_intent_id i)) (invalid ''strategy action intent ID is invalid''),
        require_systems_text (si_description i) ''strategy action description'',
        require_systems_text (si_expected_effect i) ''strategy expected effect''] i"

definition intent_to_dict :: "strategy_action_intent \<Rightarrow> json_object" where
  "intent_to_dict i =
     [(''schema'', JStr (si_schema i)), (''intent_id'', JStr (si_intent_id i)),
      (''description'', JStr (si_description i)),
      (''expected_effect'', JStr (si_expected_effect i))]"

definition intent_from_dict :: "host \<Rightarrow> json_object \<Rightarrow> exn + strategy_action_intent" where
  "intent_from_dict h data =
     mk_intent
       \<lparr>si_intent_id = get_str h data ''intent_id'' [],
        si_description = get_str h data ''description'' [],
        si_expected_effect = get_str h data ''expected_effect'' [],
        si_schema = get_str h data ''schema'' []\<rparr>"

record strategy_kernel =
  sk_diagnosis :: string
  sk_guiding_policy :: string
  sk_proximate_objective :: string
  sk_tradeoffs :: "string list"
  sk_coherent_actions :: "strategy_action_intent list"
  sk_schema :: string

definition kernel_schema :: string where
  "kernel_schema = ''master-agent/strategy-kernel@1''"

definition mk_kernel :: "strategy_kernel \<Rightarrow> exn + strategy_kernel" where
  "mk_kernel k =
     checked
       [fail_if (sk_schema k \<noteq> kernel_schema) (invalid ''unsupported strategy kernel schema''),
        require_systems_text (sk_diagnosis k) ''strategy diagnosis'',
        require_systems_text (sk_guiding_policy k) ''strategy guiding_policy'',
        require_systems_text (sk_proximate_objective k) ''strategy proximate_objective'',
        fail_if (length (sk_tradeoffs k) > MAX_PLAN_ACTIONS)
          (invalid ''strategy kernel exceeds the tradeoff limit''),
        require_systems_texts (sk_tradeoffs k) ''strategy tradeoffs'',
        fail_if (sk_tradeoffs k = [])
          (invalid ''strategy kernel must state at least one tradeoff''),
        fail_if (length (sk_coherent_actions k) > MAX_PLAN_ACTIONS)
          (invalid ''strategy kernel exceeds the intent limit''),
        fail_if (sk_coherent_actions k = [])
          (invalid ''strategy kernel must contain coherent StrategyActionIntent values''),
        fail_if (\<not> distinct (map si_intent_id (sk_coherent_actions k)))
          (invalid ''strategy coherent action IDs must be unique'')] k"

definition kernel_to_dict :: "strategy_kernel \<Rightarrow> json_object" where
  "kernel_to_dict k =
     [(''schema'', JStr (sk_schema k)), (''diagnosis'', JStr (sk_diagnosis k)),
      (''guiding_policy'', JStr (sk_guiding_policy k)),
      (''proximate_objective'', JStr (sk_proximate_objective k)),
      (''tradeoffs'', strings (sk_tradeoffs k)),
      (''coherent_actions'', JList (map (\<lambda>i. JObj (intent_to_dict i)) (sk_coherent_actions k)))]"

definition kernel_fingerprint :: "host \<Rightarrow> strategy_kernel \<Rightarrow> digest" where
  "kernel_fingerprint h k = stable_sha256 h (JObj (kernel_to_dict k))"

definition kernel_from_dict :: "host \<Rightarrow> json_object \<Rightarrow> exn + strategy_kernel" where
  "kernel_from_dict h data =
     sbind (object_list (obj_get data ''coherent_actions'')
              (invalid ''strategy coherent_actions must be a list'')) (\<lambda>raw.
     sbind (systems_text_list data ''tradeoffs'') (\<lambda>tradeoffs.
     sbind (smap (intent_from_dict h) raw) (\<lambda>intents.
     mk_kernel
       \<lparr>sk_diagnosis = get_str h data ''diagnosis'' [],
        sk_guiding_policy = get_str h data ''guiding_policy'' [],
        sk_proximate_objective = get_str h data ''proximate_objective'' [],
        sk_tradeoffs = tradeoffs, sk_coherent_actions = intents,
        sk_schema = get_str h data ''schema'' []\<rparr>)))"

record strategy_trace =
  tr_action_id :: uuid
  tr_intent_id :: string
  tr_schema :: string

definition trace_schema :: string where
  "trace_schema = ''master-agent/strategy-action-trace@1''"

definition mk_trace :: "strategy_trace \<Rightarrow> exn + strategy_trace" where
  "mk_trace t =
     checked
       [fail_if (tr_schema t \<noteq> trace_schema) (invalid ''unsupported strategy action trace schema''),
        fail_if (\<not> code_pattern (tr_intent_id t))
          (invalid ''strategy action trace intent_id is invalid'')] t"

definition trace_to_dict :: "strategy_trace \<Rightarrow> json_object" where
  "trace_to_dict t =
     [(''schema'', JStr (tr_schema t)), (''action_id'', JStr (tr_action_id t)),
      (''intent_id'', JStr (tr_intent_id t))]"

definition trace_from_dict :: "host \<Rightarrow> json_object \<Rightarrow> exn + strategy_trace" where
  "trace_from_dict h data =
     sbind (parse_uuid h (get_str h data ''action_id'' [])) (\<lambda>a.
     mk_trace \<lparr>tr_action_id = a, tr_intent_id = get_str h data ''intent_id'' [],
               tr_schema = get_str h data ''schema'' []\<rparr>)"

subsection \<open>Systems assessment\<close>

record systems_assessment =
  sa_desired_outcome :: string
  sa_current_behavior :: string
  sa_constraint :: string
  sa_leverage_point :: string
  sa_simplest_intervention :: string
  sa_success_metric :: string
  sa_failure_condition :: string
  sa_low_risk :: bool
  sa_reversible :: bool
  sa_well_understood :: bool
  sa_stocks :: "string list"
  sa_flows :: "string list"
  sa_feedback_loops :: "string list"
  sa_delays :: "string list"
  sa_unintended_consequences :: "string list"
  sa_removable_complexity :: "string list"
  sa_alternatives_considered :: "string list"
  sa_added_complexity :: "complexity_item list"
  sa_existing_mechanisms :: string
  sa_reversibility_strategy :: string
  sa_strategy_kernel :: "strategy_kernel option"
  sa_schema :: string

definition assessment_schema :: string where
  "assessment_schema = ''master-agent/systems-assessment@1''"

definition optional_systems_text :: "string \<Rightarrow> string \<Rightarrow> exn option" where
  "optional_systems_text v name = (if v = [] then None else require_systems_text v name)"

definition mk_assessment :: "systems_assessment \<Rightarrow> exn + systems_assessment" where
  "mk_assessment a =
     checked
       [fail_if (sa_schema a \<noteq> assessment_schema) (invalid ''unsupported systems assessment schema''),
        require_systems_text (sa_desired_outcome a) ''systems assessment desired_outcome'',
        require_systems_text (sa_current_behavior a) ''systems assessment current_behavior'',
        require_systems_text (sa_constraint a) ''systems assessment constraint'',
        require_systems_text (sa_leverage_point a) ''systems assessment leverage_point'',
        require_systems_text (sa_simplest_intervention a)
          ''systems assessment simplest_intervention'',
        require_systems_text (sa_success_metric a) ''systems assessment success_metric'',
        require_systems_text (sa_failure_condition a) ''systems assessment failure_condition'',
        require_systems_texts (sa_stocks a) ''systems assessment stocks'',
        require_systems_texts (sa_flows a) ''systems assessment flows'',
        require_systems_texts (sa_feedback_loops a) ''systems assessment feedback_loops'',
        require_systems_texts (sa_delays a) ''systems assessment delays'',
        require_systems_texts (sa_unintended_consequences a)
          ''systems assessment unintended_consequences'',
        require_systems_texts (sa_removable_complexity a)
          ''systems assessment removable_complexity'',
        require_systems_texts (sa_alternatives_considered a)
          ''systems assessment alternatives_considered'',
        optional_systems_text (sa_existing_mechanisms a)
          ''systems assessment existing_mechanisms_insufficient_because'',
        optional_systems_text (sa_reversibility_strategy a)
          ''systems assessment reversibility_strategy''] a"

definition for_fast_path ::
  "string \<Rightarrow> string \<Rightarrow> string \<Rightarrow> string \<Rightarrow> string \<Rightarrow> string \<Rightarrow> string \<Rightarrow> exn + systems_assessment"
where
  "for_fast_path outcome behavior constraint leverage intervention metric failure =
     mk_assessment
       \<lparr>sa_desired_outcome = outcome, sa_current_behavior = behavior, sa_constraint = constraint,
        sa_leverage_point = leverage, sa_simplest_intervention = intervention,
        sa_success_metric = metric, sa_failure_condition = failure,
        sa_low_risk = True, sa_reversible = True, sa_well_understood = True,
        sa_stocks = [], sa_flows = [], sa_feedback_loops = [], sa_delays = [],
        sa_unintended_consequences = [], sa_removable_complexity = [],
        sa_alternatives_considered = [], sa_added_complexity = [], sa_existing_mechanisms = [],
        sa_reversibility_strategy = [], sa_strategy_kernel = None,
        sa_schema = assessment_schema\<rparr>"

text \<open>The arguments of \<open>for_static_intervention\<close> are the fields of the record passed; the two the
  method fixes itself are overwritten, and the kernel is not optional.\<close>

definition for_static_intervention ::
  "systems_assessment \<Rightarrow> strategy_kernel \<Rightarrow> exn + systems_assessment"
where
  "for_static_intervention a k =
     mk_assessment (a\<lparr>sa_low_risk := False, sa_strategy_kernel := Some k,
                      sa_schema := assessment_schema\<rparr>)"

definition fast_path_requested :: "systems_assessment \<Rightarrow> bool" where
  "fast_path_requested a = (sa_low_risk a \<and> sa_reversible a \<and> sa_well_understood a)"

definition complexity_score :: "systems_assessment \<Rightarrow> int" where
  "complexity_score a = sum_list (map item_weight (sa_added_complexity a))"

definition success_metric_sha256 :: "host \<Rightarrow> systems_assessment \<Rightarrow> digest" where
  "success_metric_sha256 h a = h_sha256 h (sa_success_metric a)"

definition assessment_to_dict :: "systems_assessment \<Rightarrow> json_object" where
  "assessment_to_dict a =
     [(''schema'', JStr (sa_schema a)),
      (''desired_outcome'', JStr (sa_desired_outcome a)),
      (''current_behavior'', JStr (sa_current_behavior a)),
      (''constraint'', JStr (sa_constraint a)),
      (''stocks'', strings (sa_stocks a)),
      (''flows'', strings (sa_flows a)),
      (''feedback_loops'', strings (sa_feedback_loops a)),
      (''delays'', strings (sa_delays a)),
      (''leverage_point'', JStr (sa_leverage_point a)),
      (''simplest_intervention'', JStr (sa_simplest_intervention a)),
      (''success_metric'', JStr (sa_success_metric a)),
      (''failure_condition'', JStr (sa_failure_condition a)),
      (''unintended_consequences'', strings (sa_unintended_consequences a)),
      (''removable_complexity'', strings (sa_removable_complexity a)),
      (''alternatives_considered'', strings (sa_alternatives_considered a)),
      (''added_complexity'',
        JList (map (\<lambda>c. JObj (complexity_item_to_dict c)) (sa_added_complexity a))),
      (''existing_mechanisms_insufficient_because'', JStr (sa_existing_mechanisms a)),
      (''reversibility_strategy'', JStr (sa_reversibility_strategy a)),
      (''low_risk'', JBool (sa_low_risk a)),
      (''reversible'', JBool (sa_reversible a)),
      (''well_understood'', JBool (sa_well_understood a)),
      (''complexity_score'', JInt (complexity_score a))]
     @ (case sa_strategy_kernel a of
          None \<Rightarrow> []
        | Some k \<Rightarrow> [(''strategy_kernel'', JObj (kernel_to_dict k))])"

definition assessment_fingerprint :: "host \<Rightarrow> systems_assessment \<Rightarrow> digest" where
  "assessment_fingerprint h a = stable_sha256 h (JObj (assessment_to_dict a))"

definition raw_kernel :: "json_object \<Rightarrow> exn + json_object option" where
  "raw_kernel data =
     (case obj_get data ''strategy_kernel'' of
        None \<Rightarrow> Inr None
      | Some JNull \<Rightarrow> Inr None
      | Some (JObj kvs) \<Rightarrow> Inr (Some kvs)
      | Some _ \<Rightarrow> Inl (invalid ''systems assessment strategy_kernel must be an object''))"

definition assessment_from_dict :: "host \<Rightarrow> json_object \<Rightarrow> exn + systems_assessment" where
  "assessment_from_dict h data =
     sbind (case obj_get data ''added_complexity'' of
              None \<Rightarrow> Inr []
            | v \<Rightarrow> object_list v (invalid ''systems assessment added_complexity must be a list''))
       (\<lambda>raw_complexity.
     sbind (raw_kernel data) (\<lambda>raw_strategy.
     sbind (systems_text_list data ''stocks'') (\<lambda>stocks.
     sbind (systems_text_list data ''flows'') (\<lambda>flows.
     sbind (systems_text_list data ''feedback_loops'') (\<lambda>feedback_loops.
     sbind (systems_text_list data ''delays'') (\<lambda>delays.
     sbind (systems_text_list data ''unintended_consequences'') (\<lambda>unintended.
     sbind (systems_text_list data ''removable_complexity'') (\<lambda>removable.
     sbind (systems_text_list data ''alternatives_considered'') (\<lambda>alternatives.
     sbind (smap (complexity_item_from_dict h) raw_complexity) (\<lambda>complexity.
     sbind (strict_bool (obj_get data ''low_risk'') ''systems assessment low_risk'') (\<lambda>low_risk.
     sbind (strict_bool (obj_get data ''reversible'') ''systems assessment reversible'') (\<lambda>reversible.
     sbind (strict_bool (obj_get data ''well_understood'') ''systems assessment well_understood'')
       (\<lambda>well_understood.
     sbind (case raw_strategy of
              None \<Rightarrow> Inr None
            | Some kvs \<Rightarrow> sbind (kernel_from_dict h kvs) (\<lambda>k. Inr (Some k))) (\<lambda>kernel.
     sbind (mk_assessment
       \<lparr>sa_desired_outcome = get_str h data ''desired_outcome'' [],
        sa_current_behavior = get_str h data ''current_behavior'' [],
        sa_constraint = get_str h data ''constraint'' [],
        sa_leverage_point = get_str h data ''leverage_point'' [],
        sa_simplest_intervention = get_str h data ''simplest_intervention'' [],
        sa_success_metric = get_str h data ''success_metric'' [],
        sa_failure_condition = get_str h data ''failure_condition'' [],
        sa_low_risk = low_risk, sa_reversible = reversible, sa_well_understood = well_understood,
        sa_stocks = stocks, sa_flows = flows, sa_feedback_loops = feedback_loops,
        sa_delays = delays, sa_unintended_consequences = unintended,
        sa_removable_complexity = removable, sa_alternatives_considered = alternatives,
        sa_added_complexity = complexity,
        sa_existing_mechanisms = get_str h data ''existing_mechanisms_insufficient_because'' [],
        sa_reversibility_strategy = get_str h data ''reversibility_strategy'' [],
        sa_strategy_kernel = kernel,
        sa_schema = get_str h data ''schema'' []\<rparr>) (\<lambda>a.
     checked [fail_if (\<not> equals_int (obj_get data ''complexity_score'') (complexity_score a))
                (invalid ''systems assessment complexity score does not match its items'')] a)))))))))))))))"

subsection \<open>Coherence review\<close>

record coherence_review =
  cv_assessment_fingerprint :: string
  cv_kernel_fingerprint :: string
  cv_diagnosis_addresses_constraint :: bool
  cv_guiding_policy_targets_leverage_point :: bool
  cv_proximate_objective_advances_outcome :: bool
  cv_coherent_actions_support_success_metric :: bool
  cv_tradeoffs_cover_alternatives :: bool
  cv_reason_codes :: "string list"
  cv_schema :: string

definition review_schema :: string where
  "review_schema = ''master-agent/strategy-coherence-review@1''"

text \<open>The findings in the order of \<open>_STRATEGY_COHERENCE_FINDINGS\<close>.\<close>

definition coherence_findings :: "coherence_review \<Rightarrow> (string \<times> bool) list" where
  "coherence_findings r =
     [(''diagnosis_addresses_constraint'', cv_diagnosis_addresses_constraint r),
      (''guiding_policy_targets_leverage_point'', cv_guiding_policy_targets_leverage_point r),
      (''proximate_objective_advances_outcome'', cv_proximate_objective_advances_outcome r),
      (''coherent_actions_support_success_metric'', cv_coherent_actions_support_success_metric r),
      (''tradeoffs_cover_alternatives'', cv_tradeoffs_cover_alternatives r)]"

definition finding_names :: "string list" where
  "finding_names =
     [''diagnosis_addresses_constraint'', ''guiding_policy_targets_leverage_point'',
      ''proximate_objective_advances_outcome'', ''coherent_actions_support_success_metric'',
      ''tradeoffs_cover_alternatives'']"

definition mk_review :: "coherence_review \<Rightarrow> exn + coherence_review" where
  "mk_review r =
     checked
       [fail_if (cv_schema r \<noteq> review_schema)
          (invalid ''unsupported strategy coherence review schema''),
        fail_if (\<not> is_sha256 (cv_assessment_fingerprint r))
          (invalid ''strategy coherence assessment_fingerprint must be a SHA-256 digest''),
        fail_if (\<not> is_sha256 (cv_kernel_fingerprint r))
          (invalid ''strategy coherence strategy_kernel_fingerprint must be a SHA-256 digest''),
        fail_if (length (cv_reason_codes r) > MAX_PLAN_ACTIONS)
          (invalid ''strategy coherence exceeds the reason limit''),
        fail_if (\<exists>c \<in> set (cv_reason_codes r). \<not> code_pattern c)
          (invalid ''strategy coherence reason codes are invalid''),
        fail_if (\<not> distinct (cv_reason_codes r))
          (invalid ''strategy coherence reason codes must be unique''),
        fail_if (\<exists>(name, found) \<in> set (coherence_findings r). found \<and> name \<notin> set (cv_reason_codes r))
          (invalid ''positive strategy coherence findings require matching reason codes'')] r"

definition for_review ::
  "host \<Rightarrow> systems_assessment \<Rightarrow> bool \<Rightarrow> bool \<Rightarrow> bool \<Rightarrow> bool \<Rightarrow> bool \<Rightarrow> string list
     \<Rightarrow> exn + coherence_review"
where
  "for_review h a diagnosis policy objective actions tradeoffs codes =
     (case sa_strategy_kernel a of
        None \<Rightarrow> Inl (invalid ''strategy coherence review requires a strategy kernel'')
      | Some k \<Rightarrow>
          mk_review
            \<lparr>cv_assessment_fingerprint = assessment_fingerprint h a,
             cv_kernel_fingerprint = kernel_fingerprint h k,
             cv_diagnosis_addresses_constraint = diagnosis,
             cv_guiding_policy_targets_leverage_point = policy,
             cv_proximate_objective_advances_outcome = objective,
             cv_coherent_actions_support_success_metric = actions,
             cv_tradeoffs_cover_alternatives = tradeoffs,
             cv_reason_codes = codes, cv_schema = review_schema\<rparr>)"

definition review_for_static_intervention :: "host \<Rightarrow> systems_assessment \<Rightarrow> exn + coherence_review" where
  "review_for_static_intervention h a =
     for_review h a True True True True True (finding_names @ [''static_intervention''])"

definition all_findings_confirmed :: "coherence_review \<Rightarrow> bool" where
  "all_findings_confirmed r = (\<forall>(name, found) \<in> set (coherence_findings r). found)"

definition review_to_dict :: "coherence_review \<Rightarrow> json_object" where
  "review_to_dict r =
     [(''schema'', JStr (cv_schema r)),
      (''assessment_fingerprint'', JStr (cv_assessment_fingerprint r)),
      (''strategy_kernel_fingerprint'', JStr (cv_kernel_fingerprint r))]
     @ map (\<lambda>(name, found). (name, JBool found)) (coherence_findings r)
     @ [(''reason_codes'', strings (cv_reason_codes r))]"

definition review_fingerprint :: "host \<Rightarrow> coherence_review \<Rightarrow> digest" where
  "review_fingerprint h r = stable_sha256 h (JObj (review_to_dict r))"

definition review_from_dict :: "host \<Rightarrow> json_object \<Rightarrow> exn + coherence_review" where
  "review_from_dict h data =
     sbind (strict_bool (obj_get data ''diagnosis_addresses_constraint'')
              ''strategy coherence diagnosis_addresses_constraint'') (\<lambda>diagnosis.
     sbind (strict_bool (obj_get data ''guiding_policy_targets_leverage_point'')
              ''strategy coherence guiding_policy_targets_leverage_point'') (\<lambda>policy.
     sbind (strict_bool (obj_get data ''proximate_objective_advances_outcome'')
              ''strategy coherence proximate_objective_advances_outcome'') (\<lambda>objective.
     sbind (strict_bool (obj_get data ''coherent_actions_support_success_metric'')
              ''strategy coherence coherent_actions_support_success_metric'') (\<lambda>actions.
     sbind (strict_bool (obj_get data ''tradeoffs_cover_alternatives'')
              ''strategy coherence tradeoffs_cover_alternatives'') (\<lambda>tradeoffs.
     sbind (systems_text_list data ''reason_codes'') (\<lambda>codes.
     mk_review
       \<lparr>cv_assessment_fingerprint = get_str h data ''assessment_fingerprint'' [],
        cv_kernel_fingerprint = get_str h data ''strategy_kernel_fingerprint'' [],
        cv_diagnosis_addresses_constraint = diagnosis,
        cv_guiding_policy_targets_leverage_point = policy,
        cv_proximate_objective_advances_outcome = objective,
        cv_coherent_actions_support_success_metric = actions,
        cv_tradeoffs_cover_alternatives = tradeoffs,
        cv_reason_codes = codes, cv_schema = get_str h data ''schema'' []\<rparr>))))))"

subsection \<open>Gate decision\<close>

datatype gate_route = FAST_PATH | GATED

fun route_str :: "gate_route \<Rightarrow> string" where
  "route_str FAST_PATH = ''fast_path''"
| "route_str GATED = ''gated''"

definition route_members :: "(string \<times> gate_route) list" where
  "route_members = map (\<lambda>r. (route_str r, r)) [FAST_PATH, GATED]"

record gate_decision =
  gd_route :: gate_route
  gd_permitted :: bool
  gd_reasons :: "string list"
  gd_complexity_score :: int
  gd_assessment_fingerprint :: string
  gd_requires_human_review :: bool
  gd_review_fingerprint :: "string option"
  gd_schema :: string

definition decision_schema :: string where
  "decision_schema = ''master-agent/systems-gate-decision@1''"

definition mk_decision :: "gate_decision \<Rightarrow> exn + gate_decision" where
  "mk_decision d =
     checked
       [fail_if (gd_schema d \<noteq> decision_schema)
          (invalid ''unsupported systems gate decision schema''),
        require_systems_texts (gd_reasons d) ''systems gate reasons'',
        fail_if (gd_reasons d = []) (invalid ''systems gate decision must include a reason''),
        fail_if (gd_complexity_score d < 0)
          (invalid ''systems gate complexity score cannot be negative''),
        fail_if (\<not> is_sha256 (gd_assessment_fingerprint d))
          (invalid ''systems gate assessment fingerprint must be a SHA-256 digest''),
        fail_if (case gd_review_fingerprint d of None \<Rightarrow> False | Some f \<Rightarrow> \<not> is_sha256 f)
          (invalid ''systems gate strategy coherence fingerprint must be a SHA-256 digest'')] d"

definition decision_to_dict :: "gate_decision \<Rightarrow> json_object" where
  "decision_to_dict d =
     [(''schema'', JStr (gd_schema d)),
      (''route'', JStr (route_str (gd_route d))),
      (''permitted'', JBool (gd_permitted d)),
      (''reasons'', strings (gd_reasons d)),
      (''complexity_score'', JInt (gd_complexity_score d)),
      (''assessment_fingerprint'', JStr (gd_assessment_fingerprint d)),
      (''requires_human_review'', JBool (gd_requires_human_review d))]
     @ (case gd_review_fingerprint d of
          None \<Rightarrow> []
        | Some f \<Rightarrow> [(''strategy_coherence_review_fingerprint'', JStr f)])"

definition decision_fingerprint :: "host \<Rightarrow> gate_decision \<Rightarrow> digest" where
  "decision_fingerprint h d = stable_sha256 h (JObj (decision_to_dict d))"

definition decision_from_dict :: "host \<Rightarrow> json_object \<Rightarrow> exn + gate_decision" where
  "decision_from_dict h data =
     sbind (parse_enum route_members (get_str h data ''route'' [])) (\<lambda>route.
     sbind (strict_bool (obj_get data ''permitted'') ''systems gate decision permitted'') (\<lambda>permitted.
     sbind (systems_text_list data ''reasons'') (\<lambda>reasons.
     sbind (strict_int (obj_get data ''complexity_score'')
              ''systems gate decision complexity_score'') (\<lambda>score.
     sbind (case obj_get data ''requires_human_review'' of
              None \<Rightarrow> Inr False
            | v \<Rightarrow> strict_bool v ''systems gate decision requires_human_review'') (\<lambda>review.
     mk_decision
       \<lparr>gd_route = route, gd_permitted = permitted, gd_reasons = reasons,
        gd_complexity_score = score,
        gd_assessment_fingerprint = get_str h data ''assessment_fingerprint'' [],
        gd_requires_human_review = review,
        gd_review_fingerprint = opt_str h data ''strategy_coherence_review_fingerprint'',
        gd_schema = get_str h data ''schema'' []\<rparr>)))))"

subsection \<open>Outcome records\<close>

datatype metric_status = NOT_OBSERVED | CONFIRMED_MOVED | CONFIRMED_UNCHANGED

fun metric_str :: "metric_status \<Rightarrow> string" where
  "metric_str NOT_OBSERVED = ''not_observed''"
| "metric_str CONFIRMED_MOVED = ''confirmed_moved''"
| "metric_str CONFIRMED_UNCHANGED = ''confirmed_unchanged''"

definition metric_members :: "(string \<times> metric_status) list" where
  "metric_members = map (\<lambda>m. (metric_str m, m)) [NOT_OBSERVED, CONFIRMED_MOVED, CONFIRMED_UNCHANGED]"

definition negative :: "int option \<Rightarrow> bool" where
  "negative v = (case v of None \<Rightarrow> False | Some i \<Rightarrow> i < 0)"

definition invalid_codes :: "string list \<Rightarrow> bool" where
  "invalid_codes codes = (codes = [] \<or> (\<exists>c \<in> set codes. \<not> code_pattern c))"

record outcome_evidence =
  oe_assessment_fingerprint :: string
  oe_decision_fingerprint :: string
  oe_success_metric_sha256 :: string
  oe_metric_status :: metric_status
  oe_unintended_effects_detected :: bool
  oe_observed_complexity_score :: "int option"
  oe_removal_candidate_count :: int
  oe_stop_condition_checked :: bool
  oe_stop_condition_triggered :: "bool option"
  oe_reason_codes :: "string list"
  oe_schema :: string

definition evidence_schema :: string where
  "evidence_schema = ''master-agent/systems-outcome-evidence@1''"

definition mk_evidence :: "outcome_evidence \<Rightarrow> exn + outcome_evidence" where
  "mk_evidence e =
     checked
       [fail_if (oe_schema e \<noteq> evidence_schema)
          (invalid ''unsupported systems outcome evidence schema''),
        fail_if (\<not> is_sha256 (oe_assessment_fingerprint e))
          (invalid ''systems outcome evidence assessment_fingerprint must be a SHA-256 digest''),
        fail_if (\<not> is_sha256 (oe_decision_fingerprint e))
          (invalid ''systems outcome evidence decision_fingerprint must be a SHA-256 digest''),
        fail_if (\<not> is_sha256 (oe_success_metric_sha256 e))
          (invalid ''systems outcome evidence success_metric_sha256 must be a SHA-256 digest''),
        fail_if (oe_metric_status e = NOT_OBSERVED)
          (invalid ''systems outcome evidence must independently observe the metric''),
        fail_if (oe_stop_condition_checked e \<and> oe_stop_condition_triggered e = None)
          (invalid ''checked systems outcome evidence requires a stop-condition result''),
        fail_if (\<not> oe_stop_condition_checked e \<and> oe_stop_condition_triggered e \<noteq> None)
          (invalid ''unchecked systems outcome evidence cannot state a stop result''),
        fail_if (negative (oe_observed_complexity_score e))
          (invalid ''systems outcome evidence observed_complexity_score must be non-negative or null''),
        fail_if (oe_removal_candidate_count e < 0)
          (invalid ''systems outcome evidence removal_candidate_count must be a non-negative integer''),
        fail_if (invalid_codes (oe_reason_codes e))
          (invalid ''systems outcome evidence reason codes are invalid'')] e"

definition for_observation ::
  "host \<Rightarrow> systems_assessment \<Rightarrow> gate_decision \<Rightarrow> metric_status \<Rightarrow> bool \<Rightarrow> int option \<Rightarrow> int \<Rightarrow> bool
     \<Rightarrow> bool option \<Rightarrow> string list \<Rightarrow> exn + outcome_evidence"
where
  "for_observation h a d status unintended observed removal stop_checked stop_triggered codes =
     mk_evidence
       \<lparr>oe_assessment_fingerprint = assessment_fingerprint h a,
        oe_decision_fingerprint = decision_fingerprint h d,
        oe_success_metric_sha256 = success_metric_sha256 h a,
        oe_metric_status = status, oe_unintended_effects_detected = unintended,
        oe_observed_complexity_score = observed, oe_removal_candidate_count = removal,
        oe_stop_condition_checked = stop_checked, oe_stop_condition_triggered = stop_triggered,
        oe_reason_codes = codes, oe_schema = evidence_schema\<rparr>"

definition evidence_to_dict :: "outcome_evidence \<Rightarrow> json_object" where
  "evidence_to_dict e =
     [(''schema'', JStr (oe_schema e)),
      (''assessment_fingerprint'', JStr (oe_assessment_fingerprint e)),
      (''decision_fingerprint'', JStr (oe_decision_fingerprint e)),
      (''success_metric_sha256'', JStr (oe_success_metric_sha256 e)),
      (''metric_status'', JStr (metric_str (oe_metric_status e))),
      (''unintended_effects_detected'', JBool (oe_unintended_effects_detected e)),
      (''observed_complexity_score'', optional JInt (oe_observed_complexity_score e)),
      (''removal_candidate_count'', JInt (oe_removal_candidate_count e)),
      (''stop_condition_checked'', JBool (oe_stop_condition_checked e)),
      (''stop_condition_triggered'', optional JBool (oe_stop_condition_triggered e)),
      (''reason_codes'', strings (oe_reason_codes e))]"

definition opt_int :: "json_object \<Rightarrow> string \<Rightarrow> string \<Rightarrow> exn + int option" where
  "opt_int data k name =
     (if present data k then sbind (strict_int (obj_get data k) name) (\<lambda>i. Inr (Some i)) else Inr None)"

definition opt_bool :: "json_object \<Rightarrow> string \<Rightarrow> string \<Rightarrow> exn + bool option" where
  "opt_bool data k name =
     (if present data k then sbind (strict_bool (obj_get data k) name) (\<lambda>b. Inr (Some b)) else Inr None)"

definition evidence_from_dict :: "host \<Rightarrow> json_object \<Rightarrow> exn + outcome_evidence" where
  "evidence_from_dict h data =
     sbind (parse_enum metric_members (get_str h data ''metric_status'' [])) (\<lambda>status.
     sbind (strict_bool (obj_get data ''unintended_effects_detected'')
              ''systems outcome evidence unintended_effects_detected'') (\<lambda>unintended.
     sbind (opt_int data ''observed_complexity_score''
              ''systems outcome evidence observed_complexity_score'') (\<lambda>observed.
     sbind (strict_int (obj_get data ''removal_candidate_count'')
              ''systems outcome evidence removal_candidate_count'') (\<lambda>removal.
     sbind (strict_bool (obj_get data ''stop_condition_checked'')
              ''systems outcome evidence stop_condition_checked'') (\<lambda>stop_checked.
     sbind (opt_bool data ''stop_condition_triggered''
              ''systems outcome evidence stop_condition_triggered'') (\<lambda>stop_triggered.
     sbind (systems_text_list data ''reason_codes'') (\<lambda>codes.
     mk_evidence
       \<lparr>oe_assessment_fingerprint = get_str h data ''assessment_fingerprint'' [],
        oe_decision_fingerprint = get_str h data ''decision_fingerprint'' [],
        oe_success_metric_sha256 = get_str h data ''success_metric_sha256'' [],
        oe_metric_status = status, oe_unintended_effects_detected = unintended,
        oe_observed_complexity_score = observed, oe_removal_candidate_count = removal,
        oe_stop_condition_checked = stop_checked, oe_stop_condition_triggered = stop_triggered,
        oe_reason_codes = codes, oe_schema = get_str h data ''schema'' []\<rparr>)))))))"

record post_review =
  pr_assessment_fingerprint :: string
  pr_decision_fingerprint :: string
  pr_success_metric_sha256 :: string
  pr_metric_status :: metric_status
  pr_unintended_effects_detected :: bool
  pr_planned_complexity_score :: int
  pr_removal_candidate_count :: int
  pr_stop_condition_checked :: bool
  pr_reassessment_required :: bool
  pr_reason_codes :: "string list"
  pr_observed_complexity_score :: "int option"
  pr_complexity_growth :: "int option"
  pr_stop_condition_triggered :: "bool option"
  pr_schema :: string

definition post_schema_1 :: string where
  "post_schema_1 = ''master-agent/systems-post-execution-review@1''"

definition post_schema_2 :: string where
  "post_schema_2 = ''master-agent/systems-post-execution-review@2''"

definition mk_post_review :: "post_review \<Rightarrow> exn + post_review" where
  "mk_post_review r =
     checked
       [fail_if (pr_schema r \<noteq> post_schema_1 \<and> pr_schema r \<noteq> post_schema_2)
          (invalid ''unsupported systems post-execution review schema''),
        fail_if (\<not> is_sha256 (pr_assessment_fingerprint r))
          (invalid ''systems review assessment_fingerprint must be a SHA-256 digest''),
        fail_if (\<not> is_sha256 (pr_decision_fingerprint r))
          (invalid ''systems review decision_fingerprint must be a SHA-256 digest''),
        fail_if (\<not> is_sha256 (pr_success_metric_sha256 r))
          (invalid ''systems review success_metric_sha256 must be a SHA-256 digest''),
        fail_if (pr_planned_complexity_score r < 0)
          (invalid ''systems review planned_complexity_score must be a non-negative integer''),
        fail_if (pr_removal_candidate_count r < 0)
          (invalid ''systems review removal_candidate_count must be a non-negative integer''),
        fail_if (negative (pr_observed_complexity_score r))
          (invalid ''systems review observed_complexity_score must be non-negative''),
        fail_if (pr_schema r = post_schema_2 \<and> pr_stop_condition_checked r
                 \<and> pr_stop_condition_triggered r = None)
          (invalid ''checked systems review requires a stop-condition result''),
        fail_if (pr_schema r = post_schema_2 \<and> \<not> pr_stop_condition_checked r
                 \<and> pr_stop_condition_triggered r \<noteq> None)
          (invalid ''unchecked systems review cannot state a stop-condition result''),
        fail_if (invalid_codes (pr_reason_codes r))
          (invalid ''systems review reason codes are invalid'')] r"

definition post_review_to_dict :: "post_review \<Rightarrow> json_object" where
  "post_review_to_dict r =
     [(''schema'', JStr (pr_schema r)),
      (''assessment_fingerprint'', JStr (pr_assessment_fingerprint r)),
      (''decision_fingerprint'', JStr (pr_decision_fingerprint r)),
      (''success_metric_sha256'', JStr (pr_success_metric_sha256 r)),
      (''metric_status'', JStr (metric_str (pr_metric_status r))),
      (''unintended_effects_detected'', JBool (pr_unintended_effects_detected r)),
      (''planned_complexity_score'', JInt (pr_planned_complexity_score r)),
      (''removal_candidate_count'', JInt (pr_removal_candidate_count r)),
      (''stop_condition_checked'', JBool (pr_stop_condition_checked r)),
      (''reassessment_required'', JBool (pr_reassessment_required r)),
      (''reason_codes'', strings (pr_reason_codes r))]
     @ (if pr_schema r = post_schema_2
        then [(''observed_complexity_score'', optional JInt (pr_observed_complexity_score r)),
              (''complexity_growth'', optional JInt (pr_complexity_growth r)),
              (''stop_condition_triggered'', optional JBool (pr_stop_condition_triggered r))]
        else [])"

definition post_review_from_dict :: "host \<Rightarrow> json_object \<Rightarrow> exn + post_review" where
  "post_review_from_dict h data =
     sbind (parse_enum metric_members (get_str h data ''metric_status'' [])) (\<lambda>status.
     sbind (strict_bool (obj_get data ''unintended_effects_detected'')
              ''systems review unintended_effects_detected'') (\<lambda>unintended.
     sbind (strict_int (obj_get data ''planned_complexity_score'')
              ''systems review planned_complexity_score'') (\<lambda>planned.
     sbind (strict_int (obj_get data ''removal_candidate_count'')
              ''systems review removal_candidate_count'') (\<lambda>removal.
     sbind (strict_bool (obj_get data ''stop_condition_checked'')
              ''systems review stop_condition_checked'') (\<lambda>stop_checked.
     sbind (strict_bool (obj_get data ''reassessment_required'')
              ''systems review reassessment_required'') (\<lambda>reassess.
     sbind (systems_text_list data ''reason_codes'') (\<lambda>codes.
     sbind (opt_int data ''observed_complexity_score''
              ''systems review observed_complexity_score'') (\<lambda>observed.
     sbind (opt_int data ''complexity_growth'' ''systems review complexity_growth'') (\<lambda>growth.
     sbind (opt_bool data ''stop_condition_triggered''
              ''systems review stop_condition_triggered'') (\<lambda>stop_triggered.
     mk_post_review
       \<lparr>pr_assessment_fingerprint = get_str h data ''assessment_fingerprint'' [],
        pr_decision_fingerprint = get_str h data ''decision_fingerprint'' [],
        pr_success_metric_sha256 = get_str h data ''success_metric_sha256'' [],
        pr_metric_status = status, pr_unintended_effects_detected = unintended,
        pr_planned_complexity_score = planned, pr_removal_candidate_count = removal,
        pr_stop_condition_checked = stop_checked, pr_reassessment_required = reassess,
        pr_reason_codes = codes, pr_observed_complexity_score = observed,
        pr_complexity_growth = growth, pr_stop_condition_triggered = stop_triggered,
        pr_schema = get_str h data ''schema'' []\<rparr>))))))))))"

subsection \<open>Round trips\<close>

lemma complexity_item_eta [record_eta]:
  "\<lparr>ci_kind = ci_kind x, ci_description = ci_description x\<rparr> = (x :: complexity_item)"
  by (cases x) simp

lemma strategy_action_intent_eta [record_eta]:
  "\<lparr>si_intent_id = si_intent_id x, si_description = si_description x,
    si_expected_effect = si_expected_effect x, si_schema = si_schema x\<rparr> = (x :: strategy_action_intent)"
  by (cases x) simp

lemma strategy_kernel_eta [record_eta]:
  "\<lparr>sk_diagnosis = sk_diagnosis x, sk_guiding_policy = sk_guiding_policy x,
    sk_proximate_objective = sk_proximate_objective x, sk_tradeoffs = sk_tradeoffs x,
    sk_coherent_actions = sk_coherent_actions x, sk_schema = sk_schema x\<rparr> = (x :: strategy_kernel)"
  by (cases x) simp

lemma strategy_trace_eta [record_eta]:
  "\<lparr>tr_action_id = tr_action_id x, tr_intent_id = tr_intent_id x, tr_schema = tr_schema x\<rparr> = (x :: strategy_trace)"
  by (cases x) simp

lemma systems_assessment_eta [record_eta]:
  "\<lparr>sa_desired_outcome = sa_desired_outcome x, sa_current_behavior = sa_current_behavior x,
    sa_constraint = sa_constraint x, sa_leverage_point = sa_leverage_point x,
    sa_simplest_intervention = sa_simplest_intervention x,
    sa_success_metric = sa_success_metric x, sa_failure_condition = sa_failure_condition x,
    sa_low_risk = sa_low_risk x, sa_reversible = sa_reversible x,
    sa_well_understood = sa_well_understood x, sa_stocks = sa_stocks x,
    sa_flows = sa_flows x, sa_feedback_loops = sa_feedback_loops x, sa_delays = sa_delays x,
    sa_unintended_consequences = sa_unintended_consequences x,
    sa_removable_complexity = sa_removable_complexity x,
    sa_alternatives_considered = sa_alternatives_considered x,
    sa_added_complexity = sa_added_complexity x,
    sa_existing_mechanisms = sa_existing_mechanisms x,
    sa_reversibility_strategy = sa_reversibility_strategy x,
    sa_strategy_kernel = sa_strategy_kernel x, sa_schema = sa_schema x\<rparr> = (x :: systems_assessment)"
  by (cases x) simp

lemma coherence_review_eta [record_eta]:
  "\<lparr>cv_assessment_fingerprint = cv_assessment_fingerprint x,
    cv_kernel_fingerprint = cv_kernel_fingerprint x,
    cv_diagnosis_addresses_constraint = cv_diagnosis_addresses_constraint x,
    cv_guiding_policy_targets_leverage_point = cv_guiding_policy_targets_leverage_point x,
    cv_proximate_objective_advances_outcome = cv_proximate_objective_advances_outcome x,
    cv_coherent_actions_support_success_metric = cv_coherent_actions_support_success_metric x,
    cv_tradeoffs_cover_alternatives = cv_tradeoffs_cover_alternatives x,
    cv_reason_codes = cv_reason_codes x, cv_schema = cv_schema x\<rparr> = (x :: coherence_review)"
  by (cases x) simp

lemma gate_decision_eta [record_eta]:
  "\<lparr>gd_route = gd_route x, gd_permitted = gd_permitted x, gd_reasons = gd_reasons x,
    gd_complexity_score = gd_complexity_score x,
    gd_assessment_fingerprint = gd_assessment_fingerprint x,
    gd_requires_human_review = gd_requires_human_review x,
    gd_review_fingerprint = gd_review_fingerprint x, gd_schema = gd_schema x\<rparr> = (x :: gate_decision)"
  by (cases x) simp

lemma outcome_evidence_eta [record_eta]:
  "\<lparr>oe_assessment_fingerprint = oe_assessment_fingerprint x,
    oe_decision_fingerprint = oe_decision_fingerprint x,
    oe_success_metric_sha256 = oe_success_metric_sha256 x,
    oe_metric_status = oe_metric_status x,
    oe_unintended_effects_detected = oe_unintended_effects_detected x,
    oe_observed_complexity_score = oe_observed_complexity_score x,
    oe_removal_candidate_count = oe_removal_candidate_count x,
    oe_stop_condition_checked = oe_stop_condition_checked x,
    oe_stop_condition_triggered = oe_stop_condition_triggered x,
    oe_reason_codes = oe_reason_codes x, oe_schema = oe_schema x\<rparr> = (x :: outcome_evidence)"
  by (cases x) simp

lemma post_review_eta [record_eta]:
  "\<lparr>pr_assessment_fingerprint = pr_assessment_fingerprint x,
    pr_decision_fingerprint = pr_decision_fingerprint x,
    pr_success_metric_sha256 = pr_success_metric_sha256 x,
    pr_metric_status = pr_metric_status x,
    pr_unintended_effects_detected = pr_unintended_effects_detected x,
    pr_planned_complexity_score = pr_planned_complexity_score x,
    pr_removal_candidate_count = pr_removal_candidate_count x,
    pr_stop_condition_checked = pr_stop_condition_checked x,
    pr_reassessment_required = pr_reassessment_required x,
    pr_reason_codes = pr_reason_codes x,
    pr_observed_complexity_score = pr_observed_complexity_score x,
    pr_complexity_growth = pr_complexity_growth x,
    pr_stop_condition_triggered = pr_stop_condition_triggered x, pr_schema = pr_schema x\<rparr> = (x :: post_review)"
  by (cases x) simp

lemma kind_members_str [simp]: "parse_enum kind_members (kind_str k) = Inr k"
  by (cases k) (simp_all add: kind_members_def parse_enum_def)

lemma route_members_str [simp]: "parse_enum route_members (route_str r) = Inr r"
  by (cases r) (simp_all add: route_members_def parse_enum_def)

lemma metric_members_str [simp]: "parse_enum metric_members (metric_str m) = Inr m"
  by (cases m) (simp_all add: metric_members_def parse_enum_def)

lemma systems_text_list_strings [decode_simps]:
  "obj_get data k = Some (strings ss) \<Longrightarrow> systems_text_list data k = Inr ss"
  by (simp add: systems_text_list_def string_list_strings)

lemma opt_int_optional: "obj_get data k = Some (optional JInt v) \<Longrightarrow> opt_int data k name = Inr v"
  by (cases v) (simp_all add: opt_int_def present_def optional_def strict_JInt)

lemma opt_bool_optional: "obj_get data k = Some (optional JBool v) \<Longrightarrow> opt_bool data k name = Inr v"
  by (cases v) (simp_all add: opt_bool_def present_def optional_def strict_JBool)

lemma opt_missing [simp]:
  "obj_get data k = None \<Longrightarrow> opt_int data k name = Inr None"
  "obj_get data k = None \<Longrightarrow> opt_bool data k name = Inr None"
  by (simp_all add: opt_int_def opt_bool_def present_def)

definition kernel_valid :: "strategy_kernel \<Rightarrow> bool" where
  "kernel_valid k = (mk_kernel k = Inr k \<and> (\<forall>i \<in> set (sk_coherent_actions k). mk_intent i = Inr i))"

definition assessment_valid :: "systems_assessment \<Rightarrow> bool" where
  "assessment_valid a =
     (mk_assessment a = Inr a \<and> (\<forall>c \<in> set (sa_added_complexity a). mk_complexity_item c = Inr c)
      \<and> (case sa_strategy_kernel a of None \<Rightarrow> True | Some k \<Rightarrow> kernel_valid k))"

text \<open>A record written with the first schema carries no outcome fields.\<close>

definition post_review_valid :: "post_review \<Rightarrow> bool" where
  "post_review_valid r =
     (mk_post_review r = Inr r
      \<and> (pr_schema r = post_schema_1 \<longrightarrow> pr_observed_complexity_score r = None
           \<and> pr_complexity_growth r = None \<and> pr_stop_condition_triggered r = None))"

definition trace_valid :: "host \<Rightarrow> strategy_trace \<Rightarrow> bool" where
  "trace_valid h t = (host_laws h \<and> canonical_uuid (tr_action_id t) \<and> mk_trace t = Inr t)"

interpretation complexity_item: codec "\<lambda>c. mk_complexity_item c = Inr c" complexity_item_to_dict
  "complexity_item_from_dict h" for h
  by unfold_locales
     (simp add: complexity_item_to_dict_def complexity_item_from_dict_def get_str_def record_eta decode_simps
        checked_Inr)

interpretation intent: codec "\<lambda>i. mk_intent i = Inr i" intent_to_dict "intent_from_dict h" for h
  by unfold_locales (simp add: intent_to_dict_def intent_from_dict_def get_str_def record_eta decode_simps)

interpretation trace: codec "trace_valid h" trace_to_dict "trace_from_dict h" for h
  by unfold_locales
     (simp add: trace_valid_def trace_to_dict_def trace_from_dict_def get_str_def record_eta parse_uuid_def
        host_lawsD decode_simps)

interpretation kernel: codec kernel_valid kernel_to_dict "kernel_from_dict h" for h
  by unfold_locales
     (simp add: kernel_valid_def kernel_to_dict_def kernel_from_dict_def get_str_def record_eta decode_simps
        intent.list_reads_back)

interpretation assessment: codec assessment_valid assessment_to_dict "assessment_from_dict h" for h
proof unfold_locales
  fix x :: systems_assessment
  assume "assessment_valid x"
  then show "assessment_from_dict h (assessment_to_dict x) = Inr x"
    by (cases x)
       (auto simp: assessment_valid_def assessment_to_dict_def assessment_from_dict_def get_str_def
          raw_kernel_def decode_simps complexity_item.list_reads_back kernel.reads_back checked_Inr
          complexity_score_def split: option.splits)
qed

interpretation review: codec "\<lambda>r. mk_review r = Inr r" review_to_dict "review_from_dict h" for h
  by unfold_locales
     (simp add: review_to_dict_def review_from_dict_def coherence_findings_def get_str_def record_eta decode_simps)

interpretation decision: codec "\<lambda>d. mk_decision d = Inr d" decision_to_dict "decision_from_dict h" for h
proof unfold_locales
  fix x :: gate_decision
  assume "mk_decision x = Inr x"
  then show "decision_from_dict h (decision_to_dict x) = Inr x"
    by (cases x) (auto simp: decision_to_dict_def decision_from_dict_def get_str_def opt_str_def
        decode_simps split: option.splits)
qed

interpretation evidence: codec "\<lambda>e. mk_evidence e = Inr e" evidence_to_dict "evidence_from_dict h" for h
  by unfold_locales
     (simp add: evidence_to_dict_def evidence_from_dict_def get_str_def record_eta decode_simps
        opt_int_optional opt_bool_optional)

lemma post_schemas_differ [simp]: "post_schema_1 \<noteq> post_schema_2" "post_schema_2 \<noteq> post_schema_1"
  by (simp_all add: post_schema_1_def post_schema_2_def)

lemma mk_post_review_schema:
  "mk_post_review r = Inr r \<Longrightarrow> pr_schema r = post_schema_1 \<or> pr_schema r = post_schema_2"
  by (auto simp: mk_post_review_def checked_Inr)

interpretation post_review: codec post_review_valid post_review_to_dict "post_review_from_dict h" for h
proof unfold_locales
  fix x assume x: "post_review_valid x"
  then have "pr_schema x = post_schema_1 \<or> pr_schema x = post_schema_2"
    by (simp add: post_review_valid_def mk_post_review_schema)
  then show "post_review_from_dict h (post_review_to_dict x) = Inr x"
  proof
    assume one: "pr_schema x = post_schema_1"
    with x have "x = x\<lparr>pr_observed_complexity_score := None, pr_complexity_growth := None,
        pr_stop_condition_triggered := None\<rparr>" and "mk_post_review x = Inr x"
      by (simp_all add: post_review_valid_def)
    with one show ?thesis
      by (cases x) (simp add: post_review_to_dict_def post_review_from_dict_def get_str_def record_eta decode_simps)
  next
    assume "pr_schema x = post_schema_2"
    with x show ?thesis
      by (cases x) (simp add: post_review_valid_def post_review_to_dict_def post_review_from_dict_def get_str_def record_eta
          decode_simps opt_int_optional opt_bool_optional)
  qed
qed

end
