(* ===== verification/Canonical_Json.thy ===== *)
theory Canonical_Json
  imports Json
begin

text \<open>
  The canonical serialisation determines the value it was computed from, up to the order of object
  keys: strings are a prefix code, numbers and literals end at a delimiter, and the kind of a value
  shows in its first character. Equal fingerprints therefore come from equal values or from a
  collision of the digest function.
\<close>

subsection \<open>The serialisation is unambiguous\<close>

definition digit_chars :: string where
  "digit_chars = ''0123456789''"

definition float_repr :: "string \<Rightarrow> bool" where
  "float_repr r =
     (r \<noteq> [] \<and> (hd r = CHR ''-'' \<or> hd r \<in> set digit_chars) \<and> set r \<subseteq> set digit_chars \<union> set ''+-.e''
      \<and> (CHR ''.'' \<in> set r \<or> CHR ''e'' \<in> set r))"

text \<open>Values \<open>json.dumps(\<dots>, allow_nan=False)\<close> accepts.\<close>

fun plain_json :: "json \<Rightarrow> bool" where
  "plain_json (JFloat fin r) = (fin \<and> float_repr r)"
| "plain_json (JList xs) = (\<forall>x \<in> set xs. plain_json x)"
| "plain_json (JObj kvs) = (\<forall>kv \<in> set kvs. plain_json (snd kv))"
| "plain_json (JOther t) = False"
| "plain_json _ = True"

lemma hex_char_inj: "m < 16 \<Longrightarrow> n < 16 \<Longrightarrow> hex_char m = hex_char n \<Longrightarrow> m = n"
proof -
  have "distinct hex_digits" and "length hex_digits = 16" by (simp_all add: hex_digits_def)
  then show "m < 16 \<Longrightarrow> n < 16 \<Longrightarrow> hex_char m = hex_char n \<Longrightarrow> m = n"
    by (simp add: hex_char_def nth_eq_iff_index_eq)
qed

lemma hex_char_mod: "hex_char n = hex_char (n mod 16)"
  by (simp add: hex_char_def)

lemma hex_pair_inj:
  fixes m n :: nat
  assumes "m < 256" "n < 256" "hex_char (m div 16) = hex_char (n div 16)" "hex_char m = hex_char n"
  shows "m = n"
proof -
  have "m div 16 = n div 16" using assms hex_char_inj by simp
  moreover have "m mod 16 = n mod 16"
    using assms(4) hex_char_inj [of "m mod 16" "n mod 16"] by (simp flip: hex_char_mod)
  ultimately show ?thesis by (metis div_mult_mod_eq)
qed

lemma of_char_eq: "(of_char c :: nat) = of_char d \<Longrightarrow> c = d"
  by (metis char_of_char)

lemma of_char_less [simp]: "(of_char c :: nat) < 256"
  by (simp add: nat_of_char_less_256)

lemma escape_char_not_quote: "\<exists>d s. escape_char c = d # s \<and> d \<noteq> quote_char"
  by (auto simp: escape_char_def quote_char_def backslash_def)

lemma escape_char_prefix_free:
  assumes "escape_char c @ x = escape_char d @ y"
  shows "c = d \<and> x = y"
proof -
  have hex: "c = d" if "hex_char (of_char c div 16) = hex_char (of_char d div 16)"
    "hex_char (of_char c) = hex_char (of_char d)"
    by (rule of_char_eq, rule hex_pair_inj) (use that in auto)
  show ?thesis
    using assms hex unfolding escape_char_def quote_char_def backslash_def
    by (auto split: if_splits)
qed

lemma escaped_prefix_free:
  "concat (map escape_char s) @ quote_char # u = concat (map escape_char t) @ quote_char # v \<Longrightarrow>
   s = t \<and> u = v"
proof (induction s arbitrary: t)
  case Nil
  then show ?case using escape_char_not_quote by (cases t) (auto, metis append_Cons list.inject)
next
  case (Cons c s)
  show ?case
  proof (cases t)
    case Nil
    then show ?thesis using Cons.prems escape_char_not_quote [of c] by auto
  next
    case (Cons d t')
    then show ?thesis using Cons.prems Cons.IH [of t'] escape_char_prefix_free [of c _ d] by auto
  qed
qed

lemma render_string_prefix_free:
  "render_string s @ u = render_string t @ v \<Longrightarrow> s = t \<and> u = v"
  by (auto simp: render_string_def dest: escaped_prefix_free)

text \<open>Numbers and literals end at a delimiter.\<close>

definition delimiter :: "char \<Rightarrow> bool" where
  "delimiter c = (c = CHR '','' \<or> c = CHR '']'' \<or> c = CHR ''}'')"

definition delimited :: "string \<Rightarrow> bool" where
  "delimited u = (case u of [] \<Rightarrow> True | c # _ \<Rightarrow> delimiter c)"

lemma token_ends:
  assumes "x @ u = y @ v" "\<forall>c \<in> set x. \<not> delimiter c" "\<forall>c \<in> set y. \<not> delimiter c"
    "delimited u" "delimited v"
  shows "x = y \<and> u = v"
  using assms
proof (induction x arbitrary: y)
  case Nil
  then show ?case by (cases y) (auto simp: delimited_def split: list.splits)
next
  case (Cons c x)
  then show ?case by (cases y) (auto simp: delimited_def split: list.splits)
qed

definition digits_value :: "string \<Rightarrow> nat" where
  "digits_value s = foldl (\<lambda>a c. 10 * a + (of_char c - 48)) 0 s"

lemma of_char_digit: "n < 10 \<Longrightarrow> (of_char (char_of (48 + n)) :: nat) = 48 + n"
  by (simp add: of_char_of)

lemma digits_value_nat_digits: "digits_value (nat_digits n) = n"
proof (induction n rule: nat_digits.induct)
  case (1 n)
  then show ?case
    by (subst nat_digits.simps) (auto simp: digits_value_def of_char_digit)
qed

lemma nat_digits_inj: "nat_digits m = nat_digits n \<Longrightarrow> m = n"
  by (metis digits_value_nat_digits)

lemma char_of_digit_mem: "(n :: nat) < 10 \<Longrightarrow> char_of (48 + n) \<in> set digit_chars"
proof -
  assume "n < 10"
  then have "n \<in> set [0, 1, 2, 3, 4, 5, 6, 7, 8, 9]" by (simp add: less_Suc_eq numeral_eq_Suc)
  moreover have "list_all (\<lambda>n :: nat. char_of (48 + n) \<in> set digit_chars) [0, 1, 2, 3, 4, 5, 6, 7, 8, 9]"
    by code_simp
  ultimately show ?thesis unfolding list_all_iff by blast
qed

lemma nat_digits_set: "set (nat_digits n) \<subseteq> set digit_chars"
proof (induction n rule: nat_digits.induct)
  case (1 n)
  then show ?case
    using char_of_digit_mem [of n] char_of_digit_mem [of "n mod 10"]
    by (subst nat_digits.simps) auto
qed

lemma nat_digits_nonempty [simp]: "nat_digits n \<noteq> []"
  by (subst nat_digits.simps) simp

lemma render_int_set: "set (render_int i) \<subseteq> insert (CHR ''-'') (set digit_chars)"
  using nat_digits_set by (auto simp: render_int_def)

lemma render_int_nonempty [simp]: "render_int i \<noteq> []"
  by (simp add: render_int_def)

lemma minus_not_digit: "nat_digits m \<noteq> CHR ''-'' # s"
  using nat_digits_set [of m] by (auto simp: digit_chars_def)

lemma render_int_inj: "render_int i = render_int j \<Longrightarrow> i = j"
  by (auto simp: render_int_def minus_not_digit minus_not_digit [symmetric] dest!: nat_digits_inj
      split: if_splits)

lemma render_int_not_float: "float_repr r \<Longrightarrow> render_int i \<noteq> r"
  using render_int_set [of i] by (auto simp: float_repr_def digit_chars_def)

lemma hd_render_int: "hd (render_int i) = CHR ''-'' \<or> hd (render_int i) \<in> set digit_chars"
  using render_int_set [of i] hd_in_set [OF render_int_nonempty, of i] by blast

lemma digit_no_delimiter: "c \<in> set digit_chars \<Longrightarrow> \<not> delimiter c"
  by (auto simp: digit_chars_def delimiter_def)

lemma int_no_delimiter: "\<forall>c \<in> set (render_int i). \<not> delimiter c"
  using render_int_set [of i] digit_no_delimiter by (auto simp: delimiter_def)

lemma float_no_delimiter: "float_repr r \<Longrightarrow> \<forall>c \<in> set r. \<not> delimiter c"
proof
  fix c assume "float_repr r" and "c \<in> set r"
  then have "c \<in> set digit_chars \<or> c \<in> set ''+-.e''" by (auto simp: float_repr_def)
  then show "\<not> delimiter c"
  proof
    assume "c \<in> set ''+-.e''"
    then show ?thesis by (auto simp: delimiter_def)
  qed (rule digit_no_delimiter)
qed

text \<open>What kind of value a text starts.\<close>

fun lead :: "json \<Rightarrow> string" where
  "lead JNull = ''n''"
| "lead (JBool b) = (if b then ''t'' else ''f'')"
| "lead (JInt i) = CHR ''-'' # digit_chars"
| "lead (JFloat fin r) = CHR ''-'' # digit_chars"
| "lead (JStr s) = [quote_char]"
| "lead (JList xs) = ''[''"
| "lead (JObj kvs) = ''{''"
| "lead (JOther t) = []"

lemma stable_json_lead:
  assumes "plain_json j"
  shows "stable_json j \<noteq> [] \<and> hd (stable_json j) \<in> set (lead j)"
  using assms hd_render_int
  by (cases j) (auto simp: render_string_def float_repr_def)

lemma sequence_prefix_free:
  assumes item: "\<And>x y u v. x \<in> set xs \<Longrightarrow> y \<in> set ys \<Longrightarrow> delimited u \<Longrightarrow> delimited v \<Longrightarrow>
      r x @ u = r y @ v \<Longrightarrow> R x y \<and> u = v"
    and start: "\<And>x. x \<in> set xs \<union> set ys \<Longrightarrow> r x \<noteq> [] \<and> \<not> delimiter (hd (r x))"
    and close: "delimiter c" "c \<noteq> CHR '',''"
    and eq: "comma_separated (map r xs) @ c # u = comma_separated (map r ys) @ c # v"
  shows "list_all2 R xs ys \<and> u = v"
  using item start eq
proof (induction xs arbitrary: ys)
  case Nil
  show ?case
  proof (cases ys)
    case Nil
    then show ?thesis using Nil.prems by simp
  next
    case (Cons y ys')
    have "r y \<noteq> [] \<and> \<not> delimiter (hd (r y))" using Nil.prems(2) Cons by simp
    then obtain d s where "r y = d # s" "\<not> delimiter d" by (cases "r y") auto
    then show ?thesis using Nil.prems(3) Cons close by (cases ys') auto
  qed
next
  case (Cons x xs)
  have "r x \<noteq> [] \<and> \<not> delimiter (hd (r x))" using Cons.prems(2) by simp
  then obtain d s where x: "r x = d # s" "\<not> delimiter d" by (cases "r x") auto
  show ?case
  proof (cases ys)
    case Nil
    then show ?thesis using Cons.prems(3) x close by (cases xs) auto
  next
    case ys: (Cons y ys')
    define rest where "rest = (\<lambda>zs w. if zs = [] then c # w else CHR '','' # comma_separated (map r zs) @ c # w)"
    have split: "comma_separated (map r (z # zs)) @ c # w = r z @ rest zs w" for z zs w
      by (cases zs) (simp_all add: rest_def)
    have delim: "delimited (rest zs w)" for zs w
      using close by (auto simp: rest_def delimited_def delimiter_def)
    have "r x @ rest xs u = r y @ rest ys' v"
      using Cons.prems(3) unfolding ys split .
    then have first: "R x y" and more: "rest xs u = rest ys' v"
      using Cons.prems(1) [of x y "rest xs u" "rest ys' v"] delim ys by auto
    from more have "comma_separated (map r xs) @ c # u = comma_separated (map r ys') @ c # v"
      using close by (auto simp: rest_def split: if_splits)
    then have "list_all2 R xs ys' \<and> u = v"
      using Cons.IH [of ys'] Cons.prems(1,2) ys by auto
    with first ys show ?thesis by simp
  qed
qed

lemma lead_clash:
  "c \<in> set (lead j) \<Longrightarrow> \<not> delimiter c"
  by (cases j) (auto simp: delimiter_def digit_chars_def quote_char_def split: if_splits)

lemma stable_json_start:
  "plain_json j \<Longrightarrow> stable_json j \<noteq> [] \<and> \<not> delimiter (hd (stable_json j))"
  using stable_json_lead lead_clash by blast

definition member_text :: "string \<times> json \<Rightarrow> string" where
  "member_text kv = render_string (fst kv) @ '':'' @ stable_json (snd kv)"

lemma stable_json_JObj:
  "stable_json (JObj kvs) = ''{'' @ comma_separated (map member_text (sort_key fst kvs)) @ ''}''"
proof -
  have "sort_key fst (map (\<lambda>(k, v). (k, stable_json v)) kvs) = map (on_snd stable_json) (sort_key fst kvs)"
    using sort_key_on_snd [of stable_json kvs] by (simp add: on_snd_def split_def)
  then show ?thesis by (simp add: on_snd_def member_text_def [abs_def] o_def split_def)
qed

lemma same_lead:
  assumes "stable_json a @ u = stable_json b @ v" "plain_json a" "plain_json b"
  shows "hd (stable_json a) \<in> set (lead a) \<inter> set (lead b)"
proof -
  have "hd (stable_json a) = hd (stable_json b)"
    using assms stable_json_lead [of a] stable_json_lead [of b] by (metis hd_append2)
  then show ?thesis using assms stable_json_lead [of a] stable_json_lead [of b] by auto
qed

fun shape :: "json \<Rightarrow> nat" where
  "shape JNull = 0"
| "shape (JBool b) = (if b then 1 else 2)"
| "shape (JInt i) = 3"
| "shape (JFloat fin r) = 3"
| "shape (JStr s) = 4"
| "shape (JList xs) = 5"
| "shape (JObj kvs) = 6"
| "shape (JOther t) = 7"

definition shape_of_char :: "char \<Rightarrow> nat" where
  "shape_of_char c =
     (if c = CHR ''n'' then 0 else if c = CHR ''t'' then 1 else if c = CHR ''f'' then 2
      else if c = quote_char then 4 else if c = CHR ''['' then 5 else if c = CHR ''{'' then 6 else 3)"

lemma shape_of_digit: "c \<in> set digit_chars \<Longrightarrow> shape_of_char c = 3"
  by (auto simp: digit_chars_def quote_char_def shape_of_char_def)

lemma shape_of_lead: "c \<in> set (lead j) \<Longrightarrow> shape_of_char c = shape j"
  using shape_of_digit [of c]
  by (cases j) (auto simp: quote_char_def shape_of_char_def [of "CHR ''-''"]
      shape_of_char_def [of "CHR ''n''"] shape_of_char_def [of "CHR ''t''"]
      shape_of_char_def [of "CHR ''f''"] shape_of_char_def [of "CHR ''[''"]
      shape_of_char_def [of "CHR ''{''"] shape_of_char_def [of "CHR 0x22"] split: if_splits)

lemma same_shape:
  assumes "stable_json a @ u = stable_json b @ v" "plain_json a" "plain_json b"
  shows "shape b = shape a"
  using same_lead [OF assms] shape_of_lead by (metis IntD1 IntD2)

lemma number_token:
  assumes "plain_json j" "shape j = 3"
  shows "\<forall>c \<in> set (stable_json j). \<not> delimiter c"
  using assms int_no_delimiter float_no_delimiter by (cases j) (auto split: if_splits)

lemma shape_number: "shape j = 3 \<Longrightarrow> (\<exists>i. j = JInt i) \<or> (\<exists>fin r. j = JFloat fin r)"
  by (cases j) (auto split: if_splits)

lemma number_inj:
  assumes "plain_json a" "plain_json b" "shape a = 3" "shape b = 3" "stable_json a = stable_json b"
  shows "a = b"
  using assms(1,2,5) shape_number [OF assms(3)] shape_number [OF assms(4)]
    render_int_inj render_int_not_float by force

lemma number_prefix_free:
  assumes "plain_json a" "plain_json b" "delimited u" "delimited v" "shape a = 3"
    and eq: "stable_json a @ u = stable_json b @ v"
  shows "sort_keys a = sort_keys b \<and> u = v"
proof -
  have "shape b = 3" using same_shape [OF eq] assms by simp
  then have "stable_json a = stable_json b \<and> u = v"
    using token_ends [OF eq] number_token assms by blast
  then show ?thesis using number_inj assms \<open>shape b = 3\<close> by auto
qed

lemma list_all2_map_eq: "list_all2 (\<lambda>x y. f x = f y) xs ys \<Longrightarrow> map f xs = map f ys"
  by (induction xs ys rule: list_all2_induct) auto

lemma stable_json_prefix_free:
  "plain_json a \<Longrightarrow> plain_json b \<Longrightarrow> delimited u \<Longrightarrow> delimited v \<Longrightarrow>
   stable_json a @ u = stable_json b @ v \<Longrightarrow> sort_keys a = sort_keys b \<and> u = v"
proof (induction a arbitrary: b u v)
  case (JInt i)
  show ?case by (rule number_prefix_free [OF JInt.prems(1-4) _ JInt.prems(5)]) simp
next
  case (JFloat fin r)
  show ?case by (rule number_prefix_free [OF JFloat.prems(1-4) _ JFloat.prems(5)]) simp
next
  case (JStr s)
  obtain t where "b = JStr t"
    using same_shape [OF JStr.prems(5,1,2)] by (cases b) (auto split: if_splits)
  then show ?case using JStr.prems(5) render_string_prefix_free [of s u t v] by simp
next
  case (JList xs)
  obtain ys where b: "b = JList ys"
    using same_shape [OF JList.prems(5,1,2)] by (cases b) (auto split: if_splits)
  have "list_all2 (\<lambda>x y. sort_keys x = sort_keys y) xs ys \<and> u = v"
  proof (rule sequence_prefix_free [where r = stable_json and c = "CHR '']''"])
    show "comma_separated (map stable_json xs) @ CHR '']'' # u = comma_separated (map stable_json ys) @ CHR '']'' # v"
      using JList.prems(5) b by simp
  qed (use JList b stable_json_start in \<open>auto simp: delimiter_def\<close>)
  then show ?case using b list_all2_map_eq [of sort_keys] by auto
next
  case (JObj kvs)
  obtain kvs' where b: "b = JObj kvs'"
    using same_shape [OF JObj.prems(5,1,2)] by (cases b) (auto split: if_splits)
  have "list_all2 (\<lambda>x y. on_snd sort_keys x = on_snd sort_keys y) (sort_key fst kvs) (sort_key fst kvs') \<and> u = v"
  proof (rule sequence_prefix_free [where r = member_text and c = "CHR ''}''"])
    show "comma_separated (map member_text (sort_key fst kvs)) @ CHR ''}'' # u =
          comma_separated (map member_text (sort_key fst kvs')) @ CHR ''}'' # v"
      using JObj.prems(5) unfolding b stable_json_JObj by simp
  next
    fix x y u v
    assume x: "x \<in> set (sort_key fst kvs)" and y: "y \<in> set (sort_key fst kvs')"
      and del: "delimited u" "delimited v" and eq: "member_text x @ u = member_text y @ v"
    from eq have "render_string (fst x) @ ('':'' @ stable_json (snd x) @ u) =
                  render_string (fst y) @ ('':'' @ stable_json (snd y) @ v)"
      by (simp add: member_text_def)
    from render_string_prefix_free [OF this]
    have "fst x = fst y" and "stable_json (snd x) @ u = stable_json (snd y) @ v" by simp_all
    moreover have "plain_json (snd x)" "plain_json (snd y)" using JObj.prems(1,2) b x y by simp_all
    ultimately show "on_snd sort_keys x = on_snd sort_keys y \<and> u = v"
      using JObj.IH [of x "snd x" "snd y" u v] x del by (cases x) (auto simp: on_snd_def)
  qed (auto simp: delimiter_def member_text_def render_string_def quote_char_def)
  then show ?case unfolding b sort_keys_JObj
    using list_all2_map_eq [of "on_snd sort_keys" "sort_key fst kvs" "sort_key fst kvs'"] by metis
next
  case JNull
  have "b = JNull"
    using same_shape [OF JNull.prems(5,1,2)] by (cases b) (auto split: if_splits)
  then show ?case using JNull by simp
next
  case (JBool x)
  have "b = JBool x"
    using same_shape [OF JBool.prems(5,1,2)] by (cases b) (auto split: if_splits)
  then show ?case using JBool by simp
qed simp

lemma delimited_Nil [simp]: "delimited []"
  by (simp add: delimited_def)

lemma stable_json_unambiguous:
  "plain_json a \<Longrightarrow> plain_json b \<Longrightarrow> stable_json a = stable_json b \<Longrightarrow> sort_keys a = sort_keys b"
  using stable_json_prefix_free [of a b "[]" "[]"] by simp

text \<open>Equality up to key order is equality of every member.\<close>

lemma stable_json_sort_keys: "stable_json (sort_keys j) = stable_json j"
proof (induction j)
  case (JList xs)
  then have "map stable_json (map sort_keys xs) = map stable_json xs" by simp
  then show ?case by (simp del: map_map)
next
  case (JObj kvs)
  then have "map member_text (map (on_snd sort_keys) (sort_key fst kvs)) = map member_text (sort_key fst kvs)"
    by (auto simp: member_text_def on_snd_def)
  then show ?case
    by (simp only: sort_keys_JObj stable_json_JObj sort_key_on_snd sort_key_idem)
qed simp_all

lemma map_of_sort_key: "distinct (map fst kvs) \<Longrightarrow> map_of (sort_key fst kvs) = map_of kvs"
  by (subst map_of_inject_set) (simp_all add: distinct_map)

lemma map_of_on_snd: "map_of (map (on_snd f) kvs) k = map_option f (map_of kvs k)"
  by (induction kvs) (auto simp: on_snd_def)

lemma sort_keys_members:
  assumes "sort_keys (JObj a) = sort_keys (JObj b)" "distinct (map fst a)" "distinct (map fst b)"
  shows "map_option sort_keys (obj_get a k) = map_option sort_keys (obj_get b k)"
proof -
  have "map_of (map (on_snd sort_keys) (sort_key fst a)) k =
        map_of (map (on_snd sort_keys) (sort_key fst b)) k"
    using assms(1) by (simp add: sort_keys_JObj del: sort_keys.simps)
  then show ?thesis using assms(2,3) by (simp add: map_of_on_snd map_of_sort_key obj_get_def)
qed

end
