(* ===== verification/Action_Models.thy ===== *)
theory Action_Models
  imports Systems_Models Canonical_Json
begin

text \<open>
  The action-level classes of \<open>models.py\<close>: the enumerations, \<open>ResourceRef\<close>, \<open>AgentAction\<close> with its
  effect fingerprint, and what a connector returns (\<open>CompensationDescriptor\<close>, \<open>ExecutionResult\<close>,
  \<open>VerificationResult\<close>). Frozen mappings and tuples are the JSON values they hold, on which
  \<open>_jsonable\<close> is the identity.
\<close>

subsection \<open>Enumerations\<close>

datatype risk_level =
    READ_ONLY | LOCAL_GENERATION | REVERSIBLE_WRITE | EXTERNAL_COMMUNICATION | HIGH_IMPACT
  | DESTRUCTIVE

fun risk_str :: "risk_level \<Rightarrow> string" where
  "risk_str READ_ONLY = ''read_only''"
| "risk_str LOCAL_GENERATION = ''local_generation''"
| "risk_str REVERSIBLE_WRITE = ''reversible_write''"
| "risk_str EXTERNAL_COMMUNICATION = ''external_communication''"
| "risk_str HIGH_IMPACT = ''high_impact''"
| "risk_str DESTRUCTIVE = ''destructive''"

definition risk_members :: "(string \<times> risk_level) list" where
  "risk_members = map (\<lambda>r. (risk_str r, r))
     [READ_ONLY, LOCAL_GENERATION, REVERSIBLE_WRITE, EXTERNAL_COMMUNICATION, HIGH_IMPACT,
      DESTRUCTIVE]"

datatype authority_source =
    DIRECT_USER | REGISTERED_WORKFLOW | ORGANIZATION_POLICY | RETRIEVED_INTERNAL_CONTENT
  | RETRIEVED_EXTERNAL_CONTENT

fun authority_str :: "authority_source \<Rightarrow> string" where
  "authority_str DIRECT_USER = ''direct_user''"
| "authority_str REGISTERED_WORKFLOW = ''registered_workflow''"
| "authority_str ORGANIZATION_POLICY = ''organization_policy''"
| "authority_str RETRIEVED_INTERNAL_CONTENT = ''retrieved_internal_content''"
| "authority_str RETRIEVED_EXTERNAL_CONTENT = ''retrieved_external_content''"

definition authority_members :: "(string \<times> authority_source) list" where
  "authority_members = map (\<lambda>a. (authority_str a, a))
     [DIRECT_USER, REGISTERED_WORKFLOW, ORGANIZATION_POLICY, RETRIEVED_INTERNAL_CONTENT,
      RETRIEVED_EXTERNAL_CONTENT]"

datatype data_classification = PUBLIC | INTERNAL | CONFIDENTIAL | RESTRICTED

fun classification_str :: "data_classification \<Rightarrow> string" where
  "classification_str PUBLIC = ''public''"
| "classification_str INTERNAL = ''internal''"
| "classification_str CONFIDENTIAL = ''confidential''"
| "classification_str RESTRICTED = ''restricted''"

definition classification_members :: "(string \<times> data_classification) list" where
  "classification_members =
     map (\<lambda>c. (classification_str c, c)) [PUBLIC, INTERNAL, CONFIDENTIAL, RESTRICTED]"

datatype action_state =
    PLANNED | PERMITTED | APPROVAL_REQUIRED | PROHIBITED | SKIPPED | SUCCEEDED | FAILED | VERIFIED
  | CONFLICTED | COMPENSATING | COMPENSATED | COMPENSATION_FAILED | REUSED | INDETERMINATE

fun state_str :: "action_state \<Rightarrow> string" where
  "state_str PLANNED = ''planned''"
| "state_str PERMITTED = ''permitted''"
| "state_str APPROVAL_REQUIRED = ''approval_required''"
| "state_str PROHIBITED = ''prohibited''"
| "state_str SKIPPED = ''skipped''"
| "state_str SUCCEEDED = ''succeeded''"
| "state_str FAILED = ''failed''"
| "state_str VERIFIED = ''verified''"
| "state_str CONFLICTED = ''conflicted''"
| "state_str COMPENSATING = ''compensating''"
| "state_str COMPENSATED = ''compensated''"
| "state_str COMPENSATION_FAILED = ''compensation_failed''"
| "state_str REUSED = ''reused''"
| "state_str INDETERMINATE = ''indeterminate''"

definition state_members :: "(string \<times> action_state) list" where
  "state_members = map (\<lambda>s. (state_str s, s))
     [PLANNED, PERMITTED, APPROVAL_REQUIRED, PROHIBITED, SKIPPED, SUCCEEDED, FAILED, VERIFIED,
      CONFLICTED, COMPENSATING, COMPENSATED, COMPENSATION_FAILED, REUSED, INDETERMINATE]"

datatype compensation_mode = PLAN | IN_PROCESS | MANUAL

fun mode_str :: "compensation_mode \<Rightarrow> string" where
  "mode_str PLAN = ''plan''"
| "mode_str IN_PROCESS = ''in_process''"
| "mode_str MANUAL = ''manual''"

definition mode_members :: "(string \<times> compensation_mode) list" where
  "mode_members = map (\<lambda>m. (mode_str m, m)) [PLAN, IN_PROCESS, MANUAL]"

lemma risk_members_str [simp]: "parse_enum risk_members (risk_str r) = Inr r"
  by (cases r) (simp_all add: risk_members_def parse_enum_def)

lemma authority_members_str [simp]: "parse_enum authority_members (authority_str a) = Inr a"
  by (cases a) (simp_all add: authority_members_def parse_enum_def)

lemma classification_members_str [simp]:
  "parse_enum classification_members (classification_str c) = Inr c"
  by (cases c) (simp_all add: classification_members_def parse_enum_def)

lemma state_members_str [simp]: "parse_enum state_members (state_str s) = Inr s"
  by (cases s) (simp_all add: state_members_def parse_enum_def)

lemma mode_members_str [simp]: "parse_enum mode_members (mode_str m) = Inr m"
  by (cases m) (simp_all add: mode_members_def parse_enum_def)

subsection \<open>Freezing\<close>

fun freeze_json :: "json \<Rightarrow> exn + json" where
  "freeze_json (JObj kvs) =
     sbind (smap (\<lambda>kv. sbind (freeze_json (snd kv)) (\<lambda>v. Inr (fst kv, v))) kvs)
       (\<lambda>kvs'. Inr (JObj kvs'))"
| "freeze_json (JList xs) = sbind (smap freeze_json xs) (\<lambda>ys. Inr (JList ys))"
| "freeze_json (JFloat fin r) =
     (if fin then Inr (JFloat fin r) else Inl (invalid ''contains a non-finite number''))"
| "freeze_json (JOther t) = Inl (invalid ''contains a non-JSON-compatible value'')"
| "freeze_json j = Inr j"

definition freeze_json_mapping :: "json_object \<Rightarrow> exn + json_object" where
  "freeze_json_mapping kvs =
     sbind (freeze_json (JObj kvs)) (\<lambda>j. case j of JObj kvs' \<Rightarrow> Inr kvs'
                                            | _ \<Rightarrow> Inl (invalid ''value must be an object''))"

subsection \<open>Resources and actions\<close>

record resource_ref =
  rr_system :: string
  rr_resource_type :: string
  rr_resource_id :: string
  rr_expected_version :: "string option"

definition resource_text :: "string \<Rightarrow> string \<Rightarrow> exn option" where
  "resource_text name v =
     first_error
       [fail_if (blank v) (invalid (name @ '' must not be empty'')), validate_bounded_string v,
        reject_control_characters v name]"

definition optional_bounded :: "string option \<Rightarrow> exn option" where
  "optional_bounded v = (case v of None \<Rightarrow> None | Some s \<Rightarrow> validate_bounded_string s)"

definition mk_resource :: "resource_ref \<Rightarrow> exn + resource_ref" where
  "mk_resource r =
     checked
       [resource_text ''system'' (rr_system r), resource_text ''resource_type'' (rr_resource_type r),
        resource_text ''resource_id'' (rr_resource_id r),
        optional_bounded (rr_expected_version r)] r"

definition resource_uri :: "resource_ref \<Rightarrow> string" where
  "resource_uri r = rr_system r @ '':'' @ rr_resource_id r"

record agent_action =
  ac_capability :: string
  ac_target :: resource_ref
  ac_parameters :: json_object
  ac_risk :: risk_level
  ac_authority_source :: authority_source
  ac_requires_approval :: bool
  ac_idempotency_key :: string
  ac_justification :: string
  ac_data_classification :: data_classification
  ac_dependencies :: "uuid list"
  ac_action_id :: uuid

definition error_of :: "exn + 'a \<Rightarrow> exn option" where
  "error_of r = (case r of Inl e \<Rightarrow> Some e | Inr _ \<Rightarrow> None)"

definition mk_action :: "agent_action \<Rightarrow> exn + agent_action" where
  "mk_action a =
     sbind (checked
       [fail_if (CHR ''.'' \<notin> set (ac_capability a) \<or> blank (ac_capability a))
          (invalid ''capability must be a non-empty domain-specific dotted name''),
        reject_control_characters (ac_capability a) ''capability'',
        validate_bounded_string (ac_capability a),
        fail_if (blank (ac_idempotency_key a)) (invalid ''idempotency_key must not be empty''),
        fail_if (blank (ac_justification a)) (invalid ''justification must not be empty''),
        validate_bounded_string (ac_idempotency_key a),
        validate_bounded_string (ac_justification a),
        fail_if (length (ac_dependencies a) > MAX_ACTION_DEPENDENCIES)
          (invalid ''action dependencies exceed the item limit''),
        fail_if (ac_action_id a \<in> set (ac_dependencies a))
          (invalid ''an action cannot depend on itself''),
        error_of (measure_json_resources (JObj (ac_parameters a)) MAX_ACTION_PARAMETER_BYTES)] ())
       (\<lambda>_. sbind (freeze_json_mapping (ac_parameters a)) (\<lambda>p. Inr (a\<lparr>ac_parameters := p\<rparr>)))"

definition target_to_dict :: "resource_ref \<Rightarrow> json_object" where
  "target_to_dict r =
     [(''system'', JStr (rr_system r)), (''resource_type'', JStr (rr_resource_type r)),
      (''resource_id'', JStr (rr_resource_id r)),
      (''expected_version'', optional JStr (rr_expected_version r))]"

definition action_to_dict :: "agent_action \<Rightarrow> json_object" where
  "action_to_dict a =
     [(''action_id'', JStr (ac_action_id a)),
      (''capability'', JStr (ac_capability a)),
      (''target'', JObj (target_to_dict (ac_target a))),
      (''parameters'', JObj (ac_parameters a)),
      (''risk'', JStr (risk_str (ac_risk a))),
      (''data_classification'', JStr (classification_str (ac_data_classification a))),
      (''authority_source'', JStr (authority_str (ac_authority_source a))),
      (''requires_approval'', JBool (ac_requires_approval a)),
      (''idempotency_key'', JStr (ac_idempotency_key a)),
      (''justification'', JStr (ac_justification a)),
      (''dependencies'', strings (ac_dependencies a))]"

definition effect_payload :: "agent_action \<Rightarrow> json_object" where
  "effect_payload a =
     [(''capability'', JStr (ac_capability a)),
      (''target'', JObj (target_to_dict (ac_target a))),
      (''parameters'', JObj (ac_parameters a)),
      (''risk'', JStr (risk_str (ac_risk a))),
      (''data_classification'', JStr (classification_str (ac_data_classification a))),
      (''authority_source'', JStr (authority_str (ac_authority_source a))),
      (''requires_approval'', JBool (ac_requires_approval a))]"

definition effect_fingerprint :: "host \<Rightarrow> agent_action \<Rightarrow> digest" where
  "effect_fingerprint h a = h_sha256 h (stable_json (JObj (effect_payload a)))"

definition resource_from_dict :: "host \<Rightarrow> json_object \<Rightarrow> exn + resource_ref" where
  "resource_from_dict h data =
     sbind (need_str h data ''system'') (\<lambda>system.
     sbind (need_str h data ''resource_type'') (\<lambda>rtype.
     sbind (need_str h data ''resource_id'') (\<lambda>rid.
     mk_resource \<lparr>rr_system = system, rr_resource_type = rtype, rr_resource_id = rid,
                  rr_expected_version = opt_str h data ''expected_version''\<rparr>)))"

definition action_from_dict :: "host \<Rightarrow> json_object \<Rightarrow> exn + agent_action" where
  "action_from_dict h data =
     sbind (expect_mapping data ''target'') (\<lambda>target_data.
     sbind (case obj_get data ''dependencies'' of
              None \<Rightarrow> Inr []
            | Some (JList js) \<Rightarrow> Inr js
            | Some _ \<Rightarrow> Inl (invalid ''dependencies must be a list'')) (\<lambda>dependencies.
     sbind (need_str h data ''risk'') (\<lambda>risk_text.
     sbind (parse_enum risk_members risk_text) (\<lambda>risk.
     sbind (checked [fail_if (risk = READ_ONLY \<and> obj_get data ''data_classification'' = None)
              (invalid ''serialized read actions require an explicit data_classification'')] ()) (\<lambda>_.
     sbind (need_str h data ''capability'') (\<lambda>capability.
     sbind (resource_from_dict h target_data) (\<lambda>target.
     sbind (expect_mapping data ''parameters'') (\<lambda>parameters.
     sbind (parse_enum classification_members (get_str h data ''data_classification'' ''internal''))
       (\<lambda>classification.
     sbind (need_str h data ''authority_source'') (\<lambda>authority_text.
     sbind (parse_enum authority_members authority_text) (\<lambda>authority.
     sbind (strict_bool (obj_get data ''requires_approval'') ''requires_approval'') (\<lambda>approval.
     sbind (need_str h data ''idempotency_key'') (\<lambda>key.
     sbind (need_str h data ''justification'') (\<lambda>justification.
     sbind (smap (\<lambda>j. parse_uuid h (py_str h j)) dependencies) (\<lambda>deps.
     sbind (need_str h data ''action_id'') (\<lambda>id_text.
     sbind (parse_uuid h id_text) (\<lambda>aid.
     mk_action
       \<lparr>ac_capability = capability, ac_target = target, ac_parameters = parameters,
        ac_risk = risk, ac_authority_source = authority, ac_requires_approval = approval,
        ac_idempotency_key = key, ac_justification = justification,
        ac_data_classification = classification, ac_dependencies = deps,
        ac_action_id = aid\<rparr>)))))))))))))))))"

subsection \<open>Connector results\<close>

record compensation_descriptor =
  cd_kind :: string
  cd_mode :: compensation_mode
  cd_capability :: "string option"
  cd_parameters :: json_object
  cd_expected_version :: "string option"
  cd_target_resource_id :: "string option"
  cd_reason :: "string option"
  cd_schema :: string

definition compensation_schema :: string where
  "compensation_schema = ''master-agent/compensation@1''"

definition blank_option :: "string option \<Rightarrow> bool" where
  "blank_option v = (case v of None \<Rightarrow> True | Some s \<Rightarrow> blank s)"

definition mk_compensation :: "compensation_descriptor \<Rightarrow> exn + compensation_descriptor" where
  "mk_compensation c =
     sbind (checked
       [fail_if (cd_schema c \<noteq> compensation_schema)
          (invalid ''unsupported compensation descriptor schema''),
        fail_if (blank (cd_kind c)) (invalid ''compensation kind must not be empty''),
        fail_if (cd_mode c = PLAN \<and> blank_option (cd_capability c))
          (invalid ''plan compensation requires an executable capability''),
        fail_if (cd_mode c \<noteq> PLAN \<and> blank_option (cd_reason c))
          (invalid ''non-plan compensation requires an operator-facing reason'')] ())
       (\<lambda>_. sbind (freeze_json_mapping (cd_parameters c)) (\<lambda>p. Inr (c\<lparr>cd_parameters := p\<rparr>)))"

definition compensation_to_dict :: "compensation_descriptor \<Rightarrow> json_object" where
  "compensation_to_dict c =
     [(''schema'', JStr (cd_schema c)), (''kind'', JStr (cd_kind c)),
      (''mode'', JStr (mode_str (cd_mode c))),
      (''capability'', optional JStr (cd_capability c)),
      (''parameters'', JObj (cd_parameters c)),
      (''expected_version'', optional JStr (cd_expected_version c)),
      (''target_resource_id'', optional JStr (cd_target_resource_id c)),
      (''reason'', optional JStr (cd_reason c))]"

definition compensation_from_dict :: "host \<Rightarrow> json_object \<Rightarrow> exn + compensation_descriptor" where
  "compensation_from_dict h data =
     (if obj_get data ''schema'' \<noteq> Some (JStr compensation_schema)
      then Inl (invalid ''compensation descriptor must use master-agent/compensation@1'')
      else
        sbind (case obj_get data ''parameters'' of
                 None \<Rightarrow> Inr []
               | Some (JObj kvs) \<Rightarrow> Inr kvs
               | Some _ \<Rightarrow> Inl (invalid ''compensation parameters must be an object'')) (\<lambda>parameters.
        sbind (need_str h data ''schema'') (\<lambda>schema.
        sbind (need_str h data ''kind'') (\<lambda>kind.
        sbind (need_str h data ''mode'') (\<lambda>mode_text.
        sbind (parse_enum mode_members mode_text) (\<lambda>mode.
        mk_compensation
          \<lparr>cd_kind = kind, cd_mode = mode, cd_capability = opt_str h data ''capability'',
           cd_parameters = parameters, cd_expected_version = opt_str h data ''expected_version'',
           cd_target_resource_id = opt_str h data ''target_resource_id'',
           cd_reason = opt_str h data ''reason'', cd_schema = schema\<rparr>))))))"

record execution_result =
  er_action_id :: uuid
  er_state :: action_state
  er_before :: "json_object option"
  er_after :: "json_object option"
  er_connector_reference :: "string option"
  er_message :: string
  er_compensation :: "compensation_descriptor option"
  er_before_digest :: digest
  er_after_digest :: digest

definition result_state_digest :: "host \<Rightarrow> json_object option \<Rightarrow> exn + digest" where
  "result_state_digest h v =
     (let text = stable_json (optional JObj v)
      in if has_surrogate text then Inl (Exn ValueError ''surrogates not allowed'')
         else Inr (h_sha256 h text))"

definition freeze_state :: "json_object option \<Rightarrow> exn + json_object option" where
  "freeze_state v =
     (case v of None \<Rightarrow> Inr None | Some kvs \<Rightarrow> sbind (freeze_json_mapping kvs) (\<lambda>_. Inr (Some kvs)))"

text \<open>The constructor ignores the digests of the record it is given and computes them.\<close>

definition mk_result :: "host \<Rightarrow> execution_result \<Rightarrow> exn + execution_result" where
  "mk_result h r =
     sbind (freeze_state (er_before r)) (\<lambda>b.
     sbind (freeze_state (er_after r)) (\<lambda>a.
     sbind (result_state_digest h b) (\<lambda>bd.
     sbind (result_state_digest h a) (\<lambda>ad.
     Inr (r\<lparr>er_before := b, er_after := a, er_before_digest := bd, er_after_digest := ad\<rparr>)))))"

definition validate_integrity :: "host \<Rightarrow> execution_result \<Rightarrow> exn option" where
  "validate_integrity h r =
     (case result_state_digest h (er_before r) of
        Inl e \<Rightarrow> Some e
      | Inr bd \<Rightarrow>
          if bd \<noteq> er_before_digest r
          then Some (invalid ''execution result before-state changed after return'')
          else (case result_state_digest h (er_after r) of
             Inl e \<Rightarrow> Some e
           | Inr ad \<Rightarrow> fail_if (ad \<noteq> er_after_digest r)
               (invalid ''execution result after-state changed after return'')))"

definition result_to_dict :: "host \<Rightarrow> execution_result \<Rightarrow> exn + json_object" where
  "result_to_dict h r =
     (case validate_integrity h r of
        Some e \<Rightarrow> Inl e
      | None \<Rightarrow> Inr
          [(''action_id'', JStr (er_action_id r)),
           (''state'', JStr (state_str (er_state r))),
           (''before'', optional JObj (er_before r)),
           (''after'', optional JObj (er_after r)),
           (''connector_reference'', optional JStr (er_connector_reference r)),
           (''message'', JStr (er_message r)),
           (''compensation'', optional (\<lambda>c. JObj (compensation_to_dict c)) (er_compensation r))])"

definition opt_mapping :: "json_object \<Rightarrow> string \<Rightarrow> string \<Rightarrow> exn + json_object option" where
  "opt_mapping data k m =
     (case obj_get data k of
        None \<Rightarrow> Inr None
      | Some JNull \<Rightarrow> Inr None
      | Some (JObj kvs) \<Rightarrow> Inr (Some kvs)
      | Some _ \<Rightarrow> Inl (invalid m))"

definition result_from_dict :: "host \<Rightarrow> json_object \<Rightarrow> exn + execution_result" where
  "result_from_dict h data =
     sbind (opt_mapping data ''before'' ''execution result before must be an object or null'') (\<lambda>before.
     sbind (opt_mapping data ''after'' ''execution result after must be an object or null'') (\<lambda>after.
     sbind (opt_mapping data ''compensation''
              ''execution result compensation must be an object or null'') (\<lambda>compensation.
     sbind (need_str h data ''action_id'') (\<lambda>id_text.
     sbind (parse_uuid h id_text) (\<lambda>aid.
     sbind (need_str h data ''state'') (\<lambda>state_text.
     sbind (parse_enum state_members state_text) (\<lambda>state.
     sbind (case compensation of
              None \<Rightarrow> Inr None
            | Some kvs \<Rightarrow> sbind (compensation_from_dict h kvs) (\<lambda>c. Inr (Some c))) (\<lambda>comp.
     mk_result h
       \<lparr>er_action_id = aid, er_state = state, er_before = before, er_after = after,
        er_connector_reference = opt_str h data ''connector_reference'',
        er_message = get_str h data ''message'' [], er_compensation = comp,
        er_before_digest = [], er_after_digest = []\<rparr>))))))))"

record verification_result =
  vr_action_id :: uuid
  vr_verified :: bool
  vr_observed :: "json_object option"
  vr_message :: string

definition verification_to_dict :: "verification_result \<Rightarrow> json_object" where
  "verification_to_dict v =
     [(''action_id'', JStr (vr_action_id v)), (''verified'', JBool (vr_verified v)),
      (''observed'', optional JObj (vr_observed v)), (''message'', JStr (vr_message v))]"

subsection \<open>Validation checks, it does not change\<close>

lemma resource_ref_eta [record_eta]:
  "\<lparr>rr_system = rr_system x, rr_resource_type = rr_resource_type x,
    rr_resource_id = rr_resource_id x, rr_expected_version = rr_expected_version x\<rparr> = (x :: resource_ref)"
  by (cases x) simp

lemma agent_action_eta [record_eta]:
  "\<lparr>ac_capability = ac_capability x, ac_target = ac_target x,
    ac_parameters = ac_parameters x, ac_risk = ac_risk x,
    ac_authority_source = ac_authority_source x,
    ac_requires_approval = ac_requires_approval x, ac_idempotency_key = ac_idempotency_key x,
    ac_justification = ac_justification x, ac_data_classification = ac_data_classification x,
    ac_dependencies = ac_dependencies x, ac_action_id = ac_action_id x\<rparr> = (x :: agent_action)"
  by (cases x) simp

lemma compensation_descriptor_eta [record_eta]:
  "\<lparr>cd_kind = cd_kind x, cd_mode = cd_mode x, cd_capability = cd_capability x,
    cd_parameters = cd_parameters x, cd_expected_version = cd_expected_version x,
    cd_target_resource_id = cd_target_resource_id x, cd_reason = cd_reason x,
    cd_schema = cd_schema x\<rparr> = (x :: compensation_descriptor)"
  by (cases x) simp

lemma execution_result_eta [record_eta]:
  "\<lparr>er_action_id = er_action_id x, er_state = er_state x, er_before = er_before x,
    er_after = er_after x, er_connector_reference = er_connector_reference x,
    er_message = er_message x, er_compensation = er_compensation x,
    er_before_digest = er_before_digest x, er_after_digest = er_after_digest x\<rparr> = (x :: execution_result)"
  by (cases x) simp

fun storable :: "json \<Rightarrow> bool" where
  "storable (JFloat fin r) = fin"
| "storable (JOther t) = False"
| "storable (JList xs) = (\<forall>x \<in> set xs. storable x)"
| "storable (JObj kvs) = (\<forall>kv \<in> set kvs. storable (snd kv))"
| "storable _ = True"

lemma smap_id_iff:
  assumes "\<And>x y. x \<in> set xs \<Longrightarrow> f x = Inr y \<longleftrightarrow> y = x \<and> P x"
  shows "smap f xs = Inr ys \<longleftrightarrow> ys = xs \<and> (\<forall>x \<in> set xs. P x)"
  using assms by (induction xs arbitrary: ys) (auto simp: sbind_Inr)

lemma freeze_json_Inr: "freeze_json j = Inr j' \<longleftrightarrow> j' = j \<and> storable j"
proof (induction j arbitrary: j')
  case (JObj kvs)
  have "smap (\<lambda>kv. sbind (freeze_json (snd kv)) (\<lambda>v. Inr (fst kv, v))) kvs = Inr kvs'
        \<longleftrightarrow> kvs' = kvs \<and> (\<forall>kv \<in> set kvs. storable (snd kv))" for kvs'
    by (rule smap_id_iff) (use JObj in \<open>auto simp: sbind_Inr\<close>)
  then show ?case by (auto simp: sbind_Inr)
next
  case (JList xs)
  have "smap freeze_json xs = Inr ys \<longleftrightarrow> ys = xs \<and> (\<forall>x \<in> set xs. storable x)" for ys
    by (rule smap_id_iff) (use JList in auto)
  then show ?case by (auto simp: sbind_Inr)
qed auto

lemma freeze_json_mapping_Inr [outcome_simps]:
  "freeze_json_mapping kvs = Inr kvs' \<longleftrightarrow> kvs' = kvs \<and> (\<forall>kv \<in> set kvs. storable (snd kv))"
  unfolding freeze_json_mapping_def sbind_Inr freeze_json_Inr by auto

lemma admissible_storable: "admissible_json j \<Longrightarrow> storable j"
  by (induction j) auto

lemma mk_action_id: "mk_action a = Inr a' \<Longrightarrow> a' = a"
  by (auto simp: mk_action_def sbind_Inr freeze_json_mapping_Inr)

lemma mk_compensation_id: "mk_compensation c = Inr c' \<Longrightarrow> c' = c"
  by (auto simp: mk_compensation_def sbind_Inr freeze_json_mapping_Inr)

lemma mk_resource_id: "mk_resource r = Inr r' \<Longrightarrow> r' = r"
  by (simp add: mk_resource_def checked_Inr)

lemma freeze_state_Inr: "freeze_state v = Inr v' \<longleftrightarrow>
    v' = v \<and> (case v of None \<Rightarrow> True | Some kvs \<Rightarrow> \<forall>kv \<in> set kvs. storable (snd kv))"
  by (auto simp: freeze_state_def sbind_Inr freeze_json_mapping_Inr split: option.splits)

text \<open>A result that was just constructed passes its integrity check, and one whose states were
  replaced passes only on a collision of the digest.\<close>

lemma mk_result_integrity: "mk_result h r = Inr r' \<Longrightarrow> validate_integrity h r' = None"
  by (auto simp: mk_result_def sbind_Inr freeze_state_Inr validate_integrity_def)

lemma mk_result_states:
  "mk_result h r = Inr r' \<Longrightarrow>
   er_before r' = er_before r \<and> er_after r' = er_after r \<and> er_state r' = er_state r
   \<and> er_action_id r' = er_action_id r \<and> er_compensation r' = er_compensation r"
  by (auto simp: mk_result_def sbind_Inr freeze_state_Inr)

subsection \<open>Round trips of actions and results\<close>

lemma resource_reads_back: "mk_resource r = Inr r \<Longrightarrow> resource_from_dict h (target_to_dict r) = Inr r"
  by (cases r) (auto simp: resource_from_dict_def target_to_dict_def need_str_def need_def opt_str_def
      optional_def decode_simps split: option.splits)

definition action_valid :: "host \<Rightarrow> agent_action \<Rightarrow> bool" where
  "action_valid h a =
     (host_laws h \<and> mk_action a = Inr a \<and> mk_resource (ac_target a) = Inr (ac_target a)
      \<and> canonical_uuid (ac_action_id a) \<and> (\<forall>d \<in> set (ac_dependencies a). canonical_uuid d))"

lemma parse_uuid_canonical: "host_laws h \<Longrightarrow> canonical_uuid u \<Longrightarrow> parse_uuid h u = Inr u"
  by (simp add: parse_uuid_def host_lawsD)

lemma uuids_read_back:
  "host_laws h \<Longrightarrow> \<forall>u \<in> set us. canonical_uuid u \<Longrightarrow>
   smap (\<lambda>j. parse_uuid h (py_str h j)) (map JStr us) = Inr us"
  by (rule smap_map_Inr) (simp add: parse_uuid_canonical)

interpretation action: codec "action_valid h" action_to_dict "action_from_dict h" for h
  by unfold_locales
     (simp add: action_valid_def action_to_dict_def action_from_dict_def need_str_def need_def get_str_def
        expect_mapping_def strings_def decode_simps resource_reads_back uuids_read_back
        parse_uuid_canonical record_eta)

interpretation compensation: codec "\<lambda>c. mk_compensation c = Inr c" compensation_to_dict
  "compensation_from_dict h" for h
proof unfold_locales
  fix x :: compensation_descriptor
  assume x: "mk_compensation x = Inr x"
  then have "cd_schema x = compensation_schema" by (auto simp: mk_compensation_def sbind_Inr checked_Inr)
  with x show "compensation_from_dict h (compensation_to_dict x) = Inr x"
    by (cases x) (auto simp: compensation_to_dict_def compensation_from_dict_def need_str_def need_def
        opt_str_def optional_def decode_simps split: option.splits)
qed

definition result_valid :: "host \<Rightarrow> execution_result \<Rightarrow> bool" where
  "result_valid h r =
     (host_laws h \<and> mk_result h r = Inr r \<and> canonical_uuid (er_action_id r)
      \<and> (case er_compensation r of None \<Rightarrow> True | Some c \<Rightarrow> mk_compensation c = Inr c))"

lemma opt_mapping_optional:
  "obj_get data k = Some (optional (\<lambda>x. JObj (f x)) v) \<Longrightarrow> opt_mapping data k m = Inr (map_option f v)"
  by (cases v) (simp_all add: opt_mapping_def optional_def)

lemma opt_str_optional: "obj_get data k = Some (optional JStr v) \<Longrightarrow> opt_str h data k = v"
  by (cases v) (simp_all add: opt_str_def optional_def)

lemma mk_result_recompute:
  assumes "mk_result h r = Inr r"
  shows "mk_result h (r\<lparr>er_before_digest := [], er_after_digest := []\<rparr>) = Inr r"
  using assms by (cases r) (auto simp: mk_result_def sbind_Inr)

lemma result_reads_back:
  assumes "result_valid h r"
  shows "\<exists>d. result_to_dict h r = Inr d \<and> result_from_dict h d = Inr r"
proof -
  have v: "host_laws h" "mk_result h r = Inr r" "canonical_uuid (er_action_id r)"
    using assms by (auto simp: result_valid_def)
  have c: "(case map_option compensation_to_dict (er_compensation r) of None \<Rightarrow> Inr None
      | Some kvs \<Rightarrow> sbind (compensation_from_dict h kvs) (\<lambda>c. Inr (Some c))) = Inr (er_compensation r)"
    using assms by (auto simp: result_valid_def compensation.reads_back split: option.splits)
  have ok: "validate_integrity h r = None" using v mk_result_integrity by blast
  have ob: "optional JObj = optional (\<lambda>x. JObj (id x))" by simp
  have eta: "\<lparr>er_action_id = er_action_id r, er_state = er_state r, er_before = er_before r,
      er_after = er_after r, er_connector_reference = er_connector_reference r,
      er_message = er_message r, er_compensation = er_compensation r, er_before_digest = [],
      er_after_digest = []\<rparr> = r\<lparr>er_before_digest := [], er_after_digest := []\<rparr>"
    by (cases r) simp
  show ?thesis
    using v c mk_result_recompute [OF v(2)]
    unfolding result_to_dict_def ok result_from_dict_def ob
    by (auto simp: need_str_def need_def get_str_def decode_simps parse_uuid_canonical opt_str_optional
        opt_mapping_optional option.map_ident eta)
qed

end
