(* ===== verification/Execution_Bindings.thy ===== *)
theory Execution_Bindings
  imports Action_Models
begin

text \<open>
  The bindings of \<open>models.py\<close> that pin an approved plan to its execution environment (connector,
  configuration, runtime path, runtime, plugin and capsule bindings, collected in an
  \<open>ExecutionContext\<close>) and the \<open>PlatformObjectIdentity\<close> of \<open>platform_runtime/contracts.py\<close>. Paths
  follow the POSIX flavour of \<open>pathlib\<close>.
\<close>

subsection \<open>Platform identities\<close>

datatype fs_kind = DIRECTORY | FILE

fun fs_kind_str :: "fs_kind \<Rightarrow> string" where
  "fs_kind_str DIRECTORY = ''directory''"
| "fs_kind_str FILE = ''file''"

definition fs_kind_members :: "(string \<times> fs_kind) list" where
  "fs_kind_members = map (\<lambda>k. (fs_kind_str k, k)) [DIRECTORY, FILE]"

record object_identity =
  oi_platform :: string
  oi_kind :: fs_kind
  oi_device :: "int option"
  oi_inode :: "int option"
  oi_owner :: "int option"
  oi_mode :: "int option"
  oi_volume_serial :: "string option"
  oi_file_id :: "string option"
  oi_owner_sid :: "string option"
  oi_dacl_sha256 :: "string option"
  oi_trust_policy_sha256 :: "string option"
  oi_schema :: string

definition identity_schema :: string where
  "identity_schema = ''master-agent/platform-object-identity@1''"

abbreviation bad_value :: "string \<Rightarrow> exn" where
  "bad_value m \<equiv> Exn ValueError m"

definition lower_hex :: "string option \<Rightarrow> nat \<Rightarrow> nat \<Rightarrow> bool" where
  "lower_hex v minimum maximum =
     (case v of None \<Rightarrow> False
      | Some s \<Rightarrow> minimum \<le> length s \<and> length s \<le> maximum \<and> (\<forall>c \<in> set s. c \<in> set hex_digits))"

definition missing_or_negative :: "int option \<Rightarrow> bool" where
  "missing_or_negative v = (case v of None \<Rightarrow> True | Some i \<Rightarrow> i < 0)"

definition validate_posix :: "object_identity \<Rightarrow> exn option" where
  "validate_posix i =
     first_error
       [fail_if (\<exists>v \<in> set [oi_device i, oi_inode i, oi_owner i, oi_mode i]. missing_or_negative v)
          (bad_value ''POSIX platform object identity payload is invalid''),
        fail_if (case oi_mode i of None \<Rightarrow> False | Some m \<Rightarrow> m > 4095)
          (bad_value ''POSIX platform object identity mode is invalid''),
        fail_if (\<exists>v \<in> set [oi_volume_serial i, oi_file_id i, oi_owner_sid i, oi_dacl_sha256 i,
                            oi_trust_policy_sha256 i]. v \<noteq> None)
          (bad_value ''POSIX platform object identity mixes native payloads'')]"

definition valid_sid :: "string option \<Rightarrow> bool" where
  "valid_sid v =
     (case v of None \<Rightarrow> False
      | Some s \<Rightarrow> take 2 s = ''S-'' \<and> 3 \<le> py_len s \<and> py_len s \<le> 184
          \<and> (\<forall>c \<in> set (code_points s). 33 \<le> c \<and> c \<le> 126))"

definition validate_windows :: "object_identity \<Rightarrow> exn option" where
  "validate_windows i =
     first_error
       [fail_if (\<exists>v \<in> set [oi_device i, oi_inode i, oi_owner i, oi_mode i]. v \<noteq> None)
          (bad_value ''Windows platform object identity mixes native payloads''),
        fail_if (\<not> lower_hex (oi_volume_serial i) 1 16)
          (bad_value ''Windows platform volume identity is invalid''),
        fail_if (\<not> lower_hex (oi_file_id i) 32 32)
          (bad_value ''Windows platform file identity is invalid''),
        fail_if (\<not> valid_sid (oi_owner_sid i)) (bad_value ''Windows platform owner SID is invalid''),
        fail_if (\<not> lower_hex (oi_dacl_sha256 i) 64 64)
          (bad_value ''Windows platform DACL digest is invalid''),
        fail_if (\<not> lower_hex (oi_trust_policy_sha256 i) 64 64)
          (bad_value ''Windows platform trust policy digest is invalid'')]"

definition mk_identity :: "object_identity \<Rightarrow> exn + object_identity" where
  "mk_identity i =
     checked
       [fail_if (oi_schema i \<noteq> identity_schema)
          (bad_value ''unsupported platform object identity schema''),
        (if oi_platform i = ''posix'' then validate_posix i
         else if oi_platform i = ''windows'' then validate_windows i
         else Some (bad_value ''platform object identity platform is invalid''))] i"

definition bare_identity :: "string \<Rightarrow> fs_kind \<Rightarrow> string \<Rightarrow> object_identity" where
  "bare_identity platform kind schema =
     \<lparr>oi_platform = platform, oi_kind = kind, oi_device = None, oi_inode = None, oi_owner = None,
      oi_mode = None, oi_volume_serial = None, oi_file_id = None, oi_owner_sid = None,
      oi_dacl_sha256 = None, oi_trust_policy_sha256 = None, oi_schema = schema\<rparr>"

definition from_posix :: "fs_kind \<Rightarrow> int \<Rightarrow> int \<Rightarrow> int \<Rightarrow> int \<Rightarrow> exn + object_identity" where
  "from_posix kind device inode owner mode =
     mk_identity ((bare_identity ''posix'' kind identity_schema)
       \<lparr>oi_device := Some device, oi_inode := Some inode, oi_owner := Some owner,
        oi_mode := Some mode\<rparr>)"

definition from_windows ::
  "fs_kind \<Rightarrow> string \<Rightarrow> string \<Rightarrow> string \<Rightarrow> string \<Rightarrow> string \<Rightarrow> exn + object_identity"
where
  "from_windows kind volume file sid dacl policy =
     mk_identity ((bare_identity ''windows'' kind identity_schema)
       \<lparr>oi_volume_serial := Some volume, oi_file_id := Some file, oi_owner_sid := Some sid,
        oi_dacl_sha256 := Some dacl, oi_trust_policy_sha256 := Some policy\<rparr>)"

definition optional_text :: "string option \<Rightarrow> string" where
  "optional_text v = (case v of None \<Rightarrow> ''None'' | Some s \<Rightarrow> s)"

definition object_key :: "object_identity \<Rightarrow> string \<times> string \<times> string" where
  "object_key i =
     (if oi_platform i = ''posix''
      then (oi_platform i, optional_text (map_option render_int (oi_device i)),
            optional_text (map_option render_int (oi_inode i)))
      else (oi_platform i, optional_text (oi_volume_serial i), optional_text (oi_file_id i)))"

definition identity_to_dict :: "object_identity \<Rightarrow> json_object" where
  "identity_to_dict i =
     [(''schema'', JStr (oi_schema i)), (''platform'', JStr (oi_platform i)),
      (''kind'', JStr (fs_kind_str (oi_kind i)))]
     @ (if oi_platform i = ''posix''
        then [(''posix'', JObj [(''device'', optional JInt (oi_device i)),
                (''inode'', optional JInt (oi_inode i)), (''owner'', optional JInt (oi_owner i)),
                (''mode'', optional JInt (oi_mode i))])]
        else [(''windows'', JObj [(''volume_serial'', optional JStr (oi_volume_serial i)),
                (''file_id'', optional JStr (oi_file_id i)),
                (''owner_sid'', optional JStr (oi_owner_sid i)),
                (''dacl_sha256'', optional JStr (oi_dacl_sha256 i)),
                (''trust_policy_sha256'', optional JStr (oi_trust_policy_sha256 i))])])"

definition has_exactly :: "json_object \<Rightarrow> string list \<Rightarrow> bool" where
  "has_exactly data ks = (set (map fst data) = set ks)"

definition identity_int :: "json_object \<Rightarrow> string \<Rightarrow> exn + int" where
  "identity_int data k =
     (case obj_get data k of
        Some (JInt i) \<Rightarrow> Inr i
      | _ \<Rightarrow> Inl (Exn TypeError (''platform object identity '' @ k @ '' is invalid'')))"

definition native_payload :: "json_object \<Rightarrow> string \<Rightarrow> string \<Rightarrow> exn + json_object" where
  "native_payload data k m =
     (case obj_get data k of Some (JObj kvs) \<Rightarrow> Inr kvs | _ \<Rightarrow> Inl (bad_value m))"

definition identity_from_dict :: "host \<Rightarrow> json_object \<Rightarrow> exn + object_identity" where
  "identity_from_dict h data =
     (let platform = get_str h data ''platform'' []; schema = get_str h data ''schema'' [] in
      sbind (case parse_enum fs_kind_members (get_str h data ''kind'' []) of
               Inl _ \<Rightarrow> Inl (bad_value ''platform object identity kind is invalid'')
             | Inr k \<Rightarrow> Inr k) (\<lambda>kind.
      if platform = ''posix'' then
        (if \<not> has_exactly data [''schema'', ''platform'', ''kind'', ''posix'']
         then Inl (bad_value ''POSIX platform object identity shape is invalid'')
         else
           sbind (native_payload data ''posix''
                    ''POSIX platform object identity payload is invalid'') (\<lambda>native.
           if \<not> has_exactly native [''device'', ''inode'', ''owner'', ''mode'']
           then Inl (bad_value ''POSIX platform object identity shape is invalid'')
           else
             sbind (identity_int native ''device'') (\<lambda>device.
             sbind (identity_int native ''inode'') (\<lambda>inode.
             sbind (identity_int native ''owner'') (\<lambda>owner.
             sbind (identity_int native ''mode'') (\<lambda>mode.
             mk_identity ((bare_identity platform kind schema)
               \<lparr>oi_device := Some device, oi_inode := Some inode, oi_owner := Some owner,
                oi_mode := Some mode\<rparr>)))))))
      else if platform = ''windows'' then
        (if \<not> has_exactly data [''schema'', ''platform'', ''kind'', ''windows'']
         then Inl (bad_value ''Windows platform object identity shape is invalid'')
         else
           sbind (native_payload data ''windows''
                    ''Windows platform object identity payload is invalid'') (\<lambda>native.
           if \<not> has_exactly native
                  [''volume_serial'', ''file_id'', ''owner_sid'', ''dacl_sha256'',
                   ''trust_policy_sha256'']
           then Inl (bad_value ''Windows platform object identity shape is invalid'')
           else
             mk_identity ((bare_identity platform kind schema)
               \<lparr>oi_volume_serial := Some (get_str h native ''volume_serial'' []),
                oi_file_id := Some (get_str h native ''file_id'' []),
                oi_owner_sid := Some (get_str h native ''owner_sid'' []),
                oi_dacl_sha256 := Some (get_str h native ''dacl_sha256'' []),
                oi_trust_policy_sha256 := Some (get_str h native ''trust_policy_sha256'' [])\<rparr>)))
      else mk_identity (bare_identity platform kind schema)))"

subsection \<open>Connector and plugin bindings\<close>

record connector_binding =
  cb_system :: string
  cb_deployment :: string
  cb_config_identity_sha256 :: string
  cb_resolved_base_url :: string
  cb_resolved_origin :: string
  cb_implementation :: string
  cb_authentication_mode :: string
  cb_credential_scopes :: "string list"
  cb_credential_identity :: "string option"
  cb_ca_bundle_path :: "string option"
  cb_ca_bundle_sha256 :: "string option"
  cb_network_profile_name :: string
  cb_network_profile_sha256 :: "string option"
  cb_proxy_origin :: "string option"

definition binding_text :: "string \<Rightarrow> string \<Rightarrow> string \<Rightarrow> exn option" where
  "binding_text what name v = fail_if (blank v) (invalid (what @ '' '' @ name @ '' is empty''))"

definition optional_sha256 :: "string option \<Rightarrow> string \<Rightarrow> exn option" where
  "optional_sha256 v name = (case v of None \<Rightarrow> None | Some s \<Rightarrow> validate_sha256 s name)"

definition bad_proxy :: "url_parts \<Rightarrow> bool" where
  "bad_proxy u =
     (url_scheme u \<noteq> ''http'' \<or> url_hostname u = None \<or> url_hostname u = Some []
      \<or> url_username u \<noteq> None \<or> url_password u \<noteq> None \<or> url_path u \<notin> {'''', ''/''}
      \<or> url_query u \<noteq> [] \<or> url_fragment u \<noteq> [])"

definition check_proxy :: "host \<Rightarrow> string option \<Rightarrow> exn option" where
  "check_proxy h v =
     (case v of None \<Rightarrow> None
      | Some s \<Rightarrow> (case h_urlsplit h s of
            None \<Rightarrow> Some (bad_value ''invalid URL'')
          | Some u \<Rightarrow> fail_if (bad_proxy u)
              (invalid ''connector execution binding proxy origin is invalid'')))"

definition nonblank_if_some :: "string option \<Rightarrow> bool" where
  "nonblank_if_some v = (case v of None \<Rightarrow> True | Some s \<Rightarrow> \<not> blank s)"

definition mk_connector_binding :: "host \<Rightarrow> connector_binding \<Rightarrow> exn + connector_binding" where
  "mk_connector_binding h b =
     (let what = ''connector execution binding'';
          scopes = sort (remdups (cb_credential_scopes b)) in
      checked
       [binding_text what ''system'' (cb_system b),
        binding_text what ''deployment'' (cb_deployment b),
        binding_text what ''implementation'' (cb_implementation b),
        binding_text what ''resolved_base_url'' (cb_resolved_base_url b),
        binding_text what ''resolved_origin'' (cb_resolved_origin b),
        binding_text what ''authentication_mode'' (cb_authentication_mode b),
        fail_if (cb_implementation b \<noteq> ''native'')
          (invalid ''connector execution binding implementation is unsupported''),
        validate_sha256 (cb_config_identity_sha256 b)
          ''connector execution binding config_identity_sha256'',
        fail_if ((cb_ca_bundle_path b = None) \<noteq> (cb_ca_bundle_sha256 b = None))
          (invalid ''connector execution binding CA path and digest must be supplied together''),
        fail_if (\<not> nonblank_if_some (cb_credential_identity b))
          (invalid ''connector execution binding credential_identity is empty''),
        fail_if (\<exists>s \<in> set scopes. blank s)
          (invalid ''connector execution binding credential scope is empty''),
        fail_if (length scopes > 128 \<or> (\<exists>s \<in> set scopes. py_len s > 256))
          (invalid ''connector execution binding credential scopes are too large''),
        first_error (map (\<lambda>s. reject_control_characters s
          ''connector execution binding credential scope'') scopes),
        fail_if (\<not> nonblank_if_some (cb_ca_bundle_path b))
          (invalid ''connector execution binding CA path is empty''),
        optional_sha256 (cb_ca_bundle_sha256 b) ''connector execution binding ca_bundle_sha256'',
        fail_if (blank (cb_network_profile_name b))
          (invalid ''connector execution binding network profile name is empty''),
        optional_sha256 (cb_network_profile_sha256 b)
          ''connector execution binding network_profile_sha256'',
        check_proxy h (cb_proxy_origin b)]
       (b\<lparr>cb_credential_scopes := scopes\<rparr>))"

definition connector_binding_to_dict :: "connector_binding \<Rightarrow> json_object" where
  "connector_binding_to_dict b =
     [(''system'', JStr (cb_system b)),
      (''deployment'', JStr (cb_deployment b)),
      (''implementation'', JStr (cb_implementation b)),
      (''config_identity_sha256'', JStr (cb_config_identity_sha256 b)),
      (''resolved_base_url'', JStr (cb_resolved_base_url b)),
      (''resolved_origin'', JStr (cb_resolved_origin b)),
      (''authentication_mode'', JStr (cb_authentication_mode b)),
      (''ca_bundle_path'', optional JStr (cb_ca_bundle_path b)),
      (''ca_bundle_sha256'', optional JStr (cb_ca_bundle_sha256 b)),
      (''network_profile_name'', JStr (cb_network_profile_name b)),
      (''network_profile_sha256'', optional JStr (cb_network_profile_sha256 b)),
      (''proxy_origin'', optional JStr (cb_proxy_origin b)),
      (''credential_scopes'', strings (cb_credential_scopes b))]
     @ (case cb_credential_identity b of
          None \<Rightarrow> [] | Some s \<Rightarrow> [(''credential_identity'', JStr s)])"

definition connector_binding_from_dict :: "host \<Rightarrow> json_object \<Rightarrow> exn + connector_binding" where
  "connector_binding_from_dict h data =
     (if obj_get data ''implementation'' = None
      then Inl (invalid ''connector execution binding implementation is required'')
      else
        sbind (case obj_get data ''credential_scopes'' of
                 None \<Rightarrow> Inr []
               | v \<Rightarrow> string_list v
                   (invalid ''connector execution binding credential_scopes must be strings''))
          (\<lambda>scopes.
        sbind (need_str h data ''system'') (\<lambda>system.
        sbind (need_str h data ''deployment'') (\<lambda>deployment.
        sbind (need_str h data ''implementation'') (\<lambda>implementation.
        sbind (need_str h data ''config_identity_sha256'') (\<lambda>config.
        sbind (need_str h data ''resolved_base_url'') (\<lambda>base_url.
        sbind (need_str h data ''resolved_origin'') (\<lambda>origin.
        mk_connector_binding h
          \<lparr>cb_system = system, cb_deployment = deployment, cb_config_identity_sha256 = config,
           cb_resolved_base_url = base_url, cb_resolved_origin = origin,
           cb_implementation = implementation,
           cb_authentication_mode = get_str h data ''authentication_mode'' ''none'',
           cb_credential_scopes = scopes,
           cb_credential_identity = opt_str h data ''credential_identity'',
           cb_ca_bundle_path = opt_str h data ''ca_bundle_path'',
           cb_ca_bundle_sha256 = opt_str h data ''ca_bundle_sha256'',
           cb_network_profile_name = get_str h data ''network_profile_name'' ''direct'',
           cb_network_profile_sha256 = opt_str h data ''network_profile_sha256'',
           cb_proxy_origin = opt_str h data ''proxy_origin''\<rparr>))))))))"

record plugin_binding =
  pb_name :: string
  pb_group :: string
  pb_entry_point :: string
  pb_distribution :: string
  pb_distribution_version :: string
  pb_artifact_sha256 :: string
  pb_identity_sha256 :: string

definition mk_plugin_binding :: "plugin_binding \<Rightarrow> exn + plugin_binding" where
  "mk_plugin_binding b =
     (let what = ''plugin execution binding'' in
      checked
       [binding_text what ''name'' (pb_name b),
        binding_text what ''group'' (pb_group b),
        binding_text what ''entry_point'' (pb_entry_point b),
        binding_text what ''distribution'' (pb_distribution b),
        binding_text what ''distribution_version'' (pb_distribution_version b),
        validate_sha256 (pb_artifact_sha256 b) ''plugin execution binding artifact_sha256'',
        validate_sha256 (pb_identity_sha256 b) ''plugin execution binding identity_sha256''] b)"

definition plugin_binding_to_dict :: "plugin_binding \<Rightarrow> json_object" where
  "plugin_binding_to_dict b =
     [(''name'', JStr (pb_name b)), (''group'', JStr (pb_group b)),
      (''entry_point'', JStr (pb_entry_point b)), (''distribution'', JStr (pb_distribution b)),
      (''distribution_version'', JStr (pb_distribution_version b)),
      (''artifact_sha256'', JStr (pb_artifact_sha256 b)),
      (''identity_sha256'', JStr (pb_identity_sha256 b))]"

definition plugin_binding_from_dict :: "host \<Rightarrow> json_object \<Rightarrow> exn + plugin_binding" where
  "plugin_binding_from_dict h data =
     sbind (need_str h data ''name'') (\<lambda>name.
     sbind (need_str h data ''group'') (\<lambda>group.
     sbind (need_str h data ''entry_point'') (\<lambda>entry_point.
     sbind (need_str h data ''distribution'') (\<lambda>distribution.
     sbind (need_str h data ''distribution_version'') (\<lambda>version.
     sbind (need_str h data ''artifact_sha256'') (\<lambda>artifact.
     sbind (need_str h data ''identity_sha256'') (\<lambda>identity.
     mk_plugin_binding
       \<lparr>pb_name = name, pb_group = group, pb_entry_point = entry_point,
        pb_distribution = distribution, pb_distribution_version = version,
        pb_artifact_sha256 = artifact, pb_identity_sha256 = identity\<rparr>)))))))"

subsection \<open>Runtime binding\<close>

record configuration_binding =
  fb_name :: string
  fb_sha256 :: string

definition mk_configuration_binding :: "configuration_binding \<Rightarrow> exn + configuration_binding" where
  "mk_configuration_binding b =
     checked
       [fail_if (blank (fb_name b)) (invalid ''configuration execution binding name is empty''),
        validate_sha256 (fb_sha256 b) (''configuration binding '' @ fb_name b @ '' sha256'')] b"

definition configuration_binding_to_dict :: "configuration_binding \<Rightarrow> json_object" where
  "configuration_binding_to_dict b = [(''name'', JStr (fb_name b)), (''sha256'', JStr (fb_sha256 b))]"

definition configuration_binding_from_dict :: "host \<Rightarrow> json_object \<Rightarrow> exn + configuration_binding" where
  "configuration_binding_from_dict h data =
     sbind (need_str h data ''name'') (\<lambda>name.
     sbind (need_str h data ''sha256'') (\<lambda>sha.
     mk_configuration_binding \<lparr>fb_name = name, fb_sha256 = sha\<rparr>))"

text \<open>\<open>Path(p).is_absolute()\<close> and \<open>str(Path(p).parent)\<close>: empty and \<open>.\<close> components vanish, and
  exactly two leading slashes are kept.\<close>

definition is_absolute :: "string \<Rightarrow> bool" where
  "is_absolute p = (take 1 p = ''/'')"

fun path_split :: "string \<Rightarrow> string list" where
  "path_split [] = [[]]"
| "path_split (c # s) =
     (if c = CHR ''/'' then [] # path_split s
      else case path_split s of [] \<Rightarrow> [[c]] | x # xs \<Rightarrow> (c # x) # xs)"

definition path_components :: "string \<Rightarrow> string list" where
  "path_components p = filter (\<lambda>x. x \<noteq> [] \<and> x \<noteq> ''.'') (path_split p)"

definition path_root :: "string \<Rightarrow> string" where
  "path_root p =
     (if take 2 p = ''//'' \<and> take 3 p \<noteq> ''///'' then ''//'' else if is_absolute p then ''/'' else [])"

definition path_parent :: "string \<Rightarrow> string" where
  "path_parent p =
     (let text = path_root p @ py_join ''/'' (butlast (path_components p))
      in if text = [] then ''.'' else text)"

record path_binding =
  hb_name :: string
  hb_path :: string
  hb_anchor_path :: string
  hb_device :: int
  hb_inode :: int
  hb_owner :: int
  hb_mode :: int
  hb_object_identity :: "object_identity option"

definition relabel :: "exn \<Rightarrow> exn + 'a \<Rightarrow> exn + 'a" where
  "relabel e r = (case r of Inl _ \<Rightarrow> Inl e | Inr x \<Rightarrow> Inr x)"

text \<open>\<open>_identity\<close>: the explicit native identity, or the POSIX view of the legacy fields.\<close>

definition path_identity :: "exn \<Rightarrow> path_binding \<Rightarrow> exn + object_identity" where
  "path_identity e b =
     (case hb_object_identity b of
        Some i \<Rightarrow> Inr i
      | None \<Rightarrow> relabel e
          (from_posix DIRECTORY (hb_device b) (hb_inode b) (hb_owner b) (hb_mode b)))"

definition mk_path_binding :: "path_binding \<Rightarrow> exn + path_binding" where
  "mk_path_binding b =
     (let what = ''runtime path execution binding '' @ hb_name b in
      sbind (checked
        [fail_if (blank (hb_name b)) (invalid ''runtime path execution binding name is empty''),
         fail_if (blank (hb_path b) \<or> \<not> is_absolute (hb_path b))
           (invalid (what @ '' must be absolute'')),
         fail_if (blank (hb_anchor_path b) \<or> \<not> is_absolute (hb_anchor_path b))
           (invalid (what @ '' anchor must be absolute'')),
         fail_if (hb_anchor_path b \<noteq> hb_path b) (invalid (what @ '' must pin its exact path''))] ())
        (\<lambda>_. sbind (path_identity (invalid (what @ '' identity is invalid'')) b) (\<lambda>i.
      checked
        [fail_if (oi_kind i \<noteq> DIRECTORY) (invalid (what @ '' must identify a directory'')),
         (if oi_platform i = ''posix''
          then fail_if ((Some (hb_device b), Some (hb_inode b), Some (hb_owner b), Some (hb_mode b))
                        \<noteq> (oi_device i, oi_inode i, oi_owner i, oi_mode i))
                 (invalid (what @ '' POSIX identity drifted''))
          else fail_if ((hb_device b, hb_inode b, hb_owner b, hb_mode b) \<noteq> (0, 0, 0, 0))
                 (invalid (what @ '' mixes native identities'')))] b)))"

definition path_binding_to_dict :: "path_binding \<Rightarrow> json_object" where
  "path_binding_to_dict b =
     [(''name'', JStr (hb_name b)), (''path'', JStr (hb_path b)),
      (''anchor_path'', JStr (hb_anchor_path b)),
      (''device'', JInt (hb_device b)), (''inode'', JInt (hb_inode b)),
      (''owner'', JInt (hb_owner b)), (''mode'', JInt (hb_mode b))]
     @ (case hb_object_identity b of
          None \<Rightarrow> [] | Some i \<Rightarrow> [(''object_identity'', JObj (identity_to_dict i))])"

definition get_int :: "host \<Rightarrow> json_object \<Rightarrow> string \<Rightarrow> exn + int" where
  "get_int h data k = (case obj_get data k of None \<Rightarrow> Inr (- 1) | Some j \<Rightarrow> py_int h j)"

definition path_binding_from_dict :: "host \<Rightarrow> json_object \<Rightarrow> exn + path_binding" where
  "path_binding_from_dict h data =
     sbind (case obj_get data ''object_identity'' of
              None \<Rightarrow> Inr None
            | Some (JObj kvs) \<Rightarrow>
                sbind (relabel (invalid ''runtime path object identity is invalid'')
                         (identity_from_dict h kvs)) (\<lambda>i. Inr (Some i))
            | Some _ \<Rightarrow> Inl (invalid ''runtime path object identity is invalid'')) (\<lambda>identity.
     sbind (need_str h data ''name'') (\<lambda>name.
     sbind (need_str h data ''path'') (\<lambda>path.
     sbind (get_int h data ''device'') (\<lambda>device.
     sbind (get_int h data ''inode'') (\<lambda>inode.
     sbind (get_int h data ''owner'') (\<lambda>owner.
     sbind (get_int h data ''mode'') (\<lambda>mode.
     mk_path_binding
       \<lparr>hb_name = name, hb_path = path, hb_anchor_path = get_str h data ''anchor_path'' [],
        hb_device = device, hb_inode = inode, hb_owner = owner, hb_mode = mode,
        hb_object_identity = identity\<rparr>)))))))"

record runtime_binding =
  rb_connector_mode :: string
  rb_include_writes :: bool
  rb_include_communications :: bool
  rb_audit_database :: string
  rb_artifact_root :: string
  rb_workspace_root :: "string option"
  rb_result_json :: "string option"
  rb_evidence_type :: "string option"
  rb_configurations :: "configuration_binding list"
  rb_runtime_paths :: "path_binding list"
  rb_credential_file :: "string option"
  rb_publication_roots :: "path_binding list"
  rb_schema :: string

definition runtime_schema :: string where
  "runtime_schema = ''master-agent/runtime-execution-binding@2''"

definition not_absolute :: "string \<Rightarrow> bool" where
  "not_absolute p = (blank p \<or> \<not> is_absolute p)"

definition optional_absolute :: "string \<Rightarrow> string option \<Rightarrow> exn option" where
  "optional_absolute name v =
     (case v of None \<Rightarrow> None
      | Some p \<Rightarrow> fail_if (not_absolute p) (invalid (''runtime '' @ name @ '' must be an absolute path'')))"

text \<open>The writable directories by name, and all selected directories.\<close>

definition writable_directories :: "runtime_binding \<Rightarrow> (string \<times> string) list" where
  "writable_directories b =
     [(''audit.parent'', path_parent (rb_audit_database b)), (''artifact.root'', rb_artifact_root b)]
     @ (case rb_result_json b of None \<Rightarrow> [] | Some p \<Rightarrow> [(''result.parent'', path_parent p)])"

definition selected_directories :: "runtime_binding \<Rightarrow> (string \<times> string) list" where
  "selected_directories b =
     writable_directories b
     @ (case rb_workspace_root b of None \<Rightarrow> [] | Some p \<Rightarrow> [(''workspace.root'', p)])"

definition same_dict :: "(string \<times> string) list \<Rightarrow> (string \<times> string) list \<Rightarrow> bool" where
  "same_dict a b =
     (set (map fst a) = set (map fst b) \<and> (\<forall>k \<in> set (map fst a). map_of a k = map_of b k))"

definition mk_runtime_binding :: "runtime_binding \<Rightarrow> exn + runtime_binding" where
  "mk_runtime_binding b =
     (let configurations = sort_key fb_name (rb_configurations b);
          runtime_paths = sort_key hb_name (rb_runtime_paths b);
          publication_roots = sort_key hb_name (rb_publication_roots b) in
      sbind (checked
        [fail_if (rb_schema b \<noteq> runtime_schema)
           (invalid ''unsupported runtime execution binding schema''),
         fail_if (rb_connector_mode b \<noteq> ''mock'' \<and> rb_connector_mode b \<noteq> ''live'')
           (invalid ''runtime connector_mode must be mock or live''),
         fail_if (not_absolute (rb_audit_database b))
           (invalid ''runtime audit_database must be an absolute path''),
         fail_if (not_absolute (rb_artifact_root b))
           (invalid ''runtime artifact_root must be an absolute path''),
         optional_absolute ''workspace_root'' (rb_workspace_root b),
         optional_absolute ''result_json'' (rb_result_json b),
         optional_absolute ''credential_file'' (rb_credential_file b),
         fail_if ((rb_result_json b = None) \<noteq> (rb_evidence_type b = None))
           (invalid ''runtime result_json and evidence_type must be supplied together''),
         fail_if (\<not> nonblank_if_some (rb_evidence_type b)) (invalid ''runtime evidence_type is empty''),
         fail_if (\<not> distinct (map snd (writable_directories b)))
           (invalid ''runtime audit, artifact, and result directories must be pairwise distinct''),
         fail_if (\<not> distinct (map fb_name configurations))
           (invalid ''runtime configuration binding names must be unique''),
         fail_if (\<not> distinct (map hb_name runtime_paths))
           (invalid ''runtime path identity names must be unique''),
         fail_if (\<not> distinct (map hb_name publication_roots))
           (invalid ''runtime publication root names must be unique''),
         fail_if (\<not> same_dict (map (\<lambda>p. (hb_name p, hb_path p)) runtime_paths) (selected_directories b))
           (invalid ''runtime path identities must exactly cover selected writable roots'')] ()) (\<lambda>_.
      sbind (smap (path_identity (invalid ''runtime path object identity is invalid''))
        (filter (\<lambda>p. hb_name p \<in> {''audit.parent'', ''artifact.root'', ''result.parent''})
          runtime_paths)) (\<lambda>identities.
      checked
        [fail_if (\<not> distinct (map object_key identities))
           (invalid ''runtime audit, artifact, and result directory identities must be pairwise distinct'')]
        (b\<lparr>rb_configurations := configurations, rb_runtime_paths := runtime_paths,
           rb_publication_roots := publication_roots\<rparr>))))"

definition runtime_binding_to_dict :: "runtime_binding \<Rightarrow> json_object" where
  "runtime_binding_to_dict b =
     [(''schema'', JStr (rb_schema b)),
      (''connector_mode'', JStr (rb_connector_mode b)),
      (''include_writes'', JBool (rb_include_writes b)),
      (''include_communications'', JBool (rb_include_communications b)),
      (''audit_database'', JStr (rb_audit_database b)),
      (''artifact_root'', JStr (rb_artifact_root b)),
      (''workspace_root'', optional JStr (rb_workspace_root b)),
      (''result_json'', optional JStr (rb_result_json b)),
      (''evidence_type'', optional JStr (rb_evidence_type b)),
      (''configurations'',
        JList (map (\<lambda>c. JObj (configuration_binding_to_dict c)) (rb_configurations b))),
      (''runtime_paths'', JList (map (\<lambda>p. JObj (path_binding_to_dict p)) (rb_runtime_paths b))),
      (''publication_roots'',
        JList (map (\<lambda>p. JObj (path_binding_to_dict p)) (rb_publication_roots b)))]
     @ (case rb_credential_file b of None \<Rightarrow> [] | Some p \<Rightarrow> [(''credential_file'', JStr p)])"

definition runtime_binding_from_dict :: "host \<Rightarrow> json_object \<Rightarrow> exn + runtime_binding" where
  "runtime_binding_from_dict h data =
     sbind (object_list (obj_get data ''configurations'')
              (invalid ''runtime configurations must be a list of objects'')) (\<lambda>raw_configurations.
     sbind (case obj_get data ''publication_roots'' of
              None \<Rightarrow> Inr []
            | v \<Rightarrow> object_list v (invalid ''runtime publication_roots must be a list of objects''))
       (\<lambda>raw_roots.
     sbind (object_list (obj_get data ''runtime_paths'')
              (invalid ''runtime runtime_paths must be a list of objects'')) (\<lambda>raw_paths.
     sbind (need_str h data ''connector_mode'') (\<lambda>connector_mode.
     sbind (strict_bool (obj_get data ''include_writes'') ''runtime include_writes'') (\<lambda>include_writes.
     sbind (strict_bool (obj_get data ''include_communications'') ''runtime include_communications'')
       (\<lambda>include_communications.
     sbind (need_str h data ''audit_database'') (\<lambda>audit_database.
     sbind (need_str h data ''artifact_root'') (\<lambda>artifact_root.
     sbind (smap (configuration_binding_from_dict h) raw_configurations) (\<lambda>configurations.
     sbind (smap (path_binding_from_dict h) raw_paths) (\<lambda>runtime_paths.
     sbind (smap (path_binding_from_dict h) raw_roots) (\<lambda>publication_roots.
     mk_runtime_binding
       \<lparr>rb_connector_mode = connector_mode, rb_include_writes = include_writes,
        rb_include_communications = include_communications, rb_audit_database = audit_database,
        rb_artifact_root = artifact_root, rb_workspace_root = opt_str h data ''workspace_root'',
        rb_result_json = opt_str h data ''result_json'',
        rb_evidence_type = opt_str h data ''evidence_type'',
        rb_configurations = configurations, rb_runtime_paths = runtime_paths,
        rb_credential_file = opt_str h data ''credential_file'',
        rb_publication_roots = publication_roots,
        rb_schema = get_str h data ''schema'' []\<rparr>)))))))))))"

subsection \<open>Capsule bindings\<close>

text \<open>The pattern \<open>[a-z][a-z0-9]*(?:[._-][a-z0-9][a-z0-9_-]*)+\<close> as an automaton: the head, just
  after a separator, and inside a later segment. Inside a segment \<open>_\<close> and \<open>-\<close> may both continue it
  and separate; continuing accepts whatever separating would.\<close>

datatype capability_mode = Head | Separator | Segment

definition is_alnum :: "char \<Rightarrow> bool" where
  "is_alnum c = (is_lower c \<or> is_digit c)"

fun capability_rest :: "capability_mode \<Rightarrow> string \<Rightarrow> bool" where
  "capability_rest m [] = (m = Segment)"
| "capability_rest Head (c # s) =
     (if is_alnum c then capability_rest Head s
      else c \<in> set ''._-'' \<and> capability_rest Separator s)"
| "capability_rest Separator (c # s) = (is_alnum c \<and> capability_rest Segment s)"
| "capability_rest Segment (c # s) =
     (if is_alnum c \<or> c = CHR ''_'' \<or> c = CHR ''-'' then capability_rest Segment s
      else c = CHR ''.'' \<and> capability_rest Separator s)"

definition capability_pattern :: "string \<Rightarrow> bool" where
  "capability_pattern s = (case s of [] \<Rightarrow> False | c # cs \<Rightarrow> is_lower c \<and> capability_rest Head cs)"

text \<open>The pattern \<open>[0-9]+\.[0-9]+\.[0-9]+(?:[-+][A-Za-z0-9.-]+)?\<close>.\<close>

definition is_upper :: "char \<Rightarrow> bool" where
  "is_upper c = (CHR ''A'' \<le> c \<and> c \<le> CHR ''Z'')"

definition number_then_dot :: "string \<Rightarrow> string option" where
  "number_then_dot s =
     (case dropWhile is_digit s of
        c # rest \<Rightarrow> if c = CHR ''.'' \<and> takeWhile is_digit s \<noteq> [] then Some rest else None
      | [] \<Rightarrow> None)"

definition version_suffix :: "string \<Rightarrow> bool" where
  "version_suffix s =
     (case s of
        [] \<Rightarrow> True
      | c # cs \<Rightarrow> (c = CHR ''-'' \<or> c = CHR ''+'') \<and> cs \<noteq> []
          \<and> (\<forall>d \<in> set cs. is_lower d \<or> is_upper d \<or> is_digit d \<or> d = CHR ''.'' \<or> d = CHR ''-''))"

definition version_pattern :: "string \<Rightarrow> bool" where
  "version_pattern s =
     (case number_then_dot s of
        None \<Rightarrow> False
      | Some s1 \<Rightarrow> (case number_then_dot s1 of
            None \<Rightarrow> False
          | Some s2 \<Rightarrow> takeWhile is_digit s2 \<noteq> [] \<and> version_suffix (dropWhile is_digit s2)))"

definition validate_approval_claim :: "host \<Rightarrow> string \<Rightarrow> string \<Rightarrow> exn option" where
  "validate_approval_claim h v name =
     first_error
       [fail_if (v = [] \<or> \<not> trimmed v) (invalid (name @ '' must be a non-empty normalized value'')),
        fail_if (h_nfc h v \<noteq> v) (invalid (name @ '' must use Unicode NFC normalization'')),
        reject_control_characters v name]"

definition capsule_text :: "host \<Rightarrow> string \<Rightarrow> string \<Rightarrow> exn option" where
  "capsule_text h name v =
     first_error
       [fail_if (v = [] \<or> \<not> trimmed v)
          (invalid (''capsule binding '' @ name @ '' is empty or malformed'')),
        validate_approval_claim h v (''capsule binding '' @ name),
        validate_bounded_string v]"

definition capsule_values :: "string \<Rightarrow> string list \<Rightarrow> exn option" where
  "capsule_values name vs =
     first_error
       (fail_if (\<not> distinct vs \<or> (\<exists>v \<in> set vs. v = [] \<or> \<not> trimmed v))
          (invalid (''capsule binding '' @ name @ '' is malformed''))
        # concat (map (\<lambda>v. [reject_control_characters v (''capsule binding '' @ name),
                            validate_bounded_string v]) vs))"

definition capsule_limit :: "string \<Rightarrow> int \<Rightarrow> int \<Rightarrow> int \<Rightarrow> exn option" where
  "capsule_limit name v minimum maximum =
     fail_if (\<not> (minimum \<le> v \<and> v \<le> maximum))
       (invalid (''capsule binding '' @ name @ '' is outside its safe bound''))"

definition capsule_binding_strings :: "json_object \<Rightarrow> string \<Rightarrow> exn + string list" where
  "capsule_binding_strings data k =
     string_list (obj_get data k) (invalid (''capsule binding '' @ k @ '' must be a string list''))"

definition required_positive_int :: "json_object \<Rightarrow> string \<Rightarrow> exn + int" where
  "required_positive_int data k =
     (case obj_get data k of
        Some (JInt i) \<Rightarrow>
          if i \<le> 0 then Inl (invalid (''capsule binding '' @ k @ '' must be positive'')) else Inr i
      | _ \<Rightarrow> Inl (invalid (''capsule binding '' @ k @ '' must be positive'')))"

record capsule_binding =
  kb_capability_id :: string
  kb_version :: string
  kb_risk :: risk_level
  kb_manifest_sha256 :: string
  kb_source_sha256 :: string
  kb_artifact_sha256 :: string
  kb_dependency_lock_sha256 :: string
  kb_sbom_sha256 :: string
  kb_test_suite_sha256 :: string
  kb_validation_result_sha256 :: string
  kb_sandbox_validation_sha256 :: string
  kb_verification_contract_sha256 :: string
  kb_compensation_contract_sha256 :: string
  kb_policy_contract_sha256 :: string
  kb_worker_sha256 :: string
  kb_publisher :: string
  kb_reviewer :: string
  kb_signer_key_id :: string
  kb_authenticated_principal :: string
  kb_agent_identity :: string
  kb_tenant_id :: string
  kb_provider_account_id :: string
  kb_credential_provider_id :: string
  kb_allowed_origins :: "string list"
  kb_allowed_methods :: "string list"
  kb_allowed_path_prefixes :: "string list"
  kb_credential_names :: "string list"
  kb_credential_scopes :: "string list"
  kb_data_classification :: data_classification
  kb_retention_class :: string
  kb_max_input_bytes :: int
  kb_max_output_bytes :: int
  kb_timeout_seconds :: int
  kb_cpu_seconds :: int
  kb_memory_bytes :: int
  kb_max_processes :: int
  kb_state :: string

definition mk_capsule_binding :: "host \<Rightarrow> capsule_binding \<Rightarrow> exn + capsule_binding" where
  "mk_capsule_binding h b =
     checked
       ([validate_bounded_string (kb_capability_id b),
         validate_bounded_string (kb_version b),
         fail_if (\<not> capability_pattern (kb_capability_id b))
           (invalid ''capsule binding capability_id is malformed''),
         fail_if (\<not> version_pattern (kb_version b))
           (invalid ''capsule binding version is malformed''),
         capsule_text h ''publisher'' (kb_publisher b),
         capsule_text h ''reviewer'' (kb_reviewer b),
         capsule_text h ''signer_key_id'' (kb_signer_key_id b),
         capsule_text h ''authenticated_principal'' (kb_authenticated_principal b),
         capsule_text h ''agent_identity'' (kb_agent_identity b),
         capsule_text h ''tenant_id'' (kb_tenant_id b),
         capsule_text h ''provider_account_id'' (kb_provider_account_id b),
         capsule_text h ''credential_provider_id'' (kb_credential_provider_id b),
         capsule_text h ''retention_class'' (kb_retention_class b),
         fail_if (h_casefold h (kb_publisher b) = h_casefold h (kb_reviewer b))
           (invalid ''capsule publisher and reviewer must be distinct''),
         fail_if (kb_state b \<noteq> ''enabled'')
           (invalid ''only enabled capability capsules may bind to plans''),
         validate_sha256 (kb_manifest_sha256 b) ''capsule binding manifest_sha256'',
         validate_sha256 (kb_source_sha256 b) ''capsule binding source_sha256'',
         validate_sha256 (kb_artifact_sha256 b) ''capsule binding artifact_sha256'',
         validate_sha256 (kb_dependency_lock_sha256 b) ''capsule binding dependency_lock_sha256'',
         validate_sha256 (kb_sbom_sha256 b) ''capsule binding sbom_sha256'',
         validate_sha256 (kb_test_suite_sha256 b) ''capsule binding test_suite_sha256'',
         validate_sha256 (kb_validation_result_sha256 b) ''capsule binding validation_result_sha256'',
         validate_sha256 (kb_sandbox_validation_sha256 b) ''capsule binding sandbox_validation_sha256'',
         validate_sha256 (kb_verification_contract_sha256 b) ''capsule binding verification_contract_sha256'',
         validate_sha256 (kb_compensation_contract_sha256 b) ''capsule binding compensation_contract_sha256'',
         validate_sha256 (kb_policy_contract_sha256 b) ''capsule binding policy_contract_sha256'',
         validate_sha256 (kb_worker_sha256 b) ''capsule binding worker_sha256'',
         capsule_values ''allowed_origins'' (kb_allowed_origins b),
         capsule_values ''allowed_methods'' (kb_allowed_methods b),
         capsule_values ''allowed_path_prefixes'' (kb_allowed_path_prefixes b),
         capsule_values ''credential_names'' (kb_credential_names b),
         capsule_values ''credential_scopes'' (kb_credential_scopes b),
         capsule_limit ''max_input_bytes'' (kb_max_input_bytes b) 1 1048576,
         capsule_limit ''max_output_bytes'' (kb_max_output_bytes b) 1 1048576,
         capsule_limit ''timeout_seconds'' (kb_timeout_seconds b) 1 30,
         capsule_limit ''cpu_seconds'' (kb_cpu_seconds b) 1 10,
         capsule_limit ''memory_bytes'' (kb_memory_bytes b) 33554432 536870912,
         capsule_limit ''max_processes'' (kb_max_processes b) 1 4]) b"

definition capsule_binding_to_dict :: "capsule_binding \<Rightarrow> json_object" where
  "capsule_binding_to_dict b =
     [(''capability_id'', JStr (kb_capability_id b)),
      (''version'', JStr (kb_version b)),
      (''risk'', JStr (risk_str (kb_risk b))),
      (''manifest_sha256'', JStr (kb_manifest_sha256 b)),
      (''source_sha256'', JStr (kb_source_sha256 b)),
      (''artifact_sha256'', JStr (kb_artifact_sha256 b)),
      (''dependency_lock_sha256'', JStr (kb_dependency_lock_sha256 b)),
      (''sbom_sha256'', JStr (kb_sbom_sha256 b)),
      (''test_suite_sha256'', JStr (kb_test_suite_sha256 b)),
      (''validation_result_sha256'', JStr (kb_validation_result_sha256 b)),
      (''sandbox_validation_sha256'', JStr (kb_sandbox_validation_sha256 b)),
      (''verification_contract_sha256'', JStr (kb_verification_contract_sha256 b)),
      (''compensation_contract_sha256'', JStr (kb_compensation_contract_sha256 b)),
      (''policy_contract_sha256'', JStr (kb_policy_contract_sha256 b)),
      (''worker_sha256'', JStr (kb_worker_sha256 b)),
      (''publisher'', JStr (kb_publisher b)),
      (''reviewer'', JStr (kb_reviewer b)),
      (''signer_key_id'', JStr (kb_signer_key_id b)),
      (''authenticated_principal'', JStr (kb_authenticated_principal b)),
      (''agent_identity'', JStr (kb_agent_identity b)),
      (''tenant_id'', JStr (kb_tenant_id b)),
      (''provider_account_id'', JStr (kb_provider_account_id b)),
      (''credential_provider_id'', JStr (kb_credential_provider_id b)),
      (''allowed_origins'', strings (kb_allowed_origins b)),
      (''allowed_methods'', strings (kb_allowed_methods b)),
      (''allowed_path_prefixes'', strings (kb_allowed_path_prefixes b)),
      (''credential_names'', strings (kb_credential_names b)),
      (''credential_scopes'', strings (kb_credential_scopes b)),
      (''data_classification'', JStr (classification_str (kb_data_classification b))),
      (''retention_class'', JStr (kb_retention_class b)),
      (''max_input_bytes'', JInt (kb_max_input_bytes b)),
      (''max_output_bytes'', JInt (kb_max_output_bytes b)),
      (''timeout_seconds'', JInt (kb_timeout_seconds b)),
      (''cpu_seconds'', JInt (kb_cpu_seconds b)),
      (''memory_bytes'', JInt (kb_memory_bytes b)),
      (''max_processes'', JInt (kb_max_processes b)),
      (''state'', JStr (kb_state b))]"

definition capsule_binding_from_dict :: "host \<Rightarrow> json_object \<Rightarrow> exn + capsule_binding" where
  "capsule_binding_from_dict h data =
     sbind (need_str h data ''capability_id'') (\<lambda>capability.
     sbind (need_str h data ''version'') (\<lambda>version.
     sbind (need_str h data ''risk'') (\<lambda>risk_text.
     sbind (parse_enum risk_members risk_text) (\<lambda>risk.
     sbind (need_str h data ''manifest_sha256'') (\<lambda>manifest.
     sbind (need_str h data ''source_sha256'') (\<lambda>source.
     sbind (need_str h data ''artifact_sha256'') (\<lambda>artifact.
     sbind (need_str h data ''dependency_lock_sha256'') (\<lambda>dependency_lock.
     sbind (need_str h data ''sbom_sha256'') (\<lambda>sbom.
     sbind (need_str h data ''test_suite_sha256'') (\<lambda>test_suite.
     sbind (need_str h data ''validation_result_sha256'') (\<lambda>validation_result.
     sbind (need_str h data ''sandbox_validation_sha256'') (\<lambda>sandbox_validation.
     sbind (need_str h data ''verification_contract_sha256'') (\<lambda>verification_contract.
     sbind (need_str h data ''compensation_contract_sha256'') (\<lambda>compensation_contract.
     sbind (need_str h data ''policy_contract_sha256'') (\<lambda>policy_contract.
     sbind (need_str h data ''worker_sha256'') (\<lambda>worker.
     sbind (need_str h data ''publisher'') (\<lambda>publisher.
     sbind (need_str h data ''reviewer'') (\<lambda>reviewer.
     sbind (need_str h data ''signer_key_id'') (\<lambda>signer_key_id.
     sbind (need_str h data ''authenticated_principal'') (\<lambda>authenticated_principal.
     sbind (need_str h data ''agent_identity'') (\<lambda>agent_identity.
     sbind (need_str h data ''tenant_id'') (\<lambda>tenant_id.
     sbind (need_str h data ''provider_account_id'') (\<lambda>provider_account_id.
     sbind (need_str h data ''credential_provider_id'') (\<lambda>credential_provider_id.
     sbind (capsule_binding_strings data ''allowed_origins'') (\<lambda>allowed_origins.
     sbind (capsule_binding_strings data ''allowed_methods'') (\<lambda>allowed_methods.
     sbind (capsule_binding_strings data ''allowed_path_prefixes'') (\<lambda>allowed_path_prefixes.
     sbind (capsule_binding_strings data ''credential_names'') (\<lambda>credential_names.
     sbind (capsule_binding_strings data ''credential_scopes'') (\<lambda>credential_scopes.
     sbind (need_str h data ''data_classification'') (\<lambda>class_text.
     sbind (parse_enum classification_members class_text) (\<lambda>classification.
     sbind (need_str h data ''retention_class'') (\<lambda>retention_class.
     sbind (required_positive_int data ''max_input_bytes'') (\<lambda>max_input_bytes.
     sbind (required_positive_int data ''max_output_bytes'') (\<lambda>max_output_bytes.
     sbind (required_positive_int data ''timeout_seconds'') (\<lambda>timeout_seconds.
     sbind (required_positive_int data ''cpu_seconds'') (\<lambda>cpu_seconds.
     sbind (required_positive_int data ''memory_bytes'') (\<lambda>memory_bytes.
     sbind (required_positive_int data ''max_processes'') (\<lambda>max_processes.
     sbind (need_str h data ''state'') (\<lambda>state.
     mk_capsule_binding h
       \<lparr>kb_capability_id = capability, kb_version = version, kb_risk = risk,
        kb_manifest_sha256 = manifest, kb_source_sha256 = source,
        kb_artifact_sha256 = artifact, kb_dependency_lock_sha256 = dependency_lock,
        kb_sbom_sha256 = sbom, kb_test_suite_sha256 = test_suite,
        kb_validation_result_sha256 = validation_result,
        kb_sandbox_validation_sha256 = sandbox_validation,
        kb_verification_contract_sha256 = verification_contract,
        kb_compensation_contract_sha256 = compensation_contract,
        kb_policy_contract_sha256 = policy_contract, kb_worker_sha256 = worker,
        kb_publisher = publisher, kb_reviewer = reviewer, kb_signer_key_id = signer_key_id,
        kb_authenticated_principal = authenticated_principal,
        kb_agent_identity = agent_identity, kb_tenant_id = tenant_id,
        kb_provider_account_id = provider_account_id,
        kb_credential_provider_id = credential_provider_id,
        kb_allowed_origins = allowed_origins, kb_allowed_methods = allowed_methods,
        kb_allowed_path_prefixes = allowed_path_prefixes,
        kb_credential_names = credential_names, kb_credential_scopes = credential_scopes,
        kb_data_classification = classification, kb_retention_class = retention_class,
        kb_max_input_bytes = max_input_bytes, kb_max_output_bytes = max_output_bytes,
        kb_timeout_seconds = timeout_seconds, kb_cpu_seconds = cpu_seconds,
        kb_memory_bytes = memory_bytes, kb_max_processes = max_processes, kb_state = state\<rparr>)))))))))))))))))))))))))))))))))))))))"

subsection \<open>Execution context\<close>

record execution_context =
  xc_integrations_sha256 :: string
  xc_connectors :: "connector_binding list"
  xc_plugins :: "plugin_binding list"
  xc_capsules :: "capsule_binding list"
  xc_runtime :: "runtime_binding option"
  xc_schema :: string

definition context_schema :: string where
  "context_schema = ''master-agent/execution-context@2''"

text \<open>Capsules are sorted by capability and version; since capabilities are unique, by sorting
  stably first by version and then by capability.\<close>

definition sorted_capsules :: "capsule_binding list \<Rightarrow> capsule_binding list" where
  "sorted_capsules cs = sort_key kb_capability_id (sort_key kb_version cs)"

definition mk_context :: "execution_context \<Rightarrow> exn + execution_context" where
  "mk_context c =
     (let connectors = sort_key cb_system (xc_connectors c);
          plugins = sort_key pb_name (xc_plugins c);
          capsules = sorted_capsules (xc_capsules c) in
      checked
        [fail_if (xc_schema c \<noteq> context_schema) (invalid ''unsupported execution context schema''),
         validate_sha256 (xc_integrations_sha256 c) ''execution context integrations_sha256'',
         fail_if (\<not> distinct (map cb_system connectors))
           (invalid ''execution context connector systems must be unique''),
         fail_if (\<not> distinct (map pb_name plugins))
           (invalid ''execution context plugin names must be unique''),
         fail_if (\<not> distinct (map kb_capability_id capsules))
           (invalid ''execution context capsule capabilities must be unique'')]
        (c\<lparr>xc_connectors := connectors, xc_plugins := plugins, xc_capsules := capsules\<rparr>))"

definition context_to_dict :: "execution_context \<Rightarrow> json_object" where
  "context_to_dict c =
     [(''schema'', JStr (xc_schema c)),
      (''integrations_sha256'', JStr (xc_integrations_sha256 c)),
      (''connectors'', JList (map (\<lambda>b. JObj (connector_binding_to_dict b)) (xc_connectors c))),
      (''plugins'', JList (map (\<lambda>b. JObj (plugin_binding_to_dict b)) (xc_plugins c)))]
     @ (case xc_runtime c of
          None \<Rightarrow> [] | Some r \<Rightarrow> [(''runtime'', JObj (runtime_binding_to_dict r))])
     @ (if xc_capsules c = [] then []
        else [(''capsules'', JList (map (\<lambda>b. JObj (capsule_binding_to_dict b)) (xc_capsules c)))])"

definition context_fingerprint :: "host \<Rightarrow> execution_context \<Rightarrow> digest" where
  "context_fingerprint h c = h_sha256 h (stable_json (JObj (context_to_dict c)))"

definition need_list :: "json option \<Rightarrow> string \<Rightarrow> exn + json list" where
  "need_list v m = (case v of Some (JList js) \<Rightarrow> Inr js | _ \<Rightarrow> Inl (invalid m))"

definition need_objects :: "json list \<Rightarrow> string \<Rightarrow> exn + json_object list" where
  "need_objects js m = (case json_objects js of Some os \<Rightarrow> Inr os | None \<Rightarrow> Inl (invalid m))"

definition context_from_dict :: "host \<Rightarrow> json_object \<Rightarrow> exn + execution_context" where
  "context_from_dict h data =
     (if obj_get data ''schema'' \<noteq> Some (JStr context_schema)
      then Inl (invalid ''unsupported execution context schema'')
      else
        sbind (need_list (obj_get data ''connectors'')
                 ''execution context connectors must be a list'') (\<lambda>connectors.
        sbind (need_list (obj_get data ''plugins'')
                 ''execution context plugins must be a list'') (\<lambda>plugins.
        sbind (case obj_get data ''capsules'' of
                 None \<Rightarrow> Inr []
               | v \<Rightarrow> need_list v ''execution context capsules must be a list'') (\<lambda>capsules.
        sbind (need_objects connectors ''execution context connectors must be objects'') (\<lambda>cs.
        sbind (need_objects plugins ''execution context plugins must be objects'') (\<lambda>ps.
        sbind (need_objects capsules ''execution context capsules must be objects'') (\<lambda>ks.
        sbind (need_str h data ''integrations_sha256'') (\<lambda>integrations.
        sbind (smap (connector_binding_from_dict h) cs) (\<lambda>cbs.
        sbind (smap (plugin_binding_from_dict h) ps) (\<lambda>pbs.
        sbind (smap (capsule_binding_from_dict h) ks) (\<lambda>kbs.
        sbind (if present data ''runtime''
               then sbind (expect_mapping data ''runtime'') (\<lambda>kvs.
                    sbind (runtime_binding_from_dict h kvs) (\<lambda>r. Inr (Some r)))
               else Inr None) (\<lambda>runtime.
        mk_context
          \<lparr>xc_integrations_sha256 = integrations, xc_connectors = cbs, xc_plugins = pbs,
           xc_capsules = kbs, xc_runtime = runtime,
           xc_schema = get_str h data ''schema'' []\<rparr>))))))))))))"

subsection \<open>Round trips of bindings\<close>

lemma object_identity_eta [record_eta]:
  "\<lparr>oi_platform = oi_platform x, oi_kind = oi_kind x, oi_device = oi_device x,
    oi_inode = oi_inode x, oi_owner = oi_owner x, oi_mode = oi_mode x,
    oi_volume_serial = oi_volume_serial x, oi_file_id = oi_file_id x,
    oi_owner_sid = oi_owner_sid x, oi_dacl_sha256 = oi_dacl_sha256 x,
    oi_trust_policy_sha256 = oi_trust_policy_sha256 x, oi_schema = oi_schema x\<rparr> = (x :: object_identity)"
  by (cases x) simp

lemma connector_binding_eta [record_eta]:
  "\<lparr>cb_system = cb_system x, cb_deployment = cb_deployment x,
    cb_config_identity_sha256 = cb_config_identity_sha256 x,
    cb_resolved_base_url = cb_resolved_base_url x, cb_resolved_origin = cb_resolved_origin x,
    cb_implementation = cb_implementation x,
    cb_authentication_mode = cb_authentication_mode x,
    cb_credential_scopes = cb_credential_scopes x,
    cb_credential_identity = cb_credential_identity x,
    cb_ca_bundle_path = cb_ca_bundle_path x, cb_ca_bundle_sha256 = cb_ca_bundle_sha256 x,
    cb_network_profile_name = cb_network_profile_name x,
    cb_network_profile_sha256 = cb_network_profile_sha256 x,
    cb_proxy_origin = cb_proxy_origin x\<rparr> = (x :: connector_binding)"
  by (cases x) simp

lemma plugin_binding_eta [record_eta]:
  "\<lparr>pb_name = pb_name x, pb_group = pb_group x, pb_entry_point = pb_entry_point x,
    pb_distribution = pb_distribution x, pb_distribution_version = pb_distribution_version x,
    pb_artifact_sha256 = pb_artifact_sha256 x, pb_identity_sha256 = pb_identity_sha256 x\<rparr> = (x :: plugin_binding)"
  by (cases x) simp

lemma configuration_binding_eta [record_eta]:
  "\<lparr>fb_name = fb_name x, fb_sha256 = fb_sha256 x\<rparr> = (x :: configuration_binding)"
  by (cases x) simp

lemma path_binding_eta [record_eta]:
  "\<lparr>hb_name = hb_name x, hb_path = hb_path x, hb_anchor_path = hb_anchor_path x,
    hb_device = hb_device x, hb_inode = hb_inode x, hb_owner = hb_owner x,
    hb_mode = hb_mode x, hb_object_identity = hb_object_identity x\<rparr> = (x :: path_binding)"
  by (cases x) simp

lemma runtime_binding_eta [record_eta]:
  "\<lparr>rb_connector_mode = rb_connector_mode x, rb_include_writes = rb_include_writes x,
    rb_include_communications = rb_include_communications x,
    rb_audit_database = rb_audit_database x, rb_artifact_root = rb_artifact_root x,
    rb_workspace_root = rb_workspace_root x, rb_result_json = rb_result_json x,
    rb_evidence_type = rb_evidence_type x, rb_configurations = rb_configurations x,
    rb_runtime_paths = rb_runtime_paths x, rb_credential_file = rb_credential_file x,
    rb_publication_roots = rb_publication_roots x, rb_schema = rb_schema x\<rparr> = (x :: runtime_binding)"
  by (cases x) simp

lemma capsule_binding_eta [record_eta]:
  "\<lparr>kb_capability_id = kb_capability_id x, kb_version = kb_version x, kb_risk = kb_risk x,
    kb_manifest_sha256 = kb_manifest_sha256 x, kb_source_sha256 = kb_source_sha256 x,
    kb_artifact_sha256 = kb_artifact_sha256 x,
    kb_dependency_lock_sha256 = kb_dependency_lock_sha256 x,
    kb_sbom_sha256 = kb_sbom_sha256 x, kb_test_suite_sha256 = kb_test_suite_sha256 x,
    kb_validation_result_sha256 = kb_validation_result_sha256 x,
    kb_sandbox_validation_sha256 = kb_sandbox_validation_sha256 x,
    kb_verification_contract_sha256 = kb_verification_contract_sha256 x,
    kb_compensation_contract_sha256 = kb_compensation_contract_sha256 x,
    kb_policy_contract_sha256 = kb_policy_contract_sha256 x,
    kb_worker_sha256 = kb_worker_sha256 x, kb_publisher = kb_publisher x,
    kb_reviewer = kb_reviewer x, kb_signer_key_id = kb_signer_key_id x,
    kb_authenticated_principal = kb_authenticated_principal x,
    kb_agent_identity = kb_agent_identity x, kb_tenant_id = kb_tenant_id x,
    kb_provider_account_id = kb_provider_account_id x,
    kb_credential_provider_id = kb_credential_provider_id x,
    kb_allowed_origins = kb_allowed_origins x, kb_allowed_methods = kb_allowed_methods x,
    kb_allowed_path_prefixes = kb_allowed_path_prefixes x,
    kb_credential_names = kb_credential_names x,
    kb_credential_scopes = kb_credential_scopes x,
    kb_data_classification = kb_data_classification x,
    kb_retention_class = kb_retention_class x, kb_max_input_bytes = kb_max_input_bytes x,
    kb_max_output_bytes = kb_max_output_bytes x, kb_timeout_seconds = kb_timeout_seconds x,
    kb_cpu_seconds = kb_cpu_seconds x, kb_memory_bytes = kb_memory_bytes x,
    kb_max_processes = kb_max_processes x, kb_state = kb_state x\<rparr> = (x :: capsule_binding)"
  by (cases x) simp

lemma execution_context_eta [record_eta]:
  "\<lparr>xc_integrations_sha256 = xc_integrations_sha256 x, xc_connectors = xc_connectors x,
    xc_plugins = xc_plugins x, xc_capsules = xc_capsules x, xc_runtime = xc_runtime x,
    xc_schema = xc_schema x\<rparr> = (x :: execution_context)"
  by (cases x) simp

lemma fs_kind_members_str [simp]: "parse_enum fs_kind_members (fs_kind_str k) = Inr k"
  by (cases k) (simp_all add: fs_kind_members_def parse_enum_def)

lemma optional_JInt_int: "obj_get data k = Some (optional JInt (Some i)) \<Longrightarrow> identity_int data k = Inr i"
  by (simp add: identity_int_def optional_def)

interpretation identity: codec "\<lambda>i. mk_identity i = Inr i" identity_to_dict "identity_from_dict h" for h
proof unfold_locales
  fix i :: object_identity
  assume i: "mk_identity i = Inr i"
  then consider "oi_platform i = ''posix''" "validate_posix i = None"
    | "oi_platform i = ''windows''" "validate_windows i = None"
    by (auto simp: mk_identity_def checked_Inr split: if_splits)
  then show "identity_from_dict h (identity_to_dict i) = Inr i"
  proof cases
    case 1
    then obtain d n ow m where "oi_device i = Some d" "oi_inode i = Some n" "oi_owner i = Some ow"
        "oi_mode i = Some m" "oi_volume_serial i = None" "oi_file_id i = None" "oi_owner_sid i = None"
        "oi_dacl_sha256 i = None" "oi_trust_policy_sha256 i = None"
      by (auto simp: validate_posix_def first_error_None_iff missing_or_negative_def split: option.splits)
    with 1 i show ?thesis
      by (cases i) (simp add: identity_to_dict_def identity_from_dict_def get_str_def decode_simps
          has_exactly_def native_payload_def identity_int_def optional_def bare_identity_def)
  next
    case 2
    then obtain v f s d p where "oi_device i = None" "oi_inode i = None" "oi_owner i = None"
        "oi_mode i = None" "oi_volume_serial i = Some v" "oi_file_id i = Some f" "oi_owner_sid i = Some s"
        "oi_dacl_sha256 i = Some d" "oi_trust_policy_sha256 i = Some p"
      by (auto simp: validate_windows_def first_error_None_iff lower_hex_def valid_sid_def split: option.splits)
    with 2 i show ?thesis
      by (cases i) (simp add: identity_to_dict_def identity_from_dict_def get_str_def decode_simps
          has_exactly_def native_payload_def optional_def bare_identity_def)
  qed
qed

interpretation connector_binding: codec "\<lambda>b. mk_connector_binding h b = Inr b" connector_binding_to_dict
  "connector_binding_from_dict h" for h
proof unfold_locales
  fix b :: connector_binding
  assume "mk_connector_binding h b = Inr b"
  then show "connector_binding_from_dict h (connector_binding_to_dict b) = Inr b"
    by (cases b) (auto simp: connector_binding_to_dict_def connector_binding_from_dict_def need_str_def
        need_def get_str_def opt_str_optional opt_str_def optional_def decode_simps split: option.splits)
qed

interpretation plugin_binding: codec "\<lambda>b. mk_plugin_binding b = Inr b" plugin_binding_to_dict
  "plugin_binding_from_dict h" for h
  by unfold_locales (simp add: plugin_binding_to_dict_def plugin_binding_from_dict_def need_str_def
      need_def decode_simps record_eta)

interpretation configuration_binding: codec "\<lambda>b. mk_configuration_binding b = Inr b"
  configuration_binding_to_dict "configuration_binding_from_dict h" for h
  by unfold_locales (simp add: configuration_binding_to_dict_def configuration_binding_from_dict_def
      need_str_def need_def decode_simps record_eta)

definition path_binding_valid :: "path_binding \<Rightarrow> bool" where
  "path_binding_valid b =
     (mk_path_binding b = Inr b
      \<and> (case hb_object_identity b of None \<Rightarrow> True | Some i \<Rightarrow> mk_identity i = Inr i))"

interpretation path_binding: codec path_binding_valid path_binding_to_dict "path_binding_from_dict h" for h
proof unfold_locales
  fix b
  assume "path_binding_valid b"
  then show "path_binding_from_dict h (path_binding_to_dict b) = Inr b"
    by (cases b) (auto simp: path_binding_valid_def path_binding_to_dict_def path_binding_from_dict_def
        need_str_def need_def get_str_def get_int_def py_int_def relabel_def identity.reads_back decode_simps
        split: option.splits)
qed

definition runtime_binding_valid :: "runtime_binding \<Rightarrow> bool" where
  "runtime_binding_valid b =
     (mk_runtime_binding b = Inr b
      \<and> (\<forall>c \<in> set (rb_configurations b). mk_configuration_binding c = Inr c)
      \<and> (\<forall>p \<in> set (rb_runtime_paths b) \<union> set (rb_publication_roots b). path_binding_valid p))"

interpretation runtime_binding: codec runtime_binding_valid runtime_binding_to_dict
  "runtime_binding_from_dict h" for h
proof unfold_locales
  fix b
  assume "runtime_binding_valid b"
  then show "runtime_binding_from_dict h (runtime_binding_to_dict b) = Inr b"
    by (cases b) (auto simp: runtime_binding_valid_def runtime_binding_to_dict_def
        runtime_binding_from_dict_def need_str_def need_def get_str_def opt_str_def optional_def
        decode_simps configuration_binding.list_reads_back path_binding.list_reads_back split: option.splits)
qed

lemma mk_capsule_binding_positive:
  assumes "mk_capsule_binding h b = Inr b"
  shows "0 < kb_max_input_bytes b" "0 < kb_max_output_bytes b" "0 < kb_timeout_seconds b"
    "0 < kb_cpu_seconds b" "0 < kb_memory_bytes b" "0 < kb_max_processes b"
  using assms by (simp_all add: mk_capsule_binding_def checked_Inr capsule_limit_def)

lemma required_positive_int_JInt:
  "obj_get data k = Some (JInt i) \<Longrightarrow> 0 < i \<Longrightarrow> required_positive_int data k = Inr i"
  by (simp add: required_positive_int_def)

interpretation capsule_binding: codec "\<lambda>b. mk_capsule_binding h b = Inr b" capsule_binding_to_dict
  "capsule_binding_from_dict h" for h
  by unfold_locales
     (simp add: capsule_binding_to_dict_def capsule_binding_from_dict_def need_str_def need_def
        capsule_binding_strings_def required_positive_int_JInt mk_capsule_binding_positive decode_simps
        record_eta)

definition context_valid :: "host \<Rightarrow> execution_context \<Rightarrow> bool" where
  "context_valid h c =
     (mk_context c = Inr c
      \<and> (\<forall>b \<in> set (xc_connectors c). mk_connector_binding h b = Inr b)
      \<and> (\<forall>b \<in> set (xc_plugins c). mk_plugin_binding b = Inr b)
      \<and> (\<forall>b \<in> set (xc_capsules c). mk_capsule_binding h b = Inr b)
      \<and> (case xc_runtime c of None \<Rightarrow> True | Some r \<Rightarrow> runtime_binding_valid r))"

lemma need_list_JList [decode_simps]: "need_list (Some (JList js)) m = Inr js"
  by (simp add: need_list_def)

lemma need_objects_JObj [decode_simps]: "need_objects (map (\<lambda>x. JObj (f x)) xs) m = Inr (map f xs)"
  "need_objects [] m = Inr []"
  by (simp_all add: need_objects_def)

interpretation exec_context: codec "context_valid h" context_to_dict "context_from_dict h" for h
proof unfold_locales
  fix c
  assume c: "context_valid h c"
  then have schema: "xc_schema c = context_schema"
    by (auto simp: context_valid_def mk_context_def checked_Inr Let_def)
  have lists: "smap (connector_binding_from_dict h) (map connector_binding_to_dict (xc_connectors c)) = Inr (xc_connectors c)"
    "smap (plugin_binding_from_dict h) (map plugin_binding_to_dict (xc_plugins c)) = Inr (xc_plugins c)"
    "smap (capsule_binding_from_dict h) (map capsule_binding_to_dict (xc_capsules c)) = Inr (xc_capsules c)"
    using c by (auto simp: context_valid_def intro!: connector_binding.list_reads_back
        plugin_binding.list_reads_back capsule_binding.list_reads_back)
  show "context_from_dict h (context_to_dict c) = Inr c"
    using c schema lists
    by (cases c) (auto simp: context_valid_def context_to_dict_def context_from_dict_def need_str_def need_def
        get_str_def present_def expect_mapping_def decode_simps runtime_binding.reads_back
        split: option.splits)
qed

end
