(* ===== verification/Dependency_Graph.thy ===== *)
theory Dependency_Graph
  imports Prelude Errors
begin

text \<open>
  The three traversals of an action dependency graph: \<open>_validate_acyclic\<close> of \<open>models.py\<close>,
  \<open>_topological_order\<close> of \<open>orchestrator.py\<close> and \<open>_dependency_ancestors\<close> of \<open>canonical.py\<close>. A graph
  is the dictionary from action identifiers to dependency lists, in the order of the plan. The
  recursive helper \<open>visit\<close> of each traversal is written over the list of nodes still to visit.
\<close>

type_synonym 'i graph = "('i \<times> 'i list) list"

definition nodes :: "'i graph \<Rightarrow> 'i set" where
  "nodes g = fst ` set g"

definition depends :: "'i graph \<Rightarrow> ('i \<times> 'i) set" where
  "depends g = {(d, x). \<exists>ds. map_of g x = Some ds \<and> d \<in> set ds}"

definition closed_graph :: "'i graph \<Rightarrow> bool" where
  "closed_graph g = (\<forall>(x, ds) \<in> set g. set ds \<subseteq> nodes g)"

subsection \<open>Cycle detection\<close>

text \<open>\<open>path\<close> is the set \<open>visiting\<close>: every identifier whose call has not returned yet.\<close>

function validate_visit ::
  "'i graph \<Rightarrow> 'i list \<Rightarrow> 'i list \<Rightarrow> 'i list \<Rightarrow> exn + 'i list"
where
  "validate_visit g path visited [] = Inr visited"
| "validate_visit g path visited (x # xs) =
     (if x \<in> set visited then validate_visit g path visited xs
      else if x \<in> set path
           then Inl (Exn ValidationError ''action dependency graph contains a cycle'')
      else case map_of g x of
        None \<Rightarrow> Inl (Exn KeyError ''dependency'')
      | Some ds \<Rightarrow>
          (case validate_visit g (x # path) visited ds of
             Inl e \<Rightarrow> Inl e
           | Inr visited' \<Rightarrow> validate_visit g path (x # visited') xs))"
  by pat_completeness auto
termination
proof (relation "measures [\<lambda>(g, path, visited, xs). card (nodes g - set path),
                           \<lambda>(g, path, visited, xs). length xs]", goal_cases)
  case (3 g path visited x xs ds)
  have "x \<in> nodes g" using 3(3) by (auto simp: nodes_def dest: map_of_SomeD intro: rev_image_eqI)
  with 3(2) have "nodes g - set (x # path) \<subset> nodes g - set path" by auto
  moreover have "finite (nodes g - set path)" by (simp add: nodes_def)
  ultimately show ?case by (simp add: psubset_card_mono)
qed auto

definition validate_acyclic :: "'i graph \<Rightarrow> exn option" where
  "validate_acyclic g =
     (case validate_visit g [] [] (map fst g) of Inl e \<Rightarrow> Some e | Inr _ \<Rightarrow> None)"

subsection \<open>Topological order\<close>

partial_function (option) topo_visit ::
  "'i graph \<Rightarrow> 'i list \<Rightarrow> 'i list \<Rightarrow> 'i list \<Rightarrow> (exn + 'i list \<times> 'i list) option"
where
  "topo_visit g visited ordered pending =
     (case pending of
        [] \<Rightarrow> Some (Inr (visited, ordered))
      | x # xs \<Rightarrow>
          if x \<in> set visited then topo_visit g visited ordered xs
          else (case map_of g x of
             None \<Rightarrow> Some (Inl (Exn KeyError ''dependency''))
           | Some ds \<Rightarrow>
               Option.bind (topo_visit g visited ordered ds)
                 (\<lambda>r. case r of
                    Inl e \<Rightarrow> Some (Inl e)
                  | Inr (visited', ordered') \<Rightarrow>
                      topo_visit g (x # visited') (ordered' @ [x]) xs)))"

declare topo_visit.simps [code]

definition topological_ids :: "'i graph \<Rightarrow> (exn + 'i list) option" where
  "topological_ids g =
     Option.bind (topo_visit g [] [] (map fst g))
       (\<lambda>r. case r of Inl e \<Rightarrow> Some (Inl e) | Inr (visited, ordered) \<Rightarrow> Some (Inr ordered))"

subsection \<open>Ancestors\<close>

text \<open>\<open>pending\<close> has its last element, the one \<open>pop\<close> removes, at the front.\<close>

function ancestor_loop :: "'i graph \<Rightarrow> 'i list \<Rightarrow> 'i list \<Rightarrow> exn + 'i list" where
  "ancestor_loop g acc [] = Inr acc"
| "ancestor_loop g acc (d # pending) =
     (if d \<in> set acc then ancestor_loop g acc pending
      else case map_of g d of
        None \<Rightarrow> Inl (Exn KeyError ''dependency'')
      | Some ds \<Rightarrow> ancestor_loop g (d # acc) (rev ds @ pending))"
  by pat_completeness auto
termination
proof (relation "measures [\<lambda>(g, acc, pending). card (nodes g - set acc),
                           \<lambda>(g, acc, pending). length pending]", goal_cases)
  case (3 g acc d pending ds)
  have "d \<in> nodes g" using 3(2) by (auto simp: nodes_def dest: map_of_SomeD intro: rev_image_eqI)
  with 3(1) have "nodes g - set (d # acc) \<subset> nodes g - set acc" by auto
  moreover have "finite (nodes g - set acc)" by (simp add: nodes_def)
  ultimately show ?case by (simp add: psubset_card_mono)
qed auto

definition dependency_ancestors :: "'i graph \<Rightarrow> 'i list \<Rightarrow> exn + 'i list" where
  "dependency_ancestors g deps = ancestor_loop g [] (rev deps)"

subsection \<open>Facts about the graph\<close>

lemma dependsI: "map_of g x = Some ds \<Longrightarrow> d \<in> set ds \<Longrightarrow> (d, x) \<in> depends g"
  by (auto simp: depends_def)

lemma map_of_node: "x \<in> nodes g \<Longrightarrow> \<exists>ds. map_of g x = Some ds"
  using map_of_eq_None_iff [of g x] by (auto simp: nodes_def)

lemma node_map_of: "map_of g x = Some ds \<Longrightarrow> x \<in> nodes g"
  by (auto simp: nodes_def dest: map_of_SomeD intro: rev_image_eqI)

lemma closed_graphD: "closed_graph g \<Longrightarrow> map_of g x = Some ds \<Longrightarrow> set ds \<subseteq> nodes g"
  by (auto simp: closed_graph_def dest!: map_of_SomeD)

lemma depends_nodes: "closed_graph g \<Longrightarrow> depends g \<subseteq> nodes g \<times> nodes g"
  by (auto simp: depends_def dest: closed_graphD node_map_of)

lemma finite_depends: "closed_graph g \<Longrightarrow> finite (depends g)"
  by (rule finite_subset [OF depends_nodes]) (auto simp: nodes_def)

subsection \<open>Cycle detection is sound and complete\<close>

lemma validate_visit_acc:
  assumes "validate_visit g path visited xs = Inr visited'"
    and "set visited \<subseteq> Wellfounded.acc (depends g)"
  shows "set visited \<union> set xs \<subseteq> set visited' \<and> set visited' \<subseteq> Wellfounded.acc (depends g)"
  using assms
proof (induction g path visited xs arbitrary: visited' rule: validate_visit.induct)
  case (1 g path visited)
  then show ?case by simp
next
  case (2 g path visited x xs)
  show ?case
  proof (cases "x \<in> set visited")
    case True
    with 2 show ?thesis by auto
  next
    case False
    with "2.prems"(1) obtain ds v where x: "x \<notin> set path" "map_of g x = Some ds"
        and v: "validate_visit g (x # path) visited ds = Inr v"
        and rest: "validate_visit g path (x # v) xs = Inr visited'"
      by (auto split: if_splits option.splits sum.splits)
    from "2.IH"(2) [OF False x v "2.prems"(2)]
    have dv: "set visited \<union> set ds \<subseteq> set v" "set v \<subseteq> Wellfounded.acc (depends g)" by auto
    have "x \<in> Wellfounded.acc (depends g)"
    proof (rule accI)
      fix y assume "(y, x) \<in> depends g"
      with x(2) have "y \<in> set ds" by (auto simp: depends_def)
      with dv show "y \<in> Wellfounded.acc (depends g)" by auto
    qed
    with dv have "set (x # v) \<subseteq> Wellfounded.acc (depends g)" by auto
    from "2.IH"(3) [OF False x v rest this] dv show ?thesis by auto
  qed
qed

definition call_path :: "'i graph \<Rightarrow> 'i list \<Rightarrow> 'i list \<Rightarrow> bool" where
  "call_path g path xs =
     ((\<forall>i. Suc i < length path \<longrightarrow> (path ! i, path ! Suc i) \<in> depends g)
      \<and> (path \<noteq> [] \<longrightarrow> (\<forall>x \<in> set xs. (x, hd path) \<in> depends g)))"

lemma call_path_reach:
  assumes "call_path g path (y # ys)" and "x \<in> set path"
  shows "(y, x) \<in> (depends g)\<^sup>+"
proof -
  from assms(2) obtain i where "i < length path" and x: "x = path ! i" by (auto simp: in_set_conv_nth)
  moreover have "i < length path \<longrightarrow> (y, path ! i) \<in> (depends g)\<^sup>+"
  proof (induction i)
    case 0
    from assms(1) show ?case by (auto simp: call_path_def hd_conv_nth)
  next
    case (Suc i)
    with assms(1) show ?case by (auto simp: call_path_def intro: trancl_into_trancl)
  qed
  ultimately show ?thesis by blast
qed

lemma call_path_push:
  assumes "call_path g path (x # xs)" and "map_of g x = Some ds"
  shows "call_path g (x # path) ds" and "call_path g path xs"
  using assms
  by (auto simp: call_path_def nth_Cons hd_conv_nth intro: dependsI split: nat.splits)

lemma validate_visit_cycle:
  assumes "validate_visit g path visited xs = Inl (Exn ValidationError m)"
    and "call_path g path xs"
  shows "\<not> acyclic (depends g)"
  using assms
proof (induction g path visited xs rule: validate_visit.induct)
  case (2 g path visited x xs)
  have tl: "call_path g path xs" using "2.prems"(2) by (auto simp: call_path_def)
  show ?case
  proof (cases "x \<in> set visited")
    case True
    with 2 tl show ?thesis by auto
  next
    case new: False
    show ?thesis
    proof (cases "x \<in> set path")
      case True
      with call_path_reach [OF "2.prems"(2)] show ?thesis by (auto simp: acyclic_def)
    next
      case False
      with new "2.prems"(1) obtain ds where ds: "map_of g x = Some ds"
        by (auto split: option.splits)
      show ?thesis
      proof (cases "validate_visit g (x # path) visited ds")
        case (Inl e)
        with 2 new False ds call_path_push [OF "2.prems"(2) ds] show ?thesis by simp
      next
        case (Inr v)
        with 2 new False ds tl show ?thesis by simp
      qed
    qed
  qed
qed simp

lemma validate_visit_no_KeyError:
  assumes "closed_graph g" and "set xs \<subseteq> nodes g"
  shows "validate_visit g path visited xs \<noteq> Inl (Exn KeyError m)"
  using assms
proof (induction g path visited xs rule: validate_visit.induct)
  case (2 g path visited x xs)
  from "2.prems" obtain ds where ds: "map_of g x = Some ds" using map_of_node [of x g] by auto
  with closed_graphD [OF "2.prems"(1)] have "set ds \<subseteq> nodes g" by blast
  with 2 ds show ?case by (auto split: if_splits sum.splits)
qed simp

lemma validate_visit_errors:
  "validate_visit g path visited xs = Inl e \<Longrightarrow>
   e = Exn ValidationError ''action dependency graph contains a cycle'' \<or> e = Exn KeyError ''dependency''"
  by (induction g path visited xs rule: validate_visit.induct)
     (auto split: if_splits option.splits sum.splits)

lemma acc_all_acyclic:
  assumes "closed_graph g" and "nodes g \<subseteq> Wellfounded.acc (depends g)"
  shows "acyclic (depends g)"
proof (rule wf_acyclic)
  show "wf (depends g)"
  proof (rule acc_wfI, rule allI)
    fix x
    show "x \<in> Wellfounded.acc (depends g)"
    proof (cases "x \<in> nodes g")
      case False
      then show ?thesis using depends_nodes [OF assms(1)] by (auto intro: accI)
    qed (use assms(2) in auto)
  qed
qed

lemma validate_acyclic_None:
  assumes "closed_graph g"
  shows "validate_acyclic g = None \<longleftrightarrow> acyclic (depends g)"
proof
  assume "validate_acyclic g = None"
  then obtain v where v: "validate_visit g [] [] (map fst g) = Inr v"
    by (auto simp: validate_acyclic_def split: sum.splits)
  have "nodes g \<subseteq> Wellfounded.acc (depends g)"
    using validate_visit_acc [OF v] by (auto simp: nodes_def)
  with assms show "acyclic (depends g)" by (rule acc_all_acyclic)
next
  assume acyc: "acyclic (depends g)"
  show "validate_acyclic g = None"
  proof (cases "validate_visit g [] [] (map fst g)")
    case (Inl e)
    have "set (map fst g) \<subseteq> nodes g" by (simp add: nodes_def)
    with validate_visit_errors [OF Inl] validate_visit_no_KeyError [OF assms] Inl
    have "e = Exn ValidationError ''action dependency graph contains a cycle''" by metis
    moreover have "call_path g [] (map fst g)" by (simp add: call_path_def)
    ultimately show ?thesis using validate_visit_cycle Inl acyc by blast
  qed (simp add: validate_acyclic_def)
qed


subsection \<open>The topological order exists and respects the dependencies\<close>

definition deps_first :: "'i graph \<Rightarrow> 'i list \<Rightarrow> bool" where
  "deps_first g ids =
     (\<forall>i < length ids. \<forall>ds. map_of g (ids ! i) = Some ds \<longrightarrow> set ds \<subseteq> set (take i ids))"

definition topo_inv :: "'i graph \<Rightarrow> 'i list \<Rightarrow> 'i list \<Rightarrow> bool" where
  "topo_inv g visited ids =
     (set visited = set ids \<and> distinct ids \<and> set ids \<subseteq> nodes g \<and> deps_first g ids)"

lemma deps_first_snoc:
  "deps_first g ids \<Longrightarrow> (\<And>ds. map_of g x = Some ds \<Longrightarrow> set ds \<subseteq> set ids) \<Longrightarrow> deps_first g (ids @ [x])"
  by (auto simp: deps_first_def nth_append less_Suc_eq)

text \<open>Visiting one more node is a step of the loop: it leads to a state that satisfies the
  invariant, contains the node and extends the order.\<close>

definition below :: "'i graph \<Rightarrow> 'i list \<Rightarrow> 'i set" where
  "below g xs = {y. \<exists>x \<in> set xs. (y, x) \<in> (depends g)\<^sup>*}"

definition visit_step :: "'i graph \<Rightarrow> 'i list \<Rightarrow> bool" where
  "visit_step g xs =
     (\<forall>visited ids. topo_inv g visited ids \<longrightarrow>
       (\<exists>visited' ids'. topo_inv g visited' ids' \<and> set xs \<subseteq> set ids' \<and> prefix ids ids' \<and>
         set ids' \<subseteq> set ids \<union> below g xs \<and>
         (\<forall>rest. topo_visit g visited ids (xs @ rest) = topo_visit g visited' ids' rest)))"

lemma visit_stepE:
  assumes "visit_step g xs" and "topo_inv g visited ids"
  obtains visited' ids' where "topo_inv g visited' ids'" and "set xs \<subseteq> set ids'"
    and "prefix ids ids'" and "set ids' \<subseteq> set ids \<union> below g xs"
    and "\<And>rest. topo_visit g visited ids (xs @ rest) = topo_visit g visited' ids' rest"
  using assms unfolding visit_step_def by blast

lemma visit_step_Nil: "visit_step g []"
  by (auto simp: visit_step_def)

lemma visit_step_append:
  assumes "visit_step g xs" and "visit_step g ys"
  shows "visit_step g (xs @ ys)"
  unfolding visit_step_def
proof (intro allI impI)
  fix visited ids assume "topo_inv g visited ids"
  from visit_stepE [OF assms(1) this] obtain v1 o1 where 1: "topo_inv g v1 o1" "set xs \<subseteq> set o1"
      "prefix ids o1" "set o1 \<subseteq> set ids \<union> below g xs"
      "\<And>rest. topo_visit g visited ids (xs @ rest) = topo_visit g v1 o1 rest" by blast
  from visit_stepE [OF assms(2) 1(1)] obtain v2 o2 where 2: "topo_inv g v2 o2" "set ys \<subseteq> set o2"
      "prefix o1 o2" "set o2 \<subseteq> set o1 \<union> below g ys"
      "\<And>rest. topo_visit g v1 o1 (ys @ rest) = topo_visit g v2 o2 rest" by blast
  have "set (xs @ ys) \<subseteq> set o2" using 1(2) 2(2) set_mono_prefix [OF 2(3)] by auto
  moreover have "prefix ids o2" using 1(3) 2(3) by (rule prefix_order.trans)
  moreover have "set o2 \<subseteq> set ids \<union> below g (xs @ ys)" using 1(4) 2(4) by (auto simp: below_def)
  moreover have "topo_visit g visited ids ((xs @ ys) @ rest) = topo_visit g v2 o2 rest" for rest
    using 1(5) [of "ys @ rest"] 2(5) [of rest] by simp
  ultimately show "\<exists>v o'. topo_inv g v o' \<and> set (xs @ ys) \<subseteq> set o' \<and> prefix ids o' \<and>
      set o' \<subseteq> set ids \<union> below g (xs @ ys) \<and>
      (\<forall>rest. topo_visit g visited ids ((xs @ ys) @ rest) = topo_visit g v o' rest)"
    using 2(1) by blast
qed

lemma visit_step_all: "(\<And>x. x \<in> set xs \<Longrightarrow> visit_step g [x]) \<Longrightarrow> visit_step g xs"
proof (induction xs)
  case (Cons x xs)
  then show ?case using visit_step_append [of g "[x]" xs] by simp
qed (rule visit_step_Nil)

lemma topo_visit_Nil [simp]: "topo_visit g visited ids [] = Some (Inr (visited, ids))"
  by (subst topo_visit.simps) simp

lemma topo_visit_seen: "x \<in> set visited \<Longrightarrow> topo_visit g visited ids (x # xs) = topo_visit g visited ids xs"
  by (subst topo_visit.simps) simp

lemma topo_visit_new:
  "x \<notin> set visited \<Longrightarrow> map_of g x = Some ds \<Longrightarrow> topo_visit g visited ids ds = Some (Inr (v, o1)) \<Longrightarrow>
   topo_visit g visited ids (x # xs) = topo_visit g (x # v) (o1 @ [x]) xs"
  by (subst topo_visit.simps) simp

lemma visit_step_children:
  assumes "acyclic (depends g)" and ds: "map_of g x = Some ds" and "visit_step g ds"
  shows "visit_step g [x]"
  unfolding visit_step_def
proof (intro allI impI)
  fix visited ids assume inv: "topo_inv g visited ids"
  let ?goal = "\<lambda>v o1. topo_inv g v o1 \<and> set [x] \<subseteq> set o1 \<and> prefix ids o1 \<and>
      set o1 \<subseteq> set ids \<union> below g [x] \<and>
      (\<forall>rest. topo_visit g visited ids ([x] @ rest) = topo_visit g v o1 rest)"
  show "\<exists>v o1. ?goal v o1"
  proof (cases "x \<in> set visited")
    case True
    with inv have "?goal visited ids" by (auto simp: topo_inv_def topo_visit_seen)
    then show ?thesis by blast
  next
    case False
    from visit_stepE [OF assms(3) inv] obtain v o1 where v: "topo_inv g v o1" "set ds \<subseteq> set o1"
        "prefix ids o1" "set o1 \<subseteq> set ids \<union> below g ds"
        "\<And>rest. topo_visit g visited ids (ds @ rest) = topo_visit g v o1 rest" by blast
    have below: "below g ds \<subseteq> {y. (y, x) \<in> (depends g)\<^sup>+}"
      using dependsI [OF ds] by (auto simp: below_def intro: rtrancl_into_trancl1)
    have fresh: "x \<notin> set o1"
      using v(4) below False inv assms(1) by (auto simp: topo_inv_def acyclic_def)
    have "topo_inv g (x # v) (o1 @ [x])"
      using v(1,2) fresh ds node_map_of [OF ds] deps_first_snoc [of g o1 x]
      by (simp add: topo_inv_def)
    moreover have "set (o1 @ [x]) \<subseteq> set ids \<union> below g [x]"
      using v(4) below by (auto simp: below_def dest: trancl_into_rtrancl)
    moreover have "topo_visit g visited ids ([x] @ rest) = topo_visit g (x # v) (o1 @ [x]) rest" for rest
      using topo_visit_new [OF False ds] v(5) [of "[]"] by simp
    ultimately have "?goal (x # v) (o1 @ [x])" using v(3) by simp
    then show ?thesis by blast
  qed
qed

lemma visit_step_node:
  assumes "closed_graph g" and "acyclic (depends g)" and "x \<in> nodes g"
  shows "visit_step g [x]"
proof -
  have "wf (depends g)" using finite_depends [OF assms(1)] assms(2) by (rule finite_acyclic_wf)
  then have "x \<in> nodes g \<longrightarrow> visit_step g [x]"
  proof (induction x rule: wf_induct_rule)
    case (less x)
    show ?case
    proof
      assume "x \<in> nodes g"
      from map_of_node [OF this] obtain ds where ds: "map_of g x = Some ds" by blast
      have "visit_step g ds"
      proof (rule visit_step_all)
        fix y assume "y \<in> set ds"
        then show "visit_step g [y]"
          using less dependsI [OF ds] closed_graphD [OF assms(1) ds] by blast
      qed
      with assms(2) ds show "visit_step g [x]" by (rule visit_step_children)
    qed
  qed
  with assms(3) show ?thesis by blast
qed

lemma topological_ids_correct:
  assumes "closed_graph g" and "acyclic (depends g)"
  obtains ids where "topological_ids g = Some (Inr ids)" and "distinct ids"
    and "set ids = nodes g" and "deps_first g ids"
proof -
  have all: "visit_step g (map fst g)"
  proof (rule visit_step_all)
    fix x assume "x \<in> set (map fst g)"
    then have "x \<in> nodes g" by (simp add: nodes_def)
    with assms show "visit_step g [x]" by (rule visit_step_node)
  qed
  have start: "topo_inv g [] []" by (simp add: topo_inv_def deps_first_def)
  from visit_stepE [OF all start] obtain v ids where ids: "topo_inv g v ids"
      "set (map fst g) \<subseteq> set ids" "prefix [] ids" "set ids \<subseteq> set [] \<union> below g (map fst g)"
      "\<And>rest. topo_visit g [] [] (map fst g @ rest) = topo_visit g v ids rest"
    by blast
  have "topological_ids g = Some (Inr ids)"
    using ids(5) [of "[]"] by (simp add: topological_ids_def)
  with ids(1,2) that show ?thesis by (auto simp: topo_inv_def nodes_def)
qed

subsection \<open>The ancestors are the transitive dependencies\<close>

lemma ancestor_loop_correct:
  assumes "ancestor_loop g acc pending = Inr res"
    and "\<And>x. x \<in> set acc \<Longrightarrow> (\<forall>d. (d, x) \<in> depends g \<longrightarrow> d \<in> set acc \<union> set pending)"
  shows "set res = set acc \<union> below g pending"
  using assms
proof (induction g acc pending rule: ancestor_loop.induct)
  case (1 g acc)
  then show ?case by (auto simp: below_def)
next
  case (2 g acc d pending)
  have below_Cons: "below g (d # pending) = below g [d] \<union> below g pending" by (auto simp: below_def)
  show ?case
  proof (cases "d \<in> set acc")
    case True
    with 2 have IH: "set res = set acc \<union> below g pending" by auto
    have "y \<in> set acc \<union> below g pending" if "(y, d) \<in> (depends g)\<^sup>*" for y
      using that
    proof (induction rule: converse_rtrancl_induct)
      case (step y z)
      then show ?case
        using "2.prems"(2) [of z] True by (auto simp: below_def intro: converse_rtrancl_into_rtrancl)
    qed (use True in simp)
    with IH show ?thesis unfolding below_Cons by (auto simp: below_def)
  next
    case False
    with "2.prems"(1) obtain ds where ds: "map_of g d = Some ds"
        and res: "ancestor_loop g (d # acc) (rev ds @ pending) = Inr res"
      by (auto split: option.splits)
    have closed: "\<forall>e. (e, x) \<in> depends g \<longrightarrow> e \<in> set (d # acc) \<union> set (rev ds @ pending)"
      if "x \<in> set (d # acc)" for x
      using that "2.prems"(2) [of x] ds by (auto simp: depends_def)
    have "set res = set (d # acc) \<union> below g (rev ds @ pending)"
      by (rule "2.IH"(2) [OF False ds res]) (rule closed)
    moreover have "below g [d] = insert d (below g ds)"
    proof -
      have "y = d \<or> (\<exists>x \<in> set ds. (y, x) \<in> (depends g)\<^sup>*)" if "(y, d) \<in> (depends g)\<^sup>*" for y
        using that by (cases rule: rtranclE) (use ds in \<open>auto simp: depends_def\<close>)
      moreover have "(y, d) \<in> (depends g)\<^sup>*" if "x \<in> set ds" "(y, x) \<in> (depends g)\<^sup>*" for x y
        using that(2) dependsI [OF ds that(1)] by (rule rtrancl_into_rtrancl)
      ultimately show ?thesis by (auto simp: below_def)
    qed
    ultimately show ?thesis unfolding below_Cons by (auto simp: below_def)
  qed
qed

lemma ancestor_loop_total:
  assumes "closed_graph g" and "set pending \<subseteq> nodes g"
  shows "\<exists>res. ancestor_loop g acc pending = Inr res"
  using assms
proof (induction g acc pending rule: ancestor_loop.induct)
  case (2 g acc d pending)
  from "2.prems" obtain ds where ds: "map_of g d = Some ds" using map_of_node [of d g] by auto
  with 2 closed_graphD [OF "2.prems"(1) ds] show ?case by auto
qed simp

lemma dependency_ancestors_correct:
  assumes "closed_graph g" and "set ds \<subseteq> nodes g"
  obtains res where "dependency_ancestors g ds = Inr res"
    and "set res = {y. \<exists>x \<in> set ds. (y, x) \<in> (depends g)\<^sup>*}"
proof -
  from assms obtain res where res: "ancestor_loop g [] (rev ds) = Inr res"
    using ancestor_loop_total [of g "rev ds" "[]"] by auto
  have "set res = below g (rev ds)"
    using ancestor_loop_correct [OF res] by simp
  with res that show ?thesis by (auto simp: dependency_ancestors_def below_def)
qed

end
