(* ===== verification/Hash_Chain.thy ===== *)
theory Hash_Chain
  imports Prelude
begin

text \<open>
  The tamper-evident log shared by the audit database and the work-memory journal: every row stores
  the hash of its predecessor and the hash of its own material, and a checkpoint outside the rows
  stores their number and the last hash. The locale states what a row encoding must provide; its
  lemmas show that a verified log is determined by its checkpoint unless the digest collides.
\<close>

fun linked ::
  "('m \<Rightarrow> 'h) \<Rightarrow> ('e \<Rightarrow> 'm) \<Rightarrow> ('e \<Rightarrow> 'h) \<Rightarrow> ('e \<Rightarrow> 'h) \<Rightarrow> 'h \<Rightarrow> 'e list \<Rightarrow> bool"
where
  "linked H mat prev hsh p [] = True"
| "linked H mat prev hsh p (e # es) =
     (prev e = p \<and> H (mat e) = hsh e \<and> linked H mat prev hsh (hsh e) es)"

definition head_of :: "('e \<Rightarrow> 'h) \<Rightarrow> 'h \<Rightarrow> 'e list \<Rightarrow> 'h" where
  "head_of hsh p es = (if es = [] then p else hsh (last es))"

lemma head_of_simps [simp]:
  "head_of hsh p [] = p" "head_of hsh p (es @ [e]) = hsh e"
  by (simp_all add: head_of_def)

lemma head_of_Cons [simp]: "head_of hsh p (e # es) = head_of hsh (hsh e) es"
  by (simp add: head_of_def)

lemma linked_append:
  "linked H mat prev hsh p (xs @ ys) \<longleftrightarrow>
     linked H mat prev hsh p xs \<and> linked H mat prev hsh (head_of hsh p xs) ys"
  by (induction xs arbitrary: p) (auto simp: head_of_def)

lemma linked_snoc:
  "linked H mat prev hsh p (es @ [e]) \<longleftrightarrow>
     linked H mat prev hsh p es \<and> prev e = head_of hsh p es \<and> H (mat e) = hsh e"
  by (simp add: linked_append)

definition collision :: "('m \<Rightarrow> 'h) \<Rightarrow> 'm set \<Rightarrow> bool" where
  "collision H ms = (\<exists>a \<in> ms. \<exists>b \<in> ms. a \<noteq> b \<and> H a = H b)"

lemma collision_mono: "collision H ms \<Longrightarrow> ms \<subseteq> ns \<Longrightarrow> collision H ns"
  by (auto simp: collision_def)

locale chained_log =
  fixes H :: "'m \<Rightarrow> 'h"
    and mat :: "'e \<Rightarrow> 'm"
    and prev :: "'e \<Rightarrow> 'h"
    and hsh :: "'e \<Rightarrow> 'h"
    and well_formed :: "'e \<Rightarrow> bool"
  assumes row_determined:
    "\<lbrakk>well_formed x; well_formed y; mat x = mat y; hsh x = hsh y\<rbrakk> \<Longrightarrow> x = y"
begin

lemma same_length_same_head:
  assumes "length xs = length ys"
    and "linked H mat prev hsh p xs" and "linked H mat prev hsh p ys"
    and "head_of hsh p xs = head_of hsh p ys"
    and "list_all well_formed xs" and "list_all well_formed ys"
  shows "xs = ys \<or> collision H (mat ` (set xs \<union> set ys))"
  using assms
proof (induction xs arbitrary: ys rule: rev_induct)
  case Nil
  then show ?case by simp
next
  case (snoc x xs)
  from snoc.prems(1) obtain zs y where ys: "ys = zs @ [y]"
    by (cases ys rule: rev_cases) auto
  from snoc.prems ys have h: "hsh x = hsh y" and hx: "H (mat x) = hsh x" and hy: "H (mat y) = hsh y"
    by (auto simp: linked_snoc)
  show ?case
  proof (cases "mat x = mat y")
    case False
    with h hx hy have "collision H (mat ` (set (xs @ [x]) \<union> set ys))"
      unfolding collision_def ys by force
    then show ?thesis ..
  next
    case True
    with snoc.prems h ys have "x = y" by (intro row_determined) auto
    with snoc.prems ys have "xs = zs \<or> collision H (mat ` (set xs \<union> set zs))"
      by (intro snoc.IH) (auto simp: linked_snoc)
    moreover have "collision H (mat ` (set (xs @ [x]) \<union> set ys))"
      if "collision H (mat ` (set xs \<union> set zs))"
      using that by (rule collision_mono) (auto simp: ys)
    ultimately show ?thesis
      using \<open>x = y\<close> by (auto simp: ys)
  qed
qed

text \<open>A verified log that extends an earlier checkpoint still contains the earlier rows.\<close>

lemma checkpoint_is_prefix:
  assumes "linked H mat prev hsh p xs" and "linked H mat prev hsh p ys"
    and "length xs \<le> length ys" and "head_of hsh p xs = head_of hsh p (take (length xs) ys)"
    and "list_all well_formed xs" and "list_all well_formed ys"
  shows "prefix xs ys \<or> collision H (mat ` (set xs \<union> set ys))"
proof -
  let ?zs = "take (length xs) ys"
  have "linked H mat prev hsh p ?zs"
    using assms(2) linked_append [of H mat prev hsh p ?zs "drop (length xs) ys"] by simp
  moreover have "list_all well_formed ?zs"
    using assms(6) by (auto simp: list_all_iff dest: in_set_takeD)
  ultimately have "xs = ?zs \<or> collision H (mat ` (set xs \<union> set ?zs))"
    using assms by (intro same_length_same_head) auto
  then show ?thesis
  proof
    assume "xs = ?zs"
    then show ?thesis by (metis take_is_prefix)
  next
    assume "collision H (mat ` (set xs \<union> set ?zs))"
    then have "collision H (mat ` (set xs \<union> set ys))"
      by (rule collision_mono) (auto dest: in_set_takeD)
    then show ?thesis ..
  qed
qed

end

end
