(* ===== verification/Change_Plan.thy ===== *)
theory Change_Plan
  imports Execution_Bindings Dependency_Graph Hash_Chain
begin

text \<open>
  \<open>ChangePlan\<close> and \<open>Approval\<close> of \<open>models.py\<close>: construction with every check of \<open>__post_init__\<close>,
  serialisation, the plan fingerprint an approval binds, and the coverage test of an approval.
\<close>

subsection \<open>Plans\<close>

record change_plan =
  cp_goal :: string
  cp_actions :: "agent_action list"
  cp_created_by :: string
  cp_plan_id :: uuid
  cp_created_at :: py_datetime
  cp_schema_version :: string
  cp_workflow_id :: "string option"
  cp_workflow_fingerprint :: "string option"
  cp_compensate_on_failure :: bool
  cp_execution_context :: "execution_context option"
  cp_systems_assessment :: "systems_assessment option"
  cp_systems_decision :: "gate_decision option"
  cp_strategy_traces :: "strategy_trace list"
  cp_coherence_review :: "coherence_review option"
  cp_trusted_admission :: bool

definition action_graph :: "agent_action list \<Rightarrow> uuid graph" where
  "action_graph actions = map (\<lambda>a. (ac_action_id a, ac_dependencies a)) actions"

text \<open>The binding between the assessment, the gate decision and the coherence review.\<close>

definition check_systems_binding :: "host \<Rightarrow> change_plan \<Rightarrow> exn option" where
  "check_systems_binding h p =
     (case (cp_systems_assessment p, cp_systems_decision p) of
        (None, None) \<Rightarrow> None
      | (Some a, Some d) \<Rightarrow>
          first_error
            [fail_if (\<not> gd_permitted d) (invalid ''a denied systems decision cannot bind a plan''),
             fail_if (gd_assessment_fingerprint d \<noteq> assessment_fingerprint h a)
               (invalid ''systems gate decision is not bound to the plan assessment''),
             fail_if (gd_complexity_score d \<noteq> complexity_score a)
               (invalid ''systems gate decision complexity does not match the assessment''),
             fail_if (gd_review_fingerprint d \<noteq> map_option (review_fingerprint h) (cp_coherence_review p))
               (invalid ''systems gate decision does not match the strategy coherence review'')]
      | _ \<Rightarrow> Some (invalid ''systems assessment and gate decision must be supplied together''))"

definition check_plan_text :: "change_plan \<Rightarrow> exn option" where
  "check_plan_text p =
     first_error
       [fail_if (blank (cp_goal p)) (invalid ''goal must not be empty''),
        validate_bounded_string (cp_goal p),
        reject_control_characters (cp_goal p) ''goal'',
        fail_if (blank (cp_created_by p)) (invalid ''created_by must not be empty''),
        validate_bounded_string (cp_created_by p),
        fail_if (\<not> nonblank_if_some (cp_workflow_id p))
          (invalid ''workflow_id must not be empty when supplied''),
        fail_if (\<not> nonblank_if_some (cp_workflow_fingerprint p))
          (invalid ''workflow_fingerprint must not be empty when supplied''),
        fail_if (cp_workflow_fingerprint p \<noteq> None \<and> cp_workflow_id p = None)
          (invalid ''workflow_fingerprint requires workflow_id''),
        optional_bounded (cp_workflow_id p),
        optional_bounded (cp_workflow_fingerprint p)]"

fun check_parameter_bytes :: "int \<Rightarrow> agent_action list \<Rightarrow> exn option" where
  "check_parameter_bytes spent [] = None"
| "check_parameter_bytes spent (a # actions) =
     (case measure_json_resources (JObj (ac_parameters a)) MAX_ACTION_PARAMETER_BYTES of
        Inl e \<Rightarrow> Some e
      | Inr u \<Rightarrow>
          if spent + usage_scalar_bytes u > MAX_PLAN_PARAMETER_BYTES
          then Some (invalid ''change plan exceeds the aggregate parameter-byte limit'')
          else check_parameter_bytes (spent + usage_scalar_bytes u) actions)"

definition check_unknown_dependencies :: "agent_action list \<Rightarrow> exn option" where
  "check_unknown_dependencies actions =
     first_error (map (\<lambda>a. fail_if (\<not> set (ac_dependencies a) \<subseteq> set (map ac_action_id actions))
       (invalid (''action '' @ ac_action_id a @ '' has unknown dependencies''))) actions)"

definition systems_binding_to_dict :: "change_plan \<Rightarrow> systems_assessment \<Rightarrow> json_object" where
  "systems_binding_to_dict p a =
     [(''systems_assessment'', JObj (assessment_to_dict a)),
      (''systems_decision'', optional (\<lambda>d. JObj (decision_to_dict d)) (cp_systems_decision p)),
      (''strategy_coherence_review'',
        optional (\<lambda>r. JObj (review_to_dict r)) (cp_coherence_review p))]"

text \<open>A new plan never carries the trusted admission mark.\<close>

definition mk_plan :: "host \<Rightarrow> change_plan \<Rightarrow> exn + change_plan" where
  "mk_plan h p =
     checked
       [check_systems_binding h p,
        check_plan_text p,
        fail_if (length (cp_actions p) > MAX_PLAN_ACTIONS)
          (invalid ''change plan exceeds the action limit''),
        fail_if (length (cp_strategy_traces p) > MAX_PLAN_ACTIONS)
          (invalid ''change plan exceeds the strategy-trace limit''),
        fail_if (cp_actions p = []) (invalid ''a change plan must contain at least one action''),
        check_parameter_bytes 0 (cp_actions p),
        fail_if (\<not> distinct (map ac_action_id (cp_actions p))) (invalid ''action IDs must be unique''),
        fail_if (\<not> distinct (map ac_idempotency_key (cp_actions p)))
          (invalid ''idempotency keys must be unique within a plan''),
        check_unknown_dependencies (cp_actions p),
        validate_acyclic (action_graph (cp_actions p)),
        (case cp_systems_assessment p of
           None \<Rightarrow> None
         | Some a \<Rightarrow> error_of
             (measure_json_resources (JObj (systems_binding_to_dict p a)) MAX_PLAN_BYTES))]
       (p\<lparr>cp_trusted_admission := False\<rparr>)"

definition plan_to_dict :: "host \<Rightarrow> change_plan \<Rightarrow> json_object" where
  "plan_to_dict h p =
     [(''schema_version'', JStr (cp_schema_version p)),
      (''plan_id'', JStr (cp_plan_id p)),
      (''goal'', JStr (cp_goal p)),
      (''created_by'', JStr (cp_created_by p)),
      (''created_at'', JStr (h_isoformat h (cp_created_at p))),
      (''workflow_id'', optional JStr (cp_workflow_id p)),
      (''workflow_fingerprint'', optional JStr (cp_workflow_fingerprint p)),
      (''compensate_on_failure'', JBool (cp_compensate_on_failure p)),
      (''actions'', JList (map (\<lambda>a. JObj (action_to_dict a)) (cp_actions p)))]
     @ (case cp_execution_context p of
          None \<Rightarrow> [] | Some c \<Rightarrow> [(''execution_context'', JObj (context_to_dict c))])
     @ (if cp_strategy_traces p = [] then []
        else [(''strategy_traces'',
               JList (map (\<lambda>t. JObj (trace_to_dict t)) (cp_strategy_traces p)))])
     @ (case cp_coherence_review p of
          None \<Rightarrow> [] | Some r \<Rightarrow> [(''strategy_coherence_review'', JObj (review_to_dict r))])
     @ (case (cp_systems_assessment p, cp_systems_decision p) of
          (Some a, Some d) \<Rightarrow> [(''systems_assessment'', JObj (assessment_to_dict a)),
                              (''systems_decision'', JObj (decision_to_dict d))]
        | _ \<Rightarrow> [])"

definition plan_fingerprint :: "host \<Rightarrow> change_plan \<Rightarrow> digest" where
  "plan_fingerprint h p = h_sha256 h (stable_json (JObj (plan_to_dict h p)))"

definition opt_object ::
  "(json_object \<Rightarrow> exn + 'a) \<Rightarrow> json_object \<Rightarrow> string \<Rightarrow> exn + 'a option"
where
  "opt_object f data k =
     (if present data k
      then sbind (expect_mapping data k) (\<lambda>kvs. sbind (f kvs) (\<lambda>x. Inr (Some x)))
      else Inr None)"

definition plan_from_dict :: "host \<Rightarrow> json_object \<Rightarrow> exn + change_plan" where
  "plan_from_dict h data =
     sbind (measure_json_resources (JObj data) MAX_PLAN_BYTES) (\<lambda>_.
     sbind (need_list (obj_get data ''actions'') ''actions must be a list'') (\<lambda>actions_data.
     sbind (checked [fail_if (length actions_data > MAX_PLAN_ACTIONS)
              (invalid ''change plan exceeds the action limit'')] ()) (\<lambda>_.
     sbind (need_objects actions_data ''actions must contain objects'') (\<lambda>action_objects.
     sbind (case obj_get data ''strategy_traces'' of
              None \<Rightarrow> Inr []
            | v \<Rightarrow> object_list v (invalid ''strategy_traces must contain objects'')) (\<lambda>trace_objects.
     sbind (need_str h data ''plan_id'') (\<lambda>plan_id_text.
     sbind (parse_uuid h plan_id_text) (\<lambda>plan_id.
     sbind (need_str h data ''goal'') (\<lambda>goal.
     sbind (need_str h data ''created_by'') (\<lambda>created_by.
     sbind (need_str h data ''created_at'') (\<lambda>created_at_text.
     sbind (parse_datetime h created_at_text) (\<lambda>created_at.
     sbind (case obj_get data ''compensate_on_failure'' of
              None \<Rightarrow> Inr False
            | v \<Rightarrow> strict_bool v ''compensate_on_failure'') (\<lambda>compensate.
     sbind (opt_object (context_from_dict h) data ''execution_context'') (\<lambda>context.
     sbind (opt_object (assessment_from_dict h) data ''systems_assessment'') (\<lambda>assessment.
     sbind (opt_object (decision_from_dict h) data ''systems_decision'') (\<lambda>decision.
     sbind (smap (trace_from_dict h) trace_objects) (\<lambda>traces.
     sbind (opt_object (review_from_dict h) data ''strategy_coherence_review'') (\<lambda>review.
     sbind (smap (action_from_dict h) action_objects) (\<lambda>actions.
     mk_plan h
       \<lparr>cp_goal = goal, cp_actions = actions, cp_created_by = created_by, cp_plan_id = plan_id,
        cp_created_at = created_at, cp_schema_version = get_str h data ''schema_version'' ''1.0'',
        cp_workflow_id = opt_str h data ''workflow_id'',
        cp_workflow_fingerprint = opt_str h data ''workflow_fingerprint'',
        cp_compensate_on_failure = compensate, cp_execution_context = context,
        cp_systems_assessment = assessment, cp_systems_decision = decision,
        cp_strategy_traces = traces, cp_coherence_review = review,
        cp_trusted_admission = False\<rparr>))))))))))))))))))"

definition with_trusted_admission :: "change_plan \<Rightarrow> change_plan" where
  "with_trusted_admission p = p\<lparr>cp_trusted_admission := True\<rparr>"

definition has_trusted_admission :: "change_plan \<Rightarrow> bool" where
  "has_trusted_admission p = cp_trusted_admission p"

definition execution_snapshot :: "host \<Rightarrow> change_plan \<Rightarrow> exn + change_plan" where
  "execution_snapshot h p =
     sbind (plan_from_dict h (plan_to_dict h p)) (\<lambda>snapshot.
       Inr (if has_trusted_admission p then with_trusted_admission snapshot else snapshot))"

subsection \<open>Approvals\<close>

record approval =
  ap_plan_fingerprint :: string
  ap_approved_action_ids :: "uuid list"
  ap_approved_by :: string
  ap_issuer :: string
  ap_tenant :: string
  ap_roles :: "string list"
  ap_issued_at :: py_datetime
  ap_expires_at :: py_datetime
  ap_key_id :: string
  ap_signature :: string
  ap_signature_scheme :: string
  ap_approval_id :: uuid

fun check_roles :: "host \<Rightarrow> string list \<Rightarrow> string list \<Rightarrow> exn option" where
  "check_roles h seen [] = None"
| "check_roles h seen (r # rs) =
     (case validate_approval_claim h r ''approval role'' of
        Some e \<Rightarrow> Some e
      | None \<Rightarrow>
          (let k = h_casefold h (h_nfkc h r)
           in if k \<in> set seen then Some (invalid ''approval roles must be unique'')
              else check_roles h (k # seen) rs))"

definition mk_approval :: "host \<Rightarrow> approval \<Rightarrow> exn + approval" where
  "mk_approval h a =
     checked
       [fail_if (blank (ap_plan_fingerprint a)) (invalid ''plan_fingerprint must not be empty''),
        fail_if (ap_approved_action_ids a = []) (invalid ''approval must cover at least one action''),
        validate_approval_claim h (ap_approved_by a) ''approved_by'',
        validate_approval_claim h (ap_issuer a) ''approval issuer'',
        validate_approval_claim h (ap_tenant a) ''approval tenant'',
        fail_if (ap_roles a = []) (invalid ''approval roles must not be empty''),
        check_roles h [] (ap_roles a),
        validate_approval_claim h (ap_key_id a) ''approval key_id'',
        fail_if (blank (ap_signature a)) (invalid ''approval signature must not be empty''),
        fail_if (blank (ap_signature_scheme a))
          (invalid ''approval signature scheme must not be empty''),
        fail_if (\<not> aware (ap_issued_at a))
          (invalid ''approval issued_at must include a timezone offset''),
        fail_if (\<not> aware (ap_expires_at a))
          (invalid ''approval expires_at must include a timezone offset''),
        fail_if (instant_of (ap_expires_at a) \<le> instant_of (ap_issued_at a))
          (invalid ''approval must expire after it is issued'')]
       (a\<lparr>ap_roles := sort_key (h_casefold h) (ap_roles a)\<rparr>)"

text \<open>\<open>now\<close> is an aware instant, as every caller in the runtime passes one.\<close>

definition covers :: "host \<Rightarrow> approval \<Rightarrow> change_plan \<Rightarrow> agent_action \<Rightarrow> instant \<Rightarrow> bool" where
  "covers h a p act now =
     (ap_plan_fingerprint a = plan_fingerprint h p
      \<and> ac_action_id act \<in> set (ap_approved_action_ids a)
      \<and> instant_of (ap_issued_at a) \<le> now \<and> now < instant_of (ap_expires_at a))"

definition approval_claims_to_dict :: "host \<Rightarrow> approval \<Rightarrow> json_object" where
  "approval_claims_to_dict h a =
     [(''approval_id'', JStr (ap_approval_id a)),
      (''plan_fingerprint'', JStr (ap_plan_fingerprint a)),
      (''approved_action_ids'', strings (ap_approved_action_ids a)),
      (''approved_by'', JStr (ap_approved_by a)),
      (''issuer'', JStr (ap_issuer a)),
      (''tenant'', JStr (ap_tenant a)),
      (''roles'', strings (ap_roles a)),
      (''issued_at'', JStr (h_isoformat h (ap_issued_at a))),
      (''expires_at'', JStr (h_isoformat h (ap_expires_at a))),
      (''key_id'', JStr (ap_key_id a)),
      (''signature_scheme'', JStr (ap_signature_scheme a))]"

definition approval_to_dict :: "host \<Rightarrow> approval \<Rightarrow> json_object" where
  "approval_to_dict h a = approval_claims_to_dict h a @ [(''signature'', JStr (ap_signature a))]"

text \<open>\<open>payload.pop("signature")\<close>; the encoding as UTF-8 raises for a lone surrogate in a claim.\<close>

definition signing_payload :: "host \<Rightarrow> approval \<Rightarrow> exn + string" where
  "signing_payload h a =
     (let text = stable_json (JObj (filter (\<lambda>kv. fst kv \<noteq> ''signature'') (approval_to_dict h a)))
      in if has_surrogate text then Inl (Exn ValueError ''surrogates not allowed'') else Inr text)"

definition required_approval_string :: "json_object \<Rightarrow> string \<Rightarrow> exn + string" where
  "required_approval_string data k =
     (case obj_get data k of
        Some (JStr s) \<Rightarrow> Inr s
      | _ \<Rightarrow> Inl (invalid (''approval '' @ k @ '' must be a string'')))"

text \<open>Iterating the value of \<open>approved_action_ids\<close>: a list by its items, a string by its
  characters, an object by its keys.\<close>

definition py_iter :: "json \<Rightarrow> exn + json list" where
  "py_iter j =
     (case j of
        JList js \<Rightarrow> Inr js
      | JStr s \<Rightarrow> Inr (map JStr (chunks s))
      | JObj kvs \<Rightarrow> Inr (map (\<lambda>kv. JStr (fst kv)) kvs)
      | _ \<Rightarrow> Inl (Exn TypeError ''object is not iterable''))"

definition approval_from_dict :: "host \<Rightarrow> json_object \<Rightarrow> exn + approval" where
  "approval_from_dict h data =
     sbind (need_str h data ''approval_id'') (\<lambda>id_text.
     sbind (parse_uuid h id_text) (\<lambda>approval_id.
     sbind (need_str h data ''plan_fingerprint'') (\<lambda>fingerprint.
     sbind (need data ''approved_action_ids'') (\<lambda>raw_ids.
     sbind (py_iter raw_ids) (\<lambda>id_values.
     sbind (smap (\<lambda>j. parse_uuid h (py_str h j)) id_values) (\<lambda>ids.
     sbind (required_approval_string data ''approved_by'') (\<lambda>approved_by.
     sbind (required_approval_string data ''issuer'') (\<lambda>issuer.
     sbind (required_approval_string data ''tenant'') (\<lambda>tenant.
     sbind (string_list (obj_get data ''roles'') (invalid ''approval roles must be a string list''))
       (\<lambda>roles.
     sbind (need_str h data ''issued_at'') (\<lambda>issued_text.
     sbind (parse_datetime h issued_text) (\<lambda>issued_at.
     sbind (need_str h data ''expires_at'') (\<lambda>expires_text.
     sbind (parse_datetime h expires_text) (\<lambda>expires_at.
     sbind (need_str h data ''key_id'') (\<lambda>key_id.
     sbind (need_str h data ''signature'') (\<lambda>signature.
     mk_approval h
       \<lparr>ap_plan_fingerprint = fingerprint, ap_approved_action_ids = ids,
        ap_approved_by = approved_by, ap_issuer = issuer, ap_tenant = tenant, ap_roles = roles,
        ap_issued_at = issued_at, ap_expires_at = expires_at, ap_key_id = key_id,
        ap_signature = signature,
        ap_signature_scheme = get_str h data ''signature_scheme'' ''hmac-sha256'',
        ap_approval_id = approval_id\<rparr>))))))))))))))))"

subsection \<open>A constructed plan is well formed\<close>

lemma change_plan_eta [record_eta]:
  "\<lparr>cp_goal = cp_goal x, cp_actions = cp_actions x, cp_created_by = cp_created_by x,
    cp_plan_id = cp_plan_id x, cp_created_at = cp_created_at x,
    cp_schema_version = cp_schema_version x, cp_workflow_id = cp_workflow_id x,
    cp_workflow_fingerprint = cp_workflow_fingerprint x,
    cp_compensate_on_failure = cp_compensate_on_failure x,
    cp_execution_context = cp_execution_context x,
    cp_systems_assessment = cp_systems_assessment x,
    cp_systems_decision = cp_systems_decision x, cp_strategy_traces = cp_strategy_traces x,
    cp_coherence_review = cp_coherence_review x,
    cp_trusted_admission = cp_trusted_admission x\<rparr> = (x :: change_plan)"
  by (cases x) simp

lemma approval_eta [record_eta]:
  "\<lparr>ap_plan_fingerprint = ap_plan_fingerprint x,
    ap_approved_action_ids = ap_approved_action_ids x, ap_approved_by = ap_approved_by x,
    ap_issuer = ap_issuer x, ap_tenant = ap_tenant x, ap_roles = ap_roles x,
    ap_issued_at = ap_issued_at x, ap_expires_at = ap_expires_at x, ap_key_id = ap_key_id x,
    ap_signature = ap_signature x, ap_signature_scheme = ap_signature_scheme x,
    ap_approval_id = ap_approval_id x\<rparr> = (x :: approval)"
  by (cases x) simp

lemma mk_plan_Inr: "mk_plan h p = Inr q \<Longrightarrow> q = p\<lparr>cp_trusted_admission := False\<rparr>"
  by (simp add: mk_plan_def checked_Inr)

lemma nodes_action_graph [simp]: "nodes (action_graph actions) = ac_action_id ` set actions"
  by (force simp: nodes_def action_graph_def)

lemma check_unknown_dependencies_None:
  "check_unknown_dependencies actions = None \<longleftrightarrow> closed_graph (action_graph actions)"
  by (auto simp: check_unknown_dependencies_def first_error_None_iff closed_graph_def)
     (auto simp: action_graph_def)

definition plan_wf :: "change_plan \<Rightarrow> bool" where
  "plan_wf p =
     (cp_actions p \<noteq> [] \<and> length (cp_actions p) \<le> MAX_PLAN_ACTIONS
      \<and> distinct (map ac_action_id (cp_actions p))
      \<and> distinct (map ac_idempotency_key (cp_actions p))
      \<and> closed_graph (action_graph (cp_actions p))
      \<and> acyclic (depends (action_graph (cp_actions p))))"

lemma mk_plan_wf:
  assumes "mk_plan h p = Inr q"
  shows "plan_wf q"
proof -
  have checks: "cp_actions p \<noteq> []" "length (cp_actions p) \<le> MAX_PLAN_ACTIONS"
    "distinct (map ac_action_id (cp_actions p))" "distinct (map ac_idempotency_key (cp_actions p))"
    "closed_graph (action_graph (cp_actions p))"
    "validate_acyclic (action_graph (cp_actions p)) = None"
    using assms by (auto simp: mk_plan_def checked_Inr check_unknown_dependencies_None)
  moreover have "cp_actions q = cp_actions p" using mk_plan_Inr [OF assms] by simp
  ultimately show ?thesis unfolding plan_wf_def by (simp add: validate_acyclic_None)
qed

subsection \<open>Round trips of plans and approvals\<close>

definition plan_valid :: "host \<Rightarrow> change_plan \<Rightarrow> bool" where
  "plan_valid h p =
     (host_laws h \<and> mk_plan h p = Inr p \<and> canonical_uuid (cp_plan_id p)
      \<and> error_of (measure_json_resources (JObj (plan_to_dict h p)) MAX_PLAN_BYTES) = None
      \<and> (\<forall>a \<in> set (cp_actions p). action_valid h a)
      \<and> (\<forall>t \<in> set (cp_strategy_traces p). trace_valid h t)
      \<and> pred_option (context_valid h) (cp_execution_context p)
      \<and> pred_option assessment_valid (cp_systems_assessment p)
      \<and> pred_option (\<lambda>d. mk_decision d = Inr d) (cp_systems_decision p)
      \<and> pred_option (\<lambda>r. mk_review r = Inr r) (cp_coherence_review p))"

lemma opt_object_None: "obj_get data k = None \<Longrightarrow> opt_object f data k = Inr None"
  by (simp add: opt_object_def present_def)

lemma opt_object_Some:
  "obj_get data k = Some (JObj kvs) \<Longrightarrow> f kvs = Inr x \<Longrightarrow> opt_object f data k = Inr (Some x)"
  by (simp add: opt_object_def present_def expect_mapping_def)

lemma obj_get_option:
  "obj_get (case v of None \<Rightarrow> [] | Some x \<Rightarrow> [(k', f x)]) k = (if k' = k then map_option f v else None)"
  by (cases v) (auto simp: obj_get_simps)

lemma obj_get_if:
  "obj_get (if b then [] else kvs) k = (if b then None else obj_get kvs k)"
  by (simp add: obj_get_simps)

lemma opt_object_reads:
  assumes "obj_get data k = map_option (\<lambda>x. JObj (t x)) v" "\<And>x. v = Some x \<Longrightarrow> f (t x) = Inr x"
  shows "opt_object f data k = Inr v"
  using assms by (cases v) (simp_all add: opt_object_None opt_object_Some)

lemma mk_plan_systems:
  "mk_plan h p = Inr q \<Longrightarrow> (cp_systems_assessment p = None) = (cp_systems_decision p = None)"
  by (auto simp: mk_plan_def checked_Inr check_systems_binding_def split: option.splits)

lemma plan_to_dict_get:
  fixes h p
  defines "d \<equiv> plan_to_dict h p"
  shows "obj_get d ''schema_version'' = Some (JStr (cp_schema_version p))"
    "obj_get d ''plan_id'' = Some (JStr (cp_plan_id p))"
    "obj_get d ''goal'' = Some (JStr (cp_goal p))"
    "obj_get d ''created_by'' = Some (JStr (cp_created_by p))"
    "obj_get d ''created_at'' = Some (JStr (h_isoformat h (cp_created_at p)))"
    "obj_get d ''workflow_id'' = Some (optional JStr (cp_workflow_id p))"
    "obj_get d ''workflow_fingerprint'' = Some (optional JStr (cp_workflow_fingerprint p))"
    "obj_get d ''compensate_on_failure'' = Some (JBool (cp_compensate_on_failure p))"
    "obj_get d ''actions'' = Some (JList (map (\<lambda>a. JObj (action_to_dict a)) (cp_actions p)))"
    "obj_get d ''execution_context'' =
       map_option (\<lambda>c. JObj (context_to_dict c)) (cp_execution_context p)"
    "obj_get d ''strategy_traces'' = (if cp_strategy_traces p = [] then None
       else Some (JList (map (\<lambda>t. JObj (trace_to_dict t)) (cp_strategy_traces p))))"
    "obj_get d ''strategy_coherence_review'' =
       map_option (\<lambda>r. JObj (review_to_dict r)) (cp_coherence_review p)"
  unfolding d_def plan_to_dict_def
  by (simp_all add: obj_get_append obj_get_simps obj_get_option split: option.split)

lemma plan_to_dict_get_systems:
  assumes "(cp_systems_assessment p = None) = (cp_systems_decision p = None)"
  shows "obj_get (plan_to_dict h p) ''systems_assessment'' =
       map_option (\<lambda>a. JObj (assessment_to_dict a)) (cp_systems_assessment p)"
    "obj_get (plan_to_dict h p) ''systems_decision'' =
       map_option (\<lambda>a. JObj (decision_to_dict a)) (cp_systems_decision p)"
  using assms unfolding plan_to_dict_def
  by (auto simp: obj_get_append obj_get_simps obj_get_option split: option.split)

lemma error_of_None: "error_of r = None \<longleftrightarrow> (\<exists>x. r = Inr x)"
  by (cases r) (simp_all add: error_of_def)

lemma traces_read_back:
  assumes "\<forall>t \<in> set ts. trace_valid h t"
  shows "sbind (case if ts = [] then None else Some (JList (map (\<lambda>t. JObj (trace_to_dict t)) ts)) of
            None \<Rightarrow> Inr [] | Some y \<Rightarrow> object_list (Some y) e) (\<lambda>os. sbind (smap (trace_from_dict h) os) f) = f ts"
  using assms trace.list_reads_back [of ts h]
  by (auto simp: object_list_JObj)

lemma plan_from_to_dict:
  assumes "plan_valid h p"
  shows "plan_from_dict h (plan_to_dict h p) = Inr p"
proof -
  let ?d = "plan_to_dict h p"
  have v: "host_laws h" "mk_plan h p = Inr p" "canonical_uuid (cp_plan_id p)"
    "\<forall>a \<in> set (cp_actions p). action_valid h a" "\<forall>t \<in> set (cp_strategy_traces p). trace_valid h t"
    using assms by (simp_all add: plan_valid_def)
  obtain u where u: "measure_json_resources (JObj ?d) MAX_PLAN_BYTES = Inr u"
    using assms by (auto simp: plan_valid_def error_of_None)
  have few: "length (cp_actions p) \<le> MAX_PLAN_ACTIONS"
    using mk_plan_wf [OF v(2)] by (simp add: plan_wf_def)
  have trusted: "\<not> cp_trusted_admission p" using mk_plan_Inr [OF v(2)] by (cases p) simp
  note systems = plan_to_dict_get_systems [OF mk_plan_systems [OF v(2)]]
  have parts: "opt_object (context_from_dict h) ?d ''execution_context'' = Inr (cp_execution_context p)"
    "opt_object (assessment_from_dict h) ?d ''systems_assessment'' = Inr (cp_systems_assessment p)"
    "opt_object (decision_from_dict h) ?d ''systems_decision'' = Inr (cp_systems_decision p)"
    "opt_object (review_from_dict h) ?d ''strategy_coherence_review'' = Inr (cp_coherence_review p)"
    using assms
    by (auto simp: plan_valid_def plan_to_dict_get systems intro!: opt_object_reads
        exec_context.reads_back assessment.reads_back decision.reads_back review.reads_back)
  have actions: "smap (action_from_dict h) (map action_to_dict (cp_actions p)) = Inr (cp_actions p)"
    using v(4) by (intro action.list_reads_back) simp
  have traces: "smap (trace_from_dict h) (map trace_to_dict (cp_strategy_traces p)) = Inr (cp_strategy_traces p)"
    using v(5) by (intro trace.list_reads_back) simp
  have raw: "(case obj_get ?d ''strategy_traces'' of None \<Rightarrow> Inr []
       | Some y \<Rightarrow> object_list (Some y) e) = Inr (map trace_to_dict (cp_strategy_traces p))" for e
    by (simp add: plan_to_dict_get object_list_JObj)
  have eta: "p\<lparr>cp_trusted_admission := False\<rparr> = p" using trusted by (cases p) simp
  have eta': "\<lparr>cp_goal = cp_goal p, cp_actions = cp_actions p, cp_created_by = cp_created_by p,
      cp_plan_id = cp_plan_id p, cp_created_at = cp_created_at p,
      cp_schema_version = cp_schema_version p, cp_workflow_id = cp_workflow_id p,
      cp_workflow_fingerprint = cp_workflow_fingerprint p,
      cp_compensate_on_failure = cp_compensate_on_failure p,
      cp_execution_context = cp_execution_context p,
      cp_systems_assessment = cp_systems_assessment p, cp_systems_decision = cp_systems_decision p,
      cp_strategy_traces = cp_strategy_traces p, cp_coherence_review = cp_coherence_review p,
      cp_trusted_admission = False\<rparr> = p"
    using trusted by (cases p) simp
  show ?thesis
    unfolding plan_from_dict_def u sbind_simps raw parts
    using v few
    by (simp add: plan_to_dict_get need_list_JList need_objects_JObj need_str_def need_def get_str_def
        parse_uuid_canonical parse_datetime_def host_lawsD strict_JBool opt_str_optional actions traces eta')
qed

lemma execution_snapshot_same:
  assumes "plan_valid h (p\<lparr>cp_trusted_admission := False\<rparr>)"
  shows "execution_snapshot h p = Inr p"
proof -
  have "plan_to_dict h p = plan_to_dict h (p\<lparr>cp_trusted_admission := False\<rparr>)"
    by (simp add: plan_to_dict_def)
  then show ?thesis
    using plan_from_to_dict [OF assms]
    by (cases p) (simp add: execution_snapshot_def has_trusted_admission_def with_trusted_admission_def)
qed

definition approval_valid :: "host \<Rightarrow> approval \<Rightarrow> bool" where
  "approval_valid h a =
     (host_laws h \<and> mk_approval h a = Inr a \<and> canonical_uuid (ap_approval_id a)
      \<and> (\<forall>u \<in> set (ap_approved_action_ids a). canonical_uuid u))"

interpretation approval: codec "approval_valid h" "approval_to_dict h" "approval_from_dict h" for h
  by unfold_locales
     (simp add: approval_valid_def approval_to_dict_def approval_claims_to_dict_def approval_from_dict_def
        need_str_def need_def get_str_def required_approval_string_def py_iter_def strings_def
        string_list_def decode_simps parse_uuid_canonical uuids_read_back parse_datetime_def host_lawsD
        record_eta)

subsection \<open>What a fingerprint binds\<close>

text \<open>An action up to the order of the keys inside its parameters.\<close>

definition canonical_parameters :: "json_object \<Rightarrow> json" where
  "canonical_parameters kvs = sort_keys (JObj kvs)"

definition same_action :: "agent_action \<Rightarrow> agent_action \<Rightarrow> bool" where
  "same_action a b =
     (canonical_parameters (ac_parameters a) = canonical_parameters (ac_parameters b)
      \<and> a\<lparr>ac_parameters := []\<rparr> = b\<lparr>ac_parameters := []\<rparr>)"

text \<open>The systems assessment with the decision of the gate on it: a plan carries both or neither.\<close>

definition bound_systems :: "change_plan \<Rightarrow> (systems_assessment \<times> gate_decision) option" where
  "bound_systems p =
     (case (cp_systems_assessment p, cp_systems_decision p) of (Some a, Some d) \<Rightarrow> Some (a, d) | _ \<Rightarrow> None)"

text \<open>Two plans that differ at most in what the canonical text does not show: the order of the keys in the
  parameters of an action, and the trusted admission mark, which is not part of a stored plan. The creation time is compared as it is
  written; execution context and assessment are compared as canonical documents.\<close>

definition same_plan :: "host \<Rightarrow> change_plan \<Rightarrow> change_plan \<Rightarrow> bool" where
  "same_plan h p q =
     (list_all2 same_action (cp_actions p) (cp_actions q)
      \<and> h_isoformat h (cp_created_at p) = h_isoformat h (cp_created_at q)
      \<and> cp_strategy_traces p = cp_strategy_traces q \<and> cp_coherence_review p = cp_coherence_review q
      \<and> rel_option (\<lambda>c d. sort_keys (JObj (context_to_dict c)) = sort_keys (JObj (context_to_dict d)))
          (cp_execution_context p) (cp_execution_context q)
      \<and> rel_option (rel_prod (\<lambda>a b. sort_keys (JObj (assessment_to_dict a)) = sort_keys (JObj (assessment_to_dict b))) (=))
          (bound_systems p) (bound_systems q)
      \<and> cp_goal p = cp_goal q \<and> cp_created_by p = cp_created_by q \<and> cp_plan_id p = cp_plan_id q
      \<and> cp_schema_version p = cp_schema_version q \<and> cp_workflow_id p = cp_workflow_id q
      \<and> cp_workflow_fingerprint p = cp_workflow_fingerprint q
      \<and> cp_compensate_on_failure p = cp_compensate_on_failure q)"

lemma optional_JStr_inj: "sort_keys (optional JStr x) = sort_keys (optional JStr y) \<Longrightarrow> x = y"
  by (auto simp: optional_def split: option.splits)

lemma sort_keys_strings: "sort_keys (strings xs) = strings xs"
  by (simp add: strings_def)

lemma strings_inj: "strings xs = strings ys \<Longrightarrow> xs = ys"
  by (auto simp: strings_def dest: map_injective simp: inj_def)

lemma risk_str_inj: "risk_str a = risk_str b \<Longrightarrow> a = b"
  by (metis risk_members_str sum.inject(2))

lemma authority_str_inj: "authority_str a = authority_str b \<Longrightarrow> a = b"
  by (metis authority_members_str sum.inject(2))

lemma classification_str_inj: "classification_str a = classification_str b \<Longrightarrow> a = b"
  by (metis classification_members_str sum.inject(2))

lemma target_members:
  assumes "sort_keys (JObj (target_to_dict r)) = sort_keys (JObj (target_to_dict s))"
  shows "r = s"
proof -
  have d: "distinct (map fst (target_to_dict x))" for x by (simp add: target_to_dict_def)
  note m = sort_keys_members [OF assms d d]
  show ?thesis
    using m [of "''system''"] m [of "''resource_type''"] m [of "''resource_id''"]
      m [of "''expected_version''"] optional_JStr_inj
    by (cases r; cases s) (simp add: target_to_dict_def decode_simps)
qed

lemma action_members:
  assumes "sort_keys (JObj (action_to_dict a)) = sort_keys (JObj (action_to_dict b))"
  shows "same_action a b"
proof -
  have d: "distinct (map fst (action_to_dict x))" for x by (simp add: action_to_dict_def)
  note m = sort_keys_members [OF assms d d]
  have "ac_target a = ac_target b"
    using m [of "''target''"] target_members
    by (simp add: action_to_dict_def decode_simps del: sort_keys.simps)
  moreover have "sort_keys (JObj (ac_parameters a)) = sort_keys (JObj (ac_parameters b))"
    using m [of "''parameters''"] by (simp add: action_to_dict_def decode_simps del: sort_keys.simps)
  moreover have "ac_dependencies a = ac_dependencies b"
    using m [of "''dependencies''"] strings_inj by (simp add: action_to_dict_def decode_simps sort_keys_strings)
  moreover have "ac_action_id a = ac_action_id b" "ac_capability a = ac_capability b"
      "ac_risk a = ac_risk b" "ac_authority_source a = ac_authority_source b"
      "ac_data_classification a = ac_data_classification b"
      "ac_requires_approval a = ac_requires_approval b"
      "ac_idempotency_key a = ac_idempotency_key b" "ac_justification a = ac_justification b"
    using m [of "''action_id''"] m [of "''capability''"] m [of "''risk''"] m [of "''authority_source''"]
      m [of "''data_classification''"] m [of "''requires_approval''"] m [of "''idempotency_key''"]
      m [of "''justification''"] risk_str_inj authority_str_inj classification_str_inj
    by (simp_all add: action_to_dict_def decode_simps)
  ultimately show ?thesis by (simp add: same_action_def canonical_parameters_def)
qed

lemma distinct_plan_keys: "distinct (map fst (plan_to_dict h p))"
  by (cases "cp_execution_context p"; cases "cp_coherence_review p"; cases "cp_systems_assessment p";
      cases "cp_systems_decision p")
     (simp_all add: plan_to_dict_def)

lemma trace_members:
  assumes "sort_keys (JObj (trace_to_dict r)) = sort_keys (JObj (trace_to_dict s))"
  shows "r = s"
proof -
  have d: "distinct (map fst (trace_to_dict x))" for x by (simp add: trace_to_dict_def)
  note m = sort_keys_members [OF assms d d]
  show ?thesis
    using m [of "''schema''"] m [of "''action_id''"] m [of "''intent_id''"]
    by (cases r; cases s) (simp add: trace_to_dict_def decode_simps)
qed

lemma review_members:
  assumes "sort_keys (JObj (review_to_dict r)) = sort_keys (JObj (review_to_dict s))"
  shows "r = s"
proof -
  have d: "distinct (map fst (review_to_dict x))" for x by (simp add: review_to_dict_def coherence_findings_def)
  note m = sort_keys_members [OF assms d d]
  have "cv_reason_codes r = cv_reason_codes s"
    using m [of "''reason_codes''"] strings_inj
    by (simp add: review_to_dict_def coherence_findings_def decode_simps sort_keys_strings)
  moreover have "cv_schema r = cv_schema s" "cv_assessment_fingerprint r = cv_assessment_fingerprint s"
    "cv_kernel_fingerprint r = cv_kernel_fingerprint s"
    using m [of "''schema''"] m [of "''assessment_fingerprint''"] m [of "''strategy_kernel_fingerprint''"]
    by (simp_all add: review_to_dict_def coherence_findings_def decode_simps)
  moreover have "cv_diagnosis_addresses_constraint r = cv_diagnosis_addresses_constraint s"
    "cv_guiding_policy_targets_leverage_point r = cv_guiding_policy_targets_leverage_point s"
    "cv_proximate_objective_advances_outcome r = cv_proximate_objective_advances_outcome s"
    "cv_coherent_actions_support_success_metric r = cv_coherent_actions_support_success_metric s"
    "cv_tradeoffs_cover_alternatives r = cv_tradeoffs_cover_alternatives s"
    using m [of "''diagnosis_addresses_constraint''"] m [of "''guiding_policy_targets_leverage_point''"]
      m [of "''proximate_objective_advances_outcome''"] m [of "''coherent_actions_support_success_metric''"]
      m [of "''tradeoffs_cover_alternatives''"]
    by (simp_all add: review_to_dict_def coherence_findings_def decode_simps)
  ultimately show ?thesis by simp
qed

lemma decision_to_dict_get:
  "obj_get (decision_to_dict d) ''schema'' = Some (JStr (gd_schema d))"
  "obj_get (decision_to_dict d) ''route'' = Some (JStr (route_str (gd_route d)))"
  "obj_get (decision_to_dict d) ''permitted'' = Some (JBool (gd_permitted d))"
  "obj_get (decision_to_dict d) ''reasons'' = Some (strings (gd_reasons d))"
  "obj_get (decision_to_dict d) ''complexity_score'' = Some (JInt (gd_complexity_score d))"
  "obj_get (decision_to_dict d) ''assessment_fingerprint'' = Some (JStr (gd_assessment_fingerprint d))"
  "obj_get (decision_to_dict d) ''requires_human_review'' = Some (JBool (gd_requires_human_review d))"
  "obj_get (decision_to_dict d) ''strategy_coherence_review_fingerprint'' = map_option JStr (gd_review_fingerprint d)"
  unfolding decision_to_dict_def by (simp_all add: obj_get_append obj_get_simps obj_get_option)

lemma route_str_inj: "route_str a = route_str b \<Longrightarrow> a = b"
  by (cases a; cases b) simp_all

lemma decision_members:
  assumes "sort_keys (JObj (decision_to_dict r)) = sort_keys (JObj (decision_to_dict s))"
  shows "r = s"
proof -
  have d: "distinct (map fst (decision_to_dict x))" for x
    by (cases "gd_review_fingerprint x") (simp_all add: decision_to_dict_def)
  note m = sort_keys_members [OF assms d d]
  have "gd_reasons r = gd_reasons s"
    using m [of "''reasons''"] strings_inj by (simp add: decision_to_dict_get sort_keys_strings)
  moreover have "gd_schema r = gd_schema s" "gd_route r = gd_route s" "gd_permitted r = gd_permitted s"
    "gd_complexity_score r = gd_complexity_score s" "gd_assessment_fingerprint r = gd_assessment_fingerprint s"
    "gd_requires_human_review r = gd_requires_human_review s"
    using m [of "''schema''"] m [of "''route''"] m [of "''permitted''"] m [of "''complexity_score''"]
      m [of "''assessment_fingerprint''"] m [of "''requires_human_review''"] route_str_inj
    by (simp_all add: decision_to_dict_get)
  moreover have "gd_review_fingerprint r = gd_review_fingerprint s"
    using m [of "''strategy_coherence_review_fingerprint''"]
    by (cases "gd_review_fingerprint r"; cases "gd_review_fingerprint s") (simp_all add: decision_to_dict_get)
  ultimately show ?thesis by simp
qed

lemma plan_to_dict_get_bound:
  "obj_get (plan_to_dict h p) ''systems_assessment'' = map_option (\<lambda>(a, d). JObj (assessment_to_dict a)) (bound_systems p)"
  "obj_get (plan_to_dict h p) ''systems_decision'' = map_option (\<lambda>(a, d). JObj (decision_to_dict d)) (bound_systems p)"
  unfolding plan_to_dict_def bound_systems_def
  by (auto simp: obj_get_append obj_get_simps obj_get_option split: option.split)

lemma sorted_documents:
  "map sort_keys (map (\<lambda>x. JObj (f x)) xs) = map sort_keys (map (\<lambda>x. JObj (f x)) ys) \<longleftrightarrow>
   list_all2 (\<lambda>x y. sort_keys (JObj (f x)) = sort_keys (JObj (f y))) xs ys"
  by (auto simp: list_all2_conv_all_nth list_eq_iff_nth_eq simp del: sort_keys.simps)

lemma sorted_sections:
  "map_option sort_keys (map_option (\<lambda>x. JObj (f x)) u) = map_option sort_keys (map_option (\<lambda>x. JObj (f x)) v) \<longleftrightarrow>
   rel_option (\<lambda>x y. sort_keys (JObj (f x)) = sort_keys (JObj (f y))) u v"
  by (cases u; cases v) (simp_all del: sort_keys.simps)

lemma plan_members:
  assumes "sort_keys (JObj (plan_to_dict h p)) = sort_keys (JObj (plan_to_dict h q))"
  shows "same_plan h p q"
proof -
  note m = sort_keys_members [OF assms distinct_plan_keys distinct_plan_keys]
  have "map sort_keys (map (\<lambda>a. JObj (action_to_dict a)) (cp_actions p)) =
        map sort_keys (map (\<lambda>a. JObj (action_to_dict a)) (cp_actions q))"
    using m [of "''actions''"] by (simp add: plan_to_dict_get del: map_map)
  then have "list_all2 same_action (cp_actions p) (cp_actions q)"
    unfolding sorted_documents by (rule list_all2_mono) (rule action_members)
  moreover have "map sort_keys (map (\<lambda>t. JObj (trace_to_dict t)) (cp_strategy_traces p)) =
        map sort_keys (map (\<lambda>t. JObj (trace_to_dict t)) (cp_strategy_traces q))"
    using m [of "''strategy_traces''"] by (simp add: plan_to_dict_get del: map_map split: if_splits)
  then have "list_all2 (=) (cp_strategy_traces p) (cp_strategy_traces q)"
    unfolding sorted_documents by (rule list_all2_mono) (rule trace_members)
  then have "cp_strategy_traces p = cp_strategy_traces q" by (simp add: list.rel_eq)
  moreover have "rel_option (\<lambda>c d. sort_keys (JObj (context_to_dict c)) = sort_keys (JObj (context_to_dict d)))
      (cp_execution_context p) (cp_execution_context q)"
    using m [of "''execution_context''"] unfolding plan_to_dict_get(10) sorted_sections .
  moreover have "rel_option (=) (cp_coherence_review p) (cp_coherence_review q)"
    using m [of "''strategy_coherence_review''"] unfolding plan_to_dict_get(12) sorted_sections
    by (rule option.rel_mono_strong) (rule review_members)
  then have "cp_coherence_review p = cp_coherence_review q" by (simp add: option.rel_eq)
  moreover have "rel_option (rel_prod (\<lambda>a b. sort_keys (JObj (assessment_to_dict a)) = sort_keys (JObj (assessment_to_dict b))) (=))
      (bound_systems p) (bound_systems q)"
    using m [of "''systems_assessment''"] m [of "''systems_decision''"] decision_members
    by (cases "bound_systems p"; cases "bound_systems q") (auto simp: plan_to_dict_get_bound simp del: sort_keys.simps)
  moreover have "h_isoformat h (cp_created_at p) = h_isoformat h (cp_created_at q)"
    using m [of "''created_at''"] by (simp add: plan_to_dict_get)
  moreover have "cp_goal p = cp_goal q" "cp_created_by p = cp_created_by q" "cp_plan_id p = cp_plan_id q"
    "cp_schema_version p = cp_schema_version q" "cp_workflow_id p = cp_workflow_id q"
    "cp_workflow_fingerprint p = cp_workflow_fingerprint q"
    "cp_compensate_on_failure p = cp_compensate_on_failure q"
    using m [of "''goal''"] m [of "''created_by''"] m [of "''plan_id''"] m [of "''schema_version''"]
      m [of "''workflow_id''"] m [of "''workflow_fingerprint''"] m [of "''compensate_on_failure''"]
      optional_JStr_inj
    by (simp_all add: plan_to_dict_get)
  ultimately show ?thesis by (simp add: same_plan_def)
qed

definition plan_text :: "host \<Rightarrow> change_plan \<Rightarrow> string" where
  "plan_text h p = stable_json (JObj (plan_to_dict h p))"

lemma fingerprint_binds_plan:
  assumes "plan_fingerprint h p = plan_fingerprint h q"
    and "plain_json (JObj (plan_to_dict h p))" "plain_json (JObj (plan_to_dict h q))"
  shows "same_plan h p q \<or> collision (h_sha256 h) {plan_text h p, plan_text h q}"
  using assms stable_json_unambiguous [OF assms(2,3)] plan_members
  unfolding plan_fingerprint_def plan_text_def collision_def by blast

end
