(* ===== verification/Approvals.thy ===== *)
theory Approvals
  imports Change_Plan
begin

text \<open>
  \<open>approvals.py\<close>: the key ring of approval authorities, issuing a signed approval and
  authenticating one. The TOML file and the process environment are the decoded document and a
  lookup function. \<open>hmac.compare_digest\<close> on two strings raises for a non-ASCII operand, which an
  approval document can supply.
\<close>

abbreviation misconfigured :: "string \<Rightarrow> exn" where
  "misconfigured m \<equiv> Exn ConfigurationError m"

record approval_authority =
  au_key_id :: string
  au_subject :: string
  au_issuer :: string
  au_tenant :: string
  au_roles :: "string list"
  au_secret :: string
  au_revoked_before :: "py_datetime option"
  au_revoked_approval_ids :: "uuid list"

definition claim_key :: "host \<Rightarrow> string \<Rightarrow> string" where
  "claim_key h v = h_casefold h (h_nfkc h v)"

definition validate_claim :: "host \<Rightarrow> string \<Rightarrow> string \<Rightarrow> exn option" where
  "validate_claim h v name =
     first_error
       [fail_if (v = [] \<or> \<not> trimmed v)
          (misconfigured (''approval authority '' @ name @ '' must be a non-empty normalized value'')),
        fail_if (h_nfc h v \<noteq> v)
          (misconfigured (''approval authority '' @ name @ '' must use Unicode NFC normalization'')),
        fail_if (has_control_characters v)
          (misconfigured (''approval authority '' @ name @ '' must not contain control characters''))]"

definition require_aware :: "py_datetime \<Rightarrow> string \<Rightarrow> exn option" where
  "require_aware d name =
     fail_if (\<not> aware d)
       (misconfigured (''approval authority '' @ name @ '' must include a timezone offset''))"

fun check_authority_roles :: "host \<Rightarrow> string list \<Rightarrow> string list \<Rightarrow> exn option" where
  "check_authority_roles h seen [] = None"
| "check_authority_roles h seen (r # rs) =
     (case validate_claim h r ''role'' of
        Some e \<Rightarrow> Some e
      | None \<Rightarrow>
          if claim_key h r \<in> set seen
          then Some (misconfigured ''approval authority roles must be unique'')
          else check_authority_roles h (claim_key h r # seen) rs)"

definition mk_authority :: "host \<Rightarrow> approval_authority \<Rightarrow> exn + approval_authority" where
  "mk_authority h a =
     checked
       [fail_if (blank (au_key_id a) \<or> \<not> trimmed (au_key_id a))
          (misconfigured ''approval authority key_id must be normalized''),
        validate_claim h (au_key_id a) ''key_id'',
        fail_if (blank (au_subject a) \<or> \<not> trimmed (au_subject a))
          (misconfigured ''approval authority subject must be normalized''),
        validate_claim h (au_subject a) ''subject'',
        validate_claim h (au_issuer a) ''issuer'',
        validate_claim h (au_tenant a) ''tenant'',
        fail_if (au_roles a = []) (misconfigured ''approval authority roles must not be empty''),
        check_authority_roles h [] (au_roles a),
        fail_if (length (au_secret a) < 32)
          (misconfigured (''approval authority '' @ au_key_id a @ '' requires at least 32 secret bytes'')),
        (case au_revoked_before a of None \<Rightarrow> None | Some d \<Rightarrow> require_aware d ''revoked_before'')]
       (a\<lparr>au_roles := sort_key (h_casefold h) (au_roles a)\<rparr>)"

subsection \<open>The key ring\<close>

type_synonym key_ring = "(string \<times> approval_authority) list"

definition mk_key_ring :: "key_ring \<Rightarrow> exn + key_ring" where
  "mk_key_ring ring =
     checked
       [fail_if (ring = []) (misconfigured ''at least one approval authority is required''),
        fail_if (\<exists>(k, a) \<in> set ring. k \<noteq> au_key_id a)
          (misconfigured ''approval authority mapping key must match authority key_id'')] ring"

definition required_string :: "json_object \<Rightarrow> string \<Rightarrow> string \<Rightarrow> exn + string" where
  "required_string item name key_id =
     (case obj_get item name of
        Some (JStr s) \<Rightarrow>
          if s = []
          then Inl (misconfigured (''approval authority '' @ key_id @ '' requires string field '' @ name))
          else Inr s
      | _ \<Rightarrow> Inl (misconfigured (''approval authority '' @ key_id @ '' requires string field '' @ name)))"

definition optional_datetime :: "host \<Rightarrow> json option \<Rightarrow> string \<Rightarrow> exn + py_datetime option" where
  "optional_datetime h v key_id =
     (let e = misconfigured (''approval authority '' @ key_id @ '' revoked_before must be an ISO datetime'')
      in case v of
           None \<Rightarrow> Inr None
         | Some JNull \<Rightarrow> Inr None
         | Some (JStr s) \<Rightarrow> (case h_fromisoformat h s of
               None \<Rightarrow> Inl e
             | Some d \<Rightarrow> (case require_aware d ''revoked_before'' of
                   Some e' \<Rightarrow> Inl e'
                 | None \<Rightarrow> Inr (Some \<lparr>dt_wall = instant_of d, dt_offset = Some 0\<rparr>)))
         | Some _ \<Rightarrow> Inl e)"

definition nonempty_string_list :: "json option \<Rightarrow> exn \<Rightarrow> exn + string list" where
  "nonempty_string_list v e =
     sbind (string_list v e) (\<lambda>ss. if ss = [] then Inl e else Inr ss)"

text \<open>One entry of the \<open>[authorities]\<close> table: \<open>None\<close> when it is disabled or not selected.\<close>

definition authority_of_entry ::
  "host \<Rightarrow> (string \<Rightarrow> string option) \<Rightarrow> string list option \<Rightarrow> string \<Rightarrow> json
     \<Rightarrow> exn + approval_authority option"
where
  "authority_of_entry h environ selected key_id entry =
     (case entry of
        JObj item \<Rightarrow>
          sbind (case obj_get item ''enabled'' of
                   None \<Rightarrow> Inr True
                 | Some (JBool b) \<Rightarrow> Inr b
                 | Some _ \<Rightarrow> Inl (misconfigured
                     (''approval authority '' @ key_id @ '' enabled must be a boolean''))) (\<lambda>enabled.
          if \<not> enabled \<or> (case selected of None \<Rightarrow> False | Some ks \<Rightarrow> key_id \<notin> set ks) then Inr None
          else
            sbind (required_string item ''subject'' key_id) (\<lambda>subject.
            sbind (required_string item ''issuer'' key_id) (\<lambda>issuer.
            sbind (required_string item ''tenant'' key_id) (\<lambda>tenant.
            sbind (nonempty_string_list (obj_get item ''roles'') (misconfigured
                (''approval authority '' @ key_id @ '' roles must be a non-empty string list''))) (\<lambda>roles.
            sbind (optional_datetime h (obj_get item ''revoked_before'') key_id) (\<lambda>revoked_before.
            sbind (case obj_get item ''revoked_approval_ids'' of
                     None \<Rightarrow> Inr []
                   | v \<Rightarrow> string_list v (misconfigured (''approval authority '' @ key_id
                       @ '' revoked_approval_ids must be a string list''))) (\<lambda>raw_ids.
            sbind (relabel (misconfigured
                     (''approval authority '' @ key_id @ '' has an invalid revoked approval ID''))
                     (smap (parse_uuid h) raw_ids)) (\<lambda>revoked_ids.
            (let secret_env = py_strip (get_str h item ''secret_env'' []);
                 secret = (case environ secret_env of None \<Rightarrow> [] | Some s \<Rightarrow> s) in
             if secret_env = []
             then Inl (misconfigured (''approval authority '' @ key_id @ '' requires secret_env''))
             else if has_surrogate secret then Inl (Exn ValueError ''surrogates not allowed'')
             else if secret = []
             then Inl (misconfigured (''approval authority secret is unavailable: '' @ secret_env))
             else sbind (mk_authority h
               \<lparr>au_key_id = key_id, au_subject = subject, au_issuer = issuer, au_tenant = tenant,
                au_roles = roles, au_secret = secret, au_revoked_before = revoked_before,
                au_revoked_approval_ids = revoked_ids\<rparr>) (\<lambda>a. Inr (Some a)))))))))))
      | _ \<Rightarrow> Inl (misconfigured (''approval authority '' @ key_id @ '' must be a TOML table'')))"

fun load_entries ::
  "host \<Rightarrow> (string \<Rightarrow> string option) \<Rightarrow> string list option \<Rightarrow> json_object \<Rightarrow> exn + key_ring"
where
  "load_entries h environ selected [] = Inr []"
| "load_entries h environ selected ((key_id, entry) # entries) =
     sbind (authority_of_entry h environ selected key_id entry) (\<lambda>found.
     sbind (load_entries h environ selected entries) (\<lambda>ring.
     Inr (case found of None \<Rightarrow> ring | Some a \<Rightarrow> (au_key_id a, a) # ring)))"

definition key_ring_from_toml ::
  "host \<Rightarrow> json_object \<Rightarrow> (string \<Rightarrow> string option) \<Rightarrow> string list option \<Rightarrow> exn + key_ring"
where
  "key_ring_from_toml h raw environ selected =
     (case obj_get raw ''authorities'' of
        Some (JObj (e # es)) \<Rightarrow>
          sbind (load_entries h environ selected (e # es)) (\<lambda>ring.
          if (case selected of None \<Rightarrow> False | Some ks \<Rightarrow> set (map fst ring) \<noteq> set ks)
          then Inl (misconfigured ''unknown approval authority key_id'')
          else mk_key_ring ring)
      | _ \<Rightarrow> Inl (misconfigured ''[authorities] must contain at least one entry''))"

definition key_ring_for_key ::
  "host \<Rightarrow> json_object \<Rightarrow> (string \<Rightarrow> string option) \<Rightarrow> string \<Rightarrow> exn + key_ring"
where
  "key_ring_for_key h raw environ key_id =
     (if blank key_id \<or> \<not> trimmed key_id
      then Inl (misconfigured ''approval authority key_id must be normalized'')
      else key_ring_from_toml h raw environ (Some [key_id]))"

subsection \<open>Issuing and authenticating\<close>

definition principal_id :: "host \<Rightarrow> approval_authority \<Rightarrow> string" where
  "principal_id h a =
     py_join ''|'' [claim_key h (au_issuer a), claim_key h (au_tenant a), claim_key h (au_subject a)]"

definition hmac_scheme :: string where
  "hmac_scheme = ''hmac-sha256''"

definition issue ::
  "host \<Rightarrow> key_ring \<Rightarrow> change_plan \<Rightarrow> uuid list \<Rightarrow> string \<Rightarrow> py_datetime \<Rightarrow> py_datetime \<Rightarrow> uuid
     \<Rightarrow> exn + approval"
where
  "issue h ring plan ids key_id issued_at expires_at approval_id =
     (if \<not> set ids \<subseteq> set (map ac_action_id (cp_actions plan))
      then Inl (invalid ''approval references unknown action IDs'')
      else case map_of ring key_id of
        None \<Rightarrow> Inl (misconfigured (''unknown approval authority key_id: '' @ key_id))
      | Some authority \<Rightarrow>
          sbind (mk_approval h
            \<lparr>ap_plan_fingerprint = plan_fingerprint h plan, ap_approved_action_ids = ids,
             ap_approved_by = au_subject authority, ap_issuer = au_issuer authority,
             ap_tenant = au_tenant authority, ap_roles = au_roles authority,
             ap_issued_at = issued_at, ap_expires_at = expires_at,
             ap_key_id = au_key_id authority, ap_signature = ''pending'',
             ap_signature_scheme = hmac_scheme, ap_approval_id = approval_id\<rparr>) (\<lambda>unsigned.
          sbind (signing_payload h unsigned) (\<lambda>payload.
          mk_approval h (unsigned\<lparr>ap_signature := h_hmac h (au_secret authority) payload\<rparr>))))"

definition ascii_text :: "string \<Rightarrow> bool" where
  "ascii_text s = (\<forall>c \<in> set s. (of_char c :: nat) < 128)"

definition compare_digest :: "string \<Rightarrow> string \<Rightarrow> exn + bool" where
  "compare_digest a b =
     (if ascii_text a \<and> ascii_text b then Inr (a = b)
      else Inl (Exn TypeError ''comparing strings with non-ASCII characters is not supported''))"

definition claims_match :: "approval_authority \<Rightarrow> approval \<Rightarrow> bool" where
  "claims_match authority a =
     (ap_approved_by a = au_subject authority \<and> ap_issuer a = au_issuer authority
      \<and> ap_tenant a = au_tenant authority \<and> ap_roles a = au_roles authority)"

definition is_revoked :: "approval_authority \<Rightarrow> approval \<Rightarrow> bool" where
  "is_revoked authority a =
     (ap_approval_id a \<in> set (au_revoked_approval_ids authority)
      \<or> (case au_revoked_before authority of
            None \<Rightarrow> False
          | Some d \<Rightarrow> instant_of (ap_issued_at a) \<le> instant_of d))"

definition authenticated_subject :: "host \<Rightarrow> key_ring \<Rightarrow> approval \<Rightarrow> exn + string option" where
  "authenticated_subject h ring a =
     (if ap_signature_scheme a \<noteq> hmac_scheme then Inr None
      else case map_of ring (ap_key_id a) of
        None \<Rightarrow> Inr None
      | Some authority \<Rightarrow>
          if \<not> claims_match authority a then Inr None
          else if is_revoked authority a then Inr None
          else sbind (signing_payload h a) (\<lambda>payload.
               sbind (compare_digest (h_hmac h (au_secret authority) payload) (ap_signature a)) (\<lambda>same.
               Inr (if same then Some (principal_id h authority) else None))))"

subsection \<open>Issued approvals authenticate\<close>

definition genuine :: "host \<Rightarrow> key_ring \<Rightarrow> approval \<Rightarrow> string \<Rightarrow> bool" where
  "genuine h ring a s =
     (\<exists>authority payload. map_of ring (ap_key_id a) = Some authority \<and> ap_signature_scheme a = hmac_scheme
        \<and> claims_match authority a \<and> \<not> is_revoked authority a
        \<and> signing_payload h a = Inr payload \<and> ap_signature a = h_hmac h (au_secret authority) payload
        \<and> s = principal_id h authority)"

lemma authenticated_genuine:
  "authenticated_subject h ring a = Inr (Some s) \<Longrightarrow> genuine h ring a s"
  by (auto simp: authenticated_subject_def genuine_def compare_digest_def sbind_Inr
      split: if_splits option.splits)

lemma signing_payload_signature [simp]:
  "signing_payload h (a\<lparr>ap_signature := s\<rparr>) = signing_payload h a"
  by (simp add: signing_payload_def approval_to_dict_def approval_claims_to_dict_def)

lemma mk_approval_Inr:
  "mk_approval h a = Inr b \<Longrightarrow> b = a\<lparr>ap_roles := sort_key (h_casefold h) (ap_roles a)\<rparr>"
  by (simp add: mk_approval_def checked_Inr)

lemma mk_authority_roles:
  "mk_authority h a = Inr b \<Longrightarrow> sort_key (h_casefold h) (au_roles b) = au_roles b"
  by (auto simp: mk_authority_def checked_Inr)

lemma issue_fields:
  assumes "issue h ring plan ids key_id issued expires aid = Inr a"
  obtains authority payload where "map_of ring key_id = Some authority"
    and "set ids \<subseteq> set (map ac_action_id (cp_actions plan))"
    and "ap_plan_fingerprint a = plan_fingerprint h plan" "ap_approved_action_ids a = ids"
    and "ap_approved_by a = au_subject authority" "ap_issuer a = au_issuer authority"
    and "ap_tenant a = au_tenant authority" "ap_key_id a = au_key_id authority"
    and "ap_roles a = sort_key (h_casefold h) (au_roles authority)"
    and "ap_signature_scheme a = hmac_scheme" "ap_approval_id a = aid"
    and "ap_issued_at a = issued" "ap_expires_at a = expires"
    and "signing_payload h a = Inr payload" "ap_signature a = h_hmac h (au_secret authority) payload"
    and "instant_of issued < instant_of expires"
proof -
  from assms obtain authority unsigned payload where
    known: "set ids \<subseteq> set (map ac_action_id (cp_actions plan))" "map_of ring key_id = Some authority"
    and u: "mk_approval h \<lparr>ap_plan_fingerprint = plan_fingerprint h plan, ap_approved_action_ids = ids,
             ap_approved_by = au_subject authority, ap_issuer = au_issuer authority,
             ap_tenant = au_tenant authority, ap_roles = au_roles authority,
             ap_issued_at = issued, ap_expires_at = expires,
             ap_key_id = au_key_id authority, ap_signature = ''pending'',
             ap_signature_scheme = hmac_scheme, ap_approval_id = aid\<rparr> = Inr unsigned"
    and pay: "signing_payload h unsigned = Inr payload"
    and s: "mk_approval h (unsigned\<lparr>ap_signature := h_hmac h (au_secret authority) payload\<rparr>) = Inr a"
    by (auto simp: issue_def sbind_Inr split: if_splits option.splits)
  have order: "instant_of issued < instant_of expires"
    using u by (simp add: mk_approval_def checked_Inr not_le)
  from mk_approval_Inr [OF u] have roles: "sort_key (h_casefold h) (ap_roles unsigned) = ap_roles unsigned"
    by simp
  have a: "a = unsigned\<lparr>ap_signature := h_hmac h (au_secret authority) payload\<rparr>"
    using mk_approval_Inr [OF s] roles by (cases unsigned) simp
  then have signed: "signing_payload h a = Inr payload" "ap_signature a = h_hmac h (au_secret authority) payload"
    using pay by simp_all
  show ?thesis
    by (rule that [OF known(2,1) _ _ _ _ _ _ _ _ _ _ _ signed order])
       (simp_all add: a mk_approval_Inr [OF u])
qed

lemma issued_authenticates:
  assumes "issue h ring plan ids key_id issued expires aid = Inr a"
    and ring: "map_of ring key_id = Some authority" "au_key_id authority = key_id"
      "sort_key (h_casefold h) (au_roles authority) = au_roles authority"
    and current: "aid \<notin> set (au_revoked_approval_ids authority)"
      "case au_revoked_before authority of None \<Rightarrow> True | Some d \<Rightarrow> instant_of d < instant_of issued"
    and hex: "ascii_text (ap_signature a)"
  shows "authenticated_subject h ring a = Inr (Some (principal_id h authority))"
  using assms
  by (elim issue_fields)
     (auto simp: authenticated_subject_def claims_match_def is_revoked_def compare_digest_def
       split: option.splits)

lemma issued_covers:
  assumes "issue h ring plan ids key_id issued expires aid = Inr a"
  shows "covers h a plan act now \<longleftrightarrow>
     ac_action_id act \<in> set ids \<and> instant_of issued \<le> now \<and> now < instant_of expires"
  using assms by (elim issue_fields) (simp add: covers_def)

text \<open>The interface the policy engine relies on: a subject is only ever returned for an approval that
  carries a valid signature of that subject's authority.\<close>

locale approval_authenticator =
  fixes authenticate :: "approval \<Rightarrow> exn + string option"
    and trusted :: "approval \<Rightarrow> string \<Rightarrow> bool"
  assumes sound: "authenticate a = Inr (Some s) \<Longrightarrow> trusted a s"

interpretation hmac: approval_authenticator "authenticated_subject h ring" "genuine h ring" for h ring
  by unfold_locales (rule authenticated_genuine)

end
