(* ===== verification/Policy.thy ===== *)
theory Policy
  imports Approvals Fnmatch
begin

text \<open>
  \<open>policy.py\<close>: contextual constraints, the risk and authority rules of \<open>PolicyEngine.evaluate\<close> and
  the selection of authenticated approvals. The evaluation time is an instant. \<open>fnmatch.fnmatch\<close> is that of
  POSIX, where \<open>os.path.normcase\<close> changes nothing. The authenticator is
  the optional object the engine was built with; it may raise.
\<close>

subsection \<open>Contextual constraints\<close>

record contextual_constraints =
  cc_authenticated_principals :: "string list"
  cc_agent_identities :: "string list"
  cc_tenant_ids :: "string list"
  cc_provider_account_ids :: "string list"
  cc_resource_allowlists :: "(string \<times> string list) list"
  cc_maximum_items_per_action :: int
  cc_maximum_bytes_per_action :: int
  cc_allowed_classifications :: "data_classification list"
  cc_not_before :: "py_datetime option"
  cc_not_after :: "py_datetime option"

definition malformed_values :: "string list \<Rightarrow> bool" where
  "malformed_values vs = (\<exists>v \<in> set vs. v = [] \<or> \<not> trimmed v)"

definition naive_option :: "py_datetime option \<Rightarrow> bool" where
  "naive_option d = (case d of None \<Rightarrow> False | Some t \<Rightarrow> \<not> aware t)"

definition mk_constraints :: "contextual_constraints \<Rightarrow> exn + contextual_constraints" where
  "mk_constraints c =
     checked
       [fail_if (malformed_values (cc_authenticated_principals c))
          (bad_value ''contextual policy authenticated_principals is malformed''),
        fail_if (malformed_values (cc_agent_identities c))
          (bad_value ''contextual policy agent_identities is malformed''),
        fail_if (malformed_values (cc_tenant_ids c))
          (bad_value ''contextual policy tenant_ids is malformed''),
        fail_if (malformed_values (cc_provider_account_ids c))
          (bad_value ''contextual policy provider_account_ids is malformed''),
        fail_if (\<not> (1 \<le> cc_maximum_items_per_action c \<and> cc_maximum_items_per_action c \<le> 65536))
          (bad_value ''contextual policy item budget is outside safe limits''),
        fail_if (\<not> (1 \<le> cc_maximum_bytes_per_action c \<and> cc_maximum_bytes_per_action c \<le> 8388608))
          (bad_value ''contextual policy byte budget is outside safe limits''),
        fail_if (cc_allowed_classifications c = [])
          (bad_value ''contextual policy classifications are empty''),
        fail_if (naive_option (cc_not_before c))
          (bad_value ''contextual policy not_before requires a timezone''),
        fail_if (naive_option (cc_not_after c))
          (bad_value ''contextual policy not_after requires a timezone''),
        fail_if (case (cc_not_before c, cc_not_after c) of
                   (Some b, Some a) \<Rightarrow> instant_of a \<le> instant_of b | _ \<Rightarrow> False)
          (bad_value ''contextual policy time window is empty''),
        fail_if (\<exists>(pat, prefixes) \<in> set (cc_resource_allowlists c).
                   pat = [] \<or> prefixes = [] \<or> malformed_values prefixes)
          (bad_value ''contextual policy resource allowlists are malformed'')] c"

text \<open>\<open>_collection_items\<close>: the last element of \<open>pending\<close>, which \<open>pop\<close> removes, is at the front.\<close>

function collection_loop :: "nat \<Rightarrow> json list \<Rightarrow> nat" where
  "collection_loop count [] = count"
| "collection_loop count (current # pending) =
     (case current of
        JObj kvs \<Rightarrow> collection_loop (count + length kvs) (rev (map snd kvs) @ pending)
      | JList xs \<Rightarrow> collection_loop (count + length xs) (rev xs @ pending)
      | _ \<Rightarrow> collection_loop count pending)"
  by pat_completeness auto
termination
  by (relation "measure (\<lambda>(_, pending). sum_list (map json_nodes pending))")
     (auto simp: rev_map [symmetric] sum_list_rev o_def)

definition collection_items :: "json \<Rightarrow> nat" where
  "collection_items v = collection_loop 0 [v]"

datatype context_reason =
    WindowNotStarted | WindowEnded | ClassificationRejected | ItemBudgetExceeded
  | ByteBudgetExceeded | TargetRejected | CapsuleBindingRequired | CapsuleClassificationDiffers
  | IdentityRejected

definition capsule_for :: "change_plan \<Rightarrow> agent_action \<Rightarrow> capsule_binding option" where
  "capsule_for p a =
     (case cp_execution_context p of
        None \<Rightarrow> None
      | Some c \<Rightarrow> find (\<lambda>b. kb_capability_id b = ac_capability a) (xc_capsules c))"

definition matched_prefixes :: "contextual_constraints \<Rightarrow> agent_action \<Rightarrow> string list" where
  "matched_prefixes c a =
     concat (map snd (filter (\<lambda>pp. fnmatch (ac_capability a) (fst pp)) (cc_resource_allowlists c)))"

definition identity_allowed :: "string list \<Rightarrow> string \<Rightarrow> bool" where
  "identity_allowed allowed v = (allowed = [] \<or> v \<in> set allowed)"

text \<open>\<open>validate\<close>: \<open>None\<close> when every constraint is satisfied.\<close>

definition validate_context ::
  "contextual_constraints \<Rightarrow> change_plan \<Rightarrow> agent_action \<Rightarrow> instant \<Rightarrow> context_reason option"
where
  "validate_context c p a now =
     (if (case cc_not_before c of None \<Rightarrow> False | Some d \<Rightarrow> now < instant_of d)
      then Some WindowNotStarted
      else if (case cc_not_after c of None \<Rightarrow> False | Some d \<Rightarrow> instant_of d \<le> now)
      then Some WindowEnded
      else if ac_data_classification a \<notin> set (cc_allowed_classifications c)
      then Some ClassificationRejected
      else if int (collection_items (JObj (ac_parameters a))) > cc_maximum_items_per_action c
      then Some ItemBudgetExceeded
      else if error_of (measure_json_resources (JObj (ac_parameters a))
                          (cc_maximum_bytes_per_action c)) \<noteq> None
      then Some ByteBudgetExceeded
      else if cc_resource_allowlists c \<noteq> []
              \<and> \<not> (\<exists>pre \<in> set (matched_prefixes c a). prefix pre (resource_uri (ac_target a)))
      then Some TargetRejected
      else if cc_authenticated_principals c = [] \<and> cc_agent_identities c = []
              \<and> cc_tenant_ids c = [] \<and> cc_provider_account_ids c = []
      then None
      else case capsule_for p a of
        None \<Rightarrow> Some CapsuleBindingRequired
      | Some b \<Rightarrow>
          if kb_data_classification b \<noteq> ac_data_classification a
          then Some CapsuleClassificationDiffers
          else if \<not> (identity_allowed (cc_authenticated_principals c) (kb_authenticated_principal b)
                     \<and> identity_allowed (cc_agent_identities c) (kb_agent_identity b)
                     \<and> identity_allowed (cc_tenant_ids c) (kb_tenant_id b)
                     \<and> identity_allowed (cc_provider_account_ids c) (kb_provider_account_id b))
          then Some IdentityRejected
          else None)"

subsection \<open>The engine\<close>

record policy_config =
  pc_auto_permit_risks :: "risk_level list"
  pc_require_approval_risks :: "risk_level list"
  pc_prohibit_risks :: "risk_level list"
  pc_prohibited_capabilities :: "string list"
  pc_write_capability_patterns :: "string list"

text \<open>\<open>PolicyConfig.from_toml\<close> on the decoded document.\<close>

definition toml_strings :: "json_object \<Rightarrow> string \<Rightarrow> exn + string list" where
  "toml_strings data k =
     sbind (need data k) (\<lambda>j. string_list (Some j) (Exn TypeError ''expected a list of strings''))"

definition policy_config_from_toml :: "json_object \<Rightarrow> exn + policy_config" where
  "policy_config_from_toml document =
     sbind (need document ''policy'') (\<lambda>j.
     case j of
       JObj raw \<Rightarrow>
         sbind (toml_strings raw ''auto_permit_risks'') (\<lambda>auto_texts.
         sbind (smap (parse_enum risk_members) auto_texts) (\<lambda>auto_risks.
         sbind (toml_strings raw ''require_approval_risks'') (\<lambda>approval_texts.
         sbind (smap (parse_enum risk_members) approval_texts) (\<lambda>approval_risks.
         sbind (toml_strings raw ''prohibit_risks'') (\<lambda>prohibit_texts.
         sbind (smap (parse_enum risk_members) prohibit_texts) (\<lambda>prohibit_risks.
         sbind (toml_strings raw ''prohibited_capabilities'') (\<lambda>prohibited.
         sbind (toml_strings raw ''write_capability_patterns'') (\<lambda>patterns.
         Inr \<lparr>pc_auto_permit_risks = auto_risks, pc_require_approval_risks = approval_risks,
              pc_prohibit_risks = prohibit_risks, pc_prohibited_capabilities = prohibited,
              pc_write_capability_patterns = patterns\<rparr>))))))))
     | _ \<Rightarrow> Inl (Exn TypeError ''policy must be a table''))"

datatype policy_reason =
    CapsuleDiffers
  | ContextDenied context_reason
  | CapabilityProhibited string
  | RiskProhibited risk_level
  | RetrievedContentCannotAuthorize
  | ApprovalsMissing int
  | ApprovalsSupplied nat
  | AutoPermitted risk_level
  | NoPermitRule

record policy_decision =
  pd_permitted :: bool
  pd_approval_required :: bool
  pd_reason :: policy_reason

definition deny :: "policy_reason \<Rightarrow> policy_decision" where
  "deny r = \<lparr>pd_permitted = False, pd_approval_required = False, pd_reason = r\<rparr>"

type_synonym authenticator = "approval \<Rightarrow> exn + string option"

record policy_engine =
  pe_config :: policy_config
  pe_authenticator :: "authenticator option"
  pe_constraints :: "contextual_constraints option"

definition is_write :: "policy_config \<Rightarrow> agent_action \<Rightarrow> bool" where
  "is_write c a =
     (any_match (ac_capability a) (pc_write_capability_patterns c)
      \<or> ac_risk a \<noteq> READ_ONLY \<and> ac_risk a \<noteq> LOCAL_GENERATION)"

text \<open>The loop that fills \<open>covered_by\<close>.\<close>

fun collect_covering ::
  "host \<Rightarrow> authenticator \<Rightarrow> change_plan \<Rightarrow> agent_action \<Rightarrow> instant \<Rightarrow> (string \<times> approval) list
     \<Rightarrow> approval list \<Rightarrow> exn + (string \<times> approval) list"
where
  "collect_covering h auth p a now covered [] = Inr covered"
| "collect_covering h auth p a now covered (ap # aps) =
     sbind (auth ap) (\<lambda>subject.
       case subject of
         None \<Rightarrow> collect_covering h auth p a now covered aps
       | Some s \<Rightarrow>
           if covers h ap p a now
           then collect_covering h auth p a now (dict_put (h_casefold h s) ap covered) aps
           else collect_covering h auth p a now covered aps)"

definition covering_approvals ::
  "host \<Rightarrow> policy_engine \<Rightarrow> change_plan \<Rightarrow> agent_action \<Rightarrow> approval list \<Rightarrow> instant
     \<Rightarrow> exn + (string \<times> approval) list"
where
  "covering_approvals h e p a approvals now =
     (case pe_authenticator e of
        None \<Rightarrow> Inr []
      | Some auth \<Rightarrow> collect_covering h auth p a now [] approvals)"

definition untrusted_authority :: "agent_action \<Rightarrow> bool" where
  "untrusted_authority a =
     (ac_authority_source a = RETRIEVED_INTERNAL_CONTENT
      \<or> ac_authority_source a = RETRIEVED_EXTERNAL_CONTENT)"

definition evaluate ::
  "host \<Rightarrow> policy_engine \<Rightarrow> change_plan \<Rightarrow> agent_action \<Rightarrow> approval list \<Rightarrow> instant \<Rightarrow> int
     \<Rightarrow> exn + policy_decision"
where
  "evaluate h e p a approvals now minimum =
     (let config = pe_config e;
          capsule = capsule_for p a;
          context = (case pe_constraints e of
                       None \<Rightarrow> None | Some c \<Rightarrow> validate_context c p a now) in
      if minimum < 0 then Inl (bad_value ''minimum_distinct_approvers must not be negative'')
      else if (case capsule of
                 None \<Rightarrow> False
               | Some b \<Rightarrow> kb_risk b \<noteq> ac_risk a
                   \<or> kb_data_classification b \<noteq> ac_data_classification a)
      then Inr (deny CapsuleDiffers)
      else if context \<noteq> None then Inr (deny (ContextDenied (the context)))
      else if any_match (ac_capability a) (pc_prohibited_capabilities config)
      then Inr (deny (CapabilityProhibited (ac_capability a)))
      else if ac_risk a \<in> set (pc_prohibit_risks config)
      then Inr (deny (RiskProhibited (ac_risk a)))
      else if is_write config a \<and> untrusted_authority a
      then Inr (deny RetrievedContentCannotAuthorize)
      else if ac_requires_approval a \<or> ac_risk a \<in> set (pc_require_approval_risks config)
              \<or> minimum > 0
      then sbind (covering_approvals h e p a approvals now) (\<lambda>covered.
        let required = max 1 minimum in
        if int (length covered) < required
        then Inr \<lparr>pd_permitted = False, pd_approval_required = True,
                  pd_reason = ApprovalsMissing required\<rparr>
        else Inr \<lparr>pd_permitted = True, pd_approval_required = True,
                  pd_reason = ApprovalsSupplied (length covered)\<rparr>)
      else if ac_risk a \<in> set (pc_auto_permit_risks config)
      then Inr \<lparr>pd_permitted = True, pd_approval_required = False,
                pd_reason = AutoPermitted (ac_risk a)\<rparr>
      else Inr \<lparr>pd_permitted = False, pd_approval_required = True, pd_reason = NoPermitRule\<rparr>)"

text \<open>\<open>authenticated_approvals\<close>: keyed by approval identifier, in identifier order.\<close>

fun select_approvals ::
  "host \<Rightarrow> authenticator \<Rightarrow> change_plan \<Rightarrow> instant \<Rightarrow> (uuid \<times> approval \<times> string) list
     \<Rightarrow> approval list \<Rightarrow> exn + (uuid \<times> approval \<times> string) list"
where
  "select_approvals h auth p now selected [] = Inr selected"
| "select_approvals h auth p now selected (ap # aps) =
     sbind (auth ap) (\<lambda>subject.
       case subject of
         None \<Rightarrow> select_approvals h auth p now selected aps
       | Some s \<Rightarrow>
           if \<exists>a \<in> set (cp_actions p). covers h ap p a now
           then select_approvals h auth p now (dict_put (ap_approval_id ap) (ap, s) selected) aps
           else select_approvals h auth p now selected aps)"

definition authenticated_approvals ::
  "host \<Rightarrow> policy_engine \<Rightarrow> change_plan \<Rightarrow> approval list \<Rightarrow> instant \<Rightarrow> exn + (approval \<times> string) list"
where
  "authenticated_approvals h e p approvals now =
     (case pe_authenticator e of
        None \<Rightarrow> Inr []
      | Some auth \<Rightarrow>
          sbind (select_approvals h auth p now [] approvals) (\<lambda>selected.
            Inr (map snd (sort_key fst selected))))"

subsection \<open>Counting items\<close>

fun collection_size :: "json \<Rightarrow> nat" where
  "collection_size (JObj kvs) = length kvs + sum_list (map (\<lambda>kv. collection_size (snd kv)) kvs)"
| "collection_size (JList xs) = length xs + sum_list (map collection_size xs)"
| "collection_size _ = 0"

lemma collection_loop_sum: "collection_loop count pending = count + sum_list (map collection_size pending)"
  by (induction count pending rule: collection_loop.induct)
     (auto split: json.splits simp: rev_map [symmetric] sum_list_rev o_def)

lemma collection_items_size: "collection_items v = collection_size v"
  by (simp add: collection_items_def collection_loop_sum)

lemma collection_size_nodes: "Suc (collection_size j) = json_nodes j"
proof (induction j)
  case (JList xs)
  then have "sum_list (map json_nodes xs) = sum_list (map (\<lambda>x. Suc (collection_size x)) xs)"
    by (intro arg_cong [where f = sum_list] map_cong) auto
  then show ?case by (simp add: sum_list_Suc)
next
  case (JObj kvs)
  have "json_nodes (snd kv) = Suc (collection_size (snd kv))" if "kv \<in> set kvs" for kv
    using JObj [of kv "snd kv"] that by (cases kv) auto
  then have "sum_list (map (\<lambda>kv. json_nodes (snd kv)) kvs) =
             sum_list (map (\<lambda>kv. Suc (collection_size (snd kv))) kvs)"
    by (intro arg_cong [where f = sum_list] map_cong) auto
  then show ?case by (simp add: sum_list_Suc)
qed auto

subsection \<open>Approvals count distinct subjects\<close>

context approval_authenticator
begin

lemma collect_sound:
  assumes "collect_covering h authenticate p a now covered aps = Inr result"
    and "\<forall>(k, ap) \<in> set covered. \<exists>s. k = h_casefold h s \<and> trusted ap s \<and> covers h ap p a now"
    and "distinct (map fst covered)"
  shows "(\<forall>(k, ap) \<in> set result. \<exists>s. k = h_casefold h s \<and> trusted ap s \<and> covers h ap p a now)
         \<and> distinct (map fst result)"
  using assms
proof (induction aps arbitrary: covered)
  case (Cons ap aps)
  have put: "\<forall>(k, ap) \<in> set (dict_put k' v covered). P k ap" if "\<forall>(k, ap) \<in> set covered. P k ap" "P k' v"
    for P k' and v :: approval
    using that by (induction k' v covered rule: dict_put.induct) auto
  obtain subject where subject: "authenticate ap = Inr subject"
    using Cons.prems(1) by (auto simp: sbind_Inr)
  show ?case
  proof (cases "\<exists>s. subject = Some s \<and> covers h ap p a now")
    case True
    then obtain s where s: "subject = Some s" "covers h ap p a now" by blast
    with subject have "trusted ap s" by (simp add: sound)
    with s Cons.prems show ?thesis
      by (intro Cons.IH [of "dict_put (h_casefold h s) ap covered"] put) (auto simp: subject)
  next
    case False
    then show ?thesis using Cons.prems subject
      by (intro Cons.IH [of covered]) (auto split: option.splits if_splits)
  qed
qed simp

end

lemma covering_trusted:
  assumes "approval_authenticator auth trusted"
    and "pe_authenticator e = Some auth"
    and "covering_approvals h e p a approvals now = Inr covered"
  shows "(\<forall>(k, ap) \<in> set covered. \<exists>s. k = h_casefold h s \<and> trusted ap s \<and> covers h ap p a now)
         \<and> distinct (map fst covered)"
  using approval_authenticator.collect_sound [OF assms(1), of h p a now "[]" approvals covered] assms
  by (simp add: covering_approvals_def)

text \<open>What a permission means: no prohibition applies, and either the approvals are there or the risk
  is permitted without one.\<close>

definition prohibited_by :: "policy_engine \<Rightarrow> change_plan \<Rightarrow> agent_action \<Rightarrow> instant \<Rightarrow> bool" where
  "prohibited_by e p a now =
     ((\<exists>b. capsule_for p a = Some b
          \<and> (kb_risk b \<noteq> ac_risk a \<or> kb_data_classification b \<noteq> ac_data_classification a))
      \<or> (\<exists>c r. pe_constraints e = Some c \<and> validate_context c p a now = Some r)
      \<or> any_match (ac_capability a) (pc_prohibited_capabilities (pe_config e))
      \<or> ac_risk a \<in> set (pc_prohibit_risks (pe_config e))
      \<or> is_write (pe_config e) a \<and> untrusted_authority a)"

definition needs_approval :: "policy_engine \<Rightarrow> agent_action \<Rightarrow> int \<Rightarrow> bool" where
  "needs_approval e a minimum =
     (ac_requires_approval a \<or> ac_risk a \<in> set (pc_require_approval_risks (pe_config e)) \<or> minimum > 0)"

lemma evaluate_permitted:
  assumes "evaluate h e p a approvals now minimum = Inr d"
  shows "pd_permitted d \<longleftrightarrow>
     \<not> prohibited_by e p a now
     \<and> (if needs_approval e a minimum
        then \<exists>covered. covering_approvals h e p a approvals now = Inr covered
               \<and> int (length covered) \<ge> max 1 minimum
        else ac_risk a \<in> set (pc_auto_permit_risks (pe_config e)))"
proof -
  consider "prohibited_by e p a now"
    | "\<not> prohibited_by e p a now" "needs_approval e a minimum"
    | "\<not> prohibited_by e p a now" "\<not> needs_approval e a minimum" by blast
  then show ?thesis
  proof cases
    case 1
    then have "\<not> pd_permitted d"
      using assms unfolding evaluate_def prohibited_by_def Let_def
      by (auto simp: deny_def split: if_splits option.splits)
    with 1 show ?thesis by simp
  next
    case 2
    then show ?thesis
      using assms unfolding evaluate_def prohibited_by_def needs_approval_def Let_def
      by (auto simp: sbind_Inr not_less split: if_splits option.splits)
  next
    case 3
    then show ?thesis
      using assms unfolding evaluate_def prohibited_by_def needs_approval_def Let_def
      by (auto split: if_splits option.splits)
  qed
qed

lemma collect_members:
  "collect_covering h auth p a now covered aps = Inr result \<Longrightarrow>
   snd ` set result \<subseteq> snd ` set covered \<union> set aps"
proof (induction aps arbitrary: covered)
  case (Cons ap aps)
  then obtain s where "auth ap = Inr s"
    and step: "collect_covering h auth p a now
      (case s of None \<Rightarrow> covered
       | Some t \<Rightarrow> if covers h ap p a now then dict_put (h_casefold h t) ap covered else covered) aps = Inr result"
    by (cases "auth ap") (auto split: option.splits if_splits)
  have "snd ` set result \<subseteq> insert ap (snd ` set covered) \<union> set aps"
    using Cons.IH [OF step] snd_dict_put [of _ ap covered]
    by (cases s) (auto split: if_splits, (metis (no_types, lifting) UnE imageI insertE snd_conv subsetD)+)
  then show ?case by auto
qed simp

end
