(* ===== verification/Audit_Log.thy ===== *)
theory Audit_Log
  imports Hash_Chain Json Errors
begin

text \<open>
  The audit database of \<open>audit.py\<close>: the hash-chained event table with its append checkpoint, the
  idempotency reservations of \<open>completed_actions\<close> and the compare-and-swap run checkpoints. Each
  operation is one \<open>BEGIN IMMEDIATE\<close> transaction: it maps a database to the committed database and
  the value returned or raised, and a raise leaves the database as it was. The current time and
  fresh UUIDs are arguments. A \<open>result_json\<close> column holds the JSON value its text denotes.
\<close>

subsection \<open>Tables\<close>

record audit_event =
  ev_timestamp :: string
  ev_run_id :: uuid
  ev_plan_id :: uuid
  ev_action_id :: "uuid option"
  ev_event_type :: string
  ev_payload_json :: string
  ev_previous_hash :: digest
  ev_event_hash :: digest

datatype claim_status = Pending | Completed | Failed | Indeterminate | OtherStatus string

record claim_row =
  cr_plan_id :: uuid
  cr_action_id :: uuid
  cr_fingerprint :: "string option"
  cr_status :: claim_status
  cr_token :: "string option"
  cr_result :: json
  cr_claimed_at :: "string option"
  cr_completed_at :: string

record run_checkpoint =
  rc_run_id :: uuid
  rc_plan_id :: uuid
  rc_plan_fingerprint :: digest
  rc_state :: string
  rc_sequence :: nat
  rc_capsule_bindings_sha256 :: digest
  rc_result_sha256 :: "digest option"
  rc_updated_at :: string

record audit_db =
  db_events :: "audit_event list"
  db_state :: "(nat \<times> digest) option"
  db_claims :: "string \<Rightarrow> claim_row option"
  db_checkpoints :: "uuid \<Rightarrow> run_checkpoint option"
  db_user_version :: nat

datatype claim_state =
    ClaimClaimed | ClaimCompleted | ClaimFailed | ClaimIndeterminate | ClaimInProgress
  | ClaimConflict

record idempotency_claim =
  claim_state :: claim_state
  claim_token :: "string option"
  claim_result :: "json_object option"
  claim_prior_state :: "claim_state option"

definition genesis :: digest where
  "genesis = ''GENESIS''"

definition created_db :: audit_db where
  "created_db = \<lparr>db_events = [], db_state = None, db_claims = Map.empty,
     db_checkpoints = Map.empty, db_user_version = 0\<rparr>"

subsection \<open>The event chain\<close>

definition event_material ::
  "digest \<Rightarrow> string \<Rightarrow> uuid \<Rightarrow> uuid \<Rightarrow> uuid option \<Rightarrow> string \<Rightarrow> string \<Rightarrow> string"
where
  "event_material previous timestamp run plan act event_type payload =
     py_join ''|'' [previous, timestamp, run, plan, (case act of None \<Rightarrow> [] | Some a \<Rightarrow> a),
       event_type, payload]"

definition row_material :: "audit_event \<Rightarrow> string" where
  "row_material e = event_material (ev_previous_hash e) (ev_timestamp e) (ev_run_id e)
     (ev_plan_id e) (ev_action_id e) (ev_event_type e) (ev_payload_json e)"

definition latest_hash :: "audit_event list \<Rightarrow> digest" where
  "latest_hash es = (if es = [] then genesis else ev_event_hash (last es))"

definition event_row ::
  "(string \<Rightarrow> digest) \<Rightarrow> digest \<Rightarrow> string \<Rightarrow> uuid \<Rightarrow> uuid \<Rightarrow> uuid option \<Rightarrow> string \<Rightarrow> json
     \<Rightarrow> audit_event"
where
  "event_row sha256 previous timestamp run plan act event_type payload =
     \<lparr>ev_timestamp = timestamp, ev_run_id = run, ev_plan_id = plan, ev_action_id = act,
      ev_event_type = event_type, ev_payload_json = stable_json payload,
      ev_previous_hash = previous,
      ev_event_hash =
        sha256 (event_material previous timestamp run plan act event_type (stable_json payload))\<rparr>"

definition audit_record ::
  "(string \<Rightarrow> digest) \<Rightarrow> string \<Rightarrow> uuid \<Rightarrow> uuid \<Rightarrow> uuid option \<Rightarrow> string \<Rightarrow> json \<Rightarrow> audit_db
     \<Rightarrow> audit_db \<times> (exn + digest)"
where
  "audit_record sha256 timestamp run plan act event_type payload db =
     (case db_state db of
        None \<Rightarrow> (db, Inl (Exn RuntimeError ''audit checkpoint state is missing''))
      | Some (event_count, previous) \<Rightarrow>
          if latest_hash (db_events db) \<noteq> previous
          then (db, Inl (Exn RuntimeError ''audit checkpoint does not match the event chain''))
          else if has_surrogate (event_material previous timestamp run plan act event_type (stable_json payload))
          then (db, Inl (Exn ValueError ''surrogates not allowed''))
          else
            (let row = event_row sha256 previous timestamp run plan act event_type payload
             in (db\<lparr>db_events := db_events db @ [row],
                    db_state := Some (event_count + 1, ev_event_hash row)\<rparr>,
                 Inr (ev_event_hash row))))"

text \<open>Opening a database without a checkpoint row, a new one or one written before the checkpoint
  existed, adopts the rows it finds exactly once.\<close>

definition audit_initialize :: "audit_db \<Rightarrow> audit_db" where
  "audit_initialize db =
     (if db_state db = None \<and> db_user_version db = 0
      then db\<lparr>db_state := Some (length (db_events db), latest_hash (db_events db)),
              db_user_version := 1\<rparr>
      else db)"

datatype chain_report =
    NoEvents
  | CheckpointMissing
  | BrokenLink nat
  | HashMismatch nat
  | CountMismatch nat nat
  | HeadMismatch
  | Verified nat

fun verify_rows :: "(string \<Rightarrow> digest) \<Rightarrow> nat \<Rightarrow> digest \<Rightarrow> audit_event list \<Rightarrow> chain_report + digest" where
  "verify_rows sha256 index expected [] = Inr expected"
| "verify_rows sha256 index expected (row # rows) =
     (if ev_previous_hash row \<noteq> expected then Inl (BrokenLink index)
      else if sha256 (row_material row) \<noteq> ev_event_hash row then Inl (HashMismatch index)
      else verify_rows sha256 (index + 1) (ev_event_hash row) rows)"

definition verify_connection :: "(string \<Rightarrow> digest) \<Rightarrow> audit_db \<Rightarrow> chain_report" where
  "verify_connection sha256 db =
     (if db_events db = [] then NoEvents
      else case db_state db of
        None \<Rightarrow> CheckpointMissing
      | Some (checkpoint_count, checkpoint_hash) \<Rightarrow>
          (case verify_rows sha256 1 genesis (db_events db) of
             Inl r \<Rightarrow> r
           | Inr expected \<Rightarrow>
               if checkpoint_count \<noteq> length (db_events db)
               then CountMismatch checkpoint_count (length (db_events db))
               else if checkpoint_hash \<noteq> expected then HeadMismatch
               else Verified (length (db_events db))))"

subsection \<open>Idempotency reservations\<close>

definition idempotency_result :: "json \<Rightarrow> json_object option" where
  "idempotency_result v = (case v of JObj kvs \<Rightarrow> Some kvs | _ \<Rightarrow> None)"

definition simple_claim :: "claim_state \<Rightarrow> json_object option \<Rightarrow> idempotency_claim" where
  "simple_claim st r =
     \<lparr>claim_state = st, claim_token = None, claim_result = r, claim_prior_state = None\<rparr>"

definition claim_action ::
  "string \<Rightarrow> string \<Rightarrow> uuid \<Rightarrow> uuid \<Rightarrow> string \<Rightarrow> string \<Rightarrow> audit_db \<Rightarrow> audit_db \<times> idempotency_claim"
where
  "claim_action key fp plan act token now db =
     (case db_claims db key of
        None \<Rightarrow>
          (db\<lparr>db_claims := (db_claims db)(key \<mapsto>
             \<lparr>cr_plan_id = plan, cr_action_id = act, cr_fingerprint = Some fp, cr_status = Pending,
              cr_token = Some token, cr_result = JObj [], cr_claimed_at = Some now,
              cr_completed_at = now\<rparr>)\<rparr>,
           \<lparr>claim_state = ClaimClaimed, claim_token = Some token, claim_result = None,
            claim_prior_state = None\<rparr>)
      | Some row \<Rightarrow>
          if cr_fingerprint row \<noteq> Some fp then (db, simple_claim ClaimConflict None)
          else (case cr_status row of
             Completed \<Rightarrow> (db, simple_claim ClaimCompleted (idempotency_result (cr_result row)))
           | Failed \<Rightarrow>
               (db\<lparr>db_claims := (db_claims db)(key \<mapsto>
                  row\<lparr>cr_plan_id := plan, cr_action_id := act, cr_status := Pending,
                      cr_token := Some token, cr_result := JObj [], cr_claimed_at := Some now,
                      cr_completed_at := now\<rparr>)\<rparr>,
                \<lparr>claim_state = ClaimClaimed, claim_token = Some token,
                 claim_result = idempotency_result (cr_result row),
                 claim_prior_state = Some ClaimFailed\<rparr>)
           | Indeterminate \<Rightarrow>
               (db, simple_claim ClaimIndeterminate (idempotency_result (cr_result row)))
           | Pending \<Rightarrow> (db, simple_claim ClaimInProgress None)
           | OtherStatus _ \<Rightarrow> (db, simple_claim ClaimIndeterminate None)))"

text \<open>The \<open>WHERE\<close> clause shared by every update that ends a reservation.\<close>

definition holds_claim :: "string \<Rightarrow> string \<Rightarrow> string \<Rightarrow> audit_db \<Rightarrow> bool" where
  "holds_claim key fp token db =
     (case db_claims db key of
        None \<Rightarrow> False
      | Some row \<Rightarrow> cr_fingerprint row = Some fp \<and> cr_status row = Pending
                    \<and> cr_token row = Some token)"

definition reservation_lost :: exn where
  "reservation_lost = Exn RuntimeError ''idempotency reservation was lost or replaced''"

definition complete_action ::
  "string \<Rightarrow> string \<Rightarrow> string \<Rightarrow> json \<Rightarrow> string \<Rightarrow> audit_db \<Rightarrow> audit_db \<times> (exn + unit)"
where
  "complete_action key fp token res now db =
     (if holds_claim key fp token db
      then (db\<lparr>db_claims := (db_claims db)(key := map_option
              (\<lambda>row. row\<lparr>cr_status := Completed, cr_result := sort_keys res,
                         cr_completed_at := now\<rparr>) (db_claims db key))\<rparr>, Inr ())
      else (db, Inl reservation_lost))"

definition finish_action_claim ::
  "string \<Rightarrow> string \<Rightarrow> string \<Rightarrow> claim_status \<Rightarrow> json \<Rightarrow> string \<Rightarrow> audit_db
     \<Rightarrow> audit_db \<times> (exn + unit)"
where
  "finish_action_claim key fp token status outcome now db =
     (if status \<noteq> Failed \<and> status \<noteq> Indeterminate
      then (db, Inl (Exn ValueError ''unsupported idempotency terminal outcome''))
      else if holds_claim key fp token db
      then (db\<lparr>db_claims := (db_claims db)(key := map_option
              (\<lambda>row. row\<lparr>cr_status := status, cr_token := None, cr_result := sort_keys outcome,
                         cr_completed_at := now\<rparr>) (db_claims db key))\<rparr>, Inr ())
      else (db, Inl reservation_lost))"

definition fail_action ::
  "string \<Rightarrow> string \<Rightarrow> string \<Rightarrow> json \<Rightarrow> string \<Rightarrow> audit_db \<Rightarrow> audit_db \<times> (exn + unit)"
where
  "fail_action key fp token outcome now db =
     finish_action_claim key fp token Failed outcome now db"

definition mark_action_indeterminate ::
  "string \<Rightarrow> string \<Rightarrow> string \<Rightarrow> json \<Rightarrow> string \<Rightarrow> audit_db \<Rightarrow> audit_db \<times> (exn + unit)"
where
  "mark_action_indeterminate key fp token outcome now db =
     finish_action_claim key fp token Indeterminate outcome now db"

definition legacy_failure :: json where
  "legacy_failure =
     JObj [(''error'', JObj [(''code'', JStr ''legacy_pre_effect_failure'')])]"

definition release_action_claim ::
  "string \<Rightarrow> string \<Rightarrow> string \<Rightarrow> string \<Rightarrow> audit_db \<Rightarrow> audit_db \<times> bool"
where
  "release_action_claim key fp token now db =
     (if holds_claim key fp token db
      then (db\<lparr>db_claims := (db_claims db)(key := map_option
              (\<lambda>row. row\<lparr>cr_status := Failed, cr_token := None, cr_result := legacy_failure,
                         cr_completed_at := now\<rparr>) (db_claims db key))\<rparr>, True)
      else (db, False))"

definition resolve_indeterminate_action ::
  "string \<Rightarrow> string \<Rightarrow> json \<Rightarrow> json \<Rightarrow> string \<Rightarrow> audit_db \<Rightarrow> audit_db \<times> (exn + unit)"
where
  "resolve_indeterminate_action key fp expected res now db =
     (case db_claims db key of
        Some row \<Rightarrow>
          if cr_fingerprint row = Some fp \<and> cr_status row = Indeterminate
             \<and> cr_result row = sort_keys expected
          then (db\<lparr>db_claims := (db_claims db)(key \<mapsto>
                  row\<lparr>cr_status := Completed, cr_result := sort_keys res,
                      cr_completed_at := now\<rparr>)\<rparr>, Inr ())
          else (db, Inl (Exn RuntimeError ''indeterminate idempotency outcome changed''))
      | None \<Rightarrow> (db, Inl (Exn RuntimeError ''indeterminate idempotency outcome changed'')))"

definition idempotency_outcome :: "string \<Rightarrow> string \<Rightarrow> audit_db \<Rightarrow> claim_state option" where
  "idempotency_outcome key fp db =
     (case db_claims db key of
        None \<Rightarrow> None
      | Some row \<Rightarrow>
          if cr_fingerprint row \<noteq> Some fp then Some ClaimConflict
          else Some (case cr_status row of
             Pending \<Rightarrow> ClaimInProgress
           | Completed \<Rightarrow> ClaimCompleted
           | Failed \<Rightarrow> ClaimFailed
           | Indeterminate \<Rightarrow> ClaimIndeterminate
           | OtherStatus _ \<Rightarrow> ClaimIndeterminate))"

definition completed_result ::
  "string \<Rightarrow> string option \<Rightarrow> audit_db \<Rightarrow> exn + json_object option"
where
  "completed_result key fp db =
     (case db_claims db key of
        None \<Rightarrow> Inr None
      | Some row \<Rightarrow>
          if cr_status row \<noteq> Completed then Inr None
          else if fp \<noteq> None \<and> cr_fingerprint row \<noteq> fp then Inr None
          else (case cr_result row of
             JObj kvs \<Rightarrow> Inr (Some kvs)
           | _ \<Rightarrow> Inl (Exn StructuredDataTypeError
                   ''completed action result must be a JSON object'')))"

definition clear_completed :: "string \<Rightarrow> string option \<Rightarrow> audit_db \<Rightarrow> audit_db" where
  "clear_completed key fp db =
     (case fp of
        None \<Rightarrow> db\<lparr>db_claims := (db_claims db)(key := None)\<rparr>
      | Some f \<Rightarrow>
          (case db_claims db key of
             Some row \<Rightarrow> if cr_fingerprint row = Some f
                         then db\<lparr>db_claims := (db_claims db)(key := None)\<rparr> else db
           | None \<Rightarrow> db))"

definition save_completed ::
  "string \<Rightarrow> uuid \<Rightarrow> uuid \<Rightarrow> json \<Rightarrow> string \<Rightarrow> string \<Rightarrow> audit_db \<Rightarrow> audit_db"
where
  "save_completed key plan act res fp now db =
     (case db_claims db key of
        Some _ \<Rightarrow> db
      | None \<Rightarrow> db\<lparr>db_claims := (db_claims db)(key \<mapsto>
          \<lparr>cr_plan_id = plan, cr_action_id = act, cr_fingerprint = Some fp, cr_status = Completed,
           cr_token = None, cr_result = sort_keys res, cr_claimed_at = Some now,
           cr_completed_at = now\<rparr>)\<rparr>)"

subsection \<open>Run checkpoints\<close>

definition is_ascii :: "string \<Rightarrow> bool" where
  "is_ascii s = (\<forall>c \<in> set s. (of_char c :: nat) < 128)"

definition checkpoint_run ::
  "uuid \<Rightarrow> uuid \<Rightarrow> digest \<Rightarrow> string \<Rightarrow> digest \<Rightarrow> string option \<Rightarrow> digest option \<Rightarrow> string \<Rightarrow> audit_db
     \<Rightarrow> audit_db \<times> (exn + run_checkpoint)"
where
  "checkpoint_run run plan plan_fp state bindings expected_state result_sha now db =
     (case first_failure
        [(\<not> is_sha256 plan_fp,
            Exn ConfigurationError ''run checkpoint plan_fingerprint is malformed''),
         (\<not> is_sha256 bindings,
            Exn ConfigurationError ''run checkpoint capsule_bindings_sha256 is malformed''),
         (result_sha \<noteq> None \<and> \<not> is_sha256 (the result_sha),
            Exn ConfigurationError ''run checkpoint result digest is malformed''),
         (state = [] \<or> \<not> is_ascii state,
            Exn ConfigurationError ''run checkpoint state is malformed'')] of
        Some e \<Rightarrow> (db, Inl e)
      | None \<Rightarrow>
          let new = (\<lambda>seq. \<lparr>rc_run_id = run, rc_plan_id = plan, rc_plan_fingerprint = plan_fp,
                       rc_state = state, rc_sequence = seq, rc_capsule_bindings_sha256 = bindings,
                       rc_result_sha256 = result_sha, rc_updated_at = now\<rparr>)
          in (case db_checkpoints db run of
             None \<Rightarrow>
               if expected_state \<noteq> None
               then (db, Inl (Exn RuntimeError ''capsule run checkpoint is missing''))
               else (db\<lparr>db_checkpoints := (db_checkpoints db)(run \<mapsto> new 0)\<rparr>, Inr (new 0))
           | Some old \<Rightarrow>
               if rc_plan_id old \<noteq> plan \<or> rc_plan_fingerprint old \<noteq> plan_fp
                  \<or> Some (rc_state old) \<noteq> expected_state
                  \<or> rc_capsule_bindings_sha256 old \<noteq> bindings
               then (db, Inl (Exn RuntimeError
                       ''capsule run checkpoint differs from the exact resume request''))
               else (let row = new (rc_sequence old + 1)
                     in (db\<lparr>db_checkpoints := (db_checkpoints db)(run \<mapsto> row)\<rparr>, Inr row))))"

definition load_run_checkpoint :: "uuid \<Rightarrow> audit_db \<Rightarrow> run_checkpoint option" where
  "load_run_checkpoint run db = db_checkpoints db run"


subsection \<open>The event chain is append-only and tamper evident\<close>

abbreviation audit_linked :: "(string \<Rightarrow> digest) \<Rightarrow> digest \<Rightarrow> audit_event list \<Rightarrow> bool" where
  "audit_linked sha256 \<equiv> linked sha256 row_material ev_previous_hash ev_event_hash"

abbreviation audit_head :: "digest \<Rightarrow> audit_event list \<Rightarrow> digest" where
  "audit_head \<equiv> head_of ev_event_hash"

definition chain_ok :: "(string \<Rightarrow> digest) \<Rightarrow> audit_db \<Rightarrow> bool" where
  "chain_ok sha256 db =
     (audit_linked sha256 genesis (db_events db)
      \<and> db_state db = Some (length (db_events db), audit_head genesis (db_events db)))"

lemma latest_hash_head: "latest_hash es = audit_head genesis es"
  by (simp add: latest_hash_def head_of_def)

lemma verify_rows_Inr:
  "verify_rows sha256 i p es = Inr h \<longleftrightarrow> audit_linked sha256 p es \<and> h = audit_head p es"
  by (induction es arbitrary: i p) (auto simp: head_of_def)

lemma verify_rows_linked:
  "audit_linked sha256 p es \<Longrightarrow> verify_rows sha256 i p es = Inr (audit_head p es)"
  by (simp add: verify_rows_Inr)

lemma verify_rows_Inl_not_Verified: "verify_rows sha256 i p es = Inl r \<Longrightarrow> r \<noteq> Verified n"
  by (induction es arbitrary: i p) (auto split: if_splits)

lemma verify_connection_Verified:
  "verify_connection sha256 db = Verified n \<longleftrightarrow>
     chain_ok sha256 db \<and> db_events db \<noteq> [] \<and> n = length (db_events db)"
  unfolding verify_connection_def chain_ok_def
  by (auto simp: verify_rows_Inr verify_rows_linked split: option.splits sum.splits prod.splits
      dest: verify_rows_Inl_not_Verified)

lemma chain_ok_initialize: "chain_ok sha256 (audit_initialize created_db)"
  by (simp add: chain_ok_def audit_initialize_def created_db_def latest_hash_def)

text \<open>On a sound chain an append never raises, keeps the chain sound and leaves every earlier row
  and every reservation as it was.\<close>

lemma event_row_hash [simp]:
  "sha256 (row_material (event_row sha256 previous ts run plan act ty payload)) =
     ev_event_hash (event_row sha256 previous ts run plan act ty payload)"
  by (simp add: event_row_def row_material_def)

lemma event_row_fields [simp]:
  "ev_previous_hash (event_row sha256 previous ts run plan act ty payload) = previous"
  "ev_timestamp (event_row sha256 previous ts run plan act ty payload) = ts"
  "ev_run_id (event_row sha256 previous ts run plan act ty payload) = run"
  "ev_plan_id (event_row sha256 previous ts run plan act ty payload) = plan"
  "ev_action_id (event_row sha256 previous ts run plan act ty payload) = act"
  "ev_event_type (event_row sha256 previous ts run plan act ty payload) = ty"
  by (simp_all add: event_row_def)

lemma audit_record_cases:
  assumes "chain_ok sha256 db"
  shows "audit_record sha256 ts run plan act ty payload db =
    (let row = event_row sha256 (audit_head genesis (db_events db)) ts run plan act ty payload
     in if has_surrogate (row_material row) then (db, Inl (Exn ValueError ''surrogates not allowed''))
        else (db\<lparr>db_events := db_events db @ [row],
                 db_state := Some (length (db_events db) + 1, ev_event_hash row)\<rparr>,
              Inr (ev_event_hash row)))"
  using assms by (simp add: chain_ok_def audit_record_def latest_hash_head Let_def row_material_def event_row_def)

lemma audit_record_chain_ok:
  assumes "chain_ok sha256 db"
  shows "chain_ok sha256 (fst (audit_record sha256 ts run plan act ty payload db))"
  using assms unfolding audit_record_cases [OF assms]
  by (simp add: chain_ok_def linked_snoc Let_def)

lemma audit_record_frame [simp]:
  "db_claims (fst (audit_record sha256 ts run plan act ty payload db)) = db_claims db"
  "db_checkpoints (fst (audit_record sha256 ts run plan act ty payload db)) = db_checkpoints db"
  by (auto simp: audit_record_def Let_def split: option.splits prod.splits)

text \<open>Rows whose fields before the payload do not contain the separator, with the action identifier
  either null or nonempty: what \<open>record\<close> writes for UUIDs, digests and ISO timestamps.\<close>

definition plain_row :: "audit_event \<Rightarrow> bool" where
  "plain_row e =
     (CHR ''|'' \<notin> set (ev_previous_hash e) \<and> CHR ''|'' \<notin> set (ev_timestamp e)
      \<and> CHR ''|'' \<notin> set (ev_run_id e) \<and> CHR ''|'' \<notin> set (ev_plan_id e)
      \<and> (case ev_action_id e of None \<Rightarrow> True | Some a \<Rightarrow> a \<noteq> [] \<and> CHR ''|'' \<notin> set a)
      \<and> CHR ''|'' \<notin> set (ev_event_type e))"

lemma plain_row_determined:
  assumes "plain_row x" and "plain_row y" and mat: "row_material x = row_material y"
    and hash: "ev_event_hash x = ev_event_hash y"
  shows "x = y"
proof -
  define act where "act = (\<lambda>e :: audit_event. case ev_action_id e of None \<Rightarrow> [] | Some a \<Rightarrow> a)"
  have free: "CHR ''|'' \<notin> set (act e)" if "plain_row e" for e
    using that by (auto simp: plain_row_def act_def split: option.splits)
  have act: "ev_action_id x = ev_action_id y" if "act x = act y"
    using that assms(1,2) by (auto simp: plain_row_def act_def split: option.splits)
  have join: "row_material e = ev_previous_hash e @ [CHR ''|''] @ ev_timestamp e @ [CHR ''|''] @
      ev_run_id e @ [CHR ''|''] @ ev_plan_id e @ [CHR ''|''] @ act e @ [CHR ''|''] @
      ev_event_type e @ [CHR ''|''] @ ev_payload_json e" for e
    by (simp add: row_material_def event_material_def act_def)
  note split = split_at_separator [of "CHR ''|''"]
  note eq = mat [unfolded join]
  have 1: "ev_previous_hash x = ev_previous_hash y"
    using assms(1,2) split [OF _ _ eq] by (simp add: plain_row_def)
  note eq = eq [unfolded 1 append_same_eq same_append_eq]
  have 2: "ev_timestamp x = ev_timestamp y"
    using assms(1,2) split [OF _ _ eq] by (simp add: plain_row_def)
  note eq = eq [unfolded 2 append_same_eq same_append_eq]
  have 3: "ev_run_id x = ev_run_id y"
    using assms(1,2) split [OF _ _ eq] by (simp add: plain_row_def)
  note eq = eq [unfolded 3 append_same_eq same_append_eq]
  have 4: "ev_plan_id x = ev_plan_id y"
    using assms(1,2) split [OF _ _ eq] by (simp add: plain_row_def)
  note eq = eq [unfolded 4 append_same_eq same_append_eq]
  have 5: "act x = act y" using free assms(1,2) split [OF _ _ eq] by blast
  note eq = eq [unfolded 5 append_same_eq same_append_eq]
  have 6: "ev_event_type x = ev_event_type y \<and> ev_payload_json x = ev_payload_json y"
    using assms(1,2) split [OF _ _ eq] by (simp add: plain_row_def)
  show ?thesis
    using 1 2 3 4 act [OF 5] 6 hash by simp
qed

interpretation audit_chain:
  chained_log sha256 row_material ev_previous_hash ev_event_hash plain_row
  for sha256
  by unfold_locales (rule plain_row_determined)

text \<open>What the chain sees of any row: the hash it refers to, the text that is hashed, and the hash. Verified
  chains are chains of such triples, whatever the columns hold.\<close>

definition seen_row :: "audit_event \<Rightarrow> digest \<times> string \<times> digest" where
  "seen_row e = (ev_previous_hash e, row_material e, ev_event_hash e)"

definition refers :: "digest \<times> string \<times> digest \<Rightarrow> bool" where
  "refers = (\<lambda>(p, m, _). CHR ''|'' \<notin> set p \<and> (\<exists>r. m = p @ [CHR ''|''] @ r))"

lemma refers_determined:
  "refers x \<Longrightarrow> refers y \<Longrightarrow> fst (snd x) = fst (snd y) \<Longrightarrow> snd (snd x) = snd (snd y) \<Longrightarrow> x = y"
proof -
  assume "refers x" "refers y" and same: "fst (snd x) = fst (snd y)" "snd (snd x) = snd (snd y)"
  then obtain r s where free: "CHR ''|'' \<notin> set (fst x)" "CHR ''|'' \<notin> set (fst y)"
    and "fst (snd x) = fst x @ [CHR ''|''] @ r" "fst (snd y) = fst y @ [CHR ''|''] @ s"
    unfolding refers_def by (auto simp: case_prod_beta)
  then have "fst x = fst y" using split_at_separator [OF free] same(1) by metis
  then show "x = y" using same by (simp add: prod_eq_iff)
qed

lemma refers_seen_row [simp]: "refers (seen_row e) \<longleftrightarrow> CHR ''|'' \<notin> set (ev_previous_hash e)"
  by (simp add: refers_def seen_row_def row_material_def event_material_def)

interpretation seen_chain: chained_log sha256 "\<lambda>x. fst (snd x)" fst "\<lambda>x. snd (snd x)" refers for sha256
  by unfold_locales (rule refers_determined)

lemma linked_seen:
  "linked sha256 row_material ev_previous_hash ev_event_hash p es \<Longrightarrow>
   linked sha256 (\<lambda>x. fst (snd x)) fst (\<lambda>x. snd (snd x)) p (map seen_row es)"
  by (induction es arbitrary: p) (simp_all add: seen_row_def)

lemma head_of_seen: "head_of (\<lambda>x. snd (snd x)) p (map seen_row es) = head_of ev_event_hash p es"
  by (induction es arbitrary: p) (simp_all add: seen_row_def)

lemma linked_refers:
  assumes "\<And>m. CHR ''|'' \<notin> set (sha256 m)"
  shows "linked sha256 row_material ev_previous_hash ev_event_hash p es \<Longrightarrow> CHR ''|'' \<notin> set p \<Longrightarrow>
   list_all refers (map seen_row es)"
proof (induction es arbitrary: p)
  case (Cons e es)
  then have "CHR ''|'' \<notin> set (ev_event_hash e)" using assms [of "row_material e"] by simp
  then show ?case using Cons.prems Cons.IH [of "ev_event_hash e"] by simp
qed simp

lemma same_texts:
  assumes "chain_ok sha256 db" and "chain_ok sha256 db'" and "length (db_events db') = length (db_events db)"
    and "audit_head genesis (db_events db') = audit_head genesis (db_events db)" and "\<And>m. is_sha256 (sha256 m)"
  shows "map row_material (db_events db') = map row_material (db_events db)
    \<or> collision sha256 (row_material ` (set (db_events db') \<union> set (db_events db)))"
proof -
  have "CHR ''|'' \<notin> set hex_digits" by (simp add: hex_digits_def)
  then have hex: "CHR ''|'' \<notin> set (sha256 m)" for m using assms(5) [of m] unfolding is_sha256_def by blast
  have "CHR ''|'' \<notin> set genesis" by (simp add: genesis_def)
  then have "list_all refers (map seen_row (db_events db'))" "list_all refers (map seen_row (db_events db))"
    using assms(1,2) linked_refers [of sha256, OF hex] unfolding chain_ok_def by blast+
  moreover have "head_of (\<lambda>x. snd (snd x)) genesis (map seen_row (db_events db'))
      = head_of (\<lambda>x. snd (snd x)) genesis (map seen_row (db_events db))"
    unfolding head_of_seen by (rule assms(4))
  ultimately have "map seen_row (db_events db') = map seen_row (db_events db)
      \<or> collision sha256 ((\<lambda>x. fst (snd x)) ` (set (map seen_row (db_events db')) \<union> set (map seen_row (db_events db))))"
    using assms(1-3) by (intro seen_chain.same_length_same_head) (simp_all add: chain_ok_def linked_seen)
  moreover have "map row_material es = map (\<lambda>x. fst (snd x)) (map seen_row es)" for es
    by (simp add: seen_row_def)
  moreover have "row_material ` A = (\<lambda>x. fst (snd x)) ` seen_row ` A" for A by (simp add: seen_row_def image_image)
  ultimately show ?thesis unfolding set_map image_Un by metis
qed


subsection \<open>Reservations\<close>

lemma claim_action_claimed:
  assumes "claim_action key fp plan act token now db = (db', c)"
    and "claim_state c = ClaimClaimed"
  shows "holds_claim key fp token db'" and "claim_token c = Some token"
    and "case db_claims db key of None \<Rightarrow> True
         | Some row \<Rightarrow> cr_fingerprint row = Some fp \<and> cr_status row = Failed"
  using assms
  by (auto simp: claim_action_def holds_claim_def simple_claim_def
      split: option.splits if_splits claim_status.splits)

lemma claim_action_refused:
  assumes "claim_action key fp plan act token now db = (db', c)"
    and "claim_state c \<noteq> ClaimClaimed"
  shows "db' = db"
  using assms
  by (auto simp: claim_action_def simple_claim_def split: option.splits if_splits claim_status.splits)

lemma claim_action_other_key:
  "key' \<noteq> key \<Longrightarrow> db_claims (fst (claim_action key fp plan act token now db)) key' = db_claims db key'"
  by (auto simp: claim_action_def split: option.splits claim_status.splits)

lemma claim_action_chain [simp]:
  "db_events (fst (claim_action key fp plan act token now db)) = db_events db"
  "db_state (fst (claim_action key fp plan act token now db)) = db_state db"
  by (auto simp: claim_action_def split: option.splits claim_status.splits)

lemma claim_action_state_of_row:
  "db_claims db key = Some row \<Longrightarrow> cr_fingerprint row = Some fp \<Longrightarrow>
   claim_state (snd (claim_action key fp plan act token now db)) =
     (case cr_status row of Completed \<Rightarrow> ClaimCompleted | Failed \<Rightarrow> ClaimClaimed
      | Indeterminate \<Rightarrow> ClaimIndeterminate | Pending \<Rightarrow> ClaimInProgress
      | OtherStatus _ \<Rightarrow> ClaimIndeterminate)"
  by (auto simp: claim_action_def simple_claim_def split: claim_status.splits)

lemma complete_action_cases:
  "complete_action key fp token res now db =
     (if holds_claim key fp token db
      then (db\<lparr>db_claims := (db_claims db)(key \<mapsto>
              (the (db_claims db key))\<lparr>cr_status := Completed, cr_result := sort_keys res,
                 cr_completed_at := now\<rparr>)\<rparr>, Inr ())
      else (db, Inl reservation_lost))"
  by (auto simp: complete_action_def holds_claim_def split: option.splits)

lemma finish_action_claim_cases:
  "status = Failed \<or> status = Indeterminate \<Longrightarrow>
   finish_action_claim key fp token status outcome now db =
     (if holds_claim key fp token db
      then (db\<lparr>db_claims := (db_claims db)(key \<mapsto>
              (the (db_claims db key))\<lparr>cr_status := status, cr_token := None,
                 cr_result := sort_keys outcome, cr_completed_at := now\<rparr>)\<rparr>, Inr ())
      else (db, Inl reservation_lost))"
  by (auto simp: finish_action_claim_def holds_claim_def split: option.splits)

lemma finish_chain [simp]:
  "db_events (fst (complete_action key fp token res now db)) = db_events db"
  "db_state (fst (complete_action key fp token res now db)) = db_state db"
  "db_events (fst (finish_action_claim key fp token st res now db)) = db_events db"
  "db_state (fst (finish_action_claim key fp token st res now db)) = db_state db"
  "db_events (fst (resolve_indeterminate_action key fp e res now db)) = db_events db"
  "db_state (fst (resolve_indeterminate_action key fp e res now db)) = db_state db"
  "db_events (clear_completed key fo db) = db_events db"
  "db_state (clear_completed key fo db) = db_state db"
  "db_events (save_completed key plan act res fp now db) = db_events db"
  "db_state (save_completed key plan act res fp now db) = db_state db"
  by (auto simp: complete_action_def finish_action_claim_def resolve_indeterminate_action_def
      clear_completed_def save_completed_def split: option.splits)

text \<open>The abstract life of one reservation, and that every operation of the table takes one of its
  steps on the addressed key and no step on any other.\<close>

datatype phase = Absent | Reserved string | Succeeded | Refused | Uncertain | Unknown

definition phase_of :: "audit_db \<Rightarrow> string \<Rightarrow> phase" where
  "phase_of db key =
     (case db_claims db key of
        None \<Rightarrow> Absent
      | Some row \<Rightarrow>
          (case cr_status row of
             Pending \<Rightarrow> (case cr_token row of Some t \<Rightarrow> Reserved t | None \<Rightarrow> Unknown)
           | Completed \<Rightarrow> Succeeded
           | Failed \<Rightarrow> Refused
           | Indeterminate \<Rightarrow> Uncertain
           | OtherStatus _ \<Rightarrow> Unknown))"

inductive phase_step :: "phase \<Rightarrow> phase \<Rightarrow> bool" where
  stay: "phase_step p p"
| reserve: "phase_step Absent (Reserved t)"
| retry: "phase_step Refused (Reserved t)"
| succeed: "phase_step (Reserved t) Succeeded"
| refuse: "phase_step (Reserved t) Refused"
| lose: "phase_step (Reserved t) Uncertain"
| reconcile: "phase_step Uncertain Succeeded"
| forget: "phase_step p Absent"
| adopt: "phase_step Absent Succeeded"

inductive_simps phase_step_to_Reserved: "phase_step p (Reserved t)"

lemmas phase_defs = phase_of_def holds_claim_def

lemma claim_action_phase: "phase_step (phase_of db k) (phase_of (fst (claim_action key fp plan act token now db)) k)"
  by (auto simp: phase_of_def claim_action_def intro: phase_step.intros
      split: option.splits claim_status.splits)

lemma complete_action_phase:
  "phase_step (phase_of db k) (phase_of (fst (complete_action key fp token res now db)) k)"
  by (auto simp: phase_defs complete_action_cases intro: phase_step.intros
      split: option.splits if_splits)

lemma finish_action_claim_phase:
  "phase_step (phase_of db k) (phase_of (fst (finish_action_claim key fp token st res now db)) k)"
proof (cases "(st = Failed \<or> st = Indeterminate) \<and> holds_claim key fp token db")
  case True
  then show ?thesis
    by (auto simp: phase_defs finish_action_claim_cases intro: phase_step.intros
        split: option.splits)
next
  case False
  then have "fst (finish_action_claim key fp token st res now db) = db"
    by (auto simp: finish_action_claim_def)
  then show ?thesis by (simp add: phase_step.stay)
qed

lemma release_action_claim_phase:
  "phase_step (phase_of db k) (phase_of (fst (release_action_claim key fp token now db)) k)"
  by (auto simp: phase_defs release_action_claim_def intro: phase_step.intros split: option.splits)

lemma resolve_indeterminate_phase:
  "phase_step (phase_of db k) (phase_of (fst (resolve_indeterminate_action key fp e res now db)) k)"
  by (auto simp: phase_defs resolve_indeterminate_action_def intro: phase_step.intros
      split: option.splits if_splits claim_status.splits)

lemma clear_completed_phase: "phase_step (phase_of db k) (phase_of (clear_completed key fp db) k)"
  by (auto simp: phase_of_def clear_completed_def intro: phase_step.intros split: option.splits)

lemma save_completed_phase: "phase_step (phase_of db k) (phase_of (save_completed key plan act res fp now db) k)"
  by (auto simp: phase_of_def save_completed_def intro: phase_step.intros split: option.splits)

lemma audit_record_phase [simp]:
  "phase_of (fst (audit_record sha256 ts run plan act ty payload db)) = phase_of db"
  by (simp add: phase_of_def fun_eq_iff)

lemmas table_phase_steps = claim_action_phase complete_action_phase finish_action_claim_phase
  release_action_claim_phase resolve_indeterminate_phase clear_completed_phase save_completed_phase

text \<open>A sequence of \<open>record\<close> calls with what each of them returned or raised.\<close>

type_synonym event_args = "string \<times> uuid \<times> uuid \<times> uuid option \<times> string \<times> json"

fun record_all ::
  "(string \<Rightarrow> digest) \<Rightarrow> event_args list \<Rightarrow> audit_db \<Rightarrow> audit_db \<times> (exn + digest) list"
where
  "record_all sha256 [] db = (db, [])"
| "record_all sha256 ((ts, run, plan, act, ty, payload) # calls) db =
     (let (db', r) = audit_record sha256 ts run plan act ty payload db;
          (db'', rs) = record_all sha256 calls db'
      in (db'', r # rs))"

lemma recorded_chain:
  assumes "chain_ok sha256 db" and "record_all sha256 calls db = (db', rs)"
  shows "chain_ok sha256 db' \<and>
    length (db_events db') = length (db_events db) + length (filter (\<lambda>r. \<not> isl r) rs)"
  using assms
proof (induction sha256 calls db arbitrary: db' rs rule: record_all.induct)
  case (2 sha256 ts run plan act ty payload calls db)
  obtain db1 r where r: "audit_record sha256 ts run plan act ty payload db = (db1, r)" by fastforce
  obtain rs' where rs: "record_all sha256 calls db1 = (db', rs')" "rs = r # rs'"
    using 2(3) r by (auto split: prod.splits)
  have "chain_ok sha256 db1" using audit_record_chain_ok [OF 2(2)] r by (metis fst_conv)
  then have "chain_ok sha256 db' \<and>
      length (db_events db') = length (db_events db1) + length (filter (\<lambda>r. \<not> isl r) rs')"
    using 2(1) [OF r [symmetric]] rs by simp
  moreover have "length (db_events db1) = length (db_events db) + (if isl r then 0 else 1)"
    using r by (auto simp: audit_record_cases [OF 2(2)] Let_def split: if_splits)
  ultimately show ?case using rs by simp
qed simp

text \<open>What the verification cannot see: the rows of a trail whose absent action identifiers become
  empty strings and whose empty ones become absent.\<close>

definition null_swapped :: "audit_event \<Rightarrow> audit_event" where
  "null_swapped e =
     e\<lparr>ev_action_id := (case ev_action_id e of
         None \<Rightarrow> Some [] | Some a \<Rightarrow> if a = [] then None else Some a)\<rparr>"

lemma null_swapped_fields:
  "row_material (null_swapped e) = row_material e"
  "ev_previous_hash (null_swapped e) = ev_previous_hash e" "ev_event_hash (null_swapped e) = ev_event_hash e"
  by (simp_all add: null_swapped_def row_material_def event_material_def split: option.split)

lemma null_swapped_rows: "verify_rows sha256 i p (map null_swapped es) = verify_rows sha256 i p es"
  by (induction es arbitrary: i p) (simp_all add: null_swapped_fields)

end
