(* ===== verification/Claim_Protocol.thy ===== *)
theory Claim_Protocol
  imports Audit_Log
begin

text \<open>
  Interleavings of the reservation operations of src/master_agent/audit.py. Every operation of
  \<^verbatim>\<open>AuditLog\<close> runs in one SQLite transaction, so the operations of several workers on one database
  form a sequence of atomic steps; \<^verbatim>\<open>claim_op\<close> names those steps, one for every method that writes the
  table of reservations, and \<^verbatim>\<open>run_ops\<close> runs a sequence. The lemmas say what a sequence keeps: an
  indeterminate outcome stays until an operator resolves it, a completed outcome stays, and two
  reservations of one key are separated by the failure or release of the first, each unless the row
  of the key is deleted by \<^verbatim>\<open>clear_completed\<close>, which the orchestrator calls after a verified compensation.
\<close>

datatype claim_op =
    OpClaim string string uuid uuid string string
  | OpComplete string string string json string
  | OpFail string string string json string
  | OpIndeterminate string string string json string
  | OpRelease string string string string
  | OpResolve string string json json string
  | OpSave string uuid uuid json string string
  | OpClear string "string option"
  | OpRecord string uuid uuid "uuid option" string json

fun apply_op :: "(string \<Rightarrow> digest) \<Rightarrow> claim_op \<Rightarrow> audit_db \<Rightarrow> audit_db" where
  "apply_op sha256 (OpClaim key fp plan act token now) db = fst (claim_action key fp plan act token now db)"
| "apply_op sha256 (OpComplete key fp token res now) db = fst (complete_action key fp token res now db)"
| "apply_op sha256 (OpFail key fp token res now) db = fst (fail_action key fp token res now db)"
| "apply_op sha256 (OpIndeterminate key fp token res now) db =
     fst (mark_action_indeterminate key fp token res now db)"
| "apply_op sha256 (OpRelease key fp token now) db = fst (release_action_claim key fp token now db)"
| "apply_op sha256 (OpResolve key fp e res now) db = fst (resolve_indeterminate_action key fp e res now db)"
| "apply_op sha256 (OpSave key plan act res fp now) db = save_completed key plan act res fp now db"
| "apply_op sha256 (OpClear key fp) db = clear_completed key fp db"
| "apply_op sha256 (OpRecord ts run plan act ty payload) db = fst (audit_record sha256 ts run plan act ty payload db)"

definition run_ops :: "(string \<Rightarrow> digest) \<Rightarrow> claim_op list \<Rightarrow> audit_db \<Rightarrow> audit_db" where
  "run_ops sha256 ops db = fold (apply_op sha256) ops db"

fun resolves :: "string \<Rightarrow> claim_op \<Rightarrow> bool" where
  "resolves key (OpResolve k fp e res now) = (k = key)"
| "resolves key _ = False"

fun settles_failed :: "string \<Rightarrow> claim_op \<Rightarrow> bool" where
  "settles_failed key (OpFail k fp token res now) = (k = key)"
| "settles_failed key (OpRelease k fp token now) = (k = key)"
| "settles_failed key _ = False"

fun clears :: "string \<Rightarrow> claim_op \<Rightarrow> bool" where
  "clears key (OpClear k fp) = (k = key)"
| "clears key _ = False"

fun saves :: "string \<Rightarrow> claim_op \<Rightarrow> bool" where
  "saves key (OpSave k plan act res fp now) = (k = key)"
| "saves key _ = False"

lemma run_ops_simps [simp]:
  "run_ops sha256 [] db = db"
  "run_ops sha256 (a # ops) db = run_ops sha256 ops (apply_op sha256 a db)"
  "run_ops sha256 (ops @ ops') db = run_ops sha256 ops' (run_ops sha256 ops db)"
  by (simp_all add: run_ops_def)

lemma apply_op_phase: "phase_step (phase_of db key) (phase_of (apply_op sha256 a db) key)"
  by (cases a) (simp_all add: table_phase_steps fail_action_def mark_action_indeterminate_def phase_step.stay)

lemma apply_op_chain: "chain_ok sha256 db \<Longrightarrow> chain_ok sha256 (apply_op sha256 a db)"
  using audit_record_chain_ok [of sha256 db]
  by (cases a)
     (auto simp: fail_action_def mark_action_indeterminate_def chain_ok_def release_action_claim_def)

lemma run_ops_chain: "chain_ok sha256 db \<Longrightarrow> chain_ok sha256 (run_ops sha256 ops db)"
  by (induction ops arbitrary: db) (simp_all add: apply_op_chain)

inductive_cases succeeded_stepE: "phase_step Succeeded q"
inductive_cases uncertain_stepE: "phase_step Uncertain q"
inductive_cases reserved_stepE: "phase_step (Reserved t) q"

lemma uncertain_not_claimed:
  "phase_of db key = Uncertain \<Longrightarrow>
   claim_state (snd (claim_action key fp plan act token now db)) \<in> {ClaimIndeterminate, ClaimConflict}
   \<and> fst (claim_action key fp plan act token now db) = db"
  by (auto simp: phase_of_def claim_action_def simple_claim_def split: option.splits claim_status.splits)

lemma holds_claim_phase: "holds_claim key fp token db \<Longrightarrow> phase_of db key = Reserved token"
  by (auto simp: phase_defs split: option.splits)

lemma phase_of_cong: "db_claims db' key = db_claims db key \<Longrightarrow> phase_of db' key = phase_of db key"
  by (simp add: phase_of_def)

lemma not_held:
  assumes "\<not> holds_claim key fp token db"
  shows "fst (complete_action key fp token res now db) = db"
    "fst (finish_action_claim key fp token st res now db) = db"
    "fst (release_action_claim key fp token now db) = db"
  using assms by (simp_all add: complete_action_def finish_action_claim_def release_action_claim_def)

fun op_key :: "claim_op \<Rightarrow> string option" where
  "op_key (OpClaim key fp plan act token now) = Some key"
| "op_key (OpComplete key fp token res now) = Some key"
| "op_key (OpFail key fp token res now) = Some key"
| "op_key (OpIndeterminate key fp token res now) = Some key"
| "op_key (OpRelease key fp token now) = Some key"
| "op_key (OpResolve key fp e res now) = Some key"
| "op_key (OpSave key plan act res fp now) = Some key"
| "op_key (OpClear key fp) = Some key"
| "op_key (OpRecord ts run plan act ty payload) = None"

lemma resolve_other_key:
  "key' \<noteq> key \<Longrightarrow> db_claims (fst (resolve_indeterminate_action key' fp e res now db)) key = db_claims db key"
  by (simp add: resolve_indeterminate_action_def split: option.split)

lemma apply_op_other:
  "op_key a \<noteq> Some key \<Longrightarrow> db_claims (apply_op sha256 a db) key = db_claims db key"
  by (cases a) (simp_all add: claim_action_other_key resolve_other_key complete_action_def fail_action_def
      mark_action_indeterminate_def finish_action_claim_def release_action_claim_def save_completed_def
      clear_completed_def split: option.split)

text \<open>A row disappears only by a deletion, and a completed row appears out of nothing only by a save.\<close>

lemma apply_op_deleted:
  assumes "db_claims db key \<noteq> None" and "db_claims (apply_op sha256 a db) key = None"
  shows "clears key a"
proof (cases "op_key a = Some key")
  case True
  then show ?thesis using assms
    by (cases a) (auto simp: claim_action_def complete_action_def fail_action_def mark_action_indeterminate_def
        finish_action_claim_def release_action_claim_def resolve_indeterminate_action_def save_completed_def
        split: option.splits claim_status.splits if_splits)
qed (use assms apply_op_other in force)

lemma absent_iff: "phase_of db key = Absent \<longleftrightarrow> db_claims db key = None"
  by (auto simp: phase_of_def split: option.splits claim_status.splits)

lemma apply_op_absent:
  "phase_of (apply_op sha256 a db) key = Absent \<Longrightarrow> phase_of db key = Absent \<or> clears key a"
  using apply_op_deleted unfolding absent_iff by metis

lemma apply_op_adopts:
  assumes "phase_of db key = Absent" and "phase_of (apply_op sha256 a db) key = Succeeded"
  shows "saves key a"
proof (cases "op_key a = Some key")
  case True
  have none: "db_claims db key = None" using assms(1) by (simp add: absent_iff)
  then have n: "\<not> holds_claim key fp token db" for fp token by (simp add: holds_claim_def)
  show ?thesis using True assms(2) none
    by (cases a) (auto simp: not_held [OF n] fail_action_def mark_action_indeterminate_def claim_action_def
        clear_completed_def phase_of_def resolve_indeterminate_action_def split: option.splits)
next
  case False
  then have "phase_of (apply_op sha256 a db) key = phase_of db key" by (intro phase_of_cong apply_op_other)
  then show ?thesis using assms by simp
qed

lemma uncertain_kept:
  assumes "phase_of db key = Uncertain" and "\<not> resolves key a" and "\<not> clears key a"
  shows "phase_of (apply_op sha256 a db) key = Uncertain"
proof (cases "op_key a = Some key")
  case True
  have n: "\<not> holds_claim key fp token db" for fp token using assms(1) holds_claim_phase by force
  have "db_claims db key \<noteq> None" using assms(1) absent_iff by force
  then have "apply_op sha256 a db = db"
    using True assms(2,3)
    by (cases a) (auto simp: not_held [OF n] fail_action_def mark_action_indeterminate_def save_completed_def
        uncertain_not_claimed [OF assms(1)])
  then show ?thesis using assms(1) by simp
next
  case False
  then show ?thesis using assms(1) apply_op_other phase_of_cong by metis
qed

lemma uncertain_until_resolved:
  "phase_of db key = Uncertain \<Longrightarrow> list_all (\<lambda>a. \<not> resolves key a \<and> \<not> clears key a) ops \<Longrightarrow>
   phase_of (run_ops sha256 ops db) key = Uncertain"
  by (induction ops arbitrary: db) (auto simp: uncertain_kept)

lemma refused_by_failure:
  assumes "phase_of db key = Reserved t" and "op_key a = Some key" and "\<not> settles_failed key a"
  shows "phase_of (apply_op sha256 a db) key \<noteq> Refused"
proof (cases a)
  case (OpClaim k fp plan act token now)
  then show ?thesis using assms
    by (auto simp: phase_of_def claim_action_def split: option.splits claim_status.splits)
next
  case (OpComplete k fp token res now)
  then show ?thesis using assms by (auto simp: phase_of_def complete_action_cases)
next
  case (OpIndeterminate k fp token res now)
  then show ?thesis
    using assms by (auto simp: phase_of_def mark_action_indeterminate_def finish_action_claim_cases)
next
  case (OpResolve k fp e res now)
  then show ?thesis
    using assms by (auto simp: phase_of_def resolve_indeterminate_action_def split: option.splits)
next
  case (OpSave k plan act res fp now)
  then show ?thesis using assms by (auto simp: phase_of_def save_completed_def split: option.splits)
next
  case (OpClear k fp)
  then show ?thesis using assms by (auto simp: phase_of_def clear_completed_def split: option.splits)
qed (use assms in auto)

lemma reserved_kept:
  assumes "phase_of db key = Reserved t" and "\<not> settles_failed key a" and "\<not> clears key a"
  shows "phase_of (apply_op sha256 a db) key \<in> {Reserved t, Succeeded, Uncertain}"
proof -
  have "phase_step (Reserved t) (phase_of (apply_op sha256 a db) key)" using apply_op_phase assms(1) by metis
  moreover have "phase_of (apply_op sha256 a db) key \<noteq> Refused"
  proof (cases "op_key a = Some key")
    case True
    then show ?thesis using assms refused_by_failure by metis
  next
    case False
    then show ?thesis using assms(1) phase_of_cong [OF apply_op_other [OF False]] by simp
  qed
  moreover have "phase_of (apply_op sha256 a db) key \<noteq> Absent"
    using apply_op_absent [of sha256 a db key] assms by auto
  ultimately show ?thesis by (auto elim: reserved_stepE)
qed

lemma closed_kept:
  "phase_of db key \<in> {Reserved t, Succeeded, Uncertain} \<Longrightarrow> \<not> settles_failed key a \<Longrightarrow> \<not> clears key a \<Longrightarrow>
   phase_of (apply_op sha256 a db) key \<in> {Reserved t, Succeeded, Uncertain}"
proof -
  assume p: "phase_of db key \<in> {Reserved t, Succeeded, Uncertain}" and n: "\<not> settles_failed key a" "\<not> clears key a"
  have u: "phase_of (apply_op sha256 a db) key \<noteq> Absent" using apply_op_absent [of sha256 a db key] p n by auto
  have s: "phase_step (phase_of db key) (phase_of (apply_op sha256 a db) key)" by (rule apply_op_phase)
  from p consider "phase_of db key = Reserved t" | "phase_of db key = Succeeded" | "phase_of db key = Uncertain"
    by blast
  then show ?thesis
    by cases (use s u n reserved_kept in \<open>auto elim: succeeded_stepE uncertain_stepE\<close>)
qed

lemma closed_until_failed:
  "phase_of db key \<in> {Reserved t, Succeeded, Uncertain} \<Longrightarrow> list_all (\<lambda>a. \<not> settles_failed key a \<and> \<not> clears key a) ops \<Longrightarrow>
   phase_of (run_ops sha256 ops db) key \<in> {Reserved t, Succeeded, Uncertain}"
proof (induction ops arbitrary: db)
  case (Cons a ops)
  then have "phase_of (apply_op sha256 a db) key \<in> {Reserved t, Succeeded, Uncertain}"
    using closed_kept by simp
  then show ?case using Cons by simp
qed simp

lemma claimed_reserved:
  assumes "claim_state (snd (claim_action key fp plan act token now db)) = ClaimClaimed"
  shows "phase_of (fst (claim_action key fp plan act token now db)) key = Reserved token"
    and "phase_of db key \<in> {Absent, Refused}"
  using assms
  by (auto simp: claim_action_def phase_of_def simple_claim_def split: option.splits claim_status.splits if_splits)

lemma second_reservation:
  assumes "claim_state (snd (claim_action key fp plan act token now db)) = ClaimClaimed"
    and "claim_state (snd (claim_action key fp' plan' act' token' now'
           (run_ops sha256 ops (fst (claim_action key fp plan act token now db))))) = ClaimClaimed"
  shows "list_ex (\<lambda>a. settles_failed key a \<or> clears key a) ops"
proof (rule ccontr)
  assume "\<not> list_ex (\<lambda>a. settles_failed key a \<or> clears key a) ops"
  then have "list_all (\<lambda>a. \<not> settles_failed key a \<and> \<not> clears key a) ops" by (simp add: list_all_iff list_ex_iff)
  then have "phase_of (run_ops sha256 ops (fst (claim_action key fp plan act token now db))) key
      \<in> {Reserved token, Succeeded, Uncertain}"
    using claimed_reserved(1) [OF assms(1)] by (intro closed_until_failed) auto
  then show False using claimed_reserved(2) [OF assms(2)] by auto
qed

lemma completed_row_kept:
  assumes "db_claims db key = Some row" and "cr_status row = Completed" and "\<not> clears key a"
  shows "db_claims (apply_op sha256 a db) key = Some row"
proof (cases "op_key a = Some key")
  case True
  have n: "\<not> holds_claim key fp token db" for fp token using assms by (simp add: holds_claim_def)
  have "apply_op sha256 a db = db"
    using True assms
    by (cases a) (simp_all add: not_held [OF n] fail_action_def mark_action_indeterminate_def
        claim_action_def resolve_indeterminate_action_def save_completed_def)
  then show ?thesis using assms by simp
next
  case False
  then show ?thesis using assms apply_op_other by metis
qed

lemma completed_row_final:
  "db_claims db key = Some row \<Longrightarrow> cr_status row = Completed \<Longrightarrow> list_all (\<lambda>a. \<not> clears key a) ops \<Longrightarrow>
   db_claims (run_ops sha256 ops db) key = Some row"
  by (induction ops arbitrary: db) (simp_all add: completed_row_kept)

end
