(* ===== verification/Samples.thy ===== *)
theory Samples
  imports Policy Claim_Protocol "HOL-Library.Code_Target_Nat"
begin

text \<open>
  A concrete host, action, plan, key ring and policy. They satisfy the hypotheses of the
  properties and are what the witnesses of those properties evaluate. The digest keeps the last
  64 characters of its argument as hexadecimal digits, the date format writes wall clock and
  offset in decimal; both meet the laws the development relies on.
\<close>

definition sample_digest :: "string \<Rightarrow> digest" where
  "sample_digest m = map (\<lambda>c. hex_char (of_char c)) (take 64 (rev m @ replicate 64 (CHR ''0'')))"

definition sample_isoformat :: "py_datetime \<Rightarrow> string" where
  "sample_isoformat d =
     render_int (dt_wall d) @ (case dt_offset d of None \<Rightarrow> [] | Some o1 \<Rightarrow> CHR ''|'' # render_int o1)"

definition sample_int :: "string \<Rightarrow> int" where
  "sample_int s =
     (case s of
        [] \<Rightarrow> 0
      | c # cs \<Rightarrow> if c = CHR ''-'' then - int (digits_value cs) else int (digits_value s))"

definition sample_fromisoformat :: "string \<Rightarrow> py_datetime option" where
  "sample_fromisoformat s =
     Some \<lparr>dt_wall = sample_int (takeWhile (\<lambda>c. c \<noteq> CHR ''|'') s),
           dt_offset = (case dropWhile (\<lambda>c. c \<noteq> CHR ''|'') s of
                          [] \<Rightarrow> None | _ # r \<Rightarrow> Some (sample_int r))\<rparr>"

definition sample_host :: host where
  "sample_host =
     \<lparr>h_sha256 = sample_digest, h_hmac = (\<lambda>k m. sample_digest (k @ m)), h_casefold = id,
      h_nfc = id, h_nfkc = id, h_repr = id, h_isoformat = sample_isoformat,
      h_fromisoformat = sample_fromisoformat, h_uuid = (\<lambda>s. Some s), h_urlsplit = (\<lambda>s. None),
      h_int = (\<lambda>s. None), h_trunc = (\<lambda>s. 0), h_lower = id, h_isprintable = (\<lambda>s. True),
      h_word = (\<lambda>n. False),
      h_urlunsplit = (\<lambda>scheme netloc path. scheme @ ''://'' @ netloc @ path), h_search = (\<lambda>r s. None)\<rparr>"

lemma hex_char_mem: "hex_char n \<in> set hex_digits"
  unfolding hex_char_def by (rule nth_mem) (simp add: hex_digits_def)

lemma sample_digest_sha256: "is_sha256 (sample_digest m)"
  using hex_char_mem by (auto simp: is_sha256_def sample_digest_def)

lemma sample_int_render: "sample_int (render_int i) = i"
proof (cases "i < 0")
  case True
  then show ?thesis by (simp add: sample_int_def render_int_def digits_value_nat_digits)
next
  case False
  then have r: "render_int i = nat_digits (nat i)" by (simp add: render_int_def)
  obtain c cs where cs: "nat_digits (nat i) = c # cs" by (cases "nat_digits (nat i)") auto
  then have "c \<noteq> CHR ''-''" using minus_not_digit by metis
  then show ?thesis using False cs r digits_value_nat_digits [of "nat i"] by (simp add: sample_int_def)
qed

lemma render_int_no_bar: "CHR ''|'' \<notin> set (render_int i)"
  using render_int_set [of i] by (auto simp: digit_chars_def)

lemma render_int_take: "takeWhile (\<lambda>c. c \<noteq> CHR ''|'') (render_int i @ s) = render_int i @ takeWhile (\<lambda>c. c \<noteq> CHR ''|'') s"
  "dropWhile (\<lambda>c. c \<noteq> CHR ''|'') (render_int i @ s) = dropWhile (\<lambda>c. c \<noteq> CHR ''|'') s"
  using render_int_no_bar [of i] by (auto intro: takeWhile_append2 dropWhile_append2)

lemma render_int_only:
  "takeWhile (\<lambda>c. c \<noteq> CHR ''|'') (render_int i) = render_int i"
  "dropWhile (\<lambda>c. c \<noteq> CHR ''|'') (render_int i) = []"
  using render_int_no_bar [of i] by (auto simp: takeWhile_eq_all_conv dropWhile_eq_Nil_conv)

lemma sample_datetime: "sample_fromisoformat (sample_isoformat d) = Some d"
  by (cases d; cases "dt_offset d")
     (simp_all add: sample_fromisoformat_def sample_isoformat_def render_int_take render_int_only sample_int_render)

lemma sample_host_laws: "host_laws sample_host"
  by (simp add: host_laws_def sample_host_def sample_digest_sha256 sample_datetime)

definition sample_uuid :: "char \<Rightarrow> uuid" where
  "sample_uuid c =
     replicate 8 c @ ''-'' @ replicate 4 c @ ''-'' @ replicate 4 c @ ''-'' @ replicate 4 c @ ''-''
       @ replicate 12 c"

definition sample_action :: agent_action where
  "sample_action =
     \<lparr>ac_capability = ''jira.search'',
      ac_target = \<lparr>rr_system = ''jira'', rr_resource_type = ''issue'', rr_resource_id = ''A-1'',
                   rr_expected_version = None\<rparr>,
      ac_parameters = [(''jql'', JStr ''x'')], ac_risk = READ_ONLY,
      ac_authority_source = DIRECT_USER, ac_requires_approval = False,
      ac_idempotency_key = ''k1'', ac_justification = ''why'', ac_data_classification = INTERNAL,
      ac_dependencies = [], ac_action_id = sample_uuid (CHR ''a'')\<rparr>"

definition sample_plan :: change_plan where
  "sample_plan =
     \<lparr>cp_goal = ''goal'', cp_actions = [sample_action], cp_created_by = ''me'',
      cp_plan_id = sample_uuid (CHR ''b''), cp_created_at = \<lparr>dt_wall = 0, dt_offset = Some 0\<rparr>,
      cp_schema_version = ''2.0'', cp_workflow_id = None, cp_workflow_fingerprint = None,
      cp_compensate_on_failure = False, cp_execution_context = None, cp_systems_assessment = None,
      cp_systems_decision = None, cp_strategy_traces = [], cp_coherence_review = None,
      cp_trusted_admission = False\<rparr>"

lemma mk_sample_action: "mk_action sample_action = Inr sample_action"
  by code_simp

lemma mk_sample_plan: "mk_plan sample_host sample_plan = Inr sample_plan"
  by code_simp

definition sample_time :: "int \<Rightarrow> py_datetime" where
  "sample_time n = \<lparr>dt_wall = n, dt_offset = Some 0\<rparr>"

definition sample_authority :: approval_authority where
  "sample_authority =
     \<lparr>au_key_id = ''k'', au_subject = ''alice'', au_issuer = ''corp'', au_tenant = ''t'',
      au_roles = [''owner''], au_secret = replicate 32 (CHR ''s''), au_revoked_before = None,
      au_revoked_approval_ids = []\<rparr>"

definition sample_ring :: key_ring where
  "sample_ring = [(''k'', sample_authority)]"

definition sample_write :: agent_action where
  "sample_write = sample_action\<lparr>ac_risk := REVERSIBLE_WRITE, ac_requires_approval := True\<rparr>"

definition sample_change :: change_plan where
  "sample_change = sample_plan\<lparr>cp_actions := [sample_write]\<rparr>"

definition sample_approval :: approval where
  "sample_approval =
     projr (issue sample_host sample_ring sample_change [ac_action_id sample_write] ''k''
       (sample_time 0) (sample_time 10) (sample_uuid (CHR ''c'')))"

definition sample_engine :: policy_engine where
  "sample_engine =
     \<lparr>pe_config =
        \<lparr>pc_auto_permit_risks = [READ_ONLY], pc_require_approval_risks = [REVERSIBLE_WRITE],
         pc_prohibit_risks = [DESTRUCTIVE], pc_prohibited_capabilities = [''*.delete''],
         pc_write_capability_patterns = [''*.update'']\<rparr>,
      pe_authenticator = Some (authenticated_subject sample_host sample_ring),
      pe_constraints = None\<rparr>"

lemma not_blank_lead:
  assumes "\<not> is_cont d" and "\<not> is_space (of_char c)"
  shows "\<not> blank (c # d # r)"
proof -
  have c: "\<not> space_chunk [c]" using assms by (simp add: space_chunk_def)
  have "chunks (c # d # r) = [c] # chunks (d # r)" using assms(1) by simp
  moreover have "[c] \<in> set (strip_chunks ([c] # cs))" for cs
    using c by (auto simp: strip_chunks_def dropWhile_append split: if_splits)
  ultimately show ?thesis unfolding blank_def py_strip_def by fastforce
qed

lemma hex_digit_plain:
  "c \<in> set hex_digits \<Longrightarrow> (of_char c :: nat) < 128 \<and> \<not> is_cont c \<and> \<not> is_space (of_char c)"
  by (auto simp: hex_digits_def is_cont_def is_space_def)

lemma sha256_not_blank: "is_sha256 s \<Longrightarrow> \<not> blank s"
proof -
  assume s: "is_sha256 s"
  then obtain c d r where "s = c # d # r"
    by (cases s; cases "tl s") (auto simp: is_sha256_def)
  then show ?thesis using s hex_digit_plain not_blank_lead by (simp add: is_sha256_def)
qed

lemma sample_claims:
  "validate_approval_claim sample_host ''alice'' ''approved_by'' = None"
  "validate_approval_claim sample_host ''corp'' ''approval issuer'' = None"
  "validate_approval_claim sample_host ''t'' ''approval tenant'' = None"
  "validate_approval_claim sample_host ''k'' ''approval key_id'' = None"
  "validate_approval_claim sample_host ''owner'' ''approval role'' = None"
  by code_simp+

definition sample_signed :: "digest \<Rightarrow> string \<Rightarrow> approval" where
  "sample_signed fp sig =
     \<lparr>ap_plan_fingerprint = fp, ap_approved_action_ids = [ac_action_id sample_write],
      ap_approved_by = ''alice'', ap_issuer = ''corp'', ap_tenant = ''t'', ap_roles = [''owner''],
      ap_issued_at = sample_time 0, ap_expires_at = sample_time 10, ap_key_id = ''k'',
      ap_signature = sig, ap_signature_scheme = hmac_scheme,
      ap_approval_id = sample_uuid (CHR ''c'')\<rparr>"

lemma mk_sample_signed:
  assumes "\<not> blank fp" and "\<not> blank sig"
  shows "mk_approval sample_host (sample_signed fp sig) = Inr (sample_signed fp sig)"
proof -
  have "\<not> blank hmac_scheme" by code_simp
  then show ?thesis using assms
    by (simp add: mk_approval_def sample_signed_def sample_claims sample_time_def aware_def instant_of_def)
qed

lemma sample_issue:
  "issue sample_host sample_ring sample_change [ac_action_id sample_write] ''k''
     (sample_time 0) (sample_time 10) (sample_uuid (CHR ''c'')) = Inr sample_approval"
proof -
  have fp: "\<not> blank (plan_fingerprint sample_host sample_change)"
    by (intro sha256_not_blank) (simp add: plan_fingerprint_def sample_host_def sample_digest_sha256)
  have sig: "\<not> blank (h_hmac sample_host k m)" for k m
    by (intro sha256_not_blank) (simp add: sample_host_def sample_digest_sha256)
  have pending: "\<not> blank ''pending''" by code_simp
  have resign: "sample_signed fp' sig'\<lparr>ap_signature := sig''\<rparr> = sample_signed fp' sig''" for fp' sig' sig''
    by (simp add: sample_signed_def)
  have "\<not> isl (signing_payload sample_host (sample_signed (plan_fingerprint sample_host sample_change) ''pending''))"
    by code_simp
  then obtain payload where
    "signing_payload sample_host (sample_signed (plan_fingerprint sample_host sample_change) ''pending'') = Inr payload"
    by (cases "signing_payload sample_host (sample_signed (plan_fingerprint sample_host sample_change) ''pending'')") auto
  moreover have "cp_actions sample_change = [sample_write]" by (simp add: sample_change_def)
  ultimately have "\<exists>a. issue sample_host sample_ring sample_change [ac_action_id sample_write] ''k''
      (sample_time 0) (sample_time 10) (sample_uuid (CHR ''c'')) = Inr a"
    using mk_sample_signed [OF fp pending] mk_sample_signed [OF fp sig]
    by (simp add: issue_def sample_ring_def sample_authority_def resign flip: sample_signed_def)
  then show ?thesis unfolding sample_approval_def by auto
qed

lemma sample_signature_ascii: "ascii_text (ap_signature sample_approval)"
proof -
  have "ascii_text (sample_digest m)" for m
    using sample_digest_sha256 [of m] hex_digit_plain by (auto simp: ascii_text_def is_sha256_def)
  moreover have "h_hmac sample_host k m = sample_digest (k @ m)" for k m by (simp add: sample_host_def)
  moreover obtain k m where "ap_signature sample_approval = h_hmac sample_host k m"
    using issue_fields [OF sample_issue] by blast
  ultimately show ?thesis by simp
qed

lemma sample_authenticates:
  "authenticated_subject sample_host sample_ring sample_approval =
     Inr (Some (principal_id sample_host sample_authority))"
  by (rule issued_authenticates [OF sample_issue])
     (simp_all add: sample_ring_def sample_authority_def sample_signature_ascii)

lemma sample_covers: "covers sample_host sample_approval sample_change sample_write 5"
  using issued_covers [OF sample_issue] by (simp add: sample_time_def instant_of_def)

lemma sample_decision:
  "evaluate sample_host sample_engine sample_change sample_write [sample_approval] 5 0 =
     Inr \<lparr>pd_permitted = True, pd_approval_required = True, pd_reason = ApprovalsSupplied 1\<rparr>"
proof -
  have "capsule_for sample_change sample_write = None"
    "\<not> any_match (ac_capability sample_write) [''*.delete'']" by code_simp+
  then show ?thesis using sample_authenticates sample_covers
    by (simp add: evaluate_def sample_engine_def covering_approvals_def sample_write_def
        sample_action_def untrusted_authority_def)
qed

lemma sample_action_valid: "action_valid sample_host sample_action"
proof -
  have "mk_resource (ac_target sample_action) = Inr (ac_target sample_action)" by code_simp
  moreover have "canonical_uuid (ac_action_id sample_action)" by code_simp
  moreover have "ac_dependencies sample_action = []" by (simp add: sample_action_def)
  ultimately show ?thesis by (simp add: action_valid_def sample_host_laws mk_sample_action)
qed

lemma sample_plan_valid: "plan_valid sample_host sample_plan"
proof -
  have "error_of (measure_json_resources (JObj (plan_to_dict sample_host sample_plan)) MAX_PLAN_BYTES) = None"
    by code_simp
  moreover have "canonical_uuid (cp_plan_id sample_plan)" by code_simp
  ultimately show ?thesis
    using sample_action_valid mk_sample_plan by (simp add: plan_valid_def sample_host_laws sample_plan_def)
qed

definition sample_db :: audit_db where
  "sample_db =
     run_ops sample_digest
       [OpClaim ''k1'' ''fp'' ''p'' ''a'' ''t1'' ''now'',
        OpRecord ''now'' ''r'' ''p'' (Some ''a'') ''action.claimed'' JNull]
       (audit_initialize created_db)"

end
