(* ===== verification/Capability_Catalog.thy ===== *)
theory Capability_Catalog
  imports Approvals
begin

text \<open>
  The capability catalog (capabilities.py): definitions with their constructor checks, the loader on
  the decoded TOML document, the validation of an action against its definition, and the drift
  checks between a captured connector binding and the connector that will execute. A loaded catalog
  is well formed, and an accepted action conforms to a declarative reading of its schema.
\<close>

subsection \<open>Read result field names\<close>

definition upper_chunk :: "string \<Rightarrow> bool" where
  "upper_chunk c = (65 \<le> code_point c \<and> code_point c \<le> 90)"

definition lower_chunk :: "string \<Rightarrow> bool" where
  "lower_chunk c = (97 \<le> code_point c \<and> code_point c \<le> 122)"

definition digit_chunk :: "string \<Rightarrow> bool" where
  "digit_chunk c = (48 \<le> code_point c \<and> code_point c \<le> 57)"

definition word_chunk :: "host \<Rightarrow> string \<Rightarrow> bool" where
  "word_chunk h c =
     (upper_chunk c \<or> lower_chunk c \<or> digit_chunk c \<or> c = ''_''
      \<or> 128 \<le> code_point c \<and> h_word h (code_point c))"

text \<open>The substitutions \<open>(.)([A-Z][a-z]+)\<close>, \<open>([a-z0-9])([A-Z])\<close>, \<open>[^\w]+\<close> and \<open>_+\<close>, leftmost and
  without overlap, on the characters of a string.\<close>

function split_word :: "string list \<Rightarrow> string list" where
  "split_word [] = []"
| "split_word [c] = [c]"
| "split_word [c, d] = [c, d]"
| "split_word (c # u # l # cs) =
     (if c \<noteq> [CHR 0x0A] \<and> upper_chunk u \<and> lower_chunk l
      then c # ''_'' # u # l # takeWhile lower_chunk cs @ split_word (dropWhile lower_chunk cs)
      else c # split_word (u # l # cs))"
  by pat_completeness auto
termination
  by (relation "measure length") (auto simp: length_dropWhile_le le_imp_less_Suc less_SucI)

fun split_case :: "string list \<Rightarrow> string list" where
  "split_case (c # u # cs) =
     (if (lower_chunk c \<or> digit_chunk c) \<and> upper_chunk u then c # ''_'' # u # split_case cs
      else c # split_case (u # cs))"
| "split_case cs = cs"

fun collapse :: "(string \<Rightarrow> bool) \<Rightarrow> string list \<Rightarrow> string list" where
  "collapse p [] = []"
| "collapse p [c] = (if p c then [''_''] else [c])"
| "collapse p (c # d # cs) =
     (if p c then if p d then collapse p (d # cs) else ''_'' # collapse p (d # cs)
      else c # collapse p (d # cs))"

definition strip_underscores :: "string list \<Rightarrow> string list" where
  "strip_underscores cs =
     rev (dropWhile (\<lambda>c. c = ''_'') (rev (dropWhile (\<lambda>c. c = ''_'') cs)))"

definition normalize_read_result_field_name :: "host \<Rightarrow> string \<Rightarrow> string" where
  "normalize_read_result_field_name h s =
     h_casefold h (concat (strip_underscores (collapse (\<lambda>c. c = ''_'')
       (collapse (\<lambda>c. \<not> word_chunk h c) (split_case (split_word (chunks s)))))))"

definition READ_RESULT_CROSSCUT_FIELDS :: "string list" where
  "READ_RESULT_CROSSCUT_FIELDS = [''schema'', ''evidence'', ''security'', ''citations'', ''citation_ids'']"

definition READ_RESULT_OMITTED_FIELDS :: "string list" where
  "READ_RESULT_OMITTED_FIELDS = [''query'']"

definition READ_RESULT_RESERVED_FIELDS :: "string list" where
  "READ_RESULT_RESERVED_FIELDS = READ_RESULT_CROSSCUT_FIELDS @ READ_RESULT_OMITTED_FIELDS"

definition without_underscores :: "string \<Rightarrow> string" where
  "without_underscores s = filter (\<lambda>c. c \<noteq> CHR ''_'') s"

definition is_reserved_read_result_field_name :: "host \<Rightarrow> string \<Rightarrow> bool" where
  "is_reserved_read_result_field_name h s =
     (let n = normalize_read_result_field_name h s in
      n \<in> set READ_RESULT_RESERVED_FIELDS
      \<or> without_underscores n \<in> set (map without_underscores READ_RESULT_RESERVED_FIELDS))"

subsection \<open>Capability definitions\<close>

definition authentication_modes :: "(string \<times> string list) list" where
  "authentication_modes =
     [(''anonymous_or_configured_connector'',
        [''none'', ''basic'', ''bearer'', ''oauth_delegated'', ''oauth_application'']),
      (''configured_connector'', [''basic'', ''bearer'', ''oauth_delegated'', ''oauth_application'']),
      (''delegated'', [''oauth_delegated'']),
      (''delegated_or_application'', [''oauth_delegated'', ''oauth_application'']),
      (''delegated_or_explicit_user'', [''oauth_delegated'', ''oauth_application'']),
      (''local'', [''local'']),
      (''local_git'', [''local_git'']),
      (''microsoft_graph'', [''oauth_delegated'', ''oauth_application'']),
      (''microsoft_graph_mail'', [''oauth_delegated'', ''oauth_application'']),
      (''microsoft_graph_teams'', [''oauth_delegated'', ''oauth_application'']),
      (''service_or_delegated'', [''basic'', ''bearer'', ''oauth_delegated'', ''oauth_application''])]"

definition parameter_types :: "string list" where
  "parameter_types =
     [''array'', ''boolean'', ''integer'', ''number'', ''object'', ''string'', ''string_list'',
      ''string_or_string_list'']"

definition provider_preconditions :: "string list" where
  "provider_preconditions = [''none'', ''if_match'', ''version'']"

definition read_result_resource_types :: "string list" where
  "read_result_resource_types = [''object'', ''object_list'', ''value'']"

definition MAX_LOCAL_ARTIFACT_BYTES :: int where
  "MAX_LOCAL_ARTIFACT_BYTES = 16 * 1024 * 1024"

record capability_definition =
  df_name :: string
  df_enabled :: bool
  df_authentication :: string
  df_risk :: risk_level
  df_reversible :: bool
  df_requires_expected_version :: bool
  df_provider_precondition :: string
  df_required_scopes :: "string list"
  df_target_system :: string
  df_target_resource_types :: "string list"
  df_parameter_schema :: "(string \<times> string) list"
  df_read_result_schema :: string
  df_read_result_resources :: "(string \<times> string) list"
  df_read_result_metadata :: "string list"
  df_max_input_bytes :: "int option"
  df_max_output_bytes :: "int option"
  df_uses_external_model :: bool
  df_description :: string

text \<open>\<open>tuple(sorted(set(xs)))\<close>, \<open>descriptor.removesuffix("?")\<close> and \<open>name.split(".", 1)[0]\<close>.\<close>

definition sorted_set :: "string list \<Rightarrow> string list" where
  "sorted_set xs = sort (remdups xs)"

definition is_optional :: "string \<Rightarrow> bool" where
  "is_optional d = (d \<noteq> [] \<and> last d = CHR ''?'')"

definition base_type :: "string \<Rightarrow> string" where
  "base_type d = (if is_optional d then butlast d else d)"

definition domain_of :: "string \<Rightarrow> string" where
  "domain_of name = takeWhile (\<lambda>c. c \<noteq> CHR ''.'') name"

definition positive :: "int option \<Rightarrow> bool" where
  "positive v = (case v of None \<Rightarrow> False | Some n \<Rightarrow> 0 < n)"

definition check_parameter_schema :: "(string \<times> string) list \<Rightarrow> exn option" where
  "check_parameter_schema schema =
     first_error (concat (map (\<lambda>(parameter, descriptor).
       [fail_if (blank parameter) (misconfigured ''capability parameter name must not be empty''),
        fail_if (base_type descriptor \<notin> set parameter_types)
          (misconfigured ''capability has unsupported parameter type'')]) schema))"

definition check_result_resources :: "(string \<times> string) list \<Rightarrow> exn option" where
  "check_result_resources resources =
     first_error (concat (map (\<lambda>(resource, descriptor).
       [fail_if (blank resource \<or> \<not> trimmed resource)
          (misconfigured ''capability has an invalid read result resource''),
        fail_if (descriptor \<notin> set read_result_resource_types)
          (misconfigured ''capability has unsupported read result resource'')]) resources))"

definition check_result_contract ::
  "host \<Rightarrow> risk_level \<Rightarrow> string \<Rightarrow> (string \<times> string) list \<Rightarrow> string list \<Rightarrow> exn option"
where
  "check_result_contract h risk schema resources metadata =
     (if schema = [] \<and> resources = [] \<and> metadata = [] then None
      else first_error
        [fail_if (risk \<noteq> READ_ONLY)
           (misconfigured ''non-read capability must not declare a read result contract''),
         fail_if (schema = [] \<or> py_len schema > 256 \<or> CHR ''@'' \<notin> set schema)
           (misconfigured ''capability requires a versioned read_result_schema''),
         fail_if (\<not> h_isprintable h schema \<or> \<not> trimmed schema)
           (misconfigured ''capability has an invalid read_result_schema''),
         fail_if (resources = []) (misconfigured ''capability requires read_result_resources''),
         check_result_resources resources,
         fail_if (\<exists>m \<in> set metadata. blank m \<or> \<not> trimmed m)
           (misconfigured ''capability has invalid read result metadata''),
         fail_if (\<exists>m \<in> set metadata. m \<in> fst ` set resources)
           (misconfigured ''capability read result fields overlap''),
         fail_if (\<exists>f \<in> set (map fst resources @ metadata). is_reserved_read_result_field_name h f)
           (misconfigured ''capability read result fields are reserved'')])"

definition check_quotas :: "capability_definition \<Rightarrow> exn option" where
  "check_quotas d =
     (if df_risk d = LOCAL_GENERATION
      then first_error
        [fail_if (\<not> positive (df_max_input_bytes d) \<or> \<not> positive (df_max_output_bytes d))
           (misconfigured ''local-generation capability requires positive quotas''),
         fail_if (the (df_max_input_bytes d) > MAX_ACTION_PARAMETER_BYTES)
           (misconfigured ''capability max_input_bytes exceeds the model ceiling''),
         fail_if (the (df_max_output_bytes d) > MAX_LOCAL_ARTIFACT_BYTES)
           (misconfigured ''capability max_output_bytes exceeds the artifact ceiling'')]
      else fail_if (df_max_input_bytes d \<noteq> None \<or> df_max_output_bytes d \<noteq> None)
        (misconfigured ''non-local capability must not declare artifact quotas''))"

definition effective_system :: "capability_definition \<Rightarrow> string" where
  "effective_system d =
     (if blank (df_target_system d) then domain_of (df_name d) else py_strip (df_target_system d))"

definition mk_definition :: "host \<Rightarrow> capability_definition \<Rightarrow> exn + capability_definition" where
  "mk_definition h d =
     (let types = sorted_set (df_target_resource_types d);
          schema = py_strip (df_read_result_schema d);
          metadata = sorted_set (df_read_result_metadata d) in
      checked
        [fail_if (CHR ''.'' \<notin> set (df_name d))
           (misconfigured ''capability name must be a dotted domain name''),
         fail_if (blank (df_authentication d))
           (misconfigured ''capability authentication must not be empty''),
         fail_if (df_authentication d \<notin> fst ` set authentication_modes)
           (misconfigured ''capability has unsupported authentication contract''),
         fail_if (df_provider_precondition d \<notin> set provider_preconditions)
           (misconfigured ''capability has unsupported provider_precondition''),
         fail_if (effective_system d = [])
           (misconfigured ''capability target system must not be empty''),
         fail_if (\<exists>t \<in> set types. blank t)
           (misconfigured ''capability target resource types must not be empty''),
         check_parameter_schema (df_parameter_schema d),
         check_result_contract h (df_risk d) schema (df_read_result_resources d) metadata,
         fail_if (df_enabled d \<and> df_risk d \<noteq> READ_ONLY \<and> types = [])
           (misconfigured ''enabled side-effect capability requires target_resource_types''),
         fail_if (df_enabled d \<and> df_risk d \<noteq> READ_ONLY \<and> df_parameter_schema d = [])
           (misconfigured ''enabled side-effect capability requires a parameter_schema''),
         fail_if (df_enabled d \<and> df_requires_expected_version d
                  \<and> df_provider_precondition d = ''none'')
           (misconfigured ''enabled modifying capability requires a provider_precondition''),
         check_quotas d]
        (d\<lparr>df_target_system := effective_system d, df_target_resource_types := types,
           df_read_result_schema := schema, df_read_result_metadata := metadata\<rparr>))"

subsection \<open>Loading the catalog\<close>

type_synonym catalog = "(string \<times> capability_definition) list"

definition catalog_bool :: "json_object \<Rightarrow> string \<Rightarrow> exn + bool" where
  "catalog_bool value k =
     (case obj_get value k of
        None \<Rightarrow> Inr False
      | Some (JBool b) \<Rightarrow> Inr b
      | Some _ \<Rightarrow> Inl (misconfigured (k @ '' must be a boolean'')))"

definition optional_positive_int :: "json option \<Rightarrow> string \<Rightarrow> exn + int option" where
  "optional_positive_int v name =
     (case v of
        None \<Rightarrow> Inr None
      | Some JNull \<Rightarrow> Inr None
      | Some (JInt n) \<Rightarrow>
          if 0 < n then Inr (Some n)
          else Inl (misconfigured (name @ '' must be a positive integer''))
      | Some _ \<Rightarrow> Inl (misconfigured (name @ '' must be a positive integer'')))"

text \<open>A list of nonblank strings, and a table of nonblank keys and strings; absent means empty.\<close>

definition nonblank_strings :: "json option \<Rightarrow> string \<Rightarrow> exn + string list" where
  "nonblank_strings v name =
     (case v of
        None \<Rightarrow> Inr []
      | Some j \<Rightarrow> sbind (string_list (Some j) (misconfigured (name @ '' must be a list of strings''))) (\<lambda>ss.
          if \<exists>s \<in> set ss. blank s
          then Inl (misconfigured (name @ '' must be a list of strings'')) else Inr ss))"

fun string_members :: "json_object \<Rightarrow> (string \<times> string) list option" where
  "string_members [] = Some []"
| "string_members ((k, JStr s) # kvs) =
     (if blank k \<or> blank s then None else map_option (Cons (k, s)) (string_members kvs))"
| "string_members _ = None"

definition string_table :: "json option \<Rightarrow> string \<Rightarrow> exn + (string \<times> string) list" where
  "string_table v name =
     (case v of
        None \<Rightarrow> Inr []
      | Some (JObj kvs) \<Rightarrow>
          (case string_members kvs of
             Some ms \<Rightarrow> Inr ms
           | None \<Rightarrow> Inl (misconfigured (name @ '' must be a string table'')))
      | Some _ \<Rightarrow> Inl (misconfigured (name @ '' must be a string table'')))"

definition risk_of :: "host \<Rightarrow> json_object \<Rightarrow> exn + risk_level" where
  "risk_of h value =
     (case obj_get value ''risk'' of
        None \<Rightarrow> Inl (misconfigured ''capability has an invalid or missing risk'')
      | Some j \<Rightarrow>
          (case map_of risk_members (py_str h j) of
             None \<Rightarrow> Inl (misconfigured ''capability has an invalid or missing risk'')
           | Some r \<Rightarrow> Inr r))"

text \<open>A key of the contract table wins over the key of the capability table.\<close>

definition either_key :: "json_object \<Rightarrow> string \<Rightarrow> json_object \<Rightarrow> string \<Rightarrow> json option" where
  "either_key contract k value k' =
     (case obj_get contract k of Some j \<Rightarrow> Some j | None \<Rightarrow> obj_get value k')"

definition definition_of_entry ::
  "host \<Rightarrow> json_object \<Rightarrow> string \<Rightarrow> json \<Rightarrow> exn + capability_definition"
where
  "definition_of_entry h contracts name entry =
     (case entry of
        JObj value \<Rightarrow>
          sbind (risk_of h value) (\<lambda>risk.
          sbind (nonblank_strings (obj_get value ''required_scopes'') ''required_scopes'') (\<lambda>scopes.
          sbind (nonblank_strings (obj_get value ''target_resource_types'') ''target_resource_types'')
            (\<lambda>types.
          sbind (string_table (obj_get value ''parameter_schema'') ''parameter_schema'') (\<lambda>schema.
          sbind (case obj_get contracts name of
                   None \<Rightarrow> Inr []
                 | Some (JObj c) \<Rightarrow> Inr c
                 | Some _ \<Rightarrow> Inl (misconfigured ''read result contract must be a table'')) (\<lambda>contract.
          sbind (checked [fail_if (\<not> set (map fst contract) \<subseteq> {''schema'', ''resources'', ''metadata''})
                   (misconfigured ''read result contract has unknown keys'')] ()) (\<lambda>_.
          sbind (string_table (either_key contract ''resources'' value ''read_result_resources'')
                   ''read_result_resources'') (\<lambda>resources.
          sbind (nonblank_strings (either_key contract ''metadata'' value ''read_result_metadata'')
                   ''read_result_metadata'') (\<lambda>metadata.
          sbind (catalog_bool value ''enabled'') (\<lambda>enabled.
          sbind (catalog_bool value ''reversible'') (\<lambda>reversible.
          sbind (catalog_bool value ''requires_expected_version'') (\<lambda>versioned.
          sbind (optional_positive_int (obj_get value ''max_input_bytes'') ''max_input_bytes'') (\<lambda>max_in.
          sbind (optional_positive_int (obj_get value ''max_output_bytes'') ''max_output_bytes'') (\<lambda>max_out.
          sbind (catalog_bool value ''uses_external_model'') (\<lambda>external.
          mk_definition h
            \<lparr>df_name = name, df_enabled = enabled,
             df_authentication = get_str h value ''authentication'' ''unspecified'', df_risk = risk,
             df_reversible = reversible, df_requires_expected_version = versioned,
             df_provider_precondition = get_str h value ''provider_precondition'' ''none'',
             df_required_scopes = scopes, df_target_system = get_str h value ''target_system'' [],
             df_target_resource_types = types, df_parameter_schema = schema,
             df_read_result_schema =
               (case either_key contract ''schema'' value ''read_result_schema'' of
                  None \<Rightarrow> [] | Some j \<Rightarrow> py_str h j),
             df_read_result_resources = resources, df_read_result_metadata = metadata,
             df_max_input_bytes = max_in, df_max_output_bytes = max_out,
             df_uses_external_model = external,
             df_description = get_str h value ''description'' []\<rparr>))))))))))))))
      | _ \<Rightarrow> Inl (misconfigured ''capability definition must be a table''))"

fun load_definitions ::
  "host \<Rightarrow> json_object \<Rightarrow> catalog \<Rightarrow> json_object \<Rightarrow> exn + catalog"
where
  "load_definitions h contracts parsed [] = Inr parsed"
| "load_definitions h contracts parsed ((name, entry) # table) =
     sbind (definition_of_entry h contracts name entry) (\<lambda>d.
       load_definitions h contracts (dict_put (df_name d) d parsed) table)"

definition table_of :: "json_object \<Rightarrow> string \<Rightarrow> exn + json_object" where
  "table_of raw k =
     (case obj_get raw k of
        None \<Rightarrow> Inr []
      | Some (JObj kvs) \<Rightarrow> Inr kvs
      | Some _ \<Rightarrow> Inl (misconfigured (k @ '' must be a TOML table'')))"

definition catalog_from_toml :: "host \<Rightarrow> json_object \<Rightarrow> exn + catalog" where
  "catalog_from_toml h raw =
     sbind (table_of raw ''capabilities'') (\<lambda>table.
     sbind (table_of raw ''read_result_contracts'') (\<lambda>contracts.
     if \<exists>k \<in> set (map fst contracts). k \<notin> fst ` set table
     then Inl (misconfigured ''read result contracts reference unknown capabilities'')
     else load_definitions h contracts [] table))"

definition catalog_definition :: "catalog \<Rightarrow> string \<Rightarrow> exn + capability_definition" where
  "catalog_definition catalog name =
     (case map_of catalog name of
        Some d \<Rightarrow> Inr d
      | None \<Rightarrow> Inl (invalid (''capability is not registered in the catalog: '' @ name)))"

subsection \<open>Validating an action\<close>

fun parameter_matches :: "json \<Rightarrow> string \<Rightarrow> bool" where
  "parameter_matches v t =
     (if t = ''string'' then (case v of JStr _ \<Rightarrow> True | _ \<Rightarrow> False)
      else if t = ''boolean'' then (case v of JBool _ \<Rightarrow> True | _ \<Rightarrow> False)
      else if t = ''integer'' then (case v of JInt _ \<Rightarrow> True | _ \<Rightarrow> False)
      else if t = ''number'' then (case v of JInt _ \<Rightarrow> True | JFloat _ _ \<Rightarrow> True | _ \<Rightarrow> False)
      else if t = ''object'' then (case v of JObj _ \<Rightarrow> True | _ \<Rightarrow> False)
      else if t = ''array'' then (case v of JList _ \<Rightarrow> True | _ \<Rightarrow> False)
      else if t = ''string_list''
      then (case v of JList js \<Rightarrow> json_strings js \<noteq> None | _ \<Rightarrow> False)
      else if t = ''string_or_string_list''
      then (case v of JStr _ \<Rightarrow> True | JList js \<Rightarrow> json_strings js \<noteq> None | _ \<Rightarrow> False)
      else False)"

fun check_schema :: "json_object \<Rightarrow> (string \<times> string) list \<Rightarrow> string option" where
  "check_schema parameters [] = None"
| "check_schema parameters ((name, descriptor) # schema) =
     (case obj_get parameters name of
        None \<Rightarrow>
          if is_optional descriptor then check_schema parameters schema
          else Some (''required parameter is missing: '' @ name)
      | Some v \<Rightarrow>
          if is_optional descriptor \<and> v = JNull then check_schema parameters schema
          else if parameter_matches v (base_type descriptor) then check_schema parameters schema
          else Some (''parameter '' @ name @ '' must be '' @ base_type descriptor))"

definition validate_parameters :: "json_object \<Rightarrow> (string \<times> string) list \<Rightarrow> string option" where
  "validate_parameters parameters schema =
     (if schema = [] then None
      else
        let unknown = sorted_set (filter (\<lambda>k. k \<notin> fst ` set schema) (map fst parameters)) in
        if unknown \<noteq> [] then Some (''unexpected parameters: '' @ py_join '', '' unknown)
        else check_schema parameters schema)"

type_synonym verdict = "bool \<times> string"

definition falsy :: "string option \<Rightarrow> bool" where
  "falsy v = (case v of None \<Rightarrow> True | Some s \<Rightarrow> s = [])"

definition validate_action :: "catalog \<Rightarrow> agent_action \<Rightarrow> bool \<Rightarrow> verdict" where
  "validate_action catalog a require_enabled =
     (case catalog_definition catalog (ac_capability a) of
        Inl e \<Rightarrow> (False, exn_text e)
      | Inr d \<Rightarrow>
          if require_enabled \<and> \<not> df_enabled d
          then (False, ''capability is disabled by catalog: '' @ ac_capability a)
          else if df_risk d \<noteq> ac_risk a
          then (False, ''capability risk mismatch for '' @ ac_capability a @ '': catalog=''
                  @ risk_str (df_risk d) @ '', action='' @ risk_str (ac_risk a))
          else if df_target_system d \<noteq> rr_system (ac_target a)
          then (False, ''capability target system mismatch for '' @ ac_capability a @ '': catalog=''
                  @ df_target_system d @ '', action='' @ rr_system (ac_target a))
          else if df_target_resource_types d \<noteq> []
                  \<and> rr_resource_type (ac_target a) \<notin> set (df_target_resource_types d)
          then (False, ''capability target resource type mismatch for '' @ ac_capability a
                  @ '': action='' @ rr_resource_type (ac_target a))
          else (case validate_parameters (ac_parameters a) (df_parameter_schema d) of
            Some m \<Rightarrow> (False, ''capability parameter schema mismatch: '' @ m)
          | None \<Rightarrow>
              (case (if df_risk d = LOCAL_GENERATION
                     then (case df_max_input_bytes d of
                             None \<Rightarrow> Some ''local-generation input quota is missing''
                           | Some n \<Rightarrow>
                               (case measure_json_resources (JObj (ac_parameters a)) n of
                                  Inl e \<Rightarrow> Some (''capability input quota exceeded: '' @ exn_text e)
                                | Inr _ \<Rightarrow> None))
                     else None) of
                 Some m \<Rightarrow> (False, m)
               | None \<Rightarrow>
                   if df_requires_expected_version d \<and> falsy (rr_expected_version (ac_target a))
                   then (False, ''capability requires an approved expected_version: ''
                           @ ac_capability a)
                   else (True, ''capability is enabled and risk-classified''))))"

subsection \<open>Drift between a captured binding and the connector\<close>

text \<open>The attributes of a connector's configuration that the checks read with \<open>getattr\<close>; a connector
  without a configuration has \<open>no_config\<close>.\<close>

record connector_config =
  cc_auth_mode :: "string option"
  cc_config_identity :: "string option"
  cc_implementation :: "string option"
  cc_base_url :: "string option"
  cc_ca_bundle :: "string option"
  cc_ca_bundle_sha256 :: "string option"
  cc_network_profile_name :: string
  cc_network_profile_sha256 :: "string option"
  cc_proxy_url :: "string option"

definition no_config :: connector_config where
  "no_config =
     \<lparr>cc_auth_mode = None, cc_config_identity = None, cc_implementation = None, cc_base_url = None,
      cc_ca_bundle = None, cc_ca_bundle_sha256 = None, cc_network_profile_name = ''direct'',
      cc_network_profile_sha256 = None, cc_proxy_url = None\<rparr>"

definition rstrip_dots :: "string \<Rightarrow> string" where
  "rstrip_dots s = rev (dropWhile (\<lambda>c. c = CHR ''.'') (rev s))"

definition origin_of :: "host \<Rightarrow> string \<Rightarrow> string option" where
  "origin_of h url =
     (case h_urlsplit h url of
        None \<Rightarrow> None
      | Some parts \<Rightarrow>
          (case url_port parts of
             None \<Rightarrow> None
           | Some port \<Rightarrow>
               let hostname = rstrip_dots (h_lower h (case url_hostname parts of None \<Rightarrow> [] | Some n \<Rightarrow> n)) in
               if h_lower h (url_scheme parts) \<noteq> ''https'' \<or> hostname = []
                  \<or> url_username parts \<noteq> None \<or> url_password parts \<noteq> None
                  \<or> url_query parts \<noteq> [] \<or> url_fragment parts \<noteq> []
               then None
               else
                 let rendered = (if CHR '':'' \<in> set hostname then ''['' @ hostname @ '']'' else hostname) in
                 Some (''https://'' @ rendered
                   @ (case port of
                        None \<Rightarrow> []
                      | Some p \<Rightarrow> if p = 443 then [] else '':'' @ render_int p))))"

definition network_drifted :: "connector_config \<Rightarrow> connector_binding \<Rightarrow> bool" where
  "network_drifted c b =
     (if cb_network_profile_name b = ''direct'' \<and> cb_network_profile_sha256 b = None
         \<and> cb_proxy_origin b = None
      then cc_network_profile_name c \<noteq> ''direct'' \<or> cc_proxy_url c \<noteq> None
      else cc_network_profile_name c \<noteq> cb_network_profile_name b
           \<or> cc_network_profile_sha256 c \<noteq> cb_network_profile_sha256 b
           \<or> cc_proxy_url c \<noteq> cb_proxy_origin b)"

definition connector_execution_binding_error ::
  "host \<Rightarrow> connector_config \<Rightarrow> connector_binding \<Rightarrow> string option"
where
  "connector_execution_binding_error h c b =
     (if cc_implementation c \<noteq> Some (cb_implementation b)
      then Some ''implementation drifted from its execution binding''
      else if falsy (cc_base_url c) then Some ''has no resolved provider endpoint''
      else if cc_base_url c \<noteq> Some (cb_resolved_base_url b)
      then Some ''endpoint drifted from its execution binding''
      else (case origin_of h (cb_resolved_base_url b) of
        None \<Rightarrow> Some ''execution binding has an invalid provider endpoint''
      | Some origin \<Rightarrow>
          if cb_resolved_origin b \<noteq> origin then Some ''origin drifted from its execution binding''
          else if cc_ca_bundle c \<noteq> cb_ca_bundle_path b
                  \<or> cc_ca_bundle_sha256 c \<noteq> cb_ca_bundle_sha256 b
          then Some ''CA identity drifted from its execution binding''
          else if network_drifted c b
          then Some ''network profile drifted from its execution binding''
          else None))"

definition validate_connector_execution_binding ::
  "host \<Rightarrow> connector_config \<Rightarrow> connector_binding \<Rightarrow> verdict"
where
  "validate_connector_execution_binding h c b =
     (case connector_execution_binding_error h c b of
        Some m \<Rightarrow> (False, ''resolved connector '' @ m)
      | None \<Rightarrow> (True, ''resolved connector endpoint, CA, and network profile match the execution binding''))"

definition binding_drift :: "host \<Rightarrow> connector_config \<Rightarrow> connector_binding \<Rightarrow> string option" where
  "binding_drift h c b =
     (if cc_auth_mode c \<noteq> Some (cb_authentication_mode b)
      then Some ''authentication drifted''
      else if cc_config_identity c \<noteq> Some (cb_config_identity_sha256 b)
      then Some ''configuration drifted''
      else connector_execution_binding_error h c b)"

definition validate_execution ::
  "host \<Rightarrow> catalog \<Rightarrow> agent_action \<Rightarrow> connector_config \<Rightarrow> bool \<Rightarrow> connector_binding option \<Rightarrow> string
     \<Rightarrow> exn + verdict"
where
  "validate_execution h catalog a config compensating binding connector_mode =
     sbind (catalog_definition catalog (ac_capability a)) (\<lambda>d.
     if connector_mode = ''mock'' then Inr (True, ''mock connector has no external authority'')
     else case map_of authentication_modes (df_authentication d) of
       None \<Rightarrow> Inl (Exn KeyError (df_authentication d))
     | Some allowed \<Rightarrow>
         let observed = (case binding of
               Some b \<Rightarrow> cb_authentication_mode b
             | None \<Rightarrow> if df_authentication d = ''local_git'' then ''local_git'' else ''local'');
             scopes = (case binding of Some b \<Rightarrow> cb_credential_scopes b | None \<Rightarrow> []);
             missing = sorted_set (filter (\<lambda>s. s \<notin> set scopes) (df_required_scopes d)) in
         Inr (case (case binding of None \<Rightarrow> None | Some b \<Rightarrow> binding_drift h config b) of
           Some m \<Rightarrow> (False, ''resolved connector '' @ m @ '' for '' @ ac_capability a)
         | None \<Rightarrow>
             if observed \<notin> set allowed
             then (False, ''effective authentication mode '' @ observed @ '' is not allowed for ''
                     @ ac_capability a)
             else if observed \<notin> {''none'', ''local'', ''local_git''}
                     \<and> (case binding of None \<Rightarrow> True | Some b \<Rightarrow> cb_credential_identity b = None)
             then (False, ''effective credential identity is not bound for '' @ ac_capability a)
             else if missing \<noteq> []
             then (False, ''effective credential scopes are missing for '' @ ac_capability a @ '': ''
                     @ py_join '', '' missing)
             else if df_reversible d \<and> \<not> compensating
             then (False, ''connector does not implement verified compensation: '' @ ac_capability a)
             else (True, ''effective connector authority satisfies the capability contract'')))"

definition enabled_names :: "catalog \<Rightarrow> string list" where
  "enabled_names catalog = sort (map fst (filter (\<lambda>(n, d). df_enabled d) catalog))"

definition local_generation_output_limits :: "catalog \<Rightarrow> (string \<times> int) list" where
  "local_generation_output_limits catalog =
     concat (map (\<lambda>(n, d).
       if df_risk d = LOCAL_GENERATION
       then (case df_max_output_bytes d of None \<Rightarrow> [] | Some b \<Rightarrow> [(n, b)]) else []) catalog)"

definition definition_to_dict :: "capability_definition \<Rightarrow> json_object" where
  "definition_to_dict d =
     [(''enabled'', JBool (df_enabled d)), (''authentication'', JStr (df_authentication d)),
      (''risk'', JStr (risk_str (df_risk d))), (''reversible'', JBool (df_reversible d)),
      (''requires_expected_version'', JBool (df_requires_expected_version d)),
      (''provider_precondition'', JStr (df_provider_precondition d)),
      (''required_scopes'', strings (df_required_scopes d)),
      (''target_system'', JStr (df_target_system d)),
      (''target_resource_types'', strings (df_target_resource_types d)),
      (''parameter_schema'', JObj (map (\<lambda>(k, t). (k, JStr t)) (df_parameter_schema d))),
      (''read_result_schema'', JStr (df_read_result_schema d)),
      (''read_result_resources'', JObj (map (\<lambda>(k, t). (k, JStr t)) (df_read_result_resources d))),
      (''read_result_metadata'', strings (df_read_result_metadata d)),
      (''max_input_bytes'', optional JInt (df_max_input_bytes d)),
      (''max_output_bytes'', optional JInt (df_max_output_bytes d)),
      (''uses_external_model'', JBool (df_uses_external_model d)),
      (''description'', JStr (df_description d))]"

definition catalog_to_dict :: "catalog \<Rightarrow> json_object" where
  "catalog_to_dict catalog =
     [(''capabilities'', JObj (map (\<lambda>(n, d). (n, JObj (definition_to_dict d))) (sort_key fst catalog)))]"

subsection \<open>What an accepted action satisfies\<close>

definition conforms :: "json_object \<Rightarrow> (string \<times> string) list \<Rightarrow> bool" where
  "conforms parameters schema =
     (schema = [] \<or>
      (\<forall>k \<in> set (map fst parameters). k \<in> fst ` set schema)
      \<and> (\<forall>(name, descriptor) \<in> set schema.
           case obj_get parameters name of
             None \<Rightarrow> is_optional descriptor
           | Some v \<Rightarrow> is_optional descriptor \<and> v = JNull \<or> parameter_matches v (base_type descriptor)))"

lemma check_schema_None:
  "check_schema parameters schema = None \<longleftrightarrow>
     (\<forall>(name, descriptor) \<in> set schema.
        case obj_get parameters name of
          None \<Rightarrow> is_optional descriptor
        | Some v \<Rightarrow> is_optional descriptor \<and> v = JNull \<or> parameter_matches v (base_type descriptor))"
  by (induction parameters schema rule: check_schema.induct)
     (simp_all del: parameter_matches.simps split: option.split)

lemma set_sorted_set [simp]: "set (sorted_set xs) = set xs"
  by (simp add: sorted_set_def)

lemma sorted_set_Nil [simp]: "sorted_set xs = [] \<longleftrightarrow> xs = []"
  by (metis set_empty set_sorted_set)

lemma sorted_set_idem [simp]: "sorted_set (sorted_set xs) = sorted_set xs"
  by (simp add: sorted_set_def sorted_sort_id)

lemma validate_parameters_None: "validate_parameters parameters schema = None \<longleftrightarrow> conforms parameters schema"
  by (auto simp: validate_parameters_def conforms_def check_schema_None Let_def filter_empty_conv
      simp del: parameter_matches.simps)

subsection \<open>A loaded catalog is well formed\<close>

definition quotas_ok :: "capability_definition \<Rightarrow> bool" where
  "quotas_ok d =
     (if df_risk d = LOCAL_GENERATION
      then \<exists>i o1. df_max_input_bytes d = Some i \<and> df_max_output_bytes d = Some o1
             \<and> 0 < i \<and> i \<le> MAX_ACTION_PARAMETER_BYTES \<and> 0 < o1 \<and> o1 \<le> MAX_LOCAL_ARTIFACT_BYTES
      else df_max_input_bytes d = None \<and> df_max_output_bytes d = None)"

definition result_contract_ok :: "host \<Rightarrow> capability_definition \<Rightarrow> bool" where
  "result_contract_ok h d =
     (df_read_result_schema d = [] \<and> df_read_result_resources d = [] \<and> df_read_result_metadata d = []
      \<or> df_risk d = READ_ONLY \<and> CHR ''@'' \<in> set (df_read_result_schema d)
        \<and> df_read_result_resources d \<noteq> []
        \<and> (\<forall>(n, t) \<in> set (df_read_result_resources d). t \<in> set read_result_resource_types)
        \<and> set (df_read_result_metadata d) \<inter> fst ` set (df_read_result_resources d) = {}
        \<and> (\<forall>f \<in> fst ` set (df_read_result_resources d) \<union> set (df_read_result_metadata d).
             \<not> is_reserved_read_result_field_name h f))"

definition definition_ok :: "host \<Rightarrow> capability_definition \<Rightarrow> bool" where
  "definition_ok h d =
     (CHR ''.'' \<in> set (df_name d) \<and> df_authentication d \<in> fst ` set authentication_modes
      \<and> df_provider_precondition d \<in> set provider_preconditions \<and> df_target_system d \<noteq> []
      \<and> (\<forall>(n, t) \<in> set (df_parameter_schema d). \<not> blank n \<and> base_type t \<in> set parameter_types)
      \<and> (df_enabled d \<and> df_risk d \<noteq> READ_ONLY \<longrightarrow>
           df_target_resource_types d \<noteq> [] \<and> df_parameter_schema d \<noteq> [])
      \<and> (df_enabled d \<and> df_requires_expected_version d \<longrightarrow> df_provider_precondition d \<noteq> ''none'')
      \<and> quotas_ok d \<and> result_contract_ok h d)"

lemma check_quotas_None: "check_quotas d = None \<longleftrightarrow> quotas_ok d"
  by (auto simp: check_quotas_def quotas_ok_def positive_def first_error_None_iff split: option.splits)

lemma check_parameter_schema_None:
  "check_parameter_schema schema = None \<longleftrightarrow>
     (\<forall>(n, t) \<in> set schema. \<not> blank n \<and> base_type t \<in> set parameter_types)"
  by (simp add: check_parameter_schema_def first_error_concat split_def first_error_Cons fail_if_case)

lemma check_result_resources_None:
  "check_result_resources resources = None \<longleftrightarrow>
     (\<forall>(n, t) \<in> set resources. \<not> blank n \<and> trimmed n \<and> t \<in> set read_result_resource_types)"
  by (simp add: check_result_resources_def first_error_concat split_def first_error_Cons fail_if_case)

lemma check_result_contract_ok:
  assumes "check_result_contract h (df_risk d) (df_read_result_schema d) (df_read_result_resources d)
      (df_read_result_metadata d) = None"
  shows "result_contract_ok h d"
  using assms
  by (auto simp: check_result_contract_def result_contract_ok_def first_error_None_iff
      check_result_resources_None split: if_splits)

lemma mk_definition_ok:
  assumes "mk_definition h d = Inr d'"
  shows "definition_ok h d'" and "df_name d' = df_name d"
proof -
  let ?schema = "py_strip (df_read_result_schema d)" and ?metadata = "sorted_set (df_read_result_metadata d)"
  have d': "d' = d\<lparr>df_target_system := effective_system d,
      df_target_resource_types := sorted_set (df_target_resource_types d),
      df_read_result_schema := ?schema, df_read_result_metadata := ?metadata\<rparr>"
    using assms by (simp add: mk_definition_def Let_def checked_Inr)
  have checks: "CHR ''.'' \<in> set (df_name d)" "df_authentication d \<in> fst ` set authentication_modes"
    "df_provider_precondition d \<in> set provider_preconditions" "effective_system d \<noteq> []"
    "check_parameter_schema (df_parameter_schema d) = None"
    "check_result_contract h (df_risk d) ?schema (df_read_result_resources d) ?metadata = None"
    "df_enabled d \<and> df_risk d \<noteq> READ_ONLY \<longrightarrow> df_target_resource_types d \<noteq> [] \<and> df_parameter_schema d \<noteq> []"
    "df_enabled d \<and> df_requires_expected_version d \<longrightarrow> df_provider_precondition d \<noteq> ''none''"
    "check_quotas d = None"
    using assms by (auto simp: mk_definition_def Let_def checked_Inr)
  have "result_contract_ok h d'" using checks(6) d' by (intro check_result_contract_ok) simp
  moreover have "quotas_ok d' = quotas_ok d" by (simp add: d' quotas_ok_def)
  then have "quotas_ok d'" using checks(9) by (simp add: check_quotas_None)
  ultimately show "definition_ok h d'"
    using checks d' by (simp add: definition_ok_def check_parameter_schema_None)
  show "df_name d' = df_name d" using d' by simp
qed

lemma definition_of_entry_ok:
  "definition_of_entry h contracts name entry = Inr d \<Longrightarrow> definition_ok h d \<and> df_name d = name"
  by (auto simp: definition_of_entry_def sbind_Inr mk_definition_ok split: json.splits dest: mk_definition_ok)

definition catalog_ok :: "host \<Rightarrow> catalog \<Rightarrow> bool" where
  "catalog_ok h catalog =
     (distinct (map fst catalog) \<and> (\<forall>(n, d) \<in> set catalog. df_name d = n \<and> definition_ok h d))"

lemma load_definitions_ok:
  "catalog_ok h parsed \<Longrightarrow> load_definitions h contracts parsed table = Inr catalog \<Longrightarrow> catalog_ok h catalog"
proof (induction h contracts parsed table rule: load_definitions.induct)
  case (2 h contracts parsed name entry table)
  then obtain d where d: "definition_of_entry h contracts name entry = Inr d"
    and rest: "load_definitions h contracts (dict_put (df_name d) d parsed) table = Inr catalog"
    by (auto simp: sbind_Inr)
  have "df_name d' = n \<and> definition_ok h d'" if "(n, d') \<in> set (dict_put (df_name d) d parsed)" for n d'
  proof -
    from that have "n = df_name d \<and> d' = d \<or> (n, d') \<in> set parsed"
      using dict_put_members [of "df_name d" d parsed] by auto
    then show ?thesis using 2(2) definition_of_entry_ok [OF d] unfolding catalog_ok_def by blast
  qed
  then have "catalog_ok h (dict_put (df_name d) d parsed)" using 2(2) unfolding catalog_ok_def by auto
  then show ?case using 2(1) rest by blast
qed simp

lemma catalog_from_toml_ok: "catalog_from_toml h raw = Inr catalog \<Longrightarrow> catalog_ok h catalog"
proof -
  assume "catalog_from_toml h raw = Inr catalog"
  then obtain contracts table where "load_definitions h contracts [] table = Inr catalog"
    by (auto simp: catalog_from_toml_def sbind_Inr split: if_splits)
  moreover have "catalog_ok h []" by (simp add: catalog_ok_def)
  ultimately show ?thesis by (metis load_definitions_ok)
qed

end
