(* ===== verification/Canonical_Sources.thy ===== *)
theory Canonical_Sources
  imports Capability_Catalog "HOL-Library.Product_Lexorder"
begin

text \<open>
  Canonical-source enforcement (canonical.py). A rule names the resource that owns a field and the
  resources that project it; an action on a projection is accepted only if one of its transitive
  dependencies writes the same value to the owner.
\<close>

type_synonym resource_identity = "string \<times> string \<times> string"
type_synonym extractors = "(string \<times> string list) list"

record source_rule =
  sr_field :: string
  sr_canonical_resource :: resource_identity
  sr_projection_resources :: "resource_identity list"
  sr_direction :: string
  sr_canonical_extractors :: extractors
  sr_projection_extractors :: extractors

definition canonical_capabilities :: "source_rule \<Rightarrow> string list" where
  "canonical_capabilities r = map fst (sr_canonical_extractors r)"

definition projection_capabilities :: "source_rule \<Rightarrow> string list" where
  "projection_capabilities r = map fst (sr_projection_extractors r)"

definition canonical_uri :: "source_rule \<Rightarrow> string" where
  "canonical_uri r =
     (case sr_canonical_resource r of (s, t, i) \<Rightarrow> py_join '':'' [s, t, i])"

definition supported_parameter_selectors :: "(string \<times> string list) list" where
  "supported_parameter_selectors =
     [(''confluence.page.update'', [''body'']),
      (''jira.issue.update'', [''fields.status'', ''fields.status.name'']),
      (''jira.issue.transition'', [''target_status'']),
      (''outlook.email.draft'', [''body'']),
      (''teams.message.draft'', [''body''])]"

subsection \<open>Loading the rules\<close>

fun split_on :: "char \<Rightarrow> string \<Rightarrow> string list" where
  "split_on sep [] = [[]]"
| "split_on sep (c # s) =
     (if c = sep then [] # split_on sep s
      else (case split_on sep s of [] \<Rightarrow> [[c]] | x # xs \<Rightarrow> (c # x) # xs))"

definition ident_start :: "char \<Rightarrow> bool" where
  "ident_start c = (is_lower c \<or> is_upper c \<or> c = CHR ''_'')"

definition expands :: "string \<Rightarrow> bool" where
  "expands segment = (2 \<le> length segment \<and> drop (length segment - 2) segment = ''[]'')"

definition segment_key :: "string \<Rightarrow> string" where
  "segment_key segment = (if expands segment then take (length segment - 2) segment else segment)"

definition selector_segment :: "string \<Rightarrow> bool" where
  "selector_segment segment =
     (case segment_key segment of
        [] \<Rightarrow> False
      | c # s \<Rightarrow> ident_start c \<and> (\<forall>d \<in> set s. ident_start d \<or> is_digit d))"

definition valid_selector :: "string \<Rightarrow> bool" where
  "valid_selector selector = (\<forall>s \<in> set (split_on (CHR ''.'') selector). selector_segment s)"

definition extractor_binding :: "host \<Rightarrow> string \<times> json \<Rightarrow> exn + string \<times> string list" where
  "extractor_binding h kv =
     (let capability = py_strip (fst kv) in
      if capability = [] then Inl (misconfigured ''source-of-truth capability must not be empty'')
      else case snd kv of
        JList raw \<Rightarrow>
          if raw = [] then Inl (misconfigured ''source-of-truth selectors must be a non-empty list'')
          else let selectors = map (\<lambda>j. py_strip (py_str h j)) raw in
            if [] \<in> set selectors
            then Inl (misconfigured ''source-of-truth selectors must not be empty'')
            else (case map_of supported_parameter_selectors capability of
               None \<Rightarrow> Inl (misconfigured ''source-of-truth capability has no parameter verifier'')
             | Some supported \<Rightarrow>
                 if \<exists>s \<in> set selectors. \<not> valid_selector s \<or> s \<notin> set supported
                 then Inl (misconfigured ''source-of-truth capability has unsupported parameter selector'')
                 else Inr (capability, selectors))
      | _ \<Rightarrow> Inl (misconfigured ''source-of-truth selectors must be a non-empty list''))"

definition extractor_bindings :: "host \<Rightarrow> json option \<Rightarrow> exn + extractors" where
  "extractor_bindings h v =
     (case v of
        Some (JObj kvs) \<Rightarrow>
          if kvs = [] then Inl (misconfigured ''source-of-truth extractors must be a non-empty table'')
          else sbind (smap (extractor_binding h) kvs) (\<lambda>bs. Inr (sort bs))
      | _ \<Rightarrow> Inl (misconfigured ''source-of-truth extractors must be a non-empty table''))"

definition identity_of ::
  "host \<Rightarrow> json_object \<Rightarrow> string \<Rightarrow> string \<Rightarrow> string \<Rightarrow> exn + resource_identity"
where
  "identity_of h item k1 k2 k3 =
     (case (obj_get item k1, obj_get item k2, obj_get item k3) of
        (Some a, Some b, Some c) \<Rightarrow>
          let s = py_strip (py_str h a); t = py_strip (py_str h b); i = py_strip (py_str h c) in
          if s = [] \<or> t = [] \<or> i = []
          then Inl (misconfigured ''source-of-truth identity values must not be empty'')
          else Inr (s, t, i)
      | _ \<Rightarrow> Inl (misconfigured
          ''source-of-truth resource must declare system, resource_type, and resource_id''))"

definition canonical_resource :: "host \<Rightarrow> json_object \<Rightarrow> exn + resource_identity" where
  "canonical_resource h item =
     identity_of h item ''canonical_system'' ''canonical_resource_type'' ''canonical_resource_id''"

fun projection_loop :: "host \<Rightarrow> resource_identity list \<Rightarrow> json list \<Rightarrow> exn + resource_identity list" where
  "projection_loop h resources [] = Inr resources"
| "projection_loop h resources (JObj item # items) =
     sbind (identity_of h item ''system'' ''resource_type'' ''resource_id'') (\<lambda>r.
       if r \<in> set resources
       then Inl (misconfigured ''source-of-truth projection identities must be unique'')
       else projection_loop h (resources @ [r]) items)"
| "projection_loop h resources (_ # items) =
     Inl (misconfigured ''source-of-truth projection must declare system, resource_type, and resource_id'')"

definition projection_resources :: "host \<Rightarrow> json option \<Rightarrow> exn + resource_identity list" where
  "projection_resources h v =
     (case v of
        Some (JList (j # js)) \<Rightarrow> projection_loop h [] (j # js)
      | _ \<Rightarrow> Inl (misconfigured ''source-of-truth projections must be a non-empty array of tables''))"

definition source_rule_of :: "host \<Rightarrow> json \<Rightarrow> exn + source_rule" where
  "source_rule_of h entry =
     (case entry of
        JObj item \<Rightarrow>
          sbind (checked [fail_if (blank (get_str h item ''field'' []))
                   (misconfigured ''source-of-truth field must not be empty'')] ()) (\<lambda>_.
          sbind (need_str h item ''direction'') (\<lambda>direction.
          sbind (checked [fail_if (direction \<noteq> ''outbound_only'')
                   (misconfigured ''unsupported source-of-truth direction'')] ()) (\<lambda>_.
          sbind (extractor_bindings h (obj_get item ''canonical_extractors'')) (\<lambda>ce.
          sbind (extractor_bindings h (obj_get item ''projection_extractors'')) (\<lambda>pe.
          sbind (canonical_resource h item) (\<lambda>cr.
          sbind (projection_resources h (obj_get item ''projections'')) (\<lambda>pr.
          Inr \<lparr>sr_field = py_strip (get_str h item ''field'' []), sr_canonical_resource = cr,
               sr_projection_resources = pr, sr_direction = direction,
               sr_canonical_extractors = ce, sr_projection_extractors = pe\<rparr>)))))))
      | _ \<Rightarrow> Inl (misconfigured ''source-of-truth rule must be a table''))"

definition sources_from_toml :: "host \<Rightarrow> json_object \<Rightarrow> exn + source_rule list" where
  "sources_from_toml h raw =
     (case obj_get raw ''rules'' of
        None \<Rightarrow> Inr []
      | Some j \<Rightarrow> sbind (py_iter j) (\<lambda>js. smap (source_rule_of h) js))"

subsection \<open>Digests of the governed values\<close>

definition action_identity :: "agent_action \<Rightarrow> resource_identity" where
  "action_identity a =
     (rr_system (ac_target a), rr_resource_type (ac_target a), rr_resource_id (ac_target a))"

definition selectors_for :: "extractors \<Rightarrow> string \<Rightarrow> exn + string list" where
  "selectors_for bindings capability =
     (case map_of bindings capability of
        Some ss \<Rightarrow> Inr ss
      | None \<Rightarrow> Inl (misconfigured
          (''source-of-truth capability is missing its parameter verifier: '' @ capability)))"

definition select_step :: "string \<Rightarrow> json list \<Rightarrow> json list" where
  "select_step segment current =
     concat (map (\<lambda>item.
       case item of
         JObj kvs \<Rightarrow>
           (case obj_get kvs (segment_key segment) of
              None \<Rightarrow> []
            | Some v \<Rightarrow> if expands segment then (case v of JList xs \<Rightarrow> xs | _ \<Rightarrow> []) else [v])
       | _ \<Rightarrow> []) current)"

definition select_values :: "json_object \<Rightarrow> string \<Rightarrow> json list" where
  "select_values parameters selector =
     fold select_step (split_on (CHR ''.'') selector) [JObj parameters]"

definition normalize_value :: "json \<Rightarrow> string option" where
  "normalize_value v =
     (case v of JStr s \<Rightarrow> if blank s then None else Some (py_strip s) | _ \<Rightarrow> None)"

definition digest_value :: "host \<Rightarrow> string \<Rightarrow> exn + digest" where
  "digest_value h s =
     (let text = stable_json (JStr s) in
      if has_surrogate text then Inl (Exn ValueError ''surrogates not allowed'')
      else Inr (h_sha256 h text))"

definition governed_values :: "agent_action \<Rightarrow> string list \<Rightarrow> string list" where
  "governed_values a selectors =
     concat (map (\<lambda>selector. List.map_filter normalize_value (select_values (ac_parameters a) selector))
       selectors)"

definition parameter_digests :: "host \<Rightarrow> agent_action \<Rightarrow> string list \<Rightarrow> exn + digest set" where
  "parameter_digests h a selectors =
     sbind (smap (digest_value h) (governed_values a selectors)) (\<lambda>ds. Inr (set ds))"

subsection \<open>Validating an action of a plan\<close>

definition canonical_writer :: "source_rule \<Rightarrow> agent_action \<Rightarrow> bool" where
  "canonical_writer r c =
     (action_identity c = sr_canonical_resource r \<and> ac_risk c \<noteq> READ_ONLY
      \<and> ac_risk c \<noteq> LOCAL_GENERATION \<and> ac_capability c \<in> set (canonical_capabilities r))"

definition canonical_writes ::
  "host \<Rightarrow> source_rule \<Rightarrow> agent_action list \<Rightarrow> exn + (uuid \<times> digest set) list"
where
  "canonical_writes h r actions =
     smap (\<lambda>c. sbind (selectors_for (sr_canonical_extractors r) (ac_capability c)) (\<lambda>ss.
            sbind (parameter_digests h c ss) (\<lambda>ds. Inr (ac_action_id c, ds))))
       (filter (canonical_writer r) actions)"

definition check_projection ::
  "host \<Rightarrow> source_rule \<Rightarrow> change_plan \<Rightarrow> agent_action \<Rightarrow> exn + string option"
where
  "check_projection h r p a =
     sbind (selectors_for (sr_projection_extractors r) (ac_capability a)) (\<lambda>ss.
     sbind (parameter_digests h a ss) (\<lambda>ds.
     if card ds \<noteq> 1
     then Inr (Some (sr_field r @ '' projection must expose exactly one verifiable governed value''))
     else
       sbind (canonical_writes h r (cp_actions p)) (\<lambda>writes.
       if writes = []
       then Inr (Some (sr_field r @ '' is owned by '' @ canonical_uri r
              @ ''; update the canonical source before its projection''))
       else
         sbind (dependency_ancestors (action_graph (cp_actions p)) (ac_dependencies a)) (\<lambda>ancestors.
         if \<exists>(i, ds') \<in> set writes. ds' = ds \<and> i \<in> set ancestors then Inr None
         else Inr (Some (sr_field r @ '' projection must depend on a matching field-value ''
                @ canonical_uri r @ ''; plan ordering alone is not authority''))))))"

fun validate_sources ::
  "host \<Rightarrow> source_rule list \<Rightarrow> change_plan \<Rightarrow> agent_action \<Rightarrow> exn + verdict"
where
  "validate_sources h [] p a = Inr (True, ''source-of-truth policy satisfied'')"
| "validate_sources h (r # rs) p a =
     (if action_identity a \<notin> set (sr_projection_resources r) then validate_sources h rs p a
      else if ac_capability a \<notin> set (projection_capabilities r)
      then if ac_risk a = READ_ONLY then validate_sources h rs p a
           else Inr (False, sr_field r @ '' projection capability is not approved by its source rule'')
      else sbind (check_projection h r p a) (\<lambda>m.
        case m of
          Some reason \<Rightarrow> Inr (False, reason)
        | None \<Rightarrow> validate_sources h rs p a))"

subsection \<open>An accepted projection follows its source\<close>

definition follows_source :: "host \<Rightarrow> source_rule \<Rightarrow> change_plan \<Rightarrow> agent_action \<Rightarrow> bool" where
  "follows_source h r p a =
     (\<exists>c \<in> set (cp_actions p). \<exists>d ps cs.
        canonical_writer r c
        \<and> (ac_action_id c, ac_action_id a) \<in> (depends (action_graph (cp_actions p)))\<^sup>+
        \<and> map_of (sr_projection_extractors r) (ac_capability a) = Some ps
        \<and> map_of (sr_canonical_extractors r) (ac_capability c) = Some cs
        \<and> parameter_digests h a ps = Inr {d} \<and> parameter_digests h c cs = Inr {d})"

lemma selectors_for_Inr: "selectors_for bs c = Inr ss \<longleftrightarrow> map_of bs c = Some ss"
  by (auto simp: selectors_for_def split: option.splits)

lemma canonical_writes_mem:
  assumes "canonical_writes h r actions = Inr writes" and "(i, ds) \<in> set writes"
  shows "\<exists>c \<in> set actions. \<exists>cs. canonical_writer r c \<and> ac_action_id c = i
    \<and> map_of (sr_canonical_extractors r) (ac_capability c) = Some cs \<and> parameter_digests h c cs = Inr ds"
  using smap_member [OF assms(1) [unfolded canonical_writes_def] assms(2)]
  by (auto simp: sbind_Inr selectors_for_Inr)

lemma plan_ancestors:
  assumes "plan_wf p" and "a \<in> set (cp_actions p)"
    and "dependency_ancestors (action_graph (cp_actions p)) (ac_dependencies a) = Inr ids"
  shows "set ids = {d. (d, ac_action_id a) \<in> (depends (action_graph (cp_actions p)))\<^sup>+}"
proof -
  let ?g = "action_graph (cp_actions p)"
  have wf: "closed_graph ?g" "distinct (map ac_action_id (cp_actions p))"
    using assms(1) by (simp_all add: plan_wf_def)
  have node: "map_of ?g (ac_action_id a) = Some (ac_dependencies a)"
    using wf(2) assms(2) by (intro map_of_is_SomeI) (auto simp: action_graph_def o_def)
  then have "set (ac_dependencies a) \<subseteq> nodes ?g" using closed_graphD [OF wf(1)] by blast
  from dependency_ancestors_correct [OF wf(1) this] obtain ids'
    where "dependency_ancestors ?g (ac_dependencies a) = Inr ids'"
      "set ids' = {y. \<exists>x \<in> set (ac_dependencies a). (y, x) \<in> (depends ?g)\<^sup>*}" .
  moreover have "(\<exists>x \<in> set (ac_dependencies a). (d, x) \<in> (depends ?g)\<^sup>*) \<longleftrightarrow> (d, ac_action_id a) \<in> (depends ?g)\<^sup>+" for d
    using node by (auto simp: trancl_unfold_right depends_def relcomp_unfold)
  ultimately show ?thesis using assms(3) by auto
qed

lemma check_projection_follows:
  assumes "check_projection h r p a = Inr None" and "plan_wf p" and "a \<in> set (cp_actions p)"
  shows "follows_source h r p a"
proof -
  obtain ps ds writes ids i where ps: "map_of (sr_projection_extractors r) (ac_capability a) = Some ps"
    and ds: "parameter_digests h a ps = Inr ds" "card ds = 1"
    and writes: "canonical_writes h r (cp_actions p) = Inr writes"
    and ids: "dependency_ancestors (action_graph (cp_actions p)) (ac_dependencies a) = Inr ids"
    and i: "(i, ds) \<in> set writes" "i \<in> set ids"
    using assms(1) by (auto simp: check_projection_def sbind_Inr selectors_for_Inr split: if_splits)
  obtain d where "ds = {d}" using ds(2) card_1_singletonE by metis
  then show ?thesis
    using canonical_writes_mem [OF writes i(1)] i(2) plan_ancestors [OF assms(2,3) ids] ps ds(1)
    unfolding follows_source_def by blast
qed

lemma validate_sources_sound:
  assumes "validate_sources h rules p a = Inr (True, m)" and "plan_wf p" and "a \<in> set (cp_actions p)"
    and "r \<in> set rules" and "action_identity a \<in> set (sr_projection_resources r)"
  shows "(ac_capability a \<notin> set (projection_capabilities r) \<and> ac_risk a = READ_ONLY) \<or> follows_source h r p a"
  using assms
proof (induction h rules p a rule: validate_sources.induct)
  case (2 h r' rs p a)
  show ?case
  proof (cases "r = r'")
    case True
    then show ?thesis
      using 2 check_projection_follows by (auto simp: sbind_Inr split: if_splits option.splits)
  next
    case False
    then show ?thesis
      using 2 by (auto simp: sbind_Inr split: if_splits option.splits)
  qed
qed simp

end
