(* ===== verification/Systems_Gate.thy ===== *)
theory Systems_Gate
  imports Policy
begin

text \<open>
  The systems-governance gate of planners/base.py: evidence-backed assessor and reviewer, the
  evaluation of a plan against its assessment, binding and enforcement, the governed planner and
  the post-execution review. Assessors, planners, reviewers and outcome observers are interfaces
  that the program receives from its caller; they are function arguments here.
\<close>

subsection \<open>Evidence-backed components\<close>

definition require_planner_text :: "string \<Rightarrow> string \<Rightarrow> exn option" where
  "require_planner_text value name =
     first_error [fail_if (blank value) (invalid (name @ '' must not be empty'')),
                  fail_if (\<not> trimmed value) (invalid (name @ '' must be trimmed''))]"

definition evidence_assess :: "systems_assessment \<Rightarrow> string \<Rightarrow> exn + systems_assessment" where
  "evidence_assess a goal =
     checked
       [require_planner_text goal ''planner goal'',
        fail_if (goal \<noteq> sa_desired_outcome a)
          (invalid ''systems assessment desired outcome does not match the planner goal'')] a"

definition evidence_review ::
  "host \<Rightarrow> coherence_review \<Rightarrow> systems_assessment \<Rightarrow> exn + coherence_review"
where
  "evidence_review h r a =
     (case sa_strategy_kernel a of
        None \<Rightarrow> Inl (invalid ''strategy coherence review requires a strategy kernel'')
      | Some k \<Rightarrow>
          checked
            [fail_if (cv_assessment_fingerprint r \<noteq> assessment_fingerprint h a)
               (invalid ''strategy coherence review does not match the systems assessment''),
             fail_if (cv_kernel_fingerprint r \<noteq> kernel_fingerprint h k)
               (invalid ''strategy coherence review does not match the strategy kernel'')] r)"

record governed_plan =
  gv_plan :: change_plan
  gv_assessment :: systems_assessment
  gv_decision :: gate_decision

definition mk_governed_plan :: "governed_plan \<Rightarrow> exn + governed_plan" where
  "mk_governed_plan g =
     checked
       [fail_if (cp_systems_assessment (gv_plan g) \<noteq> Some (gv_assessment g))
          (invalid ''governed plan does not contain its assessment''),
        fail_if (cp_systems_decision (gv_plan g) \<noteq> Some (gv_decision g))
          (invalid ''governed plan does not contain its gate decision'')] g"

subsection \<open>The gate\<close>

definition fast_path_risks :: "risk_level list" where
  "fast_path_risks = [READ_ONLY, LOCAL_GENERATION]"

definition mk_gate :: "json \<Rightarrow> exn + int" where
  "mk_gate v =
     (case v of
        JInt n \<Rightarrow> if n < 0
                   then Inl (invalid ''max_automatic_complexity_score must be a non-negative integer'')
                   else Inr n
      | _ \<Rightarrow> Inl (invalid ''max_automatic_complexity_score must be a non-negative integer''))"

definition default_gate :: int where
  "default_gate = 4"

definition strategy_trace_reasons :: "change_plan \<Rightarrow> systems_assessment \<Rightarrow> string list" where
  "strategy_trace_reasons p a =
     (let traces = cp_strategy_traces p in
      case sa_strategy_kernel a of
        None \<Rightarrow> if traces = [] then [] else [''strategy traces require a strategy kernel'']
      | Some k \<Rightarrow>
          let action_ids = set (map ac_action_id (cp_actions p));
              traced = map tr_action_id traces;
              intents = set (map si_intent_id (sk_coherent_actions k));
              traced_intents = set (map tr_intent_id traces) in
          (if distinct traced then [] else [''strategy traces contain duplicate action IDs''])
          @ (if action_ids \<subseteq> set traced then [] else [''strategy traces do not cover every plan action''])
          @ (if set traced \<subseteq> action_ids then []
             else [''strategy traces contain unknown or stale action IDs''])
          @ (if traced_intents \<subseteq> intents then [] else [''strategy traces contain unknown intent IDs''])
          @ (if intents \<subseteq> traced_intents then []
             else [''strategy traces do not use every coherent action intent'']))"

definition strategy_coherence_reasons ::
  "host \<Rightarrow> change_plan \<Rightarrow> systems_assessment \<Rightarrow> string list"
where
  "strategy_coherence_reasons h p a =
     (case cp_coherence_review p of
        None \<Rightarrow> [''gated plan requires a strategy coherence review'']
      | Some r \<Rightarrow>
          (if cv_assessment_fingerprint r = assessment_fingerprint h a then []
           else [''strategy coherence review assessment fingerprint is stale''])
          @ (case sa_strategy_kernel a of
               None \<Rightarrow> [''strategy coherence review requires a strategy kernel'']
             | Some k \<Rightarrow>
                 if cv_kernel_fingerprint r = kernel_fingerprint h k then []
                 else [''strategy coherence review kernel fingerprint is stale''])
          @ concat (map (\<lambda>(name, found).
               if found then [] else [''strategy coherence finding is false: '' @ name])
               (coherence_findings r)))"

definition unsafe_risks :: "change_plan \<Rightarrow> string list" where
  "unsafe_risks p =
     sort (remdups (map (\<lambda>a. risk_str (ac_risk a))
       (filter (\<lambda>a. ac_risk a \<notin> set fast_path_risks) (cp_actions p))))"

definition fast_path_reasons :: "change_plan \<Rightarrow> systems_assessment \<Rightarrow> string list" where
  "fast_path_reasons p a =
     (if unsafe_risks p = [] then []
      else [''fast path permits read-only or local-generation actions only; found ''
            @ py_join '', '' (unsafe_risks p)])
     @ (if sa_added_complexity a = [] then [] else [''fast path cannot introduce durable complexity''])
     @ (if cp_coherence_review p = None then []
        else [''fast path cannot carry a strategy coherence review''])"

definition missing_section :: "string \<Rightarrow> string list \<Rightarrow> string list" where
  "missing_section name values = (if values = [] then [''gated assessment requires '' @ name] else [])"

definition gated_reasons :: "host \<Rightarrow> change_plan \<Rightarrow> systems_assessment \<Rightarrow> string list" where
  "gated_reasons h p a =
     missing_section ''stocks'' (sa_stocks a) @ missing_section ''flows'' (sa_flows a)
     @ missing_section ''feedback_loops'' (sa_feedback_loops a)
     @ missing_section ''delays'' (sa_delays a)
     @ missing_section ''unintended_consequences'' (sa_unintended_consequences a)
     @ (if sa_strategy_kernel a = None then [''gated assessment requires a strategy_kernel''] else [])
     @ strategy_coherence_reasons h p a"

definition complexity_reasons :: "systems_assessment \<Rightarrow> string list" where
  "complexity_reasons a =
     (if sa_added_complexity a = [] then []
      else
        (if sa_alternatives_considered a = []
         then [''added complexity requires simpler alternatives considered''] else [])
        @ (if sa_existing_mechanisms a = []
           then [''added complexity requires evidence that existing mechanisms are insufficient'']
           else [])
        @ (if sa_reversibility_strategy a = []
           then [''added complexity requires an explicit removal or reversibility strategy'']
           else []))"

definition route_of :: "systems_assessment \<Rightarrow> gate_route" where
  "route_of a = (if fast_path_requested a then FAST_PATH else GATED)"

definition gate_objections :: "host \<Rightarrow> change_plan \<Rightarrow> systems_assessment \<Rightarrow> string list" where
  "gate_objections h p a =
     (if cp_goal p = sa_desired_outcome a then []
      else [''plan goal does not match the assessed desired outcome''])
     @ (if route_of a = FAST_PATH then fast_path_reasons p a else gated_reasons h p a)
     @ strategy_trace_reasons p a
     @ complexity_reasons a"

definition gate_evaluate ::
  "host \<Rightarrow> int \<Rightarrow> change_plan \<Rightarrow> systems_assessment \<Rightarrow> exn + gate_decision"
where
  "gate_evaluate h budget p a =
     (let route = route_of a;
          objections = gate_objections h p a;
          score = complexity_score a;
          review = score > budget;
          over = (if review then [''complexity score '' @ render_int score
                    @ '' exceeds automatic budget '' @ render_int budget] else []);
          permitted = (objections = []);
          accepted = (if permitted \<and> \<not> review
                      then [if route = FAST_PATH then ''explicit fast path accepted''
                            else ''systems governance assessment complete''] else [])
      in mk_decision
        \<lparr>gd_route = route, gd_permitted = permitted, gd_reasons = objections @ over @ accepted,
         gd_complexity_score = score, gd_assessment_fingerprint = assessment_fingerprint h a,
         gd_requires_human_review = review,
         gd_review_fingerprint =
           (if route = GATED then map_option (review_fingerprint h) (cp_coherence_review p) else None),
         gd_schema = decision_schema\<rparr>)"

definition joined_reasons :: "gate_decision \<Rightarrow> string" where
  "joined_reasons d = py_join ''; '' (gd_reasons d)"

definition gate_enforce ::
  "host \<Rightarrow> int \<Rightarrow> change_plan \<Rightarrow> systems_assessment \<Rightarrow> exn + gate_decision"
where
  "gate_enforce h budget p a =
     sbind (gate_evaluate h budget p a) (\<lambda>d.
       checked
         [fail_if (\<not> gd_permitted d)
            (invalid (''systems governance denied plan: '' @ joined_reasons d)),
          fail_if (gd_requires_human_review d)
            (invalid (''systems governance requires authenticated human review: '' @ joined_reasons d))]
         d)"

subsection \<open>Binding a plan\<close>

definition bind_systems_governance ::
  "host \<Rightarrow> int \<Rightarrow> change_plan \<Rightarrow> systems_assessment \<Rightarrow> exn + change_plan"
where
  "bind_systems_governance h budget p a =
     (if cp_systems_assessment p \<noteq> None \<or> cp_systems_decision p \<noteq> None
      then Inl (invalid ''plan already contains a systems governance binding'')
      else sbind (gate_evaluate h budget p a) (\<lambda>d.
        if \<not> gd_permitted d
        then Inl (invalid (''systems governance denied plan: '' @ joined_reasons d))
        else mk_plan h (p\<lparr>cp_systems_assessment := Some a, cp_systems_decision := Some d\<rparr>)))"

definition static_traces ::
  "agent_action list \<Rightarrow> strategy_action_intent list \<Rightarrow> exn + strategy_trace list"
where
  "static_traces actions intents =
     smap (\<lambda>(a, i). mk_trace
       \<lparr>tr_action_id = ac_action_id a, tr_intent_id = si_intent_id i, tr_schema = trace_schema\<rparr>)
       (zip actions intents)"

definition bind_static_intervention_governance ::
  "host \<Rightarrow> int \<Rightarrow> change_plan \<Rightarrow> systems_assessment \<Rightarrow> exn + change_plan"
where
  "bind_static_intervention_governance h budget p a =
     (case sa_strategy_kernel a of
        None \<Rightarrow> Inl (invalid ''static intervention requires a strategy kernel'')
      | Some k \<Rightarrow>
          if length (sk_coherent_actions k) \<noteq> length (cp_actions p)
          then Inl (invalid ''static intervention requires exactly one intent per plan action'')
          else
            sbind (static_traces (cp_actions p) (sk_coherent_actions k)) (\<lambda>traces.
            sbind (review_for_static_intervention h a) (\<lambda>review.
            sbind (mk_plan h (p\<lparr>cp_strategy_traces := traces, cp_coherence_review := Some review\<rparr>)) (\<lambda>traced.
            sbind (bind_systems_governance h budget traced a) (\<lambda>q. Inr (with_trusted_admission q))))))"

definition bind_fast_path_governance ::
  "host \<Rightarrow> change_plan \<Rightarrow> string \<Rightarrow> string \<Rightarrow> string \<Rightarrow> string \<Rightarrow> string \<Rightarrow> exn + change_plan"
where
  "bind_fast_path_governance h p behavior constraint leverage metric failure =
     sbind (for_fast_path (cp_goal p) behavior constraint leverage (cp_goal p) metric failure) (\<lambda>a.
       bind_systems_governance h default_gate p a)"

subsection \<open>Enforcing the binding of a plan\<close>

definition has_authenticated_whole_plan_review ::
  "host \<Rightarrow> policy_engine \<Rightarrow> change_plan \<Rightarrow> approval list \<Rightarrow> instant \<Rightarrow> exn + bool"
where
  "has_authenticated_whole_plan_review h e p approvals now =
     sbind (authenticated_approvals h e p approvals now) (\<lambda>authenticated.
       Inr (\<exists>(ap, s) \<in> set authenticated.
         set (map ac_action_id (cp_actions p)) \<subseteq> set (ap_approved_action_ids ap)))"

definition strategy_coherence_execution_authenticated ::
  "host \<Rightarrow> change_plan \<Rightarrow> policy_engine option \<Rightarrow> approval list \<Rightarrow> instant \<Rightarrow> exn + bool"
where
  "strategy_coherence_execution_authenticated h p policy approvals now =
     (case cp_systems_decision p of
        None \<Rightarrow> Inr False
      | Some d \<Rightarrow>
          if gd_route d = FAST_PATH then Inr True
          else if has_trusted_admission p then Inr True
          else (case policy of
             None \<Rightarrow> Inr False
           | Some e \<Rightarrow> has_authenticated_whole_plan_review h e p approvals now))"

definition enforce_systems_governance ::
  "host \<Rightarrow> int \<Rightarrow> change_plan \<Rightarrow> policy_engine option \<Rightarrow> approval list \<Rightarrow> bool \<Rightarrow> instant
     \<Rightarrow> exn + gate_decision"
where
  "enforce_systems_governance h budget p policy approvals require_trusted now =
     (case (cp_systems_assessment p, cp_systems_decision p) of
        (Some a, Some bound) \<Rightarrow>
          sbind (gate_evaluate h budget p a) (\<lambda>expected.
          if bound \<noteq> expected
          then Inl (invalid ''plan systems governance decision is stale or forged'')
          else if \<not> gd_permitted expected
          then Inl (invalid (''systems governance denied plan: '' @ joined_reasons expected))
          else
            sbind (strategy_coherence_execution_authenticated h p policy approvals now) (\<lambda>trusted.
            if gd_route expected = GATED \<and> require_trusted \<and> \<not> trusted
            then Inl (invalid ''gated plan requires trusted strategy coherence provenance'')
            else
              sbind (if gd_requires_human_review expected
                     then (case policy of
                             None \<Rightarrow> Inr False
                           | Some e \<Rightarrow> has_authenticated_whole_plan_review h e p approvals now)
                     else Inr True) (\<lambda>reviewed.
              if \<not> reviewed
              then Inl (invalid (''systems governance requires authenticated human review: ''
                     @ joined_reasons expected))
              else Inr bound)))
      | _ \<Rightarrow> Inl (invalid ''plan is missing a systems governance binding''))"

subsection \<open>The governed planner\<close>

definition governed_planner_plan ::
  "host \<Rightarrow> (string \<Rightarrow> exn + systems_assessment) \<Rightarrow> (string \<Rightarrow> systems_assessment \<Rightarrow> exn + change_plan)
     \<Rightarrow> (systems_assessment \<Rightarrow> exn + coherence_review) option \<Rightarrow> int \<Rightarrow> string \<Rightarrow> exn + governed_plan"
where
  "governed_planner_plan h assess plan_for review_of budget goal =
     sbind (checked [require_planner_text goal ''planner goal''] ()) (\<lambda>_.
     sbind (assess goal) (\<lambda>a.
     sbind (plan_for goal a) (\<lambda>p.
     if cp_coherence_review p \<noteq> None
     then Inl (invalid ''systems-aware planner cannot review its own strategy coherence'')
     else
       sbind (if fast_path_requested a then Inr p
              else (case review_of of
                      None \<Rightarrow> Inl (invalid ''gated planning requires a strategy coherence reviewer'')
                    | Some f \<Rightarrow> sbind (f a) (\<lambda>r. mk_plan h (p\<lparr>cp_coherence_review := Some r\<rparr>)))) (\<lambda>p'.
       sbind (bind_systems_governance h budget p' a) (\<lambda>q.
       case cp_systems_decision q of
         None \<Rightarrow> Inl (invalid ''systems governance decision was not bound'')
       | Some d \<Rightarrow> mk_governed_plan
           \<lparr>gv_plan = with_trusted_admission q, gv_assessment = a, gv_decision = d\<rparr>)))))"

subsection \<open>The post-execution review\<close>

text \<open>What an outcome observer produced: an exception or a foreign value, or typed evidence.\<close>

definition unintended_states :: "action_state list" where
  "unintended_states = [INDETERMINATE, COMPENSATION_FAILED]"

definition successful_states :: "action_state list" where
  "successful_states = [PLANNED, VERIFIED, REUSED]"

definition observer_result ::
  "host \<Rightarrow> systems_assessment \<Rightarrow> gate_decision \<Rightarrow> outcome_evidence option \<Rightarrow> string + outcome_evidence"
where
  "observer_result h a d candidate =
     (case candidate of
        None \<Rightarrow> Inl ''observer_invalid''
      | Some c \<Rightarrow>
          if oe_assessment_fingerprint c \<noteq> assessment_fingerprint h a
          then Inl ''observer_assessment_mismatch''
          else if oe_decision_fingerprint c \<noteq> decision_fingerprint h d
          then Inl ''observer_decision_mismatch''
          else if oe_success_metric_sha256 c \<noteq> success_metric_sha256 h a
          then Inl ''observer_metric_mismatch''
          else Inr c)"

definition add_code :: "bool \<Rightarrow> string \<Rightarrow> string list \<Rightarrow> string list" where
  "add_code b code codes = (if b \<and> code \<notin> set codes then codes @ [code] else codes)"

definition evidence_review_record ::
  "host \<Rightarrow> systems_assessment \<Rightarrow> gate_decision \<Rightarrow> bool \<Rightarrow> bool \<Rightarrow> outcome_evidence \<Rightarrow> post_review"
where
  "evidence_review_record h a d successful unintended e =
     (let observed_unintended = (oe_unintended_effects_detected e \<or> unintended);
          growth = map_option (\<lambda>n. n - complexity_score a) (oe_observed_complexity_score e)
      in \<lparr>pr_assessment_fingerprint = assessment_fingerprint h a,
          pr_decision_fingerprint = decision_fingerprint h d,
          pr_success_metric_sha256 = success_metric_sha256 h a,
          pr_metric_status = oe_metric_status e,
          pr_unintended_effects_detected = observed_unintended,
          pr_planned_complexity_score = complexity_score a,
          pr_removal_candidate_count = oe_removal_candidate_count e,
          pr_stop_condition_checked = oe_stop_condition_checked e,
          pr_reassessment_required =
            (oe_metric_status e = CONFIRMED_UNCHANGED \<or> \<not> successful \<or> observed_unintended
             \<or> \<not> oe_stop_condition_checked e \<or> oe_stop_condition_triggered e = Some True
             \<or> (case growth of None \<Rightarrow> True | Some g \<Rightarrow> g > 0)),
          pr_reason_codes =
            add_code (\<not> oe_stop_condition_checked e) ''stop_condition_not_observed''
              (add_code (oe_observed_complexity_score e = None) ''complexity_not_observed''
                (add_code unintended ''unintended_effect_possible''
                  (add_code (\<not> successful) ''execution_unsuccessful'' (oe_reason_codes e)))),
          pr_observed_complexity_score = oe_observed_complexity_score e,
          pr_complexity_growth = growth,
          pr_stop_condition_triggered = oe_stop_condition_triggered e,
          pr_schema = post_schema_2\<rparr>)"

definition fallback_review_record ::
  "host \<Rightarrow> systems_assessment \<Rightarrow> gate_decision \<Rightarrow> bool \<Rightarrow> bool \<Rightarrow> bool \<Rightarrow> string option \<Rightarrow> bool \<Rightarrow> post_review"
where
  "fallback_review_record h a d dry_run successful unintended failure has_observer =
     \<lparr>pr_assessment_fingerprint = assessment_fingerprint h a,
      pr_decision_fingerprint = decision_fingerprint h d,
      pr_success_metric_sha256 = success_metric_sha256 h a,
      pr_metric_status = NOT_OBSERVED, pr_unintended_effects_detected = unintended,
      pr_planned_complexity_score = complexity_score a,
      pr_removal_candidate_count = int (length (sa_removable_complexity a)),
      pr_stop_condition_checked = False, pr_reassessment_required = True,
      pr_reason_codes =
        [if dry_run then ''dry_run_metric_not_observed'' else ''metric_not_observed'']
        @ (case failure of
             Some f \<Rightarrow> [f]
           | None \<Rightarrow> if has_observer then [] else [''observer_unavailable''])
        @ (if successful then [] else [''execution_unsuccessful''])
        @ (if unintended then [''unintended_effect_possible''] else [])
        @ [''stop_condition_not_observed''],
      pr_observed_complexity_score = None, pr_complexity_growth = None,
      pr_stop_condition_triggered = None, pr_schema = post_schema_2\<rparr>"

definition build_systems_post_execution_review ::
  "host \<Rightarrow> systems_assessment \<Rightarrow> gate_decision \<Rightarrow> action_state list \<Rightarrow> bool
     \<Rightarrow> (systems_assessment \<Rightarrow> gate_decision \<Rightarrow> action_state list \<Rightarrow> outcome_evidence option) option
     \<Rightarrow> exn + post_review"
where
  "build_systems_post_execution_review h a d states dry_run observer =
     (let unintended = (\<exists>s \<in> set states. s \<in> set unintended_states);
          successful = (\<forall>s \<in> set states. s \<in> set successful_states);
          seen = (if dry_run then None
                  else map_option (\<lambda>observe. observer_result h a d (observe a d states)) observer)
      in mk_post_review
        (case seen of
           Some (Inr e) \<Rightarrow> evidence_review_record h a d successful unintended e
         | Some (Inl f) \<Rightarrow>
             fallback_review_record h a d dry_run successful unintended (Some f) (observer \<noteq> None)
         | None \<Rightarrow>
             fallback_review_record h a d dry_run successful unintended None (observer \<noteq> None)))"

subsection \<open>What an admitted plan satisfies\<close>

lemma gate_evaluate_Inr:
  assumes "gate_evaluate h budget p a = Inr d"
  shows "gd_route d = route_of a \<and> (gd_permitted d \<longleftrightarrow> gate_objections h p a = [])
    \<and> gd_complexity_score d = complexity_score a \<and> (gd_requires_human_review d \<longleftrightarrow> complexity_score a > budget)
    \<and> gd_assessment_fingerprint d = assessment_fingerprint h a"
  using assms by (auto simp: gate_evaluate_def Let_def mk_decision_def checked_Inr)

definition traces_cover :: "change_plan \<Rightarrow> strategy_kernel \<Rightarrow> bool" where
  "traces_cover p k =
     (distinct (map tr_action_id (cp_strategy_traces p))
      \<and> tr_action_id ` set (cp_strategy_traces p) = ac_action_id ` set (cp_actions p)
      \<and> tr_intent_id ` set (cp_strategy_traces p) = si_intent_id ` set (sk_coherent_actions k))"

lemma strategy_trace_reasons_Nil:
  "strategy_trace_reasons p a = [] \<longleftrightarrow>
     (case sa_strategy_kernel a of None \<Rightarrow> cp_strategy_traces p = [] | Some k \<Rightarrow> traces_cover p k)"
proof (cases "sa_strategy_kernel a")
  case (Some k)
  then show ?thesis
    unfolding strategy_trace_reasons_def traces_cover_def Let_def by auto
qed (simp add: strategy_trace_reasons_def)

definition coherent :: "host \<Rightarrow> change_plan \<Rightarrow> systems_assessment \<Rightarrow> strategy_kernel \<Rightarrow> bool" where
  "coherent h p a k =
     (\<exists>r. cp_coherence_review p = Some r \<and> cv_assessment_fingerprint r = assessment_fingerprint h a
        \<and> cv_kernel_fingerprint r = kernel_fingerprint h k \<and> all_findings_confirmed r)"

lemma strategy_coherence_reasons_Nil:
  "strategy_coherence_reasons h p a = [] \<longleftrightarrow> (\<exists>k. sa_strategy_kernel a = Some k \<and> coherent h p a k)"
  by (cases "cp_coherence_review p"; cases "sa_strategy_kernel a")
     (auto simp: strategy_coherence_reasons_def coherent_def all_findings_confirmed_def coherence_findings_def)

lemma unsafe_risks_Nil: "unsafe_risks p = [] \<longleftrightarrow> (\<forall>a \<in> set (cp_actions p). ac_risk a \<in> set fast_path_risks)"
proof -
  have "unsafe_risks p = [] \<longleftrightarrow> set (unsafe_risks p) = {}" by simp
  also have "\<dots> \<longleftrightarrow> (\<forall>a \<in> set (cp_actions p). ac_risk a \<in> set fast_path_risks)"
    unfolding unsafe_risks_def by auto
  finally show ?thesis .
qed

lemma fast_path_admits:
  "gate_objections h p a = [] \<Longrightarrow> route_of a = FAST_PATH \<Longrightarrow>
   cp_goal p = sa_desired_outcome a \<and> sa_added_complexity a = [] \<and> cp_coherence_review p = None
   \<and> (\<forall>x \<in> set (cp_actions p). ac_risk x = READ_ONLY \<or> ac_risk x = LOCAL_GENERATION)"
  by (auto simp: gate_objections_def fast_path_reasons_def unsafe_risks_Nil fast_path_risks_def split: if_splits)

lemma gated_admits:
  "gate_objections h p a = [] \<Longrightarrow> route_of a = GATED \<Longrightarrow>
   cp_goal p = sa_desired_outcome a
   \<and> (\<exists>k. sa_strategy_kernel a = Some k \<and> traces_cover p k \<and> coherent h p a k)"
  by (auto simp: gate_objections_def gated_reasons_def strategy_coherence_reasons_Nil
      strategy_trace_reasons_Nil split: if_splits)

lemma gate_objections_bound:
  "gate_objections h (p\<lparr>cp_systems_assessment := x, cp_systems_decision := y, cp_trusted_admission := z\<rparr>) a
   = gate_objections h p a"
  by (cases "sa_strategy_kernel a"; cases "cp_coherence_review p")
    (simp_all add: gate_objections_def fast_path_reasons_def gated_reasons_def unsafe_risks_def
      strategy_coherence_reasons_def strategy_trace_reasons_def Let_def)

lemma gate_evaluate_bound:
  "gate_evaluate h budget (p\<lparr>cp_systems_assessment := x, cp_systems_decision := y, cp_trusted_admission := z\<rparr>) a
   = gate_evaluate h budget p a"
  by (simp add: gate_evaluate_def gate_objections_bound Let_def)

lemma bind_systems_governance_Inr:
  assumes "bind_systems_governance h budget p a = Inr q"
  obtains d where "gate_evaluate h budget p a = Inr d" and "gd_permitted d"
    and "q = p\<lparr>cp_systems_assessment := Some a, cp_systems_decision := Some d, cp_trusted_admission := False\<rparr>"
    and "gate_evaluate h budget q a = Inr d"
proof -
  obtain d where d: "gate_evaluate h budget p a = Inr d" "gd_permitted d"
    and q: "mk_plan h (p\<lparr>cp_systems_assessment := Some a, cp_systems_decision := Some d\<rparr>) = Inr q"
    using assms by (auto simp: bind_systems_governance_def sbind_Inr split: if_splits)
  have q': "q = p\<lparr>cp_systems_assessment := Some a, cp_systems_decision := Some d, cp_trusted_admission := False\<rparr>"
    using mk_plan_Inr [OF q] by simp
  moreover have "gate_evaluate h budget q a = Inr d" unfolding q' gate_evaluate_bound by (rule d(1))
  ultimately show ?thesis using that d by blast
qed

lemma bound_plan_enforced:
  assumes "bind_systems_governance h budget p a = Inr q" and "complexity_score a \<le> budget"
  shows "enforce_systems_governance h budget (with_trusted_admission q) policy approvals trusted now
    = Inr (the (cp_systems_decision q))"
proof -
  obtain d where d: "gate_evaluate h budget p a = Inr d" "gd_permitted d"
    and q: "q = p\<lparr>cp_systems_assessment := Some a, cp_systems_decision := Some d, cp_trusted_admission := False\<rparr>"
    using bind_systems_governance_Inr [OF assms(1)] by metis
  have e: "gate_evaluate h budget (with_trusted_admission q) a = Inr d"
    using gate_evaluate_bound [where p = p and x = "Some a" and y = "Some d" and z = True] d(1) by (simp add: q with_trusted_admission_def)
  have "\<not> gd_requires_human_review d" using gate_evaluate_Inr [OF d(1)] assms(2) by simp
  then show ?thesis using e d(2)
    by (simp add: enforce_systems_governance_def q with_trusted_admission_def has_trusted_admission_def
        strategy_coherence_execution_authenticated_def)
qed

text \<open>Without its admission mark such a plan is refused for one reason only: it is gated, trusted coherence is
  asked for, and no submitted approval covers the whole plan.\<close>

lemma bound_plan_unmarked:
  assumes "bind_systems_governance h budget p a = Inr q" and "complexity_score a \<le> budget"
  shows "enforce_systems_governance h budget q policy approvals require now =
    sbind (strategy_coherence_execution_authenticated h q policy approvals now) (\<lambda>trusted.
      if gd_route (the (cp_systems_decision q)) = GATED \<and> require \<and> \<not> trusted
      then Inl (invalid ''gated plan requires trusted strategy coherence provenance'')
      else Inr (the (cp_systems_decision q)))"
proof -
  obtain d where d: "gate_evaluate h budget q a = Inr d" "gd_permitted d"
    and q: "q = p\<lparr>cp_systems_assessment := Some a, cp_systems_decision := Some d, cp_trusted_admission := False\<rparr>"
    using bind_systems_governance_Inr [OF assms(1)] by blast
  have "cp_systems_assessment q = Some a" "cp_systems_decision q = Some d" by (simp_all add: q)
  moreover have "\<not> gd_requires_human_review d" using gate_evaluate_Inr [OF d(1)] assms(2) by simp
  ultimately show ?thesis using d
    by (cases "strategy_coherence_execution_authenticated h q policy approvals now")
       (simp_all add: enforce_systems_governance_def)
qed

lemma select_approvals_members:
  "select_approvals h auth p now selected aps = Inr result \<Longrightarrow> (i, ap, s) \<in> set result \<Longrightarrow>
   ap \<in> set aps \<or> (i, ap, s) \<in> set selected"
proof (induction h auth p now selected aps rule: select_approvals.induct)
  case (2 h auth p now selected x aps)
  have put: "(i, ap, s) \<in> set (dict_put (ap_approval_id x) (x, t) selected) \<Longrightarrow> ap = x \<or> (i, ap, s) \<in> set selected" for t
    using dict_put_members [of "ap_approval_id x" "(x, t)" selected] by auto
  show ?case
  proof (cases "auth x")
    case (Inr subject)
    then show ?thesis using 2 put by (cases subject) (auto split: if_splits)
  qed (use 2 in simp)
qed simp

lemma select_approvals_sound:
  assumes "select_approvals h auth p now selected aps = Inr result"
    and "\<forall>(i, ap, s) \<in> set selected. auth ap = Inr (Some s) \<and> (\<exists>a \<in> set (cp_actions p). covers h ap p a now)"
  shows "\<forall>(i, ap, s) \<in> set result. auth ap = Inr (Some s) \<and> (\<exists>a \<in> set (cp_actions p). covers h ap p a now)"
  using assms
proof (induction h auth p now selected aps rule: select_approvals.induct)
  case (2 h auth p now selected ap aps)
  show ?case
  proof (cases "auth ap")
    case (Inr subject)
    show ?thesis
    proof (cases subject)
      case None
      then have "select_approvals h auth p now selected aps = Inr result" using 2(4) Inr by simp
      then show ?thesis using 2(1) 2(5) by blast
    next
      case (Some s)
      show ?thesis
      proof (cases "\<exists>a \<in> set (cp_actions p). covers h ap p a now")
        case True
        have "\<forall>(i, ap, s) \<in> set (dict_put (ap_approval_id ap) (ap, s) selected).
            auth ap = Inr (Some s) \<and> (\<exists>a \<in> set (cp_actions p). covers h ap p a now)"
          using 2(5) True Inr Some dict_put_members [of "ap_approval_id ap" "(ap, s)" selected] by fastforce
        moreover have "select_approvals h auth p now (dict_put (ap_approval_id ap) (ap, s) selected) aps = Inr result"
          using 2(4) Inr Some True by simp
        ultimately show ?thesis using 2(2) [OF True] by blast
      next
        case False
        then have "select_approvals h auth p now selected aps = Inr result" using 2(4) Inr Some by simp
        then show ?thesis using 2(1) 2(5) by blast
      qed
    qed
  qed (use 2 in simp)
qed simp

definition whole_plan_approval :: "host \<Rightarrow> policy_engine \<Rightarrow> change_plan \<Rightarrow> instant \<Rightarrow> approval \<Rightarrow> bool" where
  "whole_plan_approval h e p now ap =
     (\<exists>auth s. pe_authenticator e = Some auth \<and> auth ap = Inr (Some s)
        \<and> (\<forall>a \<in> set (cp_actions p). covers h ap p a now))"

lemma whole_plan_review_sound:
  assumes "has_authenticated_whole_plan_review h e p approvals now = Inr True"
  shows "\<exists>ap \<in> set approvals. whole_plan_approval h e p now ap"
proof -
  obtain auth selected where auth: "pe_authenticator e = Some auth"
    and sel: "select_approvals h auth p now [] approvals = Inr selected"
    and ex: "\<exists>(i, ap, s) \<in> set selected. set (map ac_action_id (cp_actions p)) \<subseteq> set (ap_approved_action_ids ap)"
    using assms by (force simp: has_authenticated_whole_plan_review_def authenticated_approvals_def sbind_Inr
        split: option.splits)
  then obtain i ap s where m: "(i, ap, s) \<in> set selected"
    and ids: "set (map ac_action_id (cp_actions p)) \<subseteq> set (ap_approved_action_ids ap)" by auto
  have "auth ap = Inr (Some s) \<and> (\<exists>a \<in> set (cp_actions p). covers h ap p a now)"
    using select_approvals_sound [OF sel] m by auto
  moreover have "ap \<in> set approvals" using select_approvals_members [OF sel m] by simp
  ultimately show ?thesis using auth ids by (auto simp: whole_plan_approval_def covers_def)
qed

lemma enforced_plan:
  assumes "enforce_systems_governance h budget p policy approvals require now = Inr d"
  obtains a where "cp_systems_assessment p = Some a" and "cp_systems_decision p = Some d"
    and "gate_objections h p a = []" and "gd_route d = route_of a"
    and "gd_route d = GATED \<Longrightarrow> require \<Longrightarrow> cp_trusted_admission p
           \<or> (\<exists>e. policy = Some e \<and> (\<exists>ap \<in> set approvals. whole_plan_approval h e p now ap))"
    and "complexity_score a > budget \<Longrightarrow> \<exists>e. policy = Some e \<and> (\<exists>ap \<in> set approvals. whole_plan_approval h e p now ap)"
proof -
  obtain a where a: "cp_systems_assessment p = Some a" "cp_systems_decision p = Some d"
    and e: "gate_evaluate h budget p a = Inr d" "gd_permitted d"
    and t: "\<exists>trusted. strategy_coherence_execution_authenticated h p policy approvals now = Inr trusted
         \<and> (gd_route d = GATED \<longrightarrow> require \<longrightarrow> trusted)"
    and r: "gd_requires_human_review d \<longrightarrow> (\<exists>e. policy = Some e
         \<and> has_authenticated_whole_plan_review h e p approvals now = Inr True)"
    using assms by (auto simp: enforce_systems_governance_def sbind_Inr split: option.splits if_splits)
  have "gd_route d = GATED \<Longrightarrow> require \<Longrightarrow> cp_trusted_admission p
      \<or> (\<exists>e. policy = Some e \<and> (\<exists>ap \<in> set approvals. whole_plan_approval h e p now ap))"
    using t a whole_plan_review_sound
    by (auto simp: strategy_coherence_execution_authenticated_def has_trusted_admission_def
        split: if_splits option.splits)
  moreover have "complexity_score a > budget \<Longrightarrow>
      \<exists>e. policy = Some e \<and> (\<exists>ap \<in> set approvals. whole_plan_approval h e p now ap)"
    using r gate_evaluate_Inr [OF e(1)] whole_plan_review_sound by blast
  ultimately show ?thesis using that a e gate_evaluate_Inr [OF e(1)] by blast
qed

lemma post_review_cleared:
  assumes "build_systems_post_execution_review h a d states dry_run observer = Inr r"
    and "\<not> pr_reassessment_required r"
  shows "\<not> dry_run \<and> (\<forall>s \<in> set states. s \<in> set successful_states)
    \<and> (\<exists>observe e. observer = Some observe \<and> observe a d states = Some e
         \<and> oe_assessment_fingerprint e = assessment_fingerprint h a
         \<and> oe_decision_fingerprint e = decision_fingerprint h d
         \<and> oe_metric_status e \<noteq> CONFIRMED_UNCHANGED \<and> \<not> oe_unintended_effects_detected e
         \<and> oe_stop_condition_checked e \<and> oe_stop_condition_triggered e \<noteq> Some True
         \<and> (\<exists>n. oe_observed_complexity_score e = Some n \<and> n \<le> complexity_score a))"
  using assms
  by (auto simp: build_systems_post_execution_review_def Let_def mk_post_review_def checked_Inr
      evidence_review_record_def fallback_review_record_def observer_result_def
      split: option.splits sum.splits if_splits)

end
