(* ===== verification/Connector_Registry.thy ===== *)
theory Connector_Registry
  imports Errors
begin

text \<open>
  Connector registration and resolution (registry.py). A connector is known to the registry by its
  system, its declared capability names and a handle; the map from systems to their connectors is an
  insertion-ordered dictionary. The invariant keeps the capability sets of one system disjoint and
  allows one connector without declared capabilities, so resolution is never ambiguous.
\<close>

record 'c connector_entry =
  ce_system :: string
  ce_capabilities :: "string list"
  ce_handle :: 'c

type_synonym 'c registry = "(string \<times> 'c connector_entry list) list"

definition connectors_of :: "'c registry \<Rightarrow> string \<Rightarrow> 'c connector_entry list" where
  "connectors_of reg system = (case map_of reg system of None \<Rightarrow> [] | Some cs \<Rightarrow> cs)"

definition shared :: "'c connector_entry \<Rightarrow> 'c connector_entry \<Rightarrow> bool" where
  "shared a b = (\<exists>n \<in> set (ce_capabilities a). n \<in> set (ce_capabilities b))"

definition wildcard :: "'c connector_entry \<Rightarrow> bool" where
  "wildcard c = (ce_capabilities c = [])"

definition overlap_error :: "'c connector_entry \<Rightarrow> 'c connector_entry \<Rightarrow> exn option" where
  "overlap_error c d =
     (if shared c d
      then Some (Exn ConnectorError ''connector capability already registered for system'')
      else if wildcard c \<and> wildcard d
      then Some (Exn ConnectorError ''connector already registered for system'')
      else None)"

definition register :: "'c connector_entry \<Rightarrow> 'c registry \<Rightarrow> exn + 'c registry" where
  "register c reg =
     (case first_error (map (overlap_error c) (connectors_of reg (ce_system c))) of
        Some e \<Rightarrow> Inl e
      | None \<Rightarrow> Inr (dict_put (ce_system c) (connectors_of reg (ce_system c) @ [c]) reg))"

definition resolve :: "'c registry \<Rightarrow> string \<Rightarrow> string option \<Rightarrow> exn + 'c connector_entry" where
  "resolve reg system capability =
     (let candidates = connectors_of reg system in
      if candidates = [] then Inl (Exn ConnectorError ''no connector registered for system'')
      else case capability of
        None \<Rightarrow>
          (case candidates of
             [c] \<Rightarrow> Inr c
           | _ \<Rightarrow> Inl (Exn ConnectorError ''multiple connectors registered for system''))
      | Some name \<Rightarrow>
          (case filter (\<lambda>c. name \<in> set (ce_capabilities c)) candidates of
             [c] \<Rightarrow> Inr c
           | [] \<Rightarrow>
               (case filter wildcard candidates of
                  [c] \<Rightarrow> Inr c
                | _ \<Rightarrow> Inl (Exn ConnectorError ''no connector registered for capability''))
           | _ \<Rightarrow> Inl (Exn ConnectorError ''multiple connectors registered for capability'')))"

definition systems :: "'c registry \<Rightarrow> string list" where
  "systems reg = sort (map fst reg)"

definition connectors :: "'c registry \<Rightarrow> string option \<Rightarrow> 'c connector_entry list" where
  "connectors reg system =
     (case system of
        Some s \<Rightarrow> connectors_of reg s
      | None \<Rightarrow> concat (map (connectors_of reg) (systems reg)))"

fun register_all :: "'c connector_entry list \<Rightarrow> 'c registry \<Rightarrow> exn + 'c registry" where
  "register_all [] reg = Inr reg"
| "register_all (c # cs) reg = sbind (register c reg) (register_all cs)"

subsection \<open>The registry stays unambiguous\<close>

definition unambiguous :: "'c connector_entry list \<Rightarrow> bool" where
  "unambiguous cs =
     (\<forall>i < length cs. \<forall>j < i. \<not> shared (cs ! i) (cs ! j) \<and> \<not> (wildcard (cs ! i) \<and> wildcard (cs ! j)))"

definition registry_ok :: "'c registry \<Rightarrow> bool" where
  "registry_ok reg =
     (distinct (map fst reg)
      \<and> (\<forall>(s, cs) \<in> set reg. cs \<noteq> [] \<and> unambiguous cs \<and> (\<forall>c \<in> set cs. ce_system c = s)))"

lemma shared_sym: "shared a b = shared b a"
  by (auto simp: shared_def)

lemma unambiguous_snoc:
  "unambiguous (cs @ [c]) \<longleftrightarrow>
     unambiguous cs \<and> (\<forall>d \<in> set cs. \<not> shared c d \<and> \<not> (wildcard c \<and> wildcard d))"
proof -
  have "unambiguous (cs @ [c]) \<longleftrightarrow> unambiguous cs \<and>
      (\<forall>j < length cs. \<not> shared c (cs ! j) \<and> \<not> (wildcard c \<and> wildcard (cs ! j)))"
    unfolding unambiguous_def
    by (auto simp: nth_append less_Suc_eq)
  then show ?thesis by (metis in_set_conv_nth)
qed

lemma registry_ok_connectors:
  assumes "registry_ok reg"
  shows "unambiguous (connectors_of reg s)" and "c \<in> set (connectors_of reg s) \<Longrightarrow> ce_system c = s"
  using assms map_of_SomeD [of reg s]
  by (fastforce simp: registry_ok_def connectors_of_def unambiguous_def split: option.splits)+

lemma connectors_of_put:
  "connectors_of (dict_put s cs reg) s' = (if s' = s then cs else connectors_of reg s')"
  by (simp add: connectors_of_def)

lemma overlap_error_None:
  "overlap_error c d = None \<longleftrightarrow> \<not> shared c d \<and> \<not> (wildcard c \<and> wildcard d)"
  by (simp add: overlap_error_def)

lemma register_Inr:
  "register c reg = Inr reg' \<longleftrightarrow>
     (\<forall>d \<in> set (connectors_of reg (ce_system c)). overlap_error c d = None)
     \<and> reg' = dict_put (ce_system c) (connectors_of reg (ce_system c) @ [c]) reg"
proof -
  have "first_error (map (overlap_error c) (connectors_of reg (ce_system c))) = None \<longleftrightarrow>
      (\<forall>d \<in> set (connectors_of reg (ce_system c)). overlap_error c d = None)"
    by (simp add: first_error_None_iff)
  then show ?thesis unfolding register_def by (cases "first_error (map (overlap_error c) (connectors_of reg (ce_system c)))") auto
qed

lemma set_dict_put:
  "distinct (map fst d) \<Longrightarrow> set (dict_put k v d) = insert (k, v) {(k', v') \<in> set d. k' \<noteq> k}"
  by (induction k v d rule: dict_put.induct) (auto simp: image_iff)

lemma register_ok:
  assumes "registry_ok reg" and "register c reg = Inr reg'"
  shows "registry_ok reg'"
proof -
  have d: "distinct (map fst reg)" using assms(1) by (simp add: registry_ok_def)
  let ?cs = "connectors_of reg (ce_system c) @ [c]"
  have u: "unambiguous ?cs"
    using assms registry_ok_connectors(1) [OF assms(1)]
    by (simp add: unambiguous_snoc register_Inr overlap_error_None)
  have m: "\<forall>d \<in> set ?cs. ce_system d = ce_system c"
    using registry_ok_connectors(2) [OF assms(1)] by auto
  have reg': "reg' = dict_put (ce_system c) ?cs reg" using assms(2) by (simp add: register_Inr)
  have "cs \<noteq> [] \<and> unambiguous cs \<and> (\<forall>c \<in> set cs. ce_system c = s)" if "(s, cs) \<in> set reg'" for s cs
  proof -
    from that consider "s = ce_system c" "cs = ?cs" | "(s, cs) \<in> set reg"
      unfolding reg' set_dict_put [OF d] by blast
    then show ?thesis
    proof cases
      case 1
      then show ?thesis using u m by blast
    next
      case 2
      then show ?thesis using assms(1) by (fastforce simp: registry_ok_def)
    qed
  qed
  moreover have "distinct (map fst reg')" using d reg' by simp
  ultimately show ?thesis unfolding registry_ok_def by blast
qed

lemma register_all_ok: "registry_ok reg \<Longrightarrow> register_all cs reg = Inr reg' \<Longrightarrow> registry_ok reg'"
  by (induction cs arbitrary: reg) (auto simp: sbind_Inr dest: register_ok)

lemma unambiguous_filter:
  assumes "unambiguous cs"
    and "\<And>a b. P a \<Longrightarrow> P b \<Longrightarrow> shared a b \<or> wildcard a \<and> wildcard b"
  shows "length (filter P cs) \<le> 1"
  using assms(1)
proof (induction cs rule: rev_induct)
  case (snoc c cs)
  then have u: "unambiguous cs" "\<forall>d \<in> set cs. \<not> shared c d \<and> \<not> (wildcard c \<and> wildcard d)"
    by (simp_all add: unambiguous_snoc)
  show ?case
  proof (cases "P c")
    case True
    then have "filter P cs = []" using u(2) assms(2) by (force simp: filter_empty_conv)
    then show ?thesis by simp
  qed (use snoc u in simp)
qed simp

lemma single_match:
  assumes "unambiguous cs" and "c \<in> set cs" and "P c"
    and "\<And>a b. P a \<Longrightarrow> P b \<Longrightarrow> shared a b \<or> wildcard a \<and> wildcard b"
  shows "filter P cs = [c]"
proof -
  have "c \<in> set (filter P cs)" using assms(2,3) by simp
  moreover have "length (filter P cs) \<le> 1" using assms(1,4) by (rule unambiguous_filter)
  ultimately show ?thesis by (cases "filter P cs"; cases "tl (filter P cs)") auto
qed

lemma resolve_named:
  assumes "registry_ok reg" and "c \<in> set (connectors_of reg s)" and "n \<in> set (ce_capabilities c)"
  shows "resolve reg s (Some n) = Inr c"
proof -
  have "filter (\<lambda>c. n \<in> set (ce_capabilities c)) (connectors_of reg s) = [c]"
    using registry_ok_connectors(1) [OF assms(1)] assms(2,3)
    by (rule single_match) (auto simp: shared_def)
  then show ?thesis using assms(2) by (auto simp: resolve_def Let_def)
qed

lemma resolve_wildcard:
  assumes "registry_ok reg" and "c \<in> set (connectors_of reg s)" and "wildcard c"
    and "\<forall>d \<in> set (connectors_of reg s). n \<notin> set (ce_capabilities d)"
  shows "resolve reg s (Some n) = Inr c"
proof -
  have "filter (\<lambda>c. n \<in> set (ce_capabilities c)) (connectors_of reg s) = []"
    using assms(4) by (auto simp: filter_empty_conv)
  moreover have "filter wildcard (connectors_of reg s) = [c]"
    using registry_ok_connectors(1) [OF assms(1)] assms(2,3) by (rule single_match) auto
  ultimately show ?thesis using assms(2) by (auto simp: resolve_def Let_def)
qed

lemma resolve_Inr:
  assumes "resolve reg s (Some n) = Inr c"
  shows "c \<in> set (connectors_of reg s)
    \<and> (n \<in> set (ce_capabilities c) \<or> wildcard c \<and> (\<forall>d \<in> set (connectors_of reg s). n \<notin> set (ce_capabilities d)))"
proof -
  let ?named = "filter (\<lambda>c. n \<in> set (ce_capabilities c)) (connectors_of reg s)"
  from assms consider "?named = [c]" | "?named = []" "filter wildcard (connectors_of reg s) = [c]"
    by (auto simp: resolve_def Let_def split: if_splits list.splits)
  then show ?thesis
  proof cases
    case 1
    then have "c \<in> set ?named" by simp
    then show ?thesis by simp
  next
    case 2
    from 2(2) have "c \<in> set (filter wildcard (connectors_of reg s))" by simp
    then show ?thesis using 2(1) by (auto simp: filter_empty_conv)
  qed
qed

lemma never_ambiguous:
  assumes "registry_ok reg"
  shows "resolve reg s (Some n) \<noteq> Inl (Exn ConnectorError ''multiple connectors registered for capability'')"
proof -
  have "length (filter (\<lambda>c. n \<in> set (ce_capabilities c)) (connectors_of reg s)) \<le> 1"
    using registry_ok_connectors(1) [OF assms] by (rule unambiguous_filter) (auto simp: shared_def)
  then show ?thesis by (auto simp: resolve_def Let_def split: list.splits)
qed

end
