(* ===== verification/Governance.thy ===== *)
theory Governance
  imports Capability_Catalog Policy
begin

text \<open>
  The organization governance profile (governance.py): rules by capability pattern, the choice of the
  most specific rule, the checks of an action, the number of approvers, direct read sessions and the
  coverage report over a catalog. \<open>fnmatch\<close> is read as on a POSIX host, where it does not fold case.
  The egress policy of a profile is a value of type \<open>'m\<close> that the loader obtains from its argument
  \<open>parse_context\<close>.
\<close>

datatype environment_kind = DEVELOPMENT | NON_PRODUCTION | PRODUCTION

fun environment_str :: "environment_kind \<Rightarrow> string" where
  "environment_str DEVELOPMENT = ''development''"
| "environment_str NON_PRODUCTION = ''non_production''"
| "environment_str PRODUCTION = ''production''"

definition environment_members :: "(string \<times> environment_kind) list" where
  "environment_members =
     map (\<lambda>e. (environment_str e, e)) [DEVELOPMENT, NON_PRODUCTION, PRODUCTION]"

datatype approval_tier = AUTOMATIC | SINGLE | DUAL | PROHIBITED

fun tier_str :: "approval_tier \<Rightarrow> string" where
  "tier_str AUTOMATIC = ''automatic''"
| "tier_str SINGLE = ''single''"
| "tier_str DUAL = ''dual''"
| "tier_str PROHIBITED = ''prohibited''"

definition tier_members :: "(string \<times> approval_tier) list" where
  "tier_members = map (\<lambda>t. (tier_str t, t)) [AUTOMATIC, SINGLE, DUAL, PROHIBITED]"

record governance_rule =
  gr_pattern :: string
  gr_owner :: string
  gr_authentication :: string
  gr_data_classifications :: "data_classification list"
  gr_approval_tier :: approval_tier
  gr_environments :: "environment_kind list"
  gr_enabled :: bool

definition mk_rule :: "governance_rule \<Rightarrow> exn + governance_rule" where
  "mk_rule r =
     checked
       [fail_if (blank (gr_pattern r)) (misconfigured ''governance rule pattern must not be empty''),
        fail_if (blank (gr_owner r)) (misconfigured ''governance owner must not be empty''),
        fail_if (blank (gr_authentication r))
          (misconfigured ''governance authentication must not be empty''),
        fail_if (gr_data_classifications r = [])
          (misconfigured ''governance data classifications are required''),
        fail_if (gr_environments r = []) (misconfigured ''governance environments are required'')] r"

definition wildcards :: "string \<Rightarrow> int" where
  "wildcards p = int (length (filter (\<lambda>c. c = CHR ''*'' \<or> c = CHR ''?'') p))"

definition specificity :: "governance_rule \<Rightarrow> int \<times> int \<times> int" where
  "specificity r =
     (let n = int (py_len (gr_pattern r)); w = wildcards (gr_pattern r) in (n - w, - w, n))"

text \<open>Python compares tuples lexicographically.\<close>

fun more_specific :: "int \<times> int \<times> int \<Rightarrow> int \<times> int \<times> int \<Rightarrow> bool" where
  "more_specific (a, b, c) (a', b', c') = (a > a' \<or> a = a' \<and> (b > b' \<or> b = b' \<and> c > c'))"

record 'm governance_profile =
  gp_organization :: string
  gp_environment :: environment_kind
  gp_secret_manager :: string
  gp_audit_sink :: string
  gp_external_model_policy :: string
  gp_rules :: "governance_rule list"
  gp_metadata :: json_object
  gp_model_context :: "'m option"

definition mk_profile :: "'m governance_profile \<Rightarrow> exn + 'm governance_profile" where
  "mk_profile p =
     checked
       [fail_if (blank (gp_organization p)) (misconfigured ''governance organization must not be empty''),
        fail_if (blank (gp_secret_manager p)) (misconfigured ''governance secret_manager must not be empty''),
        fail_if (blank (gp_audit_sink p)) (misconfigured ''governance audit_sink must not be empty''),
        fail_if (blank (gp_external_model_policy p))
          (misconfigured ''governance external_model_policy must not be empty'')] p"

subsection \<open>Loading a profile\<close>

text \<open>Raised inside the \<open>try\<close> of a rule: lookup and enum errors become configuration errors.\<close>

definition rule_error :: "exn \<Rightarrow> exn" where
  "rule_error e =
     (if caught_by [KeyError, ValueError] e
      then misconfigured ''governance rule contains an invalid enum value'' else e)"

definition map_error :: "('e \<Rightarrow> 'e) \<Rightarrow> 'e + 'a \<Rightarrow> 'e + 'a" where
  "map_error f r = (case r of Inl e \<Rightarrow> Inl (f e) | Inr x \<Rightarrow> Inr x)"

definition enum_list :: "host \<Rightarrow> (string \<times> 'a) list \<Rightarrow> json option \<Rightarrow> exn + 'a list" where
  "enum_list h members v =
     (case v of
        None \<Rightarrow> Inr []
      | Some j \<Rightarrow> sbind (py_iter j) (\<lambda>js. smap (\<lambda>i. parse_enum members (py_str h i)) js))"

definition governance_bool :: "json option \<Rightarrow> exn + bool" where
  "governance_bool v =
     (case v of
        None \<Rightarrow> Inr True
      | Some (JBool b) \<Rightarrow> Inr b
      | Some _ \<Rightarrow> Inl (misconfigured ''governance rule enabled must be a boolean''))"

definition rule_of_entry :: "host \<Rightarrow> json \<Rightarrow> exn + governance_rule" where
  "rule_of_entry h entry =
     (case entry of
        JObj value \<Rightarrow>
          sbind (map_error rule_error
            (sbind (enum_list h classification_members (obj_get value ''data_classifications'')) (\<lambda>cs.
             sbind (enum_list h environment_members (obj_get value ''environments'')) (\<lambda>es.
             sbind (need_str h value ''approval_tier'') (\<lambda>t.
             sbind (parse_enum tier_members t) (\<lambda>tier. Inr (cs, es, tier))))))) (\<lambda>(cs, es, tier).
          sbind (governance_bool (obj_get value ''enabled'')) (\<lambda>enabled.
          mk_rule \<lparr>gr_pattern = get_str h value ''pattern'' [], gr_owner = get_str h value ''owner'' [],
                   gr_authentication = get_str h value ''authentication'' [],
                   gr_data_classifications = cs, gr_approval_tier = tier, gr_environments = es,
                   gr_enabled = enabled\<rparr>))
      | _ \<Rightarrow> Inl (misconfigured ''governance rule must be a table''))"

definition organization_keys :: "string list" where
  "organization_keys =
     [''name'', ''environment'', ''secret_manager'', ''audit_sink'', ''external_model_policy'']"

definition profile_from_toml ::
  "host \<Rightarrow> (json_object \<Rightarrow> exn + 'm) \<Rightarrow> json_object \<Rightarrow> exn + 'm governance_profile"
where
  "profile_from_toml h parse_context raw =
     sbind (table_of raw ''organization'') (\<lambda>organization.
     sbind (case obj_get raw ''rules'' of
              None \<Rightarrow> Inr []
            | Some (JList js) \<Rightarrow> Inr js
            | Some _ \<Rightarrow> Inl (misconfigured ''[[rules]] must be a TOML array of tables'')) (\<lambda>raw_rules.
     sbind (smap (rule_of_entry h) raw_rules) (\<lambda>rules.
     sbind (case obj_get raw ''model_context'' of
              None \<Rightarrow> Inr None
            | Some (JObj kvs) \<Rightarrow> Inr (Some kvs)
            | Some _ \<Rightarrow> Inl (misconfigured ''[model_context] must be a TOML table'')) (\<lambda>raw_context.
     sbind (parse_enum environment_members (get_str h organization ''environment'' ''development''))
       (\<lambda>environment.
     sbind (case raw_context of
              None \<Rightarrow> Inr None
            | Some kvs \<Rightarrow> sbind (parse_context kvs) (\<lambda>c. Inr (Some c))) (\<lambda>context1.
     mk_profile
       \<lparr>gp_organization = get_str h organization ''name'' [], gp_environment = environment,
        gp_secret_manager = get_str h organization ''secret_manager'' [],
        gp_audit_sink = get_str h organization ''audit_sink'' [],
        gp_external_model_policy = get_str h organization ''external_model_policy'' [],
        gp_rules = rules,
        gp_metadata = filter (\<lambda>(k, v). k \<notin> set organization_keys) organization,
        gp_model_context = context1\<rparr>))))))"

subsection \<open>The rule of a capability\<close>

fun first_best :: "governance_rule \<Rightarrow> governance_rule list \<Rightarrow> governance_rule" where
  "first_best best [] = best"
| "first_best best (r # rs) =
     first_best (if more_specific (specificity r) (specificity best) then r else best) rs"

definition rule_for :: "'m governance_profile \<Rightarrow> string \<Rightarrow> governance_rule option" where
  "rule_for p capability =
     (case filter (\<lambda>r. fnmatch capability (gr_pattern r)) (gp_rules p) of
        [] \<Rightarrow> None
      | r # rs \<Rightarrow> Some (first_best r rs))"

definition governance_validate_action :: "'m governance_profile \<Rightarrow> agent_action \<Rightarrow> verdict" where
  "governance_validate_action p a =
     (case rule_for p (ac_capability a) of
        None \<Rightarrow> (False, ''no governance owner/rule covers '' @ ac_capability a)
      | Some r \<Rightarrow>
          if \<not> gr_enabled r then (False, ''governance rule disables '' @ ac_capability a)
          else if gp_environment p \<notin> set (gr_environments r)
          then (False, ''capability '' @ ac_capability a @ '' is not allowed in ''
                  @ environment_str (gp_environment p))
          else if ac_data_classification a \<notin> set (gr_data_classifications r)
          then (False, ''data classification '' @ classification_str (ac_data_classification a)
                  @ '' is not allowed for '' @ ac_capability a)
          else if gr_approval_tier r = PROHIBITED
          then (False, ''governance prohibits '' @ ac_capability a)
          else if gr_approval_tier r = AUTOMATIC \<and> ac_risk a \<noteq> READ_ONLY \<and> ac_risk a \<noteq> LOCAL_GENERATION
          then (False, ''write capability '' @ ac_capability a
                  @ '' cannot use automatic governance approval'')
          else (True, ''governed by '' @ gr_owner r @ '' ('' @ tier_str (gr_approval_tier r) @ '')''))"

definition validate_external_model ::
  "'m governance_profile \<Rightarrow> agent_action \<Rightarrow> capability_definition \<Rightarrow> verdict"
where
  "validate_external_model p a d =
     (if \<not> df_uses_external_model d then (True, ''capability does not use an external model'')
      else case (case obj_get (gp_metadata p) ''external_model_approved_classifications'' of
                   None \<Rightarrow> Some []
                 | Some (JList js) \<Rightarrow> json_strings js
                 | Some _ \<Rightarrow> None) of
        None \<Rightarrow> (False, ''external-model approved classifications are invalid'')
      | Some allowed \<Rightarrow>
          if classification_str (ac_data_classification a) \<notin> set allowed
          then (False, ''external-model policy '' @ gp_external_model_policy p
                  @ '' does not approve '' @ classification_str (ac_data_classification a)
                  @ '' data for '' @ ac_capability a)
          else (True, ''external-model policy explicitly permits this classification''))"

definition approval_tier_for :: "'m governance_profile \<Rightarrow> string \<Rightarrow> approval_tier option" where
  "approval_tier_for p capability = map_option gr_approval_tier (rule_for p capability)"

definition minimum_approvers :: "'m governance_profile \<Rightarrow> string \<Rightarrow> exn + int" where
  "minimum_approvers p capability =
     (case rule_for p capability of
        None \<Rightarrow> Inl (misconfigured (''no governance owner/rule covers '' @ capability))
      | Some r \<Rightarrow>
          if \<not> gr_enabled r then Inl (misconfigured (''governance prohibits '' @ capability))
          else (case gr_approval_tier r of
             PROHIBITED \<Rightarrow> Inl (misconfigured (''governance prohibits '' @ capability))
           | AUTOMATIC \<Rightarrow> Inr 0
           | SINGLE \<Rightarrow> Inr 1
           | DUAL \<Rightarrow> Inr 2))"

definition direct_read_action :: "agent_action \<Rightarrow> string option" where
  "direct_read_action a =
     (if ac_risk a \<noteq> READ_ONLY then Some ''direct read sessions permit read-only actions only''
      else if ac_authority_source a \<noteq> DIRECT_USER
      then Some ''direct read sessions require direct-user authority''
      else if ac_requires_approval a
      then Some ''direct read sessions cannot carry approval-required actions''
      else None)"

definition allows_direct_read_session :: "'m governance_profile \<Rightarrow> change_plan \<Rightarrow> verdict" where
  "allows_direct_read_session p plan =
     (case obj_get (gp_metadata p) ''allow_ephemeral_direct_reads'' of
        None \<Rightarrow> (False, ''governance disables direct read sessions'')
      | Some (JBool allowed) \<Rightarrow>
          if \<not> allowed then (False, ''governance disables direct read sessions'')
          else if cp_execution_context plan \<noteq> None
          then (False, ''direct read sessions must not use an execution context'')
          else if cp_workflow_id plan \<noteq> None \<or> cp_workflow_fingerprint plan \<noteq> None
          then (False, ''direct read sessions cannot execute a registered workflow'')
          else if cp_compensate_on_failure plan
          then (False, ''direct read sessions cannot request compensation'')
          else if length (remdups (map (\<lambda>a. rr_system (ac_target a)) (cp_actions plan))) \<noteq> 1
          then (False, ''direct read sessions require exactly one provider'')
          else (case first_error (map direct_read_action (cp_actions plan)) of
             Some m \<Rightarrow> (False, m)
           | None \<Rightarrow> (True, ''governance permits an ephemeral direct read session''))
      | Some _ \<Rightarrow> (False, ''allow_ephemeral_direct_reads must be a boolean''))"

subsection \<open>Coverage of a catalog\<close>

definition coverage_errors :: "'m governance_profile \<Rightarrow> string \<times> capability_definition \<Rightarrow> string list" where
  "coverage_errors p nd =
     (case nd of (name, d) \<Rightarrow>
       (case rule_for p name of
          None \<Rightarrow> [''no governance rule covers '' @ name]
        | Some r \<Rightarrow>
            (if df_enabled d \<and> \<not> gr_enabled r
             then [''enabled catalog capability is disabled by governance: '' @ name] else [])
            @ (if df_authentication d \<noteq> gr_authentication r \<and> gr_authentication r \<noteq> ''provider_specific''
               then [''authentication mismatch for '' @ name @ '': catalog='' @ df_authentication d
                     @ '', governance='' @ gr_authentication r] else [])))"

definition coverage_entry :: "'m governance_profile \<Rightarrow> string \<times> capability_definition \<Rightarrow> json list" where
  "coverage_entry p nd =
     (case nd of (name, d) \<Rightarrow>
       (case rule_for p name of
          None \<Rightarrow> []
        | Some r \<Rightarrow>
            [JObj [(''capability'', JStr name), (''catalog_enabled'', JBool (df_enabled d)),
                   (''owner'', JStr (gr_owner r)),
                   (''approval_tier'', JStr (tier_str (gr_approval_tier r))),
                   (''governance_enabled'', JBool (gr_enabled r)),
                   (''environment_allowed'', JBool (gp_environment p \<in> set (gr_environments r)))]]))"

definition coverage_report :: "'m governance_profile \<Rightarrow> catalog \<Rightarrow> json_object" where
  "coverage_report p catalog =
     (let entries = sort_key fst catalog; errors = concat (map (coverage_errors p) entries) in
      [(''organization'', JStr (gp_organization p)),
       (''environment'', JStr (environment_str (gp_environment p))),
       (''secret_manager'', JStr (gp_secret_manager p)), (''audit_sink'', JStr (gp_audit_sink p)),
       (''external_model_policy'', JStr (gp_external_model_policy p)),
       (''covered'', JList (concat (map (coverage_entry p) entries))),
       (''errors'', strings errors), (''ready'', JBool (errors = []))])"

subsection \<open>The chosen rule is the first of the most specific ones\<close>

definition at_least :: "governance_rule \<Rightarrow> governance_rule \<Rightarrow> bool" where
  "at_least r s = (\<not> more_specific (specificity s) (specificity r))"

lemma at_least_refl [simp]: "at_least r r"
  by (cases "specificity r") (simp add: at_least_def)

lemma at_least_trans: "at_least r s \<Longrightarrow> at_least s t \<Longrightarrow> at_least r t"
  by (cases "specificity r"; cases "specificity s"; cases "specificity t") (auto simp: at_least_def)

lemma more_specific_at_least: "more_specific (specificity r) (specificity s) \<Longrightarrow> at_least r s"
  by (cases "specificity r"; cases "specificity s") (auto simp: at_least_def)

lemma first_best_max: "first_best b rs \<in> set (b # rs) \<and> (\<forall>s \<in> set (b # rs). at_least (first_best b rs) s)"
proof (induction b rs rule: first_best.induct)
  case (2 best r rs)
  show ?case
  proof (cases "more_specific (specificity r) (specificity best)")
    case True
    then have "at_least r best" by (rule more_specific_at_least)
    then show ?thesis using 2 True by (auto intro: at_least_trans)
  next
    case False
    then have "at_least best r" by (simp add: at_least_def)
    then show ?thesis using 2 False by (auto intro: at_least_trans)
  qed
qed simp

lemma rule_for_Some:
  assumes "rule_for p capability = Some r"
  shows "r \<in> set (gp_rules p) \<and> fnmatch capability (gr_pattern r)
    \<and> (\<forall>s \<in> set (gp_rules p). fnmatch capability (gr_pattern s) \<longrightarrow> at_least r s)"
proof -
  obtain b rs where f: "filter (\<lambda>r. fnmatch capability (gr_pattern r)) (gp_rules p) = b # rs"
    and r: "r = first_best b rs"
    using assms by (auto simp: rule_for_def split: list.splits)
  have m: "set (b # rs) = {s \<in> set (gp_rules p). fnmatch capability (gr_pattern s)}"
    by (metis f set_filter)
  show ?thesis using first_best_max [of b rs] unfolding r m by blast
qed

lemma rule_for_None:
  "rule_for p capability = None \<longleftrightarrow> (\<forall>r \<in> set (gp_rules p). \<not> fnmatch capability (gr_pattern r))"
proof -
  have "rule_for p capability = None \<longleftrightarrow> filter (\<lambda>r. fnmatch capability (gr_pattern r)) (gp_rules p) = []"
    by (simp add: rule_for_def split: list.split)
  then show ?thesis by (simp add: filter_empty_conv)
qed

lemma governed_approvers:
  assumes "fst (governance_validate_action p a)"
  shows "\<exists>n. minimum_approvers p (ac_capability a) = Inr n \<and> 0 \<le> n \<and> n \<le> 2
    \<and> (ac_risk a \<noteq> READ_ONLY \<longrightarrow> ac_risk a \<noteq> LOCAL_GENERATION \<longrightarrow> 1 \<le> n)"
  using assms
  by (auto simp: governance_validate_action_def minimum_approvers_def
      split: option.splits if_splits approval_tier.splits)

lemma direct_read_session_sound:
  assumes "fst (allows_direct_read_session p plan)"
  shows "cp_execution_context plan = None \<and> \<not> cp_compensate_on_failure plan \<and> cp_workflow_id plan = None
    \<and> (\<forall>a \<in> set (cp_actions plan). ac_risk a = READ_ONLY \<and> ac_authority_source a = DIRECT_USER
          \<and> \<not> ac_requires_approval a)
    \<and> (\<exists>s. \<forall>a \<in> set (cp_actions plan). rr_system (ac_target a) = s)"
proof -
  have checks: "cp_execution_context plan = None" "cp_workflow_id plan = None" "\<not> cp_compensate_on_failure plan"
    and one: "length (remdups (map (\<lambda>a. rr_system (ac_target a)) (cp_actions plan))) = 1"
    and each: "first_error (map direct_read_action (cp_actions plan)) = None"
    using assms by (auto simp: allows_direct_read_session_def split: option.splits json.splits if_splits)
  from one obtain s where "remdups (map (\<lambda>a. rr_system (ac_target a)) (cp_actions plan)) = [s]"
    by (auto simp: length_Suc_conv)
  then have "set (map (\<lambda>a. rr_system (ac_target a)) (cp_actions plan)) = {s}" by (metis empty_set list.simps(15) set_remdups)
  moreover have "ac_risk a = READ_ONLY \<and> ac_authority_source a = DIRECT_USER \<and> \<not> ac_requires_approval a"
    if "a \<in> set (cp_actions plan)" for a
  proof -
    have "direct_read_action a = None" using each that by (simp add: first_error_None_iff)
    then show ?thesis by (simp add: direct_read_action_def split: if_splits)
  qed
  ultimately show ?thesis using checks by auto
qed

lemma coverage_ready:
  "obj_get (coverage_report p catalog) ''ready'' = Some (JBool True) \<longleftrightarrow>
     (\<forall>(n, d) \<in> set catalog. \<exists>r. rule_for p n = Some r \<and> (df_enabled d \<longrightarrow> gr_enabled r)
        \<and> (gr_authentication r = df_authentication d \<or> gr_authentication r = ''provider_specific''))"
proof -
  have "obj_get (coverage_report p catalog) ''ready'' = Some (JBool True) \<longleftrightarrow>
      (\<forall>nd \<in> set catalog. coverage_errors p nd = [])"
    by (simp add: coverage_report_def Let_def obj_get_simps)
  moreover have "coverage_errors p (n, d) = [] \<longleftrightarrow> (\<exists>r. rule_for p n = Some r \<and> (df_enabled d \<longrightarrow> gr_enabled r)
        \<and> (gr_authentication r = df_authentication d \<or> gr_authentication r = ''provider_specific''))" for n d
    by (cases "rule_for p n") (auto simp: coverage_errors_def)
  ultimately show ?thesis by fastforce
qed

end
