(* ===== verification/Evidence.thy ===== *)
theory Evidence
  imports Capability_Catalog
begin

text \<open>
  Audit-safe summaries (evidence.py) and the prompt-injection scanner (security.py). The values are
  the frozen JSON values that action results hold. The regular expressions of the scanner are
  searched by the host, which answers with the span of the first match in code points.
\<close>

subsection \<open>Digests and summaries\<close>

definition sensitive_keys :: "string list" where
  "sensitive_keys =
     [''authorization'', ''access_token'', ''refresh_token'', ''api_token'', ''token'', ''secret'',
      ''password'', ''client_secret'']"

definition known_error_codes :: "(string \<times> string) list" where
  "known_error_codes =
     [(''ApprovalRequiredError'', ''approval_required''),
      (''AuthenticationError'', ''authentication_failed''),
      (''AuthorizationError'', ''authorization_failed''),
      (''ConfigurationError'', ''configuration_failed''),
      (''ConnectorError'', ''connector_failed''),
      (''ConnectorHttpError'', ''connector_http_failed''),
      (''HttpRequestError'', ''http_request_failed''),
      (''PolicyDeniedError'', ''policy_denied''),
      (''RateLimitError'', ''rate_limited''),
      (''ResourceNotFoundError'', ''resource_not_found''),
      (''ValidationError'', ''validation_failed''),
      (''VerificationError'', ''verification_failed''),
      (''VersionConflictError'', ''version_conflict'')]"

definition redacted_mark :: json where
  "redacted_mark = JStr ''<redacted>''"

text \<open>\<open>hashlib.sha256(text.encode("utf-8")).hexdigest()\<close>.\<close>

definition text_digest :: "host \<Rightarrow> string \<Rightarrow> exn + digest" where
  "text_digest h s =
     (if has_surrogate s then Inl (Exn ValueError ''surrogates not allowed'') else Inr (h_sha256 h s))"

definition content_digest :: "host \<Rightarrow> json \<Rightarrow> exn + digest" where
  "content_digest h v = text_digest h (stable_json v)"

definition code_chunk :: "string \<Rightarrow> bool" where
  "code_chunk c = (lower_chunk c \<or> digit_chunk c \<or> c = ''_'')"

definition code_text :: "host \<Rightarrow> string \<Rightarrow> string" where
  "code_text h s =
     concat (strip_underscores (collapse (\<lambda>c. \<not> code_chunk c) (chunks (h_casefold h s))))"

definition reason_code :: "host \<Rightarrow> string \<Rightarrow> string \<Rightarrow> string" where
  "reason_code h message default_code =
     (let known = (case map_of known_error_codes (py_strip (takeWhile (\<lambda>c. c \<noteq> CHR '':'') message)) of
                     Some code \<Rightarrow> code | None \<Rightarrow> default_code);
          code = code_text h (if prefix ''verification failed'' (h_casefold h message)
                              then ''verification_failed'' else known)
      in if code = [] then ''unspecified'' else code)"

definition audit_message_metadata :: "host \<Rightarrow> string \<Rightarrow> string \<Rightarrow> exn + json_object" where
  "audit_message_metadata h message default_code =
     sbind (text_digest h message) (\<lambda>d.
     Inr [(''reason_code'', JStr (reason_code h message default_code)),
          (''message_digest'', JStr d),
          (''message_length'', JInt (int (py_len message)))])"

text \<open>\<open>urlparse\<close> splits the parameters off the last path segment and \<open>geturl\<close> joins them again; an
  empty parameter part is lost on the way.\<close>

definition last_segment :: "string \<Rightarrow> string" where
  "last_segment p = rev (takeWhile (\<lambda>c. c \<noteq> CHR ''/'') (rev p))"

definition rejoin_parameters :: "string \<Rightarrow> string" where
  "rejoin_parameters p =
     (if p \<noteq> [] \<and> last p = CHR '';'' \<and> CHR '';'' \<notin> set (butlast (last_segment p)) then butlast p else p)"

definition reference_summary :: "host \<Rightarrow> string option \<Rightarrow> exn + json" where
  "reference_summary h v =
     (case v of
        None \<Rightarrow> Inr JNull
      | Some s \<Rightarrow>
          (case h_urlsplit h s of
             None \<Rightarrow> Inl (Exn ValueError ''invalid URL'')
           | Some u \<Rightarrow>
               let safe = (if url_scheme u \<in> {''http'', ''https''}
                           then h_urlunsplit h (url_scheme u) (url_netloc u) (rejoin_parameters (url_path u))
                           else s)
               in sbind (text_digest h s) (\<lambda>d.
                  Inr (JObj [(''value'', JStr safe), (''digest'', JStr d)]))))"

fun redact_secrets :: "host \<Rightarrow> json \<Rightarrow> json" where
  "redact_secrets h (JObj kvs) =
     JObj (map (\<lambda>kv. (fst kv, if h_lower h (fst kv) \<in> set sensitive_keys then redacted_mark
                              else redact_secrets h (snd kv))) kvs)"
| "redact_secrets h (JList xs) = JList (map (redact_secrets h) xs)"
| "redact_secrets h j = j"

definition count_entry :: "json_object \<Rightarrow> string \<Rightarrow> json_object" where
  "count_entry v k =
     (case obj_get v k of
        Some (JInt i) \<Rightarrow> [(k, JInt i)] | Some (JBool b) \<Rightarrow> [(k, JBool b)] | _ \<Rightarrow> [])"

definition schema_entry :: "json_object \<Rightarrow> json_object" where
  "schema_entry v = (case obj_get v ''schema'' of Some (JStr s) \<Rightarrow> [(''schema'', JStr s)] | _ \<Rightarrow> [])"

definition mapping_summary :: "host \<Rightarrow> json_object option \<Rightarrow> exn + json" where
  "mapping_summary h value =
     (case value of
        None \<Rightarrow> Inr JNull
      | Some v \<Rightarrow>
          sbind (content_digest h (redact_secrets h (JObj v))) (\<lambda>d.
          Inr (JObj ([(''digest'', JStr d),
                      (''keys'', strings (take 50 (sort (map fst v)))),
                      (''key_count'', JInt (int (length v)))]
                     @ concat (map (count_entry v) [''count'', ''total'', ''returned''])
                     @ schema_entry v))))"

definition result_audit_summary :: "host \<Rightarrow> execution_result \<Rightarrow> exn + json_object" where
  "result_audit_summary h r =
     sbind (reference_summary h (er_connector_reference r)) (\<lambda>reference.
     sbind (audit_message_metadata h (er_message r) ''connector_result'') (\<lambda>metadata.
     sbind (mapping_summary h (er_before r)) (\<lambda>before.
     sbind (mapping_summary h (er_after r)) (\<lambda>after.
     Inr ([(''action_id'', JStr (er_action_id r)), (''state'', JStr (state_str (er_state r))),
           (''connector_reference'', reference)]
          @ metadata @ [(''before'', before), (''after'', after)])))))"

subsection \<open>The prompt-injection scanner\<close>

record security_finding =
  sf_category :: string
  sf_excerpt :: string
  sf_severity :: string

definition injection_patterns :: "(string \<times> string \<times> string) list" where
  "injection_patterns =
     [(''instruction_override'', ''high'',
       [CHR 0x5C] @ ''b(ignore|disregard|override)'' @ [CHR 0x5C] @ ''b.{0,80}'' @ [CHR 0x5C]
       @ ''b(instructions?|policy|rules?|system|developer)'' @ [CHR 0x5C] @ ''b''),
      (''credential_request'', ''high'',
       [CHR 0x5C] @ ''b(password|api[_ -]?key|access token|secret|credentials?)'' @ [CHR 0x5C] @ ''b''),
      (''external_action_request'', ''medium'',
       [CHR 0x5C] @ ''b(send|email|message|upload|publish|delete|merge|transfer)'' @ [CHR 0x5C]
       @ ''b.{0,80}'' @ [CHR 0x5C] @ ''b(file|document|secret|credential|repository|issue)'' @ [CHR 0x5C]
       @ ''b''),
      (''authority_claim'', ''medium'',
       [CHR 0x5C] @ ''b(you are authorized|approval is not required|act as admin|bypass approval)''
       @ [CHR 0x5C] @ ''b'')]"

definition newline_to_space :: "string \<Rightarrow> string" where
  "newline_to_space s = map (\<lambda>c. if c = CHR 0x0A then CHR '' '' else c) s"

definition excerpt_of :: "string \<Rightarrow> nat \<Rightarrow> nat \<Rightarrow> string" where
  "excerpt_of s a b =
     (let start = a - 40; stop = min (b + 40) (py_len s)
      in py_strip (newline_to_space (concat (take (stop - start) (drop start (chunks s))))))"

definition guard_scan :: "host \<Rightarrow> string \<Rightarrow> security_finding list" where
  "guard_scan h s =
     concat (map (\<lambda>(category, severity, pattern).
       case h_search h pattern s of
         None \<Rightarrow> []
       | Some (a, b) \<Rightarrow>
           [\<lparr>sf_category = category, sf_excerpt = excerpt_of s a b, sf_severity = severity\<rparr>])
       injection_patterns)"

text \<open>The strings of a nested value with their paths, in the order \<open>visit\<close> meets them, and the scan
  over them with the characters that remain of the budget.\<close>

function text_leaves :: "string \<Rightarrow> json \<Rightarrow> (string \<times> string) list" where
  "text_leaves path (JStr s) = [(path, s)]"
| "text_leaves path (JObj kvs) = concat (map (\<lambda>kv. text_leaves (path @ ''.'' @ fst kv) (snd kv)) kvs)"
| "text_leaves path (JList xs) =
     concat (map (\<lambda>(i, x). text_leaves (path @ ''['' @ nat_digits i @ '']'') x) (enumerate 0 xs))"
| "text_leaves path JNull = []"
| "text_leaves path (JBool b) = []"
| "text_leaves path (JInt i) = []"
| "text_leaves path (JFloat fin r) = []"
| "text_leaves path (JOther t) = []"
  by pat_completeness auto
termination
proof (relation "measure (\<lambda>(path, j). size j)", goal_cases)
  case (2 path kvs kv)
  then have "size_prod (\<lambda>_. 0) size kv \<le> size_list (size_prod (\<lambda>_. 0) size) kvs"
    by (rule size_list_estimation') simp
  then show ?case by (cases kv) simp
next
  case (3 path xs ix i x)
  then have "x \<in> set xs" by (auto simp: in_set_enumerate_eq)
  then have "size x \<le> size_list size xs" by (rule size_list_estimation') simp
  then show ?case by simp
qed auto

fun scan_leaves :: "host \<Rightarrow> nat \<Rightarrow> (string \<times> string) list \<Rightarrow> (string \<times> security_finding) list" where
  "scan_leaves h remaining [] = []"
| "scan_leaves h remaining ((path, s) # leaves) =
     (if remaining = 0 then []
      else let candidate = take remaining (chunks s)
           in map (Pair path) (guard_scan h (concat candidate))
              @ scan_leaves h (remaining - length candidate) leaves)"

definition scan_untrusted_value :: "host \<Rightarrow> json \<Rightarrow> (string \<times> security_finding) list" where
  "scan_untrusted_value h v = scan_leaves h 200000 (text_leaves ''$'' v)"

subsection \<open>Summaries do not depend on secrets\<close>

definition redact_member :: "host \<Rightarrow> string \<times> json \<Rightarrow> string \<times> json" where
  "redact_member h kv =
     (fst kv, if h_lower h (fst kv) \<in> set sensitive_keys then redacted_mark else redact_secrets h (snd kv))"

lemma redact_secrets_JObj: "redact_secrets h (JObj kvs) = JObj (map (redact_member h) kvs)"
  by (simp add: redact_member_def)

lemma redact_secrets_idem: "redact_secrets h (redact_secrets h j) = redact_secrets h j"
  by (induction j) (auto simp: redacted_mark_def)

lemma redact_keys: "map (redact_member h) v = map (redact_member h) w \<Longrightarrow> map fst v = map fst w"
  by (drule arg_cong [where f = "map fst"]) (simp add: redact_member_def o_def)

text \<open>A key that the redaction does not touch shows the redacted value of its member.\<close>

lemma redact_visible:
  assumes "map (redact_member h) v = map (redact_member h) w" and "h_lower h k \<notin> set sensitive_keys"
  shows "map_option (redact_secrets h) (obj_get v k) = map_option (redact_secrets h) (obj_get w k)"
proof -
  have "map_option (redact_secrets h) (obj_get u k) = obj_get (map (redact_member h) u) k" for u
    using assms(2) by (induction u) (auto simp: obj_get_def redact_member_def)
  then show ?thesis using assms(1) by metis
qed

lemma redact_scalar:
  "redact_secrets h j = JInt i \<longleftrightarrow> j = JInt i" "redact_secrets h j = JBool b \<longleftrightarrow> j = JBool b"
  "redact_secrets h j = JStr s \<longleftrightarrow> j = JStr s"
  by (cases j; simp)+

lemma count_entry_redacted:
  assumes "map_option (redact_secrets h) (obj_get v k) = map_option (redact_secrets h) (obj_get w k)"
  shows "count_entry v k = count_entry w k"
proof -
  have "count_entry u k = (case map_option (redact_secrets h) (obj_get u k) of
      Some (JInt i) \<Rightarrow> [(k, JInt i)] | Some (JBool b) \<Rightarrow> [(k, JBool b)] | _ \<Rightarrow> [])" for u
    by (auto simp: count_entry_def split: option.split json.split)
  then show ?thesis using assms by metis
qed

lemma schema_entry_redacted:
  assumes "map_option (redact_secrets h) (obj_get v ''schema'') = map_option (redact_secrets h) (obj_get w ''schema'')"
  shows "schema_entry v = schema_entry w"
proof -
  have "schema_entry u = (case map_option (redact_secrets h) (obj_get u ''schema'') of
      Some (JStr s) \<Rightarrow> [(''schema'', JStr s)] | _ \<Rightarrow> [])" for u
    by (auto simp: schema_entry_def split: option.split json.split)
  then show ?thesis using assms by metis
qed

definition reported_keys :: "string list" where
  "reported_keys = [''count'', ''total'', ''returned'', ''schema'']"

lemma mapping_summary_hides:
  assumes "redact_secrets h (JObj v) = redact_secrets h (JObj w)"
    and "\<forall>k \<in> set reported_keys. h_lower h k \<notin> set sensitive_keys"
  shows "mapping_summary h (Some v) = mapping_summary h (Some w)"
proof -
  have m: "map (redact_member h) v = map (redact_member h) w"
    using assms(1) by (simp only: redact_secrets_JObj json.inject)
  have keys: "map fst v = map fst w" by (rule redact_keys [OF m])
  have len: "length v = length w" using m map_eq_imp_length_eq by blast
  have "count_entry v k = count_entry w k" if "k \<in> {''count'', ''total'', ''returned''}" for k
    by (rule count_entry_redacted, rule redact_visible [OF m]) (use that assms(2) in \<open>auto simp: reported_keys_def\<close>)
  moreover have "schema_entry v = schema_entry w"
    by (rule schema_entry_redacted, rule redact_visible [OF m]) (use assms(2) in \<open>simp add: reported_keys_def\<close>)
  ultimately show ?thesis by (simp add: mapping_summary_def assms(1) keys len del: redact_secrets.simps)
qed

text \<open>Two result states agree up to the values under sensitive keys.\<close>

definition same_visible :: "host \<Rightarrow> json_object option \<Rightarrow> json_object option \<Rightarrow> bool" where
  "same_visible h v w = (map_option (\<lambda>x. redact_secrets h (JObj x)) v = map_option (\<lambda>x. redact_secrets h (JObj x)) w)"

lemma summary_hides:
  assumes "same_visible h v w" and "\<forall>k \<in> set reported_keys. h_lower h k \<notin> set sensitive_keys"
  shows "mapping_summary h v = mapping_summary h w"
proof (cases v; cases w)
  fix x y assume vw: "v = Some x" "w = Some y"
  then have "redact_secrets h (JObj x) = redact_secrets h (JObj y)" using assms(1) by (simp add: same_visible_def)
  then show ?thesis unfolding vw by (rule mapping_summary_hides [OF _ assms(2)])
qed (use assms(1) in \<open>simp_all add: same_visible_def\<close>)

lemma audit_summary_hides:
  assumes "same_visible h b (er_before r)" and "same_visible h a (er_after r)"
    and "\<forall>k \<in> set reported_keys. h_lower h k \<notin> set sensitive_keys"
  shows "result_audit_summary h (r\<lparr>er_before := b, er_after := a\<rparr>) = result_audit_summary h r"
  using summary_hides [OF assms(1,3)] summary_hides [OF assms(2,3)] by (simp add: result_audit_summary_def)

end
