(* ===== verification/Provider_Egress.thy ===== *)
theory Provider_Egress
  imports Governance Evidence "HOL-Library.Product_Lexorder"
begin

text \<open>
  The provider-data policy at the model-context boundary (provider_egress.py): the typed rules and
  their loader, the selection of the one most specific rule, and the binding that authorises one
  provider read. A frozen set is the sorted list of its elements. Confidential and restricted data
  is only ever permitted on the audited route with an explicit list of fields, and a persisted
  binding is read back as it was.
\<close>

subsection \<open>Rules\<close>

definition MAX_RULE_ITEMS :: nat where "MAX_RULE_ITEMS = 128"
definition MAX_RULE_TEXT :: nat where "MAX_RULE_TEXT = 256"
definition MAX_RUN_ARTIFACT_BYTES :: int where "MAX_RUN_ARTIFACT_BYTES = 64 * 1024 * 1024"

datatype provider_route = EPHEMERAL | AUDITED

fun provider_route_str :: "provider_route \<Rightarrow> string" where
  "provider_route_str EPHEMERAL = ''ephemeral''"
| "provider_route_str AUDITED = ''audited''"

definition provider_route_members :: "(string \<times> provider_route) list" where
  "provider_route_members = map (\<lambda>r. (provider_route_str r, r)) [EPHEMERAL, AUDITED]"

datatype provider_handling = ALLOW | REDACT | DENY

fun handling_str :: "provider_handling \<Rightarrow> string" where
  "handling_str ALLOW = ''allow''"
| "handling_str REDACT = ''redact''"
| "handling_str DENY = ''deny''"

definition handling_members :: "(string \<times> provider_handling) list" where
  "handling_members = map (\<lambda>r. (handling_str r, r)) [ALLOW, REDACT, DENY]"

definition egress_text :: "host \<Rightarrow> string \<Rightarrow> string \<Rightarrow> exn option" where
  "egress_text h value name =
     first_error
       [fail_if (value = [] \<or> \<not> trimmed value \<or> py_len value > MAX_RULE_TEXT)
          (misconfigured (name @ '' must be a bounded normalized string'')),
        fail_if (\<not> h_isprintable h value) (misconfigured (name @ '' must contain printable characters''))]"

record model_rule =
  mr_name :: string
  mr_providers :: "string list"
  mr_capabilities :: "string list"
  mr_data_classifications :: "data_classification list"
  mr_destinations :: "string list"
  mr_model_tenancies :: "string list"
  mr_routes :: "provider_route list"
  mr_handling :: provider_handling
  mr_audit_required :: bool
  mr_dlp_required :: bool
  mr_redacted_fields :: "string list"
  mr_allowed_fields :: "string list"
  mr_max_items :: int
  mr_max_output_bytes :: int

definition rule_values :: "host \<Rightarrow> string \<Rightarrow> string \<Rightarrow> string list \<Rightarrow> exn option" where
  "rule_values h name label values =
     first_error
       ([fail_if (values = []) (misconfigured (''model-context rule '' @ name @ '' requires '' @ label)),
         fail_if (length values > MAX_RULE_ITEMS)
           (misconfigured (''model-context rule '' @ name @ '' has too many '' @ label))]
        @ map (\<lambda>v. egress_text h v (''model-context rule '' @ name @ '' '' @ label)) values)"

definition high_sensitivity :: "model_rule \<Rightarrow> bool" where
  "high_sensitivity r =
     (CONFIDENTIAL \<in> set (mr_data_classifications r) \<or> RESTRICTED \<in> set (mr_data_classifications r))"

definition mk_model_rule :: "host \<Rightarrow> model_rule \<Rightarrow> exn + model_rule" where
  "mk_model_rule h r =
     (let n = ''model-context rule '' @ mr_name r; open = mr_handling r \<noteq> DENY \<and> high_sensitivity r
      in checked
       ([egress_text h (mr_name r) ''model-context rule name'',
         rule_values h (mr_name r) ''providers'' (mr_providers r),
         rule_values h (mr_name r) ''capabilities'' (mr_capabilities r),
         rule_values h (mr_name r) ''destinations'' (mr_destinations r),
         rule_values h (mr_name r) ''model_tenancies'' (mr_model_tenancies r),
         fail_if (mr_data_classifications r = []) (misconfigured (n @ '' requires data classifications'')),
         fail_if (mr_routes r = []) (misconfigured (n @ '' requires routes'')),
         fail_if (mr_audit_required r \<and> EPHEMERAL \<in> set (mr_routes r))
           (misconfigured (n @ '' cannot require audit on an ephemeral route'')),
         fail_if (mr_handling r = REDACT \<and> \<not> (mr_redacted_fields r \<noteq> [] \<or> mr_dlp_required r))
           (misconfigured (n @ '' redaction requires fields or DLP'')),
         fail_if (mr_max_output_bytes r \<le> 0 \<or> mr_max_output_bytes r > MAX_RUN_ARTIFACT_BYTES)
           (misconfigured (n @ '' max_output_bytes must be between 1 and 67108864''))]
        @ map (\<lambda>f. egress_text h f (n @ '' redacted field'')) (mr_redacted_fields r)
        @ [fail_if (mr_allowed_fields r = []) (misconfigured (n @ '' requires allowed_fields'')),
           fail_if (length (mr_allowed_fields r) > MAX_RULE_ITEMS)
             (misconfigured (n @ '' has too many allowed_fields''))]
        @ map (\<lambda>f. egress_text h f (n @ '' allowed field'')) (mr_allowed_fields r)
        @ [fail_if (''*'' \<in> set (mr_allowed_fields r) \<and> length (mr_allowed_fields r) \<noteq> 1)
             (misconfigured (n @ '' wildcard allowed_fields must stand alone'')),
           fail_if (open \<and> set (mr_routes r) \<noteq> {AUDITED})
             (misconfigured (n @ '' must keep high-sensitivity data on the audited route'')),
           fail_if (open \<and> \<not> mr_audit_required r)
             (misconfigured (n @ '' must require audit for high-sensitivity data'')),
           fail_if (open \<and> ''*'' \<in> set (mr_allowed_fields r))
             (misconfigured (n @ '' must explicitly bound high-sensitivity fields'')),
           fail_if (mr_max_items r \<le> 0 \<or> mr_max_items r > int MAX_JSON_COLLECTION_ITEMS)
             (misconfigured (n @ '' max_items must be between 1 and 1024''))]) r)"

definition literal_text :: "string \<Rightarrow> string" where
  "literal_text p = filter (\<lambda>c. c \<noteq> CHR ''*'' \<and> c \<noteq> CHR ''?'') p"

definition rule_specificity :: "model_rule \<Rightarrow> int \<times> int \<times> int \<times> int" where
  "rule_specificity r =
     (let patterns = mr_providers r @ mr_capabilities r
      in (int (length (filter (\<lambda>p. CHR ''*'' \<notin> set p \<and> CHR ''?'' \<notin> set p) patterns)),
          int (sum_list (map (\<lambda>p. py_len (literal_text p)) patterns)),
          (if ''*'' \<notin> set (mr_destinations r) then 1 else 0)
            + (if ''*'' \<notin> set (mr_model_tenancies r) then 1 else 0),
          - int (length patterns)))"

definition rule_matches ::
  "model_rule \<Rightarrow> string \<Rightarrow> string \<Rightarrow> data_classification \<Rightarrow> string \<Rightarrow> string \<Rightarrow> provider_route \<Rightarrow> bool"
where
  "rule_matches r provider capability classification destination tenancy route =
     (any_match provider (mr_providers r) \<and> any_match capability (mr_capabilities r)
      \<and> classification \<in> set (mr_data_classifications r)
      \<and> (destination \<in> set (mr_destinations r) \<or> ''*'' \<in> set (mr_destinations r))
      \<and> (tenancy \<in> set (mr_model_tenancies r) \<or> ''*'' \<in> set (mr_model_tenancies r))
      \<and> route \<in> set (mr_routes r))"

definition model_rule_to_dict :: "model_rule \<Rightarrow> json_object" where
  "model_rule_to_dict r =
     [(''name'', JStr (mr_name r)), (''providers'', strings (mr_providers r)),
      (''capabilities'', strings (mr_capabilities r)),
      (''data_classifications'', strings (sort (map classification_str (mr_data_classifications r)))),
      (''destinations'', strings (sort (mr_destinations r))),
      (''model_tenancies'', strings (sort (mr_model_tenancies r))),
      (''routes'', strings (sort (map provider_route_str (mr_routes r)))),
      (''handling'', JStr (handling_str (mr_handling r))),
      (''audit_required'', JBool (mr_audit_required r)), (''dlp_required'', JBool (mr_dlp_required r)),
      (''redacted_fields'', strings (sort (mr_redacted_fields r))),
      (''allowed_fields'', strings (sort (mr_allowed_fields r))),
      (''max_items'', JInt (mr_max_items r)), (''max_output_bytes'', JInt (mr_max_output_bytes r))]"

subsection \<open>The policy and its loader\<close>

record egress_policy =
  ep_destination :: string
  ep_model_tenancy :: string
  ep_source_data_environment :: string
  ep_dlp_adapter :: string
  ep_development_default :: "data_classification option"
  ep_rules :: "model_rule list"

definition mk_egress_policy :: "host \<Rightarrow> egress_policy \<Rightarrow> exn + egress_policy" where
  "mk_egress_policy h p =
     checked
       [egress_text h (ep_destination p) ''model-context destination'',
        egress_text h (ep_model_tenancy p) ''model-context model_tenancy'',
        egress_text h (ep_source_data_environment p) ''model-context source_data_environment'',
        egress_text h (ep_dlp_adapter p) ''model-context dlp_adapter'',
        fail_if (ep_source_data_environment p \<notin> {''nonproduction'', ''production''})
          (misconfigured ''model-context source_data_environment must be nonproduction or production''),
        fail_if (ep_rules p = []) (misconfigured ''model-context rules are required''),
        fail_if (\<not> distinct (map mr_name (ep_rules p)))
          (misconfigured ''model-context rule names must be unique'')] p"

definition model_context_keys :: "string list" where
  "model_context_keys =
     [''destination'', ''model_tenancy'', ''source_data_environment'', ''dlp_adapter'',
      ''development_default_classification'', ''rules'']"

definition model_context_required_keys :: "string list" where
  "model_context_required_keys = remove1 ''development_default_classification'' model_context_keys"

definition model_context_rule_keys :: "string list" where
  "model_context_rule_keys =
     [''name'', ''providers'', ''capabilities'', ''data_classifications'', ''destinations'',
      ''model_tenancies'', ''routes'', ''handling'', ''audit_required'', ''dlp_required'',
      ''redacted_fields'', ''allowed_fields'', ''max_items'', ''max_output_bytes'']"

definition validate_mapping_keys :: "json_object \<Rightarrow> string list \<Rightarrow> string list \<Rightarrow> string \<Rightarrow> exn option" where
  "validate_mapping_keys value allowed required name =
     (let unknown = sort (filter (\<lambda>k. k \<notin> set allowed) (map fst value));
          missing = sort (filter (\<lambda>k. k \<notin> fst ` set value) required)
      in first_error
           [fail_if (unknown \<noteq> []) (misconfigured (name @ '' has unknown keys: '' @ py_join '', '' unknown)),
            fail_if (missing \<noteq> []) (misconfigured (name @ '' is missing keys: '' @ py_join '', '' missing))])"

definition egress_string :: "host \<Rightarrow> json option \<Rightarrow> string \<Rightarrow> exn + string" where
  "egress_string h v name =
     (case v of
        Some (JStr s) \<Rightarrow> checked [egress_text h s name] s
      | _ \<Rightarrow> Inl (misconfigured (name @ '' must be a string'')))"

definition egress_strings :: "json option \<Rightarrow> string \<Rightarrow> exn + string list" where
  "egress_strings v name = string_list v (misconfigured (name @ '' must be a list of strings''))"

definition egress_bool :: "json option \<Rightarrow> string \<Rightarrow> exn + bool" where
  "egress_bool v name =
     (case v of Some (JBool b) \<Rightarrow> Inr b | _ \<Rightarrow> Inl (misconfigured (name @ '' must be a boolean'')))"

definition egress_positive :: "json option \<Rightarrow> string \<Rightarrow> exn + int" where
  "egress_positive v name =
     (case v of
        Some (JInt i) \<Rightarrow> if i \<le> 0 then Inl (misconfigured (name @ '' must be a positive integer'')) else Inr i
      | _ \<Rightarrow> Inl (misconfigured (name @ '' must be a positive integer'')))"

definition egress_int :: "json option \<Rightarrow> exn \<Rightarrow> exn + int" where
  "egress_int v e = (case v of Some (JInt i) \<Rightarrow> Inr i | _ \<Rightarrow> Inl e)"

text \<open>\<open>except (KeyError, ValueError)\<close> around the enumerations of a rule.\<close>

definition reraise :: "exn_class list \<Rightarrow> exn \<Rightarrow> exn + 'a \<Rightarrow> exn + 'a" where
  "reraise classes e r = (case r of Inl e' \<Rightarrow> Inl (if caught_by classes e' then e else e') | Inr x \<Rightarrow> Inr x)"

definition rule_enums ::
  "host \<Rightarrow> string \<Rightarrow> json_object \<Rightarrow> exn + data_classification list \<times> provider_route list \<times> provider_handling"
where
  "rule_enums h label raw =
     reraise [KeyError, ValueError] (misconfigured (label @ '' contains an invalid enum value''))
       (sbind (egress_strings (obj_get raw ''data_classifications'') (label @ '' data_classifications'')) (\<lambda>cs.
        sbind (smap (parse_enum classification_members) cs) (\<lambda>classes.
        sbind (egress_strings (obj_get raw ''routes'') (label @ '' routes'')) (\<lambda>rs.
        sbind (smap (parse_enum provider_route_members) rs) (\<lambda>routes.
        sbind (need raw ''handling'') (\<lambda>hj.
        sbind (egress_string h (Some hj) (label @ '' handling'')) (\<lambda>ht.
        sbind (parse_enum handling_members ht) (\<lambda>handling.
        Inr (remdups classes, remdups routes, handling)))))))))"

definition model_rule_of_table :: "host \<Rightarrow> nat \<Rightarrow> json \<Rightarrow> exn + model_rule" where
  "model_rule_of_table h index entry =
     (let label = ''model-context rule '' @ nat_digits index in
      case entry of
        JObj raw \<Rightarrow>
          sbind (checked [validate_mapping_keys raw model_context_rule_keys model_context_rule_keys label] ()) (\<lambda>_.
          sbind (egress_string h (obj_get raw ''name'') (label @ '' name'')) (\<lambda>name.
          sbind (rule_enums h label raw) (\<lambda>(classes, routes, handling).
          sbind (egress_int (obj_get raw ''max_output_bytes'')
                   (misconfigured (label @ '' max_output_bytes must be an integer''))) (\<lambda>max_bytes.
          sbind (egress_strings (obj_get raw ''providers'') (label @ '' providers'')) (\<lambda>providers.
          sbind (egress_strings (obj_get raw ''capabilities'') (label @ '' capabilities'')) (\<lambda>capabilities.
          sbind (egress_strings (obj_get raw ''destinations'') (label @ '' destinations'')) (\<lambda>destinations.
          sbind (egress_strings (obj_get raw ''model_tenancies'') (label @ '' model_tenancies'')) (\<lambda>tenancies.
          sbind (egress_bool (obj_get raw ''audit_required'') (label @ '' audit_required'')) (\<lambda>audit.
          sbind (egress_bool (obj_get raw ''dlp_required'') (label @ '' dlp_required'')) (\<lambda>dlp.
          sbind (egress_strings (obj_get raw ''redacted_fields'') (label @ '' redacted_fields'')) (\<lambda>redacted.
          sbind (egress_strings (obj_get raw ''allowed_fields'') (label @ '' allowed_fields'')) (\<lambda>allowed.
          sbind (egress_positive (obj_get raw ''max_items'') (label @ '' max_items'')) (\<lambda>max_items.
          mk_model_rule h
            \<lparr>mr_name = name, mr_providers = providers, mr_capabilities = capabilities,
             mr_data_classifications = classes, mr_destinations = sorted_set destinations,
             mr_model_tenancies = sorted_set tenancies, mr_routes = routes, mr_handling = handling,
             mr_audit_required = audit, mr_dlp_required = dlp,
             mr_redacted_fields = sorted_set redacted, mr_allowed_fields = sorted_set allowed,
             mr_max_items = max_items, mr_max_output_bytes = max_bytes\<rparr>)))))))))))))
      | _ \<Rightarrow> Inl (misconfigured (label @ '' must be a table'')))"

definition default_classification :: "host \<Rightarrow> json option \<Rightarrow> exn + data_classification option" where
  "default_classification h v =
     (case v of
        None \<Rightarrow> Inr None
      | Some JNull \<Rightarrow> Inr None
      | Some j \<Rightarrow>
          reraise [ValueError] (misconfigured ''model-context development_default_classification is invalid'')
            (sbind (egress_string h (Some j) ''model-context development_default_classification'') (\<lambda>s.
             sbind (parse_enum classification_members s) (\<lambda>c. Inr (Some c)))))"

definition egress_policy_from_mapping :: "host \<Rightarrow> json_object \<Rightarrow> exn + egress_policy" where
  "egress_policy_from_mapping h value =
     sbind (checked [validate_mapping_keys value model_context_keys model_context_required_keys
                       ''model-context policy''] ()) (\<lambda>_.
     sbind (case obj_get value ''rules'' of
              Some (JList js) \<Rightarrow> Inr js
            | _ \<Rightarrow> Inl (misconfigured ''[[model_context.rules]] must be an array'')) (\<lambda>raw_rules.
     sbind (smap (\<lambda>(i, entry). model_rule_of_table h i entry) (enumerate 1 raw_rules)) (\<lambda>rules.
     sbind (default_classification h (obj_get value ''development_default_classification'')) (\<lambda>fallback.
     sbind (egress_string h (obj_get value ''destination'') ''model-context destination'') (\<lambda>destination.
     sbind (egress_string h (obj_get value ''model_tenancy'') ''model-context model_tenancy'') (\<lambda>tenancy.
     sbind (egress_string h (obj_get value ''source_data_environment'')
              ''model-context source_data_environment'') (\<lambda>environment.
     sbind (egress_string h (obj_get value ''dlp_adapter'') ''model-context dlp_adapter'') (\<lambda>dlp.
     mk_egress_policy h
       \<lparr>ep_destination = destination, ep_model_tenancy = tenancy,
        ep_source_data_environment = environment, ep_dlp_adapter = dlp,
        ep_development_default = fallback, ep_rules = rules\<rparr>))))))))"

definition egress_policy_to_dict :: "egress_policy \<Rightarrow> json_object" where
  "egress_policy_to_dict p =
     [(''destination'', JStr (ep_destination p)), (''model_tenancy'', JStr (ep_model_tenancy p)),
      (''source_data_environment'', JStr (ep_source_data_environment p)),
      (''dlp_adapter'', JStr (ep_dlp_adapter p)),
      (''development_default_classification'',
        optional (\<lambda>c. JStr (classification_str c)) (ep_development_default p)),
      (''rules'', JList (map (\<lambda>r. JObj (model_rule_to_dict r)) (ep_rules p)))]"

definition resolve_probe_classification ::
  "egress_policy \<Rightarrow> data_classification option \<Rightarrow> string \<Rightarrow> exn + data_classification"
where
  "resolve_probe_classification p selected environment =
     (case selected of
        Some c \<Rightarrow> Inr c
      | None \<Rightarrow>
          if environment \<noteq> ''development''
          then Inl (misconfigured ''provider probe data classification is required outside development'')
          else if ep_source_data_environment p \<noteq> ''nonproduction''
          then Inl (misconfigured ''development provider probes require explicitly nonproduction data'')
          else (case ep_development_default p of
             None \<Rightarrow> Inl (misconfigured ''development provider probe classification is not configured'')
           | Some c \<Rightarrow> Inr c))"

text \<open>The runtime has no data-loss-prevention adapter: no name resolves to one.\<close>

definition implemented_dlp_adapter :: "string \<Rightarrow> string option" where
  "implemented_dlp_adapter name = None"

record egress_decision =
  ed_permitted :: bool
  ed_reason :: string
  ed_rule :: "model_rule option"

definition matching_rules ::
  "egress_policy \<Rightarrow> string \<Rightarrow> string \<Rightarrow> data_classification \<Rightarrow> provider_route \<Rightarrow> model_rule list"
where
  "matching_rules p provider capability classification route =
     filter (\<lambda>r. rule_matches r provider capability classification (ep_destination p)
                   (ep_model_tenancy p) route) (ep_rules p)"

definition most_specific_rules :: "model_rule list \<Rightarrow> model_rule list" where
  "most_specific_rules rs =
     filter (\<lambda>r. \<forall>s \<in> set rs. rule_specificity s \<le> rule_specificity r) rs"

definition egress_evaluate ::
  "egress_policy \<Rightarrow> string \<Rightarrow> string \<Rightarrow> data_classification \<Rightarrow> provider_route \<Rightarrow> bool \<Rightarrow> egress_decision"
where
  "egress_evaluate p provider capability classification route audit_available =
     (let matching = matching_rules p provider capability classification route in
      if matching = []
      then \<lparr>ed_permitted = False,
            ed_reason = ''no model-context rule approves '' @ classification_str classification
              @ '' data from '' @ provider @ '' for '' @ ep_destination p @ ''/'' @ ep_model_tenancy p
              @ '' on '' @ provider_route_str route, ed_rule = None\<rparr>
      else (case most_specific_rules matching of
         [rule] \<Rightarrow>
           (let n = ''model-context rule '' @ mr_name rule in
            if mr_handling rule = DENY
            then \<lparr>ed_permitted = False, ed_reason = n @ '' denies provider data'', ed_rule = Some rule\<rparr>
            else if mr_audit_required rule \<and> \<not> audit_available
            then \<lparr>ed_permitted = False, ed_reason = n @ '' requires an implemented audit route'',
                  ed_rule = Some rule\<rparr>
            else if mr_dlp_required rule \<and> implemented_dlp_adapter (ep_dlp_adapter p) = None
            then \<lparr>ed_permitted = False, ed_reason = n @ '' requires an implemented DLP adapter'',
                  ed_rule = Some rule\<rparr>
            else \<lparr>ed_permitted = True, ed_reason = n @ '' approves provider-data egress'',
                  ed_rule = Some rule\<rparr>)
       | _ \<Rightarrow> \<lparr>ed_permitted = False,
               ed_reason = ''model-context policy has ambiguous equally specific rules'',
               ed_rule = None\<rparr>))"


subsection \<open>Digests of policy data\<close>

text \<open>\<open>json.dumps\<close> without non-finite numbers raises on the first value it cannot write, in the order
  of the sorted keys.\<close>

fun leaf_error :: "json \<Rightarrow> exn option" where
  "leaf_error (JFloat fin r) = fail_if (\<not> fin) (Exn ValueError ''Out of range float values are not JSON compliant'')"
| "leaf_error (JOther t) = Some (Exn TypeError (''Object of type '' @ t @ '' is not JSON serializable''))"
| "leaf_error (JList xs) = first_error (map leaf_error xs)"
| "leaf_error (JObj kvs) = first_error (map (\<lambda>kv. leaf_error (snd kv)) kvs)"
| "leaf_error j = None"

definition egress_digest :: "host \<Rightarrow> json \<Rightarrow> exn + digest" where
  "egress_digest h v =
     (case leaf_error (sort_keys v) of
        Some e \<Rightarrow> Inl e
      | None \<Rightarrow>
          if has_surrogate (stable_json v) then Inl (invalid ''provider-data value contains invalid Unicode'')
          else Inr (h_sha256 h (stable_json v)))"

definition egress_policy_fingerprint :: "host \<Rightarrow> egress_policy \<Rightarrow> exn + digest" where
  "egress_policy_fingerprint h p = egress_digest h (JObj (egress_policy_to_dict p))"

subsection \<open>Bindings\<close>

record egress_binding =
  eb_provider :: string
  eb_capability :: string
  eb_action_fingerprint :: string
  eb_policy_fingerprint :: string
  eb_rule_name :: string
  eb_data_classification :: data_classification
  eb_destination :: string
  eb_model_tenancy :: string
  eb_source_data_environment :: string
  eb_route :: provider_route
  eb_handling :: provider_handling
  eb_audit_required :: bool
  eb_dlp_adapter :: string
  eb_connector_configuration_sha256 :: string
  eb_provider_origin_sha256 :: string
  eb_provider_account_sha256 :: string
  eb_requested_fields :: "string list"
  eb_field_contract :: string
  eb_output_schema :: string
  eb_output_resources :: "(string \<times> string) list"
  eb_output_metadata_fields :: "string list"
  eb_request_parameter_names :: "string list"
  eb_request_parameters_sha256 :: string
  eb_requested_item_limit :: "int option"
  eb_max_output_bytes :: int
  eb_redacted_fields :: "string list"
  eb_policy_allowed_fields :: "string list"
  eb_schema :: string

definition egress_schema :: string where
  "egress_schema = ''master-agent/provider-data-egress@1''"

definition egress_sha256 :: "string \<Rightarrow> string \<Rightarrow> exn option" where
  "egress_sha256 value name =
     fail_if (\<not> is_sha256 value) (invalid (''provider-data egress '' @ name @ '' is not a SHA-256 digest''))"

definition egress_binding_text :: "host \<Rightarrow> string \<Rightarrow> string \<Rightarrow> exn option" where
  "egress_binding_text h value name = map_option (\<lambda>e. invalid (exn_text e)) (egress_text h value name)"

definition egress_names :: "host \<Rightarrow> string \<Rightarrow> string list \<Rightarrow> exn option" where
  "egress_names h label values =
     first_error
       (fail_if (length values > MAX_RULE_ITEMS) (invalid (''provider-data egress has too many '' @ label))
        # map (\<lambda>v. egress_binding_text h v (''provider-data egress '' @ label)) values)"

fun output_resource_errors :: "host \<Rightarrow> string list \<Rightarrow> (string \<times> string) list \<Rightarrow> exn option" where
  "output_resource_errors h seen [] = None"
| "output_resource_errors h seen ((name, descriptor) # rest) =
     (case first_error
        [egress_binding_text h name ''provider-data egress output resource'',
         fail_if (name \<in> set seen) (invalid ''provider-data egress output resources must be unique''),
         fail_if (descriptor \<notin> set read_result_resource_types)
           (invalid ''provider-data egress output resource type is unsupported'')] of
        Some e \<Rightarrow> Some e
      | None \<Rightarrow> output_resource_errors h (name # seen) rest)"

definition mk_egress_binding :: "host \<Rightarrow> egress_binding \<Rightarrow> exn + egress_binding" where
  "mk_egress_binding h b =
     (let resource_names = map fst (eb_output_resources b) in
      checked
       (map (\<lambda>(name, value). egress_text h value (''provider-data egress '' @ name))
          [(''provider'', eb_provider b), (''capability'', eb_capability b), (''rule_name'', eb_rule_name b),
           (''destination'', eb_destination b), (''model_tenancy'', eb_model_tenancy b),
           (''source_data_environment'', eb_source_data_environment b), (''dlp_adapter'', eb_dlp_adapter b),
           (''field_contract'', eb_field_contract b), (''output_schema'', eb_output_schema b)]
        @ [fail_if (eb_source_data_environment b \<notin> {''nonproduction'', ''production''})
             (invalid ''provider-data egress source_data_environment is unsupported'')]
        @ map (\<lambda>(name, value). egress_sha256 value name)
            [(''action_fingerprint'', eb_action_fingerprint b),
             (''policy_fingerprint'', eb_policy_fingerprint b),
             (''connector_configuration_sha256'', eb_connector_configuration_sha256 b),
             (''provider_origin_sha256'', eb_provider_origin_sha256 b),
             (''provider_account_sha256'', eb_provider_account_sha256 b),
             (''request_parameters_sha256'', eb_request_parameters_sha256 b)]
        @ [fail_if (eb_schema b \<noteq> egress_schema) (invalid ''unsupported provider-data egress schema''),
           fail_if (eb_max_output_bytes b \<le> 0 \<or> eb_max_output_bytes b > MAX_RUN_ARTIFACT_BYTES)
             (invalid ''provider-data egress max_output_bytes is outside the supported range''),
           fail_if (case eb_requested_item_limit b of None \<Rightarrow> False | Some n \<Rightarrow> n \<le> 0)
             (invalid ''provider-data egress requested_item_limit must be positive''),
           egress_names h ''requested_fields'' (eb_requested_fields b),
           egress_names h ''output_resource_fields'' resource_names,
           egress_names h ''output_metadata_fields'' (eb_output_metadata_fields b),
           egress_names h ''request_parameter_names'' (eb_request_parameter_names b),
           egress_names h ''redacted_fields'' (eb_redacted_fields b),
           egress_names h ''policy_allowed_fields'' (eb_policy_allowed_fields b),
           fail_if (length (eb_output_resources b) > MAX_RULE_ITEMS)
             (invalid ''provider-data egress has too many output resources''),
           output_resource_errors h [] (eb_output_resources b),
           fail_if (set resource_names \<inter> set (eb_output_metadata_fields b) \<noteq> {})
             (invalid ''provider-data egress output resource and metadata fields overlap''),
           fail_if (\<exists>n \<in> set (resource_names @ eb_output_metadata_fields b).
                      is_reserved_read_result_field_name h n)
             (invalid ''provider-data egress output fields use reserved names'')]) b)"

definition egress_binding_to_dict :: "egress_binding \<Rightarrow> json_object" where
  "egress_binding_to_dict b =
     [(''schema'', JStr (eb_schema b)), (''provider'', JStr (eb_provider b)),
      (''capability'', JStr (eb_capability b)),
      (''action_fingerprint'', JStr (eb_action_fingerprint b)),
      (''policy_fingerprint'', JStr (eb_policy_fingerprint b)),
      (''rule_name'', JStr (eb_rule_name b)),
      (''data_classification'', JStr (classification_str (eb_data_classification b))),
      (''destination'', JStr (eb_destination b)), (''model_tenancy'', JStr (eb_model_tenancy b)),
      (''source_data_environment'', JStr (eb_source_data_environment b)),
      (''route'', JStr (provider_route_str (eb_route b))), (''handling'', JStr (handling_str (eb_handling b))),
      (''audit_required'', JBool (eb_audit_required b)), (''dlp_adapter'', JStr (eb_dlp_adapter b)),
      (''connector_configuration_sha256'', JStr (eb_connector_configuration_sha256 b)),
      (''provider_origin_sha256'', JStr (eb_provider_origin_sha256 b)),
      (''provider_account_sha256'', JStr (eb_provider_account_sha256 b)),
      (''requested_fields'', strings (eb_requested_fields b)),
      (''field_contract'', JStr (eb_field_contract b)), (''output_schema'', JStr (eb_output_schema b)),
      (''output_resources'', JObj (map (\<lambda>(k, v). (k, JStr v)) (eb_output_resources b))),
      (''output_metadata_fields'', strings (eb_output_metadata_fields b)),
      (''request_parameter_names'', strings (eb_request_parameter_names b)),
      (''request_parameters_sha256'', JStr (eb_request_parameters_sha256 b)),
      (''requested_item_limit'', optional JInt (eb_requested_item_limit b)),
      (''max_output_bytes'', JInt (eb_max_output_bytes b)),
      (''redacted_fields'', strings (sort (eb_redacted_fields b))),
      (''policy_allowed_fields'', strings (sort (eb_policy_allowed_fields b)))]"

definition egress_binding_fingerprint :: "host \<Rightarrow> egress_binding \<Rightarrow> exn + digest" where
  "egress_binding_fingerprint h b = egress_digest h (JObj (egress_binding_to_dict b))"

definition egress_sequence :: "json_object \<Rightarrow> string \<Rightarrow> exn + string list" where
  "egress_sequence data name =
     string_list (obj_get data name) (invalid (''provider-data egress '' @ name @ '' must be a list of strings''))"

fun text_members :: "json_object \<Rightarrow> (string \<times> string) list option" where
  "text_members [] = Some []"
| "text_members ((k, JStr s) # kvs) = map_option (Cons (k, s)) (text_members kvs)"
| "text_members _ = None"

definition egress_resources :: "json option \<Rightarrow> exn + (string \<times> string) list" where
  "egress_resources v =
     (case v of
        Some (JObj kvs) \<Rightarrow>
          (case text_members kvs of
             Some ms \<Rightarrow> Inr ms
           | None \<Rightarrow> Inl (invalid ''provider-data egress output_resources must be a string object''))
      | _ \<Rightarrow> Inl (invalid ''provider-data egress output_resources must be a string object''))"

definition egress_item_limit :: "json option \<Rightarrow> exn + int option" where
  "egress_item_limit v =
     (let e = invalid ''provider-data egress requested_item_limit must be positive'' in
      case v of
        None \<Rightarrow> Inr None
      | Some JNull \<Rightarrow> Inr None
      | Some (JInt i) \<Rightarrow> if i \<le> 0 then Inl e else Inr (Some i)
      | Some _ \<Rightarrow> Inl e)"

definition egress_binding_from_dict :: "host \<Rightarrow> json_object \<Rightarrow> exn + egress_binding" where
  "egress_binding_from_dict h value =
     sbind (egress_sequence value ''requested_fields'') (\<lambda>requested.
     sbind (egress_sequence value ''request_parameter_names'') (\<lambda>parameters.
     sbind (egress_sequence value ''redacted_fields'') (\<lambda>redacted.
     sbind (egress_sequence value ''policy_allowed_fields'') (\<lambda>allowed.
     sbind (egress_resources (obj_get value ''output_resources'')) (\<lambda>resources.
     sbind (egress_sequence value ''output_metadata_fields'') (\<lambda>metadata.
     sbind (egress_item_limit (obj_get value ''requested_item_limit'')) (\<lambda>item_limit.
     sbind (egress_int (obj_get value ''max_output_bytes'')
              (invalid ''provider-data egress max_output_bytes must be an integer'')) (\<lambda>max_bytes.
     sbind (need_str h value ''provider'') (\<lambda>provider.
     sbind (need_str h value ''capability'') (\<lambda>capability.
     sbind (need_str h value ''action_fingerprint'') (\<lambda>action_fp.
     sbind (need_str h value ''policy_fingerprint'') (\<lambda>policy_fp.
     sbind (need_str h value ''rule_name'') (\<lambda>rule.
     sbind (need_str h value ''data_classification'') (\<lambda>class_text.
     sbind (parse_enum classification_members class_text) (\<lambda>classification.
     sbind (need_str h value ''destination'') (\<lambda>destination.
     sbind (need_str h value ''model_tenancy'') (\<lambda>tenancy.
     sbind (need_str h value ''source_data_environment'') (\<lambda>environment.
     sbind (need_str h value ''route'') (\<lambda>route_text.
     sbind (parse_enum provider_route_members route_text) (\<lambda>route.
     sbind (need_str h value ''handling'') (\<lambda>handling_text.
     sbind (parse_enum handling_members handling_text) (\<lambda>handling.
     sbind (egress_bool (obj_get value ''audit_required'') ''provider-data egress audit_required'') (\<lambda>audit.
     sbind (need_str h value ''dlp_adapter'') (\<lambda>dlp.
     sbind (need_str h value ''connector_configuration_sha256'') (\<lambda>config_sha.
     sbind (need_str h value ''provider_origin_sha256'') (\<lambda>origin_sha.
     sbind (need_str h value ''provider_account_sha256'') (\<lambda>account_sha.
     sbind (need_str h value ''field_contract'') (\<lambda>contract.
     sbind (need_str h value ''output_schema'') (\<lambda>schema_out.
     sbind (need_str h value ''request_parameters_sha256'') (\<lambda>parameters_sha.
     mk_egress_binding h
       \<lparr>eb_provider = provider, eb_capability = capability, eb_action_fingerprint = action_fp,
        eb_policy_fingerprint = policy_fp, eb_rule_name = rule, eb_data_classification = classification,
        eb_destination = destination, eb_model_tenancy = tenancy,
        eb_source_data_environment = environment, eb_route = route, eb_handling = handling,
        eb_audit_required = audit, eb_dlp_adapter = dlp,
        eb_connector_configuration_sha256 = config_sha, eb_provider_origin_sha256 = origin_sha,
        eb_provider_account_sha256 = account_sha, eb_requested_fields = requested,
        eb_field_contract = contract, eb_output_schema = schema_out,
        eb_output_resources = sort_key fst resources, eb_output_metadata_fields = metadata,
        eb_request_parameter_names = parameters, eb_request_parameters_sha256 = parameters_sha,
        eb_requested_item_limit = item_limit, eb_max_output_bytes = max_bytes,
        eb_redacted_fields = sorted_set redacted, eb_policy_allowed_fields = sorted_set allowed,
        eb_schema = get_str h value ''schema'' []\<rparr>))))))))))))))))))))))))))))))"


subsection \<open>Authorising one read\<close>

definition microsoft_systems :: "string list" where
  "microsoft_systems = [''microsoft'', ''sharepoint'', ''outlook'', ''teams'', ''onenote'']"

definition binding_system :: "string \<Rightarrow> string" where
  "binding_system s = (if s \<in> set microsoft_systems then ''microsoft'' else s)"

definition mode_digest :: "host \<Rightarrow> string \<Rightarrow> string \<Rightarrow> string \<Rightarrow> exn + digest" where
  "mode_digest h provider key mode =
     egress_digest h (JObj [(''provider'', JStr provider), (key, JStr mode)])"

definition connector_digests ::
  "host \<Rightarrow> string \<Rightarrow> connector_binding option \<Rightarrow> string \<Rightarrow> exn + digest \<times> digest \<times> digest"
where
  "connector_digests h provider binding connector_mode =
     (case binding of
        None \<Rightarrow>
          if connector_mode \<notin> {''mock'', ''local''}
          then Inl (misconfigured (''provider-data egress requires a connector binding for '' @ provider))
          else sbind (mode_digest h provider ''mode'' connector_mode) (\<lambda>c.
               sbind (mode_digest h provider ''origin'' connector_mode) (\<lambda>o1.
               sbind (mode_digest h provider ''account'' connector_mode) (\<lambda>a. Inr (c, o1, a))))
      | Some b \<Rightarrow>
          if cb_system b \<noteq> binding_system provider
          then Inl (misconfigured ''provider-data egress connector binding does not match the provider'')
          else sbind (if cb_authentication_mode b = ''none'' then Inr ''anonymous''
                      else case cb_credential_identity b of
                        Some i \<Rightarrow> Inr i
                      | None \<Rightarrow> Inl (misconfigured
                          ''provider-data egress requires a bound provider account identity'')) (\<lambda>account.
               sbind (egress_digest h (JStr (cb_resolved_origin b))) (\<lambda>o1.
               sbind (egress_digest h (JStr account)) (\<lambda>a. Inr (cb_config_identity_sha256 b, o1, a)))))"

definition requested_fields_of :: "json option \<Rightarrow> exn + string list" where
  "requested_fields_of v =
     (let e = misconfigured ''provider-data requested fields must be a string, string list, or object'' in
      case v of
        None \<Rightarrow> Inr []
      | Some JNull \<Rightarrow> Inr []
      | Some (JStr s) \<Rightarrow> Inr [s]
      | Some (JObj kvs) \<Rightarrow> Inr (sort (map fst kvs))
      | Some (JList js) \<Rightarrow> (case json_strings js of Some ss \<Rightarrow> Inr (sorted_set ss) | None \<Rightarrow> Inl e)
      | Some _ \<Rightarrow> Inl e)"

definition contract_material :: "capability_definition \<Rightarrow> json" where
  "contract_material d =
     JObj [(''name'', JStr (df_name d)), (''target_system'', JStr (df_target_system d)),
           (''target_resource_types'', strings (df_target_resource_types d)),
           (''parameter_schema'', JObj (map (\<lambda>(k, v). (k, JStr v)) (df_parameter_schema d))),
           (''output_schema'', JStr (df_read_result_schema d)),
           (''output_resources'', JObj (map (\<lambda>(k, v). (k, JStr v)) (sort_key fst (df_read_result_resources d)))),
           (''output_metadata_fields'', strings (df_read_result_metadata d)),
           (''omitted_result_fields'', strings (sort READ_RESULT_OMITTED_FIELDS)),
           (''crosscut_result_fields'', strings (sort READ_RESULT_CROSSCUT_FIELDS)),
           (''contract_version'', JInt 2)]"

text \<open>The requested fields and the field contract; the output schema, resources and metadata are
  those of the definition.\<close>

definition requested_field_binding ::
  "host \<Rightarrow> agent_action \<Rightarrow> capability_definition \<Rightarrow> exn + string list \<times> string"
where
  "requested_field_binding h a d =
     sbind (requested_fields_of (obj_get (ac_parameters a) ''fields'')) (\<lambda>fields.
     sbind (checked
       (map (\<lambda>f. egress_text h f ''provider-data requested field'') fields
        @ [let reserved = sort (filter (is_reserved_read_result_field_name h) fields)
           in fail_if (reserved \<noteq> []) (misconfigured
                (''provider-data requested fields use reserved result names: '' @ py_join '', '' reserved)),
           fail_if (df_read_result_schema d = [] \<or> df_read_result_resources d = [])
             (misconfigured (''provider read capability '' @ df_name d
                @ '' requires a versioned read result contract''))]) ()) (\<lambda>_.
     sbind (egress_digest h (contract_material d)) (\<lambda>c.
     Inr (fields, (if fields \<noteq> [] then ''explicit-fields@2'' else df_read_result_schema d)
                    @ '';sha256='' @ c))))"

definition requested_limit :: "json option \<Rightarrow> exn + int option" where
  "requested_limit v =
     (let e = misconfigured ''provider-data item limit must be a positive integer'' in
      case v of
        None \<Rightarrow> Inr None
      | Some JNull \<Rightarrow> Inr None
      | Some (JInt i) \<Rightarrow> if i \<le> 0 then Inl e else Inr (Some i)
      | Some _ \<Rightarrow> Inl e)"

definition shape_preflight ::
  "host \<Rightarrow> egress_policy \<Rightarrow> agent_action \<Rightarrow> capability_definition \<Rightarrow> provider_route \<Rightarrow> bool
     \<Rightarrow> exn + model_rule \<times> string list \<times> string \<times> int"
where
  "shape_preflight h p a d route audit_available =
     (let decision = egress_evaluate p (rr_system (ac_target a)) (ac_capability a)
                       (ac_data_classification a) route audit_available in
      case ed_rule decision of
        None \<Rightarrow> Inl (misconfigured (ed_reason decision))
      | Some rule \<Rightarrow>
          if \<not> ed_permitted decision then Inl (misconfigured (ed_reason decision))
          else
            sbind (requested_field_binding h a d) (\<lambda>(fields, contract).
            let allowed = mr_allowed_fields rule; n = ''model-context rule '' @ mr_name rule;
                disallowed = sort (filter (\<lambda>f. ''*'' \<notin> set allowed
                  \<and> h_casefold h f \<notin> h_casefold h ` set allowed) fields)
            in sbind (checked
                 [fail_if (fields \<noteq> [] \<and> disallowed \<noteq> [])
                    (misconfigured (n @ '' does not allow requested fields: '' @ py_join '', '' disallowed)),
                  fail_if (fields = [] \<and> ''*'' \<notin> set allowed)
                    (misconfigured (n @ '' requires an explicit field projection''))] ()) (\<lambda>_.
               sbind (requested_limit (obj_get (ac_parameters a) ''limit'')) (\<lambda>limit.
               sbind (checked
                 [fail_if (case limit of Some i \<Rightarrow> i > mr_max_items rule | None \<Rightarrow> False)
                    (misconfigured (n @ '' limits provider results to '' @ render_int (mr_max_items rule)
                       @ '' items'')),
                  fail_if ((\<exists>(k, t) \<in> set (df_read_result_resources d). t = ''object_list'') \<and> limit = None)
                    (misconfigured ''provider-data collection reads require an explicit item limit'')] ()) (\<lambda>_.
               Inr (rule, fields, contract, case limit of Some i \<Rightarrow> i | None \<Rightarrow> mr_max_items rule))))))"

definition preflight_provider_data_egress ::
  "host \<Rightarrow> egress_policy \<Rightarrow> agent_action \<Rightarrow> capability_definition \<Rightarrow> provider_route \<Rightarrow> bool \<Rightarrow> exn option"
where
  "preflight_provider_data_egress h p a d route audit_available =
     error_of (shape_preflight h p a d route audit_available)"

definition bind_provider_data_egress ::
  "host \<Rightarrow> egress_policy \<Rightarrow> agent_action \<Rightarrow> capability_definition \<Rightarrow> connector_binding option
     \<Rightarrow> provider_route \<Rightarrow> bool \<Rightarrow> string \<Rightarrow> exn + egress_binding"
where
  "bind_provider_data_egress h p a d binding route audit_available connector_mode =
     sbind (shape_preflight h p a d route audit_available) (\<lambda>(rule, fields, contract, limit).
     sbind (connector_digests h (rr_system (ac_target a)) binding connector_mode)
       (\<lambda>(config_sha, origin_sha, account_sha).
     sbind (egress_policy_fingerprint h p) (\<lambda>policy_fp.
     sbind (egress_digest h (JObj (ac_parameters a))) (\<lambda>parameters_sha.
     mk_egress_binding h
       \<lparr>eb_provider = rr_system (ac_target a), eb_capability = ac_capability a,
        eb_action_fingerprint = effect_fingerprint h a, eb_policy_fingerprint = policy_fp,
        eb_rule_name = mr_name rule, eb_data_classification = ac_data_classification a,
        eb_destination = ep_destination p, eb_model_tenancy = ep_model_tenancy p,
        eb_source_data_environment = ep_source_data_environment p, eb_route = route,
        eb_handling = mr_handling rule, eb_audit_required = mr_audit_required rule,
        eb_dlp_adapter = ep_dlp_adapter p, eb_connector_configuration_sha256 = config_sha,
        eb_provider_origin_sha256 = origin_sha, eb_provider_account_sha256 = account_sha,
        eb_requested_fields = fields, eb_field_contract = contract,
        eb_output_schema = df_read_result_schema d,
        eb_output_resources = sort_key fst (df_read_result_resources d),
        eb_output_metadata_fields = df_read_result_metadata d,
        eb_request_parameter_names = sort (map fst (ac_parameters a)),
        eb_request_parameters_sha256 = parameters_sha, eb_requested_item_limit = Some limit,
        eb_max_output_bytes = mr_max_output_bytes rule, eb_redacted_fields = mr_redacted_fields rule,
        eb_policy_allowed_fields = mr_allowed_fields rule, eb_schema = egress_schema\<rparr>))))"

subsection \<open>Rules that are admitted, and what an evaluation permits\<close>

definition bounded_rule :: "model_rule \<Rightarrow> bool" where
  "bounded_rule r =
     ((mr_handling r \<noteq> DENY \<and> high_sensitivity r \<longrightarrow>
         set (mr_routes r) = {AUDITED} \<and> mr_audit_required r \<and> ''*'' \<notin> set (mr_allowed_fields r))
      \<and> (mr_audit_required r \<longrightarrow> EPHEMERAL \<notin> set (mr_routes r))
      \<and> mr_allowed_fields r \<noteq> [] \<and> 0 < mr_max_items r \<and> mr_max_items r \<le> int MAX_JSON_COLLECTION_ITEMS
      \<and> 0 < mr_max_output_bytes r \<and> mr_max_output_bytes r \<le> MAX_RUN_ARTIFACT_BYTES)"

lemma mk_model_rule_bounded: "mk_model_rule h r = Inr r' \<Longrightarrow> r' = r \<and> bounded_rule r"
  by (auto simp: mk_model_rule_def Let_def checked_Inr bounded_rule_def)

lemma model_rule_of_table_bounded: "model_rule_of_table h i j = Inr r \<Longrightarrow> bounded_rule r"
  by (auto simp: model_rule_of_table_def Let_def sbind_Inr dest!: mk_model_rule_bounded split: json.splits)

lemma egress_policy_from_mapping_bounded:
  assumes "egress_policy_from_mapping h value = Inr p"
  shows "\<forall>r \<in> set (ep_rules p). bounded_rule r"
proof -
  obtain js where "smap (\<lambda>(i, entry). model_rule_of_table h i entry) (enumerate 1 js) = Inr (ep_rules p)"
    using assms by (auto simp: egress_policy_from_mapping_def sbind_Inr mk_egress_policy_def checked_Inr)
  then show ?thesis using model_rule_of_table_bounded by (fastforce dest: smap_member)
qed

definition decisive_rule ::
  "egress_policy \<Rightarrow> string \<Rightarrow> string \<Rightarrow> data_classification \<Rightarrow> provider_route \<Rightarrow> model_rule \<Rightarrow> bool"
where
  "decisive_rule p provider capability classification route r =
     (r \<in> set (ep_rules p)
      \<and> rule_matches r provider capability classification (ep_destination p) (ep_model_tenancy p) route
      \<and> (\<forall>s \<in> set (ep_rules p).
           rule_matches s provider capability classification (ep_destination p) (ep_model_tenancy p) route
           \<longrightarrow> s = r \<or> rule_specificity s < rule_specificity r))"

lemma most_specific_single:
  assumes "most_specific_rules rs = [r]"
  shows "r \<in> set rs \<and> (\<forall>s \<in> set rs. s = r \<or> rule_specificity s < rule_specificity r)"
proof -
  have m: "{r} = {x \<in> set rs. \<forall>s \<in> set rs. rule_specificity s \<le> rule_specificity x}"
    using arg_cong [OF assms, of set] by (auto simp: most_specific_rules_def)
  have r: "r \<in> set rs" "\<forall>s \<in> set rs. rule_specificity s \<le> rule_specificity r"
    and only: "\<And>s. s \<in> set rs \<Longrightarrow> \<forall>t \<in> set rs. rule_specificity t \<le> rule_specificity s \<Longrightarrow> s = r"
    using m by blast+
  have "s = r \<or> rule_specificity s < rule_specificity r" if "s \<in> set rs" for s
    using that r only [of s] by force
  then show ?thesis using r by blast
qed

lemma egress_permitted:
  assumes "ed_permitted (egress_evaluate p provider capability classification route audit)"
  obtains r where "ed_rule (egress_evaluate p provider capability classification route audit) = Some r"
    and "decisive_rule p provider capability classification route r"
    and "mr_handling r \<noteq> DENY" and "mr_audit_required r \<longrightarrow> audit" and "\<not> mr_dlp_required r"
proof -
  let ?m = "matching_rules p provider capability classification route"
  obtain r where r: "most_specific_rules ?m = [r]"
    using assms by (auto simp: egress_evaluate_def Let_def split: if_splits list.splits)
  have "decisive_rule p provider capability classification route r"
    using most_specific_single [OF r] by (auto simp: matching_rules_def decisive_rule_def)
  then show ?thesis
    using that assms r
    by (auto simp: egress_evaluate_def Let_def implemented_dlp_adapter_def split: if_splits)
qed

lemma high_sensitivity_audited:
  assumes "egress_policy_from_mapping h value = Inr p"
    and "ed_permitted (egress_evaluate p provider capability classification route audit)"
    and "classification = CONFIDENTIAL \<or> classification = RESTRICTED"
  shows "route = AUDITED \<and> audit
    \<and> (\<exists>r. ed_rule (egress_evaluate p provider capability classification route audit) = Some r
          \<and> ''*'' \<notin> set (mr_allowed_fields r))"
proof -
  obtain r where r: "ed_rule (egress_evaluate p provider capability classification route audit) = Some r"
    "decisive_rule p provider capability classification route r" "mr_handling r \<noteq> DENY"
    "mr_audit_required r \<longrightarrow> audit"
    using egress_permitted [OF assms(2)] by metis
  have "bounded_rule r" "high_sensitivity r" "route \<in> set (mr_routes r)"
    using r(2) assms(3) egress_policy_from_mapping_bounded [OF assms(1)]
    by (auto simp: decisive_rule_def rule_matches_def high_sensitivity_def)
  then show ?thesis using r by (auto simp: bounded_rule_def)
qed

subsection \<open>What a binding commits to\<close>

definition binding_within :: "host \<Rightarrow> egress_policy \<Rightarrow> agent_action \<Rightarrow> capability_definition \<Rightarrow> egress_binding \<Rightarrow> bool" where
  "binding_within h p a d b =
     (\<exists>r. decisive_rule p (rr_system (ac_target a)) (ac_capability a) (ac_data_classification a) (eb_route b) r
        \<and> mr_handling r \<noteq> DENY \<and> eb_rule_name b = mr_name r \<and> eb_handling b = mr_handling r
        \<and> eb_redacted_fields b = mr_redacted_fields r \<and> eb_max_output_bytes b = mr_max_output_bytes r
        \<and> (eb_requested_fields b = [] \<longrightarrow> ''*'' \<in> set (mr_allowed_fields r))
        \<and> (\<forall>f \<in> set (eb_requested_fields b). \<not> is_reserved_read_result_field_name h f
             \<and> (''*'' \<in> set (mr_allowed_fields r) \<or> h_casefold h f \<in> h_casefold h ` set (mr_allowed_fields r)))
        \<and> (\<exists>n. eb_requested_item_limit b = Some n \<and> n \<le> mr_max_items r))"

lemma shape_preflight_Inr:
  assumes "shape_preflight h p a d route audit = Inr (r, names, contract, n)"
  shows "decisive_rule p (rr_system (ac_target a)) (ac_capability a) (ac_data_classification a) route r"
    and "mr_handling r \<noteq> DENY" and "mr_audit_required r \<longrightarrow> audit" and "n \<le> mr_max_items r"
    and "names = [] \<longrightarrow> ''*'' \<in> set (mr_allowed_fields r)"
    and "\<forall>f \<in> set names. \<not> is_reserved_read_result_field_name h f
           \<and> (''*'' \<in> set (mr_allowed_fields r) \<or> h_casefold h f \<in> h_casefold h ` set (mr_allowed_fields r))"
proof -
  let ?e = "egress_evaluate p (rr_system (ac_target a)) (ac_capability a) (ac_data_classification a) route audit"
  have e: "ed_permitted ?e" "ed_rule ?e = Some r" and f: "requested_field_binding h a d = Inr (names, contract)"
    using assms by (auto simp: shape_preflight_def Let_def sbind_Inr split: option.splits if_splits)
  show "decisive_rule p (rr_system (ac_target a)) (ac_capability a) (ac_data_classification a) route r"
    "mr_handling r \<noteq> DENY" "mr_audit_required r \<longrightarrow> audit"
    using egress_permitted [OF e(1)] e(2) by (metis option.inject)+
  have g: "(\<forall>f \<in> set names. \<not> is_reserved_read_result_field_name h f)"
    using f by (auto simp: requested_field_binding_def Let_def sbind_Inr checked_Inr filter_empty_conv
        dest: arg_cong [where f = set])
  show "n \<le> mr_max_items r" "names = [] \<longrightarrow> ''*'' \<in> set (mr_allowed_fields r)"
    "\<forall>f \<in> set names. \<not> is_reserved_read_result_field_name h f
           \<and> (''*'' \<in> set (mr_allowed_fields r) \<or> h_casefold h f \<in> h_casefold h ` set (mr_allowed_fields r))"
    using assms e f g
    by (auto simp: shape_preflight_def Let_def sbind_Inr checked_Inr filter_empty_conv
        dest: arg_cong [where f = set] split: option.splits if_splits)
qed

lemma bind_within:
  assumes "bind_provider_data_egress h p a d binding route audit mode = Inr b"
  shows "binding_within h p a d b \<and> eb_route b = route"
proof -
  obtain r names contract n where s: "shape_preflight h p a d route audit = Inr (r, names, contract, n)"
    and b: "eb_rule_name b = mr_name r" "eb_handling b = mr_handling r" "eb_route b = route"
      "eb_redacted_fields b = mr_redacted_fields r" "eb_max_output_bytes b = mr_max_output_bytes r"
      "eb_requested_fields b = names" "eb_requested_item_limit b = Some n"
    using assms by (auto simp: bind_provider_data_egress_def sbind_Inr mk_egress_binding_def Let_def checked_Inr)
  then show ?thesis using shape_preflight_Inr [OF s] unfolding binding_within_def by metis
qed

subsection \<open>A persisted binding is read back\<close>

lemma egress_binding_eta [record_eta]:
  "\<lparr>eb_provider = eb_provider x, eb_capability = eb_capability x,
    eb_action_fingerprint = eb_action_fingerprint x,
    eb_policy_fingerprint = eb_policy_fingerprint x, eb_rule_name = eb_rule_name x,
    eb_data_classification = eb_data_classification x, eb_destination = eb_destination x,
    eb_model_tenancy = eb_model_tenancy x,
    eb_source_data_environment = eb_source_data_environment x, eb_route = eb_route x,
    eb_handling = eb_handling x, eb_audit_required = eb_audit_required x,
    eb_dlp_adapter = eb_dlp_adapter x,
    eb_connector_configuration_sha256 = eb_connector_configuration_sha256 x,
    eb_provider_origin_sha256 = eb_provider_origin_sha256 x,
    eb_provider_account_sha256 = eb_provider_account_sha256 x,
    eb_requested_fields = eb_requested_fields x, eb_field_contract = eb_field_contract x,
    eb_output_schema = eb_output_schema x, eb_output_resources = eb_output_resources x,
    eb_output_metadata_fields = eb_output_metadata_fields x,
    eb_request_parameter_names = eb_request_parameter_names x,
    eb_request_parameters_sha256 = eb_request_parameters_sha256 x,
    eb_requested_item_limit = eb_requested_item_limit x,
    eb_max_output_bytes = eb_max_output_bytes x, eb_redacted_fields = eb_redacted_fields x,
    eb_policy_allowed_fields = eb_policy_allowed_fields x, eb_schema = eb_schema x\<rparr> = (x :: egress_binding)"
  by (cases x) simp

lemma provider_route_members_str [simp]: "parse_enum provider_route_members (provider_route_str r) = Inr r"
  by (cases r) (simp_all add: provider_route_members_def parse_enum_def)

lemma handling_members_str [simp]: "parse_enum handling_members (handling_str r) = Inr r"
  by (cases r) (simp_all add: handling_members_def parse_enum_def)

lemma text_members_JStr: "text_members (map (\<lambda>(k, v). (k, JStr v)) ms) = Some ms"
  by (induction ms) auto

lemma egress_resources_JStr: "egress_resources (Some (JObj (map (\<lambda>(k, v). (k, JStr v)) ms))) = Inr ms"
  by (simp add: egress_resources_def text_members_JStr)

definition canonical_set :: "string list \<Rightarrow> bool" where
  "canonical_set xs = (sorted xs \<and> distinct xs)"

lemma canonical_sorted_set: "canonical_set (sorted_set xs)"
  by (simp add: canonical_set_def sorted_set_def)

lemma sorted_set_sort: "canonical_set xs \<Longrightarrow> sorted_set (sort xs) = xs"
  by (simp add: canonical_set_def sorted_set_def sorted_sort_id distinct_remdups_id)

lemma egress_item_limit_JInt:
  "(case l of None \<Rightarrow> False | Some n \<Rightarrow> n \<le> 0) = False \<Longrightarrow> egress_item_limit (Some (optional JInt l)) = Inr l"
  by (cases l) (simp_all add: egress_item_limit_def optional_def)

definition binding_valid :: "host \<Rightarrow> egress_binding \<Rightarrow> bool" where
  "binding_valid h b =
     (mk_egress_binding h b = Inr b \<and> sorted (map fst (eb_output_resources b))
      \<and> canonical_set (eb_redacted_fields b) \<and> canonical_set (eb_policy_allowed_fields b))"

lemma egress_binding_roundtrip:
  assumes "binding_valid h b"
  shows "egress_binding_from_dict h (egress_binding_to_dict b) = Inr b"
proof -
  have lim: "(case eb_requested_item_limit b of None \<Rightarrow> False | Some n \<Rightarrow> n \<le> 0) = False"
    using assms by (simp add: binding_valid_def mk_egress_binding_def Let_def checked_Inr)
  have res: "sort_key fst (eb_output_resources b) = eb_output_resources b"
    using assms by (intro sort_key_sorted_id) (simp add: binding_valid_def)
  have sets: "sorted_set (sort (eb_redacted_fields b)) = eb_redacted_fields b"
    "sorted_set (sort (eb_policy_allowed_fields b)) = eb_policy_allowed_fields b"
    using assms by (simp_all add: binding_valid_def sorted_set_sort)
  have mk: "mk_egress_binding h b = Inr b" using assms by (simp add: binding_valid_def)
  show ?thesis
    unfolding egress_binding_from_dict_def egress_binding_to_dict_def
    by (simp add: decode_simps decode_defs egress_sequence_def egress_resources_JStr egress_item_limit_JInt [OF lim, unfolded optional_def]
        egress_int_def egress_bool_def res sets egress_binding_eta mk)
qed

lemma model_rule_of_table_canonical:
  "model_rule_of_table h i j = Inr r \<Longrightarrow> canonical_set (mr_redacted_fields r) \<and> canonical_set (mr_allowed_fields r)"
  by (auto simp: model_rule_of_table_def Let_def sbind_Inr canonical_sorted_set dest!: mk_model_rule_bounded split: json.splits)

lemma egress_policy_from_mapping_canonical:
  assumes "egress_policy_from_mapping h value = Inr p"
  shows "\<forall>r \<in> set (ep_rules p). canonical_set (mr_redacted_fields r) \<and> canonical_set (mr_allowed_fields r)"
proof -
  obtain js where sm: "smap (\<lambda>(i, entry). model_rule_of_table h i entry) (enumerate 1 js) = Inr (ep_rules p)"
    using assms by (auto simp: egress_policy_from_mapping_def sbind_Inr mk_egress_policy_def checked_Inr)
  show ?thesis using smap_member [OF sm] model_rule_of_table_canonical by (fastforce split: prod.splits)
qed

lemma bound_binding_valid:
  assumes "egress_policy_from_mapping h value = Inr p"
    and "bind_provider_data_egress h p a d binding route audit mode = Inr b"
  shows "binding_valid h b"
proof -
  obtain r names contract n where s: "shape_preflight h p a d route audit = Inr (r, names, contract, n)"
    and b: "mk_egress_binding h b = Inr b" "eb_redacted_fields b = mr_redacted_fields r"
      "eb_policy_allowed_fields b = mr_allowed_fields r"
      "eb_output_resources b = sort_key fst (df_read_result_resources d)"
    using assms(2) by (auto simp: bind_provider_data_egress_def sbind_Inr mk_egress_binding_def Let_def checked_Inr)
  have "r \<in> set (ep_rules p)" using shape_preflight_Inr(1) [OF s] by (simp add: decisive_rule_def)
  then show ?thesis
    using b egress_policy_from_mapping_canonical [OF assms(1)] by (simp add: binding_valid_def sorted_sort_key)
qed

end
