(* ===== verification/Egress_Sanitizer.thy ===== *)
theory Egress_Sanitizer
  imports Provider_Egress
begin

text \<open>
  The sanitising of a provider result before it is returned to a model context (provider_egress.py):
  the redaction passes, the minimising of references and findings, the projection to the bound
  output contract and the limits. Whatever comes back from the provider, no value under a sensitive
  name survives at any depth, a resource shows requested and unreserved fields only, and the
  serialised result respects the bound size.
\<close>

subsection \<open>Redaction and projection of a result\<close>

definition field_identity :: "host \<Rightarrow> string \<Rightarrow> string" where
  "field_identity h k = without_underscores (normalize_read_result_field_name h k)"

definition sensitive_provider_keys :: "string list" where
  "sensitive_provider_keys =
     [''authorization'', ''authorization_header'', ''access_token'', ''refresh_token'', ''id_token'',
      ''api_token'', ''api_key'', ''token'', ''secret'', ''client_secret'', ''password'', ''credential'',
      ''credentials'', ''cookie'', ''set_cookie'', ''private_key'']"

definition sensitive_suffixes :: "string list" where
  "sensitive_suffixes =
     [''token'', ''secret'', ''password'', ''credential'', ''cookie'', ''apikey'', ''privatekey'']"

definition sensitive_identity :: "string \<Rightarrow> bool" where
  "sensitive_identity i =
     (i \<in> set (map without_underscores sensitive_provider_keys) \<or> prefix ''authorization'' i
      \<or> (\<exists>s \<in> set sensitive_suffixes. suffix s i))"

fun redact_configured_fields :: "host \<Rightarrow> string list \<Rightarrow> json \<Rightarrow> json" where
  "redact_configured_fields h names (JObj kvs) =
     JObj (map (\<lambda>kv. (fst kv, if field_identity h (fst kv) \<in> set names then redacted_mark
                              else redact_configured_fields h names (snd kv))) kvs)"
| "redact_configured_fields h names (JList xs) = JList (map (redact_configured_fields h names) xs)"
| "redact_configured_fields h names j = j"

fun redact_secret_variants :: "host \<Rightarrow> json \<Rightarrow> json" where
  "redact_secret_variants h (JObj kvs) =
     JObj (map (\<lambda>kv. (fst kv, if sensitive_identity (field_identity h (fst kv)) then redacted_mark
                              else redact_secret_variants h (snd kv))) kvs)"
| "redact_secret_variants h (JList xs) = JList (map (redact_secret_variants h) xs)"
| "redact_secret_variants h j = j"

definition first_string :: "host \<Rightarrow> string \<Rightarrow> json_object \<Rightarrow> string option" where
  "first_string h identity finding =
     (case filter (\<lambda>(k, v). field_identity h k = identity \<and> (case v of JStr _ \<Rightarrow> True | _ \<Rightarrow> False)) finding of
        (k, JStr s) # _ \<Rightarrow> Some s
      | _ \<Rightarrow> None)"

definition finding_metadata :: "host \<Rightarrow> json_object \<Rightarrow> exn + json_object" where
  "finding_metadata h finding =
     (let metadata = filter (\<lambda>(k, v). field_identity h k \<notin> {''excerpt'', ''path''}) finding in
      sbind (case first_string h ''path'' finding of
               None \<Rightarrow> Inr metadata
             | Some s \<Rightarrow> sbind (egress_digest h (JStr s)) (\<lambda>d. Inr (dict_put ''path_sha256'' (JStr d) metadata)))
        (\<lambda>m.
      case first_string h ''excerpt'' finding of
        None \<Rightarrow> Inr m
      | Some s \<Rightarrow> sbind (egress_digest h (JStr s)) (\<lambda>d.
          Inr (dict_put ''excerpt_length'' (JInt (int (py_len s))) (dict_put ''excerpt_sha256'' (JStr d) m)))))"

definition finding_objects :: "json list \<Rightarrow> json_object list" where
  "finding_objects js = concat (map (\<lambda>j. case j of JObj kvs \<Rightarrow> [kvs] | _ \<Rightarrow> []) js)"

definition is_list :: "json \<Rightarrow> bool" where
  "is_list j = (case j of JList _ \<Rightarrow> True | _ \<Rightarrow> False)"

fun minimize_findings :: "host \<Rightarrow> json \<Rightarrow> exn + json" where
  "minimize_findings h (JObj kvs) =
     sbind (smap (\<lambda>kv. sbind
       (if field_identity h (fst kv) = ''promptinjectionfindings'' \<and> is_list (snd kv)
        then sbind (smap (finding_metadata h)
                     (finding_objects (case snd kv of JList js \<Rightarrow> js | _ \<Rightarrow> []))) (\<lambda>ms. Inr (JList (map JObj ms)))
        else minimize_findings h (snd kv)) (\<lambda>v. Inr (fst kv, v))) kvs) (\<lambda>kvs'. Inr (JObj kvs'))"
| "minimize_findings h (JList xs) = sbind (smap (minimize_findings h) xs) (\<lambda>ys. Inr (JList ys))"
| "minimize_findings h j = Inr j"

definition opaque_reference :: "host \<Rightarrow> string \<Rightarrow> exn + string" where
  "opaque_reference h s = sbind (egress_digest h (JStr s)) (\<lambda>d. Inr (''reference:sha256:'' @ d))"

definition safe_reference :: "host \<Rightarrow> bool \<Rightarrow> string \<Rightarrow> exn + string" where
  "safe_reference h minimize_path s =
     sbind (checked [validate_bounded_string s] ()) (\<lambda>_.
     case h_urlsplit h s of
       None \<Rightarrow> opaque_reference h s
     | Some u \<Rightarrow>
         (case (url_port u, url_hostname u) of
            (None, _) \<Rightarrow> opaque_reference h s
          | (Some port, None) \<Rightarrow> opaque_reference h s
          | (Some port, Some hostname) \<Rightarrow>
              if url_scheme u \<notin> {''http'', ''https''} then opaque_reference h s
              else
                let name = rstrip_dots (h_lower h hostname);
                    bracketed = (if CHR '':'' \<in> set name then ''['' @ name @ '']'' else name);
                    netloc = (case port of None \<Rightarrow> bracketed | Some n \<Rightarrow> bracketed @ '':'' @ render_int n)
                in sbind (if minimize_path
                          then sbind (egress_digest h (JStr (url_path u))) (\<lambda>d. Inr (''/_redacted/'' @ d))
                          else Inr (url_path u)) (\<lambda>path.
                   Inr (h_urlunsplit h (url_scheme u) netloc path))))"

definition reference_identities :: "string list" where
  "reference_identities =
     [''connectorreference'', ''href'', ''link'', ''reference'', ''sourceurl'', ''sourceurls'', ''url'']"

definition reference_key :: "host \<Rightarrow> string \<Rightarrow> bool" where
  "reference_key h k =
     (field_identity h k \<in> set reference_identities
      \<or> suffix ''_url'' (normalize_read_result_field_name h k)
      \<or> py_len (field_identity h k) > 4 \<and> suffix ''url'' (field_identity h k))"

fun minimize_references :: "host \<Rightarrow> bool \<Rightarrow> string \<Rightarrow> json \<Rightarrow> exn + json" where
  "minimize_references h minimize_path key (JObj kvs) =
     sbind (smap (\<lambda>kv. sbind (minimize_references h minimize_path (fst kv) (snd kv)) (\<lambda>v. Inr (fst kv, v))) kvs)
       (\<lambda>kvs'. Inr (JObj kvs'))"
| "minimize_references h minimize_path key (JList xs) =
     sbind (smap (minimize_references h minimize_path key) xs) (\<lambda>ys. Inr (JList ys))"
| "minimize_references h minimize_path key (JStr s) =
     (if reference_key h key then sbind (safe_reference h minimize_path s) (\<lambda>r. Inr (JStr r)) else Inr (JStr s))"
| "minimize_references h minimize_path key j = Inr j"


definition json_scalar :: "json \<Rightarrow> bool" where
  "json_scalar j =
     (case j of JNull \<Rightarrow> True | JStr _ \<Rightarrow> True | JBool _ \<Rightarrow> True | JInt _ \<Rightarrow> True | JFloat fin _ \<Rightarrow> fin
        | _ \<Rightarrow> False)"

fun optional_strings :: "json list \<Rightarrow> string list option" where
  "optional_strings [] = Some []"
| "optional_strings (JNull # js) = optional_strings js"
| "optional_strings (JStr s # js) = map_option (Cons s) (optional_strings js)"
| "optional_strings _ = None"

definition retention_entry :: "string \<times> json \<Rightarrow> exn + string \<times> json" where
  "retention_entry kv =
     (if fst kv = ''persistence_requires_explicit_output''
      then (case snd kv of
              JBool b \<Rightarrow> Inr kv
            | _ \<Rightarrow> Inl (invalid ''provider-data egress retention persistence flag must be boolean''))
      else (case snd kv of
              JStr s \<Rightarrow> Inr kv
            | _ \<Rightarrow> Inl (invalid ''provider-data egress retention metadata must be strings'')))"

definition copy_output_metadata :: "string \<Rightarrow> json \<Rightarrow> int option \<Rightarrow> exn + json" where
  "copy_output_metadata key value limit =
     (if key = ''source_urls'' then
        (case (case value of JList js \<Rightarrow> optional_strings js | _ \<Rightarrow> None) of
           None \<Rightarrow> Inl (invalid ''provider-data egress source_urls metadata must be strings'')
         | Some urls \<Rightarrow>
             if (case limit of Some n \<Rightarrow> int (length urls) > n + 1 | None \<Rightarrow> False)
             then Inl (invalid ''provider-data egress source_urls exceed the requested item limit'')
             else Inr (strings urls))
      else if key = ''retention'' then
        (case value of
           JObj kvs \<Rightarrow>
             if \<not> fst ` set kvs \<subseteq> {''content_kind'', ''evidence_type'', ''persistence_requires_explicit_output''}
             then Inl (invalid ''provider-data egress retention metadata has an invalid shape'')
             else sbind (smap retention_entry kvs) (\<lambda>kvs'. Inr (JObj kvs'))
         | _ \<Rightarrow> Inl (invalid ''provider-data egress retention metadata must be an object''))
      else if key = ''repository'' then
        (case value of
           JObj kvs \<Rightarrow>
             if \<not> fst ` set kvs \<subseteq> {''name'', ''owner'', ''slug''} \<or> text_members kvs = None
             then Inl (invalid ''provider-data egress repository context has an invalid shape'')
             else Inr (JObj kvs)
         | _ \<Rightarrow> Inl (invalid ''provider-data egress repository context must be an object''))
      else if json_scalar value then Inr value
      else Inl (invalid ''provider-data egress envelope metadata must be a JSON scalar''))"

definition citation_keys :: "string list" where
  "citation_keys =
     [''citation_id'', ''marker'', ''parent_resource_id'', ''resource_id'', ''resource_type'', ''retrieved_at'',
      ''system'', ''title'', ''url'', ''version'']"

definition sanitize_citations :: "json option \<Rightarrow> int option \<Rightarrow> exn + json_object list" where
  "sanitize_citations v limit =
     (let shape = invalid ''provider-data egress citations have an invalid shape'' in
      case v of
        None \<Rightarrow> Inr []
      | Some JNull \<Rightarrow> Inr []
      | Some (JList js) \<Rightarrow>
          (case json_objects js of
             None \<Rightarrow> Inl shape
           | Some cs \<Rightarrow>
               if (case limit of Some n \<Rightarrow> int (length cs) > n | None \<Rightarrow> False)
               then Inl (invalid ''provider-data egress citations exceed the requested item limit'')
               else smap (\<lambda>c. if \<not> fst ` set c \<subseteq> set citation_keys \<or> (\<exists>kv \<in> set c. \<not> json_scalar (snd kv))
                              then Inl (invalid ''provider-data egress citation has fields outside its fixed schema'')
                              else Inr c) cs)
      | Some _ \<Rightarrow> Inl shape)"

fun omit_reserved :: "host \<Rightarrow> json \<Rightarrow> json" where
  "omit_reserved h (JObj kvs) =
     JObj (map (\<lambda>kv. (fst kv, omit_reserved h (snd kv)))
       (filter (\<lambda>kv. \<not> is_reserved_read_result_field_name h (fst kv)) kvs))"
| "omit_reserved h (JList xs) = JList (map (omit_reserved h) xs)"
| "omit_reserved h j = j"

definition project_resource :: "host \<Rightarrow> string list \<Rightarrow> json_object \<Rightarrow> json" where
  "project_resource h allowed v =
     omit_reserved h (JObj (filter (\<lambda>kv. normalize_read_result_field_name h (fst kv) \<in> set allowed) v))"

definition field_aliases :: "(string \<times> string list) list" where
  "field_aliases =
     [(''issuetype'', [''issue_type'']), (''project'', [''project_key'']),
      (''resolutiondate'', [''resolved_at'']), (''updated'', [''updated_at'']),
      (''status'', [''status'', ''status_category'', ''blocked''])]"

definition normalized_requested_fields :: "host \<Rightarrow> string list \<Rightarrow> string list" where
  "normalized_requested_fields h names =
     concat (map (\<lambda>f. normalize_read_result_field_name h f
       # (case map_of field_aliases (h_casefold h f) of Some xs \<Rightarrow> xs | None \<Rightarrow> [])) names)"

definition resource_view :: "host \<Rightarrow> egress_binding \<Rightarrow> json_object \<Rightarrow> json" where
  "resource_view h b v =
     (if eb_requested_fields b \<noteq> []
      then project_resource h (normalized_requested_fields h (eb_requested_fields b)) v
      else omit_reserved h (JObj v))"

definition project_output :: "host \<Rightarrow> egress_binding \<Rightarrow> json_object \<Rightarrow> string \<times> string \<Rightarrow> exn + (string \<times> json) option" where
  "project_output h b value kd =
     (case obj_get value (fst kd) of
        None \<Rightarrow> Inl (invalid ''provider-data egress result is missing a bound resource field'')
      | Some item \<Rightarrow>
          if snd kd = ''object'' then
            (case item of
               JObj v \<Rightarrow> Inr (Some (fst kd, resource_view h b v))
             | _ \<Rightarrow> Inl (invalid ''provider-data egress object resource has an invalid shape''))
          else if snd kd = ''object_list'' then
            (case (case item of JList js \<Rightarrow> json_objects js | _ \<Rightarrow> None) of
               Some vs \<Rightarrow> Inr (Some (fst kd, JList (map (resource_view h b) vs)))
             | None \<Rightarrow> Inl (invalid ''provider-data egress collection resource has an invalid shape''))
          else if snd kd = ''value'' then
            (if \<not> json_scalar item
             then Inl (invalid ''provider-data egress value resource must be a JSON scalar'')
             else if eb_requested_fields b = []
                  \<or> normalize_read_result_field_name h (fst kd)
                      \<in> set (normalized_requested_fields h (eb_requested_fields b))
             then Inr (Some (fst kd, item)) else Inr None)
          else Inl (invalid ''provider-data egress output resource type is unsupported''))"

definition put_entry :: "(string \<times> json) option \<Rightarrow> json_object \<Rightarrow> json_object" where
  "put_entry e o1 = (case e of None \<Rightarrow> o1 | Some (k, v) \<Rightarrow> dict_put k v o1)"

definition put_entries :: "(string \<times> json) option list \<Rightarrow> json_object \<Rightarrow> json_object" where
  "put_entries es o1 = fold put_entry es o1"

definition metadata_entry :: "egress_binding \<Rightarrow> json_object \<Rightarrow> string \<Rightarrow> exn + (string \<times> json) option" where
  "metadata_entry b value key =
     (case obj_get value key of
        None \<Rightarrow> Inr None
      | Some v \<Rightarrow> sbind (copy_output_metadata key v (eb_requested_item_limit b)) (\<lambda>m. Inr (Some (key, m))))"

definition citation_entries :: "egress_binding \<Rightarrow> json_object \<Rightarrow> exn + (string \<times> json) option list" where
  "citation_entries b value =
     (if eb_requested_fields b \<noteq> [] then Inr []
      else sbind (sanitize_citations (obj_get value ''citations'') (eb_requested_item_limit b)) (\<lambda>cs.
        Inr (if cs = [] then []
             else [Some (''citations'', JList (map JObj cs)),
                   Some (''citation_ids'', JList (List.map_filter (\<lambda>c. obj_get c ''citation_id'') cs))])))"

definition finding_entry :: "host \<Rightarrow> string \<times> security_finding \<Rightarrow> exn + json" where
  "finding_entry h pf =
     sbind (egress_digest h (JStr (fst pf))) (\<lambda>path_sha.
     sbind (egress_digest h (JStr (sf_excerpt (snd pf)))) (\<lambda>excerpt_sha.
     Inr (JObj [(''category'', JStr (sf_category (snd pf))), (''severity'', JStr (sf_severity (snd pf))),
                (''path_sha256'', JStr path_sha), (''excerpt_sha256'', JStr excerpt_sha),
                (''excerpt_length'', JInt (int (py_len (sf_excerpt (snd pf)))))])))"

definition contract_fields :: "egress_binding \<Rightarrow> string list" where
  "contract_fields b =
     ''schema'' # map fst (eb_output_resources b) @ eb_output_metadata_fields b
       @ READ_RESULT_CROSSCUT_FIELDS @ READ_RESULT_OMITTED_FIELDS"

text \<open>The projection of a result, before its evidence and the findings are attached.\<close>

definition projected_output :: "host \<Rightarrow> json_object \<Rightarrow> egress_binding \<Rightarrow> exn + json_object" where
  "projected_output h value b =
     sbind (checked
       [fail_if (obj_get value ''schema'' \<noteq> Some (JStr (eb_output_schema b)))
          (invalid ''provider-data egress result does not match its bound output schema''),
        fail_if (\<not> fst ` set value \<subseteq> set (contract_fields b))
          (invalid ''provider-data egress result has fields outside its bound output contract'')] ()) (\<lambda>_.
     sbind (smap (metadata_entry b value) (eb_output_metadata_fields b)) (\<lambda>metadata.
     sbind (citation_entries b value) (\<lambda>citations.
     sbind (smap (project_output h b value) (eb_output_resources b)) (\<lambda>resources.
     Inr (put_entries (metadata @ citations @ resources) [(''schema'', JStr (eb_output_schema b))])))))"

definition apply_output_contract :: "host \<Rightarrow> json_object \<Rightarrow> egress_binding \<Rightarrow> exn + json_object" where
  "apply_output_contract h value b =
     sbind (projected_output h value b) (\<lambda>projected.
     sbind (measure_json_resources (JObj projected) (eb_max_output_bytes b)) (\<lambda>_.
     sbind (content_digest h (JObj projected)) (\<lambda>evidence.
     sbind (smap (finding_entry h) (scan_untrusted_value h (JObj projected))) (\<lambda>findings.
     Inr (dict_put ''security''
            (JObj [(''content_is_untrusted'', JBool True), (''prompt_injection_findings'', JList findings)])
          (dict_put ''evidence'' (JObj [(''content_sha256'', JStr evidence)]) projected))))))"

definition enforce_item_limit :: "json_object \<Rightarrow> int option \<Rightarrow> (string \<times> string) list \<Rightarrow> exn option" where
  "enforce_item_limit value limit resources =
     (case limit of
        None \<Rightarrow> None
      | Some n \<Rightarrow>
          first_error
            (map (\<lambda>k. fail_if (case obj_get value k of Some (JInt i) \<Rightarrow> i > n | _ \<Rightarrow> False)
                        (invalid ''provider-data egress result exceeds the requested item limit''))
               [''count'', ''returned'']
             @ [fail_if (\<exists>(k, t) \<in> set resources. t = ''object_list''
                  \<and> (case obj_get value k of Some (JList js) \<Rightarrow> int (length js) > n | _ \<Rightarrow> False))
                  (invalid ''provider-data egress result exceeds the requested item limit'')]))"

definition redact_provider :: "host \<Rightarrow> json_object \<Rightarrow> egress_binding \<Rightarrow> exn + json_object" where
  "redact_provider h value b =
     sbind (minimize_findings h
       (redact_configured_fields h (map (field_identity h) (eb_redacted_fields b))
         (redact_secret_variants h (redact_secrets h (JObj value))))) (\<lambda>j.
     sbind (minimize_references h (eb_handling b = REDACT) [] j) (\<lambda>j'.
     case j' of JObj kvs \<Rightarrow> Inr kvs | _ \<Rightarrow> Inl (invalid ''provider-data egress result must be an object'')))"

definition sanitize_provider_mapping :: "host \<Rightarrow> json_object \<Rightarrow> egress_binding \<Rightarrow> exn + json_object" where
  "sanitize_provider_mapping h value b =
     sbind (redact_provider h value b) (\<lambda>redacted.
     sbind (apply_output_contract h redacted b) (\<lambda>normalized.
     sbind (checked [enforce_item_limit normalized (eb_requested_item_limit b) (eb_output_resources b)] ()) (\<lambda>_.
     sbind (measure_json_resources (JObj normalized) (eb_max_output_bytes b)) (\<lambda>_.
     sbind (checked
       [leaf_error (sort_keys (JObj normalized)),
        fail_if (has_surrogate (stable_json (JObj normalized))) (Exn ValueError ''surrogates not allowed''),
        fail_if (int (length (stable_json (JObj normalized))) > eb_max_output_bytes b)
          (invalid ''provider-data egress result exceeds the serialized byte limit'')] ()) (\<lambda>_.
     Inr normalized)))))"

definition sanitize_provider_result :: "host \<Rightarrow> execution_result \<Rightarrow> egress_binding \<Rightarrow> exn + execution_result" where
  "sanitize_provider_result h r b =
     (if er_compensation r \<noteq> None then Inl (invalid ''provider read result must not contain compensation'')
      else case er_after r of
        None \<Rightarrow> Inl (invalid ''provider read result is missing its bound output'')
      | Some value \<Rightarrow>
          sbind (sanitize_provider_mapping h value b) (\<lambda>after.
          sbind (case er_connector_reference r of
                   None \<Rightarrow> Inr None
                 | Some s \<Rightarrow> sbind (safe_reference h (eb_handling b = REDACT) s) (\<lambda>x. Inr (Some x))) (\<lambda>reference.
          mk_result h
            \<lparr>er_action_id = er_action_id r, er_state = er_state r, er_before = None, er_after = Some after,
             er_connector_reference = reference,
             er_message = ''provider read completed and crossed the approved egress boundary'',
             er_compensation = None, er_before_digest = [], er_after_digest = []\<rparr>)))"

definition verification_metadata :: "host \<Rightarrow> json_object option \<Rightarrow> egress_binding \<Rightarrow> exn + json_object option" where
  "verification_metadata h observed b =
     (case observed of
        None \<Rightarrow> Inr None
      | Some v \<Rightarrow>
          sbind (sanitize_provider_mapping h v b) (\<lambda>sanitized.
          sbind (content_digest h (JObj sanitized)) (\<lambda>d.
          Inr (Some [(''content_sha256'', JStr d), (''key_count'', JInt (int (length sanitized)))]))))"

definition probe_schema :: string where
  "probe_schema = ''master-agent/provider-probe@1''"

definition py_truth :: "json \<Rightarrow> bool" where
  "py_truth j =
     (case j of
        JNull \<Rightarrow> False | JBool b \<Rightarrow> b | JInt i \<Rightarrow> i \<noteq> 0 | JFloat fin r \<Rightarrow> r \<noteq> ''0.0'' \<and> r \<noteq> ''-0.0''
      | JStr s \<Rightarrow> s \<noteq> [] | JList xs \<Rightarrow> xs \<noteq> [] | JObj kvs \<Rightarrow> kvs \<noteq> [] | JOther t \<Rightarrow> True)"

definition minimize_probe_result :: "host \<Rightarrow> json_object \<Rightarrow> egress_binding \<Rightarrow> exn + json_object" where
  "minimize_probe_result h value b =
     sbind (redact_provider h value b) (\<lambda>redacted.
     sbind (measure_json_resources (JObj redacted) (eb_max_output_bytes b)) (\<lambda>_.
     sbind (content_digest h (JObj redacted)) (\<lambda>d.
     let reachable = (case obj_get redacted ''reachable'' of None \<Rightarrow> True | Some j \<Rightarrow> py_truth j)
     in sbind (sanitize_provider_mapping h
          [(''schema'', JStr probe_schema), (''reachable'', JBool reachable), (''result_sha256'', JStr d)] b)
        (\<lambda>sanitized.
        sbind (need_str h sanitized ''schema'') (\<lambda>schema.
        sbind (need sanitized ''reachable'') (\<lambda>reach.
        sbind (need_str h sanitized ''result_sha256'') (\<lambda>result.
        Inr [(''schema'', JStr schema), (''reachable'', JBool (py_truth reach)),
             (''result_sha256'', JStr result)])))))))"

definition provider_result_audit_summary :: "host \<Rightarrow> execution_result \<Rightarrow> egress_binding \<Rightarrow> exn + json_object" where
  "provider_result_audit_summary h r b =
     (let after = (case er_after r of None \<Rightarrow> [] | Some v \<Rightarrow> v) in
      sbind (content_digest h (JObj after)) (\<lambda>d.
      sbind (egress_binding_fingerprint h b) (\<lambda>fp.
      Inr [(''action_id'', JStr (er_action_id r)), (''state'', JStr (state_str (er_state r))),
           (''content_sha256'', JStr d), (''key_count'', JInt (int (length after))),
           (''egress_fingerprint'', JStr fp)])))"

subsection \<open>Nothing secret leaves\<close>

text \<open>At any depth, the value under a sensitive name satisfies a predicate.\<close>

fun masked :: "host \<Rightarrow> (json \<Rightarrow> bool) \<Rightarrow> json \<Rightarrow> bool" where
  "masked h p (JObj kvs) =
     (\<forall>kv \<in> set kvs. if sensitive_identity (field_identity h (fst kv)) then p (snd kv) else masked h p (snd kv))"
| "masked h p (JList xs) = (\<forall>x \<in> set xs. masked h p x)"
| "masked h p j = True"

definition is_mark :: "json \<Rightarrow> bool" where
  "is_mark j = (j = redacted_mark)"

text \<open>After references are minimised, a mark under the name of a reference is the reference that
  stands for the mark.\<close>

definition mark_or_reference :: "host \<Rightarrow> json \<Rightarrow> bool" where
  "mark_or_reference h j =
     (j = redacted_mark \<or> (\<exists>m r. safe_reference h m ''<redacted>'' = Inr r \<and> j = JStr r))"

definition masked_member :: "host \<Rightarrow> (json \<Rightarrow> bool) \<Rightarrow> string \<times> json \<Rightarrow> bool" where
  "masked_member h p kv =
     (if sensitive_identity (field_identity h (fst kv)) then p (snd kv) else masked h p (snd kv))"

lemma masked_JObj: "masked h p (JObj kvs) \<longleftrightarrow> (\<forall>kv \<in> set kvs. masked_member h p kv)"
  by (simp add: masked_member_def)

lemma masked_scalar: "json_scalar j \<Longrightarrow> masked h p j"
  by (cases j) (simp_all add: json_scalar_def)

lemma masked_strings [simp]: "masked h p (strings ss)"
  by (simp add: strings_def)

lemma masked_secret_variants: "masked h is_mark (redact_secret_variants h j)"
  by (induction j) (auto simp: is_mark_def)

lemma masked_configured: "masked h is_mark j \<Longrightarrow> masked h is_mark (redact_configured_fields h names j)"
  by (induction j) (auto simp: is_mark_def redacted_mark_def)

text \<open>Names in lower-case ASCII letters, digits and underscores, with which the case folding of the
  host does nothing.\<close>

definition plain_name :: "string \<Rightarrow> bool" where
  "plain_name s = (\<forall>c \<in> set s. 97 \<le> (of_char c :: nat) \<and> (of_char c :: nat) \<le> 122
                     \<or> 48 \<le> (of_char c :: nat) \<and> (of_char c :: nat) \<le> 57 \<or> c = CHR ''_'')"

definition folds_plain :: "host \<Rightarrow> bool" where
  "folds_plain h = (\<forall>s. plain_name s \<longrightarrow> h_casefold h s = s)"

definition envelope_names :: "string list" where
  "envelope_names =
     [''schema'', ''evidence'', ''security'', ''citations'', ''citation_ids'', ''source_urls'',
      ''content_sha256'', ''content_is_untrusted'', ''prompt_injection_findings'', ''category'', ''severity'',
      ''path_sha256'', ''excerpt_sha256'', ''excerpt_length'']"

definition snake_text :: "host \<Rightarrow> string \<Rightarrow> string" where
  "snake_text h s =
     concat (strip_underscores (collapse (\<lambda>c. c = ''_'')
       (collapse (\<lambda>c. \<not> word_chunk h c) (split_case (split_word (chunks s))))))"

lemma normalize_snake: "normalize_read_result_field_name h s = h_casefold h (snake_text h s)"
  by (simp add: normalize_read_result_field_name_def snake_text_def)

lemma chunks_plain: "plain_name s \<Longrightarrow> chunks s = map (\<lambda>c. [c]) s"
proof (induction s)
  case (Cons c s)
  have "\<not> is_cont d" if "d \<in> set s" for d
    using Cons.prems that by (auto simp: plain_name_def is_cont_def)
  then have "takeWhile is_cont s = []" "dropWhile is_cont s = s" by (cases s; simp)+
  moreover have "plain_name s" using Cons.prems by (simp add: plain_name_def)
  ultimately show ?case using Cons.IH by simp
qed simp

declare masked.simps(1) [simp del]

lemma envelope_snake: "\<forall>k \<in> set envelope_names. snake_text h k = k"
  by code_simp

lemma envelope_plain: "\<forall>k \<in> set envelope_names. plain_name k"
  by code_simp

lemma envelope_insensitive_text: "\<forall>k \<in> set envelope_names. \<not> sensitive_identity (without_underscores k)"
  by code_simp

lemma envelope_insensitive:
  assumes "folds_plain h" and "k \<in> set envelope_names"
  shows "\<not> sensitive_identity (field_identity h k)"
  using assms envelope_snake envelope_plain envelope_insensitive_text
  by (auto simp: field_identity_def normalize_snake folds_plain_def)

lemma findings_insensitive: "\<not> sensitive_identity ''promptinjectionfindings''"
  by code_simp

lemma masked_put:
  assumes "masked h p (JObj kvs)" and "masked_member h p (k, v)"
  shows "masked h p (JObj (dict_put k v kvs))"
  using assms dict_put_members [of k v kvs] unfolding masked_JObj by blast

lemma masked_filter: "masked h p (JObj kvs) \<Longrightarrow> masked h p (JObj (filter q kvs))"
  unfolding masked_JObj by simp

lemma masked_envelope:
  assumes "folds_plain h" and "k \<in> set envelope_names" and "masked h p v"
  shows "masked_member h p (k, v)"
  using assms envelope_insensitive by (simp add: masked_member_def)

lemma masked_put_envelope:
  "folds_plain h \<Longrightarrow> masked h p (JObj kvs) \<Longrightarrow> k \<in> set envelope_names \<Longrightarrow> masked h p v \<Longrightarrow>
   masked h p (JObj (dict_put k v kvs))"
  by (rule masked_put) (auto intro: masked_envelope)

lemma masked_finding:
  assumes "folds_plain h" and "masked h p (JObj kvs)" and "finding_metadata h kvs = Inr kvs'"
  shows "masked h p (JObj kvs')"
proof -
  let ?m = "filter (\<lambda>(k, v). field_identity h k \<notin> {''excerpt'', ''path''}) kvs"
  have names: "''path_sha256'' \<in> set envelope_names" "''excerpt_sha256'' \<in> set envelope_names"
    "''excerpt_length'' \<in> set envelope_names" by (simp_all add: envelope_names_def)
  obtain m where m1: "(case first_string h ''path'' kvs of None \<Rightarrow> Inr ?m
      | Some s \<Rightarrow> sbind (egress_digest h (JStr s)) (\<lambda>d. Inr (dict_put ''path_sha256'' (JStr d) ?m))) = Inr m"
    and m2: "(case first_string h ''excerpt'' kvs of None \<Rightarrow> Inr m
      | Some s \<Rightarrow> sbind (egress_digest h (JStr s)) (\<lambda>d. Inr (dict_put ''excerpt_length'' (JInt (int (py_len s)))
            (dict_put ''excerpt_sha256'' (JStr d) m)))) = Inr kvs'"
    using assms(3) unfolding finding_metadata_def Let_def sbind_Inr by blast
  have m: "m = ?m \<or> (\<exists>d. m = dict_put ''path_sha256'' (JStr d) ?m)"
    using m1 by (cases "first_string h ''path'' kvs") (auto simp: sbind_Inr)
  have k: "kvs' = m \<or> (\<exists>n d. kvs' = dict_put ''excerpt_length'' (JInt n) (dict_put ''excerpt_sha256'' (JStr d) m))"
    using m2 by (cases "first_string h ''excerpt'' kvs") (auto simp: sbind_Inr)
  have base: "masked h p (JObj ?m)" using assms(2) by (rule masked_filter)
  have "masked h p (JObj (dict_put ''path_sha256'' (JStr d) ?m))" for d
    by (rule masked_put_envelope [OF assms(1) base names(1)]) simp
  with base have mm: "masked h p (JObj m)" using m by (elim disjE exE) (simp_all only:)
  have "masked h p (JObj (dict_put ''excerpt_length'' (JInt n) (dict_put ''excerpt_sha256'' (JStr d) m)))" for n d
    by (rule masked_put_envelope [OF assms(1) _ names(3)], rule masked_put_envelope [OF assms(1) mm names(2)]) simp_all
  then show ?thesis using k mm by blast
qed

lemma masked_minimize_findings:
  assumes "folds_plain h" and "masked h is_mark j" and "minimize_findings h j = Inr j'"
  shows "masked h is_mark j'"
  using assms(2,3)
proof (induction j arbitrary: j')
  case (JList xs)
  then obtain ys where ys: "smap (minimize_findings h) xs = Inr ys" "j' = JList ys" by (auto simp: sbind_Inr)
  then show ?case using JList by (auto dest: smap_member)
next
  case (JObj kvs)
  have member: "masked_member h is_mark (fst kv, v)"
    if kv: "kv \<in> set kvs" and v: "(if field_identity h (fst kv) = ''promptinjectionfindings'' \<and> is_list (snd kv)
        then sbind (smap (finding_metadata h)
                     (finding_objects (case snd kv of JList js \<Rightarrow> js | _ \<Rightarrow> []))) (\<lambda>ms. Inr (JList (map JObj ms)))
        else minimize_findings h (snd kv)) = Inr v" for kv v
  proof (cases "sensitive_identity (field_identity h (fst kv))")
    case True
    then have "snd kv = redacted_mark"
      using JObj.prems(1) kv unfolding masked_JObj by (auto simp: is_mark_def masked_member_def)
    then have "v = redacted_mark" using v by (auto simp: redacted_mark_def is_list_def)
    then show ?thesis using True by (simp add: masked_member_def is_mark_def)
  next
    case False
    then have mk: "masked h is_mark (snd kv)"
      using JObj.prems(1) kv unfolding masked_JObj by (auto simp: masked_member_def)
    have "masked h is_mark v"
    proof (cases "field_identity h (fst kv) = ''promptinjectionfindings'' \<and> is_list (snd kv)")
      case True
      then obtain js ms where js: "snd kv = JList js" "smap (finding_metadata h) (finding_objects js) = Inr ms"
        "v = JList (map JObj ms)" using v by (auto simp: is_list_def sbind_Inr split: json.splits)
      have "masked h is_mark (JObj o1)" if "o1 \<in> set (finding_objects js)" for o1
        using that mk js(1) by (fastforce simp: finding_objects_def split: json.splits)
      then show ?thesis using js masked_finding [OF assms(1)] by (fastforce dest: smap_member)
    next
      case False
      then show ?thesis using JObj.IH [of kv "snd kv" v] v kv mk by (cases kv) auto
    qed
    then show ?thesis using False by (simp add: masked_member_def)
  qed
  obtain kvs' where j': "j' = JObj kvs'" and
    sm: "smap (\<lambda>kv. sbind (if field_identity h (fst kv) = ''promptinjectionfindings'' \<and> is_list (snd kv)
        then sbind (smap (finding_metadata h)
                     (finding_objects (case snd kv of JList js \<Rightarrow> js | _ \<Rightarrow> []))) (\<lambda>ms. Inr (JList (map JObj ms)))
        else minimize_findings h (snd kv)) (\<lambda>v. Inr (fst kv, v))) kvs = Inr kvs'"
    using JObj.prems(2) by (auto simp: sbind_Inr)
  have "masked_member h is_mark y" if "y \<in> set kvs'" for y
    using smap_member [OF sm that] member by (auto simp only: sbind_Inr)
  then show ?case unfolding j' masked_JObj by blast
qed auto

lemma masked_minimize_references:
  "masked h is_mark j \<Longrightarrow> minimize_references h m key j = Inr j' \<Longrightarrow> masked h (mark_or_reference h) j'"
proof (induction j arbitrary: key j')
  case (JList xs)
  then obtain ys where "smap (minimize_references h m key) xs = Inr ys" "j' = JList ys" by (auto simp: sbind_Inr)
  then show ?case using JList by (auto dest!: smap_member)
next
  case (JStr s)
  then show ?case by (auto simp: sbind_Inr split: if_splits)
next
  case (JObj kvs)
  obtain kvs' where j': "j' = JObj kvs'" and
    sm: "smap (\<lambda>kv. sbind (minimize_references h m (fst kv) (snd kv)) (\<lambda>v. Inr (fst kv, v))) kvs = Inr kvs'"
    using JObj.prems(2) by (auto simp: sbind_Inr)
  have "masked_member h (mark_or_reference h) y" if y: "y \<in> set kvs'" for y
  proof -
    obtain kv v where kv: "kv \<in> set kvs" "minimize_references h m (fst kv) (snd kv) = Inr v" "y = (fst kv, v)"
      using smap_member [OF sm y] by (auto simp: sbind_Inr)
    have mk: "masked_member h is_mark kv" using JObj.prems(1) kv(1) unfolding masked_JObj by blast
    show ?thesis
    proof (cases "sensitive_identity (field_identity h (fst kv))")
      case True
      then have "snd kv = redacted_mark" using mk by (simp add: masked_member_def is_mark_def)
      then have "mark_or_reference h v"
        using kv(2) by (auto simp: redacted_mark_def mark_or_reference_def sbind_Inr split: if_splits)
      then show ?thesis using True kv(3) by (simp add: masked_member_def)
    next
      case False
      then have "masked h is_mark (snd kv)" using mk by (simp add: masked_member_def)
      then have "masked h (mark_or_reference h) v"
        using JObj.IH [of kv "snd kv" "fst kv" v] kv by (cases kv) auto
      then show ?thesis using False kv(3) by (simp add: masked_member_def)
    qed
  qed
  then show ?case unfolding j' masked_JObj by blast
qed auto

lemma redact_provider_masked:
  assumes "folds_plain h" and "redact_provider h value b = Inr kvs"
  shows "masked h (mark_or_reference h) (JObj kvs)"
proof -
  obtain j jj where j: "minimize_findings h
       (redact_configured_fields h (map (field_identity h) (eb_redacted_fields b))
         (redact_secret_variants h (redact_secrets h (JObj value)))) = Inr j"
    and jj: "minimize_references h (eb_handling b = REDACT) [] j = Inr jj"
    and c: "(case jj of JObj kvs \<Rightarrow> Inr kvs | _ \<Rightarrow> Inl (invalid ''provider-data egress result must be an object'')) = Inr kvs"
    using assms(2) unfolding redact_provider_def sbind_Inr by blast
  have j': "minimize_references h (eb_handling b = REDACT) [] j = Inr (JObj kvs)"
    using jj c by (simp split: json.splits)
  have "masked h is_mark j"
    by (rule masked_minimize_findings [OF assms(1) _ j]) (rule masked_configured, rule masked_secret_variants)
  then show ?thesis by (rule masked_minimize_references [OF _ j'])
qed

lemma masked_omit_reserved: "masked h p j \<Longrightarrow> (\<And>x. p x \<Longrightarrow> \<exists>s. x = JStr s) \<Longrightarrow> masked h p (omit_reserved h j)"
proof (induction j)
  case (JObj kvs)
  have "masked_member h p (fst kv, omit_reserved h (snd kv))" if "kv \<in> set kvs" for kv
  proof -
    have mk: "masked_member h p kv" using JObj.prems(1) that unfolding masked_JObj by blast
    show ?thesis
    proof (cases "sensitive_identity (field_identity h (fst kv))")
      case True
      then have p: "p (snd kv)" using mk by (simp add: masked_member_def)
      then obtain s where "snd kv = JStr s" using JObj.prems(2) by blast
      then show ?thesis using p True by (simp add: masked_member_def)
    next
      case False
      then show ?thesis using mk JObj.IH [of kv "snd kv"] JObj.prems(2) that by (cases kv) (auto simp: masked_member_def)
    qed
  qed
  then show ?case by (auto simp: masked_JObj simp del: split_paired_All)
qed auto

lemma json_objects_Some: "json_objects js = Some cs \<Longrightarrow> js = map JObj cs"
  by (induction js arbitrary: cs rule: json_objects.induct) auto

lemma smap_id: "(\<And>x y. f x = Inr y \<Longrightarrow> y = x) \<Longrightarrow> smap f xs = Inr ys \<Longrightarrow> ys = xs"
  by (induction xs arbitrary: ys) (auto simp: sbind_Inr)

lemma copy_output_metadata_same:
  assumes "copy_output_metadata key v limit = Inr m"
  shows "key = ''source_urls'' \<and> (\<exists>ss. m = strings ss) \<or> m = v"
proof -
  have "retention_entry kv = Inr y \<Longrightarrow> y = kv" for kv y
    by (auto simp: retention_entry_def split: if_splits json.splits)
  then have "smap retention_entry kvs = Inr kvs' \<Longrightarrow> kvs' = kvs" for kvs kvs' by (rule smap_id)
  then show ?thesis using assms
    by (auto simp: copy_output_metadata_def sbind_Inr split: if_splits json.splits option.splits)
qed

lemma obj_get_member: "obj_get kvs k = Some v \<Longrightarrow> (k, v) \<in> set kvs"
  by (simp add: obj_get_def map_of_SomeD)

lemma masked_put_entries:
  assumes "\<forall>k v. Some (k, v) \<in> set es \<longrightarrow> masked_member h p (k, v)" and "masked h p (JObj kvs)"
  shows "masked h p (JObj (put_entries es kvs))"
  using assms
proof (induction es arbitrary: kvs)
  case (Cons e es)
  have "masked h p (JObj (put_entry e kvs))"
    using Cons.prems masked_put by (auto simp: put_entry_def split: option.splits)
  then show ?case using Cons by (simp add: put_entries_def)
qed (simp add: put_entries_def)

lemma metadata_entry_Some:
  assumes "metadata_entry b value key = Inr (Some kv)"
  shows "\<exists>w. obj_get value key = Some w \<and> copy_output_metadata key w (eb_requested_item_limit b) = Inr (snd kv) \<and> fst kv = key"
proof (cases "obj_get value key")
  case None
  then show ?thesis using assms unfolding metadata_entry_def by simp
next
  case (Some w)
  then have "sbind (copy_output_metadata key w (eb_requested_item_limit b)) (\<lambda>m. Inr (Some (key, m))) = Inr (Some kv)"
    using assms unfolding metadata_entry_def by simp
  then obtain m where "copy_output_metadata key w (eb_requested_item_limit b) = Inr m" "kv = (key, m)"
    unfolding sbind_Inr by blast
  then show ?thesis using Some by simp
qed

lemma masked_metadata_entry:
  assumes "folds_plain h" and "masked h p (JObj value)" and "metadata_entry b value key = Inr (Some (k, v))"
  shows "masked_member h p (k, v)"
proof -
  obtain w where w: "obj_get value key = Some w" "copy_output_metadata key w (eb_requested_item_limit b) = Inr v" "k = key"
    using metadata_entry_Some [OF assms(3)] by (metis fst_conv snd_conv)
  have mk: "masked_member h p (key, w)" using assms(2) obj_get_member [OF w(1)] unfolding masked_JObj by blast
  have u: "''source_urls'' \<in> set envelope_names" by (simp add: envelope_names_def)
  from copy_output_metadata_same [OF w(2)] show ?thesis
  proof
    assume "key = ''source_urls'' \<and> (\<exists>ss. v = strings ss)"
    then obtain ss where "key = ''source_urls''" "v = strings ss" by blast
    then show ?thesis using masked_envelope [OF assms(1) u masked_strings [of h p ss]] w(3) by (simp only:)
  qed (use mk w(3) in simp)
qed

lemma masked_citation_entry:
  assumes "folds_plain h" and "masked h p (JObj value)" and "citation_entries b value = Inr es"
    and "Some (k, v) \<in> set es"
  shows "masked_member h p (k, v)"
proof -
  obtain cs where cs: "sanitize_citations (obj_get value ''citations'') (eb_requested_item_limit b) = Inr cs"
    and ne: "cs \<noteq> []"
    and kv: "(k, v) = (''citations'', JList (map JObj cs))
        \<or> (k, v) = (''citation_ids'', JList (List.map_filter (\<lambda>c. obj_get c ''citation_id'') cs))"
    using assms(3,4) by (auto simp: citation_entries_def sbind_Inr split: if_splits)
  obtain ds where ds: "obj_get value ''citations'' = Some (JList (map JObj ds))"
    and sm: "smap (\<lambda>c. if \<not> fst ` set c \<subseteq> set citation_keys \<or> (\<exists>kv \<in> set c. \<not> json_scalar (snd kv))
        then Inl (invalid ''provider-data egress citation has fields outside its fixed schema'') else Inr c) ds = Inr cs"
    using cs ne by (auto simp: sanitize_citations_def Let_def split: option.splits json.splits if_splits dest: json_objects_Some)
  have eq: "ds = cs" by (rule smap_id [OF _ sm, symmetric]) (simp split: if_splits)
  have scalar: "\<forall>c \<in> set cs. \<forall>kv \<in> set c. json_scalar (snd kv)"
  proof
    fix c assume "c \<in> set cs"
    then obtain x where x: "(if \<not> fst ` set x \<subseteq> set citation_keys \<or> (\<exists>kv \<in> set x. \<not> json_scalar (snd kv))
        then Inl (invalid ''provider-data egress citation has fields outside its fixed schema'') else Inr x) = Inr c"
      using smap_member [OF sm] by blast
    then show "\<forall>kv \<in> set c. json_scalar (snd kv)" by (metis Inl_Inr_False sum.inject(2))
  qed
  have c: "''citations'' \<in> set envelope_names" "''citation_ids'' \<in> set envelope_names" by (simp_all add: envelope_names_def)
  have "masked_member h p (''citations'', JList (map JObj cs))"
    using assms(2) obj_get_member [OF ds] unfolding masked_JObj eq by blast
  moreover have "masked h p (JList (List.map_filter (\<lambda>c. obj_get c ''citation_id'') cs))"
  proof -
    have "json_scalar y" if y: "y \<in> set (List.map_filter (\<lambda>c. obj_get c ''citation_id'') cs)" for y
    proof -
      obtain c where "c \<in> set cs" "obj_get c ''citation_id'' = Some y" using y by (auto simp: List.map_filter_def)
      then show ?thesis using scalar obj_get_member by fastforce
    qed
    then show ?thesis using masked_scalar by simp
  qed
  ultimately show ?thesis using kv masked_envelope [OF assms(1) c(2)] by auto
qed

lemma masked_resource_view:
  "masked h p (JObj v) \<Longrightarrow> (\<And>x. p x \<Longrightarrow> \<exists>s. x = JStr s) \<Longrightarrow> masked h p (resource_view h b v)"
  by (auto simp: resource_view_def project_resource_def intro!: masked_omit_reserved masked_filter simp del: omit_reserved.simps)

lemma masked_project_output:
  assumes "masked h p (JObj value)" and "\<And>x. p x \<Longrightarrow> \<exists>s. x = JStr s"
    and "project_output h b value kd = Inr (Some (k, v))"
  shows "masked_member h p (k, v)"
proof -
  obtain item where item: "obj_get value (fst kd) = Some item" and k: "k = fst kd"
    using assms(3) by (auto simp: project_output_def split: option.splits if_splits json.splits)
  have mk: "masked_member h p (k, item)" using assms(1) obj_get_member [OF item] k unfolding masked_JObj by blast
  consider "v = item" | w where "item = JObj w" "v = resource_view h b w"
    | ws where "item = JList (map JObj ws)" "v = JList (map (resource_view h b) ws)"
    using assms(3) item
    by (auto simp: project_output_def split: if_splits json.splits option.splits dest: json_objects_Some)
  then show ?thesis
  proof cases
    case 1
    then show ?thesis using mk by simp
  next
    case (2 w)
    then have "\<not> p item" using assms(2) by blast
    then have "masked h p (JObj w)" "\<not> sensitive_identity (field_identity h k)"
      using mk 2 by (auto simp: masked_member_def split: if_splits)
    then show ?thesis using 2 masked_resource_view [OF _ assms(2)] by (simp add: masked_member_def)
  next
    case (3 ws)
    then have "\<not> p item" using assms(2) by blast
    then have "masked h p item" "\<not> sensitive_identity (field_identity h k)"
      using mk by (auto simp: masked_member_def split: if_splits)
    then show ?thesis using 3 masked_resource_view [OF _ assms(2)] by (simp add: masked_member_def)
  qed
qed

lemma masked_projected_output:
  assumes "folds_plain h" and "masked h p (JObj value)" and "\<And>x. p x \<Longrightarrow> \<exists>s. x = JStr s"
    and "projected_output h value b = Inr pr"
  shows "masked h p (JObj pr)"
proof -
  obtain ms cs rs where ms: "smap (metadata_entry b value) (eb_output_metadata_fields b) = Inr ms"
    and cs: "citation_entries b value = Inr cs" and rs: "smap (project_output h b value) (eb_output_resources b) = Inr rs"
    and pr: "pr = put_entries (ms @ cs @ rs) [(''schema'', JStr (eb_output_schema b))]"
    using assms(4) by (auto simp: projected_output_def sbind_Inr)
  have "masked_member h p (k, v)" if "Some (k, v) \<in> set (ms @ cs @ rs)" for k v
  proof -
    consider "Some (k, v) \<in> set ms" | "Some (k, v) \<in> set cs" | "Some (k, v) \<in> set rs" using \<open>Some (k, v) \<in> _\<close> by auto
    then show ?thesis
    proof cases
      case 1
      then show ?thesis using smap_member [OF ms 1] masked_metadata_entry [OF assms(1,2)] by blast
    next
      case 2
      then show ?thesis by (rule masked_citation_entry [OF assms(1,2) cs])
    next
      case 3
      then show ?thesis using smap_member [OF rs 3] masked_project_output [OF assms(2,3)] by blast
    qed
  qed
  moreover have "masked h p (JObj [(''schema'', JStr (eb_output_schema b))])"
    unfolding masked_JObj using masked_envelope [OF assms(1), of "''schema''"] by (simp add: envelope_names_def)
  ultimately show ?thesis unfolding pr by (intro masked_put_entries) blast+
qed

lemma finding_entry_masked:
  assumes "folds_plain h" and "finding_entry h pf = Inr j"
  shows "masked h p j"
proof -
  have e: "masked_member h p (k, v)" if "k \<in> set envelope_names" "json_scalar v" for k v
    by (rule masked_envelope [OF assms(1) that(1) masked_scalar [OF that(2)]])
  have "''category'' \<in> set envelope_names" "''severity'' \<in> set envelope_names" "''path_sha256'' \<in> set envelope_names"
    "''excerpt_sha256'' \<in> set envelope_names" "''excerpt_length'' \<in> set envelope_names"
    by (simp_all add: envelope_names_def)
  then show ?thesis using assms(2) e by (auto simp: finding_entry_def sbind_Inr masked_JObj json_scalar_def)
qed

lemma apply_output_contract_masked:
  assumes "folds_plain h" and "masked h p (JObj value)" and "\<And>x. p x \<Longrightarrow> \<exists>s. x = JStr s"
    and "apply_output_contract h value b = Inr r"
  shows "masked h p (JObj r)"
proof -
  obtain pr d fs where pr: "projected_output h value b = Inr pr"
    and fs: "smap (finding_entry h) (scan_untrusted_value h (JObj pr)) = Inr fs"
    and r: "r = dict_put ''security'' (JObj [(''content_is_untrusted'', JBool True), (''prompt_injection_findings'', JList fs)])
          (dict_put ''evidence'' (JObj [(''content_sha256'', JStr d)]) pr)"
    using assms(4) by (auto simp: apply_output_contract_def sbind_Inr)
  have m: "masked h p (JObj pr)" by (rule masked_projected_output [OF assms(1-3) pr])
  have names: "''evidence'' \<in> set envelope_names" "''security'' \<in> set envelope_names"
    "''content_sha256'' \<in> set envelope_names" "''content_is_untrusted'' \<in> set envelope_names"
    "''prompt_injection_findings'' \<in> set envelope_names" by (simp_all add: envelope_names_def)
  have "masked h p x" if "x \<in> set fs" for x
    using smap_member [OF fs that] finding_entry_masked [OF assms(1)] by blast
  then have "masked h p (JList fs)" by simp
  then have "masked h p (JObj [(''content_is_untrusted'', JBool True), (''prompt_injection_findings'', JList fs)])"
    "masked h p (JObj [(''content_sha256'', JStr d)])"
    using masked_envelope [OF assms(1)] names by (auto simp: masked_JObj)
  then show ?thesis unfolding r by (intro masked_put_envelope [OF assms(1)] m names)
qed

lemma sanitized_masked:
  assumes "folds_plain h" and "sanitize_provider_mapping h value b = Inr r"
  shows "masked h (mark_or_reference h) (JObj r)"
proof -
  obtain kvs where k: "redact_provider h value b = Inr kvs" "apply_output_contract h kvs b = Inr r"
    using assms(2) by (auto simp: sanitize_provider_mapping_def sbind_Inr)
  show ?thesis
    by (rule apply_output_contract_masked [OF assms(1) redact_provider_masked [OF assms(1) k(1)] _ k(2)])
      (auto simp: mark_or_reference_def redacted_mark_def)
qed

subsection \<open>What a sanitised result may contain\<close>

lemma put_entry_member: "kv \<in> set (put_entry e o1) \<Longrightarrow> Some kv = e \<or> kv \<in> set o1"
  using dict_put_members by (fastforce simp: put_entry_def split: option.splits)

lemma put_entries_member: "kv \<in> set (put_entries es o1) \<Longrightarrow> Some kv \<in> set es \<or> kv \<in> set o1"
  by (induction es arbitrary: o1) (auto simp: put_entries_def dest: put_entry_member)

lemma sanitized_bounds:
  assumes "sanitize_provider_mapping h value b = Inr r"
  shows "int (length (stable_json (JObj r))) \<le> eb_max_output_bytes b
    \<and> (\<forall>n k js. eb_requested_item_limit b = Some n \<and> (k, ''object_list'') \<in> set (eb_output_resources b)
         \<and> obj_get r k = Some (JList js) \<longrightarrow> int (length js) \<le> n)
    \<and> (\<forall>n k i. eb_requested_item_limit b = Some n \<and> k \<in> {''count'', ''returned''}
         \<and> obj_get r k = Some (JInt i) \<longrightarrow> i \<le> n)"
  using assms
  by (auto simp: sanitize_provider_mapping_def sbind_Inr checked_Inr enforce_item_limit_def
      first_error_None_iff first_error_append fail_if_case split: option.splits json.splits)

fun reserved_free :: "host \<Rightarrow> json \<Rightarrow> bool" where
  "reserved_free h (JObj kvs) =
     (\<forall>kv \<in> set kvs. \<not> is_reserved_read_result_field_name h (fst kv) \<and> reserved_free h (snd kv))"
| "reserved_free h (JList xs) = (\<forall>x \<in> set xs. reserved_free h x)"
| "reserved_free h j = True"

lemma omit_reserved_free: "reserved_free h (omit_reserved h j)"
  by (induction j) auto

definition exposes_only :: "host \<Rightarrow> egress_binding \<Rightarrow> json \<Rightarrow> bool" where
  "exposes_only h b v =
     (\<exists>kvs. v = JObj kvs \<and> reserved_free h v
        \<and> (eb_requested_fields b \<noteq> [] \<longrightarrow>
             (\<forall>kv \<in> set kvs. normalize_read_result_field_name h (fst kv)
                              \<in> set (normalized_requested_fields h (eb_requested_fields b)))))"

lemma resource_view_exposes: "exposes_only h b (resource_view h b v)"
  using omit_reserved_free [of h "JObj v"]
    omit_reserved_free [of h "JObj (filter (\<lambda>kv. normalize_read_result_field_name h (fst kv)
        \<in> set (normalized_requested_fields h (eb_requested_fields b))) v)"]
  by (auto simp: exposes_only_def resource_view_def project_resource_def)

definition resource_exposed :: "host \<Rightarrow> egress_binding \<Rightarrow> string \<times> json \<Rightarrow> bool" where
  "resource_exposed h b kv =
     (((fst kv, ''object'') \<in> set (eb_output_resources b) \<longrightarrow> exposes_only h b (snd kv))
      \<and> ((fst kv, ''object_list'') \<in> set (eb_output_resources b) \<longrightarrow>
           (\<exists>vs. snd kv = JList vs \<and> (\<forall>v \<in> set vs. exposes_only h b v))))"

lemma output_resource_errors_distinct:
  "output_resource_errors h seen rs = None \<Longrightarrow> distinct (map fst rs) \<and> set seen \<inter> fst ` set rs = {}"
proof (induction h seen rs rule: output_resource_errors.induct)
  case (2 h seen name descriptor rest)
  then show ?case by (auto simp: first_error_Cons fail_if_case split: option.splits)
qed simp

lemma mk_egress_binding_names:
  assumes "mk_egress_binding h b = Inr b'"
  shows "b' = b \<and> distinct (map fst (eb_output_resources b))
    \<and> fst ` set (eb_output_resources b) \<inter> set (eb_output_metadata_fields b) = {}
    \<and> (\<forall>n \<in> fst ` set (eb_output_resources b). \<not> is_reserved_read_result_field_name h n)"
proof -
  have "output_resource_errors h [] (eb_output_resources b) = None"
    and "b' = b" and "set (map fst (eb_output_resources b)) \<inter> set (eb_output_metadata_fields b) = {}"
    and "\<forall>n \<in> set (map fst (eb_output_resources b) @ eb_output_metadata_fields b). \<not> is_reserved_read_result_field_name h n"
    using assms by (simp_all add: mk_egress_binding_def Let_def checked_Inr)
  then show ?thesis using output_resource_errors_distinct [of h "[]" "eb_output_resources b"] by auto
qed

lemma project_output_exposed:
  assumes "distinct (map fst (eb_output_resources b))" and "kd \<in> set (eb_output_resources b)"
    and "project_output h b value kd = Inr (Some kv)"
  shows "resource_exposed h b kv"
proof -
  have only: "t = snd kd" if "(fst kd, t) \<in> set (eb_output_resources b)" for t
    using assms(1,2) that by (cases kd) (auto dest: eq_key_imp_eq_value)
  have kv: "fst kv = fst kd" and one: "snd kd = ''object'' \<Longrightarrow> \<exists>v. snd kv = resource_view h b v"
    and many: "snd kd = ''object_list'' \<Longrightarrow> \<exists>vs. snd kv = JList (map (resource_view h b) vs)"
    using assms(3) by (auto simp: project_output_def split: option.splits if_splits json.splits)
  have "exposes_only h b (snd kv)" if "(fst kd, ''object'') \<in> set (eb_output_resources b)"
    using one [OF only [OF that, symmetric]] resource_view_exposes by metis
  moreover have "\<exists>vs. snd kv = JList vs \<and> (\<forall>v \<in> set vs. exposes_only h b v)"
    if "(fst kd, ''object_list'') \<in> set (eb_output_resources b)"
    using many [OF only [OF that, symmetric]] resource_view_exposes by fastforce
  ultimately show ?thesis unfolding resource_exposed_def kv by blast
qed

lemma reserved_names:
  assumes "folds_plain h" and "k \<in> {''schema'', ''citations'', ''citation_ids'', ''evidence'', ''security''}"
  shows "is_reserved_read_result_field_name h k"
proof -
  have k: "k \<in> set READ_RESULT_RESERVED_FIELDS" "k \<in> set envelope_names"
    using assms(2) by (auto simp: READ_RESULT_RESERVED_FIELDS_def READ_RESULT_CROSSCUT_FIELDS_def envelope_names_def)
  then have "normalize_read_result_field_name h k = k"
    using assms(1) envelope_snake envelope_plain by (auto simp: normalize_snake folds_plain_def)
  then show ?thesis using k by (simp add: is_reserved_read_result_field_name_def Let_def)
qed

lemma sanitized_resources:
  assumes "folds_plain h" and "mk_egress_binding h b = Inr b" and "sanitize_provider_mapping h value b = Inr r"
    and "kv \<in> set r"
  shows "resource_exposed h b kv"
proof (cases "fst kv \<in> fst ` set (eb_output_resources b)")
  case False
  then show ?thesis by (force simp: resource_exposed_def)
next
  case True
  note names = mk_egress_binding_names [OF assms(2)]
  have fixed: "fst kv \<notin> {''schema'', ''citations'', ''citation_ids'', ''evidence'', ''security''}"
    using True names reserved_names [OF assms(1)] by blast
  obtain value' pr d fs where pr: "projected_output h value' b = Inr pr"
    and r: "r = dict_put ''security'' d (dict_put ''evidence'' fs pr)"
    using assms(3) by (auto simp: sanitize_provider_mapping_def apply_output_contract_def sbind_Inr)
  have kv: "kv \<in> set pr"
    using assms(4) fixed dict_put_members [of "''security''" d "dict_put ''evidence'' fs pr"]
      dict_put_members [of "''evidence''" fs pr] unfolding r by force
  obtain ms cs rs where ms: "smap (metadata_entry b value') (eb_output_metadata_fields b) = Inr ms"
    and cs: "citation_entries b value' = Inr cs" and rs: "smap (project_output h b value') (eb_output_resources b) = Inr rs"
    and pr': "pr = put_entries (ms @ cs @ rs) [(''schema'', JStr (eb_output_schema b))]"
    using pr by (auto simp: projected_output_def sbind_Inr)
  have "Some kv \<notin> set ms"
  proof
    assume "Some kv \<in> set ms"
    then obtain k where "k \<in> set (eb_output_metadata_fields b)" "metadata_entry b value' k = Inr (Some kv)"
      using smap_member [OF ms] by blast
    then have "fst kv \<in> set (eb_output_metadata_fields b)" using metadata_entry_Some by metis
    then show False using True names by blast
  qed
  moreover have "Some kv \<notin> set cs" using cs fixed by (auto simp: citation_entries_def sbind_Inr split: if_splits)
  ultimately have "Some kv \<in> set rs" using put_entries_member [OF kv [unfolded pr']] fixed by auto
  then obtain kd where "kd \<in> set (eb_output_resources b)" "project_output h b value' kd = Inr (Some kv)"
    using smap_member [OF rs] by blast
  then show ?thesis using project_output_exposed names by blast
qed

end
