(* ===== verification/Runtime_Samples.thy ===== *)
theory Runtime_Samples
  imports Samples Canonical_Sources Systems_Gate Connector_Registry Egress_Sanitizer
begin

text \<open>
  Concrete connectors, a capability document, governance and egress policies, a source-of-truth
  rule with a plan that follows it, a bound plan and a provider result, for the witnesses of the
  properties about the runtime checks.
\<close>

definition sample_connectors :: "nat connector_entry list" where
  "sample_connectors =
     [\<lparr>ce_system = ''jira'', ce_capabilities = [''jira.search''], ce_handle = 1\<rparr>,
      \<lparr>ce_system = ''jira'', ce_capabilities = [], ce_handle = 2\<rparr>]"

definition sample_registry :: "nat registry" where
  "sample_registry = projr (register_all sample_connectors [])"

definition sample_document :: json_object where
  "sample_document =
     [(''capabilities'', JObj
        [(''jira.search'', JObj
           [(''risk'', JStr ''read_only''), (''authentication'', JStr ''local''), (''enabled'', JBool True),
            (''parameter_schema'', JObj [(''jql'', JStr ''string'')])])])]"

definition sample_catalog :: catalog where
  "sample_catalog = projr (catalog_from_toml sample_host sample_document)"

definition sample_rule :: governance_rule where
  "sample_rule =
     \<lparr>gr_pattern = ''jira.*'', gr_owner = ''ops'', gr_authentication = ''api_token'',
      gr_data_classifications = [INTERNAL], gr_approval_tier = SINGLE,
      gr_environments = [DEVELOPMENT], gr_enabled = True\<rparr>"

definition sample_profile :: "egress_policy governance_profile" where
  "sample_profile =
     \<lparr>gp_organization = ''corp'', gp_environment = DEVELOPMENT, gp_secret_manager = ''s'',
      gp_audit_sink = ''a'', gp_external_model_policy = ''m'', gp_rules = [sample_rule],
      gp_metadata = [], gp_model_context = None\<rparr>"

definition sample_source :: source_rule where
  "sample_source =
     \<lparr>sr_field = ''status'', sr_canonical_resource = (''jira'', ''issue'', ''A-1''),
      sr_projection_resources = [(''teams'', ''chat'', ''C'')], sr_direction = ''outbound_only'',
      sr_canonical_extractors = [(''jira.issue.transition'', [''target_status''])],
      sr_projection_extractors = [(''teams.message.draft'', [''body''])]\<rparr>"

definition sample_transition :: agent_action where
  "sample_transition =
     sample_write\<lparr>ac_capability := ''jira.issue.transition'', ac_parameters := [(''target_status'', JStr ''done'')]\<rparr>"

definition sample_projection :: agent_action where
  "sample_projection =
     sample_write\<lparr>ac_capability := ''teams.message.draft'', ac_parameters := [(''body'', JStr ''done'')],
       ac_target := \<lparr>rr_system = ''teams'', rr_resource_type = ''chat'', rr_resource_id = ''C'',
                      rr_expected_version = None\<rparr>,
       ac_dependencies := [ac_action_id sample_action], ac_action_id := sample_uuid (CHR ''d''),
       ac_idempotency_key := ''k2''\<rparr>"

definition sample_projection_plan :: change_plan where
  "sample_projection_plan = sample_plan\<lparr>cp_actions := [sample_transition, sample_projection]\<rparr>"


definition sample_assessment :: systems_assessment where
  "sample_assessment =
     \<lparr>sa_desired_outcome = ''goal'', sa_current_behavior = ''b'', sa_constraint = ''c'', sa_leverage_point = ''l'',
      sa_simplest_intervention = ''goal'', sa_success_metric = ''m'', sa_failure_condition = ''f'',
      sa_low_risk = True, sa_reversible = True, sa_well_understood = True, sa_stocks = [], sa_flows = [],
      sa_feedback_loops = [], sa_delays = [], sa_unintended_consequences = [], sa_removable_complexity = [],
      sa_alternatives_considered = [], sa_added_complexity = [], sa_existing_mechanisms = [],
      sa_reversibility_strategy = [], sa_strategy_kernel = None,
      sa_schema = ''master-agent/systems-assessment@1''\<rparr>"

definition sample_gate :: gate_decision where
  "sample_gate =
     \<lparr>gd_route = FAST_PATH, gd_permitted = True, gd_reasons = [''explicit fast path accepted''],
      gd_complexity_score = 0,
      gd_assessment_fingerprint = ''d5524a24ff43254e5fcc572cdba2353e55153ef3f454e54e9e52c2d2a239245d'',
      gd_requires_human_review = False, gd_review_fingerprint = None,
      gd_schema = ''master-agent/systems-gate-decision@1''\<rparr>"

definition sample_bound :: change_plan where
  "sample_bound =
     sample_plan\<lparr>cp_systems_assessment := Some sample_assessment, cp_systems_decision := Some sample_gate\<rparr>"

definition sample_context :: json_object where
  "sample_context =
     [(''destination'', JStr ''d''), (''model_tenancy'', JStr ''t''),
      (''source_data_environment'', JStr ''nonproduction''), (''dlp_adapter'', JStr ''none''),
      (''rules'', JList [JObj
        [(''name'', JStr ''r''), (''providers'', JList [JStr ''jira'']), (''capabilities'', JList [JStr ''jira.*'']),
         (''data_classifications'', JList [JStr ''confidential'', JStr ''internal'']), (''destinations'', JList [JStr ''d'']),
         (''model_tenancies'', JList [JStr ''t'']), (''routes'', JList [JStr ''audited'']),
         (''handling'', JStr ''redact''), (''audit_required'', JBool True), (''dlp_required'', JBool False),
         (''redacted_fields'', JList [JStr ''email'']), (''allowed_fields'', JList [JStr ''summary'']),
         (''max_items'', JInt 2), (''max_output_bytes'', JInt 4000)]])]"

definition sample_egress :: egress_policy where
  "sample_egress = projr (egress_policy_from_mapping sample_host sample_context)"

definition sample_read :: agent_action where
  "sample_read = sample_action\<lparr>ac_parameters := [(''fields'', JList [JStr ''summary'']), (''limit'', JInt 1)]\<rparr>"

definition sample_read_definition :: capability_definition where
  "sample_read_definition =
     \<lparr>df_name = ''jira.search'', df_enabled = True, df_authentication = ''none'', df_risk = READ_ONLY,
      df_reversible = False, df_requires_expected_version = False, df_provider_precondition = ''none'',
      df_required_scopes = [], df_target_system = ''jira'', df_target_resource_types = [],
      df_parameter_schema = [], df_read_result_schema = ''jira@1'',
      df_read_result_resources = [(''issues'', ''object_list'')], df_read_result_metadata = [],
      df_max_input_bytes = None, df_max_output_bytes = None, df_uses_external_model = False,
      df_description = []\<rparr>"

definition sample_binding :: egress_binding where
  "sample_binding =
     (let digest = replicate 64 (CHR ''0'') in
      \<lparr>eb_provider = ''jira'', eb_capability = ''jira.search'', eb_action_fingerprint = digest,
       eb_policy_fingerprint = digest, eb_rule_name = ''r'', eb_data_classification = INTERNAL,
       eb_destination = ''d'', eb_model_tenancy = ''t'', eb_source_data_environment = ''nonproduction'',
       eb_route = AUDITED, eb_handling = REDACT, eb_audit_required = True, eb_dlp_adapter = ''none'',
       eb_connector_configuration_sha256 = digest, eb_provider_origin_sha256 = digest,
       eb_provider_account_sha256 = digest, eb_requested_fields = [''summary''],
       eb_field_contract = ''explicit-fields@2'', eb_output_schema = ''jira@1'',
       eb_output_resources = [(''issues'', ''object_list'')], eb_output_metadata_fields = [],
       eb_request_parameter_names = [''fields'', ''limit''], eb_request_parameters_sha256 = digest,
       eb_requested_item_limit = Some 1, eb_max_output_bytes = 4000, eb_redacted_fields = [''email''],
       eb_policy_allowed_fields = [''summary''], eb_schema = egress_schema\<rparr>)"

definition sample_output :: json_object where
  "sample_output =
     [(''schema'', JStr ''jira@1''),
      (''issues'', JList [JObj [(''summary'', JObj [(''token'', JStr ''secret''), (''text'', JStr ''fine'')]),
                                (''email'', JStr ''e'')]])]"


lemma sample_register_all: "register_all sample_connectors [] = Inr sample_registry"
  by code_simp

lemma sample_catalog_loads: "catalog_from_toml sample_host sample_document = Inr sample_catalog"
  by code_simp

lemma sample_assessed: "for_fast_path ''goal'' ''b'' ''c'' ''l'' ''goal'' ''m'' ''f'' = Inr sample_assessment"
  by code_simp

lemma sample_binds: "bind_systems_governance sample_host default_gate sample_plan sample_assessment = Inr sample_bound"
  by code_simp

lemma sample_egress_loads: "egress_policy_from_mapping sample_host sample_context = Inr sample_egress"
  by code_simp

lemma sample_binding_mk: "mk_egress_binding sample_host sample_binding = Inr sample_binding"
  by code_simp


definition sample_sanitized :: json_object where
  "sample_sanitized = projr (sanitize_provider_mapping sample_host sample_output sample_binding)"


lemma sample_sanitizes: "sanitize_provider_mapping sample_host sample_output sample_binding = Inr sample_sanitized"
  by code_simp

definition sample_read_binding :: egress_binding where
  "sample_read_binding =
     projr (bind_provider_data_egress sample_host sample_egress sample_read sample_read_definition None
              AUDITED True ''mock'')"

lemma sample_egress_binds:
  "bind_provider_data_egress sample_host sample_egress sample_read sample_read_definition None
     AUDITED True ''mock'' = Inr sample_read_binding"
proof -
  have "\<not> isl (bind_provider_data_egress sample_host sample_egress sample_read sample_read_definition None
     AUDITED True ''mock'')" by code_simp
  then show ?thesis by (simp add: sample_read_binding_def)
qed

lemma sample_folds: "folds_plain sample_host"
  by (simp add: folds_plain_def sample_host_def)

definition sample_outcome :: outcome_evidence where
  "sample_outcome =
     \<lparr>oe_assessment_fingerprint = assessment_fingerprint sample_host sample_assessment,
      oe_decision_fingerprint = decision_fingerprint sample_host sample_gate,
      oe_success_metric_sha256 = success_metric_sha256 sample_host sample_assessment,
      oe_metric_status = CONFIRMED_MOVED, oe_unintended_effects_detected = False,
      oe_observed_complexity_score = Some 0, oe_removal_candidate_count = 0,
      oe_stop_condition_checked = True, oe_stop_condition_triggered = Some False,
      oe_reason_codes = [''metric_moved''], oe_schema = evidence_schema\<rparr>"

definition sample_review :: post_review where
  "sample_review = evidence_review_record sample_host sample_assessment sample_gate True False sample_outcome"

lemma sample_review_built:
  "build_systems_post_execution_review sample_host sample_assessment sample_gate [VERIFIED] False
     (Some (\<lambda>a d states. Some sample_outcome)) = Inr sample_review"
proof -
  have sha: "is_sha256 (h_sha256 sample_host m)" for m by (simp add: sample_host_def sample_digest_sha256)
  have "complexity_score sample_assessment = 0" "\<not> invalid_codes [''metric_moved'']" by code_simp+
  then show ?thesis
    by (simp add: build_systems_post_execution_review_def observer_result_def sample_outcome_def
        successful_states_def unintended_states_def sample_review_def evidence_review_record_def mk_post_review_def
        assessment_fingerprint_def decision_fingerprint_def success_metric_sha256_def sha add_code_def negative_def
        post_schema_1_def post_schema_2_def Let_def stable_sha256_def)
qed

lemma sample_review_cleared: "\<not> pr_reassessment_required sample_review"
proof -
  have "complexity_score sample_assessment = 0" by code_simp
  then show ?thesis by (simp add: sample_review_def evidence_review_record_def sample_outcome_def Let_def)
qed

definition sample_result :: execution_result where
  "sample_result =
     \<lparr>er_action_id = ac_action_id sample_action, er_state = VERIFIED, er_before = None,
      er_after = Some [(''token'', JStr ''secret'')], er_connector_reference = None, er_message = [],
      er_compensation = None, er_before_digest = replicate 64 (CHR ''0''),
      er_after_digest = replicate 64 (CHR ''0'')\<rparr>"

end
