(* ===== verification/Effects.thy ===== *)
theory Effects
  imports Errors
begin

text \<open>
  Calls that change the state of a run and may raise: what was changed before an exception stays
  changed, as in the sources. A handler sees the state at the point of the exception. The second
  part is the reasoning the orchestrator proofs use: triples with a postcondition for normal and one
  for exceptional termination, and the rules for sequencing and handling.
\<close>

type_synonym ('s, 'a) eff = "'s \<Rightarrow> (exn + 'a) \<times> 's"

definition eret :: "'a \<Rightarrow> ('s, 'a) eff" where
  "eret x = (\<lambda>s. (Inr x, s))"

definition eraise :: "exn \<Rightarrow> ('s, 'a) eff" where
  "eraise e = (\<lambda>s. (Inl e, s))"

definition elift :: "exn + 'a \<Rightarrow> ('s, 'a) eff" where
  "elift r = (\<lambda>s. (r, s))"

definition eget :: "('s \<Rightarrow> 'a) \<Rightarrow> ('s, 'a) eff" where
  "eget f = (\<lambda>s. (Inr (f s), s))"

definition emod :: "('s \<Rightarrow> 's) \<Rightarrow> ('s, unit) eff" where
  "emod f = (\<lambda>s. (Inr (), f s))"

definition ebind :: "('s, 'a) eff \<Rightarrow> ('a \<Rightarrow> ('s, 'b) eff) \<Rightarrow> ('s, 'b) eff" where
  "ebind m f = (\<lambda>s. case m s of (Inl e, s') \<Rightarrow> (Inl e, s') | (Inr x, s') \<Rightarrow> f x s')"

definition eseq :: "('s, unit) eff \<Rightarrow> ('s, 'b) eff \<Rightarrow> ('s, 'b) eff" where
  "eseq m n = ebind m (\<lambda>_. n)"

definition ecatch :: "('s, 'a) eff \<Rightarrow> (exn \<Rightarrow> ('s, 'a) eff) \<Rightarrow> ('s, 'a) eff" where
  "ecatch m f = (\<lambda>s. case m s of (Inl e, s') \<Rightarrow> f e s' | (Inr x, s') \<Rightarrow> (Inr x, s'))"

text \<open>The outcome of a call as a value.\<close>

definition eattempt :: "('s, 'a) eff \<Rightarrow> ('s, exn + 'a) eff" where
  "eattempt m = (\<lambda>s. case m s of (r, s') \<Rightarrow> (Inr r, s'))"

fun eforeach :: "('a \<Rightarrow> ('s, unit) eff) \<Rightarrow> 'a list \<Rightarrow> ('s, unit) eff" where
  "eforeach f [] = eret ()"
| "eforeach f (x # xs) = eseq (f x) (eforeach f xs)"

lemma elift_Inl: "ebind (elift (Inl e)) f = eraise e"
  by (rule ext) (simp add: ebind_def elift_def eraise_def)

lemma elift_Inr: "ebind (elift (Inr x)) f = f x"
  by (rule ext) (simp add: ebind_def elift_def)

lemma elift_apply: "elift r s = (r, s)"
  by (simp add: elift_def)

lemma ebind_apply: "m s = (Inr x, t) \<Longrightarrow> ebind m f s = f x t"
  by (simp add: ebind_def)

lemma ebind_InrE:
  "ebind m f s = (Inr y, s') \<Longrightarrow> (\<And>x t. m s = (Inr x, t) \<Longrightarrow> f x t = (Inr y, s') \<Longrightarrow> P) \<Longrightarrow> P"
  by (auto simp: ebind_def split: prod.splits sum.splits)

subsection \<open>Triples\<close>

definition triple ::
  "('s \<Rightarrow> bool) \<Rightarrow> ('s, 'a) eff \<Rightarrow> ('a \<Rightarrow> 's \<Rightarrow> bool) \<Rightarrow> (exn \<Rightarrow> 's \<Rightarrow> bool) \<Rightarrow> bool"
where
  "triple P m Q E = (\<forall>s. P s \<longrightarrow> (case m s of (Inl e, s') \<Rightarrow> E e s' | (Inr x, s') \<Rightarrow> Q x s'))"

lemma tripleD:
  "triple P m Q E \<Longrightarrow> P s \<Longrightarrow> m s = (Inr x, s') \<Longrightarrow> Q x s'"
  "triple P m Q E \<Longrightarrow> P s \<Longrightarrow> m s = (Inl e, s') \<Longrightarrow> E e s'"
  by (auto simp: triple_def dest: spec [where x = s])

lemma triple_weaken:
  "triple P m Q E \<Longrightarrow> (\<And>s. P' s \<Longrightarrow> P s) \<Longrightarrow> (\<And>x s. Q x s \<Longrightarrow> Q' x s) \<Longrightarrow> (\<And>e s. E e s \<Longrightarrow> E' e s)
   \<Longrightarrow> triple P' m Q' E'"
  by (fastforce simp: triple_def split: sum.splits prod.splits)

lemma triple_eret [intro]: "(\<And>s. P s \<Longrightarrow> Q x s) \<Longrightarrow> triple P (eret x) Q E"
  by (simp add: triple_def eret_def)

lemma triple_eraise [intro]: "(\<And>s. P s \<Longrightarrow> E e s) \<Longrightarrow> triple P (eraise e) Q E"
  by (simp add: triple_def eraise_def)

lemma triple_elift [intro]:
  "(\<And>s x. P s \<Longrightarrow> r = Inr x \<Longrightarrow> Q x s) \<Longrightarrow> (\<And>s e. P s \<Longrightarrow> r = Inl e \<Longrightarrow> E e s) \<Longrightarrow> triple P (elift r) Q E"
  by (simp add: triple_def elift_def split: sum.splits)

lemma triple_eget [intro]: "(\<And>s. P s \<Longrightarrow> Q (f s) s) \<Longrightarrow> triple P (eget f) Q E"
  by (simp add: triple_def eget_def)

lemma triple_emod [intro]: "(\<And>s. P s \<Longrightarrow> Q () (f s)) \<Longrightarrow> triple P (emod f) Q E"
  by (simp add: triple_def emod_def)

lemma triple_ebind:
  "triple P m R E \<Longrightarrow> (\<And>x. triple (R x) (f x) Q E) \<Longrightarrow> triple P (ebind m f) Q E"
  by (fastforce simp: triple_def ebind_def split: sum.splits prod.splits)

lemma triple_eseq: "triple P m (\<lambda>_. R) E \<Longrightarrow> triple R n Q E \<Longrightarrow> triple P (eseq m n) Q E"
  unfolding eseq_def by (rule triple_ebind)

lemma triple_ecatch:
  "triple P m Q R \<Longrightarrow> (\<And>e. triple (R e) (f e) Q E) \<Longrightarrow> triple P (ecatch m f) Q E"
  by (fastforce simp: triple_def ecatch_def split: sum.splits prod.splits)

lemma triple_eattempt:
  "triple P m (\<lambda>x. Q (Inr x)) (\<lambda>e. Q (Inl e)) \<Longrightarrow> triple P (eattempt m) Q E"
  by (simp add: triple_def eattempt_def split: sum.splits prod.splits) (metis sum.exhaust)

lemma triple_eforeach:
  "(\<And>x. x \<in> set xs \<Longrightarrow> triple P (f x) (\<lambda>_. P) E) \<Longrightarrow> triple P (eforeach f xs) (\<lambda>_. P) E"
  by (induction xs) (auto intro: triple_eseq)

lemma triple_if: "triple P m Q E \<Longrightarrow> triple P n Q E \<Longrightarrow> triple P (if b then m else n) Q E"
  by simp

lemma triple_prod: "(\<And>x y. triple P (f x y) Q E) \<Longrightarrow> triple P (case p of (x, y) \<Rightarrow> f x y) Q E"
  by (cases p) simp

subsection \<open>Invariants\<close>

text \<open>\<open>keeps P m\<close>: the call preserves \<open>P\<close> whether it returns or raises.\<close>

definition keeps :: "('s \<Rightarrow> bool) \<Rightarrow> ('s, 'a) eff \<Rightarrow> bool" where
  "keeps P m = triple P m (\<lambda>_. P) (\<lambda>_. P)"

named_theorems keep_rules \<open>calls that preserve an invariant\<close>

lemma keepsD: "keeps P m \<Longrightarrow> P s \<Longrightarrow> P (snd (m s))"
  by (cases "m s"; cases "fst (m s)") (auto simp: keeps_def triple_def dest!: spec [where x = s])

lemma keepsI: "(\<And>s. P s \<Longrightarrow> P (snd (m s))) \<Longrightarrow> keeps P m"
  by (fastforce simp: keeps_def triple_def split: sum.splits prod.splits)

lemma keeps_eret [keep_rules]: "keeps P (eret x)"
  by (simp add: keepsI eret_def)

lemma keeps_eraise [keep_rules]: "keeps P (eraise e)"
  by (simp add: keepsI eraise_def)

lemma keeps_elift [keep_rules]: "keeps P (elift r)"
  by (simp add: keepsI elift_def)

lemma keeps_eget [keep_rules]: "keeps P (eget f)"
  by (simp add: keepsI eget_def)

lemma keeps_emod: "(\<And>s. P s \<Longrightarrow> P (f s)) \<Longrightarrow> keeps P (emod f)"
  by (simp add: keepsI emod_def)

lemma keeps_ebind [keep_rules]: "keeps P m \<Longrightarrow> (\<And>x. keeps P (f x)) \<Longrightarrow> keeps P (ebind m f)"
  unfolding keeps_def by (rule triple_ebind)

lemma keeps_eseq [keep_rules]: "keeps P m \<Longrightarrow> keeps P n \<Longrightarrow> keeps P (eseq m n)"
  unfolding keeps_def by (rule triple_eseq)

lemma keeps_ecatch [keep_rules]: "keeps P m \<Longrightarrow> (\<And>e. keeps P (f e)) \<Longrightarrow> keeps P (ecatch m f)"
  unfolding keeps_def by (rule triple_ecatch)

lemma keeps_eattempt [keep_rules]: "keeps P m \<Longrightarrow> keeps P (eattempt m)"
  unfolding keeps_def by (rule triple_eattempt)

lemma keeps_eforeach [keep_rules]: "(\<And>x. x \<in> set xs \<Longrightarrow> keeps P (f x)) \<Longrightarrow> keeps P (eforeach f xs)"
  by (induction xs) (auto intro: keep_rules)

lemma keeps_if [keep_rules]: "(b \<Longrightarrow> keeps P m) \<Longrightarrow> (\<not> b \<Longrightarrow> keeps P n) \<Longrightarrow> keeps P (if b then m else n)"
  by simp

lemma keeps_option [keep_rules]:
  "(x = None \<Longrightarrow> keeps P m) \<Longrightarrow> (\<And>y. x = Some y \<Longrightarrow> keeps P (f y))
   \<Longrightarrow> keeps P (case x of None \<Rightarrow> m | Some y \<Rightarrow> f y)"
  by (cases x) auto

lemma keeps_sum [keep_rules]:
  "(\<And>e. r = Inl e \<Longrightarrow> keeps P (f e)) \<Longrightarrow> (\<And>x. r = Inr x \<Longrightarrow> keeps P (g x))
   \<Longrightarrow> keeps P (case r of Inl e \<Rightarrow> f e | Inr x \<Rightarrow> g x)"
  by (cases r) auto

lemma keeps_prod [keep_rules]: "(\<And>a b. p = (a, b) \<Longrightarrow> keeps P (f a b)) \<Longrightarrow> keeps P (case p of (a, b) \<Rightarrow> f a b)"
  by (cases p) auto

end
