(* ===== verification/Orchestrator.thy ===== *)
theory Orchestrator
  imports Egress_Sanitizer Systems_Gate Canonical_Sources Connector_Registry Effects
    Claim_Protocol
begin

text \<open>
  The workflow orchestrator (orchestrator.py): reports, the run loop with every gate in front of a
  connector call, the idempotency claim around a side effect, and compensation. Connectors,
  the pre-effect guard and the outcome observer are what the program receives from its caller; they
  act on a world the model does not look into. An audit operation may fail at the storage level
  before it changes anything. \<open>rs_calls\<close> and \<open>rs_confirmed\<close> are history variables that no operation
  reads: the connector calls made so far, and those of them that answered with a verification result
  whose \<open>verified\<close> is true.
  Performance measurements and the HTTP request budget that is active during a call are left out.
\<close>

subsection \<open>Reports\<close>

record action_report =
  rp_action_id :: uuid
  rp_capability :: string
  rp_state :: action_state
  rp_message :: string
  rp_result :: "execution_result option"
  rp_compensation :: "execution_result option"
  rp_egress :: "egress_binding option"

definition plain_report :: "agent_action \<Rightarrow> action_state \<Rightarrow> string \<Rightarrow> action_report" where
  "plain_report a st message =
     \<lparr>rp_action_id = ac_action_id a, rp_capability = ac_capability a, rp_state = st, rp_message = message,
      rp_result = None, rp_compensation = None, rp_egress = None\<rparr>"

definition optional_result :: "host \<Rightarrow> execution_result option \<Rightarrow> exn + json" where
  "optional_result h r =
     (case r of None \<Rightarrow> Inr JNull | Some x \<Rightarrow> sbind (result_to_dict h x) (\<lambda>d. Inr (JObj d)))"

definition report_to_dict :: "host \<Rightarrow> action_report \<Rightarrow> exn + json_object" where
  "report_to_dict h r =
     sbind (optional_result h (rp_result r)) (\<lambda>result.
     sbind (optional_result h (rp_compensation r)) (\<lambda>compensation.
     Inr [(''action_id'', JStr (rp_action_id r)), (''capability'', JStr (rp_capability r)),
          (''state'', JStr (state_str (rp_state r))), (''message'', JStr (rp_message r)),
          (''result'', result), (''compensation'', compensation),
          (''egress'', optional (\<lambda>b. JObj (egress_binding_to_dict b)) (rp_egress r))]))"

definition report_mapping :: "json_object \<Rightarrow> string \<Rightarrow> exn + json_object option" where
  "report_mapping data k =
     (case obj_get data k of
        None \<Rightarrow> Inr None
      | Some JNull \<Rightarrow> Inr None
      | Some (JObj kvs) \<Rightarrow> Inr (Some kvs)
      | Some _ \<Rightarrow> Inl (Exn ValueError (''action report '' @ k @ '' must be an object or null'')))"

definition map_optional :: "('a \<Rightarrow> exn + 'b) \<Rightarrow> 'a option \<Rightarrow> exn + 'b option" where
  "map_optional f v = (case v of None \<Rightarrow> Inr None | Some x \<Rightarrow> sbind (f x) (\<lambda>y. Inr (Some y)))"

definition report_from_dict :: "host \<Rightarrow> json_object \<Rightarrow> exn + action_report" where
  "report_from_dict h data =
     sbind (report_mapping data ''result'') (\<lambda>result_data.
     sbind (report_mapping data ''compensation'') (\<lambda>compensation_data.
     sbind (report_mapping data ''egress'') (\<lambda>egress_data.
     sbind (need_str h data ''action_id'') (\<lambda>id_text.
     sbind (parse_uuid h id_text) (\<lambda>aid.
     sbind (need_str h data ''capability'') (\<lambda>capability.
     sbind (need_str h data ''state'') (\<lambda>state_text.
     sbind (parse_enum state_members state_text) (\<lambda>st.
     sbind (map_optional (result_from_dict h) result_data) (\<lambda>result.
     sbind (map_optional (result_from_dict h) compensation_data) (\<lambda>compensation.
     sbind (map_optional (egress_binding_from_dict h) egress_data) (\<lambda>egress.
     Inr \<lparr>rp_action_id = aid, rp_capability = capability, rp_state = st,
          rp_message = get_str h data ''message'' [], rp_result = result,
          rp_compensation = compensation, rp_egress = egress\<rparr>)))))))))))"

text \<open>The performance snapshot of a run is carried as its serialised form.\<close>

record run_report =
  rn_run_id :: uuid
  rn_plan_id :: uuid
  rn_plan_fingerprint :: string
  rn_dry_run :: bool
  rn_actions :: "action_report list"
  rn_systems_review :: "post_review option"
  rn_performance :: "json_object option"

definition run_successful :: "run_report \<Rightarrow> bool" where
  "run_successful r = (\<forall>a \<in> set (rn_actions r). rp_state a \<in> {PLANNED, VERIFIED, REUSED})"

definition run_compensated :: "run_report \<Rightarrow> bool" where
  "run_compensated r = (\<exists>a \<in> set (rn_actions r). rp_state a = COMPENSATED)"

definition run_report_to_dict :: "host \<Rightarrow> run_report \<Rightarrow> exn + json_object" where
  "run_report_to_dict h r =
     sbind (smap (report_to_dict h) (rn_actions r)) (\<lambda>actions.
     Inr ([(''run_id'', JStr (rn_run_id r)), (''plan_id'', JStr (rn_plan_id r)),
           (''plan_fingerprint'', JStr (rn_plan_fingerprint r)), (''dry_run'', JBool (rn_dry_run r)),
           (''successful'', JBool (run_successful r)), (''compensated'', JBool (run_compensated r)),
           (''actions'', JList (map JObj actions))]
          @ (case rn_systems_review r of
               None \<Rightarrow> [] | Some v \<Rightarrow> [(''systems_review'', JObj (post_review_to_dict v))])
          @ (case rn_performance r of None \<Rightarrow> [] | Some p \<Rightarrow> [(''performance'', JObj p)])))"

definition run_mapping :: "json_object \<Rightarrow> string \<Rightarrow> exn + json_object option" where
  "run_mapping data k =
     (case obj_get data k of
        None \<Rightarrow> Inr None
      | Some JNull \<Rightarrow> Inr None
      | Some (JObj kvs) \<Rightarrow> Inr (Some kvs)
      | Some _ \<Rightarrow> Inl (Exn StructuredDataTypeError (''run report '' @ k @ '' must be an object or null'')))"

definition run_report_action :: "host \<Rightarrow> json \<Rightarrow> exn + action_report" where
  "run_report_action h item =
     (case item of
        JObj kvs \<Rightarrow> report_from_dict h kvs
      | _ \<Rightarrow> Inl (Exn StructuredDataTypeError ''run report action must be an object''))"

text \<open>\<open>PerformanceSnapshot.from_dict\<close> is the argument \<open>parse_performance\<close>.\<close>

definition run_report_from_dict ::
  "host \<Rightarrow> (json_object \<Rightarrow> exn + json_object) \<Rightarrow> json_object \<Rightarrow> exn + run_report"
where
  "run_report_from_dict h parse_performance data =
     sbind (case obj_get data ''actions'' of
              Some (JList js) \<Rightarrow> Inr js
            | _ \<Rightarrow> Inl (Exn StructuredDataTypeError ''run report actions must be a list'')) (\<lambda>raw_actions.
     sbind (smap (run_report_action h) raw_actions) (\<lambda>actions.
     sbind (run_mapping data ''systems_review'') (\<lambda>raw_review.
     sbind (run_mapping data ''performance'') (\<lambda>raw_performance.
     sbind (need_str h data ''run_id'') (\<lambda>run_text.
     sbind (parse_uuid h run_text) (\<lambda>run_id.
     sbind (need_str h data ''plan_id'') (\<lambda>plan_text.
     sbind (parse_uuid h plan_text) (\<lambda>plan_id.
     sbind (need_str h data ''plan_fingerprint'') (\<lambda>fp.
     sbind (case obj_get data ''dry_run'' of
              Some (JBool b) \<Rightarrow> Inr b
            | _ \<Rightarrow> Inl (Exn StructuredDataTypeError ''run report dry_run must be a boolean'')) (\<lambda>dry_run.
     sbind (map_optional (post_review_from_dict h) raw_review) (\<lambda>review.
     sbind (map_optional parse_performance raw_performance) (\<lambda>performance.
     Inr \<lparr>rn_run_id = run_id, rn_plan_id = plan_id, rn_plan_fingerprint = fp, rn_dry_run = dry_run,
          rn_actions = actions, rn_systems_review = review, rn_performance = performance\<rparr>))))))))))))"

subsection \<open>Connectors and the state of a run\<close>

text \<open>What a connector returns from \<open>execute\<close>: the program checks the class, and the local variable keeps
  the value also where the check fails.\<close>

datatype returned = ReturnedNone | ReturnedOther | ReturnedResult execution_result

text \<open>The optional protocols are optional fields. The configuration is read from the connector when it
  is needed, so it depends on the world; \<open>k_limits\<close> are the page and byte limits of a connector that has a
  configuration.\<close>

record 'w connector =
  k_mock :: bool
  k_config :: "'w \<Rightarrow> connector_config"
  k_limits :: "'w \<Rightarrow> (json \<times> json) option"
  k_execute :: "agent_action \<Rightarrow> ('w, returned) eff"
  k_verify :: "agent_action \<Rightarrow> execution_result \<Rightarrow> ('w, verification_result) eff"
  k_verify_completed :: "(agent_action \<Rightarrow> json_object \<Rightarrow> ('w, verification_result) eff) option"
  k_idempotency_record :: "(agent_action \<Rightarrow> execution_result \<Rightarrow> ('w, json_object) eff) option"
  k_compensate ::
    "((agent_action \<Rightarrow> execution_result \<Rightarrow> ('w, execution_result) eff)
      \<times> (agent_action \<Rightarrow> execution_result \<Rightarrow> execution_result \<Rightarrow> ('w, verification_result) eff)) option"

datatype connector_call =
    GuardCall agent_action
  | ExecuteCall agent_action
  | VerifyCall agent_action
  | ReconcileCall agent_action
  | RecordCall agent_action
  | CompensateCall agent_action
  | VerifyCompensationCall agent_action

record 'w executed_action =
  xa_action :: agent_action
  xa_connector :: "'w connector"
  xa_result :: execution_result
  xa_report_index :: nat

record 'w run_state =
  rs_world :: 'w
  rs_db :: audit_db
  rs_tick :: nat
  rs_calls :: "connector_call list"
  rs_confirmed :: "connector_call list"
  rs_reports :: "action_report list"
  rs_states :: "(uuid \<times> action_state) list"
  rs_executed :: "'w executed_action list"
  rs_abort :: bool
  rs_connector :: "'w connector option"
  rs_result :: returned
  rs_claim_token :: "string option"
  rs_egress :: "egress_binding option"

record 'w orchestrator =
  or_host :: host
  or_policy :: policy_engine
  or_sources :: "source_rule list"
  or_connectors :: "'w connector registry"
  or_capabilities :: "catalog option"
  or_governance :: "egress_policy governance_profile option"
  or_pre_effect_guard :: "(agent_action \<Rightarrow> ('w, unit) eff) option"
  or_observer :: "(systems_assessment \<Rightarrow> gate_decision \<Rightarrow> action_state list \<Rightarrow> outcome_evidence option) option"
  or_clock :: "nat \<Rightarrow> instant"
  or_timestamp :: "nat \<Rightarrow> string"
  or_token :: "nat \<Rightarrow> string"
  or_storage_fault :: "nat \<Rightarrow> exn option"

record run_context =
  cx_run_id :: uuid
  cx_plan :: change_plan
  cx_approvals :: "approval list"
  cx_dry_run :: bool
  cx_coherence_required :: bool

text \<open>A call into a connector, the clock, and an operation of the audit log.\<close>

definition call :: "connector_call \<Rightarrow> ('w, 'a) eff \<Rightarrow> ('w run_state, 'a) eff" where
  "call c m s =
     (case m (rs_world s) of (r, w) \<Rightarrow> (r, s\<lparr>rs_world := w, rs_calls := rs_calls s @ [c]\<rparr>))"

text \<open>A call that asks a connector for a verification result.\<close>

definition ask :: "connector_call \<Rightarrow> ('w, verification_result) eff \<Rightarrow> ('w run_state, verification_result) eff" where
  "ask c m s =
     (case call c m s of (r, s') \<Rightarrow>
        (r, case r of
              Inr v \<Rightarrow> if vr_verified v then s'\<lparr>rs_confirmed := rs_confirmed s' @ [c]\<rparr> else s'
            | Inl _ \<Rightarrow> s'))"

definition read_clock :: "'w orchestrator \<Rightarrow> ('w run_state, instant) eff" where
  "read_clock en s = (Inr (or_clock en (rs_tick s)), s\<lparr>rs_tick := rs_tick s + 1\<rparr>)"

definition audit_op ::
  "'w orchestrator \<Rightarrow> (nat \<Rightarrow> audit_db \<Rightarrow> audit_db \<times> (exn + 'a)) \<Rightarrow> ('w run_state, 'a) eff"
where
  "audit_op en f s =
     (let s' = s\<lparr>rs_tick := rs_tick s + 1\<rparr> in
      case or_storage_fault en (rs_tick s) of
        Some e \<Rightarrow> (Inl e, s')
      | None \<Rightarrow> (case f (rs_tick s) (rs_db s) of (db, r) \<Rightarrow> (r, s'\<lparr>rs_db := db\<rparr>)))"

definition emit_event ::
  "'w orchestrator \<Rightarrow> run_context \<Rightarrow> uuid option \<Rightarrow> string \<Rightarrow> json_object \<Rightarrow> ('w run_state, unit) eff"
where
  "emit_event en cx act event_type payload =
     ebind (audit_op en (\<lambda>t. audit_record (h_sha256 (or_host en)) (or_timestamp en t) (cx_run_id cx)
              (cp_plan_id (cx_plan cx)) act event_type (JObj payload))) (\<lambda>_. eret ())"

subsection \<open>Checks around a connector call\<close>

definition uses_idempotency :: "agent_action \<Rightarrow> bool" where
  "uses_idempotency a = (ac_risk a \<noteq> READ_ONLY \<and> ac_risk a \<noteq> LOCAL_GENERATION)"

definition dependency_succeeded :: "action_state option \<Rightarrow> bool \<Rightarrow> bool" where
  "dependency_succeeded st dry_run =
     (st = Some VERIFIED \<or> st = Some REUSED \<or> dry_run \<and> st = Some PLANNED)"

definition copy_execution_result :: "host \<Rightarrow> execution_result \<Rightarrow> exn + execution_result" where
  "copy_execution_result h r = (case validate_integrity h r of Some e \<Rightarrow> Inl e | None \<Rightarrow> mk_result h r)"

definition validate_execution_result :: "host \<Rightarrow> agent_action \<Rightarrow> execution_result \<Rightarrow> exn option" where
  "validate_execution_result h a r =
     first_error
       [fail_if (er_action_id r \<noteq> ac_action_id a)
          (Exn ConnectorError ''connector result action ID did not match the action''),
        validate_integrity h r,
        fail_if (er_state r \<noteq> SUCCEEDED)
          (Exn ConnectorError ''connector result must report succeeded before verification''),
        fail_if (ac_risk a = REVERSIBLE_WRITE \<and> er_compensation r = None)
          (Exn ConnectorError ''reversible connector result omitted a typed compensation descriptor'')]"

definition validate_capability :: "'w orchestrator \<Rightarrow> agent_action \<Rightarrow> exn + verdict" where
  "validate_capability en a =
     (let passed = Inr (True, ''capability passed catalog and governance checks'');
          catalog_verdict = (case or_capabilities en of None \<Rightarrow> (True, []) | Some c \<Rightarrow> validate_action c a True) in
      if \<not> fst catalog_verdict then Inr catalog_verdict
      else case or_governance en of
        None \<Rightarrow> passed
      | Some g \<Rightarrow>
          if \<not> fst (governance_validate_action g a) then Inr (governance_validate_action g a)
          else (case or_capabilities en of
             None \<Rightarrow> passed
           | Some c \<Rightarrow>
               sbind (catalog_definition c (ac_capability a)) (\<lambda>d.
                 if fst (validate_external_model g a d) then passed
                 else Inr (validate_external_model g a d))))"

definition execution_connector_binding :: "change_plan \<Rightarrow> agent_action \<Rightarrow> connector_binding option" where
  "execution_connector_binding p a =
     (case cp_execution_context p of
        None \<Rightarrow> None
      | Some c \<Rightarrow> find (\<lambda>b. cb_system b = binding_system (rr_system (ac_target a))) (xc_connectors c))"

definition context_mode :: "change_plan \<Rightarrow> string" where
  "context_mode p =
     (case cp_execution_context p of
        None \<Rightarrow> ''live''
      | Some c \<Rightarrow> (case xc_runtime c of None \<Rightarrow> ''live'' | Some r \<Rightarrow> rb_connector_mode r))"

definition validate_execution_contract ::
  "'w orchestrator \<Rightarrow> change_plan \<Rightarrow> agent_action \<Rightarrow> 'w connector \<Rightarrow> 'w \<Rightarrow> exn + verdict"
where
  "validate_execution_contract en p a k w =
     (case or_capabilities en of
        None \<Rightarrow> Inr (True, ''no capability catalog was configured'')
      | Some c \<Rightarrow>
          sbind (catalog_definition c (ac_capability a)) (\<lambda>d.
          let provider_backed = df_authentication d \<noteq> ''local''; mode = context_mode p in
          if provider_backed \<and> mode = ''mock'' \<and> \<not> k_mock k
          then Inr (False, ''mock execution context requires a MockConnector'')
          else if provider_backed \<and> mode = ''live'' \<and> k_mock k
          then Inr (False, ''live execution context cannot use a MockConnector'')
          else validate_execution (or_host en) c a (k_config k w) (k_compensate k \<noteq> None)
                 (execution_connector_binding p a) mode))"

definition implemented_audit_sink :: "host \<Rightarrow> string \<Rightarrow> bool" where
  "implemented_audit_sink h identifier =
     (h_casefold h (py_strip identifier) = ''local-sqlite-for-development'')"

definition provider_data_egress_binding ::
  "'w orchestrator \<Rightarrow> change_plan \<Rightarrow> agent_action \<Rightarrow> 'w connector \<Rightarrow> exn + egress_binding option"
where
  "provider_data_egress_binding en p a k =
     (let no_policy = misconfigured ''provider reads require capability and governance policy'' in
      if ac_risk a \<noteq> READ_ONLY then Inr None
      else case or_capabilities en of
        None \<Rightarrow> if k_mock k then Inr None else Inl no_policy
      | Some c \<Rightarrow>
          sbind (catalog_definition c (ac_capability a)) (\<lambda>d.
          if df_authentication d = ''local'' then Inr None
          else case or_governance en of
            None \<Rightarrow> Inl no_policy
          | Some g \<Rightarrow>
              (case gp_model_context g of
                 None \<Rightarrow> Inl (misconfigured ''provider reads require configured model-context policy'')
               | Some policy \<Rightarrow>
                   sbind (bind_provider_data_egress (or_host en) policy a d (execution_connector_binding p a)
                            AUDITED (implemented_audit_sink (or_host en) (gp_audit_sink g))
                            (if k_mock k then ''mock'' else ''live'')) (\<lambda>b. Inr (Some b)))))"

definition orchestrator_approvers :: "'w orchestrator \<Rightarrow> agent_action \<Rightarrow> exn + int" where
  "orchestrator_approvers en a =
     (case or_governance en of
        None \<Rightarrow> Inr 0
      | Some g \<Rightarrow>
          (case minimum_approvers g (ac_capability a) of
             Inr n \<Rightarrow> Inr n
           | Inl e \<Rightarrow> if caught_by [ConfigurationError] e then Inr 1 else Inl e))"

definition positive_limit :: "json \<Rightarrow> bool" where
  "positive_limit j = (case j of JInt i \<Rightarrow> i > 0 | _ \<Rightarrow> False)"

definition connector_http_action_budget :: "'w connector \<Rightarrow> 'w \<Rightarrow> exn option" where
  "connector_http_action_budget k w =
     (case k_limits k w of
        None \<Rightarrow> None
      | Some (pages, bytes) \<Rightarrow>
          fail_if (\<not> (positive_limit pages \<and> positive_limit bytes))
            (misconfigured ''live connector HTTP action budgets must be positive integers''))"

subsection \<open>Texts\<close>

fun class_name :: "exn_class \<Rightarrow> string" where
  "class_name MasterAgentError = ''MasterAgentError''"
| "class_name StructuredDataTypeError = ''StructuredDataTypeError''"
| "class_name ValidationError = ''ValidationError''"
| "class_name ConfigurationError = ''ConfigurationError''"
| "class_name PolicyDeniedError = ''PolicyDeniedError''"
| "class_name ApprovalRequiredError = ''ApprovalRequiredError''"
| "class_name ConnectorError = ''ConnectorError''"
| "class_name PreEffectError = ''PreEffectError''"
| "class_name UnsupportedCapabilityError = ''UnsupportedCapabilityError''"
| "class_name AuthenticationError = ''AuthenticationError''"
| "class_name AuthorizationError = ''AuthorizationError''"
| "class_name ResourceNotFoundError = ''ResourceNotFoundError''"
| "class_name RateLimitError = ''RateLimitError''"
| "class_name HttpRequestError = ''HttpRequestError''"
| "class_name ConnectorHttpError = ''ConnectorHttpError''"
| "class_name NetworkDnsError = ''NetworkDnsError''"
| "class_name NetworkTlsError = ''NetworkTlsError''"
| "class_name NetworkTimeoutError = ''NetworkTimeoutError''"
| "class_name ProxyAuthenticationError = ''ProxyAuthenticationError''"
| "class_name VersionConflictError = ''VersionConflictError''"
| "class_name VerificationError = ''VerificationError''"
| "class_name KeyError = ''KeyError''"
| "class_name OSError = ''OSError''"
| "class_name OverflowError = ''OverflowError''"
| "class_name RuntimeError = ''RuntimeError''"
| "class_name TypeError = ''TypeError''"
| "class_name ValueError = ''ValueError''"
| "class_name SqliteError = ''Error''"
| "class_name BaseException = ''BaseException''"

definition named_error :: "exn \<Rightarrow> string" where
  "named_error e = class_name (exn_kind e) @ '': '' @ exn_text e"

fun context_text :: "context_reason \<Rightarrow> string" where
  "context_text WindowNotStarted = ''contextual policy time window has not started''"
| "context_text WindowEnded = ''contextual policy time window has ended''"
| "context_text ClassificationRejected = ''contextual policy rejects the data classification''"
| "context_text ItemBudgetExceeded = ''contextual policy item budget is exceeded''"
| "context_text ByteBudgetExceeded = ''contextual policy byte budget is exceeded: ValidationError''"
| "context_text TargetRejected = ''contextual policy rejects the target resource''"
| "context_text CapsuleBindingRequired = ''contextual identity policy requires a capsule binding''"
| "context_text CapsuleClassificationDiffers = ''capsule and action data classifications differ''"
| "context_text IdentityRejected = ''contextual principal, tenant, or account is not allowed''"

fun reason_text :: "policy_reason \<Rightarrow> string" where
  "reason_text CapsuleDiffers = ''capsule risk or data classification differs from the action''"
| "reason_text (ContextDenied c) = context_text c"
| "reason_text (CapabilityProhibited c) = ''capability is prohibited: '' @ c"
| "reason_text (RiskProhibited r) = ''risk tier is prohibited: '' @ risk_str r"
| "reason_text RetrievedContentCannotAuthorize =
     ''retrieved content is data and cannot authorize a write or external action''"
| "reason_text (ApprovalsMissing n) =
     render_int n @ '' distinct approval(s) bound to this exact plan and action are required''"
| "reason_text (ApprovalsSupplied n) = nat_digits n @ '' valid immutable-plan approval(s) supplied''"
| "reason_text (AutoPermitted r) = ''risk tier is auto-permitted: '' @ risk_str r"
| "reason_text NoPermitRule = ''risk tier has no explicit permit rule''"

definition uuid_repr :: "uuid \<Rightarrow> string" where
  "uuid_repr i = ''UUID('' @ [CHR 0x27] @ i @ [CHR 0x27] @ '')''"

subsection \<open>Recording an action\<close>

text \<open>The payload of an \<open>action_state\<close> event. A report that carries a value other than an execution
  result has no summary.\<close>

definition dict_update :: "('k \<times> 'v) list \<Rightarrow> ('k \<times> 'v) list \<Rightarrow> ('k \<times> 'v) list" where
  "dict_update d extra = fold (\<lambda>(k, v). dict_put k v) extra d"

definition missing_attribute :: exn where
  "missing_attribute = Exn BaseException ''AttributeError''"

definition report_summary :: "host \<Rightarrow> action_report \<Rightarrow> bool \<Rightarrow> exn + json_object" where
  "report_summary h report foreign =
     (if foreign then Inl missing_attribute
      else case rp_result report of
        None \<Rightarrow> Inr []
      | Some r \<Rightarrow>
          sbind (case rp_egress report of
                   Some b \<Rightarrow> provider_result_audit_summary h r b
                 | None \<Rightarrow> result_audit_summary h r) (\<lambda>d. Inr [(''result'', JObj d)]))"

definition egress_members :: "host \<Rightarrow> egress_binding \<Rightarrow> exn + json_object" where
  "egress_members h b =
     sbind (egress_binding_fingerprint h b) (\<lambda>fp.
       Inr [(''egress'', JObj (egress_binding_to_dict b)), (''egress_fingerprint'', JStr fp)])"

definition governed_read :: "'w orchestrator \<Rightarrow> agent_action \<Rightarrow> bool" where
  "governed_read en a =
     (ac_risk a = READ_ONLY
      \<and> (case or_governance en of None \<Rightarrow> False | Some g \<Rightarrow> gp_model_context g \<noteq> None))"

definition action_payload ::
  "'w orchestrator \<Rightarrow> agent_action \<Rightarrow> action_report \<Rightarrow> bool \<Rightarrow> json_object \<Rightarrow> exn + json_object"
where
  "action_payload en a report foreign extra =
     (let h = or_host en; uri = resource_uri (ac_target a) in
      sbind (audit_message_metadata h (rp_message report) (''action_'' @ state_str (rp_state report))) (\<lambda>metadata.
      sbind (if rp_egress report \<noteq> None \<or> governed_read en a
             then sbind (text_digest h uri) (\<lambda>d. Inr [(''target_sha256'', JStr d)]) else Inr []) (\<lambda>target.
      sbind (case rp_egress report of
               Some b \<Rightarrow> egress_members h b
             | None \<Rightarrow> Inr (if governed_read en a then [] else [(''target'', JStr uri)])) (\<lambda>egress.
      sbind (report_summary h report foreign) (\<lambda>result.
      sbind (case rp_compensation report of
               None \<Rightarrow> Inr []
             | Some c \<Rightarrow> sbind (result_audit_summary h c) (\<lambda>d. Inr [(''compensation'', JObj d)])) (\<lambda>compensation.
      Inr (dict_update
             ([(''capability'', JStr (ac_capability a)), (''risk'', JStr (risk_str (ac_risk a))),
               (''authority_source'', JStr (authority_str (ac_authority_source a))),
               (''state'', JStr (state_str (rp_state report)))]
              @ metadata @ target @ egress @ result @ compensation) extra)))))))"

definition record_action ::
  "'w orchestrator \<Rightarrow> run_context \<Rightarrow> agent_action \<Rightarrow> action_report \<Rightarrow> bool \<Rightarrow> json_object \<Rightarrow> ('w run_state, unit) eff"
where
  "record_action en cx a report foreign extra =
     ebind (elift (action_payload en a report foreign extra)) (\<lambda>payload.
       emit_event en cx (Some (ac_action_id a)) ''action_state'' payload)"

subsection \<open>Outcomes of a claim\<close>

definition record_suffixes :: "string list" where
  "record_suffixes = [''_accepted'', ''_count'', ''_digest'', ''_id'', ''_reference'', ''_status'', ''_version'']"

definition record_member_error :: "string \<times> json \<Rightarrow> exn option" where
  "record_member_error kv =
     first_error
       [fail_if (fst kv \<noteq> ''schema'' \<and> \<not> (\<exists>x \<in> set record_suffixes. suffix x (fst kv)))
          (Exn StructuredDataTypeError ''idempotency record contains content-bearing metadata''),
        (case snd kv of
           JStr v \<Rightarrow>
             (case utf8_length v of
                None \<Rightarrow> Some (Exn ValueError ''surrogates not allowed'')
              | Some n \<Rightarrow> fail_if (n > 2048)
                  (Exn StructuredDataTypeError ''idempotency record value is too large''))
         | JBool b \<Rightarrow> None
         | JInt i \<Rightarrow> None
         | JNull \<Rightarrow> None
         | _ \<Rightarrow> Some (Exn StructuredDataTypeError ''idempotency record values must be scalar metadata''))]"

definition validate_idempotency_record :: "json_object \<Rightarrow> exn + json_object" where
  "validate_idempotency_record record =
     checked
       (map record_member_error record
        @ [fail_if (length record > 32) (Exn StructuredDataTypeError ''idempotency record has too many fields'')])
       record"

definition idempotency_record ::
  "'w orchestrator \<Rightarrow> 'w connector option \<Rightarrow> agent_action \<Rightarrow> execution_result \<Rightarrow> ('w run_state, json_object) eff"
where
  "idempotency_record en connector a r =
     (let fallback = elift (result_audit_summary (or_host en) r) in
      case Option.bind connector k_idempotency_record of
        None \<Rightarrow> fallback
      | Some f \<Rightarrow>
          ecatch (ebind (call (RecordCall a) (f a r)) (\<lambda>record. elift (validate_idempotency_record record)))
            (\<lambda>e. if caught_by [ConnectorError, KeyError, TypeError, ValueError] e then fallback else eraise e))"

definition indeterminate_result :: "json_object option \<Rightarrow> json_object option" where
  "indeterminate_result outcome =
     (case outcome of
        None \<Rightarrow> None
      | Some kvs \<Rightarrow> (case obj_get kvs ''result'' of Some (JObj r) \<Rightarrow> Some r | _ \<Rightarrow> None))"

text \<open>The settlement of a held claim; \<open>failed\<close> selects \<open>fail_action\<close> over \<open>mark_action_indeterminate\<close>. The
  answer is whether the outcome was stored.\<close>

definition settle_claim ::
  "'w orchestrator \<Rightarrow> agent_action \<Rightarrow> string \<Rightarrow> bool \<Rightarrow> json_object \<Rightarrow> ('w run_state, bool) eff"
where
  "settle_claim en a token failed outcome =
     (let key = ac_idempotency_key a; fp = effect_fingerprint (or_host en) a in
      ecatch
        (ebind (audit_op en (\<lambda>t. (if failed then fail_action else mark_action_indeterminate)
                  key fp token (JObj outcome) (or_timestamp en t))) (\<lambda>_. eret True))
        (\<lambda>e. if caught_by [OSError, RuntimeError, SqliteError, ConfigurationError] e then eret False
             else eraise e))"

definition persist_idempotency_outcome ::
  "'w orchestrator \<Rightarrow> agent_action \<Rightarrow> bool \<Rightarrow> string \<Rightarrow> returned \<Rightarrow> ('w run_state, bool) eff"
where
  "persist_idempotency_outcome en a failed message held =
     ebind (eget rs_claim_token) (\<lambda>claim.
     case claim of
       None \<Rightarrow> eret True
     | Some token \<Rightarrow>
         ebind (elift (audit_message_metadata (or_host en) message
                  (if failed then ''action_failed'' else ''action_indeterminate''))) (\<lambda>metadata.
         ebind (eget rs_connector) (\<lambda>connector.
         ebind (case held of
                  ReturnedNone \<Rightarrow> eret []
                | ReturnedOther \<Rightarrow> eraise missing_attribute
                | ReturnedResult r \<Rightarrow>
                    ebind (idempotency_record en connector a r) (\<lambda>record. eret [(''result'', JObj record)]))
           (\<lambda>result. settle_claim en a token failed ((''error'', JObj metadata) # result)))))"

subsection \<open>Compensation\<close>

definition put_report :: "nat \<Rightarrow> action_report \<Rightarrow> ('w run_state, unit) eff" where
  "put_report i report =
     ebind (eget (\<lambda>s. length (rs_reports s))) (\<lambda>n.
       if i < n then emod (\<lambda>s. s\<lparr>rs_reports := (rs_reports s)[i := report]\<rparr>)
       else eraise (Exn BaseException ''IndexError''))"

definition compensation_report :: "'w executed_action \<Rightarrow> action_state \<Rightarrow> string \<Rightarrow> action_report" where
  "compensation_report item st message =
     (plain_report (xa_action item) st message)\<lparr>rp_result := Some (xa_result item)\<rparr>"

text \<open>Why no compensation is attempted: the message of the report, or an exception that is not handled.\<close>

definition compensation_refused :: "host \<Rightarrow> 'w executed_action \<Rightarrow> exn + string option" where
  "compensation_refused h item =
     (case validate_integrity h (xa_result item) of
        Some e \<Rightarrow> if caught_by [ValidationError] e then Inr (Some (''compensation refused: '' @ exn_text e))
                  else Inl e
      | None \<Rightarrow>
          (case er_compensation (xa_result item) of
             None \<Rightarrow> Inr (Some ''reversible result omitted its compensation descriptor'')
           | Some d \<Rightarrow>
               if cd_mode d = MANUAL
               then Inr (Some (''automatic compensation is unavailable: ''
                      @ (case cd_reason d of None \<Rightarrow> cd_kind d | Some r \<Rightarrow> if r = [] then cd_kind d else r)))
               else if k_compensate (xa_connector item) = None
               then Inr (Some ''connector does not implement verified compensation'')
               else Inr None))"

definition compensation_errors :: "exn_class list" where
  "compensation_errors =
     [ConnectorError, KeyError, OSError, RuntimeError, TypeError, ValidationError, ValueError]"

definition attempt_compensation :: "'w orchestrator \<Rightarrow> 'w executed_action \<Rightarrow> ('w run_state, unit) eff" where
  "attempt_compensation en item =
     (let h = or_host en; a = xa_action item; k = xa_connector item; r = xa_result item in
      case k_compensate k of
        None \<Rightarrow> eret ()
      | Some (compensate, verify_compensation) \<Rightarrow>
          ebind (elift (copy_execution_result h r)) (\<lambda>r1.
          ebind (ask (VerifyCall a) (k_verify k a r1)) (\<lambda>postcondition.
          if \<not> vr_verified postcondition
          then eraise (Exn VersionConflictError
            ''automatic compensation refused because the target no longer matches the agent's verified post-state'')
          else
            ebind (elift (copy_execution_result h r)) (\<lambda>r2.
            ebind (call (CompensateCall a) (compensate a r2)) (\<lambda>c.
            ebind (elift (copy_execution_result h r)) (\<lambda>r3.
            ebind (elift (copy_execution_result h c)) (\<lambda>c'.
            ebind (ask (VerifyCompensationCall a) (verify_compensation a r3 c')) (\<lambda>v.
            if \<not> vr_verified v
            then eraise (Exn RuntimeError (''compensation verification failed: '' @ vr_message v))
            else
              eseq (put_report (xa_report_index item)
                     ((compensation_report item COMPENSATED (''compensated and verified: '' @ vr_message v))
                        \<lparr>rp_compensation := Some c\<rparr>))
                (audit_op en (\<lambda>t db. (clear_completed (ac_idempotency_key a)
                                       (Some (effect_fingerprint h a)) db, Inr ())))))))))))"

definition record_report_at :: "'w orchestrator \<Rightarrow> run_context \<Rightarrow> 'w executed_action \<Rightarrow> ('w run_state, unit) eff" where
  "record_report_at en cx item =
     ebind (eget (\<lambda>s. rs_reports s ! xa_report_index item)) (\<lambda>report.
       record_action en cx (xa_action item) report False [])"

definition compensate_one :: "'w orchestrator \<Rightarrow> run_context \<Rightarrow> 'w executed_action \<Rightarrow> ('w run_state, unit) eff" where
  "compensate_one en cx item =
     (let failed = (\<lambda>m. put_report (xa_report_index item) (compensation_report item COMPENSATION_FAILED m)) in
      ebind (elift (compensation_refused (or_host en) item)) (\<lambda>refusal.
      eseq (case refusal of
              Some m \<Rightarrow> failed m
            | None \<Rightarrow>
                ecatch (attempt_compensation en item)
                  (\<lambda>e. if caught_by compensation_errors e
                       then failed (''compensation failed: '' @ named_error e) else eraise e))
        (record_report_at en cx item)))"

definition finished_states :: "'w run_state \<Rightarrow> json_object" where
  "finished_states s =
     fold (\<lambda>item. dict_put (ac_action_id (xa_action item))
             (JStr (state_str (rp_state (rs_reports s ! xa_report_index item))))) (rs_executed s) []"

definition maybe_compensate :: "'w orchestrator \<Rightarrow> run_context \<Rightarrow> ('w run_state, unit) eff" where
  "maybe_compensate en cx =
     ebind (eget rs_executed) (\<lambda>executed.
     if cx_dry_run cx \<or> \<not> cp_compensate_on_failure (cx_plan cx) \<or> executed = []
     then emod (\<lambda>s. s\<lparr>rs_abort := False\<rparr>)
     else
       eseq (emit_event en cx None ''compensation_started'' [(''action_count'', JInt (int (length executed)))])
       (eseq (eforeach (compensate_one en cx) (rev executed))
       (ebind (eget finished_states) (\<lambda>states.
        eseq (emit_event en cx None ''compensation_finished'' [(''states'', JObj states)])
          (emod (\<lambda>s. s\<lparr>rs_executed := [], rs_abort := True\<rparr>))))))"

subsection \<open>One action\<close>

definition add_report :: "agent_action \<Rightarrow> action_report \<Rightarrow> ('w run_state, unit) eff" where
  "add_report a report =
     emod (\<lambda>s. s\<lparr>rs_reports := rs_reports s @ [report],
                rs_states := dict_put (ac_action_id a) (rp_state report) (rs_states s)\<rparr>)"

text \<open>A report, its state and its event, and, for a failure, compensation.\<close>

definition conclude ::
  "'w orchestrator \<Rightarrow> run_context \<Rightarrow> agent_action \<Rightarrow> action_state \<Rightarrow> string \<Rightarrow> json_object \<Rightarrow> bool
     \<Rightarrow> ('w run_state, unit) eff"
where
  "conclude en cx a st message extra failure =
     eseq (add_report a (plain_report a st message))
       (eseq (record_action en cx a (plain_report a st message) False extra)
         (if failure then maybe_compensate en cx else eret ()))"

definition reconciliation_errors :: "exn_class list" where
  "reconciliation_errors = [ConnectorError, KeyError, OSError, RuntimeError, TypeError, ValueError]"

definition reuse_completed ::
  "'w orchestrator \<Rightarrow> run_context \<Rightarrow> agent_action \<Rightarrow> 'w connector \<Rightarrow> json_object \<Rightarrow> ('w run_state, unit) eff"
where
  "reuse_completed en cx a k prior =
     (case k_verify_completed k of
        None \<Rightarrow> conclude en cx a CONFLICTED
          ''prior idempotent completion cannot be independently reverified by this connector'' [] True
      | Some verify_completed \<Rightarrow>
          ebind (eattempt (ask (ReconcileCall a) (verify_completed a prior))) (\<lambda>r.
          case r of
            Inl e \<Rightarrow>
              if caught_by reconciliation_errors e
              then conclude en cx a CONFLICTED
                (''prior idempotent completion could not be independently reverified: ''
                   @ class_name (exn_kind e)) [] True
              else eraise e
          | Inr v \<Rightarrow>
              if \<not> vr_verified v
              then conclude en cx a CONFLICTED
                (''prior idempotent effect no longer verifies: '' @ vr_message v) [] True
              else conclude en cx a REUSED
                ''the same idempotent action already completed; verified result metadata reused''
                [(''prior_result'', JObj prior)] False))"

text \<open>\<open>None\<close>: the outcome was reconciled; otherwise the reason why not, if reconciliation was tried.\<close>

definition reconcile_with ::
  "'w orchestrator \<Rightarrow> run_context \<Rightarrow> agent_action \<Rightarrow> ('w, verification_result) eff \<Rightarrow> json_object \<Rightarrow> json_object
     \<Rightarrow> ('w run_state, string option option) eff"
where
  "reconcile_with en cx a verify_completed outcome prior =
     ebind (ask (ReconcileCall a) verify_completed) (\<lambda>v.
     if vr_verified v
     then
       eseq (audit_op en (\<lambda>t. resolve_indeterminate_action (ac_idempotency_key a)
               (effect_fingerprint (or_host en) a) (JObj outcome) (JObj prior) (or_timestamp en t)))
       (eseq (conclude en cx a REUSED
               ''durable indeterminate outcome was independently reconciled against provider state''
               [(''prior_result'', JObj prior)] False)
         (eret None))
     else eret (Some (Some (vr_message v))))"

definition reconcile ::
  "'w orchestrator \<Rightarrow> run_context \<Rightarrow> agent_action \<Rightarrow> 'w connector \<Rightarrow> json_object option
     \<Rightarrow> ('w run_state, string option option) eff"
where
  "reconcile en cx a k outcome =
     (case (indeterminate_result outcome, k_verify_completed k) of
        (Some prior, Some verify_completed) \<Rightarrow>
          ecatch
            (reconcile_with en cx a (verify_completed a prior)
               (case outcome of None \<Rightarrow> [] | Some o1 \<Rightarrow> o1) prior)
            (\<lambda>e. if caught_by reconciliation_errors e then eret (Some (Some (class_name (exn_kind e))))
                 else eraise e)
      | _ \<Rightarrow> eret (Some None))"

definition reconcile_indeterminate ::
  "'w orchestrator \<Rightarrow> run_context \<Rightarrow> agent_action \<Rightarrow> 'w connector \<Rightarrow> json_object option
     \<Rightarrow> ('w run_state, unit) eff"
where
  "reconcile_indeterminate en cx a k outcome =
     ebind (reconcile en cx a k outcome) (\<lambda>r.
     case r of
       None \<Rightarrow> eret ()
     | Some message \<Rightarrow>
         conclude en cx a CONFLICTED
           (''idempotent action has a durable indeterminate outcome; provider reconciliation or operator ''
            @ ''resolution is required before retry''
            @ (case message of None \<Rightarrow> [] | Some m \<Rightarrow> ''; reconciliation did not verify: '' @ m)) [] True)"

text \<open>From the dispatch to the report. The result of the connector is kept in the state before anything
  else can fail.\<close>

definition set_result :: "returned \<Rightarrow> ('w run_state, unit) eff" where
  "set_result r = emod (\<lambda>s. s\<lparr>rs_result := r\<rparr>)"

definition effect_event :: "'w orchestrator \<Rightarrow> run_context \<Rightarrow> agent_action \<Rightarrow> execution_result \<Rightarrow> ('w run_state, unit) eff" where
  "effect_event en cx a r =
     (if uses_idempotency a
      then ebind (elift (result_audit_summary (or_host en) r)) (\<lambda>d.
             emit_event en cx (Some (ac_action_id a)) ''side_effect_may_have_occurred''
               [(''capability'', JStr (ac_capability a)), (''result'', JObj d)])
      else eret ())"

definition remember_executed :: "agent_action \<Rightarrow> 'w connector \<Rightarrow> execution_result \<Rightarrow> ('w run_state, unit) eff" where
  "remember_executed a k r =
     (if ac_risk a = REVERSIBLE_WRITE
      then emod (\<lambda>s. s\<lparr>rs_executed := rs_executed s
             @ [\<lparr>xa_action = a, xa_connector = k, xa_result = r, xa_report_index = length (rs_reports s)\<rparr>]\<rparr>)
      else eret ())"

definition recheck_egress ::
  "'w orchestrator \<Rightarrow> run_context \<Rightarrow> agent_action \<Rightarrow> 'w connector \<Rightarrow> egress_binding \<Rightarrow> execution_result \<Rightarrow> 'w
     \<Rightarrow> exn + execution_result"
where
  "recheck_egress en cx a k egress r w =
     (let h = or_host en; changed = misconfigured ''provider-data egress binding changed before result return'' in
      sbind (validate_execution_contract en (cx_plan cx) a k w) (\<lambda>(ok, reason).
      if \<not> ok then Inl (misconfigured reason)
      else
        sbind (provider_data_egress_binding en (cx_plan cx) a k) (\<lambda>rechecked.
        case rechecked of
          None \<Rightarrow> Inl changed
        | Some b \<Rightarrow>
            sbind (egress_binding_fingerprint h b) (\<lambda>fp.
            sbind (egress_binding_fingerprint h egress) (\<lambda>fp'.
            if fp \<noteq> fp' then Inl changed else sanitize_provider_result h r egress)))))"

definition verified_report ::
  "agent_action \<Rightarrow> action_state \<Rightarrow> string \<Rightarrow> execution_result option \<Rightarrow> egress_binding option \<Rightarrow> action_report"
where
  "verified_report a st message r egress = (plain_report a st message)\<lparr>rp_result := r, rp_egress := egress\<rparr>"

definition complete_claim ::
  "'w orchestrator \<Rightarrow> agent_action \<Rightarrow> 'w connector \<Rightarrow> execution_result \<Rightarrow> ('w run_state, unit) eff"
where
  "complete_claim en a k r =
     (if uses_idempotency a
      then ebind (idempotency_record en (Some k) a r) (\<lambda>record.
           ebind (eget rs_claim_token) (\<lambda>token.
             audit_op en (\<lambda>t. complete_action (ac_idempotency_key a) (effect_fingerprint (or_host en) a)
               (case token of None \<Rightarrow> [] | Some x \<Rightarrow> x) (JObj record) (or_timestamp en t))))
      else eret ())"

definition verified_outcome ::
  "'w orchestrator \<Rightarrow> run_context \<Rightarrow> agent_action \<Rightarrow> 'w connector \<Rightarrow> execution_result \<Rightarrow> string
     \<Rightarrow> ('w run_state, action_report) eff"
where
  "verified_outcome en cx a k r message =
     ebind (eget rs_egress) (\<lambda>egress.
     case egress of
       None \<Rightarrow> eseq (complete_claim en a k r) (eret (verified_report a VERIFIED message (Some r) None))
     | Some b \<Rightarrow>
         ebind (eget rs_world) (\<lambda>w.
         case recheck_egress en cx a k b r w of
           Inr r' \<Rightarrow>
             eseq (set_result (ReturnedResult r'))
               (eseq (complete_claim en a k r')
                 (eret (verified_report a VERIFIED ''provider read independently verified'' (Some r') egress)))
         | Inl e \<Rightarrow>
             if caught_by [ConfigurationError] e
             then eseq (complete_claim en a k r)
               (eret (verified_report a FAILED
                  ''provider-data egress binding changed before result return'' None egress))
             else eraise e))"

definition unverified_text :: "verification_result \<Rightarrow> bool \<Rightarrow> string" where
  "unverified_text v stored =
     ''connector may have produced a side effect but verification failed: '' @ vr_message v
     @ (if stored then [] else ''; durable outcome could not be finalized'')"

definition verify_outcome ::
  "'w orchestrator \<Rightarrow> run_context \<Rightarrow> agent_action \<Rightarrow> 'w connector \<Rightarrow> execution_result \<Rightarrow> execution_result
     \<Rightarrow> ('w run_state, action_report) eff"
where
  "verify_outcome en cx a k r copy =
     ebind (ask (VerifyCall a) (k_verify k a copy)) (\<lambda>v.
     if vr_verified v then verified_outcome en cx a k r (vr_message v)
     else
       ebind (persist_idempotency_outcome en a False (vr_message v) (ReturnedResult r)) (\<lambda>stored.
         eret ((plain_report a INDETERMINATE (unverified_text v stored))\<lparr>rp_result := Some r\<rparr>)))"

definition accept_result ::
  "'w orchestrator \<Rightarrow> run_context \<Rightarrow> agent_action \<Rightarrow> 'w connector \<Rightarrow> execution_result \<Rightarrow> ('w run_state, action_report) eff"
where
  "accept_result en cx a k r0 =
     (let h = or_host en in
      eseq (effect_event en cx a r0)
      (ebind (elift (copy_execution_result h r0)) (\<lambda>r.
       eseq (set_result (ReturnedResult r))
       (eseq (remember_executed a k r)
       (eseq (elift (checked [validate_execution_result h a r] ()))
       (ebind (elift (copy_execution_result h r)) (verify_outcome en cx a k r)))))))"

definition dispatch ::
  "'w orchestrator \<Rightarrow> run_context \<Rightarrow> agent_action \<Rightarrow> 'w connector \<Rightarrow> ('w run_state, action_report) eff"
where
  "dispatch en cx a k =
     ebind (call (ExecuteCall a) (k_execute k a)) (\<lambda>raw.
     eseq (set_result raw)
       (case raw of
          ReturnedResult r0 \<Rightarrow> accept_result en cx a k r0
        | _ \<Rightarrow> eraise (Exn ConnectorError ''connector returned an invalid execution result'')))"

definition guarded_dispatch ::
  "'w orchestrator \<Rightarrow> run_context \<Rightarrow> agent_action \<Rightarrow> 'w connector \<Rightarrow> ('w run_state, action_report option) eff"
where
  "guarded_dispatch en cx a k =
     eseq (case or_pre_effect_guard en of
             Some guard \<Rightarrow> if uses_idempotency a then call (GuardCall a) (guard a) else eret ()
           | None \<Rightarrow> eret ())
       (ebind (dispatch en cx a k) (\<lambda>report. eret (Some report)))"

definition take_claim :: "'w orchestrator \<Rightarrow> run_context \<Rightarrow> agent_action \<Rightarrow> nat \<Rightarrow> audit_db \<Rightarrow> audit_db \<times> (exn + idempotency_claim)" where
  "take_claim en cx a t db =
     (case claim_action (ac_idempotency_key a) (effect_fingerprint (or_host en) a) (cp_plan_id (cx_plan cx))
              (ac_action_id a) (or_token en t) (or_timestamp en t) db of
         (db', claim) \<Rightarrow> (db', Inr claim))"

text \<open>The reservation in front of a write. \<open>None\<close> is \<open>continue\<close>: the action has its report.\<close>

definition claim_and_dispatch ::
  "'w orchestrator \<Rightarrow> run_context \<Rightarrow> agent_action \<Rightarrow> 'w connector \<Rightarrow> ('w run_state, action_report option) eff"
where
  "claim_and_dispatch en cx a k =
     ebind (audit_op en (take_claim en cx a)) (\<lambda>claim.
     case claim_state claim of
       ClaimCompleted \<Rightarrow>
         eseq (reuse_completed en cx a k (case claim_result claim of None \<Rightarrow> [] | Some r \<Rightarrow> r)) (eret None)
     | ClaimConflict \<Rightarrow>
         eseq (conclude en cx a CONFLICTED ''idempotency key is bound to a different action effect'' [] True)
           (eret None)
     | ClaimInProgress \<Rightarrow>
         eseq (conclude en cx a CONFLICTED ''idempotent action is already in progress'' [] True) (eret None)
     | ClaimIndeterminate \<Rightarrow>
         eseq (reconcile_indeterminate en cx a k (claim_result claim)) (eret None)
     | _ \<Rightarrow>
         (case claim_token claim of
            None \<Rightarrow> eraise (Exn RuntimeError ''idempotency claim omitted its token'')
          | Some token \<Rightarrow>
              eseq (emod (\<lambda>s. s\<lparr>rs_claim_token := Some token\<rparr>)) (guarded_dispatch en cx a k)))"

definition authorize_egress ::
  "'w orchestrator \<Rightarrow> run_context \<Rightarrow> agent_action \<Rightarrow> egress_binding option \<Rightarrow> ('w run_state, unit) eff"
where
  "authorize_egress en cx a egress =
     (case egress of
        None \<Rightarrow> eret ()
      | Some b \<Rightarrow>
          ebind (elift (egress_members (or_host en) b)) (\<lambda>payload.
            emit_event en cx (Some (ac_action_id a)) ''provider_data_egress_authorized'' payload))"

definition attempt_action ::
  "'w orchestrator \<Rightarrow> run_context \<Rightarrow> agent_action \<Rightarrow> ('w run_state, action_report option) eff"
where
  "attempt_action en cx a =
     ebind (elift (resolve (or_connectors en) (rr_system (ac_target a)) (Some (ac_capability a)))) (\<lambda>entry.
     let k = ce_handle entry; p = cx_plan cx in
     eseq (emod (\<lambda>s. s\<lparr>rs_connector := Some k\<rparr>))
     (ebind (eget rs_world) (\<lambda>w.
      ebind (elift (validate_execution_contract en p a k w)) (\<lambda>(ok, reason).
      if \<not> ok then eseq (conclude en cx a action_state.PROHIBITED reason [] True) (eret None)
      else
        (case provider_data_egress_binding en p a k of
           Inl e \<Rightarrow>
             if caught_by [ConfigurationError] e
             then eseq (conclude en cx a action_state.PROHIBITED (exn_text e) [] True) (eret None)
             else eraise e
         | Inr egress \<Rightarrow>
             eseq (emod (\<lambda>s. s\<lparr>rs_egress := egress\<rparr>))
             (eseq (authorize_egress en cx a egress)
             (ebind (eget rs_world) (\<lambda>w'.
              eseq (elift (checked [connector_http_action_budget k w'] ()))
                (if uses_idempotency a then claim_and_dispatch en cx a k
                 else guarded_dispatch en cx a k)))))))))"

subsection \<open>Exceptions of an attempt\<close>

definition held_result :: "returned \<Rightarrow> execution_result option" where
  "held_result r = (case r of ReturnedResult x \<Rightarrow> Some x | _ \<Rightarrow> None)"

definition held_report :: "agent_action \<Rightarrow> action_state \<Rightarrow> string \<Rightarrow> returned \<Rightarrow> action_report" where
  "held_report a st message held = (plain_report a st message)\<lparr>rp_result := held_result held\<rparr>"

text \<open>A conflict or an error before the effect: the claim is released as failed if nothing was executed.\<close>

definition settle_before_effect ::
  "'w orchestrator \<Rightarrow> agent_action \<Rightarrow> action_state \<Rightarrow> string \<Rightarrow> string \<Rightarrow> ('w run_state, action_report) eff"
where
  "settle_before_effect en a st message late =
     ebind (eget rs_result) (\<lambda>held.
     ebind (eget rs_claim_token) (\<lambda>token.
     ebind (if token = None then eret (held = ReturnedNone)
            else if held = ReturnedNone then persist_idempotency_outcome en a True message ReturnedNone
            else ebind (persist_idempotency_outcome en a False message held) (\<lambda>_. eret False)) (\<lambda>stored.
     eret (held_report a (if stored then st else INDETERMINATE)
       (message @ (if stored then [] else if held \<noteq> ReturnedNone then late
                   else ''; durable failure outcome could not be recorded'')) held))))"

definition settle_error :: "'w orchestrator \<Rightarrow> agent_action \<Rightarrow> exn \<Rightarrow> ('w run_state, action_report) eff" where
  "settle_error en a e =
     ebind (eget rs_result) (\<lambda>held.
     ebind (eget rs_claim_token) (\<lambda>token.
     ebind (persist_idempotency_outcome en a False (named_error e) held) (\<lambda>stored.
     eret (held_report a (if held \<noteq> ReturnedNone \<or> token \<noteq> None then INDETERMINATE else FAILED)
       (named_error e @ (if stored then [] else ''; durable outcome could not be finalized'')) held))))"

definition run_errors :: "exn_class list" where
  "run_errors = [KeyError, MasterAgentError, OSError, OverflowError, RuntimeError, TypeError, ValueError]"

definition handle_error :: "'w orchestrator \<Rightarrow> agent_action \<Rightarrow> exn \<Rightarrow> ('w run_state, action_report option) eff" where
  "handle_error en a e =
     ebind
       (if caught_by [VersionConflictError] e
        then settle_before_effect en a CONFLICTED (exn_text e) ''; conflict occurred after connector execution''
        else if caught_by [PreEffectError] e
        then settle_before_effect en a FAILED (named_error e) ''; exception occurred after connector execution''
        else if caught_by run_errors e then settle_error en a e
        else eraise e) (\<lambda>report. eret (Some report))"

definition failing_states :: "action_state list" where
  "failing_states = [FAILED, CONFLICTED, action_state.PROHIBITED, APPROVAL_REQUIRED, INDETERMINATE]"

definition finish_action ::
  "'w orchestrator \<Rightarrow> run_context \<Rightarrow> agent_action \<Rightarrow> action_report \<Rightarrow> ('w run_state, unit) eff"
where
  "finish_action en cx a report =
     ebind (eget rs_egress) (\<lambda>egress.
     ebind (eget rs_result) (\<lambda>held.
     let final = (if egress \<noteq> None \<and> rp_state report \<noteq> VERIFIED
                  then (plain_report a (rp_state report)
                         (''provider read failed after egress authorization: '' @ state_str (rp_state report)))
                         \<lparr>rp_egress := egress\<rparr>
                  else report) in
     eseq (add_report a final)
       (eseq (record_action en cx a final (egress = None \<and> held = ReturnedOther) [])
         (if rp_state final \<in> set failing_states then maybe_compensate en cx else eret ()))))"

definition execute_action :: "'w orchestrator \<Rightarrow> run_context \<Rightarrow> agent_action \<Rightarrow> ('w run_state, unit) eff" where
  "execute_action en cx a =
     eseq (emod (\<lambda>s. s\<lparr>rs_connector := None, rs_result := ReturnedNone, rs_claim_token := None, rs_egress := None\<rparr>))
     (ebind (ecatch (attempt_action en cx a) (handle_error en a)) (\<lambda>r.
      case r of None \<Rightarrow> eret () | Some report \<Rightarrow> finish_action en cx a report))"

definition failed_dependencies :: "agent_action \<Rightarrow> bool \<Rightarrow> 'w run_state \<Rightarrow> uuid list" where
  "failed_dependencies a dry_run s =
     filter (\<lambda>d. \<not> dependency_succeeded (map_of (rs_states s) d) dry_run) (ac_dependencies a)"

text \<open>The body of the loop over the ordered actions, from its end to its beginning.\<close>

definition act_on_decision ::
  "'w orchestrator \<Rightarrow> run_context \<Rightarrow> agent_action \<Rightarrow> policy_decision \<Rightarrow> ('w run_state, unit) eff"
where
  "act_on_decision en cx a decision =
     (if \<not> pd_permitted decision
      then conclude en cx a
        (if pd_approval_required decision then APPROVAL_REQUIRED else action_state.PROHIBITED)
        (reason_text (pd_reason decision)) [] True
      else if cx_dry_run cx
      then conclude en cx a PLANNED (''permitted dry run: '' @ reason_text (pd_reason decision)) [] False
      else execute_action en cx a)"

definition decide_action :: "'w orchestrator \<Rightarrow> run_context \<Rightarrow> agent_action \<Rightarrow> ('w run_state, unit) eff" where
  "decide_action en cx a =
     ebind (elift (orchestrator_approvers en a)) (\<lambda>minimum.
     ebind (read_clock en) (\<lambda>now.
     ebind (elift (evaluate (or_host en) (or_policy en) (cx_plan cx) a (cx_approvals cx) now minimum))
       (act_on_decision en cx a)))"

definition admit_action :: "'w orchestrator \<Rightarrow> run_context \<Rightarrow> agent_action \<Rightarrow> ('w run_state, unit) eff" where
  "admit_action en cx a =
     ebind (eget (failed_dependencies a (cx_dry_run cx))) (\<lambda>failed.
     if failed \<noteq> []
     then conclude en cx a SKIPPED
       (''dependencies did not succeed: ['' @ py_join '', '' (map uuid_repr failed) @ '']'') [] False
     else
       ebind (elift (validate_sources (or_host en) (or_sources en) (cx_plan cx) a)) (\<lambda>(source_ok, source_reason).
       if \<not> source_ok then conclude en cx a action_state.PROHIBITED source_reason [] True
       else decide_action en cx a))"

definition hold_for_review :: "'w orchestrator \<Rightarrow> run_context \<Rightarrow> agent_action \<Rightarrow> ('w run_state, unit) eff" where
  "hold_for_review en cx a =
     ebind (elift (validate_sources (or_host en) (or_sources en) (cx_plan cx) a)) (\<lambda>(source_ok, source_reason).
     if source_ok
     then conclude en cx a APPROVAL_REQUIRED
       ''authenticated whole-plan strategy coherence review is required'' [] False
     else conclude en cx a action_state.PROHIBITED source_reason [] False)"

definition process_action :: "'w orchestrator \<Rightarrow> run_context \<Rightarrow> agent_action \<Rightarrow> ('w run_state, unit) eff" where
  "process_action en cx a =
     ebind (eget rs_abort) (\<lambda>abort.
     if abort then conclude en cx a SKIPPED ''plan stopped after a failure and compensation attempt'' [] False
     else
       ebind (elift (validate_capability en a)) (\<lambda>(catalog_ok, catalog_reason).
       if \<not> catalog_ok then conclude en cx a action_state.PROHIBITED catalog_reason [] True
       else if cx_coherence_required cx then hold_for_review en cx a
       else admit_action en cx a))"

subsection \<open>A run\<close>

definition known_systems :: "string list" where
  "known_systems =
     [''bitbucket'', ''confluence'', ''github'', ''identity'', ''jira'', ''microsoft'', ''onenote'', ''outlook'',
      ''reddit'', ''repository'', ''sharepoint'', ''teams'', ''other'']"

definition bounded_system :: "string \<Rightarrow> string" where
  "bounded_system s = (if s \<in> set known_systems then s else ''other'')"

definition implementation_members :: "execution_context option \<Rightarrow> json_object" where
  "implementation_members ctx =
     (case ctx of
        None \<Rightarrow> []
      | Some c \<Rightarrow>
          (if xc_connectors c = [] then []
           else [(''connector_implementations'',
             JList (map (\<lambda>(s, i). JObj [(''system'', JStr s), (''implementation'', JStr i)])
               (sort_key id (remdups (map (\<lambda>b. (bounded_system (cb_system b), cb_implementation b))
                 (xc_connectors c))))))])
          @ (if xc_capsules c = [] then []
             else [(''capsule_bindings'', JList (map (\<lambda>b. JObj (capsule_binding_to_dict b)) (xc_capsules c)))]))"

definition started_payload ::
  "host \<Rightarrow> change_plan \<Rightarrow> bool \<Rightarrow> systems_assessment \<Rightarrow> gate_decision \<Rightarrow> exn + json_object"
where
  "started_payload h p dry_run assessment decision =
     sbind (text_digest h (cp_goal p)) (\<lambda>goal.
     Inr ([(''goal_digest'', JStr goal), (''goal_length'', JInt (int (py_len (cp_goal p)))),
           (''fingerprint'', JStr (plan_fingerprint h p)), (''dry_run'', JBool dry_run),
           (''workflow_id'', optional JStr (cp_workflow_id p)),
           (''workflow_fingerprint'', optional JStr (cp_workflow_fingerprint p)),
           (''compensate_on_failure'', JBool (cp_compensate_on_failure p)),
           (''systems_assessment_fingerprint'', JStr (assessment_fingerprint h assessment)),
           (''systems_decision_fingerprint'', JStr (decision_fingerprint h decision)),
           (''systems_route'', JStr (route_str (gd_route decision))),
           (''systems_complexity_score'', JInt (gd_complexity_score decision))]
          @ implementation_members (cp_execution_context p)))"

definition finished_payload :: "action_report list \<Rightarrow> post_review \<Rightarrow> json_object" where
  "finished_payload reports review =
     [(''states'', JObj (fold (\<lambda>r. dict_put (rp_action_id r) (JStr (state_str (rp_state r)))) reports [])),
      (''compensated'', JBool (\<exists>r \<in> set reports. rp_state r = COMPENSATED)),
      (''systems_review'', JObj (post_review_to_dict review))]"

text \<open>A recursion that does not end, which a constructed plan excludes, raises \<open>RecursionError\<close>.\<close>

definition topological_order :: "agent_action list \<Rightarrow> exn + agent_action list" where
  "topological_order actions =
     (case topological_ids (action_graph actions) of
        None \<Rightarrow> Inl (Exn RuntimeError ''maximum recursion depth exceeded'')
      | Some (Inl e) \<Rightarrow> Inl e
      | Some (Inr ids) \<Rightarrow>
          Inr (map (\<lambda>i. the (map_of (map (\<lambda>a. (ac_action_id a, a)) (rev actions)) i)) ids))"

definition admit_plan ::
  "'w orchestrator \<Rightarrow> change_plan \<Rightarrow> approval list \<Rightarrow> bool
     \<Rightarrow> ('w run_state, change_plan \<times> systems_assessment \<times> gate_decision \<times> bool) eff"
where
  "admit_plan en plan approvals dry_run =
     (let h = or_host en in
      ebind (elift (execution_snapshot h plan)) (\<lambda>p.
      ebind (read_clock en) (\<lambda>now.
      ebind (elift (enforce_systems_governance h default_gate p (Some (or_policy en)) approvals False now)) (\<lambda>decision.
      ebind (if dry_run then eret False
             else ebind (read_clock en) (\<lambda>now'.
                  ebind (elift (strategy_coherence_execution_authenticated h p (Some (or_policy en))
                                  approvals now')) (\<lambda>authenticated. eret (\<not> authenticated)))) (\<lambda>required.
      case cp_systems_assessment p of
        None \<Rightarrow> eraise (invalid ''plan is missing a systems governance assessment'')
      | Some assessment \<Rightarrow> eret (p, assessment, decision, required))))))"

definition run_internal ::
  "'w orchestrator \<Rightarrow> uuid \<Rightarrow> change_plan \<Rightarrow> approval list \<Rightarrow> bool \<Rightarrow> ('w run_state, run_report) eff"
where
  "run_internal en run_id plan approvals dry_run =
     (let h = or_host en in
      ebind (admit_plan en plan approvals dry_run) (\<lambda>(p, assessment, decision, required).
      let cx = \<lparr>cx_run_id = run_id, cx_plan = p, cx_approvals = approvals, cx_dry_run = dry_run,
                cx_coherence_required = required\<rparr> in
      ebind (elift (topological_order (cp_actions p))) (\<lambda>ordered.
      ebind (elift (started_payload h p dry_run assessment decision)) (\<lambda>payload.
      eseq (emit_event en cx None ''plan_started'' payload)
      (eseq (eforeach (process_action en cx) ordered)
      (ebind (eget rs_reports) (\<lambda>reports.
       ebind (elift (build_systems_post_execution_review h assessment decision (map rp_state reports) dry_run
                       (or_observer en))) (\<lambda>review.
       eseq (emit_event en cx None ''plan_finished'' (finished_payload reports review))
         (eret \<lparr>rn_run_id = run_id, rn_plan_id = cp_plan_id p, rn_plan_fingerprint = plan_fingerprint h p,
                rn_dry_run = dry_run, rn_actions = reports, rn_systems_review = Some review,
                rn_performance = None\<rparr>)))))))))"

definition initial_state :: "'w \<Rightarrow> audit_db \<Rightarrow> 'w run_state" where
  "initial_state w db =
     \<lparr>rs_world = w, rs_db = db, rs_tick = 0, rs_calls = [], rs_confirmed = [], rs_reports = [], rs_states = [], rs_executed = [],
      rs_abort = False, rs_connector = None, rs_result = ReturnedNone, rs_claim_token = None,
      rs_egress = None\<rparr>"

definition orchestrator_approvals ::
  "'w orchestrator \<Rightarrow> change_plan \<Rightarrow> approval list \<Rightarrow> instant \<Rightarrow> exn + (approval \<times> string) list"
where
  "orchestrator_approvals en plan approvals now =
     (let h = or_host en in
      sbind (plan_from_dict h (plan_to_dict h plan)) (\<lambda>snapshot.
        authenticated_approvals h (or_policy en) snapshot approvals now))"

end
