(* ===== verification/Run_Steps.thy ===== *)
theory Run_Steps
  imports Orchestrator
begin

text \<open>
  A run as a state machine. Every change the orchestrator makes is one of a few steps, each with what
  the code has established when it makes it. The programs of the previous theory only make such steps,
  and the properties of a run are invariants of the steps.
\<close>

subsection \<open>Steps\<close>

definition cleared :: "'w orchestrator \<Rightarrow> run_context \<Rightarrow> agent_action \<Rightarrow> bool" where
  "cleared en cx a =
     (\<not> cx_dry_run cx \<and> \<not> cx_coherence_required cx
      \<and> (\<exists>m. validate_capability en a = Inr (True, m))
      \<and> (\<exists>m. validate_sources (or_host en) (or_sources en) (cx_plan cx) a = Inr (True, m))
      \<and> (\<exists>now n d. orchestrator_approvers en a = Inr n
           \<and> evaluate (or_host en) (or_policy en) (cx_plan cx) a (cx_approvals cx) now n = Inr d
           \<and> pd_permitted d))"

definition compensating :: "run_context \<Rightarrow> bool" where
  "compensating cx = (\<not> cx_dry_run cx \<and> cp_compensate_on_failure (cx_plan cx))"

fun claims_of :: "host \<Rightarrow> agent_action \<Rightarrow> claim_op \<Rightarrow> bool" where
  "claims_of h a (OpClaim key fp plan act token now) = (key = ac_idempotency_key a \<and> fp = effect_fingerprint h a)"
| "claims_of h a (OpComplete key fp token res now) = (key = ac_idempotency_key a \<and> fp = effect_fingerprint h a)"
| "claims_of h a (OpFail key fp token res now) = (key = ac_idempotency_key a \<and> fp = effect_fingerprint h a)"
| "claims_of h a (OpIndeterminate key fp token res now) = (key = ac_idempotency_key a \<and> fp = effect_fingerprint h a)"
| "claims_of h a (OpResolve key fp e res now) = (key = ac_idempotency_key a \<and> fp = effect_fingerprint h a)"
| "claims_of h a _ = False"

definition backed :: "agent_action \<Rightarrow> action_state \<Rightarrow> 'w run_state \<Rightarrow> bool" where
  "backed a st s =
     ((st = VERIFIED \<longrightarrow> VerifyCall a \<in> set (rs_confirmed s)) \<and> (st = REUSED \<longrightarrow> ReconcileCall a \<in> set (rs_confirmed s)))"

definition called :: "'w run_state \<Rightarrow> 'w \<Rightarrow> connector_call \<Rightarrow> 'w run_state" where
  "called s w c = s\<lparr>rs_world := w, rs_calls := rs_calls s @ [c]\<rparr>"

text \<open>The steps while one action is processed, except its execution.\<close>

inductive quiet_step :: "'w orchestrator \<Rightarrow> run_context \<Rightarrow> agent_action \<Rightarrow> 'w run_state \<Rightarrow> 'w run_state \<Rightarrow> bool"
  for en :: "'w orchestrator" and cx :: run_context and a :: agent_action
where
  tick: "quiet_step en cx a s (s\<lparr>rs_tick := t\<rparr>)"
| event: "quiet_step en cx a s
    (s\<lparr>rs_db := apply_op (h_sha256 (or_host en)) (OpRecord ts r p act ty payload) (rs_db s)\<rparr>)"
| claim: "cleared en cx a \<Longrightarrow> claims_of (or_host en) a op \<Longrightarrow>
    quiet_step en cx a s (s\<lparr>rs_db := apply_op (h_sha256 (or_host en)) op (rs_db s)\<rparr>)"
| locals: "quiet_step en cx a s
    (s\<lparr>rs_connector := k, rs_result := r, rs_claim_token := token, rs_egress := e\<rparr>)"
| report: "rp_action_id rep = ac_action_id a \<Longrightarrow> backed a (rp_state rep) s \<Longrightarrow>
    quiet_step en cx a s (s\<lparr>rs_reports := rs_reports s @ [rep],
       rs_states := dict_put (ac_action_id a) (rp_state rep) (rs_states s)\<rparr>)"
| replace: "compensating cx \<Longrightarrow> item \<in> set (rs_executed s) \<Longrightarrow> rp_action_id rep = ac_action_id (xa_action item) \<Longrightarrow>
    rp_state rep \<in> {COMPENSATED, COMPENSATION_FAILED} \<Longrightarrow>
    quiet_step en cx a s (s\<lparr>rs_reports := (rs_reports s)[xa_report_index item := rep]\<rparr>)"
| abort: "quiet_step en cx a s (s\<lparr>rs_abort := False\<rparr>)"
| forget: "compensating cx \<Longrightarrow> quiet_step en cx a s (s\<lparr>rs_executed := [], rs_abort := True\<rparr>)"
| contact: "cleared en cx a \<Longrightarrow> c \<in> {GuardCall a, ReconcileCall a, RecordCall a} \<Longrightarrow>
    quiet_step en cx a s (called s w c)"
| confirm: "c \<in> set (rs_calls s) \<Longrightarrow> quiet_step en cx a s (s\<lparr>rs_confirmed := rs_confirmed s @ [c]\<rparr>)"
| verify: "cleared en cx a \<Longrightarrow> ExecuteCall a \<in> set (rs_calls s) \<Longrightarrow>
    quiet_step en cx a s (called s w (VerifyCall a))"
| remember: "cleared en cx a \<Longrightarrow> ExecuteCall a \<in> set (rs_calls s) \<Longrightarrow> ac_risk a = REVERSIBLE_WRITE \<Longrightarrow>
    quiet_step en cx a s (s\<lparr>rs_executed := rs_executed s
      @ [\<lparr>xa_action = a, xa_connector = k, xa_result = r, xa_report_index = length (rs_reports s)\<rparr>]\<rparr>)"
| compensate: "compensating cx \<Longrightarrow> item \<in> set (rs_executed s) \<Longrightarrow>
    c \<in> {VerifyCall (xa_action item), CompensateCall (xa_action item), VerifyCompensationCall (xa_action item)} \<Longrightarrow>
    quiet_step en cx a s (called s w c)"
| clear: "compensating cx \<Longrightarrow> item \<in> set (rs_executed s) \<Longrightarrow>
    quiet_step en cx a s (s\<lparr>rs_db := clear_completed (ac_idempotency_key (xa_action item))
       (Some (effect_fingerprint (or_host en) (xa_action item))) (rs_db s)\<rparr>)"

definition deps_done :: "agent_action \<Rightarrow> 'w run_state \<Rightarrow> bool" where
  "deps_done a s = (\<forall>d \<in> set (ac_dependencies a). map_of (rs_states s) d \<in> {Some VERIFIED, Some REUSED})"

definition reserved :: "agent_action \<Rightarrow> 'w run_state \<Rightarrow> bool" where
  "reserved a s = (uses_idempotency a \<longrightarrow> (\<exists>t. phase_of (rs_db s) (ac_idempotency_key a) = Reserved t))"

inductive run_step :: "'w orchestrator \<Rightarrow> run_context \<Rightarrow> 'w run_state \<Rightarrow> 'w run_state \<Rightarrow> bool"
  for en :: "'w orchestrator" and cx :: run_context
where
  quiet: "a \<in> set (cp_actions (cx_plan cx)) \<Longrightarrow> quiet_step en cx a s s' \<Longrightarrow> run_step en cx s s'"
| execute: "a \<in> set (cp_actions (cx_plan cx)) \<Longrightarrow> cleared en cx a \<Longrightarrow> ExecuteCall a \<notin> set (rs_calls s) \<Longrightarrow>
    deps_done a s \<Longrightarrow> reserved a s \<Longrightarrow> run_step en cx s (called s w (ExecuteCall a))"

definition steady :: "('s \<Rightarrow> 's \<Rightarrow> bool) \<Rightarrow> ('s \<Rightarrow> bool) \<Rightarrow> bool" where
  "steady R P = (\<forall>s s'. P s \<longrightarrow> R s s' \<longrightarrow> P s')"

lemma steadyD: "steady R P \<Longrightarrow> R s s' \<Longrightarrow> P s \<Longrightarrow> P s'"
  by (auto simp: steady_def)

lemma steady_conj: "steady R P \<Longrightarrow> steady R Q \<Longrightarrow> steady R (\<lambda>s. P s \<and> Q s)"
  by (auto simp: steady_def)

lemma steady_star: "steady R P \<Longrightarrow> R\<^sup>*\<^sup>* s s' \<Longrightarrow> P s \<Longrightarrow> P s'"
  by (rotate_tac, induction rule: rtranclp_induct) (auto dest: steadyD)

lemma steady_reached: "steady R (R\<^sup>*\<^sup>* s0)"
  by (auto simp: steady_def intro: rtranclp.rtrancl_into_rtrancl)

subsection \<open>The programs make only steps\<close>

lemma keeps_step: "steady R P \<Longrightarrow> (\<And>s. P s \<Longrightarrow> R s (snd (m s))) \<Longrightarrow> keeps P m"
  by (rule keepsI) (blast dest: steadyD)

lemma keeps_step2:
  "steady R P \<Longrightarrow> (\<And>s. P s \<Longrightarrow> \<exists>s'. R s s' \<and> (R s' (snd (m s)) \<or> snd (m s) = s')) \<Longrightarrow> keeps P m"
  by (rule keepsI) (metis steadyD)

lemma keeps_read_clock: "steady (quiet_step en cx a) P \<Longrightarrow> keeps P (read_clock en)"
  by (erule keeps_step) (simp add: read_clock_def quiet_step.tick)

lemma keeps_audit_op:
  assumes "steady (quiet_step en cx a) P"
    and "\<And>s t. P s \<Longrightarrow> quiet_step en cx a (s\<lparr>rs_tick := t + 1\<rparr>) (s\<lparr>rs_tick := t + 1, rs_db := fst (f t (rs_db s))\<rparr>)"
  shows "keeps P (audit_op en f)"
proof (rule keeps_step2 [OF assms(1)])
  fix s assume "P s"
  then show "\<exists>s'. quiet_step en cx a s s' \<and> (quiet_step en cx a s' (snd (audit_op en f s)) \<or> snd (audit_op en f s) = s')"
    using assms(2) [of s "rs_tick s"]
    by (intro exI [of _ "s\<lparr>rs_tick := rs_tick s + 1\<rparr>"])
       (auto simp: audit_op_def Let_def intro: quiet_step.tick split: option.splits prod.splits)
qed

lemma keeps_emit_event: "steady (quiet_step en cx a) P \<Longrightarrow> keeps P (emit_event en cx act ty payload)"
  unfolding emit_event_def
  by (intro keep_rules, rule keeps_audit_op, assumption)
     (use quiet_step.event [of en cx a "s\<lparr>rs_tick := t + 1\<rparr>" for s t] in simp)

lemma keeps_record_action: "steady (quiet_step en cx a) P \<Longrightarrow> keeps P (record_action en cx b report foreign extra)"
  unfolding record_action_def by (intro keep_rules keeps_emit_event)

lemma keeps_conj: "keeps P m \<Longrightarrow> keeps Q m \<Longrightarrow> keeps (\<lambda>s. P s \<and> Q s) m"
  by (rule keepsI) (blast dest: keepsD)

lemma call_adds: "c \<in> set (rs_calls (snd (call c m s)))"
  by (simp add: call_def split: prod.splits)

text \<open>Asking for a verification result is a call, followed by a note when the answer is positive.\<close>

lemma ask_steps:
  "snd (ask c m s) = snd (call c m s)
   \<or> snd (ask c m s) = (snd (call c m s))\<lparr>rs_confirmed := rs_confirmed (snd (call c m s)) @ [c]\<rparr>"
  by (simp add: ask_def split: prod.split sum.split)

lemma keeps_ask:
  assumes "steady (quiet_step en cx a) P" and "keeps P (call c m)"
  shows "keeps P (ask c m)"
proof (rule keepsI)
  fix s assume "P s"
  then have "P (snd (call c m s))" by (rule keepsD [OF assms(2)])
  then show "P (snd (ask c m s))"
    using ask_steps [of c m s] steadyD [OF assms(1) quiet_step.confirm [OF call_adds]] by metis
qed

lemma triple_ask:
  assumes "keeps P (ask c m)"
  shows "triple P (ask c m) (\<lambda>v s. P s \<and> (vr_verified v \<longrightarrow> c \<in> set (rs_confirmed s))) (\<lambda>_. P)"
proof -
  have "c \<in> set (rs_confirmed s')" if "ask c m s = (Inr v, s')" "vr_verified v" for s s' v
    using that by (auto simp: ask_def split: prod.splits)
  then show ?thesis using keepsD [OF assms] unfolding triple_def by (fastforce split: prod.splits sum.splits)
qed

subsubsection \<open>Compensation\<close>

text \<open>During compensation the list of executed actions does not change.\<close>

definition pending :: "'w executed_action list \<Rightarrow> 'w run_state \<Rightarrow> bool" where
  "pending ex s = (rs_executed s = ex)"

lemma pending_audit_op: "keeps (pending ex) (audit_op en f)"
  by (rule keepsI) (simp add: audit_op_def pending_def Let_def split: option.splits prod.splits)

lemma pending_call: "keeps (pending ex) (call c m)"
  by (rule keepsI) (simp add: call_def pending_def split: prod.splits)

lemma pending_record_action: "keeps (pending ex) (record_action en cx a report foreign extra)"
  unfolding record_action_def emit_event_def by (intro keep_rules pending_audit_op)

lemma keeps_put_report:
  assumes "steady (quiet_step en cx a) P" and "compensating cx" and "item \<in> set ex"
    and "rp_action_id rep = ac_action_id (xa_action item)" and "rp_state rep \<in> {COMPENSATED, COMPENSATION_FAILED}"
  shows "keeps (\<lambda>s. P s \<and> pending ex s) (put_report (xa_report_index item) rep)"
proof (rule keepsI)
  fix s assume s: "P s \<and> pending ex s"
  then have "quiet_step en cx a s (s\<lparr>rs_reports := (rs_reports s)[xa_report_index item := rep]\<rparr>)"
    using assms(2-5) by (intro quiet_step.replace) (simp_all add: pending_def)
  then show "P (snd (put_report (xa_report_index item) rep s)) \<and> pending ex (snd (put_report (xa_report_index item) rep s))"
    using s steadyD [OF assms(1)]
    by (simp add: put_report_def ebind_def eget_def emod_def eraise_def pending_def)
qed

lemma keeps_compensation_call:
  assumes "steady (quiet_step en cx a) P" and "compensating cx" and "item \<in> set ex"
    and "c \<in> {VerifyCall (xa_action item), CompensateCall (xa_action item), VerifyCompensationCall (xa_action item)}"
  shows "keeps (\<lambda>s. P s \<and> pending ex s) (call c m)"
proof (rule keepsI)
  fix s assume s: "P s \<and> pending ex s"
  then have "quiet_step en cx a s (called s w c)" for w
    using assms(2-4) by (intro quiet_step.compensate) (simp_all add: pending_def)
  then have "quiet_step en cx a s (snd (call c m s))"
    by (simp add: call_def called_def split: prod.splits)
  then have "P (snd (call c m s))" using s steadyD [OF assms(1)] by blast
  then show "P (snd (call c m s)) \<and> pending ex (snd (call c m s))"
    using s keepsD [OF pending_call] by blast
qed

lemma keeps_compensation_ask:
  assumes "steady (quiet_step en cx a) P" and "compensating cx" and "item \<in> set ex"
    and "c \<in> {VerifyCall (xa_action item), CompensateCall (xa_action item), VerifyCompensationCall (xa_action item)}"
  shows "keeps (\<lambda>s. P s \<and> pending ex s) (ask c m)"
proof (rule keepsI)
  fix s assume "P s \<and> pending ex s"
  then have "P (snd (call c m s)) \<and> pending ex (snd (call c m s))" by (rule keepsD [OF keeps_compensation_call [OF assms]])
  then show "P (snd (ask c m s)) \<and> pending ex (snd (ask c m s))"
    using ask_steps [of c m s] steadyD [OF assms(1) quiet_step.confirm [OF call_adds [of c m s]]] by (auto simp: pending_def)
qed

lemma keeps_clear:
  assumes "steady (quiet_step en cx a) P" and "compensating cx" and "item \<in> set ex"
  shows "keeps (\<lambda>s. P s \<and> pending ex s)
    (audit_op en (\<lambda>t db. (clear_completed (ac_idempotency_key (xa_action item))
       (Some (effect_fingerprint (or_host en) (xa_action item))) db, Inr ())))" (is "keeps _ ?m")
proof (rule keepsI)
  fix s assume s: "P s \<and> pending ex s"
  let ?s = "s\<lparr>rs_tick := rs_tick s + 1\<rparr>"
  have "quiet_step en cx a ?s (?s\<lparr>rs_db := clear_completed (ac_idempotency_key (xa_action item))
       (Some (effect_fingerprint (or_host en) (xa_action item))) (rs_db ?s)\<rparr>)"
    by (rule quiet_step.clear) (use assms(2,3) s in \<open>simp_all add: pending_def\<close>)
  moreover have "P ?s" using s steadyD [OF assms(1)] quiet_step.tick by blast
  ultimately have "P (snd (?m s))"
    using steadyD [OF assms(1)] by (auto simp: audit_op_def Let_def split: option.splits)
  then show "P (snd (?m s)) \<and> pending ex (snd (?m s))" using s keepsD [OF pending_audit_op] by blast
qed

lemma compensation_report_fields [simp]:
  "rp_action_id (compensation_report item st m) = ac_action_id (xa_action item)"
  "rp_state (compensation_report item st m) = st"
  by (simp_all add: compensation_report_def plain_report_def)

lemma keeps_attempt_compensation:
  assumes "steady (quiet_step en cx a) P" and "compensating cx" and "item \<in> set ex"
  shows "keeps (\<lambda>s. P s \<and> pending ex s) (attempt_compensation en item)"
  unfolding attempt_compensation_def Let_def
  by (intro keep_rules keeps_put_report [OF assms] keeps_clear [OF assms] keeps_compensation_call [OF assms]
      keeps_compensation_ask [OF assms])
     simp_all

lemma keeps_compensate_one:
  assumes "steady (quiet_step en cx a) P" and "compensating cx" and "item \<in> set ex"
  shows "keeps (\<lambda>s. P s \<and> pending ex s) (compensate_one en cx item)"
  unfolding compensate_one_def record_report_at_def Let_def
  by (intro keep_rules keeps_attempt_compensation [OF assms] keeps_put_report [OF assms]
      keeps_conj [OF keeps_record_action [OF assms(1)] pending_record_action]) simp_all

lemma keeps_pending_event:
  "steady (quiet_step en cx a) P \<Longrightarrow> keeps (\<lambda>s. P s \<and> pending ex s) (emit_event en cx act ty payload)"
  by (rule keeps_conj, erule keeps_emit_event) (simp add: emit_event_def keeps_ebind keeps_eret pending_audit_op)

lemma keeps_maybe_compensate:
  assumes "steady (quiet_step en cx a) P"
  shows "keeps P (maybe_compensate en cx)"
proof -
  have go: "P (s\<lparr>rs_abort := False\<rparr>)" if "P s" for s using steadyD [OF assms quiet_step.abort that] .
  show ?thesis
proof (cases "compensating cx")
  case False
  then have "maybe_compensate en cx = ebind (eget rs_executed) (\<lambda>ex. emod (\<lambda>s. s\<lparr>rs_abort := False\<rparr>))"
    by (auto simp: maybe_compensate_def compensating_def)
  then show ?thesis using go by (auto intro!: keep_rules keeps_emod)
next
  case True
  let ?rest = "\<lambda>executed. eseq (emit_event en cx None ''compensation_started'' [(''action_count'', JInt (int (length executed)))])
       (eseq (eforeach (compensate_one en cx) (rev executed))
       (ebind (eget finished_states) (\<lambda>states.
        eseq (emit_event en cx None ''compensation_finished'' [(''states'', JObj states)])
          (emod (\<lambda>s. s\<lparr>rs_executed := [], rs_abort := True\<rparr>)))))"
  have "triple (\<lambda>s. P s \<and> pending ex s) (?rest ex) (\<lambda>_. P) (\<lambda>_. P)" for ex
  proof -
    have "keeps (\<lambda>s. P s \<and> pending ex s) (eforeach (compensate_one en cx) (rev ex))"
      by (rule keeps_eforeach) (use keeps_compensate_one [OF assms True] in simp)
    then have loop: "triple (\<lambda>s. P s \<and> pending ex s) (eforeach (compensate_one en cx) (rev ex)) (\<lambda>_ s. P s \<and> pending ex s) (\<lambda>_. P)"
      unfolding keeps_def by (rule triple_weaken) auto
    have ev: "triple (\<lambda>s. P s \<and> pending ex s) (emit_event en cx None ty payload) (\<lambda>_ s. P s \<and> pending ex s) (\<lambda>_. P)" for ty payload
      using keeps_pending_event [OF assms, of ex None ty payload] unfolding keeps_def by (rule triple_weaken) auto
    have last: "triple (\<lambda>s. P s \<and> pending ex s) (emod (\<lambda>s. s\<lparr>rs_executed := [], rs_abort := True\<rparr>)) (\<lambda>_. P) (\<lambda>_. P)"
      by (rule triple_emod) (use steadyD [OF assms] quiet_step.forget [OF True] in blast)
    show ?thesis
      by (intro triple_eseq [OF ev] triple_eseq [OF loop] triple_ebind [of _ _ "\<lambda>_ s. P s \<and> pending ex s"] last) auto
  qed
  then have "triple (\<lambda>s. P s \<and> pending ex s)
      (if cx_dry_run cx \<or> \<not> cp_compensate_on_failure (cx_plan cx) \<or> ex = []
       then emod (\<lambda>s. s\<lparr>rs_abort := False\<rparr>) else ?rest ex) (\<lambda>_. P) (\<lambda>_. P)" for ex
    using go by (auto intro!: triple_emod)
  then show ?thesis
    unfolding keeps_def maybe_compensate_def
    by (intro triple_ebind [where R = "\<lambda>ex s. P s \<and> pending ex s"]) (auto simp: pending_def)
qed
qed

subsubsection \<open>Reports and reconciliation\<close>

lemma steady_called: "steady (quiet_step en cx a) (\<lambda>s. c \<in> set (rs_calls s))"
  unfolding steady_def by (auto elim!: quiet_step.cases simp: called_def)

lemma steady_with: "steady (quiet_step en cx a) P \<Longrightarrow> steady (quiet_step en cx a) (\<lambda>s. P s \<and> c \<in> set (rs_calls s))"
  by (intro steady_conj steady_called)

lemma steady_confirmed: "steady (quiet_step en cx a) (\<lambda>s. c \<in> set (rs_confirmed s))"
  unfolding steady_def by (auto elim!: quiet_step.cases simp: called_def)

lemma steady_proved:
  "steady (quiet_step en cx a) P \<Longrightarrow> steady (quiet_step en cx a) (\<lambda>s. P s \<and> c \<in> set (rs_confirmed s))"
  by (intro steady_conj steady_confirmed)

lemma keeps_add_report:
  assumes "steady (quiet_step en cx a) P" and "rp_action_id rep = ac_action_id a"
    and "\<And>s. P s \<Longrightarrow> backed a (rp_state rep) s"
  shows "keeps P (add_report a rep)"
  unfolding add_report_def
  by (rule keeps_emod) (use steadyD [OF assms(1) quiet_step.report [OF assms(2)]] assms(3) in blast)

lemma plain_report_fields [simp]:
  "rp_action_id (plain_report a st m) = ac_action_id a" "rp_state (plain_report a st m) = st"
  by (simp_all add: plain_report_def)

lemma keeps_conclude:
  assumes "steady (quiet_step en cx a) P" and "\<And>s. P s \<Longrightarrow> backed a st s"
  shows "keeps P (conclude en cx a st message extra failure)"
  unfolding conclude_def
  by (intro keep_rules keeps_add_report [OF assms(1)] keeps_record_action [OF assms(1)]
      keeps_maybe_compensate [OF assms(1)]) (use assms(2) in simp_all)

lemma keeps_conclude_plain:
  "steady (quiet_step en cx a) P \<Longrightarrow> st \<noteq> VERIFIED \<Longrightarrow> st \<noteq> REUSED \<Longrightarrow>
   keeps P (conclude en cx a st message extra failure)"
  by (rule keeps_conclude) (simp_all add: backed_def)

lemma contact_call:
  assumes "steady (quiet_step en cx a) P" and "cleared en cx a" and "c \<in> {GuardCall a, ReconcileCall a, RecordCall a}"
  shows "keeps P (call c m)"
  using steadyD [OF assms(1) quiet_step.contact [OF assms(2,3)]]
  by (intro keepsI) (simp add: call_def called_def split: prod.splits)

lemma contact_ask:
  "steady (quiet_step en cx a) P \<Longrightarrow> cleared en cx a \<Longrightarrow> keeps P (ask (ReconcileCall a) m)"
  by (rule keeps_ask, assumption, rule contact_call) simp_all

text \<open>What follows a verification result may rely on it when it is positive.\<close>

lemma keeps_bind_ask:
  assumes "keeps P (ask c m)" and "\<And>v. \<not> vr_verified v \<Longrightarrow> keeps P (f v)"
    and "\<And>v. vr_verified v \<Longrightarrow> keeps (\<lambda>s. P s \<and> c \<in> set (rs_confirmed s)) (f v)"
  shows "keeps P (ebind (ask c m) f)"
  unfolding keeps_def
proof (rule triple_ebind [OF triple_ask [OF assms(1)]])
  show "triple (\<lambda>s. P s \<and> (vr_verified v \<longrightarrow> c \<in> set (rs_confirmed s))) (f v) (\<lambda>_. P) (\<lambda>_. P)" for v
    using assms(2,3) [of v] unfolding keeps_def by (cases "vr_verified v") (auto elim!: triple_weaken)
qed

lemma keeps_bind_attempt:
  assumes "keeps P (ask c m)" and "\<And>e. keeps P (f (Inl e))" and "\<And>v. \<not> vr_verified v \<Longrightarrow> keeps P (f (Inr v))"
    and "\<And>v. vr_verified v \<Longrightarrow> keeps (\<lambda>s. P s \<and> c \<in> set (rs_confirmed s)) (f (Inr v))"
  shows "keeps P (ebind (eattempt (ask c m)) f)"
  unfolding keeps_def
proof (rule triple_ebind)
  let ?Q = "\<lambda>r s. P s \<and> (\<forall>v. r = Inr v \<longrightarrow> vr_verified v \<longrightarrow> c \<in> set (rs_confirmed s))"
  show "triple P (eattempt (ask c m)) ?Q (\<lambda>_. P)"
    by (rule triple_eattempt) (use triple_ask [OF assms(1)] in \<open>rule triple_weaken, auto\<close>)
  show "triple (?Q r) (f r) (\<lambda>_. P) (\<lambda>_. P)" for r
  proof (cases r)
    case (Inl e)
    then show ?thesis using assms(2) [of e] unfolding keeps_def by (auto elim!: triple_weaken)
  next
    case (Inr v)
    then show ?thesis
      using assms(3,4) [of v] unfolding keeps_def by (cases "vr_verified v") (auto elim!: triple_weaken)
  qed
qed

lemma keeps_claim_op:
  assumes "steady (quiet_step en cx a) P" and "cleared en cx a"
    and "\<And>t db. \<exists>op. claims_of (or_host en) a op \<and> fst (f t db) = apply_op (h_sha256 (or_host en)) op db"
  shows "keeps P (audit_op en f)"
proof (rule keeps_audit_op [OF assms(1)])
  fix s :: "'a run_state" and t :: nat
  obtain op where "claims_of (or_host en) a op" "fst (f t (rs_db s)) = apply_op (h_sha256 (or_host en)) op (rs_db s)"
    using assms(3) by blast
  then show "quiet_step en cx a (s\<lparr>rs_tick := t + 1\<rparr>) (s\<lparr>rs_tick := t + 1, rs_db := fst (f t (rs_db s))\<rparr>)"
    using quiet_step.claim [OF assms(2), of op "s\<lparr>rs_tick := t + 1\<rparr>"] by simp
qed

lemma keeps_reuse_completed:
  assumes "steady (quiet_step en cx a) P" and "cleared en cx a"
  shows "keeps P (reuse_completed en cx a k prior)"
  unfolding reuse_completed_def
  by (intro keep_rules keeps_bind_attempt contact_ask [OF assms] keeps_conclude_plain [OF assms(1)])
     (auto intro!: keep_rules keeps_conclude_plain [OF assms(1)] keeps_conclude steady_proved [OF assms(1)] simp: backed_def)

lemma keeps_reconcile_with:
  assumes "steady (quiet_step en cx a) P" and "cleared en cx a"
  shows "keeps P (reconcile_with en cx a verify_completed outcome prior)"
  unfolding reconcile_with_def
proof (rule keeps_bind_ask [OF contact_ask [OF assms]])
  let ?P = "\<lambda>s. P s \<and> ReconcileCall a \<in> set (rs_confirmed s)"
  have st: "steady (quiet_step en cx a) ?P" by (rule steady_proved [OF assms(1)])
  have "keeps ?P (audit_op en (\<lambda>t. resolve_indeterminate_action
      (ac_idempotency_key a) (effect_fingerprint (or_host en) a) (JObj outcome) (JObj prior) (or_timestamp en t)))"
    by (rule keeps_claim_op [OF st assms(2)], rule exI [where x = "OpResolve _ _ _ _ _"]) auto
  moreover have "keeps ?P (conclude en cx a REUSED
      ''durable indeterminate outcome was independently reconciled against provider state''
      [(''prior_result'', JObj prior)] False)"
    by (rule keeps_conclude [OF st]) (simp add: backed_def)
  ultimately show "keeps ?P (if vr_verified v
     then
       eseq (audit_op en (\<lambda>t. resolve_indeterminate_action (ac_idempotency_key a)
               (effect_fingerprint (or_host en) a) (JObj outcome) (JObj prior) (or_timestamp en t)))
       (eseq (conclude en cx a REUSED
               ''durable indeterminate outcome was independently reconciled against provider state''
               [(''prior_result'', JObj prior)] False)
         (eret None))
     else eret (Some (Some (vr_message v))))" for v
    by (intro keep_rules)
qed (simp add: keeps_eret)

lemma keeps_reconcile:
  assumes "steady (quiet_step en cx a) P" and "cleared en cx a"
  shows "keeps P (reconcile en cx a k outcome)"
  unfolding reconcile_def
  using keeps_reconcile_with [OF assms] by (auto intro!: keep_rules split: option.splits)

lemma keeps_reconcile_indeterminate:
  assumes "steady (quiet_step en cx a) P" and "cleared en cx a"
  shows "keeps P (reconcile_indeterminate en cx a k outcome)"
  unfolding reconcile_indeterminate_def
  by (intro keep_rules keeps_reconcile [OF assms] keeps_conclude_plain [OF assms(1)]) simp_all

subsubsection \<open>Settling a claim\<close>

lemma keeps_idempotency_record:
  assumes "steady (quiet_step en cx a) P" and "cleared en cx a"
  shows "keeps P (idempotency_record en connector a r)"
  unfolding idempotency_record_def Let_def by (intro keep_rules contact_call [OF assms]) simp_all

lemma keeps_settle_claim:
  assumes "steady (quiet_step en cx a) P" and "cleared en cx a"
  shows "keeps P (settle_claim en a token failed outcome)"
proof -
  have "\<exists>op. claims_of (or_host en) a op \<and>
     fst ((if failed then fail_action else mark_action_indeterminate) (ac_idempotency_key a)
        (effect_fingerprint (or_host en) a) token (JObj outcome) now db) = apply_op (h_sha256 (or_host en)) op db"
    for now db
    by (cases failed)
       (auto intro: exI [of _ "OpFail (ac_idempotency_key a) (effect_fingerprint (or_host en) a) token (JObj outcome) now"]
          exI [of _ "OpIndeterminate (ac_idempotency_key a) (effect_fingerprint (or_host en) a) token (JObj outcome) now"])
  then show ?thesis
    unfolding settle_claim_def Let_def by (intro keep_rules keeps_claim_op [OF assms])
qed

lemma keeps_persist:
  assumes "steady (quiet_step en cx a) P" and "cleared en cx a"
  shows "keeps P (persist_idempotency_outcome en a failed message held)"
  unfolding persist_idempotency_outcome_def
  by (cases held)
     (auto intro!: keep_rules keeps_settle_claim [OF assms] keeps_idempotency_record [OF assms])

lemma keeps_complete_claim:
  assumes "steady (quiet_step en cx a) P" and "cleared en cx a"
  shows "keeps P (complete_claim en a k r)"
  unfolding complete_claim_def
  by (intro keep_rules keeps_idempotency_record [OF assms] keeps_claim_op [OF assms],
      rule exI [where x = "OpComplete _ _ _ _ _"]) auto

lemma steady_locals:
  "steady (quiet_step en cx a) P \<Longrightarrow> P s \<Longrightarrow>
   P (s\<lparr>rs_connector := k, rs_result := r, rs_claim_token := token, rs_egress := e\<rparr>)"
  by (erule steadyD) (rule quiet_step.locals)

lemma keeps_locals:
  assumes "steady (quiet_step en cx a) P"
  shows "keeps P (set_result r)" "keeps P (emod (\<lambda>s. s\<lparr>rs_connector := k\<rparr>))"
    "keeps P (emod (\<lambda>s. s\<lparr>rs_claim_token := token\<rparr>))" "keeps P (emod (\<lambda>s. s\<lparr>rs_egress := e\<rparr>))"
    "keeps P (emod (\<lambda>s. s\<lparr>rs_connector := k, rs_result := r, rs_claim_token := token, rs_egress := e\<rparr>))"
proof -
  show "keeps P (set_result r)" unfolding set_result_def
    by (rule keeps_emod) (use steady_locals [OF assms, where k = "rs_connector s" and r = r and token = "rs_claim_token s" and e = "rs_egress s" and s = s for s] in simp)
  show "keeps P (emod (\<lambda>s. s\<lparr>rs_connector := k\<rparr>))"
    by (rule keeps_emod) (use steady_locals [OF assms, where k = k and r = "rs_result s" and token = "rs_claim_token s" and e = "rs_egress s" and s = s for s] in simp)
  show "keeps P (emod (\<lambda>s. s\<lparr>rs_claim_token := token\<rparr>))"
    by (rule keeps_emod) (use steady_locals [OF assms, where k = "rs_connector s" and r = "rs_result s" and token = token and e = "rs_egress s" and s = s for s] in simp)
  show "keeps P (emod (\<lambda>s. s\<lparr>rs_egress := e\<rparr>))"
    by (rule keeps_emod) (use steady_locals [OF assms, where k = "rs_connector s" and r = "rs_result s" and token = "rs_claim_token s" and e = e and s = s for s] in simp)
  show "keeps P (emod (\<lambda>s. s\<lparr>rs_connector := k, rs_result := r, rs_claim_token := token, rs_egress := e\<rparr>))"
    by (rule keeps_emod) (use steady_locals [OF assms] in simp)
qed

subsubsection \<open>Dispatch\<close>

text \<open>A report of the action itself, backed by the calls made.\<close>

definition sound_report :: "agent_action \<Rightarrow> action_report \<Rightarrow> 'w run_state \<Rightarrow> bool" where
  "sound_report a rep s = (rp_action_id rep = ac_action_id a \<and> backed a (rp_state rep) s)"

lemma keeps_triple: "keeps P m \<Longrightarrow> triple P m (\<lambda>_. P) (\<lambda>_. P)"
  by (simp add: keeps_def)

lemma triple_report:
  assumes "keeps P m" and "\<And>x s. P s \<Longrightarrow> sound_report a (f x) s"
  shows "triple P (ebind m (\<lambda>x. eret (f x))) (\<lambda>rep s. P s \<and> sound_report a rep s) (\<lambda>_. P)"
  using assms(2) by (intro triple_ebind [OF keeps_triple [OF assms(1)]] triple_eret) simp

lemma verified_outcome_sound:
  assumes st: "steady (quiet_step en cx a) P" and cl: "cleared en cx a" and v: "\<And>s. P s \<Longrightarrow> VerifyCall a \<in> set (rs_confirmed s)"
  shows "triple P (verified_outcome en cx a k r message) (\<lambda>rep s. P s \<and> sound_report a rep s) (\<lambda>_. P)"
proof -
  have fin: "triple P (eseq m (eret (verified_report a st' msg x e))) (\<lambda>rep s. P s \<and> sound_report a rep s) (\<lambda>_. P)"
    if "keeps P m" "st' \<noteq> REUSED" for m st' msg x e
    unfolding eseq_def
    by (rule triple_report [OF that(1)])
       (use that(2) v in \<open>simp add: sound_report_def backed_def verified_report_def\<close>)
  have two: "eseq m (eseq n (eret x)) = eseq (eseq m n) (eret x)" for m n :: "('a run_state, unit) eff" and x :: action_report
    by (rule ext) (simp add: eseq_def ebind_def split: sum.splits prod.splits)
  have "triple P (case e of None \<Rightarrow> eseq (complete_claim en a k r) (eret (verified_report a VERIFIED message (Some r) None))
     | Some b \<Rightarrow>
         ebind (eget rs_world) (\<lambda>w.
         case recheck_egress en cx a k b r w of
           Inr r' \<Rightarrow>
             eseq (set_result (ReturnedResult r'))
               (eseq (complete_claim en a k r')
                 (eret (verified_report a VERIFIED ''provider read independently verified'' (Some r') e)))
         | Inl x \<Rightarrow>
             if caught_by [ConfigurationError] x
             then eseq (complete_claim en a k r)
               (eret (verified_report a FAILED
                  ''provider-data egress binding changed before result return'' None e))
             else eraise x)) (\<lambda>rep s. P s \<and> sound_report a rep s) (\<lambda>_. P)" for e
    unfolding two
    by (auto intro!: fin triple_ebind [where R = "\<lambda>_. P"] keep_rules keeps_locals [OF st] keeps_complete_claim [OF st cl]
        split: option.splits sum.splits)
  then show ?thesis
    unfolding verified_outcome_def by (intro triple_ebind [where R = "\<lambda>_. P"]) auto
qed

lemma verify_call:
  assumes "steady (quiet_step en cx a) P" and "cleared en cx a" and "\<And>s. P s \<Longrightarrow> ExecuteCall a \<in> set (rs_calls s)"
  shows "keeps P (call (VerifyCall a) m)"
  using steadyD [OF assms(1) quiet_step.verify [OF assms(2)]] assms(3)
  by (intro keepsI) (simp add: call_def called_def split: prod.splits)

lemma keeps_remember:
  assumes "steady (quiet_step en cx a) P" and "cleared en cx a" and "\<And>s. P s \<Longrightarrow> ExecuteCall a \<in> set (rs_calls s)"
  shows "keeps P (remember_executed a k r)"
  unfolding remember_executed_def
  by (intro keep_rules keeps_emod) (use steadyD [OF assms(1) quiet_step.remember [OF assms(2)]] assms(3) in blast)

lemma keeps_effect_event: "steady (quiet_step en cx a) P \<Longrightarrow> keeps P (effect_event en cx b r)"
  unfolding effect_event_def by (intro keep_rules keeps_emit_event)

lemma triple_then: "keeps P m \<Longrightarrow> triple P n Q E \<Longrightarrow> (\<And>e s. P s \<Longrightarrow> E e s) \<Longrightarrow> triple P (eseq m n) Q E"
  by (rule triple_eseq, unfold keeps_def, erule triple_weaken) auto

lemma triple_after: "keeps P m \<Longrightarrow> (\<And>x. triple P (f x) Q E) \<Longrightarrow> (\<And>e s. P s \<Longrightarrow> E e s) \<Longrightarrow> triple P (ebind m f) Q E"
  by (rule triple_ebind [where R = "\<lambda>_. P"], unfold keeps_def, erule triple_weaken) auto

lemma verify_outcome_sound:
  assumes st: "steady (quiet_step en cx a) P" and cl: "cleared en cx a"
    and ex: "\<And>s. P s \<Longrightarrow> ExecuteCall a \<in> set (rs_calls s)"
  shows "triple P (verify_outcome en cx a k r copy) (\<lambda>rep s. P s \<and> sound_report a rep s) (\<lambda>_. P)"
  unfolding verify_outcome_def
proof (rule triple_ebind [OF triple_ask [OF keeps_ask [OF st verify_call [OF st cl ex]]]])
  let ?P = "\<lambda>s. P s \<and> VerifyCall a \<in> set (rs_confirmed s)"
  have yes: "triple ?P (verified_outcome en cx a k r m) (\<lambda>rep s. ?P s \<and> sound_report a rep s) (\<lambda>_. ?P)" for m
    by (rule verified_outcome_sound [OF steady_proved [OF st] cl]) simp
  have no: "triple P (ebind (persist_idempotency_outcome en a False (vr_message v) (ReturnedResult r)) (\<lambda>stored.
         eret ((plain_report a INDETERMINATE (unverified_text v stored))\<lparr>rp_result := Some r\<rparr>)))
       (\<lambda>rep s. P s \<and> sound_report a rep s) (\<lambda>_. P)" for v
    by (rule triple_report [OF keeps_persist [OF st cl]]) (simp add: sound_report_def backed_def)
  show "triple (\<lambda>s. P s \<and> (vr_verified v \<longrightarrow> VerifyCall a \<in> set (rs_confirmed s)))
     (if vr_verified v then verified_outcome en cx a k r (vr_message v)
     else ebind (persist_idempotency_outcome en a False (vr_message v) (ReturnedResult r)) (\<lambda>stored.
         eret ((plain_report a INDETERMINATE (unverified_text v stored))\<lparr>rp_result := Some r\<rparr>)))
     (\<lambda>rep s. P s \<and> sound_report a rep s) (\<lambda>_. P)" for v
    by (cases "vr_verified v") (auto intro: triple_weaken [OF yes] triple_weaken [OF no])
qed

lemma accept_result_sound:
  assumes st: "steady (quiet_step en cx a) P" and cl: "cleared en cx a"
    and ex: "\<And>s. P s \<Longrightarrow> ExecuteCall a \<in> set (rs_calls s)"
  shows "triple P (accept_result en cx a k r) (\<lambda>rep s. P s \<and> sound_report a rep s) (\<lambda>_. P)"
  unfolding accept_result_def Let_def
  by (intro triple_then triple_after keeps_locals [OF st] keep_rules keeps_effect_event [OF st]
      keeps_remember [OF st cl ex] verify_outcome_sound [OF st cl ex])

lemma dispatch_sound:
  assumes st: "steady (quiet_step en cx a) P" and cl: "cleared en cx a"
    and ex: "\<And>s w. Q s \<Longrightarrow> P (called s w (ExecuteCall a))"
  shows "triple Q (dispatch en cx a k) (\<lambda>rep s. P s \<and> sound_report a rep s) (\<lambda>_. P)"
proof -
  let ?P = "\<lambda>s. P s \<and> ExecuteCall a \<in> set (rs_calls s)"
  have st': "steady (quiet_step en cx a) ?P" by (rule steady_with [OF st])
  have call: "triple Q (call (ExecuteCall a) m) (\<lambda>_. ?P) (\<lambda>_. ?P)" for m
    using ex by (auto simp: triple_def call_def called_def split: prod.splits sum.splits)
  have accept: "triple ?P (accept_result en cx a k r) (\<lambda>rep s. ?P s \<and> sound_report a rep s) (\<lambda>_. ?P)" for r
    by (rule accept_result_sound [OF st' cl]) simp
  have "triple Q (dispatch en cx a k) (\<lambda>rep s. ?P s \<and> sound_report a rep s) (\<lambda>_. ?P)"
    unfolding dispatch_def
  proof (rule triple_ebind [OF call], rule triple_then [OF keeps_locals(1) [OF st']])
    show "triple ?P (case raw of
          ReturnedResult r0 \<Rightarrow> accept_result en cx a k r0
        | _ \<Rightarrow> eraise (Exn ConnectorError ''connector returned an invalid execution result''))
        (\<lambda>rep s. ?P s \<and> sound_report a rep s) (\<lambda>_. ?P)" for raw
      using accept by (cases raw) (auto intro!: triple_eraise)
  qed simp
  then show ?thesis by (rule triple_weaken) auto
qed

definition sound_option :: "agent_action \<Rightarrow> action_report option \<Rightarrow> 'w run_state \<Rightarrow> bool" where
  "sound_option a r s = (case r of None \<Rightarrow> True | Some rep \<Rightarrow> sound_report a rep s)"

lemma guarded_dispatch_sound:
  assumes q: "steady (quiet_step en cx a) Q" and st: "steady (quiet_step en cx a) P" and cl: "cleared en cx a"
    and le: "\<And>s. Q s \<Longrightarrow> P s" and ex: "\<And>s w. Q s \<Longrightarrow> reserved a s \<Longrightarrow> P (called s w (ExecuteCall a))"
  shows "triple (\<lambda>s. Q s \<and> reserved a s) (guarded_dispatch en cx a k)
    (\<lambda>r s. P s \<and> sound_option a r s) (\<lambda>_. P)"
  unfolding guarded_dispatch_def
proof (rule triple_then)
  have "reserved a (snd (call (GuardCall a) m s))" if "reserved a s" for m s
    using that by (simp add: call_def reserved_def split: prod.splits)
  then have "keeps (\<lambda>s. Q s \<and> reserved a s) (call (GuardCall a) m)" for m
    by (intro keeps_conj contact_call [OF q cl] keepsI) simp_all
  then show "keeps (\<lambda>s. Q s \<and> reserved a s)
      (case or_pre_effect_guard en of
         Some guard \<Rightarrow> if uses_idempotency a then call (GuardCall a) (guard a) else eret ()
       | None \<Rightarrow> eret ())"
    by (intro keep_rules)
  have "triple (\<lambda>s. Q s \<and> reserved a s) (dispatch en cx a k) (\<lambda>rep s. P s \<and> sound_report a rep s) (\<lambda>_. P)"
    by (rule dispatch_sound [OF st cl]) (use ex in blast)
  then show "triple (\<lambda>s. Q s \<and> reserved a s) (ebind (dispatch en cx a k) (\<lambda>report. eret (Some report)))
      (\<lambda>r s. P s \<and> sound_option a r s) (\<lambda>_. P)"
    by (rule triple_ebind) (auto simp: sound_option_def)
qed (use le in blast)

definition dispatchable :: "idempotency_claim \<Rightarrow> bool" where
  "dispatchable claim = (claim_state claim \<notin> {ClaimCompleted, ClaimConflict, ClaimInProgress, ClaimIndeterminate})"

lemma take_claim_reserves:
  assumes "take_claim en cx a t db = (db', Inr claim)" and "dispatchable claim"
  shows "phase_of db' (ac_idempotency_key a) = Reserved (or_token en t)"
proof -
  let ?r = "claim_action (ac_idempotency_key a) (effect_fingerprint (or_host en) a) (cp_plan_id (cx_plan cx))
              (ac_action_id a) (or_token en t) (or_timestamp en t) db"
  have r: "?r = (db', claim)" using assms(1) by (simp add: take_claim_def split: prod.splits)
  then have "claim_state (snd ?r) = ClaimClaimed"
    using assms(2) unfolding dispatchable_def
    by (auto simp: claim_action_def simple_claim_def split: option.splits claim_status.splits if_splits)
  then show ?thesis using claimed_reserved(1) [of "ac_idempotency_key a"] r by fastforce
qed

lemma take_claim_triple:
  assumes "steady (quiet_step en cx a) Q" and "cleared en cx a"
  shows "triple Q (audit_op en (take_claim en cx a)) (\<lambda>claim s. Q s \<and> (dispatchable claim \<longrightarrow> reserved a s)) (\<lambda>_. Q)"
proof -
  have k: "keeps Q (audit_op en (take_claim en cx a))"
  proof (rule keeps_claim_op [OF assms])
    show "\<exists>op. claims_of (or_host en) a op \<and> fst (take_claim en cx a t db) = apply_op (h_sha256 (or_host en)) op db" for t db
      by (rule exI [of _ "OpClaim (ac_idempotency_key a) (effect_fingerprint (or_host en) a) (cp_plan_id (cx_plan cx))
            (ac_action_id a) (or_token en t) (or_timestamp en t)"]) (simp add: take_claim_def split: prod.splits)
  qed
  have "reserved a s'" if "audit_op en (take_claim en cx a) s = (Inr claim, s')" "dispatchable claim" for s claim s'
  proof -
    have "take_claim en cx a (rs_tick s) (rs_db s) = (rs_db s', Inr claim)"
      using that(1) by (auto simp: audit_op_def Let_def split: option.splits prod.splits)
    then show ?thesis using take_claim_reserves that(2) unfolding reserved_def by metis
  qed
  then show ?thesis using keepsD [OF k] unfolding triple_def by (fastforce split: prod.splits sum.splits)
qed

lemma claim_and_dispatch_sound:
  assumes q: "steady (quiet_step en cx a) Q" and st: "steady (quiet_step en cx a) P" and cl: "cleared en cx a"
    and le: "\<And>s. Q s \<Longrightarrow> P s" and ex: "\<And>s w. Q s \<Longrightarrow> reserved a s \<Longrightarrow> P (called s w (ExecuteCall a))"
  shows "triple Q (claim_and_dispatch en cx a k) (\<lambda>r s. P s \<and> sound_option a r s) (\<lambda>_. P)"
proof -
  let ?G = "\<lambda>r s. P s \<and> sound_option a r s"
  have stop: "triple R (eseq m (eret None)) ?G (\<lambda>_. P)" if "keeps P m" "\<And>s. R s \<Longrightarrow> P s" for m R
  proof -
    have "triple P (eseq m (eret None)) ?G (\<lambda>_. P)"
      by (rule triple_then [OF that(1)]) (auto simp: sound_option_def)
    then show ?thesis by (rule triple_weaken) (use that(2) in auto)
  qed
  have go: "triple (\<lambda>s. Q s \<and> reserved a s) (eseq (emod (\<lambda>s. s\<lparr>rs_claim_token := Some token\<rparr>)) (guarded_dispatch en cx a k)) ?G (\<lambda>_. P)" for token
  proof (rule triple_then [OF _ guarded_dispatch_sound [OF q st cl le ex]])
    show "keeps (\<lambda>s. Q s \<and> reserved a s) (emod (\<lambda>s. s\<lparr>rs_claim_token := Some token\<rparr>))"
      by (rule keeps_conj [OF keeps_locals(3) [OF q]]) (simp add: keeps_emod reserved_def)
  qed (use le in auto)
  let ?R = "\<lambda>claim s. Q s \<and> (dispatchable claim \<longrightarrow> reserved a s)"
  have "triple Q (audit_op en (take_claim en cx a)) ?R (\<lambda>_. P)"
    using take_claim_triple [OF q cl] by (rule triple_weaken) (use le in auto)
  then show ?thesis
    unfolding claim_and_dispatch_def
  proof (rule triple_ebind)
    fix claim
    have fin: "triple (?R claim) (case claim_token claim of
            None \<Rightarrow> eraise (Exn RuntimeError ''idempotency claim omitted its token'')
          | Some token \<Rightarrow> eseq (emod (\<lambda>s. s\<lparr>rs_claim_token := Some token\<rparr>)) (guarded_dispatch en cx a k)) ?G (\<lambda>_. P)"
      if "dispatchable claim"
      by (cases "claim_token claim") (use that le in \<open>auto intro: triple_eraise triple_weaken [OF go]\<close>)
    show "triple (?R claim) (case claim_state claim of
       ClaimCompleted \<Rightarrow>
         eseq (reuse_completed en cx a k (case claim_result claim of None \<Rightarrow> [] | Some r \<Rightarrow> r)) (eret None)
     | ClaimConflict \<Rightarrow>
         eseq (conclude en cx a CONFLICTED ''idempotency key is bound to a different action effect'' [] True)
           (eret None)
     | ClaimInProgress \<Rightarrow>
         eseq (conclude en cx a CONFLICTED ''idempotent action is already in progress'' [] True) (eret None)
     | ClaimIndeterminate \<Rightarrow>
         eseq (reconcile_indeterminate en cx a k (claim_result claim)) (eret None)
     | _ \<Rightarrow>
         (case claim_token claim of
            None \<Rightarrow> eraise (Exn RuntimeError ''idempotency claim omitted its token'')
          | Some token \<Rightarrow>
              eseq (emod (\<lambda>s. s\<lparr>rs_claim_token := Some token\<rparr>)) (guarded_dispatch en cx a k))) ?G (\<lambda>_. P)"
      by (cases "claim_state claim", simp_all only: claim_state.case)
         (rule fin stop; simp add: dispatchable_def le keeps_reuse_completed [OF st cl] keeps_conclude_plain [OF st]
            keeps_reconcile_indeterminate [OF st cl])+
  qed
qed

lemma keeps_authorize_egress: "steady (quiet_step en cx a) P \<Longrightarrow> keeps P (authorize_egress en cx b egress)"
  unfolding authorize_egress_def by (intro keep_rules keeps_emit_event)

lemma attempt_action_sound:
  assumes q: "steady (quiet_step en cx a) Q" and st: "steady (quiet_step en cx a) P" and cl: "cleared en cx a"
    and le: "\<And>s. Q s \<Longrightarrow> P s" and ex: "\<And>s w. Q s \<Longrightarrow> reserved a s \<Longrightarrow> P (called s w (ExecuteCall a))"
  shows "triple Q (attempt_action en cx a) (\<lambda>r s. P s \<and> sound_option a r s) (\<lambda>_. P)"
proof -
  let ?G = "\<lambda>r s. P s \<and> sound_option a r s"
  have stop: "triple Q (eseq (conclude en cx a action_state.PROHIBITED m [] True) (eret None)) ?G (\<lambda>_. P)" for m
    by (rule triple_then [OF keeps_conclude_plain [OF q]]) (auto simp: sound_option_def le)
  have free: "triple Q (guarded_dispatch en cx a k) ?G (\<lambda>_. P)" if "\<not> uses_idempotency a" for k
    using guarded_dispatch_sound [OF q st cl le ex, of k]
    by (rule triple_weaken) (use that in \<open>simp_all add: reserved_def\<close>)
  have go: "triple Q (if uses_idempotency a then claim_and_dispatch en cx a k else guarded_dispatch en cx a k) ?G (\<lambda>_. P)" for k
    using free claim_and_dispatch_sound [OF q st cl le ex] by (cases "uses_idempotency a") simp_all
  have bound: "triple Q (case provider_data_egress_binding en p a k of
           Inl e \<Rightarrow>
             if caught_by [ConfigurationError] e
             then eseq (conclude en cx a action_state.PROHIBITED (exn_text e) [] True) (eret None)
             else eraise e
         | Inr egress \<Rightarrow>
             eseq (emod (\<lambda>s. s\<lparr>rs_egress := egress\<rparr>))
             (eseq (authorize_egress en cx a egress)
             (ebind (eget rs_world) (\<lambda>w'.
              eseq (elift (checked [connector_http_action_budget k w'] ()))
                (if uses_idempotency a then claim_and_dispatch en cx a k
                 else guarded_dispatch en cx a k))))) ?G (\<lambda>_. P)" for p k
  proof (cases "provider_data_egress_binding en p a k")
    case (Inl e)
    then show ?thesis using stop le by (auto intro!: triple_eraise)
  next
    case (Inr egress)
    show ?thesis unfolding Inr sum.case
      by (intro triple_then triple_after keeps_locals [OF q] keeps_authorize_egress [OF q] keep_rules go) (simp_all add: le)
  qed
  show ?thesis
    unfolding attempt_action_def Let_def
  proof (intro triple_after triple_then keeps_locals [OF q] keep_rules)
    show "triple Q (case x of (ok, reason) \<Rightarrow>
        if \<not> ok then eseq (conclude en cx a action_state.PROHIBITED reason [] True) (eret None)
        else (case provider_data_egress_binding en (cx_plan cx) a k of
           Inl e \<Rightarrow>
             if caught_by [ConfigurationError] e
             then eseq (conclude en cx a action_state.PROHIBITED (exn_text e) [] True) (eret None)
             else eraise e
         | Inr egress \<Rightarrow>
             eseq (emod (\<lambda>s. s\<lparr>rs_egress := egress\<rparr>))
             (eseq (authorize_egress en cx a egress)
             (ebind (eget rs_world) (\<lambda>w'.
              eseq (elift (checked [connector_http_action_budget k w'] ()))
                (if uses_idempotency a then claim_and_dispatch en cx a k
                 else guarded_dispatch en cx a k)))))) ?G (\<lambda>_. P)" for x k
      using bound stop by (cases x) simp
  qed (use le in auto)
qed

subsubsection \<open>Exceptions and the end of an action\<close>

lemma held_report_sound: "st \<noteq> VERIFIED \<Longrightarrow> st \<noteq> REUSED \<Longrightarrow> sound_report a (held_report a st m held) s"
  by (simp add: sound_report_def held_report_def backed_def)

lemma settle_before_effect_sound:
  assumes st: "steady (quiet_step en cx a) P" and cl: "cleared en cx a" and "x \<noteq> VERIFIED" "x \<noteq> REUSED"
  shows "triple P (settle_before_effect en a x message late) (\<lambda>rep s. P s \<and> sound_report a rep s) (\<lambda>_. P)"
  unfolding settle_before_effect_def
  by (intro triple_after triple_report keep_rules keeps_persist [OF st cl])
     (use assms(3,4) in \<open>auto intro: held_report_sound\<close>)

lemma settle_error_sound:
  assumes st: "steady (quiet_step en cx a) P" and cl: "cleared en cx a"
  shows "triple P (settle_error en a e) (\<lambda>rep s. P s \<and> sound_report a rep s) (\<lambda>_. P)"
  unfolding settle_error_def
  by (intro triple_after triple_report keep_rules keeps_persist [OF st cl]) (auto intro: held_report_sound)

lemma handle_error_sound:
  assumes st: "steady (quiet_step en cx a) P" and cl: "cleared en cx a"
  shows "triple P (handle_error en a e) (\<lambda>r s. P s \<and> sound_option a r s) (\<lambda>_. P)"
  unfolding handle_error_def
  by (rule triple_ebind [where R = "\<lambda>rep s. P s \<and> sound_report a rep s"])
     (auto simp: sound_option_def intro!: settle_before_effect_sound [OF st cl] settle_error_sound [OF st cl] triple_eraise)

lemma finish_action_keeps:
  assumes st: "steady (quiet_step en cx a) P"
  shows "triple (\<lambda>s. P s \<and> sound_report a rep s) (finish_action en cx a rep) (\<lambda>_. P) (\<lambda>_. P)"
proof -
  have fin: "triple (\<lambda>s. P s \<and> sound_report a final s)
      (eseq (add_report a final) (eseq (record_action en cx a final foreign [])
         (if rp_state final \<in> set failing_states then maybe_compensate en cx else eret ()))) (\<lambda>_. P) (\<lambda>_. P)" for final foreign
  proof (rule triple_eseq)
    show "triple (\<lambda>s. P s \<and> sound_report a final s) (add_report a final) (\<lambda>_. P) (\<lambda>_. P)"
      unfolding add_report_def
      by (rule triple_emod) (use steadyD [OF st quiet_step.report] in \<open>auto simp: sound_report_def\<close>)
    have "keeps P (eseq (record_action en cx a final foreign [])
         (if rp_state final \<in> set failing_states then maybe_compensate en cx else eret ()))"
      by (intro keep_rules keeps_record_action [OF st] keeps_maybe_compensate [OF st])
    then show "triple P (eseq (record_action en cx a final foreign [])
         (if rp_state final \<in> set failing_states then maybe_compensate en cx else eret ())) (\<lambda>_. P) (\<lambda>_. P)"
      by (simp add: keeps_def)
  qed
  have masked: "sound_report a rep s \<Longrightarrow> sound_report a ((plain_report a (rp_state rep) m)\<lparr>rp_egress := e\<rparr>) s" for m e s
    by (simp add: sound_report_def)
  show ?thesis
    unfolding finish_action_def Let_def
    by (rule triple_ebind [where R = "\<lambda>_ s. P s \<and> sound_report a rep s"], blast,
        rule triple_ebind [where R = "\<lambda>_ s. P s \<and> sound_report a rep s"], blast,
        rule triple_weaken [OF fin]) (auto intro: masked)
qed

lemma execute_action_sound:
  assumes q: "steady (quiet_step en cx a) Q" and st: "steady (quiet_step en cx a) P" and cl: "cleared en cx a"
    and le: "\<And>s. Q s \<Longrightarrow> P s" and ex: "\<And>s w. Q s \<Longrightarrow> reserved a s \<Longrightarrow> P (called s w (ExecuteCall a))"
  shows "triple Q (execute_action en cx a) (\<lambda>_. P) (\<lambda>_. P)"
  unfolding execute_action_def
proof (rule triple_then [OF keeps_locals(5) [OF q]], rule triple_ebind)
  show "triple Q (ecatch (attempt_action en cx a) (handle_error en a)) (\<lambda>r s. P s \<and> sound_option a r s) (\<lambda>_. P)"
    by (rule triple_ecatch [OF attempt_action_sound [OF q st cl le ex] handle_error_sound [OF st cl]])
  show "triple (\<lambda>s. P s \<and> sound_option a r s)
      (case r of None \<Rightarrow> eret () | Some report \<Rightarrow> finish_action en cx a report) (\<lambda>_. P) (\<lambda>_. P)" for r
    using finish_action_keeps [OF st] by (cases r) (auto simp: sound_option_def)
qed (rule le)

lemma steady_deps_done:
  assumes "ac_action_id a \<notin> set (ac_dependencies a)"
  shows "steady (quiet_step en cx a) (deps_done a)"
  unfolding steady_def
proof (intro allI impI)
  fix s s' assume d: "deps_done a s" and "quiet_step en cx a s s'"
  from this(2) have "\<forall>i. i \<noteq> ac_action_id a \<longrightarrow> map_of (rs_states s') i = map_of (rs_states s) i"
    by cases (simp_all add: called_def)
  then show "deps_done a s'" using d assms unfolding deps_done_def by metis
qed

lemma failed_dependencies_Nil: "failed_dependencies a False s = [] \<Longrightarrow> deps_done a s"
  by (auto simp: failed_dependencies_def dependency_succeeded_def deps_done_def filter_empty_conv)

text \<open>The body of the loop: an action that does not pass all checks adds quiet steps only; one that does is
  executed at most once, after its dependencies succeeded and with its claim reserved.\<close>

lemma conclude_stops:
  assumes "steady (quiet_step en cx a) Q" and "\<And>s. Q s \<Longrightarrow> P s" and "st \<noteq> VERIFIED" and "st \<noteq> REUSED"
    and "\<And>s. R s \<Longrightarrow> Q s"
  shows "triple R (conclude en cx a st m extra failure) (\<lambda>_. P) (\<lambda>_. P)"
  using keeps_triple [OF keeps_conclude_plain [OF assms(1,3,4)]] by (rule triple_weaken) (use assms(2,5) in auto)

lemma act_on_decision_sound:
  assumes q: "steady (quiet_step en cx a) Q" and st: "steady (quiet_step en cx a) P" and le: "\<And>s. Q s \<Longrightarrow> P s"
    and ex: "\<And>s w. cleared en cx a \<Longrightarrow> Q s \<Longrightarrow> reserved a s \<Longrightarrow> P (called s w (ExecuteCall a))"
    and cl: "pd_permitted d \<Longrightarrow> \<not> cx_dry_run cx \<Longrightarrow> cleared en cx a"
  shows "triple Q (act_on_decision en cx a d) (\<lambda>_. P) (\<lambda>_. P)"
proof (cases "pd_permitted d \<and> \<not> cx_dry_run cx")
  case True
  then have "cleared en cx a" using cl by simp
  then have "triple Q (execute_action en cx a) (\<lambda>_. P) (\<lambda>_. P)"
    using execute_action_sound [OF q st _ le] ex by blast
  then show ?thesis using True by (simp add: act_on_decision_def)
next
  case False
  then show ?thesis unfolding act_on_decision_def using conclude_stops [OF q le] by simp
qed

lemma decide_action_sound:
  assumes q: "steady (quiet_step en cx a) Q" and st: "steady (quiet_step en cx a) P" and le: "\<And>s. Q s \<Longrightarrow> P s"
    and ex: "\<And>s w. cleared en cx a \<Longrightarrow> Q s \<Longrightarrow> reserved a s \<Longrightarrow> P (called s w (ExecuteCall a))"
    and cl: "\<And>n now d. orchestrator_approvers en a = Inr n \<Longrightarrow>
       evaluate (or_host en) (or_policy en) (cx_plan cx) a (cx_approvals cx) now n = Inr d \<Longrightarrow>
       pd_permitted d \<Longrightarrow> \<not> cx_dry_run cx \<Longrightarrow> cleared en cx a"
  shows "triple Q (decide_action en cx a) (\<lambda>_. P) (\<lambda>_. P)"
  unfolding decide_action_def
proof (cases "orchestrator_approvers en a")
  case (Inr n)
  have "triple Q (ebind (elift (evaluate (or_host en) (or_policy en) (cx_plan cx) a (cx_approvals cx) now n))
      (act_on_decision en cx a)) (\<lambda>_. P) (\<lambda>_. P)" for now
  proof (cases "evaluate (or_host en) (or_policy en) (cx_plan cx) a (cx_approvals cx) now n")
    case (Inr d)
    then show ?thesis
      using act_on_decision_sound [OF q st le ex cl [OF \<open>orchestrator_approvers en a = Inr n\<close> Inr]]
      by (simp add: elift_Inr)
  qed (use le in \<open>simp add: elift_Inl triple_eraise\<close>)
  then show "triple Q (ebind (elift (orchestrator_approvers en a)) (\<lambda>minimum.
     ebind (read_clock en) (\<lambda>now.
     ebind (elift (evaluate (or_host en) (or_policy en) (cx_plan cx) a (cx_approvals cx) now minimum))
       (act_on_decision en cx a)))) (\<lambda>_. P) (\<lambda>_. P)"
    unfolding Inr elift_Inr by (rule triple_after [OF keeps_read_clock [OF q]]) (use le in auto)
qed (use le in \<open>simp add: elift_Inl triple_eraise\<close>)

lemma admit_action_sound:
  assumes q: "steady (quiet_step en cx a) Q" and st: "steady (quiet_step en cx a) P" and le: "\<And>s. Q s \<Longrightarrow> P s"
    and own: "ac_action_id a \<notin> set (ac_dependencies a)"
    and ex: "\<And>s w. cleared en cx a \<Longrightarrow> Q s \<Longrightarrow> deps_done a s \<Longrightarrow> reserved a s \<Longrightarrow> P (called s w (ExecuteCall a))"
    and cap: "validate_capability en a = Inr (True, m)" and co: "\<not> cx_coherence_required cx"
  shows "triple Q (admit_action en cx a) (\<lambda>_. P) (\<lambda>_. P)"
  unfolding admit_action_def
proof (rule triple_ebind)
  let ?Q = "\<lambda>s. Q s \<and> (\<not> cx_dry_run cx \<longrightarrow> deps_done a s)"
  have q': "steady (quiet_step en cx a) ?Q"
    using q steady_deps_done [OF own, of en cx] unfolding steady_def by blast
  show "triple Q (eget (failed_dependencies a (cx_dry_run cx))) (\<lambda>failed s. Q s \<and> (failed = [] \<longrightarrow> ?Q s)) (\<lambda>_. P)"
    by (rule triple_eget) (use failed_dependencies_Nil in auto)
  fix failed :: "uuid list"
  have sources: "triple ?Q (ebind (elift (validate_sources (or_host en) (or_sources en) (cx_plan cx) a)) (\<lambda>(source_ok, source_reason).
       if \<not> source_ok then conclude en cx a action_state.PROHIBITED source_reason [] True
       else decide_action en cx a)) (\<lambda>_. P) (\<lambda>_. P)"
  proof (cases "validate_sources (or_host en) (or_sources en) (cx_plan cx) a")
    case (Inr v)
    have "triple ?Q (decide_action en cx a) (\<lambda>_. P) (\<lambda>_. P)" if "fst v"
    proof (rule decide_action_sound [OF q' st])
      show "cleared en cx a" if "orchestrator_approvers en a = Inr n"
        "evaluate (or_host en) (or_policy en) (cx_plan cx) a (cx_approvals cx) now n = Inr d"
        "pd_permitted d" "\<not> cx_dry_run cx" for n now d
        unfolding cleared_def using that cap co Inr \<open>fst v\<close> by (cases v) auto
      show "P (called s w (ExecuteCall a))" if "cleared en cx a" "?Q s" "reserved a s" for s w
        using that ex unfolding cleared_def by blast
    qed (use le in blast)
    moreover have "triple ?Q (conclude en cx a action_state.PROHIBITED (snd v) [] True) (\<lambda>_. P) (\<lambda>_. P)"
      by (rule conclude_stops [OF q le]) auto
    ultimately show ?thesis unfolding Inr elift_Inr by (cases v) simp
  next
    case (Inl e)
    show ?thesis unfolding Inl elift_Inl by (rule triple_eraise) (use le in blast)
  qed
  show "triple (\<lambda>s. Q s \<and> (failed = [] \<longrightarrow> ?Q s)) (if failed \<noteq> []
     then conclude en cx a SKIPPED
       (''dependencies did not succeed: ['' @ py_join '', '' (map uuid_repr failed) @ '']'') [] False
     else ebind (elift (validate_sources (or_host en) (or_sources en) (cx_plan cx) a)) (\<lambda>(source_ok, source_reason).
       if \<not> source_ok then conclude en cx a action_state.PROHIBITED source_reason [] True
       else decide_action en cx a)) (\<lambda>_. P) (\<lambda>_. P)"
  proof (cases "failed = []")
    case True
    then show ?thesis using triple_weaken [OF sources] by simp
  next
    case False
    then show ?thesis by (simp only: if_True not_False_eq_True) (rule conclude_stops [OF q le], auto)
  qed
qed

lemma process_action_sound:
  assumes q: "steady (quiet_step en cx a) Q" and st: "steady (quiet_step en cx a) P" and le: "\<And>s. Q s \<Longrightarrow> P s"
    and own: "ac_action_id a \<notin> set (ac_dependencies a)"
    and ex: "\<And>s w. cleared en cx a \<Longrightarrow> Q s \<Longrightarrow> deps_done a s \<Longrightarrow> reserved a s \<Longrightarrow> P (called s w (ExecuteCall a))"
  shows "triple Q (process_action en cx a) (\<lambda>_. P) (\<lambda>_. P)"
proof -
  have stop: "triple Q (conclude en cx a x m extra failure) (\<lambda>_. P) (\<lambda>_. P)" if "x \<noteq> VERIFIED" "x \<noteq> REUSED" for x m extra failure
    by (rule conclude_stops [OF q le that])
  have hold: "triple Q (hold_for_review en cx a) (\<lambda>_. P) (\<lambda>_. P)"
    unfolding hold_for_review_def
    by (intro triple_after keep_rules) (auto simp: le intro: stop split: prod.splits)
  have "triple Q (ebind (elift (validate_capability en a)) (\<lambda>(catalog_ok, catalog_reason).
       if \<not> catalog_ok then conclude en cx a action_state.PROHIBITED catalog_reason [] True
       else if cx_coherence_required cx then hold_for_review en cx a
       else admit_action en cx a)) (\<lambda>_. P) (\<lambda>_. P)"
  proof (cases "validate_capability en a")
    case (Inr v)
    then show ?thesis
      using stop hold admit_action_sound [OF q st le own ex] by (cases v) (simp add: elift_Inr)
  qed (use le in \<open>simp add: elift_Inl triple_eraise\<close>)
  then show ?thesis
    unfolding process_action_def using stop by (intro triple_after keep_rules) (auto simp: le)
qed

end
