(* ===== verification/Run_Invariants.thy ===== *)
theory Run_Invariants
  imports Run_Steps
begin

text \<open>
  What every run guarantees: a run admits its plan and then makes steps of the state machine only, and
  each property below is an invariant of the steps, shown by rule induction. The calls to connectors are
  kept in the order they were made, so an invariant over them speaks about every moment of the run.
\<close>

inductive_cases quiet_stepE: "quiet_step en cx a s s'"
inductive_cases run_stepE: "run_step en cx s s'"

subsection \<open>Admitted plans\<close>

lemma plan_wf_trusted [simp]: "plan_wf (with_trusted_admission p) = plan_wf p"
  by (simp add: plan_wf_def with_trusted_admission_def)

lemma plan_from_dict_wf: "plan_from_dict h data = Inr p \<Longrightarrow> plan_wf p"
  unfolding plan_from_dict_def Let_def by (elim sbind_InrE) (erule mk_plan_wf)

lemma execution_snapshot_wf: "execution_snapshot h plan = Inr p \<Longrightarrow> plan_wf p"
  unfolding execution_snapshot_def by (auto elim!: sbind_InrE dest: plan_from_dict_wf split: if_splits)

lemma map_of_action_graph:
  "distinct (map ac_action_id actions) \<Longrightarrow> a \<in> set actions \<Longrightarrow>
   map_of (action_graph actions) (ac_action_id a) = Some (ac_dependencies a)"
  by (rule map_of_is_SomeI) (auto simp: action_graph_def comp_def)

lemma own_not_dependency:
  assumes "plan_wf p" and "a \<in> set (cp_actions p)"
  shows "ac_action_id a \<notin> set (ac_dependencies a)"
proof
  assume "ac_action_id a \<in> set (ac_dependencies a)"
  then have "(ac_action_id a, ac_action_id a) \<in> depends (action_graph (cp_actions p))"
    using assms map_of_action_graph by (intro dependsI) (auto simp: plan_wf_def)
  then show False using assms by (auto simp: plan_wf_def acyclic_def)
qed

lemma topological_order_wf:
  assumes "plan_wf p"
  obtains ordered where "topological_order (cp_actions p) = Inr ordered" and "distinct ordered"
    and "set ordered = set (cp_actions p)"
proof -
  let ?as = "cp_actions p"
  from assms have d: "distinct (map ac_action_id ?as)" and g: "closed_graph (action_graph ?as)"
    "acyclic (depends (action_graph ?as))" by (simp_all add: plan_wf_def)
  from topological_ids_correct [OF g] obtain ids where ids: "topological_ids (action_graph ?as) = Some (Inr ids)"
    "distinct ids" "set ids = ac_action_id ` set ?as" by (metis nodes_action_graph)
  let ?look = "\<lambda>i. the (map_of (map (\<lambda>a. (ac_action_id a, a)) (rev ?as)) i)"
  have look: "?look (ac_action_id a) = a" if "a \<in> set ?as" for a
  proof -
    have "map_of (map (\<lambda>a. (ac_action_id a, a)) (rev ?as)) (ac_action_id a) = Some a"
      by (rule map_of_is_SomeI) (use d that in \<open>auto simp: comp_def rev_map [symmetric]\<close>)
    then show ?thesis by simp
  qed
  have "topological_order ?as = Inr (map ?look ids)" using ids(1) by (simp add: topological_order_def)
  moreover have "distinct (map ?look ids)"
    unfolding distinct_map by (rule conjI [OF ids(2)], rule inj_on_inverseI [where g = ac_action_id]) (use ids(3) look in auto)
  moreover have "set (map ?look ids) = set ?as" unfolding set_map ids(3) image_image using look by simp
  ultimately show ?thesis using that by blast
qed

lemma same_action: "plan_wf p \<Longrightarrow> a \<in> set (cp_actions p) \<Longrightarrow> b \<in> set (cp_actions p) \<Longrightarrow>
   ac_idempotency_key a = ac_idempotency_key b \<Longrightarrow> a = b"
  by (auto simp: plan_wf_def distinct_map inj_on_def)

subsection \<open>A run makes steps\<close>

lemma steady_not_executed: "steady (quiet_step en cx a) (\<lambda>s. ExecuteCall b \<notin> set (rs_calls s))"
  unfolding steady_def by (auto elim!: quiet_stepE simp: called_def)

lemma steady_quiet_reached:
  "a \<in> set (cp_actions (cx_plan cx)) \<Longrightarrow> steady (quiet_step en cx a) ((run_step en cx)\<^sup>*\<^sup>* s0)"
  unfolding steady_def by (auto intro: rtranclp.rtrancl_into_rtrancl run_step.quiet)

definition unexecuted :: "agent_action list \<Rightarrow> 'w run_state \<Rightarrow> bool" where
  "unexecuted xs s = (\<forall>b \<in> set xs. ExecuteCall b \<notin> set (rs_calls s))"

lemma steady_unexecuted: "steady (quiet_step en cx a) (unexecuted xs)"
  using steady_not_executed [of en cx a] unfolding steady_def unexecuted_def by blast

lemma process_action_steps:
  assumes wf: "plan_wf (cx_plan cx)" and a: "a \<in> set (cp_actions (cx_plan cx))" and new: "a \<notin> set xs"
  shows "triple (\<lambda>s. (run_step en cx)\<^sup>*\<^sup>* s0 s \<and> unexecuted (a # xs) s) (process_action en cx a)
    (\<lambda>_ s. (run_step en cx)\<^sup>*\<^sup>* s0 s \<and> unexecuted xs s) (\<lambda>_ s. (run_step en cx)\<^sup>*\<^sup>* s0 s \<and> unexecuted xs s)"
proof (rule process_action_sound)
  show "ac_action_id a \<notin> set (ac_dependencies a)" by (rule own_not_dependency [OF wf a])
  show "(run_step en cx)\<^sup>*\<^sup>* s0 (called s w (ExecuteCall a)) \<and> unexecuted xs (called s w (ExecuteCall a))"
    if "cleared en cx a" "(run_step en cx)\<^sup>*\<^sup>* s0 s \<and> unexecuted (a # xs) s" "deps_done a s" "reserved a s" for s w
  proof
    have "run_step en cx s (called s w (ExecuteCall a))"
      using that a by (intro run_step.execute) (simp_all add: unexecuted_def)
    with that(2) show "(run_step en cx)\<^sup>*\<^sup>* s0 (called s w (ExecuteCall a))" by (auto intro: rtranclp.rtrancl_into_rtrancl)
    show "unexecuted xs (called s w (ExecuteCall a))"
      using that(2) new by (auto simp: unexecuted_def called_def)
  qed
qed (use steady_conj [OF steady_quiet_reached [OF a] steady_unexecuted] in blast, use steady_conj [OF steady_quiet_reached [OF a] steady_unexecuted] in blast,
    simp add: unexecuted_def)

lemma loop_steps:
  assumes wf: "plan_wf (cx_plan cx)"
  shows "set xs \<subseteq> set (cp_actions (cx_plan cx)) \<Longrightarrow> distinct xs \<Longrightarrow>
    triple (\<lambda>s. (run_step en cx)\<^sup>*\<^sup>* s0 s \<and> unexecuted xs s) (eforeach (process_action en cx) xs)
      (\<lambda>_. (run_step en cx)\<^sup>*\<^sup>* s0) (\<lambda>_. (run_step en cx)\<^sup>*\<^sup>* s0)"
proof (induction xs)
  case (Cons a xs)
  then have "triple (\<lambda>s. (run_step en cx)\<^sup>*\<^sup>* s0 s \<and> unexecuted (a # xs) s) (process_action en cx a)
      (\<lambda>_ s. (run_step en cx)\<^sup>*\<^sup>* s0 s \<and> unexecuted xs s) (\<lambda>_. (run_step en cx)\<^sup>*\<^sup>* s0)"
    using triple_weaken [OF process_action_steps [OF wf, of a xs en s0]] by simp
  with Cons show ?case by (auto intro: triple_eseq)
qed auto

text \<open>What admission establishes, and the state it leaves: only the clock was read.\<close>

definition admitted :: "'w orchestrator \<Rightarrow> change_plan \<Rightarrow> approval list \<Rightarrow> bool \<Rightarrow> run_context \<Rightarrow> bool" where
  "admitted en plan approvals dry_run cx =
     (execution_snapshot (or_host en) plan = Inr (cx_plan cx) \<and> cx_approvals cx = approvals \<and> cx_dry_run cx = dry_run
      \<and> (\<not> dry_run \<longrightarrow> \<not> cx_coherence_required cx \<longrightarrow>
           (\<exists>now. strategy_coherence_execution_authenticated (or_host en) (cx_plan cx) (Some (or_policy en)) approvals now
              = Inr True))
      \<and> (\<exists>now d. enforce_systems_governance (or_host en) default_gate (cx_plan cx) (Some (or_policy en)) approvals False now
           = Inr d))"

definition untouched :: "'w run_state \<Rightarrow> 'w run_state \<Rightarrow> bool" where
  "untouched s0 s = (\<exists>t. s = s0\<lparr>rs_tick := t\<rparr>)"

lemma untouched_refl [simp]: "untouched s s"
  unfolding untouched_def by (rule exI [of _ "rs_tick s"]) simp

lemma keeps_untouched_clock: "keeps (untouched s0) (read_clock en)"
  by (rule keepsI) (auto simp: untouched_def read_clock_def)

lemma admit_plan_admits:
  "triple (untouched s0) (admit_plan en plan approvals dry_run)
     (\<lambda>(p, assessment, decision, required) s. untouched s0 s
        \<and> (\<forall>run_id. admitted en plan approvals dry_run \<lparr>cx_run_id = run_id, cx_plan = p, cx_approvals = approvals,
             cx_dry_run = dry_run, cx_coherence_required = required\<rparr>)) (\<lambda>_. untouched s0)"
  unfolding triple_def admit_plan_def admitted_def
  by (auto simp: ebind_def elift_def eret_def eraise_def read_clock_def untouched_def Let_def
      split: sum.splits prod.splits option.splits if_splits)

text \<open>Every state a run can end in, whether it returns or raises.\<close>

definition ran :: "'w orchestrator \<Rightarrow> change_plan \<Rightarrow> approval list \<Rightarrow> bool \<Rightarrow> 'w run_state \<Rightarrow> 'w run_state \<Rightarrow> bool" where
  "ran en plan approvals dry_run s0 s =
     (untouched s0 s \<or> (\<exists>cx. admitted en plan approvals dry_run cx \<and> (run_step en cx)\<^sup>*\<^sup>* s0 s))"

lemma admitted_wf: "admitted en plan approvals dry_run cx \<Longrightarrow> plan_wf (cx_plan cx)"
  by (auto simp: admitted_def dest: execution_snapshot_wf)

lemma untouched_steps:
  assumes "plan_wf (cx_plan cx)" and "untouched s0 s"
  shows "(run_step en cx)\<^sup>*\<^sup>* s0 s"
proof -
  from assms(1) obtain a where "a \<in> set (cp_actions (cx_plan cx))"
    by (cases "cp_actions (cx_plan cx)") (auto simp: plan_wf_def)
  with assms(2) show ?thesis
    by (auto simp: untouched_def intro!: r_into_rtranclp run_step.quiet quiet_step.tick)
qed

lemma keeps_reached_event:
  assumes "plan_wf (cx_plan cx)"
  shows "keeps ((run_step en cx)\<^sup>*\<^sup>* s0) (emit_event en cx act ty payload)"
proof -
  from assms obtain a where "a \<in> set (cp_actions (cx_plan cx))"
    by (cases "cp_actions (cx_plan cx)") (auto simp: plan_wf_def)
  then show ?thesis by (rule keeps_emit_event [OF steady_quiet_reached])
qed

lemma calls_event: "keeps (\<lambda>s. rs_calls s = cs) (emit_event en cx act ty payload)"
  unfolding emit_event_def
  by (intro keep_rules keepsI) (simp add: audit_op_def Let_def split: option.splits prod.splits)

lemma admitted_run_steps:
  assumes wf: "plan_wf (cx_plan cx)" and ord: "topological_order (cp_actions (cx_plan cx)) = Inr ordered"
    and new: "rs_calls s0 = []"
  shows "triple (untouched s0)
     (eseq (emit_event en cx None ty payload)
      (eseq (eforeach (process_action en cx) ordered)
      (ebind (eget rs_reports) (\<lambda>reports. ebind (elift (review reports)) (\<lambda>v.
       eseq (emit_event en cx None ty' (payload' reports v)) (eret (final reports v)))))))
     (\<lambda>_. (run_step en cx)\<^sup>*\<^sup>* s0) (\<lambda>_. (run_step en cx)\<^sup>*\<^sup>* s0)"
proof -
  obtain xs where xs: "topological_order (cp_actions (cx_plan cx)) = Inr xs" "distinct xs" "set xs = set (cp_actions (cx_plan cx))"
    using topological_order_wf [OF wf] .
  with ord have o: "distinct ordered" "set ordered \<subseteq> set (cp_actions (cx_plan cx))" by auto
  let ?R = "(run_step en cx)\<^sup>*\<^sup>* s0"
  have ev: "keeps ?R (emit_event en cx act t p)" for act t p by (rule keeps_reached_event [OF wf])
  have first: "triple (untouched s0) (emit_event en cx None ty payload) (\<lambda>_ s. ?R s \<and> unexecuted ordered s) (\<lambda>_. ?R)"
    using keeps_conj [OF ev calls_event [where cs = "[]"]] unfolding keeps_def
    by (rule triple_weaken) (use untouched_steps [OF wf] new in \<open>auto simp: unexecuted_def untouched_def\<close>)
  have last: "triple ?R (ebind (eget rs_reports) (\<lambda>reports. ebind (elift (review reports)) (\<lambda>v.
       eseq (emit_event en cx None ty' (payload' reports v)) (eret (final reports v))))) (\<lambda>_. ?R) (\<lambda>_. ?R)"
    by (rule keeps_triple) (intro keep_rules ev)
  show ?thesis by (rule triple_eseq [OF first triple_eseq [OF loop_steps [OF wf o(2,1)] last]])
qed

lemma run_body_ran:
  assumes p: "cx_plan cx = p" and new: "rs_calls s0 = []"
  shows "triple (\<lambda>s. untouched s0 s \<and> admitted en plan approvals dry_run cx)
      (ebind (elift (topological_order (cp_actions p))) (\<lambda>ordered.
       ebind (elift (started_payload h p dry_run assessment decision)) (\<lambda>payload.
       eseq (emit_event en cx None ty payload)
      (eseq (eforeach (process_action en cx) ordered)
      (ebind (eget rs_reports) (\<lambda>reports. ebind (elift (review reports)) (\<lambda>v.
       eseq (emit_event en cx None ty' (payload' reports v)) (eret (final reports v)))))))))
      (\<lambda>_. ran en plan approvals dry_run s0) (\<lambda>_. ran en plan approvals dry_run s0)"
    (is "triple ?P ?m (\<lambda>_. ?E) (\<lambda>_. ?E)")
proof (cases "admitted en plan approvals dry_run cx")
  case True
  have fail: "triple ?P (eraise e) (\<lambda>_. ?E) (\<lambda>_. ?E)" for e :: exn
    by (rule triple_eraise) (simp add: ran_def)
  show ?thesis
  proof (cases "topological_order (cp_actions p)")
    case ord: (Inr ordered)
    show ?thesis
    proof (cases "started_payload h p dry_run assessment decision")
      case (Inr payload)
      show ?thesis unfolding ord Inr elift_Inr
        by (rule triple_weaken [OF admitted_run_steps [of cx ordered s0]])
           (use True admitted_wf [OF True] ord p new in \<open>auto simp: ran_def\<close>)
    qed (simp add: ord elift_Inr elift_Inl fail)
  qed (simp add: elift_Inl fail)
qed (simp add: triple_def)

lemma run_internal_ran:
  assumes "rs_calls s0 = []" and "run_internal en run_id plan approvals dry_run s0 = (r, s)"
  shows "ran en plan approvals dry_run s0 s"
proof -
  let ?E = "ran en plan approvals dry_run s0"
  have "triple (untouched s0) (run_internal en run_id plan approvals dry_run) (\<lambda>_. ?E) (\<lambda>_. ?E)"
    unfolding run_internal_def Let_def
    by (rule triple_ebind [OF triple_weaken [OF admit_plan_admits]], assumption, assumption, simp add: ran_def,
        simp only: split_paired_all prod.case, rule triple_weaken [OF run_body_ran [OF _ assms(1)]]) auto
  then show ?thesis using assms(2) tripleD untouched_refl by (cases r) fast+
qed

subsection \<open>Invariants of the steps\<close>

lemma run_invariant:
  assumes "\<And>cx. admitted en plan approvals dry_run cx \<Longrightarrow> steady (run_step en cx) P"
    and "\<And>t. P (s0\<lparr>rs_tick := t\<rparr>)" and "ran en plan approvals dry_run s0 s"
  shows "P s"
proof -
  have "P s0" using assms(2) [of "rs_tick s0"] by simp
  then show ?thesis
    using assms(3) steady_star [OF assms(1)] assms(2) unfolding ran_def untouched_def by blast
qed

text \<open>No action is cleared in a dry run, or while the review of the whole plan is missing; nothing then
  happens outside the trail of events.\<close>

definition inert :: "'w run_state \<Rightarrow> 'w run_state \<Rightarrow> bool" where
  "inert s0 s = (rs_calls s = [] \<and> rs_executed s = [] \<and> rs_world s = rs_world s0 \<and> db_claims (rs_db s) = db_claims (rs_db s0)
     \<and> db_checkpoints (rs_db s) = db_checkpoints (rs_db s0))"

lemma inert_steps:
  assumes "\<And>a. a \<in> set (cp_actions (cx_plan cx)) \<Longrightarrow> \<not> cleared en cx a"
  shows "steady (run_step en cx) (inert s0)"
  unfolding steady_def
proof (intro allI impI)
  fix s s' assume i: "inert s0 s" and "run_step en cx s s'"
  from this(2) obtain a where "a \<in> set (cp_actions (cx_plan cx))" "quiet_step en cx a s s' \<or> cleared en cx a"
    by (auto elim: run_stepE)
  with assms have a: "\<not> cleared en cx a" and "quiet_step en cx a s s'" by auto
  from this(2) i a show "inert s0 s'"
    by cases (auto simp: inert_def)
qed

text \<open>The trail of events stays intact.\<close>

lemma clear_completed_chain: "chain_ok sha256 (clear_completed key fp db) = chain_ok sha256 db"
  by (simp add: clear_completed_def chain_ok_def split: option.split)

lemma chain_steps: "steady (run_step en cx) (\<lambda>s. chain_ok (h_sha256 (or_host en)) (rs_db s))"
  unfolding steady_def
proof (intro allI impI)
  fix s s' assume c: "chain_ok (h_sha256 (or_host en)) (rs_db s)" and "run_step en cx s s'"
  from this(2) show "chain_ok (h_sha256 (or_host en)) (rs_db s')"
  proof cases
    case (quiet a)
    from quiet(2) c show ?thesis
      by cases (auto simp: called_def clear_completed_chain simp del: apply_op.simps intro: apply_op_chain)
  qed (use c in \<open>simp add: called_def\<close>)
qed

text \<open>The events already recorded are never changed or removed.\<close>

lemma apply_op_prefix: "prefix (db_events db) (db_events (apply_op sha256 op db))"
  by (cases op) (auto simp: audit_record_def fail_action_def mark_action_indeterminate_def release_action_claim_def
      complete_action_def finish_action_claim_def claim_action_def resolve_indeterminate_action_def
      save_completed_def clear_completed_def Let_def split: option.splits claim_status.splits)

lemma clear_completed_events [simp]: "db_events (clear_completed key fp db) = db_events db"
  by (simp add: clear_completed_def split: option.split)

lemma prefix_steps: "steady (run_step en cx) (\<lambda>s. prefix es (db_events (rs_db s)))"
  unfolding steady_def
proof (intro allI impI)
  fix s s' assume p: "prefix es (db_events (rs_db s))" and "run_step en cx s s'"
  from this(2) show "prefix es (db_events (rs_db s'))"
  proof cases
    case (quiet a)
    from quiet(2) p show ?thesis
      by cases (auto simp: called_def simp del: apply_op.simps intro: prefix_order.trans [OF _ apply_op_prefix])
  qed (use p in \<open>simp add: called_def\<close>)
qed

subsection \<open>Why a connector is called\<close>

text \<open>What must have happened before a call, in terms of the calls made earlier in the run.\<close>

fun succeeded_before :: "connector_call list \<Rightarrow> run_context \<Rightarrow> uuid \<Rightarrow> bool" where
  "succeeded_before earlier cx d =
     (\<exists>b \<in> set (cp_actions (cx_plan cx)). ac_action_id b = d
        \<and> (VerifyCall b \<in> set earlier \<or> ReconcileCall b \<in> set earlier))"

fun allowed :: "'w orchestrator \<Rightarrow> run_context \<Rightarrow> connector_call list \<Rightarrow> connector_call \<Rightarrow> bool" where
  "allowed en cx earlier (ExecuteCall a) =
     (a \<in> set (cp_actions (cx_plan cx)) \<and> cleared en cx a \<and> ExecuteCall a \<notin> set earlier
      \<and> (\<forall>d \<in> set (ac_dependencies a). succeeded_before earlier cx d))"
| "allowed en cx earlier (VerifyCall a) = (ExecuteCall a \<in> set earlier)"
| "allowed en cx earlier (CompensateCall a) =
     (ExecuteCall a \<in> set earlier \<and> ac_risk a = REVERSIBLE_WRITE \<and> cp_compensate_on_failure (cx_plan cx))"
| "allowed en cx earlier (VerifyCompensationCall a) =
     (ExecuteCall a \<in> set earlier \<and> ac_risk a = REVERSIBLE_WRITE \<and> cp_compensate_on_failure (cx_plan cx))"
| "allowed en cx earlier (GuardCall a) = cleared en cx a"
| "allowed en cx earlier (ReconcileCall a) = cleared en cx a"
| "allowed en cx earlier (RecordCall a) = cleared en cx a"

definition justified :: "'w orchestrator \<Rightarrow> run_context \<Rightarrow> connector_call list \<Rightarrow> bool" where
  "justified en cx calls = (\<forall>earlier c later. calls = earlier @ c # later \<longrightarrow> allowed en cx earlier c)"

lemma justified_Nil [simp]: "justified en cx []"
  by (simp add: justified_def)

lemma justified_snoc: "justified en cx calls \<Longrightarrow> allowed en cx calls c \<Longrightarrow> justified en cx (calls @ [c])"
  unfolding justified_def by (metis append_butlast_last_id butlast.simps(2) butlast_append butlast_snoc last_ConsL last_append last_snoc list.distinct(1))

text \<open>A reported success is backed by the call that established it.\<close>

definition attested :: "connector_call list \<Rightarrow> run_context \<Rightarrow> action_state \<Rightarrow> uuid \<Rightarrow> bool" where
  "attested calls cx st i =
     (\<exists>b \<in> set (cp_actions (cx_plan cx)). ac_action_id b = i
        \<and> (st = VERIFIED \<longrightarrow> VerifyCall b \<in> set calls) \<and> (st = REUSED \<longrightarrow> ReconcileCall b \<in> set calls))"

lemma attested_more: "attested cs cx st i \<Longrightarrow> attested (cs @ ds) cx st i"
  by (auto simp: attested_def)

lemma attested_backed: "backed a st s \<Longrightarrow> a \<in> set (cp_actions (cx_plan cx)) \<Longrightarrow> attested (rs_confirmed s) cx st (ac_action_id a)"
  by (auto simp: attested_def backed_def)

lemma attested_success:
  "attested cs cx VERIFIED i \<or> attested cs cx REUSED i \<Longrightarrow> set cs \<subseteq> set calls \<Longrightarrow> succeeded_before calls cx i"
  by (auto simp: attested_def)

definition accounted :: "'w orchestrator \<Rightarrow> run_context \<Rightarrow> 'w run_state \<Rightarrow> bool" where
  "accounted en cx s =
     (justified en cx (rs_calls s) \<and> set (rs_confirmed s) \<subseteq> set (rs_calls s)
      \<and> (\<forall>item \<in> set (rs_executed s). ExecuteCall (xa_action item) \<in> set (rs_calls s)
           \<and> ac_risk (xa_action item) = REVERSIBLE_WRITE \<and> xa_action item \<in> set (cp_actions (cx_plan cx)))
      \<and> (\<forall>i st. map_of (rs_states s) i = Some st \<longrightarrow> attested (rs_confirmed s) cx st i)
      \<and> (\<forall>r \<in> set (rs_reports s). attested (rs_confirmed s) cx (rp_state r) (rp_action_id r)))"

lemma accounted_call:
  "accounted en cx s \<Longrightarrow> allowed en cx (rs_calls s) c \<Longrightarrow> accounted en cx (called s w c)"
  unfolding accounted_def called_def by (auto intro: justified_snoc)

lemma accounted_quiet:
  assumes "accounted en cx s" and "quiet_step en cx a s s'" and "a \<in> set (cp_actions (cx_plan cx))"
  shows "accounted en cx s'"
  using assms(2)
proof cases
  case (report rep)
  then show ?thesis
    using assms(1) attested_backed [OF report(3) assms(3)] unfolding accounted_def by auto
next
  case (replace item rep)
  then have "attested (rs_confirmed s) cx (rp_state rep) (rp_action_id rep)"
    using assms(1) by (auto simp: accounted_def attested_def)
  then show ?thesis
    using assms(1) unfolding replace(1) accounted_def by (auto dest!: subsetD [OF set_update_subset_insert])
next
  case (contact c w)
  then show ?thesis using accounted_call [OF assms(1)] by auto
next
  case (confirm c)
  then show ?thesis using assms(1) unfolding accounted_def by (auto intro: attested_more)
next
  case (verify w)
  then show ?thesis using accounted_call [OF assms(1)] by simp
next
  case (remember k r)
  then show ?thesis using assms(1,3) by (auto simp: accounted_def)
next
  case (compensate item c w)
  then have "ExecuteCall (xa_action item) \<in> set (rs_calls s)" "ac_risk (xa_action item) = REVERSIBLE_WRITE"
    using assms(1) by (auto simp: accounted_def)
  then show ?thesis using compensate accounted_call [OF assms(1)] by (auto simp: compensating_def)
qed (use assms(1) in \<open>auto simp: accounted_def\<close>)

lemma accounted_steps: "steady (run_step en cx) (accounted en cx)"
  unfolding steady_def
proof (intro allI impI)
  fix s s' assume i: "accounted en cx s" and "run_step en cx s s'"
  from this(2) show "accounted en cx s'"
  proof cases
    case (quiet a)
    show ?thesis by (rule accounted_quiet [OF i quiet(2,1)])
  next
    case (execute a w)
    have "succeeded_before (rs_calls s) cx d" if "d \<in> set (ac_dependencies a)" for d
      using execute(5) i that unfolding accounted_def deps_done_def by (intro attested_success [where cs = "rs_confirmed s"]) blast+
    with execute have "allowed en cx (rs_calls s) (ExecuteCall a)" by (simp del: succeeded_before.simps)
    then show ?thesis using accounted_call [OF i] execute(1) by simp
  qed
qed

subsection \<open>Settled actions\<close>

definition settled :: "phase \<Rightarrow> bool" where
  "settled p = (p = Succeeded \<or> p = Uncertain)"

lemma settled_kept:
  assumes "settled (phase_of db key)" and "\<not> clears key a"
  shows "settled (phase_of (apply_op sha256 a db) key)"
  using apply_op_phase [of db key sha256 a] apply_op_absent [of sha256 a db key] assms
  by (auto simp: settled_def elim: phase_step.cases)

lemma claims_never_clear: "claims_of h b op \<Longrightarrow> \<not> clears key op"
  by (cases op) simp_all

text \<open>An action that may not run again: its key is settled, it was not executed in this run and is not among
  those that compensation would release.\<close>

definition barred :: "run_context \<Rightarrow> agent_action \<Rightarrow> 'w run_state \<Rightarrow> bool" where
  "barred cx a s =
     (settled (phase_of (rs_db s) (ac_idempotency_key a)) \<and> ExecuteCall a \<notin> set (rs_calls s)
      \<and> (\<forall>item \<in> set (rs_executed s). ExecuteCall (xa_action item) \<in> set (rs_calls s)
           \<and> xa_action item \<in> set (cp_actions (cx_plan cx))))"

lemma clear_other: "key' \<noteq> key \<Longrightarrow> phase_of (clear_completed key' fp db) key = phase_of db key"
  by (rule phase_of_cong) (simp add: clear_completed_def split: option.split)

lemma barred_quiet:
  assumes wf: "plan_wf (cx_plan cx)" and a: "a \<in> set (cp_actions (cx_plan cx))" and b: "b \<in> set (cp_actions (cx_plan cx))"
    and i: "barred cx a s" and step: "quiet_step en cx b s s'"
  shows "barred cx a s'"
  using step
proof cases
  case (clear item)
  then have "xa_action item \<in> set (cp_actions (cx_plan cx))" "xa_action item \<noteq> a" using i by (auto simp: barred_def)
  then have "ac_idempotency_key (xa_action item) \<noteq> ac_idempotency_key a" using same_action [OF wf] a by blast
  then show ?thesis using i clear by (simp add: barred_def clear_other)
next
  case (claim op)
  then show ?thesis using i settled_kept claims_never_clear by (auto simp: barred_def simp del: apply_op.simps)
qed (use i b in \<open>auto simp: barred_def called_def\<close>)

lemma barred_steps:
  assumes wf: "plan_wf (cx_plan cx)" and a: "a \<in> set (cp_actions (cx_plan cx))" and u: "uses_idempotency a"
  shows "steady (run_step en cx) (barred cx a)"
  unfolding steady_def
proof (intro allI impI)
  fix s s' assume i: "barred cx a s" and "run_step en cx s s'"
  from this(2) show "barred cx a s'"
  proof cases
    case (quiet b)
    show ?thesis by (rule barred_quiet [OF wf a quiet(1) i quiet(2)])
  next
    case (execute b w)
    have "b \<noteq> a" using execute(6) i u by (auto simp: reserved_def barred_def settled_def)
    then show ?thesis using execute i by (auto simp: barred_def called_def)
  qed
qed

subsection \<open>Every action is reported\<close>

text \<open>The index kept with an executed action is that of its own report, or of the next report while the
  action is processed. So replacing a report during compensation does not lose another one.\<close>

definition indexed :: "agent_action \<Rightarrow> 'w run_state \<Rightarrow> bool" where
  "indexed a s =
     (\<forall>item \<in> set (rs_executed s).
        (if xa_report_index item = length (rs_reports s) then xa_action item = a
         else xa_report_index item < length (rs_reports s)
           \<and> rp_action_id (rs_reports s ! xa_report_index item) = ac_action_id (xa_action item)))"

definition covering :: "uuid set \<Rightarrow> agent_action \<Rightarrow> 'w run_state \<Rightarrow> bool" where
  "covering D a s = (indexed a s \<and> D \<subseteq> rp_action_id ` set (rs_reports s))"

definition covered :: "uuid set \<Rightarrow> agent_action \<Rightarrow> 'w run_state \<Rightarrow> bool" where
  "covered D a s = (covering (insert (ac_action_id a) D) a s
     \<and> (\<forall>item \<in> set (rs_executed s). xa_report_index item \<noteq> length (rs_reports s)))"

lemma covered_covering: "covered D a s \<Longrightarrow> covering D a s"
  by (simp add: covered_def covering_def)

lemma replaced_ids:
  "i < length rs \<Longrightarrow> rp_action_id (rs ! i) = rp_action_id r \<Longrightarrow> rp_action_id ` set (rs[i := r]) = rp_action_id ` set rs"
  by (metis list_update_id map_update set_map)

lemma covering_replace:
  assumes "covering D a s" and "item \<in> set (rs_executed s)" and "rp_action_id rep = ac_action_id (xa_action item)"
  shows "covering D a (s\<lparr>rs_reports := (rs_reports s)[xa_report_index item := rep]\<rparr>)"
proof (cases "xa_report_index item = length (rs_reports s)")
  case False
  with assms have i: "xa_report_index item < length (rs_reports s)"
    "rp_action_id (rs_reports s ! xa_report_index item) = rp_action_id rep"
    by (auto simp: covering_def indexed_def)
  then show ?thesis
    using assms(1) replaced_ids [OF i] unfolding covering_def indexed_def by (auto simp: nth_list_update)
next
  case True
  then have "(rs_reports s)[xa_report_index item := rep] = rs_reports s" by (simp add: list_update_beyond)
  then show ?thesis using assms(1) by (simp add: covering_def indexed_def)
qed

lemma covering_report:
  assumes "covering D a s" and "rp_action_id rep = ac_action_id a"
  shows "covered D a (s\<lparr>rs_reports := rs_reports s @ [rep], rs_states := st\<rparr>)"
  using assms unfolding covered_def covering_def indexed_def by (auto simp: nth_append split: if_splits) 

lemma steady_covering: "steady (quiet_step en cx a) (covering D a)"
  unfolding steady_def
proof (intro allI impI)
  fix s s' assume c: "covering D a s" and "quiet_step en cx a s s'"
  from this(2) show "covering D a s'"
  proof cases
    case (report rep)
    then show ?thesis using covering_report [OF c] covered_covering by blast
  next
    case (replace item rep)
    then show ?thesis using covering_replace [OF c] by simp
  qed (use c in \<open>auto simp: covering_def indexed_def called_def\<close>)
qed

text \<open>Once the action has its report, the rest of its processing does not execute anything more.\<close>

lemma steady_covered: "steady (quiet_step en cx (a\<lparr>ac_risk := READ_ONLY\<rparr>)) (covered D a)"
  unfolding steady_def
proof (intro allI impI)
  fix s s' assume c: "covered D a s" and "quiet_step en cx (a\<lparr>ac_risk := READ_ONLY\<rparr>) s s'"
  from this(2) show "covered D a s'"
  proof cases
    case (report rep)
    then show ?thesis using covering_report [OF covered_covering [OF c], of rep] by simp
  next
    case (replace item rep)
    then show ?thesis using covering_replace [of _ a s item rep] c by (simp add: covered_def)
  qed (use c in \<open>auto simp: covered_def covering_def indexed_def called_def\<close>)
qed

lemma reported_covers:
  assumes "rp_action_id rep = ac_action_id a"
  shows "triple (covering D a) (eseq (add_report a rep) (eseq (record_action en cx a rep foreign extra)
      (if failure then maybe_compensate en cx else eret ()))) (\<lambda>_. covered D a) (\<lambda>_. covering D a)"
proof (rule triple_eseq)
  show "triple (covering D a) (add_report a rep) (\<lambda>_. covered D a) (\<lambda>_. covering D a)"
    unfolding add_report_def by (rule triple_emod) (rule covering_report [OF _ assms])
  have "keeps (covered D a) (eseq (record_action en cx a rep foreign extra) (if failure then maybe_compensate en cx else eret ()))"
    by (intro keep_rules keeps_record_action [OF steady_covered] keeps_maybe_compensate [OF steady_covered])
  then show "triple (covered D a) (eseq (record_action en cx a rep foreign extra)
      (if failure then maybe_compensate en cx else eret ())) (\<lambda>_. covered D a) (\<lambda>_. covering D a)"
    unfolding keeps_def by (rule triple_weaken) (auto intro: covered_covering)
qed

lemma conclude_covers: "triple (covering D a) (conclude en cx a st m extra failure) (\<lambda>_. covered D a) (\<lambda>_. covering D a)"
  unfolding conclude_def by (rule reported_covers) simp

lemma finish_action_covers:
  "rp_action_id rep = ac_action_id a \<Longrightarrow> triple (covering D a) (finish_action en cx a rep) (\<lambda>_. covered D a) (\<lambda>_. covering D a)"
  unfolding finish_action_def Let_def by (intro triple_after keep_rules reported_covers) auto

definition stage :: "uuid set \<Rightarrow> agent_action \<Rightarrow> 'b option \<Rightarrow> 'w run_state \<Rightarrow> bool" where
  "stage D a r = (case r of None \<Rightarrow> covered D a | Some _ \<Rightarrow> covering D a)"

lemma stops_covers:
  "triple (covering D a) m (\<lambda>_. covered D a) (\<lambda>_. covering D a) \<Longrightarrow>
   triple (covering D a) (eseq m (eret None)) (stage D a) (\<lambda>_. covering D a)"
  by (erule triple_eseq) (auto simp: stage_def)

lemma reuse_completed_covers:
  fixes en :: "'w orchestrator"
  assumes "cleared en cx a"
  shows "triple (covering D a) (reuse_completed en cx a k prior) (\<lambda>_. covered D a) (\<lambda>_. covering D a)"
proof -
  have "keeps (covering D a) (eattempt (ask (ReconcileCall a) m))" for m :: "('w, verification_result) eff"
    by (rule keeps_eattempt, rule contact_ask [OF steady_covering assms])
  then show ?thesis
    unfolding reuse_completed_def
    by (cases "k_verify_completed k") (auto intro!: triple_after conclude_covers split: sum.splits)
qed

lemma reconcile_covers:
  assumes "cleared en cx a"
  shows "triple (covering D a) (reconcile en cx a k outcome) (stage D a) (\<lambda>_. covering D a)"
proof -
  have "triple (covering D a) (reconcile_with en cx a verify o1 prior) (stage D a) (\<lambda>_. covering D a)" for verify o1 prior
    unfolding reconcile_with_def
  proof (rule triple_after)
    show "keeps (covering D a) (ask (ReconcileCall a) verify)"
      by (rule contact_ask [OF steady_covering assms])
    have "keeps (covering D a) (audit_op en (\<lambda>t. resolve_indeterminate_action (ac_idempotency_key a)
         (effect_fingerprint (or_host en) a) (JObj o1) (JObj prior) (or_timestamp en t)))"
      by (rule keeps_claim_op [OF steady_covering assms], rule exI [where x = "OpResolve _ _ _ _ _"]) auto
    then show "triple (covering D a) (if vr_verified v
     then eseq (audit_op en (\<lambda>t. resolve_indeterminate_action (ac_idempotency_key a)
               (effect_fingerprint (or_host en) a) (JObj o1) (JObj prior) (or_timestamp en t)))
       (eseq (conclude en cx a REUSED
               ''durable indeterminate outcome was independently reconciled against provider state''
               [(''prior_result'', JObj prior)] False)
         (eret None))
     else eret (Some (Some (vr_message v)))) (stage D a) (\<lambda>_. covering D a)" for v
      by (auto intro!: triple_then stops_covers conclude_covers triple_eret simp: stage_def)
  qed auto
  then show ?thesis
    unfolding reconcile_def
    by (auto intro!: triple_ecatch [where R = "\<lambda>_. covering D a"] triple_eret triple_eraise simp: stage_def split: option.splits)
qed

lemma reconcile_indeterminate_covers:
  assumes "cleared en cx a"
  shows "triple (covering D a) (reconcile_indeterminate en cx a k outcome) (\<lambda>_. covered D a) (\<lambda>_. covering D a)"
  unfolding reconcile_indeterminate_def
  by (rule triple_ebind [OF reconcile_covers [OF assms]])
     (auto simp: stage_def intro!: conclude_covers split: option.splits)

lemma dispatch_covers:
  assumes "cleared en cx a"
  shows "triple (covering D a) (guarded_dispatch en cx a k) (stage D a) (\<lambda>_. covering D a)"
proof -
  have "triple (covering D a) (dispatch en cx a k) (\<lambda>_. covering D a) (\<lambda>_. covering D a)"
    using dispatch_sound [OF steady_covering assms, of "covering D a" D k]
    by (rule triple_weaken) (auto simp: covering_def indexed_def called_def)
  then have "triple (covering D a) (ebind (dispatch en cx a k) (\<lambda>report. eret (Some report))) (stage D a) (\<lambda>_. covering D a)"
    by (rule triple_ebind) (auto simp: stage_def)
  then show ?thesis
    unfolding guarded_dispatch_def
    by (intro triple_then keep_rules contact_call [OF steady_covering assms]) auto
qed

lemma claim_and_dispatch_covers:
  assumes "cleared en cx a"
  shows "triple (covering D a) (claim_and_dispatch en cx a k) (stage D a) (\<lambda>_. covering D a)"
proof -
  have "triple (covering D a) (audit_op en (take_claim en cx a)) (\<lambda>_. covering D a) (\<lambda>_. covering D a)"
    using take_claim_triple [OF steady_covering assms] by (rule triple_weaken) auto
  moreover have "triple (covering D a) (eseq (emod (\<lambda>s. s\<lparr>rs_claim_token := Some token\<rparr>)) (guarded_dispatch en cx a k))
      (stage D a) (\<lambda>_. covering D a)" for token
    by (rule triple_then [OF keeps_locals(3) [OF steady_covering] dispatch_covers [OF assms]])
  ultimately show ?thesis
    unfolding claim_and_dispatch_def
    by (intro triple_ebind [where R = "\<lambda>_. covering D a"])
       (auto intro!: stops_covers reuse_completed_covers reconcile_indeterminate_covers conclude_covers assms
          split: claim_state.splits option.splits)
qed

lemma attempt_action_covers:
  assumes "cleared en cx a"
  shows "triple (covering D a) (attempt_action en cx a) (stage D a) (\<lambda>_. covering D a)"
proof -
  have stop: "triple (covering D a) (eseq (conclude en cx a action_state.PROHIBITED m [] True) (eret None)) (stage D a) (\<lambda>_. covering D a)" for m
    by (rule stops_covers [OF conclude_covers])
  have go: "triple (covering D a) (if uses_idempotency a then claim_and_dispatch en cx a k else guarded_dispatch en cx a k)
      (stage D a) (\<lambda>_. covering D a)" for k
    using claim_and_dispatch_covers [OF assms] dispatch_covers [OF assms] by simp
  have bound: "triple (covering D a) (case provider_data_egress_binding en p a k of
           Inl e \<Rightarrow>
             if caught_by [ConfigurationError] e
             then eseq (conclude en cx a action_state.PROHIBITED (exn_text e) [] True) (eret None)
             else eraise e
         | Inr egress \<Rightarrow>
             eseq (emod (\<lambda>s. s\<lparr>rs_egress := egress\<rparr>))
             (eseq (authorize_egress en cx a egress)
             (ebind (eget rs_world) (\<lambda>w'.
              eseq (elift (checked [connector_http_action_budget k w'] ()))
                (if uses_idempotency a then claim_and_dispatch en cx a k
                 else guarded_dispatch en cx a k))))) (stage D a) (\<lambda>_. covering D a)" for p k
  proof (cases "provider_data_egress_binding en p a k")
    case (Inl e)
    then show ?thesis using stop by (auto intro!: triple_eraise)
  next
    case (Inr egress)
    show ?thesis unfolding Inr sum.case
      by (intro triple_then triple_after keeps_locals [OF steady_covering] keeps_authorize_egress [OF steady_covering]
          keep_rules go) simp_all
  qed
  show ?thesis
    unfolding attempt_action_def Let_def
    by (intro triple_after triple_then keeps_locals [OF steady_covering] keep_rules triple_prod triple_if bound stop) auto
qed

lemma execute_action_covers:
  assumes "cleared en cx a"
  shows "triple (covering D a) (execute_action en cx a) (\<lambda>_. covered D a) (\<lambda>_. covering D a)"
proof -
  have "triple (covering D a) (handle_error en a e) (\<lambda>r s. stage D a r s \<and> sound_option a r s) (\<lambda>_. covering D a)" for e
  proof -
    have "r \<noteq> None" if "handle_error en a e s = (Inr r, s')" for r s s'
      using that by (auto simp: handle_error_def ebind_def eret_def split: prod.splits sum.splits)
    then show ?thesis
      using handle_error_sound [OF steady_covering assms, of D e] unfolding triple_def stage_def
      by (fastforce split: prod.splits sum.splits option.splits)
  qed
  moreover have "triple (covering D a) (attempt_action en cx a) (\<lambda>r s. stage D a r s \<and> sound_option a r s) (\<lambda>_. covering D a)"
  proof -
    have "triple (covering D a) (attempt_action en cx a) (\<lambda>r s. covering D a s \<and> sound_option a r s) (\<lambda>_. covering D a)"
      by (rule attempt_action_sound [OF steady_covering steady_covering assms])
         (auto simp: covering_def indexed_def called_def)
    then show ?thesis using attempt_action_covers [OF assms, of D] unfolding triple_def
      by (fastforce split: prod.splits sum.splits)
  qed
  ultimately have attempt: "triple (covering D a) (ecatch (attempt_action en cx a) (handle_error en a))
      (\<lambda>r s. stage D a r s \<and> sound_option a r s) (\<lambda>_. covering D a)"
    by (intro triple_ecatch [where R = "\<lambda>_. covering D a"])
  have "triple (\<lambda>s. stage D a r s \<and> sound_option a r s) (case r of None \<Rightarrow> eret () | Some report \<Rightarrow> finish_action en cx a report)
      (\<lambda>_. covered D a) (\<lambda>_. covering D a)" for r
  proof (cases r)
    case (Some rep)
    have "triple (covering D a) (finish_action en cx a rep) (\<lambda>_. covered D a) (\<lambda>_. covering D a)"
      if "rp_action_id rep = ac_action_id a" by (rule finish_action_covers [OF that])
    then show ?thesis unfolding Some by (auto simp: stage_def sound_option_def sound_report_def triple_def)
  qed (auto simp: stage_def)
  then show ?thesis
    unfolding execute_action_def by (intro triple_then keeps_locals [OF steady_covering] triple_ebind [OF attempt])
qed

lemma process_action_covers:
  "triple (covering D a) (process_action en cx a) (\<lambda>_. covered D a) (\<lambda>_ _. True)"
proof -
  let ?T = "\<lambda>m. triple (covering D a) m (\<lambda>_. covered D a) (\<lambda>_ _. True)"
  have stop: "?T (conclude en cx a st m extra failure)" for st m extra failure
    using conclude_covers by (rule triple_weaken) auto
  have ex: "?T (execute_action en cx a)" if "cleared en cx a"
    using execute_action_covers [OF that] by (rule triple_weaken) auto
  have clock: "keeps (covering D a) (read_clock en)" by (rule keeps_read_clock [OF steady_covering])
  have decide: "?T (decide_action en cx a)"
    if "\<exists>m. validate_capability en a = Inr (True, m)" "\<not> cx_coherence_required cx"
      "\<exists>m. validate_sources (or_host en) (or_sources en) (cx_plan cx) a = Inr (True, m)"
  proof (cases "orchestrator_approvers en a")
    case (Inr n)
    have "?T (ebind (elift (evaluate (or_host en) (or_policy en) (cx_plan cx) a (cx_approvals cx) now n)) (act_on_decision en cx a))" for now
    proof (cases "evaluate (or_host en) (or_policy en) (cx_plan cx) a (cx_approvals cx) now n")
      case (Inr d)
      have "cleared en cx a" if "pd_permitted d" "\<not> cx_dry_run cx"
        unfolding cleared_def using that \<open>orchestrator_approvers en a = Inr n\<close> Inr
          \<open>\<exists>m. validate_capability en a = Inr (True, m)\<close> \<open>\<not> cx_coherence_required cx\<close>
          \<open>\<exists>m. validate_sources (or_host en) (or_sources en) (cx_plan cx) a = Inr (True, m)\<close> by blast
      then show ?thesis unfolding Inr elift_Inr act_on_decision_def using stop ex by simp
    qed (simp add: elift_Inl triple_eraise)
    then show ?thesis unfolding decide_action_def Inr elift_Inr by (intro triple_after [OF clock]) simp_all
  qed (simp add: decide_action_def elift_Inl triple_eraise)
  have sources: "?T (ebind (elift (validate_sources (or_host en) (or_sources en) (cx_plan cx) a)) f)"
    if "\<And>ok m. validate_sources (or_host en) (or_sources en) (cx_plan cx) a = Inr (ok, m) \<Longrightarrow> ?T (f (ok, m))" for f
    using that by (cases "validate_sources (or_host en) (or_sources en) (cx_plan cx) a") (auto simp: elift_Inl elift_Inr intro!: triple_eraise)
  have admit: "?T (admit_action en cx a)"
    if "\<exists>m. validate_capability en a = Inr (True, m)" "\<not> cx_coherence_required cx"
    unfolding admit_action_def
    by (intro triple_after keep_rules triple_if stop sources) (use stop decide [OF that] in auto)
  have hold: "?T (hold_for_review en cx a)"
    unfolding hold_for_review_def by (rule sources) (use stop in simp)
  have "?T (ebind (elift (validate_capability en a)) (\<lambda>(catalog_ok, catalog_reason).
       if \<not> catalog_ok then conclude en cx a action_state.PROHIBITED catalog_reason [] True
       else if cx_coherence_required cx then hold_for_review en cx a
       else admit_action en cx a))"
    by (cases "validate_capability en a") (use stop hold admit in \<open>auto simp: elift_Inl elift_Inr intro!: triple_eraise\<close>)
  then show ?thesis
    unfolding process_action_def
    by (rule triple_after [OF keeps_eget triple_if [OF stop]]) simp
qed

lemma covered_next: "covered D a s \<Longrightarrow> covering (insert (ac_action_id a) D) b s"
  by (auto simp: covered_def covering_def indexed_def)

definition reported :: "uuid set \<Rightarrow> 'w run_state \<Rightarrow> bool" where
  "reported D s = (\<forall>b. covering D b s)"

lemma loop_covers:
  "triple (reported D) (eforeach (process_action en cx) xs) (\<lambda>_. reported (ac_action_id ` set xs \<union> D)) (\<lambda>_ _. True)"
proof (induction xs arbitrary: D)
  case (Cons a xs)
  have "triple (reported D) (process_action en cx a) (\<lambda>_. reported (insert (ac_action_id a) D)) (\<lambda>_ _. True)"
    using process_action_covers [of D a en cx]
    by (rule triple_weaken) (auto simp: reported_def intro: covered_next)
  moreover have "triple (reported (insert (ac_action_id a) D)) (eforeach (process_action en cx) xs)
      (\<lambda>_. reported (ac_action_id ` set (a # xs) \<union> D)) (\<lambda>_ _. True)"
    using Cons [of "insert (ac_action_id a) D"] by simp
  ultimately show ?case unfolding eforeach.simps by (rule triple_eseq)
qed auto

lemma reported_start: "rs_executed s = [] \<Longrightarrow> reported {} s"
  by (simp add: reported_def covering_def indexed_def)

lemma keeps_reported_event: "keeps (reported D) (emit_event en cx act ty payload)"
  by (intro keepsI) (auto simp: reported_def intro: keepsD [OF keeps_emit_event [OF steady_covering]])

lemma reports_event: "keeps (\<lambda>s. rs_reports s = rs) (emit_event en cx act ty payload)"
  unfolding emit_event_def
  by (intro keep_rules keepsI) (simp add: audit_op_def Let_def split: option.splits prod.splits)

text \<open>The end of a run: the returned report is made of the reports of the state.\<close>

lemma run_body_covers:
  assumes "\<And>reports v. rn_actions (final reports v) = reports"
  shows "triple (\<lambda>s. rs_executed s = [])
      (eseq (emit_event en cx None ty payload)
      (eseq (eforeach (process_action en cx) ordered)
      (ebind (eget rs_reports) (\<lambda>reports. ebind (elift (review reports)) (\<lambda>v.
       eseq (emit_event en cx None ty' (payload' reports v)) (eret (final reports v)))))))
      (\<lambda>report s. reported (ac_action_id ` set ordered) s \<and> rn_actions report = rs_reports s) (\<lambda>_ _. True)"
proof -
  let ?R = "reported (ac_action_id ` set ordered)"
  have first: "triple (\<lambda>s. rs_executed s = []) (emit_event en cx None ty payload) (\<lambda>_. reported {}) (\<lambda>_ _. True)"
    using keeps_reported_event [of "{}"] unfolding keeps_def by (rule triple_weaken) (auto intro: reported_start)
  have loop: "triple (reported {}) (eforeach (process_action en cx) ordered) (\<lambda>_. ?R) (\<lambda>_ _. True)"
    using loop_covers [of "{}" en cx ordered] by simp
  have tail: "triple (\<lambda>s. ?R s \<and> rs_reports s = rs) (eseq (emit_event en cx None ty' (payload' rs v)) (eret (final rs v)))
      (\<lambda>report s. ?R s \<and> rn_actions report = rs_reports s) (\<lambda>_ _. True)" for rs v
    by (rule triple_then [OF keeps_conj [OF keeps_reported_event reports_event]]) (auto simp: assms)
  have last: "triple ?R (ebind (eget rs_reports) (\<lambda>reports. ebind (elift (review reports)) (\<lambda>v.
       eseq (emit_event en cx None ty' (payload' reports v)) (eret (final reports v)))))
      (\<lambda>report s. ?R s \<and> rn_actions report = rs_reports s) (\<lambda>_ _. True)"
    by (rule triple_ebind [where R = "\<lambda>rs s. ?R s \<and> rs_reports s = rs"], blast,
        rule triple_after [OF keeps_elift tail]) simp
  show ?thesis by (rule triple_eseq [OF first triple_eseq [OF loop last]])
qed

lemma run_internal_covers:
  assumes "rs_executed s0 = []" and "run_internal en run_id plan approvals dry_run s0 = (Inr report, s)"
  shows "rn_actions report = rs_reports s \<and> (\<exists>p. execution_snapshot (or_host en) plan = Inr p
    \<and> ac_action_id ` set (cp_actions p) \<subseteq> rp_action_id ` set (rs_reports s))"
proof -
  obtain v s1 where "admit_plan en plan approvals dry_run s0 = (Inr v, s1)"
    using assms(2) unfolding run_internal_def Let_def by (elim ebind_InrE)
  then obtain p assessment decision required where
    a: "admit_plan en plan approvals dry_run s0 = (Inr (p, assessment, decision, required), s1)" by (cases v) auto
  let ?cx = "\<lparr>cx_run_id = run_id, cx_plan = p, cx_approvals = approvals, cx_dry_run = dry_run, cx_coherence_required = required\<rparr>"
  have ad: "untouched s0 s1 \<and> (\<forall>run_id. admitted en plan approvals dry_run (?cx\<lparr>cx_run_id := run_id\<rparr>))"
    using tripleD(1) [OF admit_plan_admits _ a, of s0] by auto
  then have snap: "execution_snapshot (or_host en) plan = Inr p" and ex: "rs_executed s1 = []"
    using assms(1) by (auto simp: admitted_def untouched_def)
  obtain ordered where o: "topological_order (cp_actions p) = Inr ordered" "set ordered = set (cp_actions p)"
    using topological_order_wf [OF execution_snapshot_wf [OF snap]] by metis
  let ?body = "\<lambda>payload. eseq (emit_event en ?cx None ''plan_started'' payload)
      (eseq (eforeach (process_action en ?cx) ordered)
      (ebind (eget rs_reports) (\<lambda>reports.
       ebind (elift (build_systems_post_execution_review (or_host en) assessment decision (map rp_state reports) dry_run
                       (or_observer en))) (\<lambda>review.
       eseq (emit_event en ?cx None ''plan_finished'' (finished_payload reports review))
         (eret \<lparr>rn_run_id = run_id, rn_plan_id = cp_plan_id p, rn_plan_fingerprint = plan_fingerprint (or_host en) p,
                rn_dry_run = dry_run, rn_actions = reports, rn_systems_review = Some review,
                rn_performance = None\<rparr>)))))"
  have "run_internal en run_id plan approvals dry_run s0
      = ebind (elift (started_payload (or_host en) p dry_run assessment decision)) ?body s1"
    unfolding run_internal_def Let_def ebind_apply [where m = "admit_plan en plan approvals dry_run", OF a] prod.case o(1) elift_Inr ..
  then have "ebind (elift (started_payload (or_host en) p dry_run assessment decision)) ?body s1 = (Inr report, s)"
    unfolding assms(2) by (rule sym)
  then obtain payload where "?body payload s1 = (Inr report, s)"
    by (rule ebind_InrE) (simp only: elift_apply prod.inject)
  then have "reported (ac_action_id ` set ordered) s \<and> rn_actions report = rs_reports s"
    by (rule tripleD(1) [OF run_body_covers, rotated 2]) (simp_all add: ex)
  then show ?thesis using snap o(2) by (auto simp: reported_def covering_def)
qed

subsection \<open>The state after a run\<close>

lemma initial_state_simps [simp]:
  "rs_world (initial_state w db) = w" "rs_db (initial_state w db) = db" "rs_calls (initial_state w db) = []"
  "rs_confirmed (initial_state w db) = []"
  "rs_reports (initial_state w db) = []" "rs_states (initial_state w db) = []" "rs_executed (initial_state w db) = []"
  by (simp_all add: initial_state_def)

lemma untouched_simps:
  assumes "untouched s0 s"
  shows "rs_world s = rs_world s0" "rs_db s = rs_db s0" "rs_calls s = rs_calls s0" "rs_reports s = rs_reports s0"
    "rs_states s = rs_states s0" "rs_executed s = rs_executed s0"
  using assms by (auto simp: untouched_def)

lemma verified_executed:
  "justified en cx calls \<Longrightarrow> VerifyCall b \<in> set calls \<Longrightarrow> ExecuteCall b \<in> set calls"
proof -
  assume j: "justified en cx calls" and "VerifyCall b \<in> set calls"
  from this(2) obtain ys zs where c: "calls = ys @ VerifyCall b # zs" by (blast dest: split_list)
  with j have "allowed en cx ys (VerifyCall b)" unfolding justified_def by blast
  with c show ?thesis by simp
qed

lemma run_accounted:
  assumes "run_internal en run_id plan approvals dry_run (initial_state w db) = (r, s)"
  shows "rs_calls s = [] \<and> rs_reports s = [] \<or> (\<exists>cx. admitted en plan approvals dry_run cx \<and> accounted en cx s)"
proof -
  have "ran en plan approvals dry_run (initial_state w db) s" using run_internal_ran [OF _ assms] by simp
  then show ?thesis
    unfolding ran_def
  proof (elim disjE exE conjE)
    fix cx assume cx: "admitted en plan approvals dry_run cx" "(run_step en cx)\<^sup>*\<^sup>* (initial_state w db) s"
    have "accounted en cx (initial_state w db)" by (simp add: accounted_def)
    with cx show ?thesis using steady_star [OF accounted_steps] by blast
  qed (simp add: untouched_simps)
qed

end
