(* ===== verification/Compensation.thy ===== *)
theory Compensation
  imports Orchestrator
begin

text \<open>
  Plans that undo or correct the effects of an earlier run (compensation.py): the plan of reverse operations
  made from the compensation descriptors of a run report, and correction messages. Fresh identifiers are the
  argument \<open>fresh\<close>, the n-th call of \<open>uuid4\<close> for an action, and \<open>plan_id\<close>; \<open>now\<close> is the time of creation.
\<close>

subsection \<open>The reverse operations\<close>

definition source_action :: "change_plan \<Rightarrow> uuid \<Rightarrow> agent_action option" where
  "source_action p = map_of (map (\<lambda>a. (ac_action_id a, a)) (rev (cp_actions p)))"

definition or_else :: "string option \<Rightarrow> string \<Rightarrow> string" where
  "or_else v d = (case v of None \<Rightarrow> d | Some s \<Rightarrow> if s = [] then d else s)"

definition reverse_action ::
  "host \<Rightarrow> change_plan \<Rightarrow> agent_action \<Rightarrow> compensation_descriptor \<Rightarrow> uuid option \<Rightarrow> uuid \<Rightarrow> exn + agent_action"
where
  "reverse_action h p source d previous aid =
     (let capability = or_else (cd_capability d) [] in
      sbind (mk_resource
        \<lparr>rr_system = rr_system (ac_target source), rr_resource_type = rr_resource_type (ac_target source),
         rr_resource_id = or_else (cd_target_resource_id d) (rr_resource_id (ac_target source)),
         rr_expected_version = cd_expected_version d\<rparr>) (\<lambda>target.
      mk_action
        \<lparr>ac_capability = capability, ac_target = target, ac_parameters = cd_parameters d,
         ac_risk = REVERSIBLE_WRITE, ac_authority_source = DIRECT_USER, ac_requires_approval = True,
         ac_idempotency_key = ''compensate:'' @ plan_fingerprint h p @ '':'' @ ac_action_id source @ '':'' @ capability,
         ac_justification = ''Compensate approved action '' @ ac_action_id source @ '' from plan '' @ cp_plan_id p @ ''.'',
         ac_data_classification = INTERNAL,
         ac_dependencies = (case previous of None \<Rightarrow> [] | Some i \<Rightarrow> [i]), ac_action_id = aid\<rparr>))"

text \<open>The loop over the reports, last first: the actions made and the effects that cannot be undone by a plan.\<close>

fun reverse_actions ::
  "host \<Rightarrow> change_plan \<Rightarrow> (nat \<Rightarrow> uuid) \<Rightarrow> nat \<Rightarrow> uuid option \<Rightarrow> action_report list
     \<Rightarrow> exn + agent_action list \<times> string list"
where
  "reverse_actions h p fresh n previous [] = Inr ([], [])"
| "reverse_actions h p fresh n previous (item # items) =
     (let unavailable = (\<lambda>why. sbind (reverse_actions h p fresh n previous items) (\<lambda>(as, us).
                           Inr (as, (rp_action_id item @ '': '' @ why) # us))) in
      case rp_result item of
        None \<Rightarrow> reverse_actions h p fresh n previous items
      | Some r \<Rightarrow>
          (case source_action p (rp_action_id item) of
             None \<Rightarrow> unavailable ''original action is unavailable''
           | Some source \<Rightarrow>
               if ac_risk source \<noteq> REVERSIBLE_WRITE then reverse_actions h p fresh n previous items
               else
                 (case er_compensation r of
                    None \<Rightarrow> unavailable ''compensation descriptor is missing''
                  | Some d \<Rightarrow>
                      if cd_mode d \<noteq> PLAN then unavailable (or_else (cd_reason d) (mode_str (cd_mode d)))
                      else
                        sbind (reverse_action h p source d previous (fresh n)) (\<lambda>a.
                        sbind (reverse_actions h p fresh (n + 1) (Some (ac_action_id a)) items) (\<lambda>(as, us).
                          Inr (a # as, us))))))"

subsection \<open>Governance of a correction\<close>

definition correction_intent :: "string \<Rightarrow> nat \<Rightarrow> agent_action \<Rightarrow> exn + strategy_action_intent" where
  "correction_intent metric i a =
     mk_intent \<lparr>si_intent_id = ''correct_effect_'' @ nat_digits i, si_description = ac_justification a,
       si_expected_effect = metric, si_schema = intent_schema\<rparr>"

definition correction_assessment ::
  "change_plan \<Rightarrow> string \<Rightarrow> string \<Rightarrow> string \<Rightarrow> string \<Rightarrow> exn + systems_assessment"
where
  "correction_assessment p behavior intervention metric failure =
     sbind (smap (\<lambda>(i, a). correction_intent metric i a) (enumerate 1 (cp_actions p))) (\<lambda>intents.
     sbind (mk_kernel
       \<lparr>sk_diagnosis = behavior,
        sk_guiding_policy = ''Use one explicit, approval-gated correction through the existing provider connector.'',
        sk_proximate_objective = intervention,
        sk_tradeoffs = [''Prefer a visible correction over attempting to erase history.''],
        sk_coherent_actions = intents, sk_schema = kernel_schema\<rparr>) (\<lambda>strategy.
     for_static_intervention
       \<lparr>sa_desired_outcome = cp_goal p, sa_current_behavior = behavior,
        sa_constraint = ''the prior provider state cannot be changed without a new effect'',
        sa_leverage_point = ''the smallest connector-supported corrective action'',
        sa_simplest_intervention = intervention, sa_success_metric = metric, sa_failure_condition = failure,
        sa_low_risk = False, sa_reversible = True, sa_well_understood = True,
        sa_stocks = [''the current provider state and its verified evidence''],
        sa_flows = [''an approval-gated corrective action to the provider''],
        sa_feedback_loops = [''post-effect verification confirms or rejects the correction''],
        sa_delays = [''approval, provider processing, and verification latency''],
        sa_unintended_consequences = [''a transport failure could leave the correction outcome indeterminate''],
        sa_removable_complexity = [''the one-use corrective plan''],
        sa_alternatives_considered = [], sa_added_complexity = [], sa_existing_mechanisms = [],
        sa_reversibility_strategy = [], sa_strategy_kernel = Some strategy, sa_schema = assessment_schema\<rparr> strategy))"

definition bind_correction_governance ::
  "host \<Rightarrow> change_plan \<Rightarrow> string \<Rightarrow> string \<Rightarrow> string \<Rightarrow> string \<Rightarrow> exn + change_plan"
where
  "bind_correction_governance h p behavior intervention metric failure =
     sbind (correction_assessment p behavior intervention metric failure)
       (bind_static_intervention_governance h default_gate p)"

definition new_plan :: "host \<Rightarrow> string \<Rightarrow> agent_action list \<Rightarrow> string \<Rightarrow> uuid \<Rightarrow> py_datetime \<Rightarrow> exn + change_plan" where
  "new_plan h goal actions created_by plan_id now =
     mk_plan h
       \<lparr>cp_goal = goal, cp_actions = actions, cp_created_by = created_by, cp_plan_id = plan_id, cp_created_at = now,
        cp_schema_version = ''2.0'', cp_workflow_id = None, cp_workflow_fingerprint = None,
        cp_compensate_on_failure = False, cp_execution_context = None, cp_systems_assessment = None,
        cp_systems_decision = None, cp_strategy_traces = [], cp_coherence_review = None,
        cp_trusted_admission = False\<rparr>"

definition build_compensation_plan ::
  "host \<Rightarrow> change_plan \<Rightarrow> run_report \<Rightarrow> string \<Rightarrow> (nat \<Rightarrow> uuid) \<Rightarrow> uuid \<Rightarrow> py_datetime \<Rightarrow> exn + change_plan"
where
  "build_compensation_plan h original report created_by fresh plan_id now =
     sbind (reverse_actions h original fresh 0 None (rev (rn_actions report))) (\<lambda>(actions, unavailable).
     if unavailable \<noteq> []
     then Inl (invalid (''run cannot produce a complete separately approvable compensation plan: ''
                 @ py_join ''; '' unavailable))
     else if actions = []
     then Inl (invalid ''run contains no separately approvable compensation operations'')
     else
       sbind (new_plan h (''Compensate reversible effects of plan '' @ cp_plan_id original @ ''.'') actions
                created_by plan_id now) (\<lambda>p.
         bind_correction_governance h p
           ''verified reversible effects from the original run remain applied''
           ''execute the connector-provided reverse operations in reverse order''
           ''every reversible effect is restored and independently verified''
           ''any compensation is unavailable, conflicts, or fails verification''))"

subsection \<open>Correction messages\<close>

definition correction_action ::
  "string \<Rightarrow> string \<Rightarrow> string \<Rightarrow> string \<Rightarrow> json_object \<Rightarrow> string \<Rightarrow> string \<Rightarrow> uuid \<Rightarrow> exn + agent_action"
where
  "correction_action capability system resource_type reference parameters key_prefix justification aid =
     sbind (mk_resource
       \<lparr>rr_system = system, rr_resource_type = resource_type, rr_resource_id = ''correction:'' @ reference,
        rr_expected_version = None\<rparr>) (\<lambda>target.
     mk_action
       \<lparr>ac_capability = capability, ac_target = target, ac_parameters = parameters, ac_risk = EXTERNAL_COMMUNICATION,
        ac_authority_source = DIRECT_USER, ac_requires_approval = True,
        ac_idempotency_key = key_prefix @ reference, ac_justification = justification,
        ac_data_classification = INTERNAL, ac_dependencies = [], ac_action_id = aid\<rparr>)"

definition build_outlook_correction_plan ::
  "host \<Rightarrow> string \<Rightarrow> string list \<Rightarrow> string \<Rightarrow> string \<Rightarrow> string \<Rightarrow> uuid \<Rightarrow> uuid \<Rightarrow> py_datetime \<Rightarrow> exn + change_plan"
where
  "build_outlook_correction_plan h reference to subject body created_by aid plan_id now =
     sbind (correction_action ''outlook.email.send'' ''outlook'' ''correction_email'' reference
       [(''to'', strings to), (''subject'', JStr subject), (''body'', JStr body), (''content_type'', JStr ''Text''),
        (''correlation_id'', JStr reference)]
       ''outlook-correction:'' ''Send an explicit correction for a prior non-reversible email.'' aid) (\<lambda>a.
     sbind (new_plan h (''Send a correction for Outlook message '' @ reference @ ''.'') [a] created_by plan_id now) (\<lambda>p.
       bind_correction_governance h p
         ''a prior Outlook message requires an explicit correction''
         ''send one approval-gated correction email''
         ''the correction is sent once and independently verified''
         ''approval, delivery, or verification does not succeed''))"

text \<open>\<open>bool\<close> of a value of a decoded JSON object, absent ones included.\<close>

fun truthy :: "json option \<Rightarrow> bool" where
  "truthy None = False"
| "truthy (Some JNull) = False"
| "truthy (Some (JBool b)) = b"
| "truthy (Some (JInt i)) = (i \<noteq> 0)"
| "truthy (Some (JFloat f r)) = (r \<notin> {''0.0'', ''-0.0''})"
| "truthy (Some (JStr s)) = (s \<noteq> [])"
| "truthy (Some (JList xs)) = (xs \<noteq> [])"
| "truthy (Some (JObj kvs)) = (kvs \<noteq> [])"
| "truthy (Some (JOther s)) = True"

definition teams_correction_capability :: "json_object \<Rightarrow> exn + string" where
  "teams_correction_capability destination =
     (if truthy (obj_get destination ''chat_id'') then Inr ''teams.chat.message.send''
      else if truthy (obj_get destination ''team_id'') \<and> truthy (obj_get destination ''channel_id'')
      then Inr (if truthy (obj_get destination ''parent_message_id'') then ''teams.channel.message.reply''
                else ''teams.channel.message.send'')
      else Inl (invalid ''Teams correction destination requires chat_id or team_id/channel_id''))"

definition build_teams_correction_plan ::
  "host \<Rightarrow> string \<Rightarrow> string \<Rightarrow> json_object \<Rightarrow> string \<Rightarrow> uuid \<Rightarrow> uuid \<Rightarrow> py_datetime \<Rightarrow> exn + change_plan"
where
  "build_teams_correction_plan h reference body destination created_by aid plan_id now =
     sbind (teams_correction_capability destination) (\<lambda>capability.
     sbind (correction_action capability ''teams'' ''correction_message'' reference
       (dict_update destination
         [(''body'', JStr body), (''content_type'', JStr ''text''), (''correlation_id'', JStr reference)])
       ''teams-correction:'' ''Post an explicit correction for a prior non-reversible Teams message.'' aid) (\<lambda>a.
     sbind (new_plan h (''Post a correction for Teams message '' @ reference @ ''.'') [a] created_by plan_id now) (\<lambda>p.
       bind_correction_governance h p
         ''a prior Teams message requires an explicit correction''
         ''post one approval-gated correction message''
         ''the correction is posted once and independently verified''
         ''approval, posting, or verification does not succeed'')))"

subsection \<open>Completeness\<close>

text \<open>What undoes the effect of one report, the effects a run left, and the chain of dependencies.\<close>

definition undoes :: "change_plan \<Rightarrow> action_report \<Rightarrow> agent_action \<Rightarrow> bool" where
  "undoes p item a =
     (\<exists>source r d. source_action p (rp_action_id item) = Some source \<and> rp_result item = Some r
        \<and> er_compensation r = Some d \<and> cd_mode d = PLAN
        \<and> ac_capability a = or_else (cd_capability d) []
        \<and> ac_target a =
            \<lparr>rr_system = rr_system (ac_target source), rr_resource_type = rr_resource_type (ac_target source),
             rr_resource_id = or_else (cd_target_resource_id d) (rr_resource_id (ac_target source)),
             rr_expected_version = cd_expected_version d\<rparr>
        \<and> ac_parameters a = cd_parameters d
        \<and> ac_risk a = REVERSIBLE_WRITE \<and> ac_requires_approval a)"

definition left_effects :: "change_plan \<Rightarrow> action_report list \<Rightarrow> action_report list" where
  "left_effects p =
     filter (\<lambda>item. rp_result item \<noteq> None \<and>
       (case source_action p (rp_action_id item) of None \<Rightarrow> True | Some source \<Rightarrow> ac_risk source = REVERSIBLE_WRITE))"

fun chained :: "uuid option \<Rightarrow> agent_action list \<Rightarrow> bool" where
  "chained previous [] = True"
| "chained previous (a # as) =
     (ac_dependencies a = (case previous of None \<Rightarrow> [] | Some i \<Rightarrow> [i]) \<and> chained (Some (ac_action_id a)) as)"

lemma reverse_action_undoes:
  assumes "reverse_action h p source d previous aid = Inr a"
    and "source_action p (rp_action_id item) = Some source" "rp_result item = Some r" "er_compensation r = Some d" "cd_mode d = PLAN"
  shows "undoes p item a" and "ac_dependencies a = (case previous of None \<Rightarrow> [] | Some i \<Rightarrow> [i])"
  using assms by (auto simp: reverse_action_def Let_def undoes_def sbind_Inr dest!: mk_resource_id mk_action_id)

lemma reverse_actions_complete:
  "reverse_actions h p fresh n previous items = Inr (as, []) \<Longrightarrow>
   list_all2 (undoes p) (left_effects p items) as \<and> chained previous as"
proof (induction items arbitrary: n previous as)
  case (Cons item items)
  show ?case
  proof (cases "rp_result item = None \<or> (\<exists>s. source_action p (rp_action_id item) = Some s \<and> ac_risk s \<noteq> REVERSIBLE_WRITE)")
    case True
    then have "reverse_actions h p fresh n previous items = Inr (as, [])" "left_effects p (item # items) = left_effects p items"
      using Cons.prems by (auto simp: left_effects_def split: option.splits if_splits)
    then show ?thesis using Cons.IH by simp
  next
    case False
    then obtain source r d a rest where w: "source_action p (rp_action_id item) = Some source" "rp_result item = Some r"
      "er_compensation r = Some d" "cd_mode d = PLAN" "ac_risk source = REVERSIBLE_WRITE"
      "reverse_action h p source d previous (fresh n) = Inr a" "as = a # rest"
      "reverse_actions h p fresh (n + 1) (Some (ac_action_id a)) items = Inr (rest, [])"
      using Cons.prems by (auto simp: Let_def simp: sbind_Inr split: option.splits if_splits prod.splits)
    then have "left_effects p (item # items) = item # left_effects p items" by (simp add: left_effects_def)
    then show ?thesis using Cons.IH [OF w(8)] reverse_action_undoes [OF w(6,1-4)] w(7) by simp
  qed
qed (simp add: left_effects_def)

lemma correction_assessed:
  "correction_assessment p behavior intervention metric failure = Inr a \<Longrightarrow> complexity_score a = 0"
  unfolding correction_assessment_def for_static_intervention_def
  by (auto simp: mk_assessment_def checked_Inr complexity_score_def sbind_Inr)

lemma static_binding:
  assumes "bind_static_intervention_governance h budget p a = Inr q"
  shows "cp_actions q = cp_actions p"
    and "complexity_score a \<le> budget \<Longrightarrow> \<exists>d. enforce_systems_governance h budget q policy approvals trusted now = Inr d"
proof -
  from assms obtain traced q' where q: "bind_systems_governance h budget traced a = Inr q'" "q = with_trusted_admission q'"
    "cp_actions traced = cp_actions p"
    unfolding bind_static_intervention_governance_def
    by (auto simp: sbind_Inr dest!: mk_plan_Inr split: option.splits if_splits)
  then show "cp_actions q = cp_actions p"
    unfolding bind_systems_governance_def
    by (auto simp: with_trusted_admission_def simp: sbind_Inr dest!: mk_plan_Inr split: if_splits)
  show "\<exists>d. enforce_systems_governance h budget q policy approvals trusted now = Inr d" if "complexity_score a \<le> budget"
    using bound_plan_enforced [OF q(1) that] q(2) by blast
qed

lemma correction_binding:
  assumes "bind_correction_governance h p behavior intervention metric failure = Inr q"
  shows "cp_actions q = cp_actions p \<and> (\<exists>d. enforce_systems_governance h default_gate q policy approvals trusted now = Inr d)"
  using assms static_binding unfolding bind_correction_governance_def
  by (auto simp: sbind_Inr dest!: correction_assessed simp: default_gate_def)

lemma new_plan_actions: "new_plan h goal actions created_by plan_id now = Inr p \<Longrightarrow> cp_actions p = actions"
  unfolding new_plan_def by (drule mk_plan_Inr) simp

lemma build_compensation_plan_Inr:
  assumes "build_compensation_plan h original report created_by fresh plan_id now = Inr q"
  obtains actions p where "reverse_actions h original fresh 0 None (rev (rn_actions report)) = Inr (actions, [])"
    and "actions \<noteq> []" and "cp_actions p = actions" and "\<exists>b i m f. bind_correction_governance h p b i m f = Inr q"
proof -
  obtain actions us where r: "reverse_actions h original fresh 0 None (rev (rn_actions report)) = Inr (actions, us)"
    using assms by (auto simp: build_compensation_plan_def sbind_Inr)
  with assms have "us = []" "actions \<noteq> []" by (auto simp: build_compensation_plan_def split: if_splits)
  moreover from assms r obtain p where "\<exists>goal. new_plan h goal actions created_by plan_id now = Inr p"
    "\<exists>b i m f. bind_correction_governance h p b i m f = Inr q"
    unfolding build_compensation_plan_def by (fastforce simp: sbind_Inr split: if_splits)
  ultimately show ?thesis using that r new_plan_actions by blast
qed

lemma compensation_complete:
  assumes "build_compensation_plan h original report created_by fresh plan_id now = Inr q"
  shows "list_all2 (undoes original) (left_effects original (rev (rn_actions report))) (cp_actions q)
    \<and> cp_actions q \<noteq> [] \<and> chained None (cp_actions q)
    \<and> (\<exists>d. enforce_systems_governance h default_gate q policy approvals trusted later = Inr d)"
proof -
  obtain actions p where p: "reverse_actions h original fresh 0 None (rev (rn_actions report)) = Inr (actions, [])"
    "actions \<noteq> []" "cp_actions p = actions" "\<exists>b i m f. bind_correction_governance h p b i m f = Inr q"
    using build_compensation_plan_Inr [OF assms] .
  from p(4) obtain b i m f where "bind_correction_governance h p b i m f = Inr q" by blast
  from correction_binding [OF this] reverse_actions_complete [OF p(1)] p(2,3) show ?thesis by simp
qed

end
