(* ===== verification/Ascii_Json.thy ===== *)
theory Ascii_Json
  imports Canonical_Json
begin

text \<open>
  \<open>json.dumps(value, sort_keys=True, separators=(",", ":"))\<close> with its default \<open>ensure_ascii=True\<close>, the text
  behind the digest of a routing decision, the hashes of the work journal and the tags of the
  advisory budget. A code point outside the printable ASCII range becomes one or two \<open>\u\<close> escapes. The
  escapes of two strings are told apart as long as no lone surrogate occurs in them.
\<close>

definition hex4 :: "nat \<Rightarrow> string" where
  "hex4 n = [backslash, CHR ''u'', hex_char (n div 4096), hex_char (n div 256), hex_char (n div 16), hex_char n]"

definition ascii_escape :: "string \<Rightarrow> string" where
  "ascii_escape ch =
     (let n = code_point ch in
      if 32 \<le> n \<and> n < 127 \<or> n \<in> {8, 9, 10, 12, 13} then concat (map escape_char ch)
      else if n < 65536 then hex4 n
      else hex4 (55296 + (n - 65536) div 1024) @ hex4 (56320 + (n - 65536) mod 1024))"

definition ascii_string :: "string \<Rightarrow> string" where
  "ascii_string s = [quote_char] @ concat (map ascii_escape (chunks s)) @ [quote_char]"

fun ascii_json :: "json \<Rightarrow> string" where
  "ascii_json JNull = ''null''"
| "ascii_json (JBool b) = (if b then ''true'' else ''false'')"
| "ascii_json (JInt i) = render_int i"
| "ascii_json (JFloat fin r) = r"
| "ascii_json (JStr s) = ascii_string s"
| "ascii_json (JList xs) = ''['' @ comma_separated (map ascii_json xs) @ '']''"
| "ascii_json (JObj kvs) =
     ''{'' @ comma_separated
        (map (\<lambda>(k, v). ascii_string k @ '':'' @ v)
          (sort_key fst (map (\<lambda>(k, v). (k, ascii_json v)) kvs))) @ ''}''"
| "ascii_json (JOther t) = t"

subsection \<open>Text without lone surrogates\<close>

definition utf8_bytes :: "nat \<Rightarrow> string" where
  "utf8_bytes n =
     (if n < 128 then [char_of n]
      else if n < 2048 then [char_of (192 + n div 64), char_of (128 + n mod 64)]
      else if n < 65536
      then [char_of (224 + n div 4096), char_of (128 + n div 64 mod 64), char_of (128 + n mod 64)]
      else [char_of (240 + n div 262144), char_of (128 + n div 4096 mod 64),
            char_of (128 + n div 64 mod 64), char_of (128 + n mod 64)])"

definition scalar :: "nat \<Rightarrow> bool" where
  "scalar n = (n < 55296 \<or> 57343 < n \<and> n < 1114112)"

text \<open>The byte list is the UTF-8 encoding of Unicode scalar values.\<close>

definition scalar_text :: "string \<Rightarrow> bool" where
  "scalar_text s = (list_all scalar (code_points s) \<and> chunks s = map utf8_bytes (code_points s))"

lemma scalar_text_Nil [simp]: "scalar_text []"
  by (simp add: scalar_text_def code_points_def)

lemma scalar_text_determined:
  "scalar_text s \<Longrightarrow> scalar_text t \<Longrightarrow> code_points s = code_points t \<Longrightarrow> s = t"
  by (metis chunks_inj scalar_text_def)

subsection \<open>Escapes are prefix free\<close>

definition escape_point :: "nat \<Rightarrow> string" where
  "escape_point n =
     (if 32 \<le> n \<and> n < 127 \<or> n \<in> {8, 9, 10, 12, 13} then escape_char (char_of n)
      else if n < 65536 then hex4 n
      else hex4 (55296 + (n - 65536) div 1024) @ hex4 (56320 + (n - 65536) mod 1024))"

lemma scalar_text_escapes:
  assumes "scalar_text s"
  shows "map ascii_escape (chunks s) = map escape_point (code_points s)"
proof -
  have "ascii_escape ch = escape_point (code_point ch)" if "ch \<in> set (chunks s)" for ch
  proof -
    from assms have "map (\<lambda>c. utf8_bytes (code_point c)) (chunks s) = map (\<lambda>c. c) (chunks s)"
      by (simp add: scalar_text_def code_points_def comp_def)
    then have "ch = utf8_bytes (code_point ch)" using that by (simp only: map_eq_conv)
    then have "concat (map escape_char ch) = concat (map escape_char (utf8_bytes (code_point ch)))"
      by (rule arg_cong)
    then show ?thesis
      by (auto simp: ascii_escape_def escape_point_def utf8_bytes_def Let_def)
  qed
  then show ?thesis by (simp add: code_points_def)
qed

lemma hex4_prefix_free:
  assumes "hex4 m @ u = hex4 n @ v" and "m < 65536" and "n < 65536"
  shows "m = n \<and> u = v"
proof -
  have eqs: "hex_char (m div 4096) = hex_char (n div 4096)" "hex_char (m div 256) = hex_char (n div 256)"
    "hex_char (m div 16) = hex_char (n div 16)" "hex_char m = hex_char n" and uv: "u = v"
    using assms(1) by (auto simp: hex4_def)
  have digit: "(a :: nat) mod 16 = b mod 16" if "hex_char a = hex_char b" for a b
    using that hex_char_mod [of a] hex_char_mod [of b] hex_char_inj [of "a mod 16" "b mod 16"] by simp
  have split: "x = 4096 * (x div 4096 mod 16) + 256 * (x div 256 mod 16) + 16 * (x div 16 mod 16) + x mod 16"
    if "x < 65536" for x :: nat
  proof -
    have "x = 16 * (x div 16) + x mod 16" "x div 16 = 16 * (x div 256) + x div 16 mod 16"
      "x div 256 = 16 * (x div 4096) + x div 256 mod 16" "x div 4096 mod 16 = x div 4096"
      using that mult_div_mod_eq [of 16 x] mult_div_mod_eq [of 16 "x div 16"] mult_div_mod_eq [of 16 "x div 256"]
      by (simp_all add: div_mult2_eq [symmetric] less_mult_imp_div_less)
    then show ?thesis by linarith
  qed
  show ?thesis
    using split [OF assms(2)] split [OF assms(3)] eqs [THEN digit] uv by simp
qed

lemma escape_char_not_unicode:
  fixes n :: nat
  assumes "32 \<le> n \<and> n < 127 \<or> n \<in> {8, 9, 10, 12, 13}"
  shows "escape_char (char_of n) @ u \<noteq> backslash # CHR ''u'' # v"
proof
  assume eq: "escape_char (char_of n) @ u = backslash # CHR ''u'' # v"
  have "of_char (char_of n :: char) = n" using assms by (auto simp: of_char_of)
  moreover have "(char_of (8 :: nat) :: char) = CHR 0x08" "(char_of (9 :: nat) :: char) = CHR 0x09"
    "(char_of (10 :: nat) :: char) = CHR 0x0A" "(char_of (12 :: nat) :: char) = CHR 0x0C"
    "(char_of (13 :: nat) :: char) = CHR 0x0D"
    by code_simp+
  ultimately show False
    using eq assms unfolding escape_char_def quote_char_def backslash_def by (auto split: if_splits)
qed

definition printable :: "nat \<Rightarrow> bool" where
  "printable n = (32 \<le> n \<and> n < 127 \<or> n \<in> {8, 9, 10, 12, 13})"

lemma escape_point_cases:
  assumes "scalar n"
  obtains (plain) "printable n" "escape_point n = escape_char (char_of n)"
  | (short) "\<not> printable n" "n < 65536" "escape_point n = hex4 n"
  | (pair) a where "\<not> printable n" "n = 65536 + 1024 * (a - 55296) + (n - 65536) mod 1024"
      "55296 \<le> a" "a < 56320" "escape_point n = hex4 a @ hex4 (56320 + (n - 65536) mod 1024)"
proof -
  consider "printable n" | "\<not> printable n" "n < 65536" | "\<not> printable n" "65536 \<le> n" by linarith
  then show thesis
  proof cases
    case 3
    let ?a = "55296 + (n - 65536) div 1024"
    have "?a < 56320" using assms 3 by (auto simp: scalar_def)
    moreover have "n = 65536 + 1024 * (?a - 55296) + (n - 65536) mod 1024"
      using 3 by simp
    ultimately show ?thesis
      using 3 by (intro pair [of ?a]) (auto simp: escape_point_def printable_def)
  qed (auto simp: escape_point_def printable_def intro: plain short)
qed

lemma plain_not_hex4:
  "printable n \<Longrightarrow> escape_char (char_of n) @ u \<noteq> hex4 a @ v"
  using escape_char_not_unicode [of n u] by (auto simp: hex4_def printable_def)

lemma escape_point_prefix_free:
  assumes "escape_point m @ u = escape_point n @ v" and "scalar m" and "scalar n"
  shows "m = n \<and> u = v"
  using assms(2)
proof (cases rule: escape_point_cases)
  case plain
  note m = this
  show ?thesis
    using assms(3)
  proof (cases rule: escape_point_cases)
    case plain
    then have "(char_of m :: char) = char_of n \<and> u = v"
      using m assms(1) escape_char_prefix_free by metis
    moreover have "m < 256" "n < 256" using m plain by (auto simp: printable_def)
    ultimately show ?thesis by (metis of_char_of mod_less)
  qed (use m assms(1) plain_not_hex4 in auto)
next
  case short
  note m = this
  show ?thesis
    using assms(3)
  proof (cases rule: escape_point_cases)
    case plain
    then show ?thesis using m assms(1) plain_not_hex4 [of n v m u] by simp
  next
    case short
    then show ?thesis using m assms(1) hex4_prefix_free [of m u n v] by simp
  next
    case (pair a)
    then have "m = a" using m assms(1) hex4_prefix_free [of m u a] by simp
    then show ?thesis using pair assms(2) by (simp add: scalar_def)
  qed
next
  case (pair a)
  note m = this
  show ?thesis
    using assms(3)
  proof (cases rule: escape_point_cases)
    case plain
    then show ?thesis using m assms(1) plain_not_hex4 by (metis append.assoc)
  next
    case short
    then have "a = n" using m assms(1) hex4_prefix_free [of a _ n v] by simp
    then show ?thesis using m assms(3) by (simp add: scalar_def)
  next
    case (pair b)
    let ?r = "\<lambda>n :: nat. 56320 + (n - 65536) mod 1024"
    have r: "?r n < 65536" for n by simp
    from pair m assms(1) have "a = b \<and> hex4 (?r m) @ u = hex4 (?r n) @ v"
      using hex4_prefix_free [of a "hex4 (?r m) @ u" b "hex4 (?r n) @ v"] by simp
    moreover from this have "?r m = ?r n \<and> u = v" using hex4_prefix_free r by blast
    ultimately show ?thesis using m(2) pair(2) by simp
  qed
qed

lemma escape_point_not_quote: "\<exists>d s. escape_point n = d # s \<and> d \<noteq> quote_char"
  using escape_char_not_quote [of "char_of n"]
  by (auto simp: escape_point_def hex4_def backslash_def quote_char_def)

lemma escape_points_prefix_free:
  "concat (map escape_point ms) @ quote_char # u = concat (map escape_point ns) @ quote_char # v \<Longrightarrow>
   list_all scalar ms \<Longrightarrow> list_all scalar ns \<Longrightarrow> ms = ns \<and> u = v"
proof (induction ms arbitrary: ns)
  case Nil
  then show ?case
  proof (cases ns)
    case (Cons n ns')
    then show ?thesis using Nil escape_point_not_quote [of n] by auto
  qed auto
next
  case (Cons m ms)
  show ?case
  proof (cases ns)
    case Nil
    then show ?thesis using Cons.prems escape_point_not_quote [of m] by auto
  next
    case (Cons n ns')
    then show ?thesis
      using Cons.prems Cons.IH [of ns']
        escape_point_prefix_free [of m "concat (map escape_point ms) @ quote_char # u" n] by auto
  qed
qed

lemma ascii_string_prefix_free:
  assumes "ascii_string s @ u = ascii_string t @ v" and "scalar_text s" and "scalar_text t"
  shows "s = t \<and> u = v"
proof -
  have "concat (map escape_point (code_points s)) @ quote_char # u
      = concat (map escape_point (code_points t)) @ quote_char # v"
    using assms by (simp add: ascii_string_def scalar_text_escapes)
  then have "code_points s = code_points t \<and> u = v"
    using assms(2,3) by (intro escape_points_prefix_free) (auto simp: scalar_text_def)
  then show ?thesis using assms scalar_text_determined by blast
qed

lemma ascii_scalar_text:
  assumes "\<not> list_ex digit7 s"
  shows "scalar_text s"
proof -
  have small: "(of_char c :: nat) < 128" if "c \<in> set s" for c
    using assms that digit7_less by (auto simp: list_ex_iff)
  have "chunks s = map (\<lambda>c. [c]) s"
    using assms
  proof (induction s)
    case (Cons c s)
    moreover from this have "takeWhile is_cont s = [] \<and> dropWhile is_cont s = s"
      by (cases s) (auto simp: is_cont_code)
    ultimately show ?case by simp
  qed simp
  then show ?thesis
    using small
    by (fastforce simp: scalar_text_def ascii_code_points [OF assms] scalar_def utf8_bytes_def list_all_iff)
qed

end
