(* ===== verification/Capability_Routing.thy ===== *)
theory Capability_Routing
  imports Approvals Ascii_Json "HOL-Library.Product_Lexorder"
begin

text \<open>
  Intent routing and capability sessions (capability_routing.py): routing cards, the lexical router that applies
  the policy before anything else, and sessions that spend a budget of calls and bytes on exactly the selected
  capabilities. A session is a value that \<open>authorize\<close> maps to the next one.
\<close>

subsection \<open>Words of an intent\<close>

definition token_char :: "char \<Rightarrow> bool" where
  "token_char c = (CHR ''a'' \<le> c \<and> c \<le> CHR ''z'' \<or> CHR ''0'' \<le> c \<and> c \<le> CHR ''9'')"

definition mark_char :: "char \<Rightarrow> bool" where
  "mark_char c = (c \<in> set '',.;:!?'')"

text \<open>\<open>findall\<close> of maximal runs: \<open>[a-z0-9]+\<close>, and the same or runs of punctuation.\<close>

function tokens :: "string \<Rightarrow> string list" where
  "tokens [] = []"
| "tokens (c # s) =
     (if token_char c then (c # takeWhile token_char s) # tokens (dropWhile token_char s) else tokens s)"
  by pat_completeness auto
termination
  by (relation "measure length") (auto simp: le_imp_less_Suc length_dropWhile_le)

function negation_units :: "string \<Rightarrow> string list" where
  "negation_units [] = []"
| "negation_units (c # s) =
     (if token_char c then (c # takeWhile token_char s) # negation_units (dropWhile token_char s)
      else if mark_char c then (c # takeWhile mark_char s) # negation_units (dropWhile mark_char s)
      else negation_units s)"
  by pat_completeness auto
termination
  by (relation "measure length") (auto simp: le_imp_less_Suc length_dropWhile_le)

definition negators :: "string list" where
  "negators = [''avoid'', ''dont'', ''never'', ''no'', ''not'', ''without'']"

definition negation_breakers :: "string list" where
  "negation_breakers = [''although'', ''but'', ''except'', ''however'', ''instead'', ''then'', ''though'', ''yet'']"

definition negation_modifiers :: "string list" where
  "negation_modifiers =
     [''accidentally'', ''actually'', ''any'', ''at'', ''automatically'', ''directly'', ''ever'', ''even'',
      ''immediately'', ''intentionally'', ''just'', ''only'', ''permanently'', ''please'', ''possibly'', ''really'',
      ''simply'', ''still'', ''to'', ''under'']"

definition max_negation_scope_tokens :: nat where
  "max_negation_scope_tokens = 12"

definition read_terms :: "string list" where
  "read_terms = [''find'', ''get'', ''inspect'', ''list'', ''read'', ''search'', ''show'']"

definition write_terms :: "string list" where
  "write_terms =
     [''add'', ''admin'', ''archive'', ''create'', ''delete'', ''edit'', ''merge'', ''move'', ''publish'', ''remove'',
      ''send'', ''update'', ''write'']"

text \<open>The scope of one negator: the operation terms it covers, and the first other word.\<close>

fun negation_scope :: "nat \<Rightarrow> string option \<Rightarrow> string list \<Rightarrow> string list \<Rightarrow> string list \<times> string option" where
  "negation_scope seen fallback found [] = (found, fallback)"
| "negation_scope seen fallback found (candidate # units) =
     (if \<not> token_char (hd candidate)
      then (if candidate \<noteq> '','' \<or> found \<noteq> [] then (found, fallback)
            else negation_scope seen fallback found units)
      else if candidate \<in> set negation_breakers then (found, fallback)
      else if seen + 1 > max_negation_scope_tokens then (found, fallback)
      else
        negation_scope (seen + 1)
          (if fallback = None \<and> candidate \<notin> set negation_modifiers then Some candidate else fallback)
          (if candidate \<in> set read_terms \<or> candidate \<in> set write_terms then found @ [candidate] else found) units)"

fun negated_units :: "string list \<Rightarrow> string list" where
  "negated_units [] = []"
| "negated_units (unit # units) =
     (if unit \<in> set negators \<and> units \<noteq> []
      then (case negation_scope 0 None [] units of
              (found, fallback) \<Rightarrow>
                if found \<noteq> [] then found else (case fallback of None \<Rightarrow> [] | Some w \<Rightarrow> [w]))
      else []) @ negated_units units"

definition negated_terms :: "string \<Rightarrow> string list" where
  "negated_terms surface = negated_units (negation_units surface)"

fun replace_all :: "string \<Rightarrow> string \<Rightarrow> string \<Rightarrow> string" where
  "replace_all old new [] = []"
| "replace_all old new (c # s) =
     (if old \<noteq> [] \<and> prefix old (c # s) then new @ replace_all old new (drop (length old - 1) s)
      else c # replace_all old new s)"

definition normalize_surface :: "host \<Rightarrow> string \<Rightarrow> exn + string" where
  "normalize_surface h value =
     (let normalized = h_casefold h (h_nfkc h value) in
      if has_control_characters normalized
      then Inl (invalid ''routing intent contains control or formatting characters'')
      else Inr (replace_all ([CHR ''d'', CHR ''o'', CHR ''n'', CHR 0xE2, CHR 0x80, CHR 0x99, CHR ''t'']) ''dont''
                 (replace_all [CHR ''d'', CHR ''o'', CHR ''n'', CHR 0x27, CHR ''t''] ''dont'' normalized)))"

definition normalize_intent :: "host \<Rightarrow> string \<Rightarrow> exn + string" where
  "normalize_intent h value = sbind (normalize_surface h value) (\<lambda>s. Inr (py_join '' '' (tokens s)))"

definition contains_text :: "string \<Rightarrow> string \<Rightarrow> bool" where
  "contains_text p s = list_ex (prefix p) (suffixes s)"

subsection \<open>Routing cards\<close>

record capability_card =
  cc_capability_id :: string
  cc_version :: string
  cc_manifest_sha256 :: string
  cc_risk :: risk_level
  cc_intents :: "string list"
  cc_negative_intents :: "string list"
  cc_data_classification :: data_classification

text \<open>The full matches of the two patterns, as automata: \<open>segment\<close> is the part after a separator.\<close>

definition separator :: "char \<Rightarrow> bool" where
  "separator c = (c \<in> set ''._-'')"

fun card_segment :: "bool \<Rightarrow> string \<Rightarrow> bool" where
  "card_segment inside [] = inside"
| "card_segment inside (c # s) =
     (if token_char c then card_segment True s
      else if inside \<and> (c = CHR ''_'' \<or> c = CHR ''-'') then card_segment True s
      else inside \<and> c = CHR ''.'' \<and> card_segment False s)"

definition card_identifier :: "string \<Rightarrow> bool" where
  "card_identifier s =
     (case s of
        [] \<Rightarrow> False
      | c # r \<Rightarrow>
          CHR ''a'' \<le> c \<and> c \<le> CHR ''z''
          \<and> (case dropWhile token_char r of [] \<Rightarrow> False | d # t \<Rightarrow> separator d \<and> card_segment False t))"

definition digit_char :: "char \<Rightarrow> bool" where
  "digit_char c = (CHR ''0'' \<le> c \<and> c \<le> CHR ''9'')"

fun version_part :: "nat \<Rightarrow> string \<Rightarrow> bool" where
  "version_part (Suc n) s =
     (case dropWhile digit_char s of
        c # r \<Rightarrow> takeWhile digit_char s \<noteq> [] \<and> c = CHR ''.'' \<and> version_part n r
      | [] \<Rightarrow> False)"
| "version_part 0 s =
     (takeWhile digit_char s \<noteq> []
      \<and> (case dropWhile digit_char s of
           [] \<Rightarrow> True
         | c # r \<Rightarrow> (c = CHR ''-'' \<or> c = CHR ''+'') \<and> r \<noteq> []
             \<and> list_all (\<lambda>x. CHR ''A'' \<le> x \<and> x \<le> CHR ''Z'' \<or> token_char x \<or> x = CHR ''.'' \<or> x = CHR ''-'') r))"

definition card_version :: "string \<Rightarrow> bool" where
  "card_version s = version_part 2 s"

definition mk_card :: "capability_card \<Rightarrow> exn + capability_card" where
  "mk_card c =
     checked
       [fail_if (\<not> card_identifier (cc_capability_id c) \<or> \<not> card_version (cc_version c)
                 \<or> \<not> is_sha256 (cc_manifest_sha256 c) \<or> cc_intents c = [] \<or> list_ex blank (cc_intents c))
          (invalid ''capability routing card is incomplete'')] c"

text \<open>\<open>from_manifest\<close> copies the fields of an enabled capsule.\<close>

definition card_from_manifest :: "bool \<Rightarrow> capability_card \<Rightarrow> exn + capability_card" where
  "card_from_manifest enabled spec =
     (if \<not> enabled then Inl (misconfigured ''routing cards require enabled capsules'') else mk_card spec)"

definition card_to_dict :: "capability_card \<Rightarrow> json_object" where
  "card_to_dict c =
     [(''capability_id'', JStr (cc_capability_id c)), (''version'', JStr (cc_version c)),
      (''manifest_sha256'', JStr (cc_manifest_sha256 c)), (''risk'', JStr (risk_str (cc_risk c))),
      (''intents'', strings (cc_intents c)), (''negative_intents'', strings (cc_negative_intents c)),
      (''data_classification'', JStr (classification_str (cc_data_classification c)))]"

definition skeleton :: "host \<Rightarrow> string \<Rightarrow> string" where
  "skeleton h s =
     concat (filter (\<lambda>ch. h_word h (code_point ch) \<and> code_point ch \<noteq> 95) (chunks (h_casefold h (h_nfkc h s))))"

fun reject_confusable_cards :: "host \<Rightarrow> (string \<times> string) list \<Rightarrow> capability_card list \<Rightarrow> exn option" where
  "reject_confusable_cards h seen [] = None"
| "reject_confusable_cards h seen (c # cs) =
     (let k = skeleton h (cc_capability_id c) in
      case map_of seen k of
        Some previous \<Rightarrow>
          if previous \<noteq> cc_capability_id c
          then Some (misconfigured ''policy-permitted capability names are confusable'')
          else reject_confusable_cards h (dict_put k (cc_capability_id c) seen) cs
      | None \<Rightarrow> reject_confusable_cards h (dict_put k (cc_capability_id c) seen) cs)"

subsection \<open>The router\<close>

record routing_decision =
  rd_cards :: "capability_card list"
  rd_normalized_intent_sha256 :: string

definition reads_only :: "capability_card \<Rightarrow> bool" where
  "reads_only c = (cc_risk c = READ_ONLY \<or> cc_risk c = LOCAL_GENERATION)"

text \<open>The score of a card, \<open>None\<close> where the loop continues with the next card.\<close>

definition score_card :: "host \<Rightarrow> string \<Rightarrow> string list \<Rightarrow> string list \<Rightarrow> bool \<Rightarrow> bool \<Rightarrow> capability_card \<Rightarrow> exn + nat option" where
  "score_card h normalized words negated explicit_read explicit_write c =
     (if \<not> reads_only c \<and> explicit_read \<and> \<not> explicit_write then Inr None
      else if reads_only c \<and> explicit_write \<and> \<not> explicit_read then Inr None
      else
        sbind (smap (normalize_intent h) (cc_intents c)) (\<lambda>phrases.
        sbind (smap (normalize_intent h) (cc_negative_intents c)) (\<lambda>negative.
        let intent_tokens = set (concat (map tokens phrases)) in
        if list_ex (\<lambda>p. p \<noteq> [] \<and> contains_text p normalized) negative then Inr None
        else if intent_tokens \<inter> set negated \<noteq> {} then Inr None
        else
          (let score = card (intent_tokens \<inter> set words)
                       + sum_list (map (\<lambda>p. if contains_text p normalized then 4 else 0) phrases) in
           Inr (if score \<noteq> 0 then Some score else None)))))"

fun score_cards ::
  "host \<Rightarrow> string \<Rightarrow> string list \<Rightarrow> string list \<Rightarrow> bool \<Rightarrow> bool \<Rightarrow> capability_card list
     \<Rightarrow> exn + (nat \<times> capability_card) list"
where
  "score_cards h normalized words negated explicit_read explicit_write [] = Inr []"
| "score_cards h normalized words negated explicit_read explicit_write (c # cs) =
     sbind (score_card h normalized words negated explicit_read explicit_write c) (\<lambda>score.
     sbind (score_cards h normalized words negated explicit_read explicit_write cs) (\<lambda>rest.
       Inr (case score of None \<Rightarrow> rest | Some n \<Rightarrow> (n, c) # rest)))"

definition route_intent ::
  "host \<Rightarrow> string \<Rightarrow> capability_card list \<Rightarrow> (capability_card \<Rightarrow> bool) \<Rightarrow> int \<Rightarrow> exn + routing_decision"
where
  "route_intent h prompt cards policy_allows maximum_candidates =
     (if \<not> (1 \<le> maximum_candidates \<and> maximum_candidates \<le> 8)
      then Inl (misconfigured ''routing candidate limit must be 1..8'')
      else
        sbind (normalize_surface h prompt) (\<lambda>surface.
        let normalized = py_join '' '' (tokens surface); words = tokens normalized in
        if words = [] then Inl (invalid ''routing intent contains no usable terms'')
        else
          (let filtered = filter policy_allows cards in
           sbind (checked [reject_confusable_cards h [] filtered] ()) (\<lambda>_.
           let negated = negated_terms surface;
               explicit_read = (\<exists>w \<in> set words. w \<in> set read_terms);
               explicit_write = (\<exists>w \<in> set words. w \<in> set write_terms \<and> w \<notin> set negated) in
           sbind (score_cards h normalized words negated explicit_read explicit_write filtered) (\<lambda>scored.
           let selected = take (nat maximum_candidates)
                 (map snd (sort_key (\<lambda>(n, c). (- int n, cc_capability_id c, cc_version c)) scored)) in
           if selected = [] then Inl (invalid ''no policy-permitted capability matches the intent'')
           else Inr \<lparr>rd_cards = selected, rd_normalized_intent_sha256 = h_sha256 h normalized\<rparr>)))))"

subsection \<open>The digest of the selected cards\<close>

definition cards_sha256 :: "host \<Rightarrow> capability_card list \<Rightarrow> digest" where
  "cards_sha256 h cs = h_sha256 h (ascii_json (JList (map (\<lambda>c. JObj (card_to_dict c)) cs)))"

definition binding_sha256 :: "host \<Rightarrow> routing_decision \<Rightarrow> digest" where
  "binding_sha256 h d = cards_sha256 h (rd_cards d)"

subsection \<open>Sessions\<close>

record capability_session =
  cs_plan_fingerprint :: string
  cs_cards :: "capability_card list"
  cs_expires_at :: py_datetime
  cs_maximum_calls :: int
  cs_maximum_total_bytes :: int
  cs_calls :: int
  cs_bytes :: int

definition card_identity :: "capability_card \<Rightarrow> string \<times> string \<times> string" where
  "card_identity c = (cc_capability_id c, cc_version c, cc_manifest_sha256 c)"

definition mk_session :: "capability_session \<Rightarrow> exn + capability_session" where
  "mk_session s =
     checked
       [fail_if (py_len (cs_plan_fingerprint s) \<noteq> 64 \<or> dt_offset (cs_expires_at s) = None)
          (misconfigured ''capability session identity is malformed''),
        fail_if (cs_cards s = [] \<or> \<not> (1 \<le> cs_maximum_calls s \<and> cs_maximum_calls s \<le> 256))
          (misconfigured ''capability session call budget is invalid''),
        fail_if (\<not> (1 \<le> cs_maximum_total_bytes s \<and> cs_maximum_total_bytes s \<le> 16 * 1024 * 1024))
          (misconfigured ''capability session byte budget is invalid''),
        fail_if (\<not> distinct (map card_identity (cs_cards s)))
          (misconfigured ''capability session cards must be unique'')] s"

record session_request =
  sq_plan_fingerprint :: string
  sq_identity :: "string \<times> string \<times> string"
  sq_payload :: json_object
  sq_now :: instant

definition authorize :: "session_request \<Rightarrow> capability_session \<Rightarrow> capability_session \<times> (exn + unit)" where
  "authorize q s =
     (case
        sbind (checked
          [fail_if (sq_now q \<ge> instant_of (cs_expires_at s)) (misconfigured ''capability session expired''),
           fail_if (sq_plan_fingerprint q \<noteq> cs_plan_fingerprint s)
             (misconfigured ''capability session belongs to another plan''),
           fail_if (sq_identity q \<notin> set (map card_identity (cs_cards s)))
             (misconfigured ''capability call is outside the active session'')] ()) (\<lambda>_.
        sbind (measure_json_resources (JObj (sq_payload q)) (cs_maximum_total_bytes s)) (\<lambda>usage.
        checked
          [fail_if (cs_calls s + 1 > cs_maximum_calls s) (misconfigured ''capability session call budget exhausted''),
           fail_if (cs_bytes s + usage_scalar_bytes usage > cs_maximum_total_bytes s)
             (misconfigured ''capability session byte budget exhausted'')] usage))
      of
        Inl e \<Rightarrow> (s, Inl e)
      | Inr usage \<Rightarrow>
          (s\<lparr>cs_calls := cs_calls s + 1, cs_bytes := cs_bytes s + usage_scalar_bytes usage\<rparr>, Inr ()))"

definition session_to_dict :: "host \<Rightarrow> capability_session \<Rightarrow> json_object" where
  "session_to_dict h s =
     [(''plan_fingerprint'', JStr (cs_plan_fingerprint s)),
      (''capability_bindings_sha256'', JStr (cards_sha256 h (cs_cards s))),
      (''expires_at'', JStr (h_isoformat h \<lparr>dt_wall = instant_of (cs_expires_at s), dt_offset = Some 0\<rparr>)),
      (''maximum_calls'', JInt (cs_maximum_calls s)), (''calls_used'', JInt (cs_calls s)),
      (''maximum_total_bytes'', JInt (cs_maximum_total_bytes s)), (''bytes_used'', JInt (cs_bytes s))]"

subsection \<open>What the router selects\<close>

lemma score_cards_mem:
  "score_cards h normalized words negated r w cs = Inr scored \<Longrightarrow> (n, c) \<in> set scored \<Longrightarrow>
   c \<in> set cs \<and> score_card h normalized words negated r w c = Inr (Some n)"
  by (induction cs arbitrary: scored) (auto simp: sbind_Inr split: option.splits)

lemma score_card_Some:
  assumes "score_card h normalized words negated r w c = Inr (Some n)"
  shows "(reads_only c \<longrightarrow> \<not> w \<or> r) \<and> (\<not> reads_only c \<longrightarrow> \<not> r \<or> w)
    \<and> (\<exists>phrases. smap (normalize_intent h) (cc_intents c) = Inr phrases
         \<and> set (concat (map tokens phrases)) \<inter> set negated = {})
    \<and> (\<exists>negative. smap (normalize_intent h) (cc_negative_intents c) = Inr negative
         \<and> \<not> list_ex (\<lambda>p. p \<noteq> [] \<and> contains_text p normalized) negative)"
  using assms by (auto simp: score_card_def sbind_Inr Let_def split: if_splits)

text \<open>The conditions under which a card may be selected for a prompt.\<close>

definition routable :: "host \<Rightarrow> string \<Rightarrow> capability_card \<Rightarrow> bool" where
  "routable h prompt c =
     (\<exists>surface phrases negative. normalize_surface h prompt = Inr surface
        \<and> smap (normalize_intent h) (cc_intents c) = Inr phrases
        \<and> smap (normalize_intent h) (cc_negative_intents c) = Inr negative
        \<and> set (concat (map tokens phrases)) \<inter> set (negated_terms surface) = {}
        \<and> \<not> list_ex (\<lambda>p. p \<noteq> [] \<and> contains_text p (py_join '' '' (tokens surface))) negative
        \<and> (reads_only c \<or> (\<exists>w \<in> set (tokens (py_join '' '' (tokens surface))). w \<in> set write_terms \<and> w \<notin> set (negated_terms surface))
             \<or> (\<forall>w \<in> set (tokens (py_join '' '' (tokens surface))). w \<notin> set read_terms)))"

lemma route_intent_selects:
  assumes "route_intent h prompt cards policy_allows n = Inr d"
  shows "rd_cards d \<noteq> [] \<and> int (length (rd_cards d)) \<le> n
    \<and> (\<forall>c \<in> set (rd_cards d). c \<in> set cards \<and> policy_allows c \<and> routable h prompt c)"
proof -
  from assms obtain surface where s: "normalize_surface h prompt = Inr surface"
    by (auto simp: route_intent_def sbind_Inr split: if_splits)
  let ?normalized = "py_join '' '' (tokens surface)"
  let ?words = "tokens ?normalized"
  let ?r = "\<exists>w \<in> set ?words. w \<in> set read_terms"
  let ?w = "\<exists>w \<in> set ?words. w \<in> set write_terms \<and> w \<notin> set (negated_terms surface)"
  from assms s obtain scored where sc: "1 \<le> n"
    "score_cards h ?normalized ?words (negated_terms surface) ?r ?w (filter policy_allows cards) = Inr scored"
    "rd_cards d = take (nat n) (map snd (sort_key (\<lambda>(n, c). (- int n, cc_capability_id c, cc_version c)) scored))"
    "rd_cards d \<noteq> []"
    by (auto simp: route_intent_def sbind_Inr Let_def split: if_splits)
  have "c \<in> set cards \<and> policy_allows c \<and> routable h prompt c" if "c \<in> set (rd_cards d)" for c
  proof -
    have "c \<in> set (map snd (sort_key (\<lambda>(n, c). (- int n, cc_capability_id c, cc_version c)) scored))"
      using that unfolding sc(3) by (rule in_set_takeD)
    then obtain k where "(k, c) \<in> set scored" by auto
    from score_cards_mem [OF sc(2) this] have c: "c \<in> set cards" "policy_allows c"
      "score_card h ?normalized ?words (negated_terms surface) ?r ?w c = Inr (Some k)" by auto
    then show ?thesis using score_card_Some [OF c(3)] s unfolding routable_def by blast
  qed
  moreover have "int (length (rd_cards d)) \<le> n" using sc(1,3) by simp
  ultimately show ?thesis using sc(4) by blast
qed

text \<open>An intent phrase without a letter or digit of the ASCII range normalises to the empty text, which every prompt
  contains: a card with such a phrase is offered for every prompt that does not exclude it.\<close>

lemma wordless_intent_matches:
  assumes "smap (normalize_intent h) (cc_intents c) = Inr phrases" and "[] \<in> set phrases"
    and "cc_negative_intents c = []" and "\<not> r" and "\<not> w"
    and "set (concat (map tokens phrases)) \<inter> set negated = {}"
  shows "\<exists>n \<ge> 4. score_card h normalized words negated r w c = Inr (Some n)"
proof -
  let ?bonus = "sum_list (map (\<lambda>p. if contains_text p normalized then 4 else 0) phrases) :: nat"
  have "contains_text [] normalized" by (cases normalized) (auto simp: contains_text_def list_ex_iff)
  with assms(2) have "(4 :: nat) \<in> set (map (\<lambda>p. if contains_text p normalized then 4 else 0) phrases)" by force
  then have "4 \<le> ?bonus" by (rule member_le_sum_list) simp
  then show ?thesis using assms(1,3-6) by (auto simp: score_card_def Let_def)
qed

subsection \<open>The budget of a session\<close>

text \<open>A sequence of calls, with what each of them returned or raised.\<close>

fun authorize_all :: "session_request list \<Rightarrow> capability_session \<Rightarrow> capability_session \<times> (exn + unit) list" where
  "authorize_all [] s = (s, [])"
| "authorize_all (q # qs) s =
     (case authorize q s of (s', r) \<Rightarrow> case authorize_all qs s' of (s'', rs) \<Rightarrow> (s'', r # rs))"

definition session_valid :: "capability_session \<Rightarrow> bool" where
  "session_valid s =
     (0 \<le> cs_calls s \<and> cs_calls s \<le> cs_maximum_calls s \<and> 0 \<le> cs_bytes s \<and> cs_bytes s \<le> cs_maximum_total_bytes s)"

text \<open>What a granted call was checked against.\<close>

definition within_session :: "capability_session \<Rightarrow> session_request \<Rightarrow> bool" where
  "within_session s q =
     (sq_now q < instant_of (cs_expires_at s) \<and> sq_plan_fingerprint q = cs_plan_fingerprint s
      \<and> (\<exists>c \<in> set (cs_cards s). sq_identity q = card_identity c))"

definition same_grant :: "capability_session \<Rightarrow> capability_session \<Rightarrow> bool" where
  "same_grant s s' = (s'\<lparr>cs_calls := cs_calls s, cs_bytes := cs_bytes s\<rparr> = s)"

definition spent :: "session_request \<Rightarrow> exn + unit \<Rightarrow> int" where
  "spent q r = (case r of Inl _ \<Rightarrow> 0 | Inr _ \<Rightarrow> json_scalar_bytes (JObj (sq_payload q)))"

lemma authorize_cases:
  assumes "authorize q s = (s', r)" and "session_valid s"
  shows "r \<noteq> Inr () \<and> s' = s \<or>
    r = Inr () \<and> within_session s q
      \<and> s' = s\<lparr>cs_calls := cs_calls s + 1, cs_bytes := cs_bytes s + json_scalar_bytes (JObj (sq_payload q))\<rparr>
      \<and> cs_calls s + 1 \<le> cs_maximum_calls s
      \<and> cs_bytes s + json_scalar_bytes (JObj (sq_payload q)) \<le> cs_maximum_total_bytes s"
proof -
  have m: "0 \<le> cs_maximum_total_bytes s" using assms(2) by (simp add: session_valid_def)
  show ?thesis
    using assms(1) unfolding authorize_def within_session_def
    by (auto simp: sbind_Inr checked_Inr measure_json_resources_Inr [OF m] fail_if_def
        simp del: json_scalar_bytes.simps split: sum.splits if_splits)
qed

lemma same_grant_simps:
  assumes "same_grant s s'"
  shows "within_session s' = within_session s" "cs_maximum_calls s' = cs_maximum_calls s"
    "cs_maximum_total_bytes s' = cs_maximum_total_bytes s"
proof -
  have "cs_maximum_calls (s'\<lparr>cs_calls := cs_calls s, cs_bytes := cs_bytes s\<rparr>) = cs_maximum_calls s'"
    "cs_maximum_total_bytes (s'\<lparr>cs_calls := cs_calls s, cs_bytes := cs_bytes s\<rparr>) = cs_maximum_total_bytes s'"
    "within_session (s'\<lparr>cs_calls := cs_calls s, cs_bytes := cs_bytes s\<rparr>) = within_session s'"
    by (simp_all add: within_session_def fun_eq_iff)
  then show "within_session s' = within_session s" "cs_maximum_calls s' = cs_maximum_calls s"
    "cs_maximum_total_bytes s' = cs_maximum_total_bytes s"
    using assms unfolding same_grant_def by simp_all
qed

lemma same_grant_refl [simp]: "same_grant s s"
  by (simp add: same_grant_def)

lemma same_grant_step: "same_grant (s\<lparr>cs_calls := a, cs_bytes := b\<rparr>) s' \<Longrightarrow> same_grant s s'"
  by (cases s; cases s') (simp add: same_grant_def)

lemma authorize_all_budget:
  assumes "session_valid s" and "authorize_all qs s = (s', rs)"
  shows "session_valid s' \<and> same_grant s s'
    \<and> list_all2 (\<lambda>q r. r = Inr () \<longrightarrow> within_session s q) qs rs
    \<and> cs_calls s' = cs_calls s + int (length (filter (\<lambda>r. r = Inr ()) rs))
    \<and> cs_bytes s' = cs_bytes s + sum_list (map2 spent qs rs)"
  using assms
proof (induction qs arbitrary: s rs)
  case (Cons q qs)
  obtain s1 r where a: "authorize q s = (s1, r)" by fastforce
  with Cons.prems(2) obtain rs' where b: "authorize_all qs s1 = (s', rs')" "rs = r # rs'"
    by (auto split: prod.splits)
  from authorize_cases [OF a Cons.prems(1)] show ?case
  proof (elim disjE conjE)
    assume "r \<noteq> Inr ()" "s1 = s"
    moreover then obtain e where "r = Inl e" by (cases r) auto
    ultimately show ?thesis using Cons.IH [of s rs'] Cons.prems(1) b by (simp add: spent_def)
  next
    assume r: "r = Inr ()" and w: "within_session s q"
      and s1: "s1 = s\<lparr>cs_calls := cs_calls s + 1, cs_bytes := cs_bytes s + json_scalar_bytes (JObj (sq_payload q))\<rparr>"
      and "cs_calls s + 1 \<le> cs_maximum_calls s"
        "cs_bytes s + json_scalar_bytes (JObj (sq_payload q)) \<le> cs_maximum_total_bytes s"
    then have v: "session_valid s1" using Cons.prems(1) json_scalar_bytes_nonneg
      by (simp add: session_valid_def del: json_scalar_bytes.simps)
    have "same_grant s s1" unfolding s1 by (simp add: same_grant_def)
    then have "within_session s1 = within_session s" by (rule same_grant_simps)
    with Cons.IH [OF v b(1)] same_grant_step s1 r w b(2) show ?thesis
      by (auto simp: spent_def simp del: json_scalar_bytes.simps)
  qed
qed simp

end
