(* ===== verification/Run_Samples.thy ===== *)
theory Run_Samples
  imports Runtime_Samples Run_Invariants Compensation Capability_Routing
begin

text \<open>
  A run on concrete inputs: a mock connector that counts its executions in the world, an orchestrator
  with the sample policy, and the run of the bound sample plan, which executes and verifies its read. A routing
  card with a session over it, and a report whose effect can be undone.
\<close>

definition sample_execution :: "agent_action \<Rightarrow> execution_result" where
  "sample_execution a =
     \<lparr>er_action_id = ac_action_id a, er_state = SUCCEEDED, er_before = None, er_after = None,
      er_connector_reference = None, er_message = [], er_compensation = None,
      er_before_digest = [], er_after_digest = []\<rparr>"

definition sample_connector :: "nat connector" where
  "sample_connector =
     \<lparr>k_mock = True, k_config = (\<lambda>w. no_config), k_limits = (\<lambda>w. None),
      k_execute = (\<lambda>a w. (Inr (ReturnedResult (projr (mk_result sample_host (sample_execution a)))), w + 1)),
      k_verify = (\<lambda>a r w. (Inr \<lparr>vr_action_id = ac_action_id a, vr_verified = True, vr_observed = None, vr_message = ''ok''\<rparr>, w)),
      k_verify_completed = None, k_idempotency_record = None, k_compensate = None\<rparr>"

definition sample_orchestrator :: "nat orchestrator" where
  "sample_orchestrator =
     \<lparr>or_host = sample_host, or_policy = sample_engine, or_sources = [],
      or_connectors = projr (register_all
        [\<lparr>ce_system = ''jira'', ce_capabilities = [''jira.search''], ce_handle = sample_connector\<rparr>] []),
      or_capabilities = None, or_governance = None, or_pre_effect_guard = None, or_observer = None,
      or_clock = (\<lambda>t. 5), or_timestamp = (\<lambda>t. ''t''), or_token = (\<lambda>t. ''tok''),
      or_storage_fault = (\<lambda>t. None)\<rparr>"

definition sample_start :: "nat run_state" where
  "sample_start = initial_state 0 (audit_initialize created_db)"

lemma sample_snapshot: "execution_snapshot sample_host sample_bound = Inr sample_bound"
  by code_simp

lemma sample_admission:
  "enforce_systems_governance sample_host default_gate sample_bound (Some sample_engine) [] False 5 = Inr sample_gate"
  "strategy_coherence_execution_authenticated sample_host sample_bound (Some sample_engine) [] 5 = Inr True"
  by code_simp+

lemma sample_admitted:
  "admit_plan sample_orchestrator sample_bound [] False s =
     (Inr (sample_bound, sample_assessment, sample_gate, False), s\<lparr>rs_tick := rs_tick s + 2\<rparr>)"
proof -
  have "or_host sample_orchestrator = sample_host" "or_policy sample_orchestrator = sample_engine"
    "or_clock sample_orchestrator = (\<lambda>t. 5)" "cp_systems_assessment sample_bound = Some sample_assessment"
    by (simp_all add: sample_orchestrator_def sample_bound_def)
  then show ?thesis
    by (simp add: admit_plan_def Let_def ebind_def elift_def read_clock_def eret_def sample_snapshot sample_admission)
qed

definition sample_running :: run_context where
  "sample_running = \<lparr>cx_run_id = sample_uuid (CHR ''e''), cx_plan = sample_bound, cx_approvals = [],
     cx_dry_run = False, cx_coherence_required = False\<rparr>"

text \<open>The body of the loop reaches the connector: the read is executed and then verified.\<close>

lemma sample_processed:
  "rs_calls (snd (process_action sample_orchestrator sample_running sample_action sample_start))
     = [ExecuteCall sample_action, VerifyCall sample_action]"
  by code_simp

text \<open>A plan with one write whose key has a completed outcome.\<close>

definition sample_settled :: audit_db where
  "sample_settled = (audit_initialize created_db)\<lparr>db_claims := [''k1'' \<mapsto>
     \<lparr>cr_plan_id = sample_uuid (CHR ''b''), cr_action_id = sample_uuid (CHR ''a''), cr_fingerprint = None,
      cr_status = Completed, cr_token = None, cr_result = JObj [], cr_claimed_at = None, cr_completed_at = ''t''\<rparr>]\<rparr>"

lemma sample_change_snapshot: "execution_snapshot sample_host sample_change = Inr sample_change"
  by code_simp

definition sample_trail :: audit_db where
  "sample_trail = fst (audit_record sample_digest ''t'' (sample_uuid (CHR ''e'')) (sample_uuid (CHR ''b'')) None ''opened''
     (JObj []) (audit_initialize created_db))"

definition sample_card :: capability_card where
  "sample_card =
     \<lparr>cc_capability_id = ''jira.search'', cc_version = ''1.0.0'', cc_manifest_sha256 = replicate 64 (CHR ''0''),
      cc_risk = READ_ONLY, cc_intents = [''search issues''], cc_negative_intents = [''archive''],
      cc_data_classification = INTERNAL\<rparr>"

definition sample_route :: routing_decision where
  "sample_route = projr (route_intent sample_host ''search issues'' [sample_card] (\<lambda>c. True) 3)"

lemma sample_routed: "route_intent sample_host ''search issues'' [sample_card] (\<lambda>c. True) 3 = Inr sample_route"
  by code_simp

definition sample_session :: capability_session where
  "sample_session =
     \<lparr>cs_plan_fingerprint = replicate 64 (CHR ''0''), cs_cards = [sample_card], cs_expires_at = sample_time 10,
      cs_maximum_calls = 1, cs_maximum_total_bytes = 100, cs_calls = 0, cs_bytes = 0\<rparr>"

definition sample_request :: session_request where
  "sample_request =
     \<lparr>sq_plan_fingerprint = replicate 64 (CHR ''0''), sq_identity = card_identity sample_card,
      sq_payload = [(''jql'', JStr ''x'')], sq_now = 5\<rparr>"

definition sample_descriptor :: compensation_descriptor where
  "sample_descriptor =
     \<lparr>cd_kind = ''undo'', cd_mode = PLAN, cd_capability = Some ''jira.undo'', cd_parameters = [],
      cd_expected_version = None, cd_target_resource_id = None, cd_reason = None, cd_schema = compensation_schema\<rparr>"

definition sample_report :: run_report where
  "sample_report =
     \<lparr>rn_run_id = sample_uuid (CHR ''e''), rn_plan_id = sample_uuid (CHR ''b''), rn_plan_fingerprint = [],
      rn_dry_run = False,
      rn_actions = [(plain_report sample_write VERIFIED ''ok'')
        \<lparr>rp_result := Some ((sample_execution sample_write)\<lparr>er_compensation := Some sample_descriptor\<rparr>)\<rparr>],
      rn_systems_review = None, rn_performance = None\<rparr>"

text \<open>The effect of the report is undone by one action.\<close>

lemma sample_reversed:
  "map_sum id (map_prod length length)
     (reverse_actions sample_host sample_change (\<lambda>n. sample_uuid (CHR ''d'')) 0 None (rev (rn_actions sample_report)))
   = Inr (1, 0)"
  by code_simp

end
