(* ===== verification/Sqlite.thy ===== *)
theory Sqlite
  imports Host
begin

text \<open>
  What the stores of the runtime see of an SQLite database: the value of a cell, and the rows of
  \<open>sqlite_master\<close> with the columns that \<open>PRAGMA table_info\<close> reports. The splitting and joining of text at
  white space, by which the sources compare table definitions, is here too.
\<close>

datatype sql_value = SqlNull | SqlInt int | SqlReal string | SqlText string | SqlBlob string

record schema_column =
  col_name :: string
  col_type :: string
  col_notnull :: int
  col_default :: sql_value
  col_pk :: int

record schema_object =
  so_type :: string
  so_name :: string
  so_sql :: sql_value
  so_columns :: "schema_column list"

definition ascii_lower :: "char \<Rightarrow> char" where
  "ascii_lower c = (if 65 \<le> (of_char c :: nat) \<and> (of_char c :: nat) \<le> 90 then char_of (of_char c + 32 :: nat) else c)"

text \<open>\<open>name NOT LIKE 'sqlite_%'\<close>: the underscore matches one character, and letters match in either case.\<close>

definition user_object :: "schema_object \<Rightarrow> bool" where
  "user_object ob = (\<not> (7 \<le> py_len (so_name ob) \<and> map ascii_lower (take 6 (so_name ob)) = ''sqlite''))"

text \<open>\<open>PRAGMA table_info(name)\<close>: the columns of the table, nothing when it is missing.\<close>

definition table_info :: "string \<Rightarrow> schema_object list \<Rightarrow> schema_column list" where
  "table_info name obs =
     (case find (\<lambda>ob. so_type ob = ''table'' \<and> so_name ob = name) obs of None \<Rightarrow> [] | Some ob \<Rightarrow> so_columns ob)"

text \<open>\<open>value.split()\<close>, with the word read so far.\<close>

fun split_words :: "string \<Rightarrow> string list \<Rightarrow> string list" where
  "split_words w [] = (if w = [] then [] else [w])"
| "split_words w (c # cs) =
     (if space_chunk c then (if w = [] then [] else [w]) @ split_words [] cs else split_words (w @ c) cs)"

definition py_split :: "string \<Rightarrow> string list" where
  "py_split s = split_words [] (chunks s)"

end
