(* ===== verification/Work_Memory.thy ===== *)
theory Work_Memory
  imports Sqlite Ascii_Json "HOL-Library.Sublist"
begin

text \<open>
  The journal of \<open>work_memory.py\<close>: an SQLite table of hash-chained events about work records and one
  checkpoint row with their number and the last hash. Every operation replays the whole journal
  first. An operation maps a database to the committed database and its result; a raise rolls the transaction
  back. The random identifier and the clock reading of a new event are arguments.
\<close>

subsection \<open>Stages, kinds and events\<close>

datatype work_stage = Issue | Planned | Implementing | Reviewing | StageVerified | Merged

datatype work_event_kind = Started | Decision | CheckpointKind | ReferenceKind

fun stage_value :: "work_stage \<Rightarrow> string" where
  "stage_value Issue = ''issue''"
| "stage_value Planned = ''planned''"
| "stage_value Implementing = ''implementing''"
| "stage_value Reviewing = ''reviewing''"
| "stage_value StageVerified = ''verified''"
| "stage_value Merged = ''merged''"

fun kind_value :: "work_event_kind \<Rightarrow> string" where
  "kind_value Started = ''started''"
| "kind_value Decision = ''decision''"
| "kind_value CheckpointKind = ''checkpoint''"
| "kind_value ReferenceKind = ''reference''"

definition work_stages :: "work_stage list" where
  "work_stages = [Issue, Planned, Implementing, Reviewing, StageVerified, Merged]"

definition work_kinds :: "work_event_kind list" where
  "work_kinds = [Started, Decision, CheckpointKind, ReferenceKind]"

text \<open>\<open>{stage: index for index, stage in enumerate(WorkStage)}\<close>\<close>

fun stage_order :: "work_stage \<Rightarrow> nat" where
  "stage_order Issue = 0"
| "stage_order Planned = 1"
| "stage_order Implementing = 2"
| "stage_order Reviewing = 3"
| "stage_order StageVerified = 4"
| "stage_order Merged = 5"

record work_event =
  we_sequence :: int
  we_event_id :: uuid
  we_timestamp :: py_datetime
  we_work_id :: string
  we_kind :: work_event_kind
  we_stage :: work_stage
  we_summary :: string
  we_reference :: "string option"
  we_previous_hash :: digest
  we_event_hash :: digest

record work_snapshot =
  ws_work_id :: string
  ws_issue_reference :: string
  ws_initial_summary :: string
  ws_stage :: work_stage
  ws_events :: "work_event list"
  ws_journal_event_count :: nat
  ws_journal_head_hash :: digest

record work_verification =
  wv_valid :: bool
  wv_message :: string
  wv_event_count :: nat
  wv_work_count :: nat
  wv_head_hash :: digest

record work_replay =
  rp_events :: "work_event list"
  rp_by_work :: "(string \<times> work_event list) list"
  rp_head_hash :: digest

definition genesis_hash :: digest where
  "genesis_hash = ''GENESIS''"

abbreviation memory_error :: "string \<Rightarrow> exn" where
  "memory_error m \<equiv> Exn WorkMemoryError m"

definition event_to_dict :: "host \<Rightarrow> work_event \<Rightarrow> json_object" where
  "event_to_dict h e =
     [(''sequence'', JInt (we_sequence e)), (''event_id'', JStr (we_event_id e)),
      (''timestamp'', JStr (h_isoformat h (we_timestamp e))), (''work_id'', JStr (we_work_id e)),
      (''kind'', JStr (kind_value (we_kind e))), (''stage'', JStr (stage_value (we_stage e))),
      (''summary'', JStr (we_summary e)), (''reference'', optional JStr (we_reference e)),
      (''previous_hash'', JStr (we_previous_hash e)), (''event_hash'', JStr (we_event_hash e))]"

definition work_snapshot_to_dict :: "host \<Rightarrow> work_snapshot \<Rightarrow> json_object" where
  "work_snapshot_to_dict h s =
     [(''schema'', JStr ''master-agent/work-memory@1''), (''untrusted_metadata'', JBool True),
      (''work_id'', JStr (ws_work_id s)), (''issue_reference'', JStr (ws_issue_reference s)),
      (''initial_summary'', JStr (ws_initial_summary s)), (''stage'', JStr (stage_value (ws_stage s))),
      (''event_count'', JInt (int (length (ws_events s)))),
      (''journal_event_count'', JInt (int (ws_journal_event_count s))),
      (''journal_head_hash'', JStr (ws_journal_head_hash s)),
      (''events'', JList (map (\<lambda>e. JObj (event_to_dict h e)) (ws_events s)))]"

definition work_verification_to_dict :: "work_verification \<Rightarrow> json_object" where
  "work_verification_to_dict v =
     [(''schema'', JStr ''master-agent/work-memory-verification@1''), (''valid'', JBool (wv_valid v)),
      (''message'', JStr (wv_message v)), (''event_count'', JInt (int (wv_event_count v))),
      (''work_count'', JInt (int (wv_work_count v))), (''head_hash'', JStr (wv_head_hash v))]"

subsection \<open>Field validation\<close>

definition max_events :: nat where "max_events = 1024"

definition sensitive_text_alternatives :: "string list" where
  "sensitive_text_alternatives =
    [
     ''-----BEGIN [A-Z ]*PRIVATE KEY(?: BLOCK)?-----'',
     [backslash] @ ''b(?:proxy-)?authorization['' @ [backslash] @ [quote_char] @ [CHR 0x27] @ '']?''
      @ [backslash] @ ''s*:'' @ [backslash] @ ''s*['' @ [backslash] @ [quote_char] @ [CHR 0x27]
      @ '']?'' @ [backslash] @ ''S+(?:'' @ [backslash] @ ''s+'' @ [backslash] @ ''S+)?'',
     [backslash] @ ''b(?:set-cookie|cookie)['' @ [backslash] @ [quote_char] @ [CHR 0x27] @ '']?''
      @ [backslash] @ ''s*:'' @ [backslash] @ ''s*['' @ [backslash] @ [quote_char] @ [CHR 0x27]
      @ '']?'' @ [backslash] @ ''S+'',
     [backslash] @ ''b(?:auth|identitytoken|registrytoken)['' @ [backslash] @ [quote_char] @ [CHR 0x27]
      @ '']'' @ [backslash] @ ''s*:'' @ [backslash] @ ''s*['' @ [backslash] @ [quote_char] @ [CHR 0x27]
      @ '']'' @ [backslash] @ ''S+'',
     [backslash] @ ''b[a-z][a-z0-9+.-]*://[^'' @ [backslash] @ ''s/@]+@'',
     [backslash] @ ''bhttps?://'' @ [backslash]
      @ ''S*[?&](?:sig|signature|x-amz-(?:signature|credential)|x-goog-(?:signature|credential)|googleaccessid)=[^&#''
      @ [backslash] @ ''s]+'',
     [backslash] @ ''b(?:machine'' @ [backslash] @ ''s+'' @ [backslash] @ ''S+|default)'' @ [backslash]
      @ ''b(?=[^'' @ [backslash] @ ''r'' @ [backslash] @ ''n]*'' @ [backslash] @ ''bpassword''
      @ [backslash] @ ''s+'' @ [backslash] @ ''S+)[^'' @ [backslash] @ ''r'' @ [backslash] @ ''n]*''
      @ [backslash] @ ''bpassword'' @ [backslash] @ ''s+'' @ [backslash] @ ''S+'',
     [backslash] @ ''bbasic'' @ [backslash] @ ''s+(?=[A-Za-z0-9+/=]{8,}(?:'' @ [backslash]
      @ ''s|$))(?=[A-Za-z0-9+/=]*(?-i:[A-Z0-9+/=]))(?:[A-Za-z0-9+/]{4}){2,}(?:[A-Za-z0-9+/]{2}==|[A-Za-z0-9+/]{3}=)?(?=''
      @ [backslash] @ ''s|$)'',
     [backslash] @ ''bdigest'' @ [backslash]
      @ ''s+(?:username|realm|nonce|uri|response|opaque|algorithm|qop|nc|cnonce)'' @ [backslash]
      @ ''s*='',
     [backslash] @ ''baws4-hmac-sha256'' @ [backslash] @ ''s+credential'' @ [backslash] @ ''s*='',
     [backslash] @ ''bbearer'' @ [backslash] @ ''s+(?=[A-Za-z0-9._~+/=-]{16,}(?:'' @ [backslash]
      @ ''s|$))(?=[A-Za-z0-9._~+/=-]*(?-i:[A-Z0-9._~+/-]))[A-Za-z0-9._~+/-]{16,}=*(?='' @ [backslash]
      @ ''s|$)'',
     [backslash]
      @ ''b_?(?:[A-Za-z][A-Za-z0-9_-]*[_-])?(?:password|passwd|api[_-]?key|private[_-]?key|client[_-]?secret|client[_-]?key[_-]?data|access[_-]?token|refresh[_-]?token|id[_-]?token|auth[_-]?token|secret|token)[''
      @ [backslash] @ [quote_char] @ [CHR 0x27] @ '']?'' @ [backslash] @ ''s*[:=]'' @ [backslash]
      @ ''s*['' @ [backslash] @ [quote_char] @ [CHR 0x27] @ '']?'' @ [backslash] @ ''S+'',

      ''<(?:[A-Za-z][A-Za-z0-9_.-]*:)?(?:password|passwd|api[_-]?key|private[_-]?key|client[_-]?secret|access[_-]?token|refresh[_-]?token|id[_-]?token|auth[_-]?token|secret|token)''
      @ [backslash] @ ''b[^>]*>[^<]+</'',

      ''--(?:password|passwd|api[_-]?key|private[_-]?key|client[_-]?secret|access[_-]?token|refresh[_-]?token|id[_-]?token|auth[_-]?token|secret|token)''
      @ [backslash] @ ''s+'' @ [backslash] @ ''S+'',
     ''(?<![A-Za-z0-9_])_auth['' @ [backslash] @ [quote_char] @ [CHR 0x27] @ '']?'' @ [backslash]
      @ ''s*[:=]'' @ [backslash] @ ''s*['' @ [backslash] @ [quote_char] @ [CHR 0x27] @ '']?''
      @ [backslash] @ ''S+'',
     [backslash] @ ''b(?:pgpassword|mysql_pwd|rediscli_auth)['' @ [backslash] @ [quote_char]
      @ [CHR 0x27] @ '']?'' @ [backslash] @ ''s*[:=]'' @ [backslash] @ ''s*['' @ [backslash]
      @ [quote_char] @ [CHR 0x27] @ '']?'' @ [backslash] @ ''S+'',
     [backslash]
      @ ''b(?:aws_(?:access_key_id|secret_access_key|session_token)|azure_client_secret|accountkey|sharedaccesssignature)[''
      @ [backslash] @ [quote_char] @ [CHR 0x27] @ '']?'' @ [backslash] @ ''s*[:=]'' @ [backslash]
      @ ''s*['' @ [backslash] @ [quote_char] @ [CHR 0x27] @ '']?'' @ [backslash] @ ''S+'',
     [backslash] @ ''b(?:AKIA|ASIA|AIDA|AROA)[A-Z0-9]{16}'' @ [backslash] @ ''b'',
     [backslash] @ ''bAGE-SECRET-KEY-1[0-9A-Z]{20,}'' @ [backslash] @ ''b'',
     [backslash] @ ''bAIza[A-Za-z0-9_-]{32,}'' @ [backslash] @ ''b'',
     [backslash] @ ''bxox[baprs]-[A-Za-z0-9-]{8,}'' @ [backslash] @ ''b'',
     [backslash] @ ''bxapp-[A-Za-z0-9-]{20,}'' @ [backslash] @ ''b'',
     [backslash] @ ''bnpm_[A-Za-z0-9]{20,}'' @ [backslash] @ ''b'',
     [backslash] @ ''beyJ[A-Za-z0-9_-]{5,}'' @ [backslash] @ ''.[A-Za-z0-9_-]{5,}'' @ [backslash]
      @ ''.[A-Za-z0-9_-]{8,}'' @ [backslash] @ ''b'',
     [backslash]
      @ ''b(?:gh[pousr]_|github_pat_|sk-proj-|sk_(?:live|test)_|rk_(?:live|test)_|whsec_)[A-Za-z0-9_-]{8,}'',
     [backslash] @ ''bsk-[A-Za-z0-9_-]{20,}'' @ [backslash] @ ''b'',
     [backslash] @ ''bhv[sbr]'' @ [backslash] @ ''.[A-Za-z0-9_-]{16,}'' @ [backslash] @ ''b'',
     [backslash] @ ''bya29'' @ [backslash] @ ''.[A-Za-z0-9_-]{20,}'' @ [backslash] @ ''b'',
     [backslash] @ ''b(?:glpat|glptt|glrt|glcbt|glimt|glsoat|glagent|gloas|gldt)-[A-Za-z0-9_-]{16,}''
      @ [backslash] @ ''b'',
     [backslash]
      @ ''b(?:hf_|lin_api_|gsk_|dop_v1_|doo_v1_|dor_v1_|shpat_|shpca_|shppa_|shpss_|sntrys_|ops_|dckr_pat_|PMAK-)[A-Za-z0-9_-]{16,}''
      @ [backslash] @ ''b'',
     [backslash] @ ''bdapi[A-Fa-f0-9]{24,}'' @ [backslash] @ ''b'',
     [backslash] @ ''bpypi-[A-Za-z0-9_-]{20,}'' @ [backslash] @ ''b'',
     [backslash] @ ''bSG'' @ [backslash] @ ''.[A-Za-z0-9_-]{16,}'' @ [backslash]
      @ ''.[A-Za-z0-9_-]{16,}'' @ [backslash] @ ''b'',
     [backslash] @ ''batlasv1'' @ [backslash] @ ''.[A-Za-z0-9_-]{16,}'' @ [backslash] @ ''b'']"

definition sensitive_text_pattern :: string where
  "sensitive_text_pattern = ''(?:'' @ py_join ''|'' sensitive_text_alternatives @ '')''"

definition sensitive :: "host \<Rightarrow> string \<Rightarrow> bool" where
  "sensitive h s = (h_search h sensitive_text_pattern s \<noteq> None)"

definition ascii_alnum :: "char \<Rightarrow> bool" where
  "ascii_alnum c =
     (let n = (of_char c :: nat) in 48 \<le> n \<and> n \<le> 57 \<or> 65 \<le> n \<and> n \<le> 90 \<or> 97 \<le> n \<and> n \<le> 122)"

definition work_id_match :: "string \<Rightarrow> bool" where
  "work_id_match s =
     (case s of
        [] \<Rightarrow> False
      | c # cs \<Rightarrow> ascii_alnum c \<and> list_all (\<lambda>d. ascii_alnum d \<or> d \<in> set ''._:/#-'') cs)"

text \<open>\<open>len(value.encode("utf-8")) > limit\<close>; the encoding of a lone surrogate raises a \<open>ValueError\<close> too.\<close>

definition encoded_longer :: "nat \<Rightarrow> string \<Rightarrow> bool" where
  "encoded_longer limit s = (case utf8_length s of None \<Rightarrow> True | Some n \<Rightarrow> limit < n)"

definition validate_work_id :: "host \<Rightarrow> string \<Rightarrow> exn + string" where
  "validate_work_id h s =
     (if s = [] \<or> \<not> trimmed s \<or> encoded_longer 128 s \<or> \<not> work_id_match s \<or> sensitive h s
      then Inl (Exn ValueError ''work ID is invalid'') else Inr s)"

definition validate_text :: "host \<Rightarrow> string \<Rightarrow> nat \<Rightarrow> string \<Rightarrow> exn + string" where
  "validate_text h label max_bytes s =
     (if s = [] \<or> \<not> trimmed s \<or> encoded_longer max_bytes s \<or> list_ex is_control (code_points s) \<or> sensitive h s
      then Inl (Exn ValueError (''work-memory '' @ label @ '' is invalid or sensitive'')) else Inr s)"

definition validate_summary :: "host \<Rightarrow> string \<Rightarrow> exn + string" where
  "validate_summary h s = validate_text h ''summary'' 2048 s"

definition unsafe_url :: "url_parts \<Rightarrow> bool" where
  "unsafe_url u =
     (url_scheme u \<noteq> ''https'' \<or> url_netloc u = [] \<or> url_username u \<noteq> None \<or> url_password u \<noteq> None
      \<or> url_query u \<noteq> [] \<or> url_fragment u \<noteq> [])"

definition validate_reference :: "host \<Rightarrow> string \<Rightarrow> string \<Rightarrow> exn + string" where
  "validate_reference h label s =
     sbind (validate_text h label 1024 s) (\<lambda>selected.
     case h_urlsplit h selected of
       None \<Rightarrow> Inl (Exn ValueError ''invalid URL'')
     | Some parsed \<Rightarrow>
         if sublist ''://'' selected \<and> unsafe_url parsed
         then Inl (Exn ValueError (label @ '' URL is unsafe'')) else Inr selected)"

definition validate_start_fields :: "host \<Rightarrow> string \<Rightarrow> string \<Rightarrow> string \<Rightarrow> exn + string \<times> string \<times> string" where
  "validate_start_fields h work_id issue_text summary =
     sbind (validate_work_id h work_id) (\<lambda>i.
     sbind (validate_reference h ''issue reference'' issue_text) (\<lambda>r.
     sbind (validate_summary h summary) (\<lambda>s. Inr (i, r, s))))"

definition is_chain_hash :: "string \<Rightarrow> bool \<Rightarrow> bool" where
  "is_chain_hash s allow_genesis = (allow_genesis \<and> s = genesis_hash \<or> is_sha256 s)"

subsection \<open>The event hash\<close>

definition work_event_material :: "host \<Rightarrow> work_event \<Rightarrow> string" where
  "work_event_material h e =
     ascii_json (JObj
       [(''schema'', JStr ''master-agent/work-memory-event@1''), (''sequence'', JInt (we_sequence e)),
        (''event_id'', JStr (we_event_id e)), (''timestamp'', JStr (h_isoformat h (we_timestamp e))),
        (''work_id'', JStr (we_work_id e)), (''kind'', JStr (kind_value (we_kind e))),
        (''stage'', JStr (stage_value (we_stage e))), (''summary'', JStr (we_summary e)),
        (''reference'', optional JStr (we_reference e)), (''previous_hash'', JStr (we_previous_hash e))])"

definition work_event_hash :: "host \<Rightarrow> work_event \<Rightarrow> digest" where
  "work_event_hash h e = h_sha256 h (work_event_material h e)"

subsection \<open>The database\<close>

text \<open>The key columns are SQLite row identifiers, which are integers; every other cell may hold any value.\<close>

record work_row =
  wr_sequence :: int
  wr_event_id :: sql_value
  wr_timestamp :: sql_value
  wr_work_id :: sql_value
  wr_kind :: sql_value
  wr_stage :: sql_value
  wr_summary :: sql_value
  wr_reference :: sql_value
  wr_previous_hash :: sql_value
  wr_event_hash :: sql_value

record work_state_row =
  st_id :: int
  st_event_count :: sql_value
  st_head_hash :: sql_value

record work_db =
  wd_version :: int
  wd_objects :: "schema_object list"
  wd_events :: "work_row list"
  wd_state :: "work_state_row list"

definition work_column :: "string \<times> string \<times> int \<times> int \<Rightarrow> schema_column" where
  "work_column c =
     (case c of (name, ty, notnull, pk) \<Rightarrow>
       \<lparr>col_name = name, col_type = ty, col_notnull = notnull, col_default = SqlNull, col_pk = pk\<rparr>)"

definition event_schema :: "schema_column list" where
  "event_schema = map work_column
     [(''sequence'', ''INTEGER'', 0, 1), (''event_id'', ''TEXT'', 1, 0), (''timestamp'', ''TEXT'', 1, 0),
      (''work_id'', ''TEXT'', 1, 0), (''kind'', ''TEXT'', 1, 0), (''stage'', ''TEXT'', 1, 0),
      (''summary'', ''TEXT'', 1, 0), (''reference'', ''TEXT'', 0, 0), (''previous_hash'', ''TEXT'', 1, 0),
      (''event_hash'', ''TEXT'', 1, 0)]"

definition state_schema :: "schema_column list" where
  "state_schema = map work_column
     [(''id'', ''INTEGER'', 0, 1), (''event_count'', ''INTEGER'', 1, 0), (''head_hash'', ''TEXT'', 1, 0)]"

definition work_events_table_sql :: "string list" where
  "work_events_table_sql =
     [''CREATE TABLE work_events ('', ''sequence INTEGER PRIMARY KEY,'', ''event_id TEXT NOT NULL,'',
      ''timestamp TEXT NOT NULL,'', ''work_id TEXT NOT NULL,'', ''kind TEXT NOT NULL,'',
      ''stage TEXT NOT NULL,'', ''summary TEXT NOT NULL,'', ''reference TEXT,'',
      ''previous_hash TEXT NOT NULL,'', ''event_hash TEXT NOT NULL'', '')'']"

definition work_state_table_sql :: "string list" where
  "work_state_table_sql =
     [''CREATE TABLE work_memory_state ('', ''id INTEGER PRIMARY KEY CHECK (id = 1),'',
      ''event_count INTEGER NOT NULL,'', ''head_hash TEXT NOT NULL'', '')'']"

text \<open>The statement as \<open>sqlite_master\<close> keeps it, without the blanks around it.\<close>

definition stored_sql :: "string list \<Rightarrow> string" where
  "stored_sql ls = py_join (CHR 0x0A # replicate 8 CHR '' '') ls"

definition normalize_schema_sql :: "string \<Rightarrow> string" where
  "normalize_schema_sql s = py_join '' '' (py_split s)"

definition user_tables :: "work_db \<Rightarrow> string list" where
  "user_tables db = map so_name (filter (\<lambda>ob. so_type ob = ''table'' \<and> user_object ob) (wd_objects db))"

definition user_schema_objects :: "work_db \<Rightarrow> (string \<times> string) list" where
  "user_schema_objects db = map (\<lambda>ob. (so_type ob, so_name ob)) (filter user_object (wd_objects db))"

text \<open>The table definitions with their text normalised, as a dictionary.\<close>

definition schema_definitions :: "work_db \<Rightarrow> (string \<times> string) list" where
  "schema_definitions db =
     concat (map (\<lambda>ob. case so_sql ob of SqlText s \<Rightarrow> [(so_name ob, normalize_schema_sql s)] | _ \<Rightarrow> [])
       (filter (\<lambda>ob. so_type ob = ''table'' \<and> user_object ob) (wd_objects db)))"

definition validate_work_schema :: "work_db \<Rightarrow> exn option" where
  "validate_work_schema db =
     first_error
       [fail_if (wd_version db \<noteq> 1) (memory_error ''work-memory schema version is incompatible''),
        fail_if (set (user_schema_objects db) \<noteq> {(''table'', ''work_events''), (''table'', ''work_memory_state'')})
          (memory_error ''work-memory schema tables are incompatible''),
        fail_if (set (foldl (\<lambda>d (k, v). dict_put k v d) [] (schema_definitions db))
            \<noteq> {(''work_events'', normalize_schema_sql (stored_sql work_events_table_sql)),
               (''work_memory_state'', normalize_schema_sql (stored_sql work_state_table_sql))})
          (memory_error ''work-memory schema definitions are incompatible''),
        fail_if (table_info ''work_events'' (wd_objects db) \<noteq> event_schema
            \<or> table_info ''work_memory_state'' (wd_objects db) \<noteq> state_schema)
          (memory_error ''work-memory schema columns are incompatible'')]"

subsection \<open>Replay\<close>

definition decode_fields :: "host \<Rightarrow> string \<Rightarrow> string \<Rightarrow> string \<Rightarrow> string \<Rightarrow> string \<Rightarrow> string \<Rightarrow> string option
    \<Rightarrow> exn + uuid \<times> py_datetime \<times> work_event_kind \<times> work_stage \<times> string \<times> string \<times> string option"
where
  "decode_fields h event_id timestamp work_id kind stage summary reference =
     sbind (parse_uuid h event_id) (\<lambda>u.
     if u \<noteq> event_id then Inl (Exn ValueError []) else
     sbind (parse_datetime h timestamp) (\<lambda>d.
     if dt_offset d \<noteq> Some 0 then Inl (Exn ValueError []) else
     if h_isoformat h d \<noteq> timestamp then Inl (Exn ValueError []) else
     sbind (parse_enum (map (\<lambda>k. (kind_value k, k)) work_kinds) kind) (\<lambda>k.
     sbind (parse_enum (map (\<lambda>s. (stage_value s, s)) work_stages) stage) (\<lambda>st.
     sbind (validate_work_id h work_id) (\<lambda>w.
     sbind (validate_summary h summary) (\<lambda>s.
     sbind (case reference of None \<Rightarrow> Inr None | Some r \<Rightarrow> sbind (validate_reference h ''reference'' r) (\<lambda>r'. Inr (Some r')))
       (\<lambda>r. Inr (u, d, k, st, w, s, r))))))))"

definition at_sequence :: "string \<Rightarrow> nat \<Rightarrow> exn" where
  "at_sequence m n = memory_error (m @ '' at sequence '' @ nat_digits n)"

definition sql_reference :: "sql_value \<Rightarrow> string option option" where
  "sql_reference v = (case v of SqlNull \<Rightarrow> Some None | SqlText s \<Rightarrow> Some (Some s) | _ \<Rightarrow> None)"

definition decode_event :: "host \<Rightarrow> nat \<Rightarrow> work_row \<Rightarrow> exn + work_event" where
  "decode_event h expected row =
     (if wr_sequence row \<noteq> int expected then Inl (at_sequence ''event sequence gap'' expected) else
      case (wr_event_id row, wr_timestamp row, wr_work_id row, wr_kind row, wr_stage row, wr_summary row,
            sql_reference (wr_reference row)) of
        (SqlText i, SqlText t, SqlText w, SqlText k, SqlText st, SqlText s, Some r) \<Rightarrow>
          (case decode_fields h i t w k st s r of
             Inl e \<Rightarrow> Inl (at_sequence ''malformed event row'' expected)
           | Inr (i', t', k', st', w', s', r') \<Rightarrow>
               (case (wr_previous_hash row, wr_event_hash row) of
                  (SqlText p, SqlText x) \<Rightarrow>
                    if is_chain_hash p True \<and> is_chain_hash x False
                    then Inr \<lparr>we_sequence = wr_sequence row, we_event_id = i', we_timestamp = t', we_work_id = w',
                      we_kind = k', we_stage = st', we_summary = s', we_reference = r',
                      we_previous_hash = p, we_event_hash = x\<rparr>
                    else Inl (at_sequence ''malformed event hash'' expected)
                | _ \<Rightarrow> Inl (at_sequence ''malformed event hash'' expected)))
      | _ \<Rightarrow> Inl (at_sequence ''malformed event row'' expected))"

definition validate_lifecycle_event :: "work_event \<Rightarrow> work_event list \<Rightarrow> exn option" where
  "validate_lifecycle_event e existing =
     (let failed = (\<lambda>m. at_sequence m (nat (we_sequence e))) in
      if existing = []
      then fail_if (we_kind e \<noteq> Started \<or> we_stage e \<noteq> Issue \<or> we_reference e = None)
             (failed ''work record does not start correctly'')
      else
        (let previous = we_stage (last existing);
             difference = int (stage_order (we_stage e)) - int (stage_order previous) in
         first_error
           [fail_if (we_kind e = Started) (failed ''duplicate work start''),
            fail_if (we_kind e = ReferenceKind \<and> we_reference e = None) (failed ''reference is missing''),
            fail_if (previous = Merged) (failed ''event follows merge''),
            fail_if (difference < 0) (failed ''stage regresses''),
            fail_if (difference > 1) (failed ''stage skips'')]))"

definition by_work :: "(string \<times> work_event list) list \<Rightarrow> string \<Rightarrow> work_event list" where
  "by_work d w = (case map_of d w of None \<Rightarrow> [] | Some es \<Rightarrow> es)"

text \<open>One round of the loop: the events read so far and the row at the expected position.\<close>

definition replay_row :: "host \<Rightarrow> work_replay \<Rightarrow> work_row \<Rightarrow> exn + work_replay" where
  "replay_row h rp row =
     (let n = length (rp_events rp) + 1 in
      sbind (decode_event h n row) (\<lambda>e.
      if we_event_id e \<in> we_event_id ` set (rp_events rp) then Inl (at_sequence ''duplicate event ID'' n)
      else if we_previous_hash e \<noteq> rp_head_hash rp then Inl (at_sequence ''broken previous-hash link'' n)
      else if work_event_hash h e \<noteq> we_event_hash e then Inl (at_sequence ''event hash mismatch'' n)
      else
        (let work_events = by_work (rp_by_work rp) (we_work_id e) in
         case validate_lifecycle_event e work_events of
           Some x \<Rightarrow> Inl x
         | None \<Rightarrow> Inr \<lparr>rp_events = rp_events rp @ [e],
             rp_by_work = dict_put (we_work_id e) (work_events @ [e]) (rp_by_work rp),
             rp_head_hash = we_event_hash e\<rparr>)))"

fun replay_rows :: "host \<Rightarrow> work_replay \<Rightarrow> work_row list \<Rightarrow> exn + work_replay" where
  "replay_rows h rp [] = Inr rp"
| "replay_rows h rp (row # rows) = sbind (replay_row h rp row) (\<lambda>rp'. replay_rows h rp' rows)"

definition empty_replay :: work_replay where
  "empty_replay = \<lparr>rp_events = [], rp_by_work = [], rp_head_hash = genesis_hash\<rparr>"

definition checkpoint_of :: "work_state_row list \<Rightarrow> (int \<times> digest) option" where
  "checkpoint_of rows =
     (case rows of
        [row] \<Rightarrow>
          (case (st_id row = 1, st_event_count row, st_head_hash row) of
             (True, SqlInt n, SqlText x) \<Rightarrow> if n < 0 then None else Some (n, x)
           | _ \<Rightarrow> None)
      | _ \<Rightarrow> None)"

definition replay :: "host \<Rightarrow> bool \<Rightarrow> work_db \<Rightarrow> exn + work_replay" where
  "replay h allow_empty db =
     (let rows = take (max_events + 1) (sort_key wr_sequence (wd_events db)) in
      if max_events < length rows then Inl (memory_error ''work-memory event limit was exceeded'') else
      case checkpoint_of (wd_state db) of
        None \<Rightarrow> Inl (memory_error ''work-memory checkpoint is malformed'')
      | Some (checkpoint_count, checkpoint_hash) \<Rightarrow>
          if rows = [] \<and> \<not> allow_empty then Inl (memory_error ''work-memory journal contains no events'') else
          sbind (replay_rows h empty_replay rows) (\<lambda>rp.
          if checkpoint_count \<noteq> int (length (rp_events rp))
          then Inl (memory_error ''work-memory checkpoint count does not match history'')
          else if checkpoint_hash \<noteq> rp_head_hash rp
          then Inl (memory_error ''work-memory checkpoint head does not match history'')
          else Inr rp))"

definition work_snapshot_of :: "work_replay \<Rightarrow> string \<Rightarrow> exn + work_snapshot" where
  "work_snapshot_of rp work_id =
     (case map_of (rp_by_work rp) work_id of
        None \<Rightarrow> Inl (memory_error ''work record does not exist'')
      | Some es \<Rightarrow>
          (case we_reference (hd es) of
             None \<Rightarrow> Inl (memory_error ''work record issue reference is missing'')
           | Some issue_text \<Rightarrow>
               Inr \<lparr>ws_work_id = work_id, ws_issue_reference = issue_text, ws_initial_summary = we_summary (hd es),
                 ws_stage = we_stage (last es), ws_events = es,
                 ws_journal_event_count = length (rp_events rp), ws_journal_head_hash = rp_head_hash rp\<rparr>))"

subsection \<open>Appending\<close>

definition event_row_of :: "host \<Rightarrow> work_event \<Rightarrow> work_row" where
  "event_row_of h e =
     \<lparr>wr_sequence = we_sequence e, wr_event_id = SqlText (we_event_id e),
      wr_timestamp = SqlText (h_isoformat h (we_timestamp e)), wr_work_id = SqlText (we_work_id e),
      wr_kind = SqlText (kind_value (we_kind e)), wr_stage = SqlText (stage_value (we_stage e)),
      wr_summary = SqlText (we_summary e),
      wr_reference = (case we_reference e of None \<Rightarrow> SqlNull | Some r \<Rightarrow> SqlText r),
      wr_previous_hash = SqlText (we_previous_hash e), wr_event_hash = SqlText (we_event_hash e)\<rparr>"

text \<open>The random identifier and the time in UTC of a new event are arguments.\<close>

definition new_event ::
  "host \<Rightarrow> uuid \<Rightarrow> int \<Rightarrow> work_replay \<Rightarrow> string \<Rightarrow> work_event_kind \<Rightarrow> work_stage \<Rightarrow> string \<Rightarrow> string option \<Rightarrow> work_event"
where
  "new_event h event_id now rp work_id kind stage summary reference =
     (let e = \<lparr>we_sequence = int (length (rp_events rp)) + 1, we_event_id = event_id,
        we_timestamp = \<lparr>dt_wall = now, dt_offset = Some 0\<rparr>, we_work_id = work_id, we_kind = kind,
        we_stage = stage, we_summary = summary, we_reference = reference,
        we_previous_hash = rp_head_hash rp, we_event_hash = []\<rparr>
      in e\<lparr>we_event_hash := work_event_hash h e\<rparr>)"

text \<open>The compare-and-set update of the checkpoint row reaches the rows it selects; the source
  requires exactly one.\<close>

definition moves_checkpoint :: "work_event \<Rightarrow> work_state_row \<Rightarrow> bool" where
  "moves_checkpoint e row =
     (st_id row = 1 \<and> st_event_count row = SqlInt (we_sequence e - 1)
      \<and> st_head_hash row = SqlText (we_previous_hash e))"

definition append_event :: "host \<Rightarrow> work_replay \<Rightarrow> work_event \<Rightarrow> work_db \<Rightarrow> exn + work_db" where
  "append_event h rp e db =
     (if max_events \<le> length (rp_events rp)
      then Inl (memory_error ''work-memory event limit is exhausted'')
      else if list_ex (\<lambda>row. wr_sequence row = we_sequence e) (wd_events db)
      then Inl (Exn SqliteError ''UNIQUE constraint failed: work_events.sequence'')
      else if length (filter (moves_checkpoint e) (wd_state db)) \<noteq> 1
      then Inl (memory_error ''work-memory checkpoint changed concurrently'')
      else Inr (db\<lparr>wd_events := wd_events db @ [event_row_of h e],
        wd_state := map (\<lambda>row. if moves_checkpoint e row
           then row\<lparr>st_event_count := SqlInt (we_sequence e), st_head_hash := SqlText (we_event_hash e)\<rparr>
           else row) (wd_state db)\<rparr>))"

text \<open>What both operations do after the event was chosen: append, replay the journal again, take the
  snapshot and let the caller's validator refuse it.\<close>

definition append_and_show ::
  "host \<Rightarrow> work_replay \<Rightarrow> work_event \<Rightarrow> (work_snapshot \<Rightarrow> exn option) \<Rightarrow> work_db \<Rightarrow> exn + work_db \<times> work_snapshot"
where
  "append_and_show h rp e validator db =
     sbind (append_event h rp e db) (\<lambda>db'.
     sbind (replay h False db') (\<lambda>updated.
     sbind (work_snapshot_of updated (we_work_id e)) (\<lambda>s.
     checked [validator s] (db', s))))"

text \<open>A transaction commits what it returns and is rolled back when it raises.\<close>

definition transact :: "work_db \<Rightarrow> exn + work_db \<times> 'a \<Rightarrow> work_db \<times> (exn + 'a)" where
  "transact db r = (case r of Inl x \<Rightarrow> (db, Inl x) | Inr (db', v) \<Rightarrow> (db', Inr v))"

definition work_start ::
  "host \<Rightarrow> uuid \<Rightarrow> int \<Rightarrow> string \<Rightarrow> string \<Rightarrow> string \<Rightarrow> (work_snapshot \<Rightarrow> exn option) \<Rightarrow> work_db
     \<Rightarrow> work_db \<times> (exn + work_snapshot)"
where
  "work_start h event_id now work_id issue_text summary validator db =
     transact db
       (sbind (validate_start_fields h work_id issue_text summary) (\<lambda>(selected, selected_issue, selected_summary).
        sbind (checked [validate_work_schema db] ()) (\<lambda>_.
        sbind (replay h True db) (\<lambda>rp.
        if map_of (rp_by_work rp) selected \<noteq> None then Inl (memory_error ''work record already exists'')
        else append_and_show h rp
               (new_event h event_id now rp selected Started Issue selected_summary (Some selected_issue))
               validator db))))"

definition work_record ::
  "host \<Rightarrow> uuid \<Rightarrow> int \<Rightarrow> string \<Rightarrow> work_event_kind \<Rightarrow> string \<Rightarrow> work_stage option \<Rightarrow> string option
     \<Rightarrow> (work_snapshot \<Rightarrow> exn option) \<Rightarrow> work_db \<Rightarrow> work_db \<times> (exn + work_snapshot)"
where
  "work_record h event_id now work_id kind summary stage reference validator db =
     transact db
       (sbind (validate_work_id h work_id) (\<lambda>selected.
        if kind = Started then Inl (Exn ValueError ''started events must use work-memory start'') else
        sbind (validate_summary h summary) (\<lambda>selected_summary.
        sbind (case reference of
            None \<Rightarrow> Inr None | Some r \<Rightarrow> sbind (validate_reference h ''reference'' r) (\<lambda>r'. Inr (Some r')))
        (\<lambda>selected_reference.
        if kind = ReferenceKind \<and> selected_reference = None
        then Inl (Exn ValueError ''reference events require --reference'') else
        sbind (checked [validate_work_schema db] ()) (\<lambda>_.
        sbind (replay h False db) (\<lambda>rp.
        case map_of (rp_by_work rp) selected of
          None \<Rightarrow> Inl (memory_error ''work record does not exist'')
        | Some es \<Rightarrow>
            (let current = we_stage (last es);
                 selected_stage = (case stage of None \<Rightarrow> current | Some s \<Rightarrow> s) in
             if current = Merged then Inl (memory_error ''merged work records are terminal'')
             else if stage_order selected_stage < stage_order current
             then Inl (memory_error ''work stage cannot regress'')
             else if stage_order current + 1 < stage_order selected_stage
             then Inl (memory_error ''work stage cannot skip lifecycle stages'')
             else append_and_show h rp
               (new_event h event_id now rp selected kind selected_stage selected_summary selected_reference)
               validator db)))))))"

subsection \<open>Opening and inspecting\<close>

text \<open>A database that was just created has no objects and version 0.\<close>

definition empty_work_db :: work_db where
  "empty_work_db = \<lparr>wd_version = 0, wd_objects = [], wd_events = [], wd_state = []\<rparr>"

definition created_work_db :: "work_db \<Rightarrow> work_db" where
  "created_work_db db = db\<lparr>wd_version := 1,
     wd_objects := wd_objects db
       @ [\<lparr>so_type = ''table'', so_name = ''work_events'', so_sql = SqlText (stored_sql work_events_table_sql),
           so_columns = event_schema\<rparr>,
          \<lparr>so_type = ''table'', so_name = ''work_memory_state'', so_sql = SqlText (stored_sql work_state_table_sql),
           so_columns = state_schema\<rparr>],
     wd_state := [\<lparr>st_id = 1, st_event_count = SqlInt 0, st_head_hash = SqlText genesis_hash\<rparr>]\<rparr>"

definition work_initialize :: "host \<Rightarrow> bool \<Rightarrow> work_db \<Rightarrow> work_db \<times> (exn + unit)" where
  "work_initialize h create_schema db =
     transact db
       (sbind (if wd_version db = 0 \<and> user_tables db = []
               then (if create_schema then Inr (created_work_db db)
                     else Inl (memory_error ''work-memory database does not contain an initialized journal''))
               else if wd_version db \<noteq> 1
               then Inl (memory_error ''work-memory schema version is incompatible'')
               else Inr db) (\<lambda>db'.
        sbind (checked [validate_work_schema db'] ()) (\<lambda>_.
        sbind (replay h True db') (\<lambda>_. Inr (db', ())))))"

definition show_existing :: "host \<Rightarrow> string \<Rightarrow> work_db \<Rightarrow> exn + work_snapshot" where
  "show_existing h work_id db =
     sbind (validate_work_id h work_id) (\<lambda>selected.
     sbind (checked [validate_work_schema db] ()) (\<lambda>_.
     sbind (replay h False db) (\<lambda>rp. work_snapshot_of rp selected)))"

definition verify_existing :: "host \<Rightarrow> work_db \<Rightarrow> work_verification" where
  "verify_existing h db =
     (case sbind (checked [validate_work_schema db] ()) (\<lambda>_. replay h False db) of
        Inl x \<Rightarrow> \<lparr>wv_valid = False, wv_message = exn_text x, wv_event_count = 0, wv_work_count = 0,
                 wv_head_hash = genesis_hash\<rparr>
      | Inr rp \<Rightarrow> \<lparr>wv_valid = True,
          wv_message = ''verified '' @ nat_digits (length (rp_events rp)) @ '' work-memory events'',
          wv_event_count = length (rp_events rp), wv_work_count = length (rp_by_work rp),
          wv_head_hash = rp_head_hash rp\<rparr>)"

end
