(* ===== verification/Work_Journal.thy ===== *)
theory Work_Journal
  imports Work_Memory Hash_Chain "HOL-Library.Multiset"
begin

text \<open>
  What the journal of work_memory.py keeps: replaying reads exactly the journals that a sequence of
  admissible events builds, every record follows the lifecycle, the operations extend a journal to a journal, and two
  journals under one checkpoint are equal up to a collision of the digest. The last part instantiates the
  locale \<open>chained_log\<close> with the decoded events.
\<close>

subsection \<open>The lifecycle of a work record\<close>

text \<open>What the checks of one record amount to: the record starts once, at the first stage and with a
  reference; afterwards every event keeps the stage or moves to the next one, until the merge.\<close>

inductive lifecycle :: "work_event list \<Rightarrow> bool" where
  started: "we_kind e = Started \<Longrightarrow> we_stage e = Issue \<Longrightarrow> we_reference e \<noteq> None \<Longrightarrow> lifecycle [e]"
| continued: "lifecycle es \<Longrightarrow> we_kind e \<noteq> Started \<Longrightarrow> (we_kind e = ReferenceKind \<Longrightarrow> we_reference e \<noteq> None) \<Longrightarrow>
    we_stage (last es) \<noteq> Merged \<Longrightarrow>
    stage_order (we_stage e) = stage_order (we_stage (last es))
      \<or> stage_order (we_stage e) = stage_order (we_stage (last es)) + 1 \<Longrightarrow>
    lifecycle (es @ [e])"

lemma lifecycle_nonempty: "lifecycle es \<Longrightarrow> es \<noteq> []"
  by (induction rule: lifecycle.induct) auto

lemma lifecycle_single: "lifecycle [e] \<longleftrightarrow> we_kind e = Started \<and> we_stage e = Issue \<and> we_reference e \<noteq> None"
  by (subst lifecycle.simps) (auto dest: lifecycle_nonempty)

lemma stage_order_inj: "stage_order s = stage_order t \<Longrightarrow> s = t"
  by (cases s; cases t) auto

lemma stage_order_less: "stage_order s < 6"
  by (cases s) auto

lemma nth_work_stages: "work_stages ! stage_order s = s" and length_work_stages: "length work_stages = 6"
  by (cases s) (auto simp: work_stages_def)

lemma validate_lifecycle_exact:
  assumes "existing = [] \<or> lifecycle existing"
  shows "validate_lifecycle_event e existing = None \<longleftrightarrow> lifecycle (existing @ [e])"
proof (cases "existing = []")
  case True
  then show ?thesis
    by (auto simp: validate_lifecycle_event_def lifecycle_single)
next
  case False
  then show ?thesis
    using assms
    by (auto simp: validate_lifecycle_event_def Let_def first_error_None_iff elim!: lifecycle.cases [of "existing @ [e]"]
        intro!: lifecycle.continued)
qed

lemma remdups_adj_snoc:
  "xs \<noteq> [] \<Longrightarrow> remdups_adj (xs @ [x]) = (if last xs = x then remdups_adj xs else remdups_adj xs @ [x])"
  by (induction xs rule: remdups_adj.induct) auto

text \<open>The stages a record has been in are the stages up to its current one, each of them, in order.\<close>

lemma lifecycle_stages:
  "lifecycle es \<Longrightarrow> remdups_adj (map we_stage es) = take (stage_order (we_stage (last es)) + 1) work_stages"
proof (induction rule: lifecycle.induct)
  case (started e)
  then show ?case by (simp add: work_stages_def)
next
  case (continued es e)
  let ?s = "we_stage (last es)" and ?t = "we_stage e"
  from continued.hyps have es: "map we_stage es \<noteq> []" "last (map we_stage es) = ?s"
    by (auto dest: lifecycle_nonempty simp: last_map)
  from continued.hyps(5) show ?case
  proof
    assume "stage_order ?t = stage_order ?s"
    then have "?t = ?s" by (rule stage_order_inj)
    then show ?thesis using continued.IH es by (simp add: remdups_adj_snoc)
  next
    assume next_stage: "stage_order ?t = stage_order ?s + 1"
    then have "?t \<noteq> ?s" by auto
    then show ?thesis
      using continued.IH es next_stage stage_order_less [of ?t] nth_work_stages [of ?t]
      by (simp add: remdups_adj_snoc take_Suc_conv_app_nth length_work_stages)
  qed
qed

lemma lifecycle_single_start:
  "lifecycle es \<Longrightarrow> we_kind (hd es) = Started \<and> we_reference (hd es) \<noteq> None \<and> list_all (\<lambda>e. we_kind e \<noteq> Started) (tl es)"
  by (induction rule: lifecycle.induct) (auto dest: lifecycle_nonempty)

subsection \<open>Journals\<close>

definition valid_event :: "host \<Rightarrow> work_event \<Rightarrow> bool" where
  "valid_event h e =
     (h_uuid h (we_event_id e) = Some (we_event_id e) \<and> dt_offset (we_timestamp e) = Some 0
      \<and> h_fromisoformat h (h_isoformat h (we_timestamp e)) = Some (we_timestamp e)
      \<and> validate_work_id h (we_work_id e) = Inr (we_work_id e)
      \<and> validate_summary h (we_summary e) = Inr (we_summary e)
      \<and> (case we_reference e of None \<Rightarrow> True | Some r \<Rightarrow> validate_reference h ''reference'' r = Inr r)
      \<and> is_chain_hash (we_previous_hash e) True \<and> is_chain_hash (we_event_hash e) False)"

abbreviation journal_head :: "work_event list \<Rightarrow> digest" where
  "journal_head es \<equiv> head_of we_event_hash genesis_hash es"

definition work_of :: "string \<Rightarrow> work_event list \<Rightarrow> work_event list" where
  "work_of w es = filter (\<lambda>e. we_work_id e = w) es"

definition next_event :: "host \<Rightarrow> work_event list \<Rightarrow> work_event \<Rightarrow> bool" where
  "next_event h es e =
     (valid_event h e \<and> we_sequence e = int (length es) + 1 \<and> we_event_id e \<notin> we_event_id ` set es
      \<and> we_previous_hash e = journal_head es \<and> work_event_hash h e = we_event_hash e
      \<and> validate_lifecycle_event e (work_of (we_work_id e) es) = None)"

fun continues :: "host \<Rightarrow> work_event list \<Rightarrow> work_event list \<Rightarrow> bool" where
  "continues h es [] = True"
| "continues h es (e # es') = (next_event h es e \<and> continues h (es @ [e]) es')"

definition journal :: "host \<Rightarrow> work_event list \<Rightarrow> bool" where
  "journal h es = continues h [] es"

lemma continues_snoc: "continues h es (es' @ [e]) \<longleftrightarrow> continues h es es' \<and> next_event h (es @ es') e"
  by (induction h es es' rule: continues.induct) auto

lemma journal_snoc: "journal h (es @ [e]) \<longleftrightarrow> journal h es \<and> next_event h es e"
  by (simp add: journal_def continues_snoc)

lemma work_of_snoc: "work_of w (es @ [e]) = work_of w es @ (if we_work_id e = w then [e] else [])"
  by (simp add: work_of_def)

lemma journal_lifecycle: "journal h es \<Longrightarrow> work_of w es = [] \<or> lifecycle (work_of w es)"
proof (induction es rule: rev_induct)
  case (snoc e es)
  then show ?case
    using validate_lifecycle_exact [of "work_of w es" e]
    by (auto simp: journal_snoc next_event_def work_of_snoc)
qed (simp add: work_of_def)

lemma journal_linked:
  "journal h es \<Longrightarrow> linked (h_sha256 h) (work_event_material h) we_previous_hash we_event_hash genesis_hash es"
  by (induction es rule: rev_induct)
    (auto simp: journal_snoc linked_snoc next_event_def work_event_hash_def)

lemma journal_valid: "journal h es \<Longrightarrow> list_all (valid_event h) es"
  by (induction es rule: rev_induct) (auto simp: journal_snoc next_event_def)

lemma journal_sequences: "journal h es \<Longrightarrow> map we_sequence es = map int [1..<length es + 1]"
  by (induction es rule: rev_induct) (auto simp: journal_snoc next_event_def)

lemma journal_distinct: "journal h es \<Longrightarrow> distinct (map we_event_id es)"
  by (induction es rule: rev_induct) (auto simp: journal_snoc next_event_def)

subsection \<open>A row decodes to one event\<close>

lemma validated_same:
  "validate_work_id h s = Inr t \<Longrightarrow> t = s"
  "validate_summary h s = Inr t \<Longrightarrow> t = s"
  "validate_reference h label s = Inr t \<Longrightarrow> t = s"
  by (auto simp: validate_work_id_def validate_summary_def validate_text_def validate_reference_def
      split: option.splits if_splits)

lemma parse_kind: "parse_enum (map (\<lambda>k. (kind_value k, k)) work_kinds) s = Inr k \<longleftrightarrow> s = kind_value k"
  by (cases k) (auto simp: parse_enum_Inr work_kinds_def)

lemma parse_stage: "parse_enum (map (\<lambda>k. (stage_value k, k)) work_stages) s = Inr k \<longleftrightarrow> s = stage_value k"
  by (cases k) (auto simp: parse_enum_Inr work_stages_def)

lemma decode_fields_exact:
  "decode_fields h i t w k st s r = Inr (i', t', k', st', w', s', r') \<longleftrightarrow>
     i' = i \<and> h_uuid h i = Some i \<and> h_fromisoformat h t = Some t' \<and> dt_offset t' = Some 0 \<and> h_isoformat h t' = t
     \<and> k = kind_value k' \<and> st = stage_value st' \<and> w' = w \<and> validate_work_id h w = Inr w
     \<and> s' = s \<and> validate_summary h s = Inr s \<and> r' = r
     \<and> (case r of None \<Rightarrow> True | Some x \<Rightarrow> validate_reference h ''reference'' x = Inr x)"
  by (cases r)
    (auto simp: decode_fields_def sbind_Inr parse_kind parse_stage parse_uuid_def parse_datetime_def
      split: option.splits if_splits dest: validated_same)

lemma decode_event_exact:
  "decode_event h n row = Inr e \<longleftrightarrow> row = event_row_of h e \<and> valid_event h e \<and> we_sequence e = int n"
proof
  assume "decode_event h n row = Inr e"
  then show "row = event_row_of h e \<and> valid_event h e \<and> we_sequence e = int n"
    by (cases row)
      (auto simp: decode_event_def decode_fields_exact valid_event_def event_row_of_def sql_reference_def
        split: if_splits sql_value.splits option.splits sum.splits prod.splits)
next
  assume "row = event_row_of h e \<and> valid_event h e \<and> we_sequence e = int n"
  moreover have "sql_reference (case r of None \<Rightarrow> SqlNull | Some x \<Rightarrow> SqlText x) = Some r" for r
    by (cases r) (auto simp: sql_reference_def)
  moreover from calculation have
    "decode_fields h (we_event_id e) (h_isoformat h (we_timestamp e)) (we_work_id e) (kind_value (we_kind e))
       (stage_value (we_stage e)) (we_summary e) (we_reference e)
     = Inr (we_event_id e, we_timestamp e, we_kind e, we_stage e, we_work_id e, we_summary e, we_reference e)"
    by (simp add: decode_fields_exact valid_event_def)
  ultimately show "decode_event h n row = Inr e"
    by (simp add: decode_event_def event_row_of_def valid_event_def)
qed

subsection \<open>Replay reads exactly the journals\<close>

definition group_works :: "work_event list \<Rightarrow> (string \<times> work_event list) list" where
  "group_works es = foldl (\<lambda>d e. dict_put (we_work_id e) (by_work d (we_work_id e) @ [e]) d) [] es"

definition replay_of :: "work_event list \<Rightarrow> work_replay" where
  "replay_of es = \<lparr>rp_events = es, rp_by_work = group_works es, rp_head_hash = journal_head es\<rparr>"

lemma replay_of_simps [simp]:
  "rp_events (replay_of es) = es" "rp_by_work (replay_of es) = group_works es"
  "rp_head_hash (replay_of es) = journal_head es"
  by (simp_all add: replay_of_def)

lemma map_of_group_works:
  "map_of (group_works es) w = (if work_of w es = [] then None else Some (work_of w es))"
proof (induction es arbitrary: w rule: rev_induct)
  case (snoc e es)
  then show ?case by (simp add: group_works_def work_of_snoc by_work_def)
qed (simp add: group_works_def work_of_def)

lemma by_work_group [simp]: "by_work (group_works es) w = work_of w es"
  by (simp add: by_work_def map_of_group_works)

lemma replay_of_snoc:
  "replay_of (es @ [e]) = \<lparr>rp_events = es @ [e],
     rp_by_work = dict_put (we_work_id e) (work_of (we_work_id e) es @ [e]) (group_works es),
     rp_head_hash = we_event_hash e\<rparr>"
  using by_work_group [of es] by (simp add: replay_of_def group_works_def)

lemma replay_row_exact:
  "replay_row h (replay_of es) row = Inr rp \<longleftrightarrow>
     (\<exists>e. row = event_row_of h e \<and> next_event h es e \<and> rp = replay_of (es @ [e]))"
  by (auto simp: replay_row_def sbind_Inr Let_def decode_event_exact next_event_def replay_of_snoc
      split: option.splits if_splits)

lemma replay_rows_exact:
  "replay_rows h (replay_of es) rows = Inr rp \<longleftrightarrow>
     (\<exists>es'. rows = map (event_row_of h) es' \<and> continues h es es' \<and> rp = replay_of (es @ es'))"
proof (induction rows arbitrary: es)
  case (Cons row rows)
  show ?case
  proof
    assume "replay_rows h (replay_of es) (row # rows) = Inr rp"
    then obtain e es' where "row = event_row_of h e" "next_event h es e"
      "rows = map (event_row_of h) es'" "continues h (es @ [e]) es'" "rp = replay_of ((es @ [e]) @ es')"
      by (auto simp: sbind_Inr replay_row_exact Cons.IH)
    then show "\<exists>es'. row # rows = map (event_row_of h) es' \<and> continues h es es' \<and> rp = replay_of (es @ es')"
      by (intro exI [of _ "e # es'"]) simp
  next
    assume "\<exists>es'. row # rows = map (event_row_of h) es' \<and> continues h es es' \<and> rp = replay_of (es @ es')"
    then obtain e es' where "row = event_row_of h e" "next_event h es e"
      "rows = map (event_row_of h) es'" "continues h (es @ [e]) es'" "rp = replay_of ((es @ [e]) @ es')"
      by (auto simp: map_eq_Cons_conv)
    then have "replay_row h (replay_of es) row = Inr (replay_of (es @ [e]))"
      and "replay_rows h (replay_of (es @ [e])) rows = Inr rp"
      unfolding replay_row_exact Cons.IH by blast+
    then show "replay_rows h (replay_of es) (row # rows) = Inr rp" by simp
  qed
qed auto

definition state_of :: "work_event list \<Rightarrow> work_state_row" where
  "state_of es = \<lparr>st_id = 1, st_event_count = SqlInt (int (length es)), st_head_hash = SqlText (journal_head es)\<rparr>"

lemma checkpoint_of_exact:
  "checkpoint_of rows = Some (n, x) \<longleftrightarrow>
     0 \<le> n \<and> rows = [\<lparr>st_id = 1, st_event_count = SqlInt n, st_head_hash = SqlText x\<rparr>]"
  by (cases rows) (auto simp: checkpoint_of_def split: list.splits sql_value.splits bool.splits if_splits)

lemma replay_exact:
  "replay h allow_empty db = Inr rp \<longleftrightarrow>
     (\<exists>es. journal h es \<and> sort_key wr_sequence (wd_events db) = map (event_row_of h) es
        \<and> length es \<le> max_events \<and> wd_state db = [state_of es] \<and> (es \<noteq> [] \<or> allow_empty) \<and> rp = replay_of es)"
  (is "?replay \<longleftrightarrow> ?journal")
proof -
  let ?rows = "sort_key wr_sequence (wd_events db)"
  have start: "empty_replay = replay_of []" by (simp add: empty_replay_def replay_of_def group_works_def)
  have all: "take (max_events + 1) ?rows = ?rows" if "length ?rows \<le> max_events" using that by simp
  show ?thesis
  proof
    assume r: ?replay
    then have len: "length ?rows \<le> max_events" by (auto simp: replay_def Let_def split: if_splits)
    from r obtain n x where c: "checkpoint_of (wd_state db) = Some (n, x)"
      and rows: "replay_rows h empty_replay ?rows = Inr rp" and ne: "?rows \<noteq> [] \<or> allow_empty"
      and cp: "n = int (length (rp_events rp))" "x = rp_head_hash rp"
      unfolding replay_def Let_def all [OF len]
      by (auto simp: sbind_Inr split: if_splits option.splits)
    from rows obtain es where es: "?rows = map (event_row_of h) es" "journal h es" "rp = replay_of es"
      by (auto simp: start replay_rows_exact journal_def)
    then have "length es \<le> max_events" using len by (metis length_map)
    then show ?journal
      using c cp ne es by (intro exI [of _ es]) (auto simp: checkpoint_of_exact state_of_def)
  next
    assume ?journal
    then obtain es where es: "journal h es" "?rows = map (event_row_of h) es" "length es \<le> max_events"
      "wd_state db = [state_of es]" "es \<noteq> [] \<or> allow_empty" "rp = replay_of es" by blast
    then have "replay_rows h empty_replay ?rows = Inr rp"
      by (auto simp: start replay_rows_exact journal_def)
    moreover have "checkpoint_of (wd_state db) = Some (int (length es), journal_head es)"
      by (simp add: checkpoint_of_exact es state_of_def)
    moreover have "length ?rows \<le> max_events" using es by simp
    ultimately show ?replay
      using es(2,3,5,6) by (auto simp: replay_def Let_def)
  qed
qed

subsection \<open>Appending extends a journal\<close>

lemma insort_key_snoc: "f y \<le> f x \<Longrightarrow> insort_key f y (zs @ [x]) = insort_key f y zs @ [x]"
  by (induction zs) auto

lemma sort_key_snoc: "(\<And>y. y \<in> set xs \<Longrightarrow> f y \<le> f x) \<Longrightarrow> sort_key f (xs @ [x]) = sort_key f xs @ [x]"
  by (induction xs) (auto simp: insort_key_snoc)

lemma journal_rows:
  assumes "journal h es" and "sort_key wr_sequence (wd_events db) = map (event_row_of h) es"
    and "row \<in> set (wd_events db)"
  shows "1 \<le> wr_sequence row \<and> wr_sequence row \<le> int (length es)"
proof -
  have "wr_sequence row \<in> wr_sequence ` set (map (event_row_of h) es)"
    unfolding assms(2) [symmetric] using assms(3) by simp
  also have "\<dots> = set (map we_sequence es)" by (simp add: event_row_of_def image_image)
  finally show ?thesis using journal_sequences [OF assms(1)] by auto
qed

lemma append_event_journal:
  assumes "replay h allow_empty db = Inr (replay_of es)" and "next_event h es e" and "length es < max_events"
  obtains db' where "append_event h (replay_of es) e db = Inr db'" and "replay h False db' = Inr (replay_of (es @ [e]))"
    and "wd_version db' = wd_version db" and "wd_objects db' = wd_objects db"
    and "wd_events db' = wd_events db @ [event_row_of h e]"
proof -
  from assms(1) obtain es' where db: "journal h es'" "sort_key wr_sequence (wd_events db) = map (event_row_of h) es'"
    "wd_state db = [state_of es']" and "replay_of es = replay_of es'"
    unfolding replay_exact by blast
  from this(4) have [simp]: "es' = es" by (metis replay_of_simps(1))
  let ?db' = "db\<lparr>wd_events := wd_events db @ [event_row_of h e], wd_state := [state_of (es @ [e])]\<rparr>"
  from assms(2) have e: "we_sequence e = int (length es) + 1" "we_previous_hash e = journal_head es"
    by (simp_all add: next_event_def)
  have bound: "wr_sequence row \<le> int (length es)" if "row \<in> set (wd_events db)" for row
    using journal_rows [OF db(1,2) that] by simp
  then have "\<not> list_ex (\<lambda>row. wr_sequence row = we_sequence e) (wd_events db)"
    by (fastforce simp: list_ex_iff e)
  moreover have "moves_checkpoint e (state_of es)" by (simp add: moves_checkpoint_def state_of_def e)
  ultimately have "append_event h (replay_of es) e db = Inr ?db'"
    using assms(3) db(3) by (simp add: append_event_def state_of_def e)
  moreover have "wr_sequence row \<le> wr_sequence (event_row_of h e)" if "row \<in> set (wd_events db)" for row
    using bound [OF that] by (simp add: event_row_of_def e)
  then have "sort_key wr_sequence (wd_events db @ [event_row_of h e]) = map (event_row_of h) (es @ [e])"
    using db(2) by (simp add: sort_key_snoc)
  then have "replay h False ?db' = Inr (replay_of (es @ [e]))"
    unfolding replay_exact using db(1) assms(2,3)
    by (intro exI [of _ "es @ [e]"]) (simp add: journal_snoc)
  ultimately show thesis by (intro that [of ?db']) simp_all
qed

lemma new_event_fields [simp]:
  "we_sequence (new_event h i now rp w k st s r) = int (length (rp_events rp)) + 1"
  "we_event_id (new_event h i now rp w k st s r) = i"
  "we_timestamp (new_event h i now rp w k st s r) = \<lparr>dt_wall = now, dt_offset = Some 0\<rparr>"
  "we_work_id (new_event h i now rp w k st s r) = w" "we_kind (new_event h i now rp w k st s r) = k"
  "we_stage (new_event h i now rp w k st s r) = st" "we_summary (new_event h i now rp w k st s r) = s"
  "we_reference (new_event h i now rp w k st s r) = r"
  "we_previous_hash (new_event h i now rp w k st s r) = rp_head_hash rp"
  by (simp_all add: new_event_def Let_def)

lemma new_event_hash: "work_event_hash h (new_event h i now rp w k st s r) = we_event_hash (new_event h i now rp w k st s r)"
  by (simp add: new_event_def Let_def work_event_hash_def work_event_material_def)

lemma journal_head_chain_hash: "journal h es \<Longrightarrow> is_chain_hash (journal_head es) True"
proof (induction es rule: rev_induct)
  case (snoc e es)
  then show ?case by (auto simp: journal_snoc next_event_def valid_event_def is_chain_hash_def)
qed (simp add: is_chain_hash_def)

lemma new_event_next:
  assumes "host_laws h" and "canonical_uuid i" and "journal h es" and "i \<notin> we_event_id ` set es"
    and "validate_work_id h w = Inr w" and "validate_summary h s = Inr s"
    and "case r of None \<Rightarrow> True | Some x \<Rightarrow> validate_reference h ''reference'' x = Inr x"
    and "validate_lifecycle_event (new_event h i now (replay_of es) w k st s r) (work_of w es) = None"
  shows "next_event h es (new_event h i now (replay_of es) w k st s r)"
proof -
  have "is_chain_hash (we_event_hash (new_event h i now (replay_of es) w k st s r)) False"
    unfolding new_event_hash [symmetric] work_event_hash_def is_chain_hash_def
    using host_lawsD(1) [OF assms(1)] by simp
  then show ?thesis
    using assms journal_head_chain_hash [OF assms(3)] host_lawsD(2,3) [OF assms(1)]
    by (simp add: next_event_def valid_event_def new_event_hash)
qed

lemma append_and_show_journal:
  assumes "replay h allow_empty db = Inr (replay_of es)" and "next_event h es e" and "length es < max_events"
    and "\<And>s. validator s = None"
  obtains db' s where "append_and_show h (replay_of es) e validator db = Inr (db', s)"
    and "replay h False db' = Inr (replay_of (es @ [e]))"
    and "validate_work_schema db' = validate_work_schema db"
    and "ws_events s = work_of (we_work_id e) es @ [e]" and "ws_stage s = we_stage e"
    and "ws_work_id s = we_work_id e"
proof -
  obtain db' where db': "append_event h (replay_of es) e db = Inr db'" "replay h False db' = Inr (replay_of (es @ [e]))"
    "wd_version db' = wd_version db" "wd_objects db' = wd_objects db"
    using append_event_journal [OF assms(1-3)] by metis
  let ?es = "work_of (we_work_id e) es @ [e]"
  have "journal h (es @ [e])" using db'(2) unfolding replay_exact by (metis replay_of_simps(1))
  then have "lifecycle ?es" using journal_lifecycle [of h "es @ [e]" "we_work_id e"] by (simp add: work_of_snoc)
  then obtain issue_text where "we_reference (hd ?es) = Some issue_text"
    using lifecycle_single_start by blast
  then obtain s where "work_snapshot_of (replay_of (es @ [e])) (we_work_id e) = Inr s"
    and s: "ws_events s = ?es" "ws_stage s = we_stage e" "ws_work_id s = we_work_id e"
    by (simp add: work_snapshot_of_def map_of_group_works work_of_snoc)
  then have "append_and_show h (replay_of es) e validator db = Inr (db', s)"
    using db' assms(4) by (simp add: append_and_show_def)
  moreover have "validate_work_schema db' = validate_work_schema db"
    using db'(3,4) by (simp add: validate_work_schema_def user_schema_objects_def schema_definitions_def)
  ultimately show thesis using that s db'(2) by blast
qed

lemma append_and_show_commits:
  "append_and_show h rp e validator db = Inr (db', s) \<Longrightarrow>
     wd_events db' = wd_events db @ [event_row_of h e]
     \<and> validate_work_schema db' = validate_work_schema db \<and> (\<exists>rp'. replay h False db' = Inr rp')"
  by (auto simp: append_and_show_def append_event_def sbind_Inr checked_Inr validate_work_schema_def
      user_schema_objects_def schema_definitions_def split: if_splits)

subsection \<open>Accepted calls\<close>

text \<open>A new event of an unmerged record that keeps the stage or moves to the next one is accepted, and the
  journal goes on with exactly that event.\<close>

lemma work_start_accepts:
  assumes "host_laws h" and "canonical_uuid i" and "validate_work_schema db = None"
    and "replay h True db = Inr (replay_of es)" and "work_of w es = []" and "i \<notin> we_event_id ` set es"
    and "length es < max_events" and "validate_start_fields h w issue_text s = Inr (w, issue_text, s)"
    and "validate_reference h ''reference'' issue_text = Inr issue_text"
    and "e = new_event h i now (replay_of es) w Started Issue s (Some issue_text)"
  obtains db' snap where "work_start h i now w issue_text s (\<lambda>_. None) db = (db', Inr snap)"
    and "replay h False db' = Inr (replay_of (es @ [e]))" and "validate_work_schema db' = None"
    and "ws_events snap = [e]"
proof -
  have fields: "validate_work_id h w = Inr w" "validate_summary h s = Inr s"
    using assms(8) by (auto simp: validate_start_fields_def elim!: sbind_InrE)
  have "journal h es" using assms(4) unfolding replay_exact by (metis replay_of_simps(1))
  moreover have "validate_lifecycle_event e [] = None"
    by (simp add: assms(10) validate_lifecycle_event_def)
  ultimately have next_e: "next_event h es e"
    unfolding assms(10) using fields assms by (intro new_event_next) auto
  obtain db' snap where "append_and_show h (replay_of es) e (\<lambda>_. None) db = Inr (db', snap)"
    "replay h False db' = Inr (replay_of (es @ [e]))" "validate_work_schema db' = validate_work_schema db"
    "ws_events snap = work_of (we_work_id e) es @ [e]"
    using append_and_show_journal [OF assms(4) next_e assms(7)] by metis
  then show thesis
    using assms
    by (intro that [of db' snap]) (simp_all add: work_start_def transact_def map_of_group_works)
qed

lemma work_record_accepts:
  assumes "host_laws h" and "canonical_uuid i" and "validate_work_schema db = None"
    and "replay h False db = Inr (replay_of es)" and "work_of w es \<noteq> []" and "i \<notin> we_event_id ` set es"
    and "length es < max_events" and "validate_work_id h w = Inr w" and "validate_summary h s = Inr s"
    and "case r of None \<Rightarrow> True | Some x \<Rightarrow> validate_reference h ''reference'' x = Inr x"
    and "k \<noteq> Started" and "\<not> (k = ReferenceKind \<and> r = None)" and "we_stage (last (work_of w es)) \<noteq> Merged"
    and "stage_order st = stage_order (we_stage (last (work_of w es)))
      \<or> stage_order st = stage_order (we_stage (last (work_of w es))) + 1"
    and "e = new_event h i now (replay_of es) w k st s r"
  obtains db' snap where "work_record h i now w k s (Some st) r (\<lambda>_. None) db = (db', Inr snap)"
    and "replay h False db' = Inr (replay_of (es @ [e]))" and "validate_work_schema db' = None"
    and "ws_events snap = work_of w es @ [e]" and "ws_stage snap = st"
proof -
  have "journal h es" using assms(4) unfolding replay_exact by (metis replay_of_simps(1))
  then have "lifecycle (work_of w es @ [e])"
    using journal_lifecycle [of h es w] assms by (intro lifecycle.continued) auto
  then have "validate_lifecycle_event e (work_of w es) = None"
    using validate_lifecycle_exact journal_lifecycle [OF \<open>journal h es\<close>] by blast
  then have next_e: "next_event h es e"
    using \<open>journal h es\<close> assms unfolding assms(15) by (intro new_event_next) auto
  obtain db' snap where commit: "append_and_show h (replay_of es) e (\<lambda>_. None) db = Inr (db', snap)"
    "replay h False db' = Inr (replay_of (es @ [e]))" "validate_work_schema db' = validate_work_schema db"
    "ws_events snap = work_of (we_work_id e) es @ [e]" "ws_stage snap = we_stage e"
    using append_and_show_journal [OF assms(4) next_e assms(7)] by metis
  have "(case r of None \<Rightarrow> Inr None | Some r \<Rightarrow> sbind (validate_reference h ''reference'' r) (\<lambda>r'. Inr (Some r')))
      = (Inr r :: exn + string option)"
    using assms(10) by (cases r) auto
  moreover have "\<not> stage_order st < stage_order (we_stage (last (work_of w es)))"
    "\<not> stage_order (we_stage (last (work_of w es))) + 1 < stage_order st"
    using assms(14) by auto
  ultimately have "work_record h i now w k s (Some st) r (\<lambda>_. None) db = (db', Inr snap)"
    using assms commit(1) by (auto simp: work_record_def transact_def map_of_group_works Let_def)
  then show thesis using that commit assms(3,15) by simp
qed

subsection \<open>Sequences of calls\<close>

datatype work_call =
    StartWork uuid int string string string "work_snapshot \<Rightarrow> exn option"
  | RecordWork uuid int string work_event_kind string "work_stage option" "string option" "work_snapshot \<Rightarrow> exn option"

fun run_work_call :: "host \<Rightarrow> work_call \<Rightarrow> work_db \<Rightarrow> work_db" where
  "run_work_call h (StartWork i now w issue_text s v) db = fst (work_start h i now w issue_text s v db)"
| "run_work_call h (RecordWork i now w k s st r v) db = fst (work_record h i now w k s st r v db)"

definition run_work_calls :: "host \<Rightarrow> work_call list \<Rightarrow> work_db \<Rightarrow> work_db" where
  "run_work_calls h calls db = foldl (\<lambda>db call. run_work_call h call db) db calls"

definition readable :: "host \<Rightarrow> work_db \<Rightarrow> bool" where
  "readable h db = (validate_work_schema db = None \<and> \<not> isl (replay h True db))"

lemma replay_weaken: "replay h False db = Inr rp \<Longrightarrow> replay h True db = Inr rp"
  unfolding replay_exact by blast

definition appended :: "host \<Rightarrow> work_db \<Rightarrow> work_db \<times> work_snapshot \<Rightarrow> bool" where
  "appended h db out = (\<exists>rp e v. append_and_show h rp e v db = Inr out)"

lemma appendedI: "append_and_show h rp e v db = Inr out \<Longrightarrow> appended h db out"
  by (auto simp: appended_def)

lemma run_work_call_cases:
  "run_work_call h call db = db \<or>
   (\<exists>e. wd_events (run_work_call h call db) = wd_events db @ [event_row_of h e] \<and> readable h (run_work_call h call db))"
proof -
  have commit: "fst (transact db r) = db \<or> (\<exists>e. wd_events (fst (transact db r)) = wd_events db @ [event_row_of h e]
      \<and> readable h (fst (transact db r)))"
    if r: "\<And>db' s. r = Inr (db', s) \<Longrightarrow> validate_work_schema db = None
      \<and> appended h db (db', s)" for r :: "exn + work_db \<times> work_snapshot"
  proof (cases r)
    case (Inr p)
    obtain db' s where p: "p = (db', s)" by fastforce
    then obtain rp e v where "append_and_show h rp e v db = Inr (db', s)" and "validate_work_schema db = None"
      using r [of db' s] Inr by (auto simp: appended_def)
    then show ?thesis
      using append_and_show_commits replay_weaken
      by (fastforce simp: transact_def Inr p readable_def)
  qed (simp add: transact_def)
  note steps = checked_Inr first_error_None_iff Let_def
  show ?thesis
  proof (cases call)
    case (StartWork i now w issue_text s v)
    show ?thesis
      unfolding StartWork run_work_call.simps work_start_def
      by (rule commit) (auto simp: steps dest!: appendedI elim!: sbind_InrE split: if_split_asm)
  next
    case (RecordWork i now w k s st r v)
    show ?thesis
      unfolding RecordWork run_work_call.simps work_record_def
      by (rule commit) (auto simp: steps dest!: appendedI elim!: sbind_InrE split: if_split_asm option.split_asm)
  qed
qed

lemma run_work_calls_readable:
  "readable h db \<Longrightarrow> readable h (run_work_calls h calls db)
     \<and> (\<exists>rows. wd_events (run_work_calls h calls db) = wd_events db @ rows)"
proof (induction calls arbitrary: db)
  case (Cons call calls)
  let ?db = "run_work_call h call db"
  have "readable h ?db \<and> (\<exists>rows. wd_events ?db = wd_events db @ rows)"
    using run_work_call_cases [of h call db] Cons.prems by auto
  with Cons.IH [of ?db] show ?case by (auto simp: run_work_calls_def)
qed (simp add: run_work_calls_def)

lemma initialized_readable: "snd (work_initialize h create db) = Inr () \<Longrightarrow> readable h (fst (work_initialize h create db))"
  by (auto simp: work_initialize_def transact_def readable_def sbind_Inr checked_Inr split: sum.splits if_splits)

subsection \<open>The journal is tamper evident\<close>

definition scalar_event :: "host \<Rightarrow> work_event \<Rightarrow> bool" where
  "scalar_event h e =
     (list_all scalar_text [we_event_id e, h_isoformat h (we_timestamp e), we_work_id e, we_summary e, we_previous_hash e]
      \<and> (case we_reference e of None \<Rightarrow> True | Some r \<Rightarrow> scalar_text r))"

definition nullable_text :: "string option \<Rightarrow> string" where
  "nullable_text r = (case r of None \<Rightarrow> ''null'' | Some s \<Rightarrow> ascii_string s)"

lemma material_keys:
  "sorted [''event_id'', ''kind'', ''previous_hash'', ''reference'', ''schema'', ''sequence'', ''stage'', ''summary'',
     ''timestamp'', ''work_id'']"
  by code_simp

lemma material_members:
  "sort_key fst
     [(''schema'', a), (''sequence'', b), (''event_id'', c), (''timestamp'', d), (''work_id'', e), (''kind'', f),
      (''stage'', g), (''summary'', i), (''reference'', j), (''previous_hash'', k)]
   = [(''event_id'', c), (''kind'', f), (''previous_hash'', k), (''reference'', j), (''schema'', a), (''sequence'', b),
      (''stage'', g), (''summary'', i), (''timestamp'', d), (''work_id'', e)]"
  by (rule sort_key_inj_key_eq) (simp_all add: inj_on_def material_keys add_mset_commute)

lemma work_event_material_text:
  "work_event_material h e =
     ''{'' @ ascii_string ''event_id'' @ '':'' @ ascii_string (we_event_id e) @ '','' @
     ascii_string ''kind'' @ '':'' @ ascii_string (kind_value (we_kind e)) @ '','' @
     ascii_string ''previous_hash'' @ '':'' @ ascii_string (we_previous_hash e) @ '','' @
     ascii_string ''reference'' @ '':'' @ nullable_text (we_reference e) @ '','' @
     ascii_string ''schema'' @ '':'' @ ascii_string ''master-agent/work-memory-event@1'' @ '','' @
     ascii_string ''sequence'' @ '':'' @ render_int (we_sequence e) @ '','' @
     ascii_string ''stage'' @ '':'' @ ascii_string (stage_value (we_stage e)) @ '','' @
     ascii_string ''summary'' @ '':'' @ ascii_string (we_summary e) @ '','' @
     ascii_string ''timestamp'' @ '':'' @ ascii_string (h_isoformat h (we_timestamp e)) @ '','' @
     ascii_string ''work_id'' @ '':'' @ ascii_string (we_work_id e) @ ''}''"
proof -
  have "ascii_json (optional JStr (we_reference e)) = nullable_text (we_reference e)"
    by (simp add: optional_def nullable_text_def split: option.splits)
  then show ?thesis
    unfolding work_event_material_def ascii_json.simps list.map prod.case material_members by simp
qed

lemma nullable_text_prefix_free:
  assumes "nullable_text r @ u = nullable_text s @ v"
    and "case r of None \<Rightarrow> True | Some x \<Rightarrow> scalar_text x" and "case s of None \<Rightarrow> True | Some x \<Rightarrow> scalar_text x"
  shows "r = s \<and> u = v"
proof -
  have clash: "ascii_string x @ v' \<noteq> CHR ''n'' # u'" for u' v' x
    by (simp add: ascii_string_def quote_char_def)
  show ?thesis
  proof (cases r)
    case None
    then show ?thesis using assms(1) clash by (cases s) (simp_all add: nullable_text_def, metis)
  next
    case (Some x)
    show ?thesis
    proof (cases s)
      case None
      then show ?thesis using assms(1) Some clash by (simp add: nullable_text_def)
    next
      case (Some y)
      then show ?thesis
        using assms \<open>r = Some x\<close> ascii_string_prefix_free [of x u y v] by (simp add: nullable_text_def)
    qed
  qed
qed

lemma scalar_values: "scalar_text (kind_value k)" "scalar_text (stage_value s)"
  by (cases k; simp; rule ascii_scalar_text; simp) (cases s; simp; rule ascii_scalar_text; simp)

lemma enum_values_inj: "kind_value k = kind_value k' \<Longrightarrow> k = k'" "stage_value s = stage_value s' \<Longrightarrow> s = s'"
  by (cases k; cases k'; simp) (cases s; cases s'; simp)

lemma number_member_prefix_free:
  "render_int i @ CHR '','' # u = render_int j @ CHR '','' # v \<Longrightarrow> i = j \<and> u = v"
  using token_ends [of "render_int i" "CHR '','' # u" "render_int j" "CHR '','' # v"] int_no_delimiter render_int_inj
  by (auto simp: delimited_def delimiter_def)

lemma work_event_determined:
  assumes "scalar_event h x" and "scalar_event h y" and "work_event_material h x = work_event_material h y"
    and "we_event_hash x = we_event_hash y" and "valid_event h x" and "valid_event h y"
  shows "x = y"
proof -
  have free: "ascii_string (f x) @ u = ascii_string (f y) @ v \<Longrightarrow> f x = f y \<and> u = v"
    if "f \<in> {we_event_id, \<lambda>e. kind_value (we_kind e), we_previous_hash, \<lambda>e. stage_value (we_stage e), we_summary,
      \<lambda>e. h_isoformat h (we_timestamp e), we_work_id}" for f u v
    using that assms(1,2) ascii_string_prefix_free [of "f x" u "f y" v]
    by (auto simp: scalar_event_def scalar_values)
  have reference: "nullable_text (we_reference x) @ u = nullable_text (we_reference y) @ v \<Longrightarrow>
      we_reference x = we_reference y \<and> u = v" for u v
    using assms(1,2) nullable_text_prefix_free by (simp add: scalar_event_def)
  note fields_free = free [of we_event_id, simplified] free [of "\<lambda>e. kind_value (we_kind e)", simplified]
    free [of we_previous_hash, simplified] free [of "\<lambda>e. stage_value (we_stage e)", simplified]
    free [of we_summary, simplified] free [of "\<lambda>e. h_isoformat h (we_timestamp e)", simplified]
    free [of we_work_id, simplified]
  have "we_event_id x = we_event_id y \<and> kind_value (we_kind x) = kind_value (we_kind y)
    \<and> we_previous_hash x = we_previous_hash y \<and> we_reference x = we_reference y \<and> we_sequence x = we_sequence y
    \<and> stage_value (we_stage x) = stage_value (we_stage y) \<and> we_summary x = we_summary y
    \<and> h_isoformat h (we_timestamp x) = h_isoformat h (we_timestamp y) \<and> we_work_id x = we_work_id y"
    using assms(3) unfolding work_event_material_text
    by (auto dest!: fields_free free [of we_work_id "[]" "[]", simplified] reference number_member_prefix_free)
  moreover from this have "we_timestamp x = we_timestamp y"
    using assms(5,6) by (metis option.inject valid_event_def)
  ultimately show ?thesis using assms(4) enum_values_inj by (cases x; cases y) auto
qed

interpretation work_chain: chained_log "h_sha256 h" "work_event_material h" we_previous_hash we_event_hash
  "\<lambda>e. scalar_event h e \<and> valid_event h e" for h
  by unfold_locales (blast intro: work_event_determined)

lemma replayed_journals:
  assumes "replay h True db = Inr rp" and "replay h True db' = Inr rp'" and "wd_state db' = wd_state db"
    and "list_all (scalar_event h) (rp_events rp)" and "list_all (scalar_event h) (rp_events rp')"
  shows "rp_events rp' = rp_events rp
    \<or> collision (h_sha256 h) (work_event_material h ` (set (rp_events rp') \<union> set (rp_events rp)))"
proof -
  obtain es es' where es: "journal h es" "rp = replay_of es" "wd_state db = [state_of es]"
    and es': "journal h es'" "rp' = replay_of es'" "wd_state db' = [state_of es']"
    using assms(1,2) unfolding replay_exact by blast
  then have "length es' = length es" "journal_head es' = journal_head es"
    using assms(3) by (simp_all add: state_of_def)
  moreover have "list_all (\<lambda>e. scalar_event h e \<and> valid_event h e) es"
    "list_all (\<lambda>e. scalar_event h e \<and> valid_event h e) es'"
    using journal_valid [OF es(1)] journal_valid [OF es'(1)] assms(4,5) es(2) es'(2) by (auto simp: list_all_iff)
  ultimately show ?thesis
    using work_chain.same_length_same_head [of es' es h genesis_hash] journal_linked [OF es(1)] journal_linked [OF es'(1)]
    by (simp add: es(2) es'(2))
qed

end
