(* ===== verification/Advisory_Budget.thy ===== *)
theory Advisory_Budget
  imports Sqlite Ascii_Json Approvals
begin

text \<open>
  The durable attempt budget of \<open>advisory_budget.py\<close>: one row per operator goal with the counters of
  research and review attempts and an HMAC tag over them. A reservation is one transaction on the
  table; a raise rolls it back. The key and the digest of the repository root belong to the opened store.
\<close>

datatype advisory_role = ResearchRole | PlanReviewRole

record budget_reservation =
  bz_allowed :: bool
  bz_research_attempts :: int
  bz_review_attempts :: int

text \<open>The digest of the goal is the primary key; any other cell may hold any value.\<close>

record budget_row =
  br_goal_digest :: digest
  br_repository_digest :: sql_value
  br_research_attempts :: sql_value
  br_review_attempts :: sql_value
  br_tag :: sql_value

record budget_store =
  bs_key :: string
  bs_repository_digest :: digest

definition MAX_GOAL_RECORDS :: nat where "MAX_GOAL_RECORDS = 4096"

definition GOAL_ID_BYTES :: nat where "GOAL_ID_BYTES = 256"

abbreviation budget_error :: "string \<Rightarrow> exn" where
  "budget_error m \<equiv> Exn AdvisoryBudgetStateError m"

definition goal_digest :: "host \<Rightarrow> string \<Rightarrow> exn + digest" where
  "goal_digest h goal_id =
     (if goal_id = [] \<or> \<not> trimmed goal_id
         \<or> (case utf8_length goal_id of None \<Rightarrow> True | Some n \<Rightarrow> GOAL_ID_BYTES < n)
      then Inl (Exn ValueError ''advisory goal ID is invalid'') else Inr (h_sha256 h goal_id))"

definition budget_material :: "budget_store \<Rightarrow> digest \<Rightarrow> int \<Rightarrow> int \<Rightarrow> string" where
  "budget_material st goal research review =
     ascii_json (JObj
       [(''goal_digest'', JStr goal), (''repository_digest'', JStr (bs_repository_digest st)),
        (''research_attempts'', JInt research), (''review_attempts'', JInt review), (''schema'', JInt 1)])"

definition budget_tag :: "host \<Rightarrow> budget_store \<Rightarrow> digest \<Rightarrow> int \<Rightarrow> int \<Rightarrow> digest" where
  "budget_tag h st goal research review = h_hmac h (bs_key st) (budget_material st goal research review)"

definition verified_counts :: "host \<Rightarrow> budget_store \<Rightarrow> digest \<Rightarrow> budget_row \<Rightarrow> exn + int \<times> int" where
  "verified_counts h st goal row =
     (case (br_repository_digest row, br_research_attempts row, br_review_attempts row, br_tag row) of
        (SqlText repository, SqlInt research, SqlInt review, SqlText tag) \<Rightarrow>
          if repository \<noteq> bs_repository_digest st \<or> research < 0 \<or> review < 0
          then Inl (budget_error ''advisory budget row is malformed'')
          else sbind (compare_digest (budget_tag h st goal research review) tag) (\<lambda>same.
            if same then Inr (research, review)
            else Inl (budget_error ''advisory budget row authentication failed''))
      | _ \<Rightarrow> Inl (budget_error ''advisory budget row is malformed''))"

definition budget_counts ::
  "host \<Rightarrow> budget_store \<Rightarrow> digest \<Rightarrow> budget_row list \<Rightarrow> exn + int \<times> int"
where
  "budget_counts h st goal rows =
     (case find (\<lambda>row. br_goal_digest row = goal) rows of
        None \<Rightarrow> if length rows < MAX_GOAL_RECORDS then Inr (0, 0)
                else Inl (budget_error ''advisory budget record limit is exhausted'')
      | Some row \<Rightarrow> verified_counts h st goal row)"

definition attempt ::
  "advisory_role \<Rightarrow> int \<Rightarrow> int \<Rightarrow> int \<times> int \<Rightarrow> budget_reservation"
where
  "attempt role max_research max_reviews counts =
     (case counts of (research, review) \<Rightarrow>
      case role of
        ResearchRole \<Rightarrow>
          if research < max_research
          then \<lparr>bz_allowed = True, bz_research_attempts = research + 1, bz_review_attempts = review\<rparr>
          else \<lparr>bz_allowed = False, bz_research_attempts = research, bz_review_attempts = review\<rparr>
      | PlanReviewRole \<Rightarrow>
          if review < max_reviews
          then \<lparr>bz_allowed = True, bz_research_attempts = research, bz_review_attempts = review + 1\<rparr>
          else \<lparr>bz_allowed = False, bz_research_attempts = research, bz_review_attempts = review\<rparr>)"

definition budget_row_of :: "host \<Rightarrow> budget_store \<Rightarrow> digest \<Rightarrow> budget_reservation \<Rightarrow> budget_row" where
  "budget_row_of h st goal r =
     \<lparr>br_goal_digest = goal, br_repository_digest = SqlText (bs_repository_digest st),
      br_research_attempts = SqlInt (bz_research_attempts r), br_review_attempts = SqlInt (bz_review_attempts r),
      br_tag = SqlText (budget_tag h st goal (bz_research_attempts r) (bz_review_attempts r))\<rparr>"

text \<open>\<open>INSERT \<dots> ON CONFLICT(goal_digest) DO UPDATE\<close>\<close>

fun upsert :: "budget_row \<Rightarrow> budget_row list \<Rightarrow> budget_row list" where
  "upsert new [] = [new]"
| "upsert new (row # rows) =
     (if br_goal_digest row = br_goal_digest new then new # rows else row # upsert new rows)"

definition budget_reserve ::
  "host \<Rightarrow> budget_store \<Rightarrow> string \<Rightarrow> advisory_role \<Rightarrow> int \<Rightarrow> int \<Rightarrow> budget_row list
     \<Rightarrow> budget_row list \<times> (exn + budget_reservation)"
where
  "budget_reserve h st goal_id role max_research max_reviews rows =
     (case goal_digest h goal_id of
        Inl e \<Rightarrow> (rows, Inl e)
      | Inr goal \<Rightarrow>
          if max_research \<le> 0 \<or> max_reviews \<le> 0
          then (rows, Inl (Exn ValueError ''advisory budget limits must be positive''))
          else (case budget_counts h st goal rows of
              Inl e \<Rightarrow> (rows, Inl e)
            | Inr counts \<Rightarrow>
                (let r = attempt role max_research max_reviews counts in
                 (if bz_allowed r then upsert (budget_row_of h st goal r) rows else rows, Inr r))))"

subsection \<open>The tag binds goal, repository and counters\<close>

lemma find_upsert:
  "find (\<lambda>row. br_goal_digest row = g) (upsert new rows)
   = (if br_goal_digest new = g then Some new else find (\<lambda>row. br_goal_digest row = g) rows)"
  by (induction new rows rule: upsert.induct) auto

lemma length_upsert [simp]: "length rows \<le> length (upsert new rows)"
  by (induction new rows rule: upsert.induct) auto

lemma verified_counts_bounds: "verified_counts h st goal row = Inr (m, n) \<Longrightarrow> 0 \<le> m \<and> 0 \<le> n"
  by (auto simp: verified_counts_def sbind_Inr split: sql_value.splits if_splits)

lemma budget_counts_bounds: "budget_counts h st goal rows = Inr (m, n) \<Longrightarrow> 0 \<le> m \<and> 0 \<le> n"
  by (auto simp: budget_counts_def dest: verified_counts_bounds split: option.splits if_splits)

lemma ascii_sha256: "is_sha256 s \<Longrightarrow> ascii_text s"
  unfolding is_sha256_def ascii_text_def hex_digits_def by fastforce

lemma verified_written_row:
  assumes "ascii_text (budget_tag h st goal (bz_research_attempts r) (bz_review_attempts r))"
    and "0 \<le> bz_research_attempts r" and "0 \<le> bz_review_attempts r"
  shows "verified_counts h st goal (budget_row_of h st goal r) = Inr (bz_research_attempts r, bz_review_attempts r)"
  using assms by (simp add: verified_counts_def budget_row_of_def compare_digest_def)

subsection \<open>Attempts under any interleaving\<close>

text \<open>A process asks for a goal, a role and its two limits. The requests of all processes, in the order
  their transactions commit, with the answers.\<close>

type_synonym budget_request = "string \<times> advisory_role \<times> int \<times> int"

fun reserve_all ::
  "host \<Rightarrow> budget_store \<Rightarrow> budget_request list \<Rightarrow> budget_row list
     \<Rightarrow> budget_row list \<times> (budget_request \<times> (exn + budget_reservation)) list"
where
  "reserve_all h st [] rows = (rows, [])"
| "reserve_all h st ((goal_id, role, m, n) # rs) rows =
     (case budget_reserve h st goal_id role m n rows of
        (rows', a) \<Rightarrow>
          (case reserve_all h st rs rows' of
             (rows'', as) \<Rightarrow> (rows'', ((goal_id, role, m, n), a) # as)))"

definition granted :: "string \<Rightarrow> advisory_role \<Rightarrow> budget_request \<times> (exn + budget_reservation) \<Rightarrow> bool" where
  "granted goal_id role answer =
     (case answer of ((g, r, _), Inr reservation) \<Rightarrow> g = goal_id \<and> r = role \<and> bz_allowed reservation | _ \<Rightarrow> False)"

lemma granted_simps [simp]:
  "granted goal role ((g, r, x), Inr res) \<longleftrightarrow> g = goal \<and> r = role \<and> bz_allowed res"
  "\<not> granted goal role (q, Inl e)"
  by (auto simp: granted_def)

definition role_count :: "advisory_role \<Rightarrow> int \<times> int \<Rightarrow> int" where
  "role_count role counts = (case role of ResearchRole \<Rightarrow> fst counts | PlanReviewRole \<Rightarrow> snd counts)"

definition role_limit :: "advisory_role \<Rightarrow> budget_request \<Rightarrow> int" where
  "role_limit role request = (case request of (_, _, m, n) \<Rightarrow> role_count role (m, n))"

text \<open>The counter that the store holds for a goal, none when its row is refused.\<close>

definition held :: "host \<Rightarrow> budget_store \<Rightarrow> digest \<Rightarrow> advisory_role \<Rightarrow> budget_row list \<Rightarrow> int option" where
  "held h st goal role rows =
     (case budget_counts h st goal rows of Inl e \<Rightarrow> None | Inr counts \<Rightarrow> Some (role_count role counts))"

lemma budget_counts_upsert_other:
  assumes "br_goal_digest new \<noteq> goal"
  shows "budget_counts h st goal (upsert new rows) = budget_counts h st goal rows
    \<or> isl (budget_counts h st goal (upsert new rows))"
  using assms length_upsert [of rows new]
  by (auto simp: budget_counts_def find_upsert simp del: length_upsert split: option.splits)

lemma attempt_counts:
  "attempt role m n (a, b) = \<lparr>bz_allowed = role_count role (a, b) < role_count role (m, n),
     bz_research_attempts = (if role = ResearchRole \<and> a < m then a + 1 else a),
     bz_review_attempts = (if role = PlanReviewRole \<and> b < n then b + 1 else b)\<rparr>"
  by (cases role) (auto simp: attempt_def role_count_def)

text \<open>One transaction: a grant needs a counter below the limit and moves it up by one, and nothing else
  moves a readable counter of the goal up or makes an unreadable row readable.\<close>

lemma held_written_row:
  assumes "budget_row_of h st goal r = row" and "find (\<lambda>row. br_goal_digest row = goal) rows = Some row"
  shows "held h st goal role rows = None \<or>
     held h st goal role rows = Some (role_count role (bz_research_attempts r, bz_review_attempts r))"
  using assms
  by (auto simp: held_def budget_counts_def verified_counts_def budget_row_of_def sbind_Inr
      split: sum.splits if_splits)

lemma budget_reserve_step:
  assumes "budget_reserve h st goal_id role m n rows = (rows', answer)" and "goal_digest h goal = Inr g"
  shows "(granted goal role' ((goal_id, role, m, n), answer) \<longrightarrow>
       (\<exists>c. held h st g role' rows = Some c \<and> c < role_limit role' (goal_id, role, m, n)
          \<and> held h st g role' rows' \<in> {None, Some (c + 1)}))
    \<and> (\<not> granted goal role' ((goal_id, role, m, n), answer) \<longrightarrow>
       (\<forall>c'. held h st g role' rows' = Some c' \<longrightarrow> (\<exists>c. held h st g role' rows = Some c \<and> c \<le> c')))"
proof (cases "\<exists>g'. goal_digest h goal_id = Inr g' \<and> 0 < m \<and> 0 < n \<and> (\<exists>counts. budget_counts h st g' rows = Inr counts)")
  case False
  then have "rows' = rows" "isl answer"
    using assms(1) by (auto simp: budget_reserve_def split: sum.splits if_splits)
  then show ?thesis by (cases answer) auto
next
  case True
  then obtain g' a b where g': "goal_digest h goal_id = Inr g'" "0 < m" "0 < n" "budget_counts h st g' rows = Inr (a, b)"
    by auto
  define r where "r = attempt role m n (a, b)"
  from assms(1) g' have res: "rows' = (if bz_allowed r then upsert (budget_row_of h st g' r) rows else rows)" "answer = Inr r"
    by (auto simp: budget_reserve_def r_def Let_def)
  have held_now: "held h st g' role' rows = Some (role_count role' (a, b))" by (simp add: held_def g')
  have same: "g' = g" if "goal_id = goal" using that g'(1) assms(2) by simp
  consider "\<not> bz_allowed r" | "bz_allowed r" "g' = g" | "bz_allowed r" "g' \<noteq> g" by blast
  then show ?thesis
  proof cases
    case 1
    then show ?thesis using res by auto
  next
    case 2
    then have "find (\<lambda>row. br_goal_digest row = g) rows' = Some (budget_row_of h st g r)"
      using res by (simp add: find_upsert budget_row_of_def)
    then have after: "held h st g role' rows' \<in> {None, Some (role_count role' (bz_research_attempts r, bz_review_attempts r))}"
      using held_written_row [OF refl] by blast
    have "role_count role' (a, b) \<le> role_count role' (bz_research_attempts r, bz_review_attempts r)"
      by (cases role') (auto simp: role_count_def r_def attempt_counts)
    moreover have "role_count role' (bz_research_attempts r, bz_review_attempts r) = role_count role' (a, b) + 1
        \<and> role_count role' (a, b) < role_limit role' (goal_id, role, m, n)"
      if "role = role'"
      using that 2(1) by (cases role') (auto simp: role_count_def r_def attempt_counts role_limit_def)
    ultimately show ?thesis
      using after held_now 2(2) res by auto
  next
    case 3
    then have "goal_id \<noteq> goal" using same by blast
    then have ng: "\<not> granted goal role' ((goal_id, role, m, n), answer)" by (simp add: res)
    have "budget_counts h st g rows' = budget_counts h st g rows \<or> isl (budget_counts h st g rows')"
      using 3 res budget_counts_upsert_other [of "budget_row_of h st g' r" g] by (simp add: budget_row_of_def)
    then have "held h st g role' rows' = held h st g role' rows \<or> held h st g role' rows' = None"
      by (auto simp: held_def split: sum.splits)
    then show ?thesis using ng by auto
  qed
qed

lemma grants_within_limit:
  assumes "goal_digest h goal = Inr g" and "reserve_all h st requests rows = (rows', answers)"
    and "list_all (\<lambda>q. fst q = goal \<longrightarrow> role_limit role q \<le> limit) requests"
  shows "case held h st g role rows of None \<Rightarrow> filter (granted goal role) answers = []
     | Some c \<Rightarrow> int (length (filter (granted goal role) answers)) \<le> max 0 (limit - c)"
  using assms(2,3)
proof (induction requests arbitrary: rows rows' answers)
  case Nil
  then show ?case by (auto split: option.splits)
next
  case (Cons q requests)
  obtain goal_id rl m n where q: "q = (goal_id, rl, m, n)" by (cases q) auto
  obtain rows1 a where step: "budget_reserve h st goal_id rl m n rows = (rows1, a)" by fastforce
  obtain rows2 as where rest: "reserve_all h st requests rows1 = (rows2, as)" by fastforce
  have answers: "answers = (q, a) # as" using Cons.prems step rest by (simp add: q)
  note one = budget_reserve_step [OF step assms(1), of role]
  note IH = Cons.IH [OF rest]
  show ?case
  proof (cases "granted goal role (q, a)")
    case True
    then obtain c where c: "held h st g role rows = Some c" "c < role_limit role q"
      "held h st g role rows1 \<in> {None, Some (c + 1)}"
      using one by (auto simp: q)
    have "goal_id = goal" using True by (cases a) (auto simp: q)
    then have "role_limit role q \<le> limit" using Cons.prems(2) by (simp add: q)
    then show ?thesis using IH c Cons.prems(2) True by (auto simp: answers split: option.splits)
  next
    case False
    then show ?thesis
      using one IH Cons.prems(2) by (cases "held h st g role rows1") (fastforce simp: answers q split: option.splits)+
  qed
qed

lemma held_nonneg: "held h st g role rows = Some c \<Longrightarrow> 0 \<le> c"
  by (cases role) (auto simp: held_def role_count_def dest: budget_counts_bounds split: sum.splits)

text \<open>The limit is reached: equal requests on a readable row are granted until the counter is at the limit.\<close>

lemma grants_reach_limit:
  assumes "goal_digest h goal = Inr g" and "0 < m" and "0 < n" and "\<And>k d. is_sha256 (h_hmac h k d)"
    and "held h st g role rows = Some c" and "reserve_all h st (replicate k (goal, role, m, n)) rows = (rows', answers)"
  shows "int (length (filter (granted goal role) answers))
    = min (int k) (max 0 (role_limit role (goal, role, m, n) - c))"
  using assms(5,6)
proof (induction k arbitrary: rows rows' c answers)
  case (Suc k)
  obtain a b where counts: "budget_counts h st g rows = Inr (a, b)" and c: "c = role_count role (a, b)"
    using Suc.prems(1) by (auto simp: held_def split: sum.splits)
  define r where "r = attempt role m n (a, b)"
  define rows1 where "rows1 = (if bz_allowed r then upsert (budget_row_of h st g r) rows else rows)"
  have step: "budget_reserve h st goal role m n rows = (rows1, Inr r)"
    using assms(1-3) counts by (simp add: budget_reserve_def r_def rows1_def Let_def)
  obtain rows2 as where rest: "reserve_all h st (replicate k (goal, role, m, n)) rows1 = (rows2, as)" by fastforce
  have answers: "answers = ((goal, role, m, n), Inr r) # as" using Suc.prems(2) step rest by simp
  show ?case
  proof (cases "bz_allowed r")
    case False
    then have "rows1 = rows" "c \<ge> role_limit role (goal, role, m, n)"
      by (auto simp: rows1_def c r_def attempt_counts role_limit_def)
    then show ?thesis using Suc.IH [OF Suc.prems(1)] rest False by (simp add: answers)
  next
    case True
    have bounds: "0 \<le> a" "0 \<le> b" using budget_counts_bounds [OF counts] by simp_all
    have "verified_counts h st g (budget_row_of h st g r) = Inr (bz_research_attempts r, bz_review_attempts r)"
      by (rule verified_written_row) (use bounds assms(4) in \<open>auto simp: budget_tag_def ascii_sha256 r_def attempt_counts\<close>)
    then have "held h st g role rows1 = Some (role_count role (bz_research_attempts r, bz_review_attempts r))"
      using True by (simp add: rows1_def held_def budget_counts_def find_upsert budget_row_of_def)
    also have "role_count role (bz_research_attempts r, bz_review_attempts r) = c + 1"
      using True by (cases role) (auto simp: c r_def attempt_counts role_count_def)
    finally have "held h st g role rows1 = Some (c + 1)" .
    moreover have "c < role_limit role (goal, role, m, n)"
      using True by (simp add: c r_def attempt_counts role_limit_def)
    ultimately show ?thesis using Suc.IH [of rows1 "c + 1"] rest True by (simp add: answers)
  qed
qed simp

end
