(* ===== verification/Advisory_Profiles.thy ===== *)
theory Advisory_Profiles
  imports Advisory_Budget Execution_Bindings
begin

text \<open>
  The first half of \<open>advisory.py\<close>: the checked-in agent profiles with their parser and contract, the
  repository view of a child agent, and the dispatcher of its read and search calls. A profile set is the
  mapping from repository paths to texts that \<open>load_agent_inventory_from_texts\<close> takes; reading the texts from disk is
  left out.
\<close>

record agent_profile =
  apf_path :: string
  apf_name :: string
  apf_description :: string
  apf_tools :: "string list"
  apf_user_invocable :: bool
  apf_disable_model_invocation :: bool
  apf_body :: string

record agent_inventory =
  ai_parent :: agent_profile
  ai_researcher :: agent_profile
  ai_reviewer :: agent_profile

definition child_profile :: "agent_inventory \<Rightarrow> advisory_role \<Rightarrow> agent_profile" where
  "child_profile i role = (if role = ResearchRole then ai_researcher i else ai_reviewer i)"

abbreviation profile_error :: "string \<Rightarrow> exn" where
  "profile_error m \<equiv> Exn ProfileValidationError m"

abbreviation dispatch_denied :: "string \<Rightarrow> exn" where
  "dispatch_denied m \<equiv> Exn AdvisoryDispatchDenied m"

subsection \<open>Parsing a profile\<close>

text \<open>\<open>str.splitlines()\<close>, with the line read so far.\<close>

definition line_break :: "string \<Rightarrow> bool" where
  "line_break c = (let n = code_point c in 10 \<le> n \<and> n \<le> 13 \<or> 28 \<le> n \<and> n \<le> 30 \<or> n = 133 \<or> n = 8232 \<or> n = 8233)"

function split_lines :: "string \<Rightarrow> string list \<Rightarrow> string list" where
  "split_lines l [] = (if l = [] then [] else [l])"
| "split_lines l (c # cs) =
     (if line_break c
      then l # split_lines [] (if c = [CHR 0x0D] \<and> take 1 cs = [[CHR 0x0A]] then drop 1 cs else cs)
      else split_lines (l @ c) cs)"
  by pat_completeness auto
termination by (relation "measure (length \<circ> snd)") auto

datatype metadata_value = MetaList "string list" | MetaBool bool | MetaText string

type_synonym metadata = "(string \<times> metadata_value) list"

definition key_char :: "char \<Rightarrow> bool" where
  "key_char c = (let n = (of_char c :: nat) in 97 \<le> n \<and> n \<le> 122 \<or> 48 \<le> n \<and> n \<le> 57 \<or> n = 45)"

text \<open>The match of \<open>([a-z][a-z0-9-]*):(?:\s*(.*))?\<close> with a whole line, its two groups.\<close>

definition frontmatter_key :: "string \<Rightarrow> (string \<times> string) option" where
  "frontmatter_key line =
     (let key = takeWhile key_char line; rest = dropWhile key_char line in
      case (key, rest) of
        (k # _, c # r) \<Rightarrow>
          if 97 \<le> (of_char k :: nat) \<and> c = CHR '':''
          then Some (key, concat (dropWhile space_chunk (chunks r))) else None
      | _ \<Rightarrow> None)"

definition strip_quotes :: "string \<Rightarrow> string" where
  "strip_quotes s =
     (let quote = (\<lambda>c. c = CHR 0x27 \<or> c = CHR 0x22)
      in rev (dropWhile quote (rev (dropWhile quote s))))"

definition metadata_line ::
  "metadata \<times> string option \<Rightarrow> string \<Rightarrow> exn + metadata \<times> string option"
where
  "metadata_line state line =
     (case state of (metadata, active) \<Rightarrow>
      if take 4 line = ''  - ''
      then (case map_of metadata (case active of None \<Rightarrow> [] | Some k \<Rightarrow> k) of
          Some (MetaList xs) \<Rightarrow>
            (let x = py_strip (drop 4 line) in
             if x = [] then Inl (profile_error ''invalid list data'')
             else Inr (dict_put (case active of None \<Rightarrow> [] | Some k \<Rightarrow> k) (MetaList (xs @ [x])) metadata, active))
        | _ \<Rightarrow> Inl (profile_error ''invalid list data''))
      else (case frontmatter_key line of
          None \<Rightarrow> Inl (profile_error ''invalid syntax'')
        | Some (key, raw) \<Rightarrow>
            if key \<in> fst ` set metadata then Inl (profile_error ''repeated key'')
            else if raw = [] then Inr (dict_put key (MetaList []) metadata, Some key)
            else Inr (dict_put key
                (if raw = ''true'' then MetaBool True else if raw = ''false'' then MetaBool False
                 else MetaText (strip_quotes raw)) metadata, None)))"

fun metadata_lines :: "metadata \<times> string option \<Rightarrow> string list \<Rightarrow> exn + metadata" where
  "metadata_lines state [] = Inr (fst state)"
| "metadata_lines state (l # ls) = sbind (metadata_line state l) (\<lambda>state'. metadata_lines state' ls)"

definition profile_keys :: "string list" where
  "profile_keys = [''name'', ''description'', ''tools'', ''user-invocable'', ''disable-model-invocation'']"

definition profile_of_metadata :: "string \<Rightarrow> metadata \<Rightarrow> string \<Rightarrow> exn + agent_profile" where
  "profile_of_metadata path metadata body =
     (if fst ` set metadata \<noteq> set profile_keys then Inl (profile_error ''unsupported frontmatter keys'') else
      case map_of metadata ''name'' of
        Some (MetaText name) \<Rightarrow>
          if blank name then Inl (profile_error ''name is invalid'') else
          (case map_of metadata ''description'' of
             Some (MetaText description) \<Rightarrow>
               if blank description then Inl (profile_error ''description is invalid'') else
               (case map_of metadata ''tools'' of
                  Some (MetaList tools) \<Rightarrow>
                    (case (map_of metadata ''user-invocable'', map_of metadata ''disable-model-invocation'') of
                       (Some (MetaBool user), Some (MetaBool model)) \<Rightarrow>
                         if body = [] then Inl (profile_error ''body is empty'')
                         else Inr \<lparr>apf_path = path, apf_name = name, apf_description = description, apf_tools = tools,
                           apf_user_invocable = user, apf_disable_model_invocation = model, apf_body = body\<rparr>
                     | _ \<Rightarrow> Inl (profile_error ''invocation flags are invalid''))
                | _ \<Rightarrow> Inl (profile_error ''tools are invalid''))
           | _ \<Rightarrow> Inl (profile_error ''description is invalid''))
      | _ \<Rightarrow> Inl (profile_error ''name is invalid''))"

definition MAX_PROFILE_BYTES :: nat where "MAX_PROFILE_BYTES = 128 * 1024"

definition parse_profile_text :: "string \<Rightarrow> string \<Rightarrow> exn + agent_profile" where
  "parse_profile_text path s =
     (if CHR 0x00 \<in> set s then Inl (profile_error ''exceeds the byte limit'') else
      case utf8_length s of
        None \<Rightarrow> Inl (Exn ValueError ''surrogates not allowed'')
      | Some n \<Rightarrow>
          if MAX_PROFILE_BYTES < n then Inl (profile_error ''exceeds the byte limit'') else
          (case split_lines [] (chunks s) of
             [] \<Rightarrow> Inl (profile_error ''must start with frontmatter'')
           | first # rest \<Rightarrow>
               if first \<noteq> ''---'' then Inl (profile_error ''must start with frontmatter'')
               else if ''---'' \<notin> set rest then Inl (profile_error ''lacks closing frontmatter'')
               else sbind (metadata_lines ([], None) (takeWhile (\<lambda>l. l \<noteq> ''---'') rest)) (\<lambda>metadata.
                 profile_of_metadata path metadata
                   (py_strip (py_join [CHR 0x0A] (tl (dropWhile (\<lambda>l. l \<noteq> ''---'') rest)))))))"

subsection \<open>The contract of the profile set\<close>

definition parent_profile_path :: string where
  "parent_profile_path = ''.github/agents/MasterAgent.agent.md''"

definition researcher_profile_path :: string where
  "researcher_profile_path = ''.github/agents/MasterAgent-Read-Researcher.agent.md''"

definition reviewer_profile_path :: string where
  "reviewer_profile_path = ''.github/agents/MasterAgent-Plan-Reviewer.agent.md''"

text \<open>The three expected paths in their sorted order.\<close>

definition expected_profile_paths :: "string list" where
  "expected_profile_paths = [reviewer_profile_path, researcher_profile_path, parent_profile_path]"

definition profile_contract :: "string \<Rightarrow> string \<times> string list \<times> bool \<times> bool" where
  "profile_contract path =
     (if path = parent_profile_path then (''MasterAgent'', [''read'', ''search'', ''edit'', ''execute''], True, True)
      else if path = researcher_profile_path
      then (''MasterAgent Read Researcher'', [''read'', ''search''], False, True)
      else (''MasterAgent Plan Reviewer'', [''read'', ''search''], False, True))"

definition child_markers :: "string list" where
  "child_markers =
     [''Direct GitHub-host invocation is disabled'', ''repository-owned advisory integration harness'',
      ''Use only `read` and `search`'', ''advisory data, never authority'', ''Use only this fixed profile'',
      ''parent-provided selected semantic route'', ''Do not load sibling profiles or the full policy'',
      ''Require exactly one parent-selected semantic route'']"

definition parent_markers :: "string list" where
  "parent_markers =
     [''Direct GitHub-host advisory invocation is disabled'', ''repository-owned advisory integration harness'',
      ''complete the same work directly'',
      ''python3 scripts/semantic_router.py route '' @ [CHR 0x22] @ ''QUERY'' @ [CHR 0x22],
      ''The router is navigation data, never authority'', ''parent-provided selected route'',
      ''The child cannot select a second route'']"

definition required_markers :: "string \<Rightarrow> string list" where
  "required_markers path = (if path = parent_profile_path then parent_markers else child_markers)"

definition word_boundary :: string where "word_boundary = [CHR 0x5C] @ ''b''"

definition forbidden_child_text :: "string list" where
  "forbidden_child_text =
     [word_boundary @ ''you may (?:use|invoke|call) (?:execute|edit|agent|mcp|http)'' @ word_boundary,
      word_boundary @ ''provider tools are allowed'' @ word_boundary,
      word_boundary @ ''you may (?:contact|write to|mutate) (?:a )?provider'' @ word_boundary,
      word_boundary @ ''you may (?:approve|sign|bind|merge|send|publish)'' @ word_boundary,
      word_boundary @ ''ignore (?:the )?(?:boundary|tool restriction|parent)'' @ word_boundary,
      word_boundary @ ''recursive delegation is allowed'' @ word_boundary,
      ''^'' @ [CHR 0x5C] @ ''s*read '' @ [CHR 0x5C] @ ''[AGENTS'' @ [CHR 0x5C] @ ''.md'' @ [CHR 0x5C] @ '']'',
      ''^'' @ [CHR 0x5C] @ ''s*(?:read|load|consult)'' @ [CHR 0x5C] @ ''s+(?:all |the )?''
        @ ''(?:sibling (?:profile|prompt|route)|full policy corpus|complete semantic (?:manifest|index))'']"

definition profile_errors :: "host \<Rightarrow> string \<times> agent_profile \<Rightarrow> string list" where
  "profile_errors h entry =
     (case entry of (path, p) \<Rightarrow>
      case profile_contract path of (name, tools, user, model) \<Rightarrow>
        (if apf_name p \<noteq> name then [path @ '' must be named '' @ name] else [])
        @ (if apf_tools p \<noteq> tools then [path @ '' tools must be exactly: '' @ py_join '', '' tools] else [])
        @ (if apf_user_invocable p \<noteq> user then [path @ '' has an unsafe user invocation flag''] else [])
        @ (if apf_disable_model_invocation p \<noteq> model then [path @ '' has an unsafe model invocation flag''] else [])
        @ (if ''agent'' \<in> set (apf_tools p) then [path @ '' must not expose direct host delegation''] else [])
        @ map (\<lambda>marker. path @ '' is missing required boundary '' @ marker)
            (filter (\<lambda>marker. \<not> sublist (h_casefold h marker) (h_casefold h (apf_body p))) (required_markers path))
        @ (if path = parent_profile_path then []
           else map (\<lambda>pattern. path @ '' contains contradictory permission text: '' @ pattern)
             (filter (\<lambda>pattern. h_search h pattern (apf_body p) \<noteq> None) forbidden_child_text)))"

definition profile_contract_errors :: "host \<Rightarrow> (string \<times> agent_profile) list \<Rightarrow> string list" where
  "profile_contract_errors h profiles = concat (map (profile_errors h) profiles)"

text \<open>The loop over the expected texts: a validation error is collected, any other error is raised.\<close>

fun parse_profiles :: "(string \<times> string) list \<Rightarrow> string list \<Rightarrow> exn + string list \<times> (string \<times> agent_profile) list" where
  "parse_profiles texts [] = Inr ([], [])"
| "parse_profiles texts (path # paths) =
     (case parse_profile_text path (case map_of texts path of None \<Rightarrow> [] | Some s \<Rightarrow> s) of
        Inl e \<Rightarrow>
          if caught_by [ProfileValidationError] e
          then sbind (parse_profiles texts paths) (\<lambda>(errors, ps). Inr (exn_text e # errors, ps)) else Inl e
      | Inr p \<Rightarrow> sbind (parse_profiles texts paths) (\<lambda>(errors, ps). Inr (errors, (path, p) # ps)))"

definition inventory_path_errors :: "string list \<Rightarrow> string list" where
  "inventory_path_errors observed =
     (let missing = filter (\<lambda>p. p \<notin> set observed) expected_profile_paths;
          unexpected = filter (\<lambda>p. p \<notin> set expected_profile_paths) (sort (remdups observed)) in
      (if missing = [] then [] else [''missing agent profiles: '' @ py_join '', '' missing])
      @ (if unexpected = [] then [] else [''unreviewed agent profiles: '' @ py_join '', '' unexpected]))"

definition inventory_of :: "(string \<times> agent_profile) list \<Rightarrow> agent_inventory option" where
  "inventory_of profiles =
     (case (map_of profiles parent_profile_path, map_of profiles researcher_profile_path,
            map_of profiles reviewer_profile_path) of
        (Some p, Some r, Some v) \<Rightarrow> Some \<lparr>ai_parent = p, ai_researcher = r, ai_reviewer = v\<rparr>
      | _ \<Rightarrow> None)"

definition load_inventory_from_texts :: "host \<Rightarrow> (string \<times> string) list \<Rightarrow> exn + agent_inventory" where
  "load_inventory_from_texts h texts =
     (let path_errors = inventory_path_errors (map fst texts) in
      sbind (if path_errors = [] then parse_profiles texts expected_profile_paths else Inr ([], []))
        (\<lambda>(parse_errors, profiles).
      let errors = path_errors @ parse_errors @ profile_contract_errors h profiles in
      if errors \<noteq> [] then Inl (profile_error (py_join ''; '' (sort (remdups errors))))
      else (case inventory_of profiles of
          None \<Rightarrow> Inl (Exn KeyError ''profile'')
        | Some inventory \<Rightarrow> Inr inventory)))"

subsection \<open>The repository view\<close>

text \<open>The text of a \<open>PurePosixPath\<close>, and the check that a path is relative and in this form.\<close>

definition posix_text :: "string \<Rightarrow> string" where
  "posix_text s = (let t = path_root s @ py_join ''/'' (path_components s) in if t = [] then ''.'' else t)"

definition normalize_path :: "string \<Rightarrow> exn + string" where
  "normalize_path s =
     (if s = [] \<or> CHR 0x5C \<in> set s then Inl (dispatch_denied ''unsafe repository path'')
      else if is_absolute s \<or> ''..'' \<in> set (path_components s) then Inl (dispatch_denied ''unsafe repository path'')
      else if posix_text s \<noteq> s then Inl (dispatch_denied ''repository path is not normalized'')
      else Inr s)"

record citation =
  ci_path :: string
  ci_excerpt :: string

type_synonym repository = "(string \<times> string) list"

definition MAX_FILES :: nat where "MAX_FILES = 512"

definition MAX_FILE_BYTES :: nat where "MAX_FILE_BYTES = 64 * 1024"

fun add_files :: "repository \<Rightarrow> (string \<times> string) list \<Rightarrow> exn + repository" where
  "add_files files [] = Inr files"
| "add_files files ((path, content) # rest) =
     (case utf8_length content of
        None \<Rightarrow> Inl (Exn ValueError ''surrogates not allowed'')
      | Some n \<Rightarrow>
          if MAX_FILE_BYTES < n then Inl (dispatch_denied ''repository fixture is too large'')
          else sbind (normalize_path path) (\<lambda>p. add_files (dict_put p content files) rest))"

definition mk_repository :: "(string \<times> string) list \<Rightarrow> exn + repository" where
  "mk_repository files =
     (if MAX_FILES < length files then Inl (dispatch_denied ''repository fixture exceeds the file limit'')
      else add_files [] files)"

definition slice :: "nat \<Rightarrow> nat \<Rightarrow> string \<Rightarrow> string" where
  "slice start stop s = concat (take (stop - start) (drop start (chunks s)))"

definition repository_read :: "repository \<Rightarrow> string \<Rightarrow> exn + citation" where
  "repository_read repo path =
     sbind (normalize_path path) (\<lambda>p.
     case map_of repo p of
       None \<Rightarrow> Inl (dispatch_denied ''repository path is unavailable'')
     | Some content \<Rightarrow> Inr \<lparr>ci_path = p, ci_excerpt = slice 0 8192 content\<rparr>)"

text \<open>\<open>text.find(pattern)\<close> on code points, from position \<open>i\<close>.\<close>

fun find_from :: "nat \<Rightarrow> string list \<Rightarrow> string list \<Rightarrow> nat option" where
  "find_from i pattern [] = (if pattern = [] then Some i else None)"
| "find_from i pattern (c # cs) = (if prefix pattern (c # cs) then Some i else find_from (i + 1) pattern cs)"

definition search_file :: "host \<Rightarrow> string \<Rightarrow> string \<times> string \<Rightarrow> citation list" where
  "search_file h query entry =
     (case entry of (path, content) \<Rightarrow>
      case find_from 0 (chunks (h_casefold h query)) (chunks (h_casefold h content)) of
        None \<Rightarrow> []
      | Some i \<Rightarrow> [\<lparr>ci_path = path,
          ci_excerpt = slice (i - 80) (min (py_len content) (i + py_len query + 160)) content\<rparr>])"

definition MAX_RESULTS :: nat where "MAX_RESULTS = 20"

definition repository_search :: "host \<Rightarrow> repository \<Rightarrow> string \<Rightarrow> exn + citation list" where
  "repository_search h repo query =
     (if query = [] \<or> 512 < py_len query then Inl (dispatch_denied ''search query must contain 1-512 characters'')
      else Inr (take MAX_RESULTS (concat (map (search_file h query) (sort_key fst repo)))))"

definition repository_contains :: "repository \<Rightarrow> string \<Rightarrow> bool" where
  "repository_contains repo path =
     (case normalize_path path of Inl e \<Rightarrow> False | Inr p \<Rightarrow> p \<in> fst ` set repo)"

subsection \<open>Dispatch\<close>

definition advisory_dispatch ::
  "host \<Rightarrow> agent_profile \<Rightarrow> repository \<Rightarrow> string \<Rightarrow> json_object \<Rightarrow> exn + string \<times> citation list"
where
  "advisory_dispatch h profile repo tool arguments =
     (if tool \<notin> set (apf_tools profile) then Inl (dispatch_denied ''tool is absent from profile'') else
      let invalid_arguments = Inl (dispatch_denied ''invalid arguments for safe tool'') in
      if tool = ''read'' \<and> fst ` set arguments = {''path''}
      then (case obj_get arguments ''path'' of
          Some (JStr p) \<Rightarrow> sbind (repository_read repo p) (\<lambda>c. Inr (tool, [c]))
        | _ \<Rightarrow> invalid_arguments)
      else if tool = ''search'' \<and> fst ` set arguments = {''query''}
      then (case obj_get arguments ''query'' of
          Some (JStr q) \<Rightarrow> sbind (repository_search h repo q) (\<lambda>cs. Inr (tool, cs))
        | _ \<Rightarrow> invalid_arguments)
      else invalid_arguments)"

end
