(* ===== verification/Advisory.thy ===== *)
theory Advisory
  imports Advisory_Profiles
begin

text \<open>
  The second half of \<open>advisory.py\<close>: the semantic route of a delegated task, the check of its payload, the
  broker with its sessions, and the check of a child's report. The worker is untrusted code: an argument that acts
  on a world and answers with a report or the name of the exception it raised. The durable budget is an
  argument too; \<open>Advisory_Budget\<close> provides it.
\<close>

datatype delegation_status = DelegationCompleted | DelegationFallback | DelegationDenied

abbreviation payload_rejected :: "string \<Rightarrow> exn" where
  "payload_rejected m \<equiv> Exn AdvisoryPayloadRejected m"

abbreviation report_rejected :: "string \<Rightarrow> exn" where
  "report_rejected m \<equiv> Exn AdvisoryReportRejected m"

subsection \<open>Secret-like text\<close>

definition secret_patterns :: "string list" where
  "secret_patterns =
     [word_boundary @ ''gh[pousr]_[A-Za-z0-9_]{8,}'' @ word_boundary,
      word_boundary @ ''sk-[A-Za-z0-9_-]{8,}'' @ word_boundary,
      ''-----BEGIN (?:RSA |EC |OPENSSH )?PRIVATE KEY-----'',
      word_boundary @ ''(?:token|password|secret)'' @ [CHR 0x5C] @ ''s*[:=]'' @ [CHR 0x5C] @ ''s*'' @ [CHR 0x5C] @ ''S+'',
      word_boundary @ ''approval(?:-artifact)?://'' @ [CHR 0x5C] @ ''S+'']"

definition secret_text :: "host \<Rightarrow> string \<Rightarrow> bool" where
  "secret_text h s = list_ex (\<lambda>p. h_search h p s \<noteq> None) secret_patterns"

definition reject_secret :: "host \<Rightarrow> string \<Rightarrow> exn option" where
  "reject_secret h s = fail_if (secret_text h s) (payload_rejected ''contains secret-like content'')"

subsection \<open>Semantic routes\<close>

record semantic_route =
  sr_route :: string
  sr_title :: string
  sr_lifecycle :: string
  sr_summary :: string
  sr_authority :: "string list"
  sr_implementation :: "string list"
  sr_configuration :: "string list"
  sr_tests :: "string list"
  sr_release_gates :: "string list"
  sr_dependencies :: "string list"

text \<open>\<open>[a-z0-9][a-z0-9._-]{0,127}\<close> on the whole text.\<close>

definition route_id :: "string \<Rightarrow> bool" where
  "route_id s =
     (let lower = (\<lambda>c. let n = (of_char c :: nat) in 97 \<le> n \<and> n \<le> 122 \<or> 48 \<le> n \<and> n \<le> 57) in
      case s of [] \<Rightarrow> False
      | c # cs \<Rightarrow> lower c \<and> length cs \<le> 127 \<and> list_all (\<lambda>d. lower d \<or> d \<in> set ''._-'') cs)"

definition route_text_checks :: "host \<Rightarrow> string \<Rightarrow> exn option list" where
  "route_text_checks h v =
     [fail_if (blank v \<or> \<not> trimmed v \<or> 4096 < py_len v \<or> list_ex (\<lambda>n. n < 32) (code_points v))
        (payload_rejected ''semantic route field must contain bounded text''),
      reject_secret h v]"

definition route_path_check :: "string \<Rightarrow> exn option" where
  "route_path_check v =
     (if 1024 < py_len v then Some (payload_rejected ''semantic route field contains an invalid path'')
      else case normalize_path v of
          Inl e \<Rightarrow> Some (payload_rejected ''semantic route field contains an unsafe path'')
        | Inr _ \<Rightarrow> None)"

definition route_paths_checks :: "string list \<Rightarrow> exn option list" where
  "route_paths_checks vs =
     fail_if (256 < length vs) (payload_rejected ''semantic route field must be a bounded tuple'')
     # map route_path_check vs"

definition mk_semantic_route :: "host \<Rightarrow> semantic_route \<Rightarrow> exn + semantic_route" where
  "mk_semantic_route h r =
     checked
       ([fail_if (\<not> route_id (sr_route r)) (payload_rejected ''semantic route must be one stable lowercase identifier'')]
        @ concat (map (route_text_checks h) [sr_title r, sr_lifecycle r, sr_summary r])
        @ concat (map route_paths_checks
            [sr_authority r, sr_implementation r, sr_configuration r, sr_tests r, sr_release_gates r])
        @ [fail_if (256 < length (sr_dependencies r))
             (payload_rejected ''semantic route dependencies must be a bounded tuple'')]
        @ map (\<lambda>d. fail_if (\<not> route_id d) (payload_rejected ''semantic route dependencies contain an invalid identifier''))
            (sr_dependencies r)) r"

definition route_payload :: "semantic_route \<Rightarrow> json_object" where
  "route_payload r =
     [(''route'', JStr (sr_route r)), (''title'', JStr (sr_title r)), (''lifecycle'', JStr (sr_lifecycle r)),
      (''summary'', JStr (sr_summary r)), (''authority'', strings (sr_authority r)),
      (''implementation'', strings (sr_implementation r)), (''configuration'', strings (sr_configuration r)),
      (''tests'', strings (sr_tests r)), (''release_gates'', strings (sr_release_gates r)),
      (''dependencies'', strings (sr_dependencies r))]"

subsection \<open>Payloads\<close>

definition forbidden_keys :: "string list" where
  "forbidden_keys =
     [''approval'', ''authority'', ''changeplan'', ''change_plan'', ''connector'', ''credential'', ''password'',
      ''private_context'', ''recipient'', ''secret'', ''signing'', ''target'', ''tenant'', ''token'']"

definition forbidden_key :: "host \<Rightarrow> string \<Rightarrow> bool" where
  "forbidden_key h k =
     (let normalized = map (\<lambda>c. if c = CHR ''-'' then CHR ''_'' else c) (h_casefold h k)
      in list_ex (\<lambda>part. sublist part normalized) forbidden_keys)"

text \<open>The walk of \<open>_sanitize\<close>: it rejects or returns the value it was given, so only the item count is threaded.\<close>

fun sanitize_value :: "host \<Rightarrow> nat \<Rightarrow> nat \<Rightarrow> json \<Rightarrow> exn + nat"
and sanitize_members :: "host \<Rightarrow> nat \<Rightarrow> nat \<Rightarrow> json_object \<Rightarrow> exn + nat"
and sanitize_items :: "host \<Rightarrow> nat \<Rightarrow> nat \<Rightarrow> json list \<Rightarrow> exn + nat"
where
  "sanitize_value h depth count j =
     (if 8 < depth then Inl (payload_rejected ''delegated payload exceeds the depth limit'')
      else if 256 < count + 1 then Inl (payload_rejected ''delegated payload exceeds the item limit'')
      else case j of
        JNull \<Rightarrow> Inr (count + 1)
      | JBool b \<Rightarrow> Inr (count + 1)
      | JInt i \<Rightarrow> Inr (count + 1)
      | JStr s \<Rightarrow>
          if 16 * 1024 < py_len s then Inl (payload_rejected ''string is too large'')
          else checked [reject_secret h s] (count + 1)
      | JObj kvs \<Rightarrow> sanitize_members h (depth + 1) (count + 1) kvs
      | JList xs \<Rightarrow> sanitize_items h (depth + 1) (count + 1) xs
      | _ \<Rightarrow> Inl (payload_rejected ''unsupported delegated value''))"
| "sanitize_members h depth count [] = Inr count"
| "sanitize_members h depth count ((k, v) # kvs) =
     (if k = [] then Inl (payload_rejected ''keys must be strings'')
      else if forbidden_key h k then Inl (payload_rejected ''forbidden delegated field'')
      else sbind (sanitize_value h depth count v) (\<lambda>count'. sanitize_members h depth count' kvs))"
| "sanitize_items h depth count [] = Inr count"
| "sanitize_items h depth count (x # xs) =
     sbind (sanitize_value h depth count x) (\<lambda>count'. sanitize_items h depth count' xs)"

definition MAX_PAYLOAD_BYTES :: nat where "MAX_PAYLOAD_BYTES = 64 * 1024"

definition sanitize_payload :: "host \<Rightarrow> json_object \<Rightarrow> exn + json_object" where
  "sanitize_payload h payload =
     sbind (sanitize_value h 0 0 (JObj payload)) (\<lambda>_.
     case utf8_length (stable_json (JObj payload)) of
       None \<Rightarrow> Inl (Exn ValueError ''surrogates not allowed'')
     | Some n \<Rightarrow>
         if MAX_PAYLOAD_BYTES < n then Inl (payload_rejected ''delegated payload exceeds the byte limit'')
         else Inr payload)"

subsection \<open>Reports\<close>

record advisory_report =
  rep_summary :: string
  rep_findings :: "string list"
  rep_citations :: "string list"
  rep_proposed_target :: "string option"
  rep_claimed_approval :: "string option"
  rep_proposed_plan :: "json_object option"
  rep_extra :: json_object

record verified_evidence =
  ve_summary :: string
  ve_findings :: "string list"
  ve_citations :: "string list"

definition MAX_TEXT :: nat where "MAX_TEXT = 16 * 1024"

definition outcome_error :: "exn + 'a \<Rightarrow> exn option" where
  "outcome_error r = (case r of Inl e \<Rightarrow> Some e | Inr _ \<Rightarrow> None)"

definition report_content_error :: "host \<Rightarrow> advisory_report \<Rightarrow> exn option" where
  "report_content_error h r =
     first_error
       ([reject_secret h (rep_summary r)]
        @ concat (map (\<lambda>f. [fail_if (blank f \<or> MAX_TEXT < py_len f) (report_rejected ''report finding must contain bounded text''),
            reject_secret h f]) (rep_findings r))
        @ (if rep_extra r = [] then [] else [outcome_error (sanitize_payload h (rep_extra r))])
        @ map (\<lambda>c. outcome_error (normalize_path c)) (rep_citations r))"

definition validate_report :: "host \<Rightarrow> advisory_report \<Rightarrow> exn option" where
  "validate_report h r =
     (if blank (rep_summary r) \<or> MAX_TEXT < py_len (rep_summary r)
      then Some (report_rejected ''report summary must contain bounded text'')
      else if 64 < length (rep_findings r) \<or> 64 < length (rep_citations r)
      then Some (report_rejected ''report exceeds the item limit'')
      else if rep_proposed_target r \<noteq> None then Some (report_rejected ''report cannot select a target'')
      else if rep_claimed_approval r \<noteq> None then Some (report_rejected ''report cannot claim approval'')
      else if rep_proposed_plan r \<noteq> None then Some (report_rejected ''report cannot create or alter a plan'')
      else (case report_content_error h r of
          None \<Rightarrow> None
        | Some e \<Rightarrow>
            if caught_by [AdvisoryPayloadRejected, AdvisoryDispatchDenied] e
            then Some (report_rejected (exn_text e)) else Some e))"

definition recheck_report :: "host \<Rightarrow> repository \<Rightarrow> advisory_report \<Rightarrow> exn + verified_evidence" where
  "recheck_report h repo r =
     (case validate_report h r of
        Some e \<Rightarrow> Inl e
      | None \<Rightarrow>
          (let missing = sort (filter (\<lambda>p. \<not> repository_contains repo p) (remdups (rep_citations r))) in
           if missing \<noteq> [] then Inl (report_rejected (''report cites unavailable evidence: '' @ py_join '', '' missing))
           else Inr \<lparr>ve_summary = rep_summary r, ve_findings = rep_findings r,
             ve_citations = sort (remdups (rep_citations r))\<rparr>))"

subsection \<open>The broker and its sessions\<close>

type_synonym 'w attempt_budget =
  "string \<Rightarrow> advisory_role \<Rightarrow> int \<Rightarrow> int \<Rightarrow> 'w \<Rightarrow> 'w \<times> (exn + budget_reservation)"

record 'w advisory_broker =
  ab_inventory :: agent_inventory
  ab_repository :: repository
  ab_budget :: "'w attempt_budget option"

definition MAX_RESEARCH_TASKS :: int where "MAX_RESEARCH_TASKS = 3"

definition MAX_PLAN_REVIEWS :: int where "MAX_PLAN_REVIEWS = 1"

record advisory_session =
  as_task_id :: string
  as_goal_id :: string
  as_semantic_route :: "semantic_route option"
  as_research_attempts :: int
  as_review_attempts :: int

record advisory_envelope =
  en_task_id :: string
  en_role :: advisory_role
  en_profile_name :: string
  en_depth :: int
  en_semantic_route :: semantic_route
  en_payload :: json_object

record delegation_outcome =
  do_status :: delegation_status
  do_role :: advisory_role
  do_fallback_to_parent :: bool
  do_reason :: string
  do_report :: "advisory_report option"

type_synonym 'w advisory_worker =
  "advisory_envelope \<Rightarrow> (string \<Rightarrow> json_object \<Rightarrow> exn + string \<times> citation list) \<Rightarrow> 'w
     \<Rightarrow> 'w \<times> (string + advisory_report)"

definition select_profile :: "'w advisory_broker \<Rightarrow> string \<Rightarrow> bool \<Rightarrow> exn + agent_profile" where
  "select_profile b name by_user =
     (let i = ab_inventory b;
          profiles = dict_put (apf_name (ai_reviewer i)) (ai_reviewer i)
            (dict_put (apf_name (ai_researcher i)) (ai_researcher i)
              (dict_put (apf_name (ai_parent i)) (ai_parent i) [])) in
      case map_of profiles name of
        None \<Rightarrow> Inl (profile_error ''unknown profile'')
      | Some p \<Rightarrow>
          if by_user \<and> \<not> apf_user_invocable p then Inl (dispatch_denied ''profile is not user-invocable'')
          else if \<not> by_user \<and> apf_disable_model_invocation p
          then Inl (dispatch_denied ''direct host invocation is disabled'')
          else Inr p)"

definition start_session ::
  "'w advisory_broker \<Rightarrow> string \<Rightarrow> string \<Rightarrow> string option \<Rightarrow> semantic_route option \<Rightarrow> exn + advisory_session"
where
  "start_session b parent_name task_id goal_id route =
     (if parent_name \<noteq> apf_name (ai_parent (ab_inventory b))
      then Inl (dispatch_denied ''session must be owned by selected MasterAgent'')
      else if blank task_id \<or> 256 < py_len task_id
      then Inl (payload_rejected ''task_id must contain 1-256 characters'')
      else (let selected_goal = (case goal_id of None \<Rightarrow> task_id | Some g \<Rightarrow> g) in
        if blank selected_goal \<or> \<not> trimmed selected_goal \<or> 256 < py_len selected_goal
        then Inl (payload_rejected ''goal_id must contain 1-256 characters'')
        else Inr \<lparr>as_task_id = task_id, as_goal_id = selected_goal, as_semantic_route = route,
          as_research_attempts = 0, as_review_attempts = 0\<rparr>))"

definition session_reserve ::
  "'w advisory_broker \<Rightarrow> advisory_role \<Rightarrow> advisory_session \<Rightarrow> 'w \<Rightarrow> advisory_session \<times> 'w \<times> (exn + bool)"
where
  "session_reserve b role s w =
     (case ab_budget b of
        Some reserve \<Rightarrow>
          (case reserve (as_goal_id s) role MAX_RESEARCH_TASKS MAX_PLAN_REVIEWS w of
             (w', Inl e) \<Rightarrow> (s, w', Inl e)
           | (w', Inr r) \<Rightarrow>
               (s\<lparr>as_research_attempts := bz_research_attempts r, as_review_attempts := bz_review_attempts r\<rparr>, w',
                Inr (bz_allowed r)))
      | None \<Rightarrow>
          if role = ResearchRole
          then (if MAX_RESEARCH_TASKS \<le> as_research_attempts s then (s, w, Inr False)
                else (s\<lparr>as_research_attempts := as_research_attempts s + 1\<rparr>, w, Inr True))
          else (if MAX_PLAN_REVIEWS \<le> as_review_attempts s then (s, w, Inr False)
                else (s\<lparr>as_review_attempts := as_review_attempts s + 1\<rparr>, w, Inr True)))"

definition worker_failure :: "string \<Rightarrow> string" where
  "worker_failure name =
     (if name = ''CopilotSdkUnavailable'' then ''optional Copilot SDK is unavailable; keep work on the parent path''
      else if name = ''CopilotRepositoryChanged''
      then ''advisory repository state changed during delegation; use parent fallback''
      else if name = ''CopilotRepositoryScanRejected''
      then ''advisory repository state could not be bound; use parent fallback''
      else if name = ''CopilotScopeRejected''
      then ''advisory route scope failed closed; keep work on the parent path''
      else if name = ''CopilotResponseRejected''
      then ''advisory worker output was rejected; keep work on the parent path''
      else ''advisory worker failed closed; keep work on the parent path'')"

definition parent_keeps :: "delegation_status \<Rightarrow> advisory_role \<Rightarrow> string \<Rightarrow> delegation_outcome" where
  "parent_keeps status role reason =
     \<lparr>do_status = status, do_role = role, do_fallback_to_parent = True, do_reason = reason, do_report = None\<rparr>"

text \<open>The name of an exception class that the check of a report raises.\<close>

definition report_error_name :: "exn \<Rightarrow> string" where
  "report_error_name e =
     (if exn_kind e = AdvisoryReportRejected then ''AdvisoryReportRejected'' else ''UnicodeEncodeError'')"

definition call_worker ::
  "host \<Rightarrow> 'w advisory_broker \<Rightarrow> advisory_role \<Rightarrow> advisory_envelope \<Rightarrow> 'w advisory_worker \<Rightarrow> 'w
     \<Rightarrow> 'w \<times> delegation_outcome"
where
  "call_worker h b role envelope worker w =
     (case worker envelope (advisory_dispatch h (child_profile (ab_inventory b) role) (ab_repository b)) w of
        (w', Inl name) \<Rightarrow> (w', parent_keeps DelegationFallback role (worker_failure name))
      | (w', Inr report) \<Rightarrow>
          (case validate_report h report of
             Some e \<Rightarrow> (w', parent_keeps DelegationFallback role (worker_failure (report_error_name e)))
           | None \<Rightarrow> (w', \<lparr>do_status = DelegationCompleted, do_role = role, do_fallback_to_parent = False,
               do_reason = ''untrusted report returned for parent re-validation'', do_report = Some report\<rparr>)))"

definition delegate ::
  "host \<Rightarrow> 'w advisory_broker \<Rightarrow> advisory_role \<Rightarrow> json_object \<Rightarrow> 'w advisory_worker option \<Rightarrow> int
     \<Rightarrow> advisory_session \<Rightarrow> 'w \<Rightarrow> advisory_session \<times> 'w \<times> (exn + delegation_outcome)"
where
  "delegate h b role payload worker depth s w =
     (if depth \<noteq> 0
      then (s, w, Inr (parent_keeps DelegationDenied role ''nested delegation is denied; keep the task on the parent''))
      else case as_semantic_route s of
        None \<Rightarrow> (s, w, Inr (parent_keeps DelegationDenied role ''one validated parent-selected semantic route is required''))
      | Some route \<Rightarrow>
          (case sanitize_payload h payload of
             Inl e \<Rightarrow>
               if caught_by [AdvisoryPayloadRejected] e
               then (s, w, Inr (parent_keeps DelegationDenied role (exn_text e))) else (s, w, Inl e)
           | Inr sanitized \<Rightarrow>
               (case session_reserve b role s w of
                  (s', w', Inl e) \<Rightarrow>
                    if caught_by [OSError, RuntimeError, ValueError] e
                    then (s', w', Inr (parent_keeps DelegationFallback role
                      ''advisory budget state is unavailable; keep work on the parent path''))
                    else (s', w', Inl e)
                | (s', w', Inr reserved) \<Rightarrow>
                    if \<not> reserved
                    then (s', w', Inr (parent_keeps DelegationFallback role
                      ''delegation budget exhausted; keep work on the parent path''))
                    else (case worker of
                        None \<Rightarrow> (s', w', Inr (parent_keeps DelegationFallback role
                          ''no approved host adapter is available; complete the task directly''))
                      | Some run \<Rightarrow>
                          (case call_worker h b role
                             \<lparr>en_task_id = as_task_id s', en_role = role,
                              en_profile_name = apf_name (child_profile (ab_inventory b) role), en_depth = depth,
                              en_semantic_route = route, en_payload = sanitized\<rparr> run w' of
                             (w'', outcome) \<Rightarrow> (s', w'', Inr outcome))))))"

end
