(* ===== verification/Advisory_Delegation.thy ===== *)
theory Advisory_Delegation
  imports Advisory
begin

text \<open>
  What the advisory boundary keeps: the walk over a payload decides a declarative predicate, a child of a loaded
  inventory only reads and searches, completed delegations stay within the attempts of their goal under any sequence of
  sessions that share the durable budget, and accepted evidence cites files of the repository.
\<close>

subsection \<open>What a payload may hold\<close>

text \<open>The declarative form of the walk: the depth, the keys and texts at every depth, and the number of values.\<close>

fun clean_payload :: "host \<Rightarrow> nat \<Rightarrow> json \<Rightarrow> bool" where
  "clean_payload h depth (JStr s) = (depth \<le> 8 \<and> py_len s \<le> 16 * 1024 \<and> \<not> secret_text h s)"
| "clean_payload h depth (JObj kvs) =
     (depth \<le> 8 \<and> (\<forall>kv \<in> set kvs. fst kv \<noteq> [] \<and> \<not> forbidden_key h (fst kv) \<and> clean_payload h (depth + 1) (snd kv)))"
| "clean_payload h depth (JList xs) = (depth \<le> 8 \<and> (\<forall>x \<in> set xs. clean_payload h (depth + 1) x))"
| "clean_payload h depth (JFloat fin r) = False"
| "clean_payload h depth (JOther t) = False"
| "clean_payload h depth j = (depth \<le> 8)"

fun payload_items :: "json \<Rightarrow> nat" where
  "payload_items (JObj kvs) = 1 + sum_list (map (\<lambda>kv. payload_items (snd kv)) kvs)"
| "payload_items (JList xs) = 1 + sum_list (map payload_items xs)"
| "payload_items j = 1"

lemma sanitize_exact:
  "sanitize_value h depth count j = Inr n \<longleftrightarrow>
     clean_payload h depth j \<and> n = count + payload_items j \<and> (n \<le> 256)"
  "sanitize_members h depth count kvs = Inr n \<longleftrightarrow>
     (\<forall>kv \<in> set kvs. fst kv \<noteq> [] \<and> \<not> forbidden_key h (fst kv) \<and> clean_payload h depth (snd kv))
     \<and> n = count + sum_list (map (\<lambda>kv. payload_items (snd kv)) kvs) \<and> (kvs \<noteq> [] \<longrightarrow> n \<le> 256)"
  "sanitize_items h depth count xs = Inr n \<longleftrightarrow>
     (\<forall>x \<in> set xs. clean_payload h depth x)
     \<and> n = count + sum_list (map payload_items xs) \<and> (xs \<noteq> [] \<longrightarrow> n \<le> 256)"
proof (induction h depth count j and h depth count kvs and h depth count xs arbitrary: n and n and n
    rule: sanitize_value_sanitize_members_sanitize_items.induct)
  case (1 h depth count j)
  show ?case
  proof (cases "8 < depth \<or> 256 < count + 1")
    case True
    then show ?thesis by (cases j) auto
  next
    case False
    then show ?thesis
      using 1 by (cases j) (auto simp: checked_Inr reject_secret_def)
  qed
next
  case (3 h depth count k v kvs)
  have "0 < payload_items v" by (cases v) auto
  then show ?case using 3 by (cases kvs) (auto simp: sbind_Inr)
next
  case (5 h depth count x xs)
  have "0 < payload_items x" by (cases x) auto
  then show ?case using 5 by (cases xs) (auto simp: sbind_Inr)
qed auto

lemma sanitized_payload:
  assumes "sanitize_payload h payload = Inr p"
  shows "p = payload" and "clean_payload h 0 (JObj payload)" and "payload_items (JObj payload) \<le> 256"
    and "utf8_length (stable_json (JObj payload)) \<noteq> None" and "length (stable_json (JObj payload)) \<le> MAX_PAYLOAD_BYTES"
proof -
  from assms obtain n where walk: "sanitize_value h 0 0 (JObj payload) = Inr n"
    and bytes: "(case utf8_length (stable_json (JObj payload)) of None \<Rightarrow> Inl (Exn ValueError ''surrogates not allowed'')
      | Some n \<Rightarrow> if MAX_PAYLOAD_BYTES < n then Inl (payload_rejected ''delegated payload exceeds the byte limit'')
          else Inr payload) = Inr p"
    unfolding sanitize_payload_def by (elim sbind_InrE)
  show "clean_payload h 0 (JObj payload)" "payload_items (JObj payload) \<le> 256"
    using walk unfolding sanitize_exact(1) by simp_all
  show "p = payload" "utf8_length (stable_json (JObj payload)) \<noteq> None"
    "length (stable_json (JObj payload)) \<le> MAX_PAYLOAD_BYTES"
    using bytes unfolding utf8_length_def by (simp_all split: if_splits)
qed

subsection \<open>What a child agent can reach\<close>

lemma normalize_path_Inr: "normalize_path s = Inr t \<Longrightarrow> t = s"
  by (auto simp: normalize_path_def split: if_splits)

lemma repository_contains_iff: "repository_contains repo p \<longleftrightarrow> normalize_path p = Inr p \<and> p \<in> fst ` set repo"
  using normalize_path_Inr by (auto simp: repository_contains_def split: sum.splits)

lemma search_file_path: "c \<in> set (search_file h q entry) \<Longrightarrow> ci_path c = fst entry"
  by (cases entry) (auto simp: search_file_def split: option.splits)

lemma dispatch_reads_repository:
  assumes "advisory_dispatch h profile repo tool arguments = Inr (t, cs)"
  shows "t = tool \<and> tool \<in> set (apf_tools profile) \<and> (tool = ''read'' \<or> tool = ''search'')
    \<and> length cs \<le> MAX_RESULTS \<and> (\<forall>c \<in> set cs. ci_path c \<in> fst ` set repo)"
proof -
  have tool: "tool \<in> set (apf_tools profile)"
    using assms by (simp add: advisory_dispatch_def split: if_splits)
  consider p c where "tool = ''read''" "repository_read repo p = Inr c" "cs = [c]" "t = tool"
    | q where "tool = ''search''" "repository_search h repo q = Inr cs" "t = tool"
    using assms tool
    by (auto simp: advisory_dispatch_def Let_def elim!: sbind_InrE split: if_split_asm option.split_asm json.split_asm)
  then show ?thesis
  proof cases
    case 1
    then have "ci_path c \<in> fst ` set repo"
      by (auto simp: repository_read_def dom_map_of_conv_image_fst [symmetric] elim!: sbind_InrE split: option.split_asm)
    then show ?thesis using 1 tool by (simp add: MAX_RESULTS_def)
  next
    case 2
    then have "cs = take MAX_RESULTS (concat (map (search_file h q) (sort_key fst repo)))"
      by (simp add: repository_search_def split: if_splits)
    then show ?thesis using 2 tool by (fastforce dest: in_set_takeD search_file_path)
  qed
qed

lemma loaded_inventory:
  assumes "load_inventory_from_texts h texts = Inr i"
  shows "profile_errors h (parent_profile_path, ai_parent i) = []"
    and "profile_errors h (researcher_profile_path, ai_researcher i) = []"
    and "profile_errors h (reviewer_profile_path, ai_reviewer i) = []"
    and "set (map fst texts) = set expected_profile_paths"
proof -
  from assms obtain parse_errors profiles where none: "inventory_path_errors (map fst texts) = []"
    "profile_contract_errors h profiles = []" and inv: "inventory_of profiles = Some i"
    by (auto simp: load_inventory_from_texts_def Let_def sbind_Inr split: if_splits option.splits)
  have ok: "profile_errors h entry = []" if "entry \<in> set profiles" for entry
    using none(2) that by (auto simp: profile_contract_errors_def)
  from inv have "map_of profiles parent_profile_path = Some (ai_parent i)"
    "map_of profiles researcher_profile_path = Some (ai_researcher i)"
    "map_of profiles reviewer_profile_path = Some (ai_reviewer i)"
    by (auto simp: inventory_of_def split: option.splits)
  then show "profile_errors h (parent_profile_path, ai_parent i) = []"
    "profile_errors h (researcher_profile_path, ai_researcher i) = []"
    "profile_errors h (reviewer_profile_path, ai_reviewer i) = []"
    using ok map_of_SomeD by metis+
  have "set expected_profile_paths \<subseteq> set (map fst texts)"
    "set (sort (remdups (map fst texts))) \<subseteq> set expected_profile_paths"
    using none(1) unfolding inventory_path_errors_def Let_def
    by (auto simp: filter_empty_conv split: if_splits)
  then show "set (map fst texts) = set expected_profile_paths" by auto
qed

lemma profile_contracts:
  "profile_contract parent_profile_path = (''MasterAgent'', [''read'', ''search'', ''edit'', ''execute''], True, True)"
  "profile_contract researcher_profile_path = (''MasterAgent Read Researcher'', [''read'', ''search''], False, True)"
  "profile_contract reviewer_profile_path = (''MasterAgent Plan Reviewer'', [''read'', ''search''], False, True)"
  by (simp_all add: profile_contract_def parent_profile_path_def researcher_profile_path_def reviewer_profile_path_def)

lemma profile_conforms:
  assumes "profile_errors h (path, p) = []" and "profile_contract path = (name, tools, user, model)"
  shows "apf_name p = name" and "apf_tools p = tools" and "apf_user_invocable p = user"
    and "apf_disable_model_invocation p = model"
  using assms unfolding profile_errors_def by (simp_all split: if_split_asm)

lemma inventory_contract:
  assumes "load_inventory_from_texts h texts = Inr i"
  shows "apf_tools (ai_parent i) = [''read'', ''search'', ''edit'', ''execute'']"
    and "apf_tools (child_profile i role) = [''read'', ''search'']"
    and "\<not> apf_user_invocable (child_profile i role)" and "apf_disable_model_invocation (child_profile i role)"
    and "apf_disable_model_invocation (ai_parent i)" and "apf_user_invocable (ai_parent i)"
  using profile_conforms [OF loaded_inventory(1) [OF assms] profile_contracts(1)]
    profile_conforms [OF loaded_inventory(2) [OF assms] profile_contracts(2)]
    profile_conforms [OF loaded_inventory(3) [OF assms] profile_contracts(3)]
  by (simp_all add: child_profile_def)

subsection \<open>The attempts of a session\<close>

text \<open>A completed delegation carries the report of the worker, which was called with a checked payload, under
  the child's profile and with a route.\<close>

lemma delegate_completed:
  assumes "delegate h b role payload worker depth s w = (s', w'', Inr out)" and "do_status out = DelegationCompleted"
  obtains route run w' report where "as_semantic_route s = Some route" and "depth = 0" and "worker = Some run"
    and "sanitize_payload h payload = Inr payload" and "session_reserve b role s w = (s', w', Inr True)"
    and "run \<lparr>en_task_id = as_task_id s', en_role = role, en_profile_name = apf_name (child_profile (ab_inventory b) role),
        en_depth = 0, en_semantic_route = route, en_payload = payload\<rparr>
        (advisory_dispatch h (child_profile (ab_inventory b) role) (ab_repository b)) w' = (w'', Inr report)"
    and "validate_report h report = None" and "do_report out = Some report"
proof (cases "sanitize_payload h payload")
  case (Inl e)
  then show thesis using assms by (auto simp: delegate_def parent_keeps_def split: if_splits option.splits)
next
  case (Inr p)
  then have "sanitize_payload h payload = Inr payload" using sanitized_payload(1) by simp
  then show thesis
    using assms
    by (auto simp: delegate_def call_worker_def parent_keeps_def intro!: that
        split: if_split_asm option.split_asm sum.split_asm prod.split_asm)
qed

text \<open>The store of \<open>Advisory_Budget\<close> as the budget of a broker: the world holds its table beside what workers act
  on, and a worker does not reach the table.\<close>

definition stored_budget :: "host \<Rightarrow> budget_store \<Rightarrow> (budget_row list \<times> 'w) attempt_budget" where
  "stored_budget h st goal role m n w =
     (case budget_reserve h st goal role m n (fst w) of (rows, a) \<Rightarrow> ((rows, snd w), a))"

definition confined :: "'w advisory_worker \<Rightarrow> (budget_row list \<times> 'w) advisory_worker" where
  "confined run envelope dispatch w = (case run envelope dispatch (snd w) of (w', a) \<Rightarrow> ((fst w, w'), a))"

type_synonym 'w delegation_call = "advisory_session \<times> advisory_role \<times> json_object \<times> 'w advisory_worker option \<times> int"

text \<open>Delegations of any sessions, one after the other, with the goal, the role and the answer of each.\<close>

fun delegate_all ::
  "host \<Rightarrow> (budget_row list \<times> 'w) advisory_broker \<Rightarrow> 'w delegation_call list \<Rightarrow> budget_row list \<times> 'w
     \<Rightarrow> (budget_row list \<times> 'w) \<times> ((string \<times> advisory_role) \<times> (exn + delegation_outcome)) list"
where
  "delegate_all h b [] w = (w, [])"
| "delegate_all h b ((s, role, payload, worker, depth) # calls) w =
     (case delegate h b role payload (map_option confined worker) depth s w of
        (s', w', r) \<Rightarrow>
          (case delegate_all h b calls w' of (w'', rs) \<Rightarrow> (w'', ((as_goal_id s, role), r) # rs)))"

definition completed_for :: "string \<Rightarrow> advisory_role \<Rightarrow> (string \<times> advisory_role) \<times> (exn + delegation_outcome) \<Rightarrow> bool" where
  "completed_for goal role answer =
     (fst answer = (goal, role) \<and> (case snd answer of Inl _ \<Rightarrow> False | Inr out \<Rightarrow> do_status out = DelegationCompleted))"

definition role_maximum :: "advisory_role \<Rightarrow> int" where
  "role_maximum role = (if role = ResearchRole then MAX_RESEARCH_TASKS else MAX_PLAN_REVIEWS)"

lemma delegate_reserves:
  assumes "ab_budget b = Some (stored_budget h st)"
    and "delegate h b role payload (map_option confined worker) depth s (rows, w) = (s', (rows', w'), r)"
  shows "rows' = rows \<and> \<not> completed_for goal role ((as_goal_id s, role), r)
    \<or> (\<exists>a. budget_reserve h st (as_goal_id s) role MAX_RESEARCH_TASKS MAX_PLAN_REVIEWS rows = (rows', a)
         \<and> (completed_for goal role ((as_goal_id s, role), r) \<longrightarrow>
              granted goal role ((as_goal_id s, role, MAX_RESEARCH_TASKS, MAX_PLAN_REVIEWS), a)))"
proof -
  define completed where "completed = (case r of Inl e \<Rightarrow> False | Inr out \<Rightarrow> do_status out = DelegationCompleted)"
  obtain rows1 a where reserve:
    "budget_reserve h st (as_goal_id s) role MAX_RESEARCH_TASKS MAX_PLAN_REVIEWS rows = (rows1, a)" by fastforce
  have "rows' = rows \<and> \<not> completed \<or> rows' = rows1 \<and> (completed \<longrightarrow> (\<exists>res. a = Inr res \<and> bz_allowed res))"
    using assms reserve
    by (auto simp: delegate_def session_reserve_def stored_budget_def call_worker_def confined_def parent_keeps_def
        completed_def split: if_split_asm option.split_asm sum.split_asm prod.split_asm)
  moreover have "completed_for goal role ((as_goal_id s, role), r) \<Longrightarrow> completed \<and> as_goal_id s = goal"
    by (simp add: completed_for_def completed_def)
  ultimately show ?thesis using reserve by auto
qed

lemma delegate_all_reserves:
  assumes "ab_budget b = Some (stored_budget h st)" and "delegate_all h b calls (rows, w) = ((rows', w'), answers)"
  shows "\<exists>requests grants. reserve_all h st requests rows = (rows', grants)
    \<and> list_all (\<lambda>q. role_limit role q = role_maximum role) requests
    \<and> length (filter (completed_for goal role) answers) \<le> length (filter (granted goal role) grants)"
  using assms(2)
proof (induction calls arbitrary: rows w answers)
  case Nil
  then show ?case by (intro exI [of _ "[]"]) simp
next
  case (Cons call calls)
  obtain s rl payload worker depth where call: "call = (s, rl, payload, worker, depth)" by (cases call) auto
  obtain s1 rows1 w1 r where step: "delegate h b rl payload (map_option confined worker) depth s (rows, w) = (s1, (rows1, w1), r)"
    by (metis prod.collapse)
  obtain rs where rest: "delegate_all h b calls (rows1, w1) = ((rows', w'), rs)"
    and answers: "answers = ((as_goal_id s, rl), r) # rs"
    using Cons.prems step by (auto simp: call split: prod.split_asm)
  from Cons.IH [OF rest] obtain requests grants where IH: "reserve_all h st requests rows1 = (rows', grants)"
    "list_all (\<lambda>q. role_limit role q = role_maximum role) requests"
    "length (filter (completed_for goal role) rs) \<le> length (filter (granted goal role) grants)" by blast
  let ?q = "(as_goal_id s, rl, MAX_RESEARCH_TASKS, MAX_PLAN_REVIEWS)"
  have other: "\<not> completed_for goal role ((as_goal_id s, rl), r)" if "rl \<noteq> role"
    using that by (simp add: completed_for_def)
  consider "rows1 = rows" "\<not> completed_for goal role ((as_goal_id s, rl), r)"
    | a where "budget_reserve h st (as_goal_id s) rl MAX_RESEARCH_TASKS MAX_PLAN_REVIEWS rows = (rows1, a)"
        "completed_for goal role ((as_goal_id s, rl), r) \<longrightarrow> granted goal role (?q, a)"
    using delegate_reserves [OF assms(1) step, of goal] other by (cases "rl = role") blast+
  then show ?case
  proof cases
    case 1
    then show ?thesis using IH by (auto simp: answers)
  next
    case (2 a)
    then have "reserve_all h st (?q # requests) rows = (rows', (?q, a) # grants)" using IH(1) by simp
    moreover have "role_limit role ?q = role_maximum role"
      by (cases role) (auto simp: role_limit_def role_count_def role_maximum_def)
    ultimately show ?thesis
      using IH(2,3) 2(2) by (intro exI [of _ "?q # requests"] exI [of _ "(?q, a) # grants"]) (auto simp: answers)
  qed
qed

lemma delegations_within_limit:
  assumes "ab_budget b = Some (stored_budget h st)" and "delegate_all h b calls (rows, w) = (rows', answers)"
    and "goal_digest h goal = Inr g"
  shows "int (length (filter (completed_for goal role) answers)) \<le> role_maximum role"
proof -
  obtain rows1 w1 where "rows' = (rows1, w1)" by fastforce
  with delegate_all_reserves [OF assms(1)] assms(2) obtain requests grants where
    r: "reserve_all h st requests rows = (rows1, grants)"
    "list_all (\<lambda>q. role_limit role q = role_maximum role) requests"
    "length (filter (completed_for goal role) answers) \<le> length (filter (granted goal role) grants)" by blast
  have "list_all (\<lambda>q. fst q = goal \<longrightarrow> role_limit role q \<le> role_maximum role) requests"
    using r(2) by (auto simp: list_all_iff)
  from grants_within_limit [OF assms(3) r(1) this] held_nonneg [of h st g role rows]
  have "int (length (filter (granted goal role) grants)) \<le> role_maximum role"
    by (auto simp: role_maximum_def MAX_RESEARCH_TASKS_def MAX_PLAN_REVIEWS_def split: option.splits if_splits)
  then show ?thesis using r(3) by linarith
qed

subsection \<open>Evidence that the parent accepts\<close>

lemma rechecked_report:
  assumes "recheck_report h repo r = Inr e"
  shows "validate_report h r = None" and "ve_summary e = rep_summary r" and "ve_findings e = rep_findings r"
    and "set (ve_citations e) = set (rep_citations r)" and "sorted (ve_citations e)" and "distinct (ve_citations e)"
    and "set (rep_citations r) \<subseteq> fst ` set repo"
proof -
  from assms have v: "validate_report h r = None" by (simp add: recheck_report_def split: option.split_asm)
  moreover from this assms have all: "filter (\<lambda>p. \<not> repository_contains repo p) (remdups (rep_citations r)) = []"
    and e: "e = \<lparr>ve_summary = rep_summary r, ve_findings = rep_findings r, ve_citations = sort (remdups (rep_citations r))\<rparr>"
    by (auto simp: recheck_report_def Let_def split: if_split_asm) (metis set_empty set_sort)
  ultimately show "validate_report h r = None" "ve_summary e = rep_summary r" "ve_findings e = rep_findings r"
    "set (ve_citations e) = set (rep_citations r)" "sorted (ve_citations e)" "distinct (ve_citations e)" by simp_all
  show "set (rep_citations r) \<subseteq> fst ` set repo"
    using all by (auto simp: filter_empty_conv repository_contains_iff)
qed

lemma validated_report:
  assumes "validate_report h r = None"
  shows "rep_proposed_target r = None" and "rep_claimed_approval r = None" and "rep_proposed_plan r = None"
    and "\<not> secret_text h (rep_summary r)" and "list_all (\<lambda>f. \<not> secret_text h f \<and> \<not> blank f) (rep_findings r)"
    and "rep_extra r = [] \<or> sanitize_payload h (rep_extra r) = Inr (rep_extra r)"
proof -
  have content: "report_content_error h r = None"
    using assms by (auto simp: validate_report_def split: if_split_asm option.split_asm)
  show "rep_proposed_target r = None" "rep_claimed_approval r = None" "rep_proposed_plan r = None"
    using assms by (auto simp: validate_report_def split: if_split_asm)
  have "reject_secret h (rep_summary r) = None \<and> (\<forall>f \<in> set (rep_findings r). \<not> blank f \<and> reject_secret h f = None)"
    using content by (simp add: report_content_error_def first_error_None_iff ball_Un)
  then show "\<not> secret_text h (rep_summary r)" "list_all (\<lambda>f. \<not> secret_text h f \<and> \<not> blank f) (rep_findings r)"
    by (auto simp: reject_secret_def list_all_iff)
  show "rep_extra r = [] \<or> sanitize_payload h (rep_extra r) = Inr (rep_extra r)"
    using content sanitized_payload(1)
    by (auto simp: report_content_error_def first_error_None_iff outcome_error_def split: if_split_asm sum.split_asm)
qed

lemma dispatch_refuses:
  assumes "advisory_dispatch h profile repo tool arguments = Inl e"
  shows "exn_kind e = AdvisoryDispatchDenied"
proof -
  have path: "exn_kind e = AdvisoryDispatchDenied" if "normalize_path p = Inl e" for p e
    using that by (auto simp: normalize_path_def split: if_splits)
  have rd: "exn_kind e = AdvisoryDispatchDenied" if "repository_read repo p = Inl e" for p
    using that path by (auto simp: repository_read_def sbind_Inl split: option.split_asm)
  have "exn_kind e = AdvisoryDispatchDenied" if "repository_search h repo q = Inl e" for q
    using that by (auto simp: repository_search_def split: if_splits)
  then show ?thesis
    using assms rd
    by (auto simp: advisory_dispatch_def Let_def sbind_Inl split: if_split_asm option.split_asm json.split_asm)
qed

end
