(* ===== verification/Journal_Samples.thy ===== *)
theory Journal_Samples
  imports Samples Work_Journal Advisory_Delegation
begin

text \<open>Concrete journals, budgets and brokers for the witnesses of the work memory and the advisory boundary.\<close>

definition work_host :: host where
  "work_host = sample_host\<lparr>h_urlsplit := (\<lambda>s. Some \<lparr>url_scheme = [], url_netloc = [], url_hostname = None,
     url_username = None, url_password = None, url_path = s, url_query = [], url_fragment = [], url_port = Some None\<rparr>)\<rparr>"

lemma work_host_laws: "host_laws work_host"
  using sample_host_laws by (simp add: host_laws_def work_host_def)

definition sample_event_id :: uuid where
  "sample_event_id = ''00000000-0000-4000-8000-000000000001''"

definition second_event_id :: uuid where
  "second_event_id = ''00000000-0000-4000-8000-000000000002''"

definition created_journal :: work_db where
  "created_journal = created_work_db empty_work_db"

definition started_journal :: work_db where
  "started_journal =
     fst (work_start work_host sample_event_id 5 ''task-1'' ''issue 7'' ''Fix it'' (\<lambda>_. None) created_journal)"

definition sample_store :: budget_store where
  "sample_store = \<lparr>bs_key = ''key'', bs_repository_digest = replicate 64 CHR ''0''\<rparr>"

definition advisory_profile :: "string \<Rightarrow> string list \<Rightarrow> agent_profile" where
  "advisory_profile name tools = \<lparr>apf_path = name, apf_name = name, apf_description = name, apf_tools = tools,
     apf_user_invocable = False, apf_disable_model_invocation = True, apf_body = name\<rparr>"

definition advisory_sample_broker :: "(budget_row list \<times> unit) advisory_broker" where
  "advisory_sample_broker = \<lparr>ab_inventory = \<lparr>ai_parent = advisory_profile ''MasterAgent'' [''read''],
       ai_researcher = advisory_profile ''Researcher'' [''read''], ai_reviewer = advisory_profile ''Reviewer'' [''read'']\<rparr>,
     ab_repository = [(''README.md'', ''text'')], ab_budget = Some (stored_budget work_host sample_store)\<rparr>"

definition advisory_route :: semantic_route where
  "advisory_route = \<lparr>sr_route = ''core'', sr_title = ''Core'', sr_lifecycle = ''stable'', sr_summary = ''Core'',
     sr_authority = [], sr_implementation = [], sr_configuration = [], sr_tests = [], sr_release_gates = [],
     sr_dependencies = []\<rparr>"

definition advisory_sample_session :: advisory_session where
  "advisory_sample_session = \<lparr>as_task_id = ''t'', as_goal_id = ''goal'', as_semantic_route = Some advisory_route,
     as_research_attempts = 0, as_review_attempts = 0\<rparr>"

definition advisory_sample_report :: advisory_report where
  "advisory_sample_report = \<lparr>rep_summary = ''done'', rep_findings = [], rep_citations = [''README.md''],
     rep_proposed_target = None, rep_claimed_approval = None, rep_proposed_plan = None, rep_extra = []\<rparr>"

definition advisory_sample_worker :: "'w advisory_worker" where
  "advisory_sample_worker envelope dispatch w = (w, Inr advisory_sample_report)"

lemma created_journal_schema: "validate_work_schema created_journal = None"
  by code_simp

lemma created_journal_replay: "replay work_host True created_journal = Inr (replay_of [])"
  unfolding replay_exact
  by (intro exI [of _ "[]"]) (simp add: created_journal_def created_work_db_def empty_work_db_def journal_def state_of_def)

lemma created_journal_ready: "work_initialize work_host True empty_work_db = (created_journal, Inr ())"
  using created_journal_schema created_journal_replay
  by (simp add: work_initialize_def user_tables_def transact_def created_journal_def empty_work_db_def)

definition started_event :: work_event where
  "started_event =
     new_event work_host sample_event_id 5 (replay_of []) ''task-1'' Started Issue ''Fix it'' (Some ''issue 7'')"

lemma sample_fields:
  "validate_start_fields work_host ''task-1'' ''issue 7'' ''Fix it'' = Inr (''task-1'', ''issue 7'', ''Fix it'')"
  "validate_reference work_host ''reference'' ''issue 7'' = Inr ''issue 7''"
  "validate_work_id work_host ''task-1'' = Inr ''task-1''"
  "validate_summary work_host ''Plan it'' = Inr ''Plan it''"
  by code_simp+

lemma sample_event_ids: "canonical_uuid sample_event_id" "canonical_uuid second_event_id"
  by code_simp+

lemma started_journal_state:
  "replay work_host False started_journal = Inr (replay_of [started_event])"
  "validate_work_schema started_journal = None"
proof -
  obtain db' snap where w: "work_start work_host sample_event_id 5 ''task-1'' ''issue 7'' ''Fix it'' (\<lambda>_. None) created_journal
      = (db', Inr snap)" "replay work_host False db' = Inr (replay_of ([] @ [started_event]))" "validate_work_schema db' = None"
    by (rule work_start_accepts [OF work_host_laws sample_event_ids(1) created_journal_schema created_journal_replay])
      (auto simp: work_of_def started_event_def max_events_def sample_fields)
  then show "replay work_host False started_journal = Inr (replay_of [started_event])"
    "validate_work_schema started_journal = None"
    by (simp_all add: started_journal_def)
qed

lemma started_event_record: "work_of ''task-1'' [started_event] = [started_event]" "we_stage started_event = Issue"
  "we_event_id started_event = sample_event_id"
  by (simp_all add: work_of_def started_event_def)

lemma started_event_scalar: "scalar_event work_host started_event"
  by code_simp

end
