(* ===== verification/Recurring.thy ===== *)
theory Recurring
  imports Sqlite Ascii_Json
begin

text \<open>
  The scheduler of \<open>recurring.py\<close>: weekly schedules in a time zone, registered workflows with their loader on
  the decoded TOML document, the two tables of the scheduler state with one operation per
  transaction, and the runner. Instants and wall clock readings are microseconds, a wall clock
  reading counted from 0001-01-01, which was a Monday. A time zone is the pair of conversions that
  \<open>zoneinfo\<close> answers. Random tokens and the clock are arguments; a raise leaves the tables as they were.
\<close>

subsection \<open>Enumerations\<close>

datatype workflow_kind = WeeklyStatusPackage | CommunicationContextPackage | WeeklyOperatingReview

definition workflow_kinds :: "(string \<times> workflow_kind) list" where
  "workflow_kinds =
     [(''weekly_status_package'', WeeklyStatusPackage),
      (''communication_context_package'', CommunicationContextPackage),
      (''weekly_operating_review'', WeeklyOperatingReview)]"

datatype delivery_mode = LocalOnly | DraftOnly

definition delivery_modes :: "(string \<times> delivery_mode) list" where
  "delivery_modes = [(''local_only'', LocalOnly), (''draft_only'', DraftOnly)]"

datatype fold_policy = FoldReject | FoldFirst | FoldSecond

definition fold_policies :: "(string \<times> fold_policy) list" where
  "fold_policies = [(''reject'', FoldReject), (''first'', FoldFirst), (''second'', FoldSecond)]"

datatype catch_up_policy = LatestOnly

definition catch_up_policies :: "(string \<times> catch_up_policy) list" where
  "catch_up_policies = [(''latest_only'', LatestOnly)]"

datatype run_claim_status = ClaimRunning | ClaimSucceeded | ClaimRunFailed | ClaimExpired | ClaimRecoverable

fun claim_str :: "run_claim_status \<Rightarrow> string" where
  "claim_str ClaimRunning = ''running''"
| "claim_str ClaimSucceeded = ''succeeded''"
| "claim_str ClaimRunFailed = ''failed''"
| "claim_str ClaimExpired = ''expired''"
| "claim_str ClaimRecoverable = ''recoverable''"

datatype occurrence_status =
    OccBound | OccRunning | OccApprovalBlocked | OccSucceeded | OccFailedPreEffect | OccRecoverable
  | OccExpired | OccCancelled | OccIndeterminate | OccRevoked

fun occurrence_str :: "occurrence_status \<Rightarrow> string" where
  "occurrence_str OccBound = ''bound''"
| "occurrence_str OccRunning = ''running''"
| "occurrence_str OccApprovalBlocked = ''approval_blocked''"
| "occurrence_str OccSucceeded = ''succeeded''"
| "occurrence_str OccFailedPreEffect = ''failed_pre_effect''"
| "occurrence_str OccRecoverable = ''recoverable''"
| "occurrence_str OccExpired = ''expired''"
| "occurrence_str OccCancelled = ''cancelled''"
| "occurrence_str OccIndeterminate = ''indeterminate''"
| "occurrence_str OccRevoked = ''revoked''"

definition occurrence_statuses :: "(string \<times> occurrence_status) list" where
  "occurrence_statuses =
     map (\<lambda>s. (occurrence_str s, s))
       [OccBound, OccRunning, OccApprovalBlocked, OccSucceeded, OccFailedPreEffect, OccRecoverable,
        OccExpired, OccCancelled, OccIndeterminate, OccRevoked]"

abbreviation config_error :: "string \<Rightarrow> exn" where
  "config_error m \<equiv> Exn ConfigurationError m"

subsection \<open>Schedules\<close>

text \<open>What \<open>zoneinfo\<close> answers for one key: the wall clock reading and the fold of an instant, and the instant
  of a wall clock reading with a fold. \<open>ZoneInfoNotFoundError\<close> is a \<open>KeyError\<close>; a key that is no relative
  path raises a \<open>ValueError\<close>.\<close>

record time_zone =
  tz_local :: "instant \<Rightarrow> int \<times> nat"
  tz_instant :: "int \<Rightarrow> nat \<Rightarrow> instant"

type_synonym zones = "string \<Rightarrow> exn + time_zone"

record weekly_schedule =
  sc_weekday :: int
  sc_hour :: int
  sc_minute :: int
  sc_timezone :: string
  sc_max_lateness_minutes :: int
  sc_fold_policy :: fold_policy

definition minute_us :: int where "minute_us = 60 * 1000000"

definition day_us :: int where "day_us = 24 * 60 * minute_us"

definition mk_schedule :: "zones \<Rightarrow> weekly_schedule \<Rightarrow> exn + weekly_schedule" where
  "mk_schedule zs s =
     guarded
       [(\<not> (0 \<le> sc_weekday s \<and> sc_weekday s \<le> 6), config_error ''weekday must be 0 (Monday) through 6 (Sunday)''),
        (\<not> (0 \<le> sc_hour s \<and> sc_hour s \<le> 23), config_error ''hour must be 0 through 23''),
        (\<not> (0 \<le> sc_minute s \<and> sc_minute s \<le> 59), config_error ''minute must be 0 through 59''),
        (sc_max_lateness_minutes s < 0, config_error ''max_lateness_minutes must not be negative''),
        (case zs (sc_timezone s) of Inl e \<Rightarrow> caught_by [KeyError] e | Inr z \<Rightarrow> False,
           config_error (''unknown IANA timezone: '' @ sc_timezone s)),
        (isl (zs (sc_timezone s)), case zs (sc_timezone s) of Inl e \<Rightarrow> e | Inr z \<Rightarrow> Exn RuntimeError [])] s"

definition wall_weekday :: "int \<Rightarrow> int" where
  "wall_weekday wall = (wall div day_us) mod 7"

text \<open>The folds under which a wall clock reading survives the way to an instant and back.\<close>

definition local_candidates :: "time_zone \<Rightarrow> int \<Rightarrow> (nat \<times> instant) list" where
  "local_candidates z wall =
     filter (\<lambda>(fold, t). tz_local z t = (wall, fold)) (map (\<lambda>fold. (fold, tz_instant z wall fold)) [0, 1])"

definition resolve_local :: "fold_policy \<Rightarrow> time_zone \<Rightarrow> int \<Rightarrow> exn + instant" where
  "resolve_local policy z wall =
     (let candidates = local_candidates z wall in
      case remdups (map snd candidates) of
        [] \<Rightarrow> Inl (config_error ''recurring local time does not exist in its zone'')
      | [t] \<Rightarrow> Inr t
      | _ \<Rightarrow>
          if policy = FoldReject
          then Inl (config_error ''recurring local time is ambiguous and requires a fold policy'')
          else (case map_of candidates (if policy = FoldFirst then 0 else 1) of
              None \<Rightarrow> Inl (config_error ''recurring DST fold policy could not be satisfied'')
            | Some t \<Rightarrow> Inr t))"

text \<open>The local midnight of the last scheduled weekday, and the instant scheduled on that day.\<close>

definition candidate_wall :: "weekly_schedule \<Rightarrow> int \<Rightarrow> int" where
  "candidate_wall s wall =
     (wall div day_us - (wall_weekday wall - sc_weekday s) mod 7) * day_us
       + (sc_hour s * 60 + sc_minute s) * minute_us"

definition scheduled_at_or_before :: "time_zone \<Rightarrow> weekly_schedule \<Rightarrow> instant \<Rightarrow> exn + instant" where
  "scheduled_at_or_before z s now =
     (let candidate = candidate_wall s (fst (tz_local z now)) in
      sbind (resolve_local (sc_fold_policy s) z candidate) (\<lambda>selected.
      if now < selected then resolve_local (sc_fold_policy s) z (candidate - 7 * day_us) else Inr selected))"

definition resolve_occurrence :: "time_zone \<Rightarrow> weekly_schedule \<Rightarrow> py_datetime \<Rightarrow> exn + instant" where
  "resolve_occurrence z s d =
     (if dt_offset d \<noteq> None then Inl (config_error ''recurring occurrence must be a local wall time'')
      else resolve_local (sc_fold_policy s) z (dt_wall d))"

subsection \<open>Registered workflows\<close>

record registered_workflow =
  wf_name :: string
  wf_enabled :: bool
  wf_kind :: workflow_kind
  wf_schedule :: weekly_schedule
  wf_delivery_mode :: delivery_mode
  wf_output_dir :: string
  wf_integration_config :: string
  wf_workflow_config :: string
  wf_identity_config :: "string option"
  wf_retention_config :: "string option"
  wf_allowed_capabilities :: "string list"
  wf_allowed_recipients :: "string list"
  wf_canonical_sources :: "string list"
  wf_generation :: int
  wf_revoked :: bool
  wf_catch_up_policy :: catch_up_policy
  wf_approval_resume_minutes :: int

record recurring_config =
  rcf_state_database :: string
  rcf_lock_dir :: string
  rcf_workflows :: "(string \<times> registered_workflow) list"
  rcf_occurrence_root :: "string option"

definition toml_table :: "json \<Rightarrow> string \<Rightarrow> exn + json_object" where
  "toml_table v name = (case v of JObj kvs \<Rightarrow> Inr kvs | _ \<Rightarrow> Inl (config_error (name @ '' must be a TOML table'')))"

definition value_or :: "json_object \<Rightarrow> string \<Rightarrow> json \<Rightarrow> json" where
  "value_or d k v = (case obj_get d k of None \<Rightarrow> v | Some j \<Rightarrow> j)"

definition required_text :: "host \<Rightarrow> json_object \<Rightarrow> string \<Rightarrow> exn + string" where
  "required_text h d k =
     (let rendered = py_strip (get_str h d k []) in
      if rendered = [] then Inl (config_error (k @ '' must not be empty'')) else Inr rendered)"

definition toml_bool :: "json_object \<Rightarrow> string \<Rightarrow> bool \<Rightarrow> exn + bool" where
  "toml_bool d k b =
     (case value_or d k (JBool b) of JBool v \<Rightarrow> Inr v | _ \<Rightarrow> Inl (config_error (k @ '' must be a TOML boolean'')))"

text \<open>\<open>int(item)\<close>; a \<open>TypeError\<close> or a \<open>ValueError\<close> becomes a configuration error.\<close>

definition toml_int :: "host \<Rightarrow> json_object \<Rightarrow> string \<Rightarrow> int \<Rightarrow> exn + int" where
  "toml_int h d k i =
     (case value_or d k (JInt i) of
        JBool b \<Rightarrow> Inl (config_error (k @ '' must be an integer''))
      | j \<Rightarrow> (case py_int h j of
            Inr n \<Rightarrow> Inr n
          | Inl e \<Rightarrow> if caught_by [TypeError, ValueError] e then Inl (config_error (k @ '' must be an integer'')) else Inl e))"

definition positive_int :: "host \<Rightarrow> json_object \<Rightarrow> string \<Rightarrow> int \<Rightarrow> exn + int" where
  "positive_int h d k i =
     sbind (toml_int h d k i) (\<lambda>n. if n \<le> 0 then Inl (config_error (k @ '' must be positive'')) else Inr n)"

definition toml_enum :: "(string \<times> 'a) list \<Rightarrow> json_object \<Rightarrow> string \<Rightarrow> string \<Rightarrow> exn + 'a" where
  "toml_enum members d k v =
     (case value_or d k (JStr v) of
        JStr raw \<Rightarrow> (case map_of members raw of Some m \<Rightarrow> Inr m | None \<Rightarrow> Inl (config_error (k @ '' is unsupported'')))
      | _ \<Rightarrow> Inl (config_error (k @ '' must be a string'')))"

definition toml_text_list :: "host \<Rightarrow> json_object \<Rightarrow> string \<Rightarrow> exn + string list" where
  "toml_text_list h d k =
     (case value_or d k (JList []) of
        JList xs \<Rightarrow> Inr (filter (\<lambda>s. s \<noteq> []) (map (\<lambda>x. py_strip (py_str h x)) xs))
      | _ \<Rightarrow> Inl (config_error (k @ '' must be a string list'')))"

text \<open>\<open>bool(value)\<close> of an optional entry.\<close>

fun json_truthy :: "json \<Rightarrow> bool" where
  "json_truthy JNull = False"
| "json_truthy (JBool b) = b"
| "json_truthy (JInt i) = (i \<noteq> 0)"
| "json_truthy (JFloat fin r) = (r \<noteq> ''0.0'' \<and> r \<noteq> ''-0.0'')"
| "json_truthy (JStr s) = (s \<noteq> [])"
| "json_truthy (JList xs) = (xs \<noteq> [])"
| "json_truthy (JObj kvs) = (kvs \<noteq> [])"
| "json_truthy (JOther t) = True"

text \<open>\<open>resolve\<close> stands for the resolution of a path against the directory of the configuration file.\<close>

definition optional_path :: "host \<Rightarrow> (string \<Rightarrow> string) \<Rightarrow> json_object \<Rightarrow> string \<Rightarrow> string option" where
  "optional_path h resolve d k =
     (case obj_get d k of
        None \<Rightarrow> None
      | Some j \<Rightarrow> if json_truthy j then Some (resolve (py_str h j)) else None)"

definition load_schedule :: "host \<Rightarrow> zones \<Rightarrow> json_object \<Rightarrow> exn + weekly_schedule" where
  "load_schedule h zs d =
     sbind (toml_int h d ''weekday'' 0) (\<lambda>weekday.
     sbind (toml_int h d ''hour'' 0) (\<lambda>hour.
     sbind (toml_int h d ''minute'' 0) (\<lambda>minute.
     sbind (required_text h d ''timezone'') (\<lambda>timezone.
     sbind (toml_int h d ''max_lateness_minutes'' 1440) (\<lambda>lateness.
     sbind (toml_enum fold_policies d ''dst_fold'' ''reject'') (\<lambda>fold.
     mk_schedule zs \<lparr>sc_weekday = weekday, sc_hour = hour, sc_minute = minute, sc_timezone = timezone,
       sc_max_lateness_minutes = lateness, sc_fold_policy = fold\<rparr>))))))"

definition load_workflow ::
  "host \<Rightarrow> zones \<Rightarrow> (string \<Rightarrow> string) \<Rightarrow> string \<times> json \<Rightarrow> exn + string \<times> registered_workflow"
where
  "load_workflow h zs resolve entry =
     (case entry of (name, raw) \<Rightarrow>
      sbind (toml_table raw (''workflow '' @ name)) (\<lambda>d.
      case (map_of workflow_kinds (get_str h d ''kind'' []), map_of delivery_modes (get_str h d ''delivery_mode'' ''local_only'')) of
        (Some kind, Some mode) \<Rightarrow>
          sbind (toml_text_list h d ''allowed_capabilities'') (\<lambda>capabilities.
          if capabilities = [] then Inl (config_error ''recurring workflow requires allowed_capabilities'') else
          sbind (toml_text_list h d ''canonical_sources'') (\<lambda>sources.
          if sources = [] then Inl (config_error ''recurring workflow requires canonical_sources'') else
          sbind (toml_bool d ''enabled'' False) (\<lambda>enabled.
          sbind (load_schedule h zs d) (\<lambda>schedule.
          sbind (required_text h d ''output_dir'') (\<lambda>output_dir.
          sbind (required_text h d ''integration_config'') (\<lambda>integration.
          sbind (required_text h d ''workflow_config'') (\<lambda>workflow_config.
          sbind (toml_text_list h d ''allowed_recipients'') (\<lambda>recipients.
          sbind (positive_int h d ''generation'' 1) (\<lambda>generation.
          sbind (toml_bool d ''revoked'' False) (\<lambda>revoked.
          sbind (toml_enum catch_up_policies d ''catch_up_policy'' ''latest_only'') (\<lambda>catch_up.
          sbind (positive_int h d ''approval_resume_minutes'' 1440) (\<lambda>resume.
          Inr (name, \<lparr>wf_name = name, wf_enabled = enabled, wf_kind = kind, wf_schedule = schedule,
            wf_delivery_mode = mode, wf_output_dir = resolve output_dir, wf_integration_config = resolve integration,
            wf_workflow_config = resolve workflow_config, wf_identity_config = optional_path h resolve d ''identity_config'',
            wf_retention_config = optional_path h resolve d ''retention_config'', wf_allowed_capabilities = capabilities,
            wf_allowed_recipients = recipients, wf_canonical_sources = sources, wf_generation = generation,
            wf_revoked = revoked, wf_catch_up_policy = catch_up, wf_approval_resume_minutes = resume\<rparr>)))))))))))))
      | _ \<Rightarrow> Inl (config_error ''unsupported recurring workflow'')))"

definition load_recurring_config ::
  "host \<Rightarrow> zones \<Rightarrow> (string \<Rightarrow> string) \<Rightarrow> json_object \<Rightarrow> exn + recurring_config"
where
  "load_recurring_config h zs resolve raw =
     sbind (toml_table (value_or raw ''scheduler'' (JObj [])) ''[scheduler]'') (\<lambda>scheduler.
     sbind (required_text h scheduler ''state_database'') (\<lambda>database.
     sbind (required_text h scheduler ''lock_dir'') (\<lambda>lock_dir.
     let root = py_strip (get_str h scheduler ''occurrence_root'' []) in
     sbind (toml_table (value_or raw ''workflows'' (JObj [])) ''[workflows]'') (\<lambda>raw_workflows.
     sbind (smap (load_workflow h zs resolve) raw_workflows) (\<lambda>workflows.
     Inr \<lparr>rcf_state_database = resolve database, rcf_lock_dir = resolve lock_dir, rcf_workflows = workflows,
       rcf_occurrence_root = (if root = [] then None else Some (resolve root))\<rparr>)))))"

definition validate_plan_capabilities :: "string list \<Rightarrow> registered_workflow \<Rightarrow> exn option" where
  "validate_plan_capabilities capabilities w =
     (let unexpected = sort (filter (\<lambda>c. c \<notin> set (wf_allowed_capabilities w)) (remdups capabilities)) in
      fail_if (unexpected \<noteq> []) (config_error (''registered workflow generated unapproved capabilities: '' @ py_join '', '' unexpected)))"

definition validate_recipients :: "host \<Rightarrow> string list \<Rightarrow> registered_workflow \<Rightarrow> exn option" where
  "validate_recipients h recipients w =
     (let allowed = map (h_casefold h) (wf_allowed_recipients w);
          unexpected = sort (filter (\<lambda>r. h_casefold h r \<notin> set allowed) recipients) in
      fail_if (unexpected \<noteq> []) (config_error (''registered workflow selected unapproved recipients: '' @ py_join '', '' unexpected)))"

subsection \<open>The tables of the scheduler state\<close>

text \<open>The rows of \<open>recurring_runs\<close> in the order of their identifiers; the pair of name and scheduled time is unique.\<close>

record recurring_run =
  rr_workflow :: string
  rr_scheduled_at :: string
  rr_started_at :: string
  rr_finished_at :: string
  rr_successful :: bool
  rr_summary :: string
  rr_status :: string
  rr_lease :: "string option"
  rr_attempts :: int
  rr_reason :: "string option"
  rr_token :: "string option"

record occurrence_row =
  oc_workflow :: string
  oc_scheduled_at :: string
  oc_fingerprint :: string
  oc_artifact_sha256 :: string
  oc_registration_digest :: string
  oc_execution_key :: string
  oc_status :: string
  oc_generation :: int
  oc_token :: "string option"
  oc_lease :: "string option"
  oc_request :: "string option"
  oc_resume_deadline :: string
  oc_finished_at :: "string option"

record recurring_db =
  rd_runs :: "recurring_run list"
  rd_occurrences :: "occurrence_row list"

text \<open>\<open>value.astimezone(UTC).isoformat()\<close>\<close>

definition utc_time :: "instant \<Rightarrow> py_datetime" where
  "utc_time t = \<lparr>dt_wall = t, dt_offset = Some 0\<rparr>"

definition utc_text :: "host \<Rightarrow> instant \<Rightarrow> string" where
  "utc_text h t = h_isoformat h (utc_time t)"

text \<open>An update: the rows that the condition selects are replaced, and counted.\<close>

definition update_rows :: "('r \<Rightarrow> bool) \<Rightarrow> ('r \<Rightarrow> 'r) \<Rightarrow> 'r list \<Rightarrow> 'r list" where
  "update_rows p f rows = map (\<lambda>r. if p r then f r else r) rows"

definition row_count :: "('r \<Rightarrow> bool) \<Rightarrow> 'r list \<Rightarrow> nat" where
  "row_count p rows = length (filter p rows)"

subsection \<open>Exact-bound occurrences\<close>

definition register_occurrence ::
  "host \<Rightarrow> string \<Rightarrow> instant \<Rightarrow> string \<Rightarrow> string \<Rightarrow> string \<Rightarrow> string \<Rightarrow> instant \<Rightarrow> recurring_db
     \<Rightarrow> recurring_db \<times> (exn + unit)"
where
  "register_occurrence h name scheduled fp sha registration key deadline db =
     (case find (\<lambda>r. oc_workflow r = name \<and> oc_scheduled_at r = utc_text h scheduled) (rd_occurrences db) of
        Some r \<Rightarrow>
          (db, if (oc_fingerprint r, oc_artifact_sha256 r, oc_registration_digest r, oc_execution_key r, oc_resume_deadline r)
                 = (fp, sha, registration, key, utc_text h deadline)
               then Inr ()
               else Inl (config_error ''a different recurring artifact is already registered for this occurrence''))
      | None \<Rightarrow>
          if list_ex (\<lambda>r. oc_fingerprint r = fp) (rd_occurrences db)
          then (db, Inl (Exn SqliteError ''UNIQUE constraint failed''))
          else (db\<lparr>rd_occurrences := rd_occurrences db
            @ [\<lparr>oc_workflow = name, oc_scheduled_at = utc_text h scheduled, oc_fingerprint = fp, oc_artifact_sha256 = sha,
                oc_registration_digest = registration, oc_execution_key = key, oc_status = occurrence_str OccBound,
                oc_generation = 0, oc_token = None, oc_lease = None, oc_request = None,
                oc_resume_deadline = utc_text h deadline, oc_finished_at = None\<rparr>]\<rparr>, Inr ()))"

definition authenticate_occurrence ::
  "host \<Rightarrow> string \<Rightarrow> instant \<Rightarrow> string \<Rightarrow> string \<Rightarrow> string \<Rightarrow> string \<Rightarrow> recurring_db \<Rightarrow> exn + occurrence_status"
where
  "authenticate_occurrence h name scheduled fp sha registration key db =
     (case find (\<lambda>r. oc_workflow r = name \<and> oc_scheduled_at r = utc_text h scheduled) (rd_occurrences db) of
        None \<Rightarrow> Inl (config_error ''recurring artifact is not registered in trusted local state'')
      | Some r \<Rightarrow>
          if (oc_fingerprint r, oc_artifact_sha256 r, oc_registration_digest r, oc_execution_key r)
             \<noteq> (fp, sha, registration, key)
          then Inl (config_error ''recurring artifact authentication changed'')
          else (case map_of occurrence_statuses (oc_status r) of
              None \<Rightarrow> Inl (config_error ''recurring occurrence state is invalid'')
            | Some s \<Rightarrow> Inr s))"

definition occurrence_update ::
  "(occurrence_row \<Rightarrow> bool) \<Rightarrow> (occurrence_row \<Rightarrow> occurrence_row) \<Rightarrow> recurring_db \<Rightarrow> recurring_db"
where
  "occurrence_update p f db = db\<lparr>rd_occurrences := update_rows p f (rd_occurrences db)\<rparr>"

definition start_attempt :: "host \<Rightarrow> int \<Rightarrow> uuid \<Rightarrow> instant \<Rightarrow> occurrence_row \<Rightarrow> occurrence_row" where
  "start_attempt h lease token now r =
     r\<lparr>oc_status := occurrence_str OccRunning, oc_generation := oc_generation r + 1, oc_token := Some token,
       oc_lease := Some (utc_text h (now + lease)), oc_finished_at := None\<rparr>"

definition reservable :: "host \<Rightarrow> string \<Rightarrow> instant \<Rightarrow> occurrence_row \<Rightarrow> bool" where
  "reservable h fp now r =
     (oc_fingerprint r = fp \<and> oc_status r \<in> {occurrence_str OccBound, occurrence_str OccRecoverable}
      \<and> utc_text h now \<le> oc_resume_deadline r)"

definition reserve_occurrence ::
  "host \<Rightarrow> int \<Rightarrow> uuid \<Rightarrow> string \<Rightarrow> instant \<Rightarrow> recurring_db \<Rightarrow> recurring_db \<times> (exn + int \<times> uuid)"
where
  "reserve_occurrence h lease token fp now db =
     (let db' = occurrence_update (reservable h fp now) (start_attempt h lease token now) db in
      if row_count (reservable h fp now) (rd_occurrences db) \<noteq> 1
      then (db, Inl (config_error ''recurring occurrence is not eligible for reservation''))
      else (case find (\<lambda>r. oc_fingerprint r = fp) (rd_occurrences db') of
          None \<Rightarrow> (db, Inl (Exn RuntimeError ''reserved recurring occurrence disappeared''))
        | Some r \<Rightarrow> (db', Inr (oc_generation r, token))))"

definition failed_pre_effect :: "string \<Rightarrow> occurrence_row \<Rightarrow> bool" where
  "failed_pre_effect fp r = (oc_fingerprint r = fp \<and> oc_status r = occurrence_str OccFailedPreEffect)"

definition mark_occurrence_recoverable :: "string \<Rightarrow> recurring_db \<Rightarrow> recurring_db \<times> (exn + unit)" where
  "mark_occurrence_recoverable fp db =
     (occurrence_update (failed_pre_effect fp)
        (\<lambda>r. r\<lparr>oc_status := occurrence_str OccRecoverable, oc_request := None\<rparr>) db,
      if row_count (failed_pre_effect fp) (rd_occurrences db) \<noteq> 1
      then Inl (config_error ''only a certified failed-pre-effect occurrence can be recovered'') else Inr ())"

definition lapsed :: "host \<Rightarrow> string \<Rightarrow> instant \<Rightarrow> occurrence_row \<Rightarrow> bool" where
  "lapsed h fp now r =
     (oc_fingerprint r = fp \<and> oc_status r = occurrence_str OccRunning
      \<and> (case oc_lease r of None \<Rightarrow> False | Some l \<Rightarrow> l \<le> utc_text h now))"

definition reconcile_expired_occurrence ::
  "host \<Rightarrow> string \<Rightarrow> occurrence_status \<Rightarrow> instant \<Rightarrow> recurring_db \<Rightarrow> recurring_db \<times> (exn + unit)"
where
  "reconcile_expired_occurrence h fp status now db =
     (if status \<notin> {OccRecoverable, OccIndeterminate}
      then (db, Inl (Exn ValueError ''unsupported recurring reconciliation state''))
      else (occurrence_update (lapsed h fp now)
          (\<lambda>r. r\<lparr>oc_status := occurrence_str status, oc_token := None, oc_lease := None,
             oc_finished_at := Some (utc_text h now)\<rparr>) db,
        if row_count (lapsed h fp now) (rd_occurrences db) \<noteq> 1
        then Inl (config_error ''recurring occurrence has no expired running claim to reconcile'') else Inr ()))"

definition cancel_occurrence ::
  "host \<Rightarrow> string \<Rightarrow> instant \<Rightarrow> recurring_db \<Rightarrow> recurring_db \<times> (exn + occurrence_status)"
where
  "cancel_occurrence h fp now db =
     (case find (\<lambda>r. oc_fingerprint r = fp) (rd_occurrences db) of
        None \<Rightarrow> (db, Inl (config_error ''recurring occurrence is not registered''))
      | Some row \<Rightarrow>
          (case map_of occurrence_statuses (oc_status row) of
             None \<Rightarrow> (db, Inl (Exn ValueError ''is not a valid OccurrenceStatus''))
           | Some current \<Rightarrow>
               if current \<in> {OccSucceeded, OccIndeterminate, OccRevoked, OccCancelled}
               then (db, Inl (config_error ''completed or uncertain recurring occurrence cannot be cancelled''))
               else (let selected = (if current = OccRunning then OccIndeterminate else OccCancelled);
                         chosen = (\<lambda>r. oc_fingerprint r = fp \<and> oc_status r = occurrence_str current) in
                 if row_count chosen (rd_occurrences db) \<noteq> 1
                 then (db, Inl (config_error ''recurring occurrence changed during cancel''))
                 else (occurrence_update chosen
                   (\<lambda>r. r\<lparr>oc_status := occurrence_str selected, oc_token := None, oc_lease := None,
                      oc_finished_at := Some (utc_text h now)\<rparr>) db, Inr selected))))"

definition validate_occurrence_fence ::
  "host \<Rightarrow> string \<Rightarrow> int \<Rightarrow> uuid \<Rightarrow> instant \<Rightarrow> recurring_db \<Rightarrow> exn + unit"
where
  "validate_occurrence_fence h fp generation token now db =
     (let lost = Inl (config_error ''recurring occurrence claim fence was lost'') in
      case find (\<lambda>r. oc_fingerprint r = fp) (rd_occurrences db) of
        None \<Rightarrow> lost
      | Some r \<Rightarrow>
          if oc_status r \<noteq> occurrence_str OccRunning \<or> oc_generation r \<noteq> generation
            \<or> (case oc_token r of None \<Rightarrow> ''None'' | Some t \<Rightarrow> t) \<noteq> token
          then lost
          else (case oc_lease r of
              None \<Rightarrow> lost
            | Some l \<Rightarrow> (case h_fromisoformat h l of
                  None \<Rightarrow> Inl (Exn ValueError ''Invalid isoformat string'')
                | Some d \<Rightarrow> if \<not> aware d then Inl (Exn TypeError ''can't compare offset-naive and offset-aware datetimes'')
                    else if instant_of d \<le> now then lost else Inr ())))"

definition fenced :: "string \<Rightarrow> int \<Rightarrow> uuid \<Rightarrow> occurrence_row \<Rightarrow> bool" where
  "fenced fp generation token r =
     (oc_fingerprint r = fp \<and> oc_status r = occurrence_str OccRunning \<and> oc_generation r = generation
      \<and> oc_token r = Some token)"

definition renew_occurrence_fence ::
  "host \<Rightarrow> int \<Rightarrow> string \<Rightarrow> int \<Rightarrow> uuid \<Rightarrow> instant \<Rightarrow> recurring_db \<Rightarrow> recurring_db \<times> bool"
where
  "renew_occurrence_fence h lease fp generation token now db =
     (let live = (\<lambda>r. fenced fp generation token r
        \<and> (case oc_lease r of None \<Rightarrow> False | Some l \<Rightarrow> utc_text h now < l)) in
      (occurrence_update live (\<lambda>r. r\<lparr>oc_lease := Some (utc_text h (now + lease))\<rparr>) db,
       row_count live (rd_occurrences db) = 1))"

definition transition_running_occurrence ::
  "host \<Rightarrow> string \<Rightarrow> int \<Rightarrow> uuid \<Rightarrow> occurrence_status \<Rightarrow> string option \<Rightarrow> instant option \<Rightarrow> recurring_db
     \<Rightarrow> recurring_db \<times> (exn + unit)"
where
  "transition_running_occurrence h fp generation token status request finished db =
     (occurrence_update (fenced fp generation token)
        (\<lambda>r. r\<lparr>oc_status := occurrence_str status, oc_token := None, oc_lease := None, oc_request := request,
           oc_finished_at := map_option (utc_text h) finished\<rparr>) db,
      if row_count (fenced fp generation token) (rd_occurrences db) \<noteq> 1
      then Inl (config_error ''recurring occurrence claim fence was lost'') else Inr ())"

definition block_occurrence_for_approval ::
  "host \<Rightarrow> string \<Rightarrow> int \<Rightarrow> uuid \<Rightarrow> string \<Rightarrow> recurring_db \<Rightarrow> recurring_db \<times> (exn + unit)"
where
  "block_occurrence_for_approval h fp generation token request db =
     transition_running_occurrence h fp generation token OccApprovalBlocked (Some request) None db"

definition resumable :: "host \<Rightarrow> string \<Rightarrow> int \<Rightarrow> string \<Rightarrow> instant \<Rightarrow> occurrence_row \<Rightarrow> bool" where
  "resumable h fp prior request now r =
     (oc_fingerprint r = fp \<and> oc_status r = occurrence_str OccApprovalBlocked \<and> oc_generation r = prior
      \<and> oc_request r = Some request \<and> utc_text h now \<le> oc_resume_deadline r)"

definition resume_approval_blocked_occurrence ::
  "host \<Rightarrow> int \<Rightarrow> uuid \<Rightarrow> string \<Rightarrow> int \<Rightarrow> string \<Rightarrow> instant \<Rightarrow> recurring_db \<Rightarrow> recurring_db \<times> (exn + int \<times> uuid)"
where
  "resume_approval_blocked_occurrence h lease token fp prior request now db =
     (if row_count (resumable h fp prior request now) (rd_occurrences db) \<noteq> 1
      then (db, Inl (config_error ''recurring approval resume is stale, expired, or changed''))
      else (occurrence_update (resumable h fp prior request now) (start_attempt h lease token now) db,
        Inr (prior + 1, token)))"

definition finalize_occurrence ::
  "host \<Rightarrow> string \<Rightarrow> int \<Rightarrow> uuid \<Rightarrow> occurrence_status \<Rightarrow> instant \<Rightarrow> recurring_db \<Rightarrow> recurring_db \<times> (exn + unit)"
where
  "finalize_occurrence h fp generation token status finished db =
     (if status \<notin> {OccSucceeded, OccFailedPreEffect, OccIndeterminate, OccRevoked}
      then (db, Inl (Exn ValueError ''unsupported recurring occurrence terminal state''))
      else transition_running_occurrence h fp generation token status None (Some finished) db)"

subsection \<open>Claims of scheduled runs\<close>

definition same_run :: "host \<Rightarrow> string \<Rightarrow> py_datetime \<Rightarrow> recurring_run \<Rightarrow> bool" where
  "same_run h name scheduled r = (rr_workflow r = name \<and> rr_scheduled_at r = h_isoformat h scheduled)"

definition claimable :: "host \<Rightarrow> string \<Rightarrow> py_datetime \<Rightarrow> recurring_run \<Rightarrow> bool" where
  "claimable h name scheduled r = (same_run h name scheduled r \<and> rr_status r = claim_str ClaimRecoverable)"

definition owned_run :: "host \<Rightarrow> string \<Rightarrow> py_datetime \<Rightarrow> uuid \<Rightarrow> recurring_run \<Rightarrow> bool" where
  "owned_run h name scheduled token r =
     (same_run h name scheduled r \<and> rr_status r = claim_str ClaimRunning \<and> rr_token r = Some token)"

definition run_update :: "(recurring_run \<Rightarrow> bool) \<Rightarrow> (recurring_run \<Rightarrow> recurring_run) \<Rightarrow> recurring_db \<Rightarrow> recurring_db" where
  "run_update p f db = db\<lparr>rd_runs := update_rows p f (rd_runs db)\<rparr>"

text \<open>\<open>INSERT OR IGNORE\<close> on the unique pair of name and scheduled time, then the update of a recoverable row.\<close>

definition claim_run ::
  "host \<Rightarrow> int \<Rightarrow> uuid \<Rightarrow> string \<Rightarrow> py_datetime \<Rightarrow> py_datetime \<Rightarrow> recurring_db \<Rightarrow> recurring_db \<times> uuid option"
where
  "claim_run h lease token name scheduled started db =
     (let start = h_isoformat h started;
          expires = h_isoformat h (started\<lparr>dt_wall := dt_wall started + lease\<rparr>) in
      if list_ex (same_run h name scheduled) (rd_runs db)
      then (run_update (claimable h name scheduled)
              (\<lambda>r. r\<lparr>rr_started_at := start, rr_finished_at := start, rr_successful := False, rr_summary := ''{}'',
                 rr_status := claim_str ClaimRunning, rr_lease := Some expires, rr_attempts := rr_attempts r + 1,
                 rr_reason := None, rr_token := Some token\<rparr>) db,
            if row_count (claimable h name scheduled) (rd_runs db) = 1 then Some token else None)
      else (db\<lparr>rd_runs := rd_runs db
              @ [\<lparr>rr_workflow = name, rr_scheduled_at = h_isoformat h scheduled, rr_started_at = start,
                  rr_finished_at = start, rr_successful = False, rr_summary = ''{}'',
                  rr_status = claim_str ClaimRunning, rr_lease = Some expires, rr_attempts = 1, rr_reason = None,
                  rr_token = Some token\<rparr>]\<rparr>, Some token))"

definition renew_run ::
  "host \<Rightarrow> int \<Rightarrow> string \<Rightarrow> py_datetime \<Rightarrow> uuid \<Rightarrow> instant \<Rightarrow> recurring_db \<Rightarrow> recurring_db \<times> bool"
where
  "renew_run h lease name scheduled token now db =
     (run_update (owned_run h name scheduled token) (\<lambda>r. r\<lparr>rr_lease := Some (utc_text h (now + lease))\<rparr>) db,
      row_count (owned_run h name scheduled token) (rd_runs db) = 1)"

definition elapsed_run :: "host \<Rightarrow> instant \<Rightarrow> recurring_run \<Rightarrow> bool" where
  "elapsed_run h now r =
     (rr_status r = claim_str ClaimRunning \<and> (case rr_lease r of None \<Rightarrow> False | Some l \<Rightarrow> l \<le> utc_text h now))"

definition expire_claims :: "host \<Rightarrow> instant \<Rightarrow> recurring_db \<Rightarrow> recurring_db \<times> nat" where
  "expire_claims h now db =
     (run_update (elapsed_run h now)
        (\<lambda>r. r\<lparr>rr_status := claim_str ClaimExpired, rr_reason := Some ''lease_expired'', rr_token := None\<rparr>) db,
      row_count (elapsed_run h now) (rd_runs db))"

definition expired_run :: "host \<Rightarrow> string \<Rightarrow> py_datetime \<Rightarrow> recurring_run \<Rightarrow> bool" where
  "expired_run h name scheduled r = (same_run h name scheduled r \<and> rr_status r = claim_str ClaimExpired)"

definition mark_run_recoverable :: "host \<Rightarrow> string \<Rightarrow> py_datetime \<Rightarrow> recurring_db \<Rightarrow> recurring_db \<times> bool" where
  "mark_run_recoverable h name scheduled db =
     (run_update (expired_run h name scheduled)
        (\<lambda>r. r\<lparr>rr_status := claim_str ClaimRecoverable, rr_reason := Some ''operator_reviewed''\<rparr>) db,
      row_count (expired_run h name scheduled) (rd_runs db) = 1)"

record run_result =
  rs_successful :: bool
  rs_summary :: json_object

definition complete_run ::
  "host \<Rightarrow> string \<Rightarrow> py_datetime \<Rightarrow> uuid \<Rightarrow> py_datetime \<Rightarrow> run_result \<Rightarrow> recurring_db \<Rightarrow> recurring_db \<times> (exn + unit)"
where
  "complete_run h name scheduled token finished result db =
     (run_update (owned_run h name scheduled token)
        (\<lambda>r. r\<lparr>rr_finished_at := h_isoformat h finished, rr_successful := rs_successful result,
           rr_summary := ascii_json (JObj (rs_summary result)),
           rr_status := claim_str (if rs_successful result then ClaimSucceeded else ClaimRunFailed),
           rr_lease := None, rr_token := None\<rparr>) db,
      if row_count (owned_run h name scheduled token) (rd_runs db) \<noteq> 1
      then Inl (config_error (''recurring occurrence is not actively claimed: '' @ name @ '' at '' @ h_isoformat h scheduled))
      else Inr ())"

text \<open>The name of the class of the error is an argument.\<close>

definition fail_run ::
  "host \<Rightarrow> string \<Rightarrow> py_datetime \<Rightarrow> uuid \<Rightarrow> py_datetime \<Rightarrow> string \<Rightarrow> recurring_db \<Rightarrow> recurring_db \<times> (exn + unit)"
where
  "fail_run h name scheduled token finished error_type db =
     complete_run h name scheduled token finished
       \<lparr>rs_successful = False, rs_summary =
          [(''workflow'', JStr name), (''failed'', JBool True), (''error_type'', JStr error_type)]\<rparr> db"

definition last_success :: "host \<Rightarrow> string \<Rightarrow> recurring_db \<Rightarrow> exn + py_datetime option" where
  "last_success h name db =
     (case find (\<lambda>r. rr_workflow r = name \<and> rr_successful r) (rev (rd_runs db)) of
        None \<Rightarrow> Inr None
      | Some r \<Rightarrow> (case h_fromisoformat h (rr_finished_at r) of
            None \<Rightarrow> Inl (Exn ValueError ''Invalid isoformat string'')
          | Some d \<Rightarrow> Inr (Some d)))"

definition run_status :: "host \<Rightarrow> string \<Rightarrow> py_datetime \<Rightarrow> recurring_db \<Rightarrow> string option" where
  "run_status h name scheduled db = map_option rr_status (find (same_run h name scheduled) (rd_runs db))"

subsection \<open>The runner\<close>

record workflow_due =
  wd_name :: string
  wd_enabled :: bool
  wd_due :: bool
  wd_scheduled_at :: instant
  wd_last_success :: "py_datetime option"
  wd_reason :: string

definition due_status ::
  "host \<Rightarrow> zones \<Rightarrow> registered_workflow \<Rightarrow> instant \<Rightarrow> recurring_db \<Rightarrow> recurring_db \<times> (exn + workflow_due)"
where
  "due_status h zs w now db =
     (let db' = fst (expire_claims h now db); s = wf_schedule w in
      (db',
       sbind (zs (sc_timezone s)) (\<lambda>z.
       sbind (scheduled_at_or_before z s now) (\<lambda>scheduled.
       sbind (last_success h (wf_name w) db') (\<lambda>last_time.
       let claimed = run_status h (wf_name w) (utc_time scheduled) db';
           (due, reason) =
             (if \<not> wf_enabled w then (False, ''workflow is disabled'')
              else if sc_max_lateness_minutes s * minute_us < now - scheduled
              then (False, ''latest schedule is outside the configured lateness window'')
              else (case claimed of
                  Some c \<Rightarrow> (False, ''latest scheduled occurrence is already claimed ('' @ c @ '')'')
                | None \<Rightarrow> (True, ''registered workflow is due''))) in
       Inr \<lparr>wd_name = wf_name w, wd_enabled = wf_enabled w, wd_due = due, wd_scheduled_at = scheduled,
         wd_last_success = last_time, wd_reason = reason\<rparr>)))))"

definition due_to_dict :: "host \<Rightarrow> workflow_due \<Rightarrow> json" where
  "due_to_dict h d = JObj
     [(''name'', JStr (wd_name d)), (''enabled'', JBool (wd_enabled d)), (''due'', JBool (wd_due d)),
      (''scheduled_at'', JStr (utc_text h (wd_scheduled_at d))),
      (''last_success_at'', case wd_last_success d of None \<Rightarrow> JNull | Some t \<Rightarrow> JStr (h_isoformat h t)),
      (''reason'', JStr (wd_reason d))]"

definition skipped_result :: "string \<Rightarrow> run_result" where
  "skipped_result reason = \<lparr>rs_successful = True, rs_summary = [(''skipped'', JBool True), (''reason'', JStr reason)]\<rparr>"

text \<open>What one run meets outside: the callback, whether the lock file exists already, whether the heartbeat
  lost the lease, what the heartbeat and other processes do to the tables while the callback runs, the
  clock at the due check, at the claim and at the end, the random token, and the names of error classes.\<close>

record run_world =
  rw_callback :: "registered_workflow \<Rightarrow> exn + run_result"
  rw_locked :: bool
  rw_lease_lost :: bool
  rw_meanwhile :: "recurring_db \<Rightarrow> recurring_db"
  rw_due_at :: instant
  rw_started :: instant
  rw_finished :: instant
  rw_token :: uuid
  rw_type_name :: "exn \<Rightarrow> string"

definition run_callback :: "run_world \<Rightarrow> registered_workflow \<Rightarrow> string \<Rightarrow> exn + run_result" where
  "run_callback wd w name =
     (if rw_locked wd then Inl (config_error (''recurring workflow is already running: '' @ name))
      else sbind (rw_callback wd w) (\<lambda>result.
        if rw_lease_lost wd then Inl (config_error ''recurring occurrence lease could not be renewed'') else Inr result))"

definition run_claimed ::
  "host \<Rightarrow> run_world \<Rightarrow> registered_workflow \<Rightarrow> string \<Rightarrow> py_datetime \<Rightarrow> uuid \<Rightarrow> recurring_db
     \<Rightarrow> recurring_db \<times> (exn + run_result)"
where
  "run_claimed h wd w name scheduled token db =
     (let db' = rw_meanwhile wd db; finished = utc_time (rw_finished wd) in
      case run_callback wd w name of
        Inl e \<Rightarrow> (case fail_run h name scheduled token finished (rw_type_name wd e) db' of
            (db'', Inl e') \<Rightarrow> (db'', Inl e')
          | (db'', Inr _) \<Rightarrow> (db'', Inl e))
      | Inr result \<Rightarrow> (case complete_run h name scheduled token finished result db' of
            (db'', Inl e') \<Rightarrow> (db'', Inl e')
          | (db'', Inr _) \<Rightarrow> (db'', Inr result)))"

definition run_workflow ::
  "host \<Rightarrow> zones \<Rightarrow> int \<Rightarrow> recurring_config \<Rightarrow> run_world \<Rightarrow> string \<Rightarrow> bool \<Rightarrow> recurring_db
     \<Rightarrow> recurring_db \<times> (exn + run_result)"
where
  "run_workflow h zs lease cfg wd name force db =
     (case map_of (rcf_workflows cfg) name of
        None \<Rightarrow> (db, Inl (config_error (''recurring workflow is not registered: '' @ name)))
      | Some w \<Rightarrow>
          (case due_status h zs w (rw_due_at wd) db of
             (db1, Inl e) \<Rightarrow> (db1, Inl e)
           | (db1, Inr status) \<Rightarrow>
               if \<not> wf_enabled w then (db1, Inl (config_error (''recurring workflow is disabled: '' @ name)))
               else if \<not> force \<and> \<not> wd_due status then (db1, Inr (skipped_result (wd_reason status)))
               else (case claim_run h lease (rw_token wd) name (utc_time (wd_scheduled_at status)) (utc_time (rw_started wd)) db1 of
                   (db2, None) \<Rightarrow> (db2, Inr (skipped_result ''latest scheduled occurrence is already claimed''))
                 | (db2, Some token) \<Rightarrow> run_claimed h wd w name (utc_time (wd_scheduled_at status)) token db2)))"

text \<open>\<open>_safe_name\<close>: a character that is neither alphanumeric nor one of \<open>._-\<close> becomes a hyphen; the word
  characters of a regular expression are the alphanumeric ones and the underscore.\<close>

definition safe_name :: "host \<Rightarrow> string \<Rightarrow> string" where
  "safe_name h name =
     concat (map (\<lambda>c. if h_word h (code_point c) \<or> c \<in> {''.'', ''_'', ''-''} then c else ''-'') (chunks name))"

end
