(* ===== verification/Recurring_Claims.thy ===== *)
theory Recurring_Claims
  imports Recurring
begin

text \<open>
  What the tables of the scheduler guarantee under any sequence of store operations: fingerprints stay
  unique, each row moves along the occurrence life cycle, a fence that a later reservation or resume
  replaced is never valid again, settled occurrences do not change, and a scheduled run is claimed once
  unless an operator recovers it. The last section is about the instants that schedules select.
\<close>

subsection \<open>Updates of rows\<close>

lemma find_update_rows:
  assumes "\<And>r. key (f r) = key r"
  shows "find (\<lambda>r. key r = k) (update_rows p f rows) =
    map_option (\<lambda>r. if p r then f r else r) (find (\<lambda>r. key r = k) rows)"
  using assms by (induction rows) (auto simp: update_rows_def)

lemma keys_update_rows:
  assumes "\<And>r. key (f r) = key r"
  shows "map key (update_rows p f rows) = map key rows"
  using assms by (induction rows) (auto simp: update_rows_def)

lemma update_rows_none: "row_count p rows = 0 \<Longrightarrow> update_rows p f rows = rows"
  by (induction rows) (auto simp: update_rows_def row_count_def split: if_splits)

lemma find_unique:
  assumes "distinct (map key rows)" and "find (\<lambda>r. key r = k) rows = Some r" and "x \<in> set rows" and "key x = k"
  shows "x = r"
  using assms by (induction rows) (auto split: if_splits)

lemma find_append_some: "find p xs = Some x \<Longrightarrow> find p (xs @ ys) = Some x"
  by (induction xs) (auto split: if_splits)

subsection \<open>Operations on occurrences\<close>

datatype occurrence_op =
    OccRegister string instant string string string string instant
  | OccReserve int uuid string instant
  | OccRecover string
  | OccReconcile string occurrence_status instant
  | OccCancel string instant
  | OccRenew int string int uuid instant
  | OccBlock string int uuid string
  | OccResume int uuid string int string instant
  | OccFinalize string int uuid occurrence_status instant

fun occurrence_effect :: "host \<Rightarrow> occurrence_op \<Rightarrow> recurring_db \<Rightarrow> recurring_db" where
  "occurrence_effect h (OccRegister name scheduled fp sha registration k deadline) db =
     fst (register_occurrence h name scheduled fp sha registration k deadline db)"
| "occurrence_effect h (OccReserve lease token fp now) db = fst (reserve_occurrence h lease token fp now db)"
| "occurrence_effect h (OccRecover fp) db = fst (mark_occurrence_recoverable fp db)"
| "occurrence_effect h (OccReconcile fp status now) db = fst (reconcile_expired_occurrence h fp status now db)"
| "occurrence_effect h (OccCancel fp now) db = fst (cancel_occurrence h fp now db)"
| "occurrence_effect h (OccRenew lease fp generation token now) db =
     fst (renew_occurrence_fence h lease fp generation token now db)"
| "occurrence_effect h (OccBlock fp generation token request) db =
     fst (block_occurrence_for_approval h fp generation token request db)"
| "occurrence_effect h (OccResume lease token fp prior request now) db =
     fst (resume_approval_blocked_occurrence h lease token fp prior request now db)"
| "occurrence_effect h (OccFinalize fp generation token status now) db =
     fst (finalize_occurrence h fp generation token status now db)"

definition play_occurrences :: "host \<Rightarrow> occurrence_op list \<Rightarrow> recurring_db \<Rightarrow> recurring_db" where
  "play_occurrences h ops db = fold (occurrence_effect h) ops db"

text \<open>The fence that an operation grants for an artifact: a reservation and a resume return one.\<close>

fun granted_fence :: "host \<Rightarrow> string \<Rightarrow> occurrence_op \<Rightarrow> recurring_db \<Rightarrow> (int \<times> uuid) option" where
  "granted_fence h fp (OccReserve lease token fp' now) db =
     (case snd (reserve_occurrence h lease token fp' now db) of
        Inl e \<Rightarrow> None | Inr fence \<Rightarrow> if fp' = fp then Some fence else None)"
| "granted_fence h fp (OccResume lease token fp' prior request now) db =
     (case snd (resume_approval_blocked_occurrence h lease token fp' prior request now db) of
        Inl e \<Rightarrow> None | Inr fence \<Rightarrow> if fp' = fp then Some fence else None)"
| "granted_fence h fp _ db = None"

subsection \<open>The life cycle of an occurrence\<close>

lemma occurrence_str_inj [simp]: "occurrence_str a = occurrence_str b \<longleftrightarrow> a = b"
  by (cases a; cases b; simp)

lemma map_of_occurrence_statuses: "map_of occurrence_statuses s = Some st \<Longrightarrow> s = occurrence_str st"
  by (auto simp: occurrence_statuses_def split: if_splits)

declare occurrence_str.simps [simp del]

definition settled_statuses :: "string set" where
  "settled_statuses = occurrence_str ` {OccSucceeded, OccIndeterminate, OccRevoked, OccCancelled}"

inductive occurrence_step :: "occurrence_row \<Rightarrow> occurrence_row \<Rightarrow> bool" where
  unchanged: "occurrence_step r r"
| attempt: "oc_status r \<in> {occurrence_str OccBound, occurrence_str OccRecoverable, occurrence_str OccApprovalBlocked} \<Longrightarrow>
    oc_status r' = occurrence_str OccRunning \<Longrightarrow> oc_generation r' = oc_generation r + 1 \<Longrightarrow> occurrence_step r r'"
| renewal: "oc_status r = occurrence_str OccRunning \<Longrightarrow> oc_status r' = oc_status r \<Longrightarrow>
    oc_generation r' = oc_generation r \<Longrightarrow> occurrence_step r r'"
| leave: "oc_status r = occurrence_str OccRunning \<Longrightarrow>
    oc_status r' \<in> settled_statuses \<union> {occurrence_str OccApprovalBlocked, occurrence_str OccFailedPreEffect, occurrence_str OccRecoverable} \<Longrightarrow>
    oc_generation r' = oc_generation r \<Longrightarrow> occurrence_step r r'"
| recovery: "oc_status r = occurrence_str OccFailedPreEffect \<Longrightarrow> oc_status r' = occurrence_str OccRecoverable \<Longrightarrow>
    oc_generation r' = oc_generation r \<Longrightarrow> occurrence_step r r'"
| cancellation: "oc_status r \<notin> settled_statuses \<Longrightarrow>
    oc_status r' \<in> {occurrence_str OccIndeterminate, occurrence_str OccCancelled} \<Longrightarrow>
    oc_generation r' = oc_generation r \<Longrightarrow> occurrence_step r r'"

inductive_simps occurrence_step_simps: "occurrence_step r r'"

lemma step_generation: "occurrence_step r r' \<Longrightarrow> oc_generation r \<le> oc_generation r'"
  by (cases rule: occurrence_step.cases) auto

lemma step_settled: "occurrence_step r r' \<Longrightarrow> oc_status r \<in> settled_statuses \<Longrightarrow> r' = r"
  by (cases rule: occurrence_step.cases) (auto simp: settled_statuses_def)

definition occurrence_of :: "string \<Rightarrow> recurring_db \<Rightarrow> occurrence_row option" where
  "occurrence_of fp db = find (\<lambda>r. oc_fingerprint r = fp) (rd_occurrences db)"

definition unique_artifacts :: "recurring_db \<Rightarrow> bool" where
  "unique_artifacts db = distinct (map oc_fingerprint (rd_occurrences db))"

text \<open>An update that keeps fingerprints and moves each selected row along the life cycle.\<close>

definition lawful_update :: "(occurrence_row \<Rightarrow> bool) \<Rightarrow> (occurrence_row \<Rightarrow> occurrence_row) \<Rightarrow> bool" where
  "lawful_update p f = (\<forall>r. oc_fingerprint (f r) = oc_fingerprint r \<and> (p r \<longrightarrow> occurrence_step r (f r)))"

lemma lawful_update_step:
  assumes "lawful_update p f" and "occurrence_of fp db = Some r"
  shows "\<exists>r'. occurrence_of fp (occurrence_update p f db) = Some r' \<and> occurrence_step r r'"
  using assms
  by (auto simp: lawful_update_def occurrence_of_def occurrence_update_def find_update_rows occurrence_step.unchanged)

lemma lawful_update_unique: "lawful_update p f \<Longrightarrow> unique_artifacts (occurrence_update p f db) = unique_artifacts db"
  by (simp add: lawful_update_def unique_artifacts_def occurrence_update_def keys_update_rows)

text \<open>Every operation is a lawful update, the addition of one row of a new artifact, or nothing.\<close>

inductive occurrence_change :: "recurring_db \<Rightarrow> recurring_db \<Rightarrow> bool" where
  same: "occurrence_change db db"
| update: "lawful_update p f \<Longrightarrow> occurrence_change db (occurrence_update p f db)"
| added: "list_all (\<lambda>r. oc_fingerprint r \<noteq> oc_fingerprint new_row) (rd_occurrences db) \<Longrightarrow>
    occurrence_change db (db\<lparr>rd_occurrences := rd_occurrences db @ [new_row]\<rparr>)"

lemma lawful_simps:
  "lawful_update (reservable h fp now) (start_attempt h lease token now)"
  "lawful_update (resumable h fp prior request now) (start_attempt h lease token now)"
  "lawful_update (failed_pre_effect fp) (\<lambda>r. r\<lparr>oc_status := occurrence_str OccRecoverable, oc_request := None\<rparr>)"
  by (auto simp: lawful_update_def reservable_def resumable_def start_attempt_def failed_pre_effect_def
      intro: occurrence_step.attempt occurrence_step.recovery)

lemma transition_change:
  assumes "status \<in> {OccSucceeded, OccFailedPreEffect, OccIndeterminate, OccRevoked, OccApprovalBlocked}"
  shows "occurrence_change db (fst (transition_running_occurrence h fp generation token status request finished db))"
  unfolding transition_running_occurrence_def using assms
  by (auto intro!: occurrence_change.update occurrence_step.leave
      simp: lawful_update_def fenced_def settled_statuses_def)

lemma reconcile_change: "occurrence_change db (fst (reconcile_expired_occurrence h fp status now db))"
  by (auto simp: reconcile_expired_occurrence_def lawful_update_def lapsed_def settled_statuses_def
      intro!: occurrence_change.same occurrence_change.update occurrence_step.leave)

lemma cancel_change: "occurrence_change db (fst (cancel_occurrence h fp now db))"
  unfolding cancel_occurrence_def
  by (auto simp: lawful_update_def settled_statuses_def Let_def
      intro!: occurrence_change.same occurrence_change.update occurrence_step.cancellation
      split: option.splits dest: map_of_occurrence_statuses)

lemma register_change: "occurrence_change db (fst (register_occurrence h name scheduled fp sha registration k deadline db))"
  unfolding register_occurrence_def
  by (auto simp: list_ex_iff list_all_iff intro!: occurrence_change.same occurrence_change.added split: option.splits)

lemma renew_change: "occurrence_change db (fst (renew_occurrence_fence h lease fp generation token now db))"
  by (auto simp: renew_occurrence_fence_def lawful_update_def fenced_def Let_def
      intro!: occurrence_change.update occurrence_step.renewal)

lemma occurrence_effect_change: "occurrence_change db (occurrence_effect h op1 db)"
  by (cases op1)
    (auto simp: register_change cancel_change reconcile_change renew_change transition_change
      reserve_occurrence_def resume_approval_blocked_occurrence_def mark_occurrence_recoverable_def
      block_occurrence_for_approval_def finalize_occurrence_def lawful_simps Let_def
      intro: occurrence_change.same occurrence_change.update split: option.splits)

lemma change_unique: "occurrence_change db db' \<Longrightarrow> unique_artifacts db \<Longrightarrow> unique_artifacts db'"
proof (induction rule: occurrence_change.induct)
  case (added new_row db)
  then show ?case by (auto simp: unique_artifacts_def list_all_iff)
qed (simp_all add: lawful_update_unique)

lemma change_step:
  assumes "occurrence_change db db'" and "occurrence_of fp db = Some r"
  shows "\<exists>r'. occurrence_of fp db' = Some r' \<and> occurrence_step r r'"
  using assms
proof (induction rule: occurrence_change.induct)
  case (added new_row db)
  then show ?case by (auto simp: occurrence_of_def find_append_some intro: occurrence_step.unchanged)
qed (auto intro: occurrence_step.unchanged lawful_update_step)

lemma play_unique: "unique_artifacts db \<Longrightarrow> unique_artifacts (play_occurrences h ops db)"
  unfolding play_occurrences_def
  by (induction ops arbitrary: db) (auto intro: change_unique occurrence_effect_change)

lemma play_steps:
  "occurrence_of fp db = Some r \<Longrightarrow>
     \<exists>r'. occurrence_of fp (play_occurrences h ops db) = Some r' \<and> occurrence_step\<^sup>*\<^sup>* r r'"
proof (induction ops arbitrary: db r)
  case Nil
  then show ?case by (simp add: play_occurrences_def)
next
  case (Cons op1 ops)
  obtain r1 where "occurrence_of fp (occurrence_effect h op1 db) = Some r1" "occurrence_step r r1"
    using change_step[OF occurrence_effect_change Cons.prems] by blast
  with Cons.IH[OF this(1)] show ?case
    by (auto simp: play_occurrences_def intro: converse_rtranclp_into_rtranclp)
qed

lemma steps_generation: "occurrence_step\<^sup>*\<^sup>* r r' \<Longrightarrow> oc_generation r \<le> oc_generation r'"
  by (induction rule: rtranclp_induct) (auto dest: step_generation)

lemma steps_settled: "occurrence_step\<^sup>*\<^sup>* r r' \<Longrightarrow> oc_status r \<in> settled_statuses \<Longrightarrow> r' = r"
  by (induction rule: rtranclp_induct) (auto dest: step_settled)

subsection \<open>Fences\<close>

lemma selected_row:
  assumes "unique_artifacts db" and "row_count p (rd_occurrences db) = 1"
    and "\<And>r. p r \<Longrightarrow> oc_fingerprint r = fp"
  obtains r where "occurrence_of fp db = Some r" and "p r"
proof -
  obtain x where x: "x \<in> set (rd_occurrences db)" "p x"
    using assms(2) unfolding row_count_def by (metis filter_False list.size(3) zero_neq_one)
  have "occurrence_of fp db \<noteq> None"
    using x assms(3) by (auto simp: occurrence_of_def find_None_iff)
  then obtain r where r: "occurrence_of fp db = Some r" by blast
  have "x = r"
    using find_unique[of oc_fingerprint "rd_occurrences db" fp r x] assms x r
    by (auto simp: unique_artifacts_def occurrence_of_def)
  with x r that show thesis by blast
qed

lemma occurrence_of_update:
  "(\<And>r. oc_fingerprint (f r) = oc_fingerprint r) \<Longrightarrow>
     occurrence_of fp (occurrence_update p f db) = map_option (\<lambda>r. if p r then f r else r) (occurrence_of fp db)"
  by (simp add: occurrence_of_def occurrence_update_def find_update_rows)

lemma reservation_grants:
  assumes "unique_artifacts db" and "snd (reserve_occurrence h lease token fp now db) = Inr fence"
  shows "\<exists>r. occurrence_of fp db = Some r \<and> fence = (oc_generation r + 1, token)
    \<and> occurrence_of fp (fst (reserve_occurrence h lease token fp now db)) = Some (start_attempt h lease token now r)"
proof -
  have one: "row_count (reservable h fp now) (rd_occurrences db) = 1"
    using assms(2) by (auto simp: reserve_occurrence_def Let_def split: if_splits)
  then obtain r where r: "occurrence_of fp db = Some r" "reservable h fp now r"
    using selected_row[OF assms(1) one] by (auto simp: reservable_def)
  have after: "occurrence_of fp (occurrence_update (reservable h fp now) (start_attempt h lease token now) db)
      = Some (start_attempt h lease token now r)"
    using r by (simp add: occurrence_of_update start_attempt_def)
  with one r show ?thesis
    using assms(2) by (auto simp: reserve_occurrence_def Let_def occurrence_of_def[symmetric] start_attempt_def)
qed

lemma resume_grants:
  assumes "unique_artifacts db" and "snd (resume_approval_blocked_occurrence h lease token fp prior request now db) = Inr fence"
  shows "\<exists>r. occurrence_of fp db = Some r \<and> fence = (oc_generation r + 1, token)
    \<and> occurrence_of fp (fst (resume_approval_blocked_occurrence h lease token fp prior request now db))
        = Some (start_attempt h lease token now r)"
proof -
  have one: "row_count (resumable h fp prior request now) (rd_occurrences db) = 1"
    using assms(2) by (auto simp: resume_approval_blocked_occurrence_def split: if_splits)
  then obtain r where r: "occurrence_of fp db = Some r" "resumable h fp prior request now r"
    using selected_row[OF assms(1) one] by (auto simp: resumable_def)
  have "occurrence_of fp (occurrence_update (resumable h fp prior request now) (start_attempt h lease token now) db)
      = Some (start_attempt h lease token now r)"
    using r by (simp add: occurrence_of_update start_attempt_def)
  with one r show ?thesis
    using assms(2) by (auto simp: resume_approval_blocked_occurrence_def resumable_def)
qed

lemma grant_row:
  assumes "unique_artifacts db" and "granted_fence h fp op1 db = Some (g, t)"
  shows "\<exists>r r'. occurrence_of fp db = Some r \<and> occurrence_of fp (occurrence_effect h op1 db) = Some r'
    \<and> g = oc_generation r + 1 \<and> oc_generation r' = g"
proof (cases op1)
  case (OccReserve lease token fp' now)
  with assms reservation_grants[OF assms(1), of h lease token fp' now] show ?thesis
    by (auto simp: start_attempt_def split: sum.splits if_splits)
next
  case (OccResume lease token fp' prior request now)
  with assms resume_grants[OF assms(1), of h lease token fp' prior request now] show ?thesis
    by (auto simp: start_attempt_def split: sum.splits if_splits)
qed (use assms in auto)

lemma validate_row:
  "validate_occurrence_fence h fp g t now db = Inr () \<Longrightarrow>
     \<exists>r. occurrence_of fp db = Some r \<and> oc_status r = occurrence_str OccRunning \<and> oc_generation r = g"
  by (auto simp: validate_occurrence_fence_def occurrence_of_def Let_def split: option.splits if_splits)

lemma stale_update:
  assumes "unique_artifacts db" and "occurrence_of fp db = Some r" and "oc_generation r \<noteq> g"
  shows "transition_running_occurrence h fp g t status request finished db
      = (db, Inl (config_error ''recurring occurrence claim fence was lost''))"
    and "renew_occurrence_fence h lease fp g t now db = (db, False)"
proof -
  have none: "row_count (\<lambda>x. fenced fp g t x \<and> P x) (rd_occurrences db) = 0" for P
    using assms find_unique[of oc_fingerprint "rd_occurrences db" fp r]
    by (auto simp: row_count_def filter_empty_conv fenced_def unique_artifacts_def occurrence_of_def)
  from none [of "\<lambda>_. True"] show "transition_running_occurrence h fp g t status request finished db
      = (db, Inl (config_error ''recurring occurrence claim fence was lost''))"
    by (simp add: transition_running_occurrence_def occurrence_update_def update_rows_none)
  from none [of "\<lambda>x. case oc_lease x of None \<Rightarrow> False | Some l \<Rightarrow> utc_text h now < l"]
  show "renew_occurrence_fence h lease fp g t now db = (db, False)"
    by (simp add: renew_occurrence_fence_def occurrence_update_def update_rows_none)
qed

lemma stale_fence_rejected:
  assumes start: "unique_artifacts db0"
    and first: "granted_fence h fp op1 db0 = Some (g1, t1)"
    and second: "granted_fence h fp op2 (play_occurrences h ops1 (occurrence_effect h op1 db0)) = Some (g2, t2)"
    and later: "db = play_occurrences h ops2 (occurrence_effect h op2 (play_occurrences h ops1 (occurrence_effect h op1 db0)))"
  shows "g1 < g2 \<and> validate_occurrence_fence h fp g1 t now db \<noteq> Inr ()
    \<and> transition_running_occurrence h fp g1 t status request finished db
        = (db, Inl (config_error ''recurring occurrence claim fence was lost''))
    \<and> renew_occurrence_fence h lease fp g1 t renewed db = (db, False)"
proof -
  let ?db1 = "occurrence_effect h op1 db0" and ?db2 = "play_occurrences h ops1 (occurrence_effect h op1 db0)"
  have unique: "unique_artifacts ?db2" "unique_artifacts db"
    using start by (auto simp: later intro!: play_unique change_unique[OF occurrence_effect_change])
  obtain r1 where r1: "occurrence_of fp ?db1 = Some r1" "oc_generation r1 = g1"
    using grant_row[OF start first] by blast
  obtain r2 r3 where r2: "occurrence_of fp ?db2 = Some r2" "occurrence_of fp (occurrence_effect h op2 ?db2) = Some r3"
      "g2 = oc_generation r2 + 1" "oc_generation r3 = g2"
    using grant_row[OF unique(1) second] by blast
  have "oc_generation r1 \<le> oc_generation r2"
    using play_steps[OF r1(1), of h ops1] r2(1) by (auto dest: steps_generation)
  then have less: "g1 < g2" using r1 r2 by simp
  obtain r where r: "occurrence_of fp db = Some r" "g2 \<le> oc_generation r"
    using play_steps[OF r2(2), of h ops2] r2(4) by (auto simp: later dest: steps_generation)
  with less have "oc_generation r \<noteq> g1" by simp
  then show ?thesis using less r validate_row stale_update[OF unique(2) r(1)] by fastforce
qed

lemma settled_occurrence_unchanged:
  "occurrence_of fp db = Some r \<Longrightarrow> oc_status r \<in> settled_statuses \<Longrightarrow>
     occurrence_of fp (play_occurrences h ops db) = Some r"
  using play_steps[of fp db r h ops] by (auto dest: steps_settled)

subsection \<open>Claims of scheduled runs\<close>

datatype run_op =
    RunClaim int uuid string py_datetime py_datetime
  | RunRenew int string py_datetime uuid instant
  | RunExpire instant
  | RunRecover string py_datetime
  | RunComplete string py_datetime uuid py_datetime run_result

fun run_effect :: "host \<Rightarrow> run_op \<Rightarrow> recurring_db \<Rightarrow> recurring_db" where
  "run_effect h (RunClaim lease token name scheduled started) db = fst (claim_run h lease token name scheduled started db)"
| "run_effect h (RunRenew lease name scheduled token now) db = fst (renew_run h lease name scheduled token now db)"
| "run_effect h (RunExpire now) db = fst (expire_claims h now db)"
| "run_effect h (RunRecover name scheduled) db = fst (mark_run_recoverable h name scheduled db)"
| "run_effect h (RunComplete name scheduled token finished result) db =
     fst (complete_run h name scheduled token finished result db)"

definition play_runs :: "host \<Rightarrow> run_op list \<Rightarrow> recurring_db \<Rightarrow> recurring_db" where
  "play_runs h ops db = fold (run_effect h) ops db"

fun recovers :: "host \<Rightarrow> string \<Rightarrow> py_datetime \<Rightarrow> run_op \<Rightarrow> bool" where
  "recovers h name scheduled (RunRecover n s) = (n = name \<and> h_isoformat h s = h_isoformat h scheduled)"
| "recovers h name scheduled _ = False"

text \<open>The run has a row and none of its rows can be claimed.\<close>

definition run_taken :: "host \<Rightarrow> string \<Rightarrow> py_datetime \<Rightarrow> recurring_db \<Rightarrow> bool" where
  "run_taken h name scheduled db =
     (list_ex (same_run h name scheduled) (rd_runs db) \<and> list_all (\<lambda>r. \<not> claimable h name scheduled r) (rd_runs db))"

lemma same_run_update:
  assumes "\<And>r. same_run h name scheduled (f r) = same_run h name scheduled r"
  shows "list_ex (same_run h name scheduled) (rd_runs (run_update p f db)) = list_ex (same_run h name scheduled) (rd_runs db)"
  using assms by (auto simp: run_update_def update_rows_def list_ex_iff split: if_splits)

lemma run_update_all:
  "(\<And>r. p r \<Longrightarrow> Q (f r)) \<Longrightarrow> (\<And>r. \<not> p r \<Longrightarrow> Q r) \<Longrightarrow> list_all Q (rd_runs (run_update p f db))"
  by (auto simp: run_update_def update_rows_def list_all_iff)

lemma run_taken_update:
  assumes "\<And>r. same_run h name scheduled (f r) = same_run h name scheduled r"
    and "\<And>r. p r \<Longrightarrow> same_run h name scheduled r \<Longrightarrow> rr_status (f r) \<noteq> claim_str ClaimRecoverable"
    and "run_taken h name scheduled db"
  shows "run_taken h name scheduled (run_update p f db)"
  using assms
  by (auto simp: run_taken_def same_run_update) (auto simp: run_update_def update_rows_def claimable_def list_all_iff)

lemma claim_takes:
  assumes "claim_run h lease token name scheduled started db = (db', Some t)"
  shows "run_taken h name scheduled db'"
proof (cases "list_ex (same_run h name scheduled) (rd_runs db)")
  case True
  with assms have db': "db' = run_update (claimable h name scheduled) (\<lambda>r. r\<lparr>rr_started_at := h_isoformat h started,
      rr_finished_at := h_isoformat h started, rr_successful := False, rr_summary := ''{}'',
      rr_status := claim_str ClaimRunning, rr_lease := Some (h_isoformat h (started\<lparr>dt_wall := dt_wall started + lease\<rparr>)),
      rr_attempts := rr_attempts r + 1, rr_reason := None, rr_token := Some token\<rparr>) db"
    by (auto simp: claim_run_def Let_def)
  have "list_ex (same_run h name scheduled) (rd_runs db')"
    using True unfolding db' by (subst same_run_update) (auto simp: same_run_def)
  moreover have "list_all (\<lambda>r. \<not> claimable h name scheduled r) (rd_runs db')"
    unfolding db' by (rule run_update_all) (simp_all add: claimable_def)
  ultimately show ?thesis by (simp add: run_taken_def)
next
  case False
  with assms obtain row where row: "rd_runs db' = rd_runs db @ [row]"
      "rr_workflow row = name" "rr_scheduled_at row = h_isoformat h scheduled" "rr_status row = claim_str ClaimRunning"
    by (simp add: claim_run_def Let_def) fastforce
  moreover have "list_all (\<lambda>r. \<not> same_run h name scheduled r) (rd_runs db)"
    using False by (simp add: list_ex_iff list_all_iff)
  ultimately show ?thesis by (auto simp: run_taken_def claimable_def same_run_def list_all_iff)
qed

lemma taken_not_claimed:
  assumes "run_taken h name scheduled db"
  shows "claim_run h lease token name scheduled started db = (db, None)"
proof -
  have "row_count (claimable h name scheduled) (rd_runs db) = 0"
    using assms by (auto simp: run_taken_def row_count_def list_all_iff filter_empty_conv)
  with assms show ?thesis by (simp add: run_taken_def claim_run_def run_update_def update_rows_none Let_def)
qed

lemma run_effect_taken:
  assumes "run_taken h name scheduled db" and "\<not> recovers h name scheduled op1"
  shows "run_taken h name scheduled (run_effect h op1 db)"
proof (cases op1)
  case (RunClaim lease token n s started)
  show ?thesis
  proof (cases "list_ex (same_run h n s) (rd_runs db)")
    case True
    with RunClaim assms(1) show ?thesis
      by (auto simp: claim_run_def Let_def same_run_def intro!: run_taken_update)
  next
    case False
    with RunClaim assms(1) show ?thesis by (auto simp: claim_run_def Let_def run_taken_def claimable_def)
  qed
next
  case (RunRecover n s)
  with assms show ?thesis
    by (auto simp: mark_run_recoverable_def same_run_def expired_run_def intro!: run_taken_update)
qed (use assms in \<open>auto simp: renew_run_def expire_claims_def complete_run_def same_run_def owned_run_def elapsed_run_def
    intro!: run_taken_update\<close>)

lemma play_taken:
  "run_taken h name scheduled db \<Longrightarrow> \<forall>x \<in> set ops. \<not> recovers h name scheduled x \<Longrightarrow>
     run_taken h name scheduled (play_runs h ops db)"
  unfolding play_runs_def by (induction ops arbitrary: db) (auto intro: run_effect_taken)

lemma scheduled_run_claimed_once:
  assumes "claim_run h lease token name scheduled started db = (db1, Some t)"
    and "\<forall>x \<in> set ops. \<not> recovers h name scheduled x"
  shows "claim_run h lease' token' name scheduled started' (play_runs h ops db1) = (play_runs h ops db1, None)"
  by (rule taken_not_claimed[OF play_taken[OF claim_takes[OF assms(1)] assms(2)]])

lemma taken_run_skipped:
  assumes "map_of (rcf_workflows cfg) name = Some w"
    and "due_status h zs w (rw_due_at wd) db = (db1, Inr status)"
    and "run_taken h name (utc_time (wd_scheduled_at status)) db"
  shows "run_workflow h zs lease cfg wd name force db =
    (db1, if wf_enabled w
          then Inr (skipped_result (if force \<or> wd_due status then ''latest scheduled occurrence is already claimed'' else wd_reason status))
          else Inl (config_error (''recurring workflow is disabled: '' @ name)))"
proof -
  have "db1 = run_effect h (RunExpire (rw_due_at wd)) db"
    using assms(2) by (simp add: due_status_def Let_def)
  then have "run_taken h name (utc_time (wd_scheduled_at status)) db1"
    using run_effect_taken[OF assms(3), of "RunExpire (rw_due_at wd)"] by simp
  with assms show ?thesis by (auto simp: run_workflow_def taken_not_claimed)
qed

subsection \<open>The instants that schedules select\<close>

text \<open>Documented of \<open>tzinfo\<close>: the offset from UTC is strictly between minus and plus 24 hours.\<close>

definition zone_law :: "time_zone \<Rightarrow> bool" where
  "zone_law z = (\<forall>t. \<bar>fst (tz_local z t) - t\<bar> < day_us)"

lemma resolve_local_reading:
  assumes "resolve_local policy z wall = Inr t"
  shows "fst (tz_local z t) = wall"
proof -
  have "t \<in> snd ` set (local_candidates z wall)"
  proof (cases "remdups (map snd (local_candidates z wall))")
    case Nil
    with assms show ?thesis by (simp add: resolve_local_def)
  next
    case (Cons u us)
    then have u: "u \<in> snd ` set (local_candidates z wall)"
      by (metis list.set_intros(1) set_map set_remdups)
    show ?thesis
    proof (cases us)
      case Nil
      with assms Cons u show ?thesis by (simp add: resolve_local_def)
    next
      case (Cons v vs)
      with assms \<open>remdups (map snd (local_candidates z wall)) = u # us\<close>
      obtain fold where "map_of (local_candidates z wall) fold = Some t"
        by (auto simp: resolve_local_def Let_def split: if_splits option.splits)
      then show ?thesis by (metis map_of_SomeD image_eqI snd_conv)
    qed
  qed
  then show ?thesis by (auto simp: local_candidates_def split: if_splits)
qed

lemma day_us_pos [simp]: "0 < day_us" "day_us \<noteq> 0"
  by (simp_all add: day_us_def minute_us_def)

lemma weekday_back:
  assumes "0 \<le> w" "w < (7 :: int)"
  shows "(d - (d mod 7 - w) mod 7) mod 7 = w"
proof -
  have "(d - (d mod 7 - w) mod 7) mod 7 = (d - (d mod 7 - w)) mod 7" by (rule mod_diff_right_eq)
  also have "d - (d mod 7 - w) = w + 7 * (d div 7)" by (simp add: minus_mod_eq_mult_div [symmetric])
  finally show ?thesis using assms by simp
qed

lemma candidate_reading:
  assumes "mk_schedule zs s = Inr s'"
  shows "wall_weekday (candidate_wall s wall - 7 * day_us * k) = sc_weekday s"
    and "(candidate_wall s wall - 7 * day_us * k) mod day_us = (sc_hour s * 60 + sc_minute s) * minute_us"
    and "wall - 7 * day_us < candidate_wall s wall" and "candidate_wall s wall < wall + day_us"
proof -
  have bounds: "0 \<le> sc_weekday s" "sc_weekday s < 7" "0 \<le> sc_hour s" "sc_hour s \<le> 23" "0 \<le> sc_minute s" "sc_minute s \<le> 59"
    using assms by (auto simp: mk_schedule_def guarded_def split: option.splits if_splits)
  define m where "m = (sc_hour s * 60 + sc_minute s) * minute_us"
  define d where "d = wall div day_us - (wall_weekday wall - sc_weekday s) mod 7"
  have m: "0 \<le> m" "m < day_us" using bounds by (auto simp: m_def day_us_def minute_us_def)
  have cand: "candidate_wall s wall - 7 * day_us * k = (d - 7 * k) * day_us + m"
    by (simp add: candidate_wall_def d_def m_def algebra_simps)
  have "(candidate_wall s wall - 7 * day_us * k) div day_us = d - 7 * k"
    unfolding cand using m by simp
  moreover have "d mod 7 = sc_weekday s"
    unfolding d_def wall_weekday_def using bounds by (intro weekday_back)
  moreover have "(d - 7 * k) mod 7 = d mod 7" by presburger
  ultimately show "wall_weekday (candidate_wall s wall - 7 * day_us * k) = sc_weekday s"
    by (simp add: wall_weekday_def)
  show "(candidate_wall s wall - 7 * day_us * k) mod day_us = (sc_hour s * 60 + sc_minute s) * minute_us"
    unfolding cand using m by (simp add: m_def)
  have lag: "wall div day_us - 6 \<le> d" "d \<le> wall div day_us"
    using pos_mod_bound[of 7 "wall_weekday wall - sc_weekday s"] pos_mod_sign[of 7 "wall_weekday wall - sc_weekday s"]
    unfolding d_def by linarith+
  have whole: "wall = wall div day_us * day_us + wall mod day_us" by simp
  have rem: "0 \<le> wall mod day_us" "wall mod day_us < day_us" by simp_all
  have cand0: "candidate_wall s wall = d * day_us + m" by (simp add: candidate_wall_def d_def m_def)
  have "d * day_us \<le> wall div day_us * day_us" "(wall div day_us - 6) * day_us \<le> d * day_us"
    using lag by (auto intro: mult_right_mono)
  then show "wall - 7 * day_us < candidate_wall s wall" "candidate_wall s wall < wall + day_us"
    using whole rem m unfolding cand0 left_diff_distrib by linarith+
qed

lemma scheduled_instant:
  assumes zone: "zone_law z" and valid: "mk_schedule zs s = Inr s'"
    and selected: "scheduled_at_or_before z s now = Inr t"
  shows "t \<le> now \<and> now - t < 9 * day_us \<and> wall_weekday (fst (tz_local z t)) = sc_weekday s
    \<and> fst (tz_local z t) mod day_us = (sc_hour s * 60 + sc_minute s) * minute_us"
proof -
  let ?c = "candidate_wall s (fst (tz_local z now))"
  note reading = candidate_reading[OF valid, of "fst (tz_local z now)"]
  have offset: "\<bar>fst (tz_local z now) - now\<bar> < day_us" "\<bar>fst (tz_local z t) - t\<bar> < day_us"
    using zone by (auto simp: zone_law_def)
  obtain t0 where t0: "resolve_local (sc_fold_policy s) z ?c = Inr t0"
    and t: "if now < t0 then resolve_local (sc_fold_policy s) z (?c - 7 * day_us) = Inr t else t = t0"
    using selected by (auto simp: scheduled_at_or_before_def Let_def sbind_Inr split: if_splits)
  have t0_offset: "\<bar>?c - t0\<bar> < day_us" using zone resolve_local_reading[OF t0] unfolding zone_law_def by metis
  show ?thesis
  proof (cases "now < t0")
    case True
    then have wall: "fst (tz_local z t) = ?c - 7 * day_us" using t resolve_local_reading by simp
    have "t \<le> now" "now - t < 9 * day_us"
      using wall offset reading(3,4) t0_offset True unfolding abs_less_iff by linarith+
    then show ?thesis using reading(1,2)[of 1] by (simp add: wall)
  next
    case False
    then have wall: "t = t0" "fst (tz_local z t) = ?c" using t resolve_local_reading[OF t0] by simp_all
    have "now - t < 9 * day_us"
      using wall offset reading(3,4) unfolding abs_less_iff by linarith
    then show ?thesis using reading(1,2)[of 0] False wall by simp
  qed
qed

text \<open>A zone of a constant offset always has the scheduled instant, less than seven days back.\<close>

definition fixed_zone :: "int \<Rightarrow> time_zone" where
  "fixed_zone off = \<lparr>tz_local = (\<lambda>t. (t + off, 0)), tz_instant = (\<lambda>wall fold. wall - off)\<rparr>"

lemma resolve_fixed: "resolve_local policy (fixed_zone off) wall = Inr (wall - off)"
  by (simp add: resolve_local_def local_candidates_def fixed_zone_def)

lemma fixed_zone_schedule:
  assumes "mk_schedule zs s = Inr s'"
  shows "\<exists>t. scheduled_at_or_before (fixed_zone off) s now = Inr t \<and> t \<le> now \<and> now < t + 7 * day_us"
proof -
  note reading = candidate_reading(3,4)[OF assms, of "now + off"]
  have local: "fst (tz_local (fixed_zone off) now) = now + off" by (simp add: fixed_zone_def)
  have "day_us < 7 * day_us" by simp
  with reading show ?thesis
    unfolding scheduled_at_or_before_def local Let_def resolve_fixed sbind_simps by (cases "now < candidate_wall s (now + off) - off") auto
qed

end
