(* ===== verification/Direct_Read.thy ===== *)
theory Direct_Read
  imports Orchestrator
begin

text \<open>
  Ephemeral sessions that read one provider (direct_read.py), without audit log and idempotency state: the
  preflight of a whole plan, the binding of the connector, and the execution of the actions, each
  with an independent verification. The session is built over the same connectors as a run. \<open>ds_calls\<close> is a history
  variable, the connector calls made so far. Time is read through a clock with a count of the readings.
  Performance measurements and the HTTP budget that is active during a call are left out.
\<close>

subsection \<open>Reports\<close>

record direct_payload =
  dp_data :: json_object
  dp_connector_reference :: "string option"

definition mk_direct_payload :: "direct_payload \<Rightarrow> exn + direct_payload" where
  "mk_direct_payload p = sbind (freeze_json_mapping (dp_data p)) (\<lambda>d. Inr (p\<lparr>dp_data := d\<rparr>))"

definition direct_payload_to_dict :: "direct_payload \<Rightarrow> json_object" where
  "direct_payload_to_dict p =
     [(''data'', JObj (dp_data p)), (''connector_reference'', optional JStr (dp_connector_reference p))]"

record direct_verification =
  dv_verified :: bool
  dv_observed :: "json_object option"
  dv_message :: string

definition mk_direct_verification :: "direct_verification \<Rightarrow> exn + direct_verification" where
  "mk_direct_verification v =
     (case dv_observed v of
        None \<Rightarrow> Inr v
      | Some kvs \<Rightarrow> sbind (freeze_json_mapping kvs) (\<lambda>d. Inr (v\<lparr>dv_observed := Some d\<rparr>)))"

definition direct_verification_to_dict :: "direct_verification \<Rightarrow> json_object" where
  "direct_verification_to_dict v =
     [(''verified'', JBool (dv_verified v)), (''observed'', optional JObj (dv_observed v)),
      (''message'', JStr (dv_message v))]"

record direct_action =
  da_action_id :: uuid
  da_capability :: string
  da_state :: action_state
  da_message :: string
  da_payload :: direct_payload
  da_verification :: direct_verification
  da_egress :: egress_binding

definition mk_direct_action :: "direct_action \<Rightarrow> exn + direct_action" where
  "mk_direct_action d =
     guarded
       [(da_state d \<noteq> VERIFIED, Exn ValueError ''direct read action reports must be verified''),
        (\<not> dv_verified (da_verification d), Exn ValueError ''direct read action reports require verified evidence'')] d"

definition direct_action_to_dict :: "direct_action \<Rightarrow> json_object" where
  "direct_action_to_dict d =
     [(''action_id'', JStr (da_action_id d)), (''capability'', JStr (da_capability d)),
      (''state'', JStr (state_str (da_state d))), (''message'', JStr (da_message d)),
      (''payload'', JObj (direct_payload_to_dict (da_payload d))),
      (''verification'', JObj (direct_verification_to_dict (da_verification d))),
      (''egress'', JObj (egress_binding_to_dict (da_egress d)))]"

text \<open>The performance snapshot is carried as its serialised form.\<close>

record direct_report =
  dt_plan_id :: uuid
  dt_plan_fingerprint :: string
  dt_provider :: string
  dt_actions :: "direct_action list"
  dt_systems_review :: post_review
  dt_performance :: "json_object option"

definition direct_schema :: string where
  "direct_schema = ''master-agent/direct-read-report@1''"

definition mk_direct_report :: "direct_report \<Rightarrow> exn + direct_report" where
  "mk_direct_report r =
     guarded
       [(py_strip (dt_provider r) = [], Exn ValueError ''direct read report provider must not be empty''),
        (dt_actions r = [], Exn ValueError ''direct read report must contain at least one action'')] r"

definition direct_successful :: "direct_report \<Rightarrow> bool" where
  "direct_successful r =
     list_all (\<lambda>d. da_state d = VERIFIED \<and> dv_verified (da_verification d)) (dt_actions r)"

definition direct_payloads :: "direct_report \<Rightarrow> direct_payload list" where
  "direct_payloads r = map da_payload (dt_actions r)"

definition direct_report_to_dict :: "direct_report \<Rightarrow> json_object" where
  "direct_report_to_dict r =
     [(''schema'', JStr direct_schema), (''plan_id'', JStr (dt_plan_id r)),
      (''plan_fingerprint'', JStr (dt_plan_fingerprint r)), (''provider'', JStr (dt_provider r)),
      (''successful'', JBool (direct_successful r)),
      (''actions'', JList (map (\<lambda>d. JObj (direct_action_to_dict d)) (dt_actions r))),
      (''systems_review'', JObj (post_review_to_dict (dt_systems_review r)))]
     @ (case dt_performance r of None \<Rightarrow> [] | Some p \<Rightarrow> [(''performance'', JObj p)])"

subsection \<open>The preflight of a plan\<close>

definition unbound_session_shape :: "change_plan \<Rightarrow> exn + string" where
  "unbound_session_shape p =
     (case cp_execution_context p of
        Some c \<Rightarrow>
          Inl (misconfigured
            (if xc_plugins c \<noteq> [] then ''direct read sessions cannot execute plugins''
             else if xc_capsules c \<noteq> [] then ''direct read sessions cannot execute capability capsules''
             else ''direct read sessions must not use a persisted execution context''))
      | None \<Rightarrow>
          if cp_workflow_id p \<noteq> None \<or> cp_workflow_fingerprint p \<noteq> None
          then Inl (misconfigured ''direct read sessions cannot execute a registered workflow'')
          else if cp_compensate_on_failure p
          then Inl (misconfigured ''direct read sessions cannot request compensation'')
          else (case remdups (map (\<lambda>a. rr_system (ac_target a)) (cp_actions p)) of
             [provider] \<Rightarrow>
               (case first_error (map direct_read_action (cp_actions p)) of
                  Some m \<Rightarrow> Inl (misconfigured m)
                | None \<Rightarrow> Inr provider)
           | _ \<Rightarrow> Inl (misconfigured ''direct read sessions require exactly one provider'')))"

definition rejected :: "verdict \<Rightarrow> exn option" where
  "rejected v = fail_if (\<not> fst v) (misconfigured (snd v))"

record gates =
  gt_catalog :: catalog
  gt_governance :: "egress_policy governance_profile"
  gt_policy :: policy_engine
  gt_sources :: "source_rule list"

definition policy_accepts :: "host \<Rightarrow> gates \<Rightarrow> change_plan \<Rightarrow> agent_action \<Rightarrow> instant \<Rightarrow> exn + unit" where
  "policy_accepts h g p a now =
     sbind (minimum_approvers (gt_governance g) (ac_capability a)) (\<lambda>minimum.
     sbind (evaluate h (gt_policy g) p a [] now minimum) (\<lambda>decision.
     if \<not> pd_permitted decision \<or> pd_approval_required decision
     then Inl (misconfigured (''direct read policy does not permit '' @ ac_capability a @ '': '' @ reason_text (pd_reason decision)))
     else Inr ()))"

definition unbound_action :: "host \<Rightarrow> gates \<Rightarrow> change_plan \<Rightarrow> agent_action \<Rightarrow> instant \<Rightarrow> exn + unit" where
  "unbound_action h g p a now =
     sbind (checked [rejected (validate_action (gt_catalog g) a True),
                     rejected (governance_validate_action (gt_governance g) a)] ()) (\<lambda>_.
     sbind (catalog_definition (gt_catalog g) (ac_capability a)) (\<lambda>d.
     case gp_model_context (gt_governance g) of
       None \<Rightarrow> Inl (misconfigured ''provider reads require configured model-context policy'')
     | Some context_policy \<Rightarrow>
         sbind (checked [preflight_provider_data_egress h context_policy a d EPHEMERAL False,
                         rejected (validate_external_model (gt_governance g) a d)] ()) (\<lambda>_.
         sbind (validate_sources h (gt_sources g) p a) (\<lambda>v.
         sbind (checked [rejected v] ()) (\<lambda>_. policy_accepts h g p a now)))))"

text \<open>The clock is read once for the systems gate and once for every action.\<close>

definition preflight_direct_read_plan ::
  "host \<Rightarrow> gates \<Rightarrow> (nat \<Rightarrow> instant) \<Rightarrow> change_plan \<Rightarrow> exn + string"
where
  "preflight_direct_read_plan h g clock p =
     sbind (enforce_systems_governance h default_gate p (Some (gt_policy g)) [] False (clock 0)) (\<lambda>_.
     sbind (unbound_session_shape p) (\<lambda>provider.
     sbind (checked [rejected (allows_direct_read_session (gt_governance g) p)] ()) (\<lambda>_.
     sbind (smap (\<lambda>(i, a). unbound_action h g p a (clock i)) (enumerate 1 (cp_actions p))) (\<lambda>_.
     Inr provider))))"

subsection \<open>The connector of a session\<close>

record 'w direct_session =
  dn_host :: host
  dn_gates :: gates
  dn_system :: string
  dn_capabilities :: "string list"
  dn_connector :: "'w connector"
  dn_binding :: connector_binding
  dn_observer :: "(systems_assessment \<Rightarrow> gate_decision \<Rightarrow> action_state list \<Rightarrow> outcome_evidence option) option"
  dn_clock :: "nat \<Rightarrow> instant"

text \<open>\<open>typed\<close> tells whether the connector is a \<open>ReadOnlyConnector\<close>, \<open>builtin\<close> whether its class is one of the
  repository.\<close>

definition mk_direct_session :: "bool \<Rightarrow> bool \<Rightarrow> 'w direct_session \<Rightarrow> exn + 'w direct_session" where
  "mk_direct_session typed builtin s =
     guarded
       [(\<not> typed, misconfigured ''direct read sessions require a typed ReadOnlyConnector''),
        (\<not> builtin, misconfigured ''direct read sessions require a factory-issued built-in connector'')] s"

definition microsoft_provider_systems :: "string list" where
  "microsoft_provider_systems = [''microsoft'', ''sharepoint'', ''outlook'', ''teams'', ''onenote'']"

definition binding_system_for :: "string \<Rightarrow> string" where
  "binding_system_for system = (if system \<in> set microsoft_provider_systems then ''microsoft'' else system)"

definition validate_binding_endpoint :: "host \<Rightarrow> connector_binding \<Rightarrow> exn + unit" where
  "validate_binding_endpoint h b =
     (case h_urlsplit h (cb_resolved_base_url b) of
        None \<Rightarrow> Inl (Exn ValueError ''Invalid URL'')
      | Some parts \<Rightarrow>
          let hostname = rstrip_dots (h_lower h (case url_hostname parts of None \<Rightarrow> [] | Some n \<Rightarrow> n)) in
          if h_lower h (url_scheme parts) \<noteq> ''https'' \<or> hostname = [] \<or> url_username parts \<noteq> None
             \<or> url_password parts \<noteq> None \<or> url_query parts \<noteq> [] \<or> url_fragment parts \<noteq> []
          then Inl (misconfigured ''direct read execution binding must use an HTTPS provider endpoint'')
          else (case url_port parts of
             None \<Rightarrow> Inl (misconfigured ''direct read execution binding has an invalid provider endpoint port'')
           | Some port \<Rightarrow>
               let rendered = (if CHR '':'' \<in> set hostname then ''['' @ hostname @ '']'' else hostname);
                   suffix = (case port of None \<Rightarrow> [] | Some n \<Rightarrow> if n = 443 then [] else '':'' @ render_int n) in
               if cb_resolved_origin b \<noteq> ''https://'' @ rendered @ suffix
               then Inl (misconfigured ''direct read execution binding origin does not match its provider endpoint'')
               else Inr ()))"

definition validate_connector_shape :: "'w direct_session \<Rightarrow> change_plan \<Rightarrow> string \<Rightarrow> exn + unit" where
  "validate_connector_shape s p provider =
     sbind (checked
       [fail_if (provider \<noteq> dn_system s)
          (misconfigured ''direct read plan provider does not match the selected connector''),
        fail_if (cb_system (dn_binding s) \<noteq> binding_system_for (dn_system s))
          (misconfigured ''direct read execution binding does not match the selected provider'')] ()) (\<lambda>_.
     sbind (validate_binding_endpoint (dn_host s) (dn_binding s)) (\<lambda>_.
     checked (map (\<lambda>a. fail_if (ac_capability a \<notin> set (dn_capabilities s))
       (misconfigured (''selected read connector does not support '' @ ac_capability a))) (cp_actions p)) ()))"

text \<open>A connector has limits exactly when it has a configuration.\<close>

definition validate_connector_endpoint :: "'w connector \<Rightarrow> connector_binding \<Rightarrow> 'w \<Rightarrow> exn option" where
  "validate_connector_endpoint k b w =
     (let c = k_config k w in
      first_error
        [fail_if (k_limits k w = None) (misconfigured ''direct read connector has no resolved configuration''),
         fail_if (cc_implementation c \<noteq> Some (cb_implementation b))
           (misconfigured ''resolved connector implementation drifted from the direct read binding''),
         fail_if (falsy (cc_base_url c)) (misconfigured ''direct read connector has no resolved provider endpoint''),
         fail_if (cc_base_url c \<noteq> Some (cb_resolved_base_url b))
           (misconfigured ''resolved connector endpoint drifted from the direct read binding''),
         fail_if ((cc_ca_bundle c \<noteq> None \<or> cc_ca_bundle_sha256 c \<noteq> None \<or> cb_ca_bundle_path b \<noteq> None
                     \<or> cb_ca_bundle_sha256 b \<noteq> None)
                  \<and> (cc_ca_bundle c \<noteq> cb_ca_bundle_path b \<or> cc_ca_bundle_sha256 c \<noteq> cb_ca_bundle_sha256 b))
           (misconfigured ''resolved connector CA identity drifted from the direct read binding''),
         fail_if (network_drifted c b)
           (misconfigured ''resolved connector network profile drifted from the direct read binding'')])"

definition direct_contract :: "'w direct_session \<Rightarrow> agent_action \<Rightarrow> 'w \<Rightarrow> exn + egress_binding" where
  "direct_contract s a w =
     (let h = dn_host s; g = dn_gates s; k = dn_connector s; b = dn_binding s in
      sbind (validate_execution h (gt_catalog g) a (k_config k w) (k_compensate k \<noteq> None) (Some b) ''live'') (\<lambda>v.
      sbind (checked [rejected v, validate_connector_endpoint k b w] ()) (\<lambda>_.
      case gp_model_context (gt_governance g) of
        None \<Rightarrow> Inl (misconfigured ''provider reads require configured model-context policy'')
      | Some context_policy \<Rightarrow>
          sbind (catalog_definition (gt_catalog g) (ac_capability a)) (\<lambda>d.
          bind_provider_data_egress h context_policy a d (Some b) EPHEMERAL False ''live''))))"

subsection \<open>The execution of an action\<close>

record 'w read_state =
  ds_world :: 'w
  ds_calls :: "connector_call list"

definition read_call :: "connector_call \<Rightarrow> ('w, 'a) eff \<Rightarrow> ('w read_state, 'a) eff" where
  "read_call c m = (\<lambda>s. case m (ds_world s) of (r, w) \<Rightarrow> (r, s\<lparr>ds_world := w, ds_calls := ds_calls s @ [c]\<rparr>))"

definition provider_errors :: "exn_class list" where
  "provider_errors = [KeyError, MasterAgentError, OSError, OverflowError, RuntimeError, TypeError, ValueError]"

definition provider_failed :: exn where
  "provider_failed = Exn ConnectorError ''provider read failed after egress authorization''"

definition validate_read_result :: "host \<Rightarrow> agent_action \<Rightarrow> returned \<Rightarrow> exn + execution_result" where
  "validate_read_result h a v =
     (case v of
        ReturnedResult r \<Rightarrow>
          checked
            [fail_if (er_action_id r \<noteq> ac_action_id a)
               (Exn ConnectorError ''connector result action ID did not match the action''),
             validate_integrity h r,
             fail_if (er_state r \<noteq> SUCCEEDED)
               (Exn ConnectorError ''direct read connector result must report succeeded before verification'')] r
      | _ \<Rightarrow> Inl (Exn ConnectorError ''connector returned an invalid direct read result''))"

definition validate_verification :: "agent_action \<Rightarrow> verification_result \<Rightarrow> exn + unit" where
  "validate_verification a v =
     checked [fail_if (vr_action_id v \<noteq> ac_action_id a)
       (Exn ConnectorError ''connector verification action ID did not match the action'')] ()"

text \<open>The snapshot of the result and the verification, from the two calls to the connector.\<close>

definition provider_read ::
  "'w direct_session \<Rightarrow> agent_action \<Rightarrow> ('w read_state, execution_result \<times> verification_result) eff"
where
  "provider_read s a =
     (let h = dn_host s; k = dn_connector s in
      ebind (read_call (ExecuteCall a) (k_execute k a)) (\<lambda>v.
      ebind (elift (sbind (validate_read_result h a v) (copy_execution_result h))) (\<lambda>snapshot.
      ebind (elift (copy_execution_result h snapshot)) (\<lambda>copied.
      ebind (read_call (VerifyCall a) (k_verify k a copied)) (\<lambda>verification.
      ebind (elift (validate_verification a verification)) (\<lambda>_.
      eret (snapshot, verification)))))))"

definition provider_guarded :: "('s, 'a) eff \<Rightarrow> ('s, 'a) eff" where
  "provider_guarded m = ecatch m (\<lambda>e. eraise (if caught_by provider_errors e then provider_failed else e))"

definition sanitized_pair ::
  "host \<Rightarrow> execution_result \<Rightarrow> json_object option \<Rightarrow> egress_binding \<Rightarrow> exn + execution_result \<times> json_object option"
where
  "sanitized_pair h snapshot observed egress =
     (case sbind (sanitize_provider_result h snapshot egress) (\<lambda>r.
             sbind (verification_metadata h observed egress) (\<lambda>m. Inr (r, m))) of
        Inr x \<Rightarrow> Inr x
      | Inl e \<Rightarrow> Inl (if caught_by provider_errors e then provider_failed else e))"

definition returned_read ::
  "'w direct_session \<Rightarrow> agent_action \<Rightarrow> egress_binding \<Rightarrow> execution_result \<Rightarrow> verification_result \<Rightarrow> 'w
     \<Rightarrow> exn + direct_action"
where
  "returned_read s a egress snapshot verification w =
     (let h = dn_host s in
      if \<not> vr_verified verification
      then Inl (Exn VerificationError (''direct read did not independently verify '' @ ac_capability a))
      else if er_after snapshot = None then Inl (Exn ConnectorError ''direct read connector returned no payload'')
      else
        sbind (direct_contract s a w) (\<lambda>rechecked.
        sbind (egress_binding_fingerprint h rechecked) (\<lambda>fp.
        sbind (egress_binding_fingerprint h egress) (\<lambda>fp'.
        if fp \<noteq> fp' then Inl (misconfigured ''provider-data egress binding changed before result return'')
        else
          sbind (sanitized_pair h snapshot (vr_observed verification) egress) (\<lambda>(sanitized, observed).
          case er_after sanitized of
            None \<Rightarrow> Inl (Exn ConnectorError ''direct read connector returned no sanitized payload'')
          | Some value \<Rightarrow>
              sbind (mk_direct_payload
                \<lparr>dp_data = value, dp_connector_reference = er_connector_reference sanitized\<rparr>) (\<lambda>payload.
              sbind (mk_direct_verification
                \<lparr>dv_verified = vr_verified verification, dv_observed = observed,
                 dv_message = ''provider read independently verified''\<rparr>) (\<lambda>evidence.
              mk_direct_action
                \<lparr>da_action_id = ac_action_id a, da_capability = ac_capability a, da_state = VERIFIED,
                 da_message = ''provider read independently verified'', da_payload = payload,
                 da_verification = evidence, da_egress = egress\<rparr>)))))))"

definition execute_direct_action ::
  "'w direct_session \<Rightarrow> agent_action \<times> egress_binding \<Rightarrow> ('w read_state, direct_action) eff"
where
  "execute_direct_action s ab =
     (case ab of (a, egress) \<Rightarrow>
      ebind (eget ds_world) (\<lambda>w.
      ebind (elift (checked
        [fail_if (k_limits (dn_connector s) w = None)
           (misconfigured ''direct read connector is missing a live HTTP action budget''),
         connector_http_action_budget (dn_connector s) w] ())) (\<lambda>_.
      ebind (provider_guarded (provider_read s a)) (\<lambda>(snapshot, verification).
      ebind (eget ds_world) (\<lambda>w'.
      elift (returned_read s a egress snapshot verification w'))))))"

fun execute_direct_actions ::
  "'w direct_session \<Rightarrow> (agent_action \<times> egress_binding) list \<Rightarrow> ('w read_state, direct_action list) eff"
where
  "execute_direct_actions s [] = eret []"
| "execute_direct_actions s (ab # rest) =
     ebind (execute_direct_action s ab) (\<lambda>r. ebind (execute_direct_actions s rest) (\<lambda>rs. eret (r # rs)))"

text \<open>All actions are validated before the first call to the provider.\<close>

definition direct_bindings :: "'w direct_session \<Rightarrow> change_plan \<Rightarrow> 'w \<Rightarrow> exn + egress_binding list" where
  "direct_bindings s p w =
     sbind (preflight_direct_read_plan (dn_host s) (dn_gates s) (dn_clock s) p) (\<lambda>provider.
     sbind (validate_connector_shape s p provider) (\<lambda>_.
     smap (\<lambda>a. direct_contract s a w) (cp_actions p)))"

definition finish_direct_read :: "'w direct_session \<Rightarrow> change_plan \<Rightarrow> direct_action list \<Rightarrow> exn + direct_report" where
  "finish_direct_read s p reports =
     (case (cp_systems_assessment p, cp_systems_decision p) of
        (Some assessment, Some decision) \<Rightarrow>
          sbind (build_systems_post_execution_review (dn_host s) assessment decision (map da_state reports) False
                   (dn_observer s)) (\<lambda>review.
          mk_direct_report
            \<lparr>dt_plan_id = cp_plan_id p, dt_plan_fingerprint = plan_fingerprint (dn_host s) p,
             dt_provider = dn_system s, dt_actions = reports, dt_systems_review = review, dt_performance = None\<rparr>)
      | _ \<Rightarrow> Inl (misconfigured ''direct read systems governance binding is invalid''))"

definition execute_internal :: "'w direct_session \<Rightarrow> change_plan \<Rightarrow> ('w read_state, direct_report) eff" where
  "execute_internal s p =
     ebind (eget ds_world) (\<lambda>w.
     ebind (elift (direct_bindings s p w)) (\<lambda>bindings.
     ebind (execute_direct_actions s (zip (cp_actions p) bindings)) (\<lambda>reports.
     elift (finish_direct_read s p reports))))"

text \<open>\<open>snapshot\<close> is the performance snapshot that the report carries.\<close>

definition execute_direct_read ::
  "'w direct_session \<Rightarrow> json_object \<Rightarrow> change_plan \<Rightarrow> ('w read_state, direct_report) eff"
where
  "execute_direct_read s snapshot p =
     ebind (elift (execution_snapshot (dn_host s) p)) (\<lambda>q.
     ebind (execute_internal s q) (\<lambda>report. eret (report\<lparr>dt_performance := Some snapshot\<rparr>)))"

end
