(* ===== verification/Direct_Reads.thy ===== *)
theory Direct_Reads
  imports Direct_Read
begin

text \<open>
  What a direct read guarantees: the calls it makes of the provider are a prefix of one execution and one
  verification for each action, none happens before the preflight of the whole plan, and every
  action that is reported was verified and left the program through the sanitiser of its binding.
\<close>

subsection \<open>The calls of a program\<close>

text \<open>A program that returns has made exactly the given calls, one that raises a prefix of them.\<close>

definition makes_calls :: "('w read_state, 'a) eff \<Rightarrow> connector_call list \<Rightarrow> bool" where
  "makes_calls m cs =
     (\<forall>s. \<exists>made. prefix made cs \<and> ds_calls (snd (m s)) = ds_calls s @ made \<and> (isl (fst (m s)) \<or> made = cs))"

named_theorems call_rules \<open>the calls of the constructs of a program\<close>

lemma makes_calls_pure [call_rules]:
  "makes_calls (eret x) []" "makes_calls (elift r) []" "makes_calls (eget f) []"
  by (simp_all add: makes_calls_def eret_def elift_def eget_def)

lemma makes_calls_read_call [call_rules]: "makes_calls (read_call c m) [c]"
  by (auto simp: makes_calls_def read_call_def split: prod.splits)

lemma makes_calls_bind:
  assumes "makes_calls m cs" and "\<And>x. makes_calls (f x) ds"
  shows "makes_calls (ebind m f) (cs @ ds)"
  unfolding makes_calls_def
proof
  fix s
  obtain r t where m: "m s = (r, t)" by fastforce
  obtain first where first: "prefix first cs" "ds_calls t = ds_calls s @ first" "isl r \<or> first = cs"
    using assms(1) m unfolding makes_calls_def by (metis fst_conv snd_conv)
  show "\<exists>made. prefix made (cs @ ds) \<and> ds_calls (snd (ebind m f s)) = ds_calls s @ made
      \<and> (isl (fst (ebind m f s)) \<or> made = cs @ ds)"
  proof (cases r)
    case (Inl e)
    then show ?thesis using m first by (auto simp: ebind_def prefix_def)
  next
    case (Inr x)
    obtain second where "prefix second ds" "ds_calls (snd (f x t)) = ds_calls t @ second" "isl (fst (f x t)) \<or> second = ds"
      using assms(2) unfolding makes_calls_def by blast
    then show ?thesis
      using m first Inr by (intro exI [of _ "cs @ second"]) (auto simp: ebind_def prefix_def)
  qed
qed

lemma makes_calls_after_pure: "makes_calls m [] \<Longrightarrow> (\<And>x. makes_calls (f x) ds) \<Longrightarrow> makes_calls (ebind m f) ds"
  using makes_calls_bind [of m "[]" f ds] by simp

lemma makes_calls_before_pure: "makes_calls m cs \<Longrightarrow> (\<And>x. makes_calls (f x) []) \<Longrightarrow> makes_calls (ebind m f) cs"
  using makes_calls_bind [of m cs f "[]"] by simp

lemma makes_calls_guarded: "makes_calls m cs \<Longrightarrow> makes_calls (provider_guarded m) cs"
  unfolding makes_calls_def provider_guarded_def ecatch_def eraise_def
  by (auto split: prod.splits sum.splits) (metis fst_conv isl_def obj_sumE snd_conv sum.disc(2))+

definition read_calls :: "agent_action \<Rightarrow> connector_call list" where
  "read_calls a = [ExecuteCall a, VerifyCall a]"

lemma provider_read_calls: "makes_calls (provider_read s a) (read_calls a)"
proof -
  have "makes_calls (provider_read s a) ([ExecuteCall a] @ [VerifyCall a])"
    unfolding provider_read_def Let_def
    by (rule makes_calls_bind makes_calls_after_pure makes_calls_before_pure call_rules)+
  then show ?thesis by (simp add: read_calls_def)
qed

lemma execute_direct_action_calls: "makes_calls (execute_direct_action s ab) (read_calls (fst ab))"
proof (cases ab)
  case (Pair a egress)
  have "makes_calls (case x of (snapshot, verification) \<Rightarrow>
      ebind (eget ds_world) (\<lambda>w'. elift (returned_read s a egress snapshot verification w'))) []" for x
    by (cases x) (simp add: makes_calls_after_pure call_rules)
  then show ?thesis
    unfolding execute_direct_action_def Pair prod.case fst_conv
    by (intro makes_calls_after_pure [OF makes_calls_pure(3)] makes_calls_after_pure [OF makes_calls_pure(2)]
        makes_calls_before_pure [OF makes_calls_guarded [OF provider_read_calls]])
qed

lemma execute_direct_actions_calls:
  "makes_calls (execute_direct_actions s todo) (concat (map (\<lambda>ab. read_calls (fst ab)) todo))"
proof (induction todo)
  case (Cons ab rest)
  have "makes_calls (ebind (execute_direct_actions s rest) (\<lambda>rs. eret (r # rs)))
      (concat (map (\<lambda>ab. read_calls (fst ab)) rest))" for r :: direct_action
    by (rule makes_calls_before_pure [OF Cons makes_calls_pure(1)])
  then show ?case
    unfolding execute_direct_actions.simps list.map concat.simps
    by (rule makes_calls_bind [OF execute_direct_action_calls])
qed (simp add: call_rules)

subsection \<open>The preflight\<close>

text \<open>Every gate has accepted the action: it is a read with the authority of the user that needs no approval,
  and catalog, governance and policy permit it.\<close>

definition direct_admitted :: "host \<Rightarrow> gates \<Rightarrow> change_plan \<Rightarrow> agent_action \<Rightarrow> bool" where
  "direct_admitted h g p a =
     (ac_risk a = READ_ONLY \<and> ac_authority_source a = DIRECT_USER \<and> \<not> ac_requires_approval a
      \<and> fst (validate_action (gt_catalog g) a True) \<and> fst (governance_validate_action (gt_governance g) a)
      \<and> (\<exists>now minimum decision. minimum_approvers (gt_governance g) (ac_capability a) = Inr minimum
           \<and> evaluate h (gt_policy g) p a [] now minimum = Inr decision
           \<and> pd_permitted decision \<and> \<not> pd_approval_required decision))"

lemma rejected_None [simp]: "rejected v = None \<longleftrightarrow> fst v"
  by (simp add: rejected_def)

lemma unbound_action_accepts:
  assumes "unbound_action h g p a now = Inr u"
  shows "fst (validate_action (gt_catalog g) a True) \<and> fst (governance_validate_action (gt_governance g) a)
    \<and> (\<exists>minimum decision. minimum_approvers (gt_governance g) (ac_capability a) = Inr minimum
         \<and> evaluate h (gt_policy g) p a [] now minimum = Inr decision
         \<and> pd_permitted decision \<and> \<not> pd_approval_required decision)"
  using assms
  by (auto simp: unbound_action_def policy_accepts_def sbind_Inr checked_Inr split: option.splits if_splits)

lemma shape_admits:
  assumes "unbound_session_shape p = Inr provider" and "a \<in> set (cp_actions p)"
  shows "ac_risk a = READ_ONLY \<and> ac_authority_source a = DIRECT_USER \<and> \<not> ac_requires_approval a"
proof -
  have "first_error (map direct_read_action (cp_actions p)) = None"
    using assms(1) by (auto simp: unbound_session_shape_def split: option.splits list.splits if_splits)
  then have "direct_read_action a = None" using assms(2) by (simp add: first_error_None_iff)
  then show ?thesis by (auto simp: direct_read_action_def split: if_splits)
qed

lemma smap_enumerate_member:
  assumes "smap f (enumerate n xs) = Inr ys" and "x \<in> set xs"
  shows "\<exists>i y. f (i, x) = Inr y"
  using assms by (induction xs arbitrary: n ys) (auto simp: sbind_Inr)

lemma preflight_admits:
  assumes "preflight_direct_read_plan h g clock p = Inr provider"
  shows "list_all (direct_admitted h g p) (cp_actions p)"
  unfolding list_all_iff
proof
  fix a assume a: "a \<in> set (cp_actions p)"
  have shape: "unbound_session_shape p = Inr provider"
    and gates: "\<exists>us. smap (\<lambda>(i, a). unbound_action h g p a (clock i)) (enumerate 1 (cp_actions p)) = Inr us"
    using assms by (auto simp: preflight_direct_read_plan_def sbind_Inr)
  then obtain i u where "unbound_action h g p a (clock i) = Inr u"
    using smap_enumerate_member [OF _ a] by fastforce
  then show "direct_admitted h g p a"
    using unbound_action_accepts shape_admits [OF shape a] unfolding direct_admitted_def by blast
qed

lemma smap_list_all2: "smap f xs = Inr ys \<Longrightarrow> list_all2 (\<lambda>x y. f x = Inr y) xs ys"
  by (induction xs arbitrary: ys) (auto simp: sbind_Inr)

lemma direct_bindings_Inr:
  assumes "direct_bindings s p w = Inr bs"
  shows "list_all (direct_admitted (dn_host s) (dn_gates s) p) (cp_actions p)"
    and "list_all2 (\<lambda>a b. direct_contract s a w = Inr b) (cp_actions p) bs"
  using assms by (auto simp: direct_bindings_def sbind_Inr dest: preflight_admits smap_list_all2)

subsection \<open>The calls of a direct read\<close>

lemma execute_internal_calls:
  "\<exists>made. ds_calls (snd (execute_internal s p st)) = ds_calls st @ made
     \<and> (made = [] \<or> prefix made (concat (map read_calls (cp_actions p)))
          \<and> list_all (direct_admitted (dn_host s) (dn_gates s) p) (cp_actions p))"
proof (cases "direct_bindings s p (ds_world st)")
  case (Inl e)
  then have "ds_calls (snd (execute_internal s p st)) = ds_calls st"
    by (simp add: execute_internal_def ebind_def eget_def elift_def)
  then show ?thesis by simp
next
  case (Inr bs)
  have lengths: "length (cp_actions p) = length bs" using direct_bindings_Inr(2) [OF Inr] by (rule list_all2_lengthD)
  have "map (\<lambda>ab. read_calls (fst ab)) (zip (cp_actions p) bs) = map read_calls (map fst (zip (cp_actions p) bs))"
    by (simp add: comp_def)
  then have zipped: "concat (map (\<lambda>ab. read_calls (fst ab)) (zip (cp_actions p) bs)) = concat (map read_calls (cp_actions p))"
    using lengths by simp
  have "makes_calls (ebind (execute_direct_actions s (zip (cp_actions p) bs)) (\<lambda>reports. elift (finish_direct_read s p reports)))
      (concat (map read_calls (cp_actions p)))"
    unfolding zipped [symmetric] by (intro makes_calls_before_pure execute_direct_actions_calls call_rules)
  moreover have "execute_internal s p st
      = ebind (execute_direct_actions s (zip (cp_actions p) bs)) (\<lambda>reports. elift (finish_direct_read s p reports)) st"
    using Inr by (simp add: execute_internal_def ebind_def eget_def elift_def)
  ultimately show ?thesis using direct_bindings_Inr(1) [OF Inr] unfolding makes_calls_def by metis
qed

lemma execute_direct_read_calls:
  "\<exists>made. ds_calls (snd (execute_direct_read s perf p st)) = ds_calls st @ made
     \<and> (made = [] \<or> (\<exists>q. execution_snapshot (dn_host s) p = Inr q \<and> prefix made (concat (map read_calls (cp_actions q)))
          \<and> list_all (direct_admitted (dn_host s) (dn_gates s) q) (cp_actions q)))"
proof (cases "execution_snapshot (dn_host s) p")
  case (Inr q)
  have "snd (execute_direct_read s perf p st) = snd (execute_internal s q st)"
    using Inr by (simp add: execute_direct_read_def ebind_def elift_def eret_def split: prod.splits sum.splits)
  then show ?thesis using execute_internal_calls [of s q st] Inr by auto
qed (simp add: execute_direct_read_def ebind_def elift_def)

subsection \<open>What a report holds\<close>

text \<open>The connector answered the execution of the action with this content, and the next call to it, the verification
  of the action on a result with the same content, with a positive answer.\<close>

definition verified_read :: "'w direct_session \<Rightarrow> agent_action \<Rightarrow> json_object \<Rightarrow> bool" where
  "verified_read s a content =
     (\<exists>w w1 w2 r r' v. k_execute (dn_connector s) a w = (Inr (ReturnedResult r), w1)
        \<and> er_action_id r = ac_action_id a \<and> er_state r = SUCCEEDED \<and> er_after r = Some content
        \<and> er_after r' = Some content \<and> k_verify (dn_connector s) a r' w1 = (Inr v, w2)
        \<and> vr_verified v \<and> vr_action_id v = ac_action_id a)"

lemma copy_execution_result_after: "copy_execution_result h r = Inr r' \<Longrightarrow> er_after r' = er_after r"
  by (auto simp: copy_execution_result_def mk_result_states split: option.splits)

lemma read_call_InrE:
  assumes "read_call c m st = (Inr x, st')"
  obtains w where "m (ds_world st) = (Inr x, w)" "ds_world st' = w"
  using assms that by (auto simp: read_call_def split: prod.splits)

lemma provider_read_Inr:
  assumes "provider_read s a st = (Inr (snapshot, verification), st')"
    and "er_after snapshot = Some content" and "vr_verified verification"
  shows "verified_read s a content"
proof -
  obtain v st1 copied st2 where
      ex: "read_call (ExecuteCall a) (k_execute (dn_connector s) a) st = (Inr v, st1)"
    and snap: "sbind (validate_read_result (dn_host s) a v) (copy_execution_result (dn_host s)) = Inr snapshot"
    and cp: "copy_execution_result (dn_host s) snapshot = Inr copied"
    and ve: "read_call (VerifyCall a) (k_verify (dn_connector s) a copied) st1 = (Inr verification, st2)"
    and va: "validate_verification a verification = Inr ()"
    using assms(1) unfolding provider_read_def Let_def
    by (auto simp: elift_apply eret_def elim!: ebind_InrE)
  obtain r where v: "v = ReturnedResult r" "er_action_id r = ac_action_id a" "er_state r = SUCCEEDED"
    and r: "copy_execution_result (dn_host s) r = Inr snapshot"
    using snap by (auto simp: validate_read_result_def sbind_Inr checked_Inr split: returned.splits)
  have "er_after r = Some content" "er_after copied = Some content"
    using copy_execution_result_after [OF r] copy_execution_result_after [OF cp] assms(2) by simp_all
  moreover obtain w1 where "k_execute (dn_connector s) a (ds_world st) = (Inr v, w1)" "ds_world st1 = w1"
    using read_call_InrE [OF ex] by blast
  moreover obtain w2 where "k_verify (dn_connector s) a copied (ds_world st1) = (Inr verification, w2)"
    using read_call_InrE [OF ve] by blast
  moreover have "vr_action_id verification = ac_action_id a" using va by (simp add: validate_verification_def checked_Inr)
  ultimately show ?thesis using v assms(3) unfolding verified_read_def by blast
qed

text \<open>An entry of a report: a verified read, whose payload is the sanitised content within the limit of the binding.\<close>

definition safe_entry :: "'w direct_session \<Rightarrow> agent_action \<Rightarrow> direct_action \<Rightarrow> bool" where
  "safe_entry s a d =
     (da_action_id d = ac_action_id a \<and> da_capability d = ac_capability a \<and> da_state d = VERIFIED
      \<and> eb_route (da_egress d) = EPHEMERAL
      \<and> (\<exists>content. verified_read s a content
           \<and> sanitize_provider_mapping (dn_host s) content (da_egress d) = Inr (dp_data (da_payload d)))
      \<and> int (length (stable_json (JObj (dp_data (da_payload d))))) \<le> eb_max_output_bytes (da_egress d))"

lemma sanitized_result_after:
  assumes "sanitize_provider_result h r b = Inr r'"
  shows "\<exists>content after. er_after r = Some content \<and> er_after r' = Some after
    \<and> sanitize_provider_mapping h content b = Inr after"
  using assms
  by (auto simp: sanitize_provider_result_def sbind_Inr mk_result_def freeze_state_Inr split: option.splits if_splits)

lemma returned_read_Inr:
  assumes "returned_read s a egress snapshot verification w = Inr d"
  shows "vr_verified verification \<and> da_action_id d = ac_action_id a \<and> da_capability d = ac_capability a
    \<and> da_state d = VERIFIED \<and> da_egress d = egress
    \<and> (\<exists>content. er_after snapshot = Some content
         \<and> sanitize_provider_mapping (dn_host s) content egress = Inr (dp_data (da_payload d)))"
proof -
  obtain sanitized observed content where yes: "vr_verified verification"
    and pair: "sanitized_pair (dn_host s) snapshot (vr_observed verification) egress = Inr (sanitized, observed)"
    and after: "er_after sanitized = Some content"
    and d: "sbind (mk_direct_payload \<lparr>dp_data = content, dp_connector_reference = er_connector_reference sanitized\<rparr>) (\<lambda>payload.
       sbind (mk_direct_verification \<lparr>dv_verified = vr_verified verification, dv_observed = observed,
           dv_message = ''provider read independently verified''\<rparr>) (\<lambda>evidence.
       mk_direct_action \<lparr>da_action_id = ac_action_id a, da_capability = ac_capability a, da_state = VERIFIED,
           da_message = ''provider read independently verified'', da_payload = payload,
           da_verification = evidence, da_egress = egress\<rparr>)) = Inr d"
    using assms unfolding returned_read_def Let_def
    by (auto simp: sbind_Inr simp del: checked_Inr split: if_splits option.splits)
  have "sanitize_provider_result (dn_host s) snapshot egress = Inr sanitized"
    using pair by (auto simp: sanitized_pair_def sbind_Inr split: sum.splits if_splits)
  then obtain v where "er_after snapshot = Some v" "sanitize_provider_mapping (dn_host s) v egress = Inr content"
    using sanitized_result_after after by (metis option.inject)
  then show ?thesis
    using d yes by (auto simp: sbind_Inr mk_direct_payload_def mk_direct_action_def guarded_Inr
        freeze_json_mapping_Inr split: if_splits)
qed

lemma execute_direct_action_Inr:
  assumes "execute_direct_action s (a, egress) st = (Inr d, st')" and "eb_route egress = EPHEMERAL"
  shows "safe_entry s a d"
proof -
  obtain snapshot verification st1 st2 w where
      "provider_guarded (provider_read s a) st1 = (Inr (snapshot, verification), st2)"
    and ret: "returned_read s a egress snapshot verification w = Inr d"
    using assms(1) unfolding execute_direct_action_def prod.case
    by (auto simp: elift_apply eget_def elim!: ebind_InrE split: prod.splits)
  then have read: "provider_read s a st1 = (Inr (snapshot, verification), st2)"
    by (auto simp: provider_guarded_def ecatch_def eraise_def split: prod.splits sum.splits)
  show ?thesis
    using returned_read_Inr [OF ret] provider_read_Inr [OF read] sanitized_bounds assms(2) unfolding safe_entry_def by blast
qed

lemma execute_direct_actions_Inr:
  "execute_direct_actions s todo st = (Inr ds, st') \<Longrightarrow> list_all (\<lambda>ab. eb_route (snd ab) = EPHEMERAL) todo \<Longrightarrow>
     list_all2 (safe_entry s) (map fst todo) ds"
proof (induction todo arbitrary: st ds)
  case Nil
  then show ?case by (simp add: eret_def)
next
  case (Cons ab rest)
  obtain d t ds' where "execute_direct_action s ab st = (Inr d, t)" "execute_direct_actions s rest t = (Inr ds', st')"
      "ds = d # ds'"
    using Cons.prems(1) by (auto simp: eret_def elim!: ebind_InrE)
  then show ?case using Cons.IH Cons.prems(2) execute_direct_action_Inr by (cases ab) auto
qed

lemma direct_contract_Inr: "direct_contract s a w = Inr b \<Longrightarrow> eb_route b = EPHEMERAL"
  by (auto simp: direct_contract_def Let_def sbind_Inr dest!: bind_within split: option.splits)

lemma execute_internal_Inr:
  assumes "execute_internal s p st = (Inr report, st')"
  shows "list_all2 (safe_entry s) (cp_actions p) (dt_actions report)"
    and "ds_calls st' = ds_calls st @ concat (map read_calls (cp_actions p))"
proof -
  obtain bs ds where bs: "direct_bindings s p (ds_world st) = Inr bs"
    and ds: "execute_direct_actions s (zip (cp_actions p) bs) st = (Inr ds, st')"
    and finish: "finish_direct_read s p ds = Inr report"
    using assms(1) unfolding execute_internal_def
    by (fastforce simp: elift_apply eget_def elim!: ebind_InrE)
  note contracts = direct_bindings_Inr(2) [OF bs]
  have lengths: "length (cp_actions p) = length bs" using contracts by (rule list_all2_lengthD)
  have "list_all (\<lambda>ab. eb_route (snd ab) = EPHEMERAL) (zip (cp_actions p) bs)"
    using contracts by (fastforce simp: list_all_iff list_all2_iff intro: direct_contract_Inr)
  then have "list_all2 (safe_entry s) (cp_actions p) ds"
    using execute_direct_actions_Inr [OF ds] lengths by simp
  moreover have "dt_actions report = ds"
    using finish by (auto simp: finish_direct_read_def sbind_Inr mk_direct_report_def guarded_Inr split: option.splits)
  ultimately show "list_all2 (safe_entry s) (cp_actions p) (dt_actions report)" by simp
  have "map (\<lambda>ab. read_calls (fst ab)) (zip (cp_actions p) bs) = map read_calls (map fst (zip (cp_actions p) bs))"
    by (simp add: comp_def)
  then have "concat (map (\<lambda>ab. read_calls (fst ab)) (zip (cp_actions p) bs)) = concat (map read_calls (cp_actions p))"
    using lengths by simp
  then show "ds_calls st' = ds_calls st @ concat (map read_calls (cp_actions p))"
    using execute_direct_actions_calls [of s "zip (cp_actions p) bs"] ds unfolding makes_calls_def
    by (metis fst_conv isl_def snd_conv sum.disc(2))
qed

lemma execute_direct_read_Inr:
  assumes "execute_direct_read s perf p st = (Inr report, st')"
  shows "\<exists>q. execution_snapshot (dn_host s) p = Inr q
    \<and> list_all2 (safe_entry s) (cp_actions q) (dt_actions report)
    \<and> ds_calls st' = ds_calls st @ concat (map read_calls (cp_actions q))"
proof -
  obtain q r where q: "execution_snapshot (dn_host s) p = Inr q" and "execute_internal s q st = (Inr r, st')"
    and "report = r\<lparr>dt_performance := Some perf\<rparr>"
    using assms(1) unfolding execute_direct_read_def by (auto simp: elift_apply eret_def elim!: ebind_InrE)
  then show ?thesis using execute_internal_Inr by auto
qed

end
