(* ===== verification/Spec2Isabelle.thy ===== *)
theory Spec2Isabelle
  imports Fnmatch Run_Samples Journal_Samples Recurring_Claims Direct_Reads
begin

text \<open>
  A verification library for the runtime of MasterAgent (src/src/master_agent), an agent that turns
  goals into change plans, has them approved, and executes them against external systems.

  \<^bold>\<open>The program.\<close> A \<^verbatim>\<open>ChangePlan\<close> (models.py) is an ordered set of actions with dependencies,
  identified by a SHA-256 fingerprint of its canonical JSON text. A planner's plan passes the systems
  gate (planners/base.py), which binds an assessment and a decision to it. Approvals (models.py,
  approvals.py) are HMAC-signed statements about one fingerprint. Before an action runs, the capability
  catalog (capabilities.py), the governance profile (governance.py), the source-of-truth rules
  (canonical.py) and the policy engine (policy.py) decide about it; the registry (registry.py) finds
  its connector. What a provider read returns is bound to an egress policy and sanitised
  (provider_egress.py, security.py, evidence.py). The orchestrator (orchestrator.py) runs a plan: it
  takes every action through these checks, claims its idempotency key, executes and verifies it, and
  compensates executed writes after a failure. The audit log (audit.py) keeps a hash-chained event
  trail, the table of idempotency reservations that makes an action execute at most once, and
  compare-and-set run checkpoints. Beside a run, the work journal (work_memory.py) remembers the stages of development
  work in a second hash chain, and the advisory boundary (advisory.py, advisory_budget.py) delegates bounded
  research and review tasks to child agents. The scheduler (recurring.py) claims weekly occurrences of registered
  workflows in two tables and runs them at most once.

  \<^bold>\<open>Theories, in the order of the code.\<close>
  \<^item> Prelude: results as sums (\<^verbatim>\<open>exn + 'a\<close>), guards in source order, Python text as UTF-8 code points,
    insertion-ordered dictionaries, SHA-256 hexadecimal digests.
  \<^item> Fnmatch, Json, Canonical_Json: \<^verbatim>\<open>fnmatchcase\<close> patterns, JSON values, \<^verbatim>\<open>json.dumps\<close> with sorted keys and
    its injectivity.
  \<^item> Errors: the exception classes of errors.py and the \<^verbatim>\<open>except\<close> test.
  \<^item> Resource_Limits: resource_limits.py; the stack walk against recursive measures.
  \<^item> Host: what the sources take from Python's library and the platform (hashes, HMAC, casefold and
    normalisation, ISO timestamps, UUIDs, URL splitting, regular expressions) as a record of functions
    with named laws (\<^verbatim>\<open>host_laws\<close>), the field readers of models.py, and the locale \<^verbatim>\<open>codec\<close> of a
    serialisable class.
  \<^item> Systems_Models, Action_Models, Execution_Bindings, Change_Plan: every class of models.py, one record
    per dataclass, \<^verbatim>\<open>mk_*\<close> for \<^verbatim>\<open>__post_init__\<close>, \<^verbatim>\<open>*_to_dict\<close> and \<^verbatim>\<open>*_from_dict\<close> for serialisation; each
    class interprets \<^verbatim>\<open>codec\<close>. Dependency_Graph holds the graph searches on action identifiers.
  \<^item> Approvals: authorities, key rings, issuing and authentication (approvals.py); the locale
    \<^verbatim>\<open>approval_authenticator\<close> is the contract the policy engine relies on.
  \<^item> Policy: contextual constraints and the decision procedure of policy.py. Its \<^verbatim>\<open>fnmatch.fnmatch\<close> is modelled
    as on POSIX, where \<^verbatim>\<open>os.path.normcase\<close> is the identity.
  \<^item> Systems_Gate: planners/base.py, the gate, the binding and enforcement of its decision, the governed
    planner, and the post-execution review. Planner, reviewer and observer are parameters.
  \<^item> Connector_Registry, Capability_Catalog, Governance, Canonical_Sources: registry.py, capabilities.py,
    governance.py and canonical.py, each with its loader on the decoded TOML document.
  \<^item> Evidence: evidence.py and security.py, redaction, audit summaries and the scan for injected
    instructions. Provider_Egress and Egress_Sanitizer: provider_egress.py, the policy with its rules and
    decision, bindings, and the sanitising of results.
  \<^item> Hash_Chain, Audit_Log, Claim_Protocol: the locale \<^verbatim>\<open>chained_log\<close>, the operations of audit.py on one
    database record, and interleavings of those operations as sequences of atomic steps.
  \<^item> Effects: programs with state and exceptions, their triples and preservation rules.
  \<^item> Orchestrator: orchestrator.py, one definition per stage of the loop in \<^verbatim>\<open>_run_internal\<close> and of
    \<^verbatim>\<open>_maybe_compensate\<close>. Connectors, the pre-effect guard and the observer are arguments that act on a
    world the model does not look into and may raise anything; a storage operation may fail before it
    changes anything; history variables hold the connector calls in their order and the positive answers.
  \<^item> Direct_Read, Direct_Reads: direct_read.py, sessions that read one provider without durable state, the preflight of
    a plan, the binding of the connector and the reports; the calls a session makes and what its report holds.
  \<^item> Compensation: compensation.py, the plan that undoes the reversible effects of a run, as a program over
    the connectors. Capability_Routing: capability_routing.py, capability cards, the ranking of cards for a
    prompt, the digest of a decision, and sessions with their call and byte budgets.
  \<^item> Run_Steps: a run as a step relation. Each step carries what the code has established when it makes
    it, and every program of the orchestrator makes such steps only. Run_Invariants: admission, the
    steps of a whole run, and its invariants by rule induction over the steps.
  \<^item> Sqlite, Ascii_Json: the cells and schema rows the stores see of SQLite, and \<^verbatim>\<open>json.dumps\<close> with ASCII
    escapes, whose strings are prefix free.
  \<^item> Work_Memory, Work_Journal: work_memory.py, the journal of work records as an SQLite database with its
    schema check, its replay, and the operations that append; the journal as a sequence of admissible events, the
    lifecycle of a record as an inductive predicate, and the second instance of \<^verbatim>\<open>chained_log\<close>.
  \<^item> Advisory_Budget, Advisory_Profiles, Advisory, Advisory_Delegation: advisory_budget.py and advisory.py,
    the authenticated attempt counters, the profile parser and contract, the dispatcher of a child agent, the checks
    of routes, payloads and reports, and the sessions. A worker is an arbitrary function.
  \<^item> Recurring, Recurring_Claims: recurring.py, schedules in time zones, registered workflows, one definition per
    transaction of the scheduler tables, the runner; the life cycle of an occurrence as a step relation on rows,
    under any sequence of operations.
  \<^item> Samples, Runtime_Samples, Run_Samples, Journal_Samples: concrete values the witnesses evaluate.

  \<^bold>\<open>What is shown.\<close> Constructors establish the invariants of their classes; serialisation round
  trips; fingerprints bind plans up to a collision between the two canonical texts at hand;
  permission implies enough genuine approvals; the reservation table refines an abstract protocol
  under every interleaving of the methods that write it, the deletion of a row included; the trail is tamper
  evident up to what its hashed texts show, and what they do not show is stated;
  loaded catalogs, policies and registries are well formed and their decisions unambiguous; a plan
  that was bound stays enforceable, with the conditions under which it must be approved, and a plan that is enforced
  was reviewed; results of provider reads
  leave the program masked, projected and bounded. A run calls a connector only where every gate and the
  calls before it justify that, has no effect when it is a dry run, does not repeat a settled write,
  reports every action of its plan, as verified or reused only after a positive answer, and extends the verified trail. A direct read calls
  its provider only after the preflight and reports only verified, sanitised content. A compensation plan undoes exactly
  the reversible effects, newest first; the router offers only permitted cards, and a session stays
  within its budget. Work records run through their lifecycle in order under any calls; advisory
  attempts stay within the limits of a goal across sessions, and workers see checked payloads only. A fence of a
  recurring occurrence that was replaced never counts again, a scheduled run is claimed once, and a schedule
  selects an instant of the past with the scheduled wall clock reading.

  \<^bold>\<open>Choices.\<close> Strings are byte lists in UTF-8, extended to lone surrogates; instants are integers
  (microseconds); a \<^verbatim>\<open>float\<close> is its finiteness and its \<^verbatim>\<open>repr\<close>. Every loop is a total function: the walks over JSON
  values and graphs terminate by explicit measures, and the topological order, which the source
  runs without a path check, is a partial function shown to return on every constructed plan. A
  database operation runs in one transaction, so it is one step. Error messages keep the exception
  class and a shortened text.

  \<^bold>\<open>Not modelled.\<close> Retention, capsules, the operating loop with its artifacts on disk, configuration files and the
  semantic router, which are file handling for the most part; command line, connectors and network, credential stores, the file system and worker
  processes; the performance recorder around a run and the HTTP budget active during a call; Python's limit on the conversion of integers of
  more than 4300 digits; SQLite's file format and locking.
\<close>

section \<open>The audit trail and the reservation table\<close>

text \<open>C26: A trail that was created, initialised and extended by any sequence of
  \<^verbatim>\<open>AuditLog.record\<close> calls verifies, and the verification reports exactly the number of calls
  that returned a hash; a call that raised left no event behind.\<close>

theorem audit_trail_verifies:
  "verify_connection sha256 (fst (record_all sha256 calls (audit_initialize created_db)))
   = (let n = length (filter (\<lambda>r. \<not> isl r) (snd (record_all sha256 calls (audit_initialize created_db))))
      in if n = 0 then NoEvents else Verified n)"
proof -
  obtain db' rs where r: "record_all sha256 calls (audit_initialize created_db) = (db', rs)" by fastforce
  have "db_events (audit_initialize created_db) = []" by (simp add: audit_initialize_def created_db_def)
  then have db': "chain_ok sha256 db'" "length (db_events db') = length (filter (\<lambda>r. \<not> isl r) rs)"
    using recorded_chain [OF chain_ok_initialize r] by simp_all
  show ?thesis
  proof (cases "db_events db' = []")
    case True
    then have "verify_connection sha256 db' = NoEvents" by (simp add: verify_connection_def)
    then show ?thesis using True db'(2) r by simp
  next
    case False
    then have "verify_connection sha256 db' = Verified (length (db_events db'))"
      using db'(1) by (simp add: verify_connection_Verified)
    moreover have "filter (\<lambda>r. \<not> isl r) rs \<noteq> []" using False db'(2) by auto
    ultimately show ?thesis using db'(2) r by simp
  qed
qed

text \<open>C8: The trail is tamper evident up to what its hash sees. With a hexadecimal digest, if two trails verify with the
  same checkpoint row, then they hold the same number of rows with the same hashed texts in the same order, or two
  different row texts among those present have one SHA-256 digest. Where the rows of both are plain, which means that no column
  but the payload contains the separator and no action identifier is the empty string, the events are equal. What the
  hashed text leaves open for other rows is stated below.\<close>

theorem audit_tamper_evident:
  assumes "verify_connection sha256 db = Verified n" and "verify_connection sha256 db' = Verified n"
    and "db_state db' = db_state db" and "\<And>m. is_sha256 (sha256 m)"
  shows "map row_material (db_events db') = map row_material (db_events db)
      \<and> (list_all plain_row (db_events db) \<longrightarrow> list_all plain_row (db_events db') \<longrightarrow> db_events db' = db_events db)
    \<or> collision sha256 (row_material ` (set (db_events db') \<union> set (db_events db)))"
proof -
  have c: "chain_ok sha256 db" "chain_ok sha256 db'" "length (db_events db') = length (db_events db)"
    using assms(1,2) by (simp_all add: verify_connection_Verified)
  then have h: "audit_head genesis (db_events db') = audit_head genesis (db_events db)"
    using assms(3) by (simp add: chain_ok_def)
  have "db_events db' = db_events db \<or> collision sha256 (row_material ` (set (db_events db') \<union> set (db_events db)))"
    if "list_all plain_row (db_events db)" "list_all plain_row (db_events db')"
    using that c h by (intro audit_chain.same_length_same_head) (auto simp: chain_ok_def)
  then show ?thesis using same_texts [OF c h assms(4)] by blast
qed

theorem audit_tamper_evident_witness:
  "map row_material (db_events sample_db) = map row_material (db_events sample_db)
     \<and> db_events sample_db = db_events sample_db
   \<or> collision sample_digest (row_material ` (set (db_events sample_db) \<union> set (db_events sample_db)))"
proof -
  have "verify_connection sample_digest sample_db = Verified 1" by code_simp
  moreover have "list_all plain_row (db_events sample_db)" by code_simp
  ultimately show ?thesis
    using audit_tamper_evident [of sample_digest sample_db 1 sample_db] sample_digest_sha256 by simp
qed

text \<open>The trail does not distinguish an absent action identifier from an empty one: exchanging
  \<^verbatim>\<open>NULL\<close> and the empty string in every row changes the events and not the outcome of the
  verification.\<close>

theorem audit_null_action_undetected:
  "verify_connection sha256 (db\<lparr>db_events := map null_swapped (db_events db)\<rparr>)
   = verify_connection sha256 db"
  by (cases "db_state db") (auto simp: verify_connection_def null_swapped_rows split: sum.split)

text \<open>The hash text joins its columns with a separator that an event type may contain: moving
  text over the boundary between event type and payload in any row is not seen by the walk over the
  chain.\<close>

theorem audit_boundary_undetected:
  "verify_rows sha256 i p (xs @ e\<lparr>ev_event_type := t @ ''|'' @ u, ev_payload_json := v\<rparr> # ys)
   = verify_rows sha256 i p (xs @ e\<lparr>ev_event_type := t, ev_payload_json := u @ ''|'' @ v\<rparr> # ys)"
proof (induction xs arbitrary: i p)
  case Nil
  have "row_material (e\<lparr>ev_event_type := t @ ''|'' @ u, ev_payload_json := v\<rparr>)
      = row_material (e\<lparr>ev_event_type := t, ev_payload_json := u @ ''|'' @ v\<rparr>)"
    by (simp add: row_material_def event_material_def)
  then show ?case by simp
qed simp

text \<open>C27: Every operation that writes the table of reservations, on every database, refines one step of the
  abstract reservation protocol of its key and leaves every other key alone. A key loses its reservation only by
  the deletion of its row, and it becomes completed without having been reserved only by a stored completion.\<close>

theorem reservations_refine_phases:
  "phase_step (phase_of db key) (phase_of (apply_op sha256 a db) key)
   \<and> (op_key a \<noteq> Some key \<longrightarrow> phase_of (apply_op sha256 a db) key = phase_of db key)
   \<and> (phase_of (apply_op sha256 a db) key = Absent \<longrightarrow> phase_of db key = Absent \<or> clears key a)
   \<and> (phase_of db key = Absent \<longrightarrow> phase_of (apply_op sha256 a db) key = Succeeded \<longrightarrow> saves key a)"
  using apply_op_phase phase_of_cong [OF apply_op_other] apply_op_absent apply_op_adopts by blast

theorem reservations_refine_phases_witness:
  "phase_of (apply_op sample_digest (OpFail ''k1'' ''fp'' ''t1'' JNull ''later'') sample_db) ''k2''
     = phase_of sample_db ''k2''
   \<and> phase_of (apply_op sample_digest (OpClear ''k1'' None) sample_db) ''k1'' = Absent
   \<and> (phase_of sample_db ''k1'' = Absent \<or> clears ''k1'' (OpClear ''k1'' None))"
proof (intro conjI)
  show absent: "phase_of (apply_op sample_digest (OpClear ''k1'' None) sample_db) ''k1'' = Absent"
    by (simp add: phase_of_def clear_completed_def)
  show "phase_of sample_db ''k1'' = Absent \<or> clears ''k1'' (OpClear ''k1'' None)"
    using reservations_refine_phases [of sample_db "''k1''" sample_digest "OpClear ''k1'' None"] absent by blast
qed (use reservations_refine_phases [of sample_db "''k2''" sample_digest "OpFail ''k1'' ''fp'' ''t1'' JNull ''later''"] in simp)

text \<open>C9: Reservations exclude each other. If a key is reserved, then whatever operations other
  workers run, it is reserved a second time only after one of them settled the first reservation as
  failed, released it, or deleted its row with \<open>clear_completed\<close>.\<close>

theorem reservations_exclusive:
  assumes "claim_state (snd (claim_action key fp plan act token now db)) = ClaimClaimed"
    and "claim_state (snd (claim_action key fp' plan' act' token' now'
           (run_ops sha256 ops (fst (claim_action key fp plan act token now db))))) = ClaimClaimed"
  shows "list_ex (\<lambda>a. settles_failed key a \<or> clears key a) ops"
  using assms by (rule second_reservation)

theorem reservations_exclusive_witness:
  "list_ex (\<lambda>a. settles_failed ''k1'' a \<or> clears ''k1'' a) [OpFail ''k1'' ''fp'' ''t1'' JNull ''later'']"
proof (rule reservations_exclusive)
  show "claim_state (snd (claim_action ''k1'' ''fp'' ''p'' ''a'' ''t1'' ''now'' created_db)) = ClaimClaimed"
    by code_simp
  show "claim_state (snd (claim_action ''k1'' ''fp'' ''p'' ''a'' ''t2'' ''later''
      (run_ops sample_digest [OpFail ''k1'' ''fp'' ''t1'' JNull ''later'']
        (fst (claim_action ''k1'' ''fp'' ''p'' ''a'' ''t1'' ''now'' created_db))))) = ClaimClaimed"
    by code_simp
qed

text \<open>C10: An action whose outcome is unknown is not retried by the reservation protocol: once the reservation
  is marked indeterminate, no sequence of operations makes it claimable, and a claim is refused without a
  change, unless the sequence resolves the outcome of this key or deletes its row with \<open>clear_completed\<close>.\<close>

theorem indeterminate_never_retried:
  assumes "mark_action_indeterminate key fp token outcome now db = (db', Inr ())"
    and "list_all (\<lambda>a. \<not> resolves key a \<and> \<not> clears key a) ops"
  shows "claim_state (snd (claim_action key fp' plan act token' now' (run_ops sha256 ops db')))
           \<in> {ClaimIndeterminate, ClaimConflict}
    \<and> fst (claim_action key fp' plan act token' now' (run_ops sha256 ops db')) = run_ops sha256 ops db'"
proof -
  have "phase_of db' key = Uncertain"
    using assms(1)
    by (auto simp: mark_action_indeterminate_def finish_action_claim_cases phase_of_def split: if_splits)
  then show ?thesis using assms(2) by (intro uncertain_not_claimed uncertain_until_resolved)
qed

theorem indeterminate_never_retried_witness:
  "claim_state (snd (claim_action ''k1'' ''fp'' ''p'' ''a'' ''t2'' ''n2''
     (run_ops sample_digest [OpRelease ''k1'' ''fp'' ''t1'' ''n1'']
       (fst (mark_action_indeterminate ''k1'' ''fp'' ''t1'' JNull ''now'' sample_db)))))
     \<in> {ClaimIndeterminate, ClaimConflict}"
proof -
  have "snd (mark_action_indeterminate ''k1'' ''fp'' ''t1'' JNull ''now'' sample_db) = Inr ()" by code_simp
  then show ?thesis
    using indeterminate_never_retried [of "''k1''" "''fp''" "''t1''" JNull "''now''" sample_db
        "fst (mark_action_indeterminate ''k1'' ''fp'' ''t1'' JNull ''now'' sample_db)"
        "[OpRelease ''k1'' ''fp'' ''t1'' ''n1'']"]
    by (simp add: prod_eq_iff)
qed

text \<open>A completed action is replayed, never executed again: after any sequence of operations a
  claim with the same fingerprint answers with the stored result and changes nothing, unless the row was deleted.\<close>

theorem completed_result_replayed:
  assumes "complete_action key fp token (JObj res) now db = (db', Inr ())"
    and "list_all (\<lambda>a. \<not> clears key a) ops"
  shows "claim_action key fp plan act token' now' (run_ops sha256 ops db')
    = (run_ops sha256 ops db', simple_claim ClaimCompleted (idempotency_result (sort_keys (JObj res))))
    \<and> completed_result key (Some fp) (run_ops sha256 ops db') = Inr (idempotency_result (sort_keys (JObj res)))"
proof -
  obtain row where row: "db_claims db' key = Some row" "cr_status row = Completed"
    "cr_fingerprint row = Some fp" "cr_result row = sort_keys (JObj res)"
    using assms(1) by (auto simp: complete_action_cases holds_claim_def split: if_splits option.splits)
  then have "db_claims (run_ops sha256 ops db') key = Some row" using assms(2) by (simp add: completed_row_final)
  then show ?thesis using row
    by (simp add: claim_action_def completed_result_def idempotency_result_def)
qed

theorem completed_result_replayed_witness:
  "claim_state (snd (claim_action ''k1'' ''fp'' ''p'' ''a'' ''t2'' ''n2''
     (run_ops sample_digest [OpFail ''k1'' ''fp'' ''t1'' JNull ''n1'']
       (fst (complete_action ''k1'' ''fp'' ''t1'' (JObj []) ''now'' sample_db))))) = ClaimCompleted"
proof -
  have "snd (complete_action ''k1'' ''fp'' ''t1'' (JObj []) ''now'' sample_db) = Inr ()" by code_simp
  then show ?thesis
    using completed_result_replayed [of "''k1''" "''fp''" "''t1''" "[]" "''now''" sample_db
        "fst (complete_action ''k1'' ''fp'' ''t1'' (JObj []) ''now'' sample_db)"
        "[OpFail ''k1'' ''fp'' ''t1'' JNull ''n1'']" "''p''" "''a''" "''t2''" "''n2''" sample_digest]
    by (simp add: prod_eq_iff simple_claim_def)
qed

text \<open>C28: Run checkpoints are compare-and-set: after a transition away from the expected state every
  other caller that still expects that state is refused without a change, the stored row is the one
  returned, and its sequence number is the successor of the old one.\<close>

theorem checkpoint_single_winner:
  assumes "checkpoint_run run plan fp state bindings (Some seen) res now db = (db', Inr row)"
    and "state \<noteq> seen"
  shows "(\<exists>e. checkpoint_run run plan' fp' state' bindings' (Some seen) res' now' db' = (db', Inl e))
    \<and> load_run_checkpoint run db' = Some row
    \<and> (\<exists>old. load_run_checkpoint run db = Some old \<and> rc_state old = seen
         \<and> rc_sequence row = rc_sequence old + 1
         \<and> rc_plan_fingerprint old = fp \<and> rc_capsule_bindings_sha256 old = bindings)"
proof -
  obtain old where old: "db_checkpoints db run = Some old" "rc_state old = seen"
      "rc_plan_fingerprint old = fp" "rc_capsule_bindings_sha256 old = bindings"
    and row: "db' = db\<lparr>db_checkpoints := (db_checkpoints db)(run \<mapsto> row)\<rparr>" "rc_state row = state"
      "rc_sequence row = rc_sequence old + 1"
    using assms(1) by (auto simp: checkpoint_run_def Let_def split: option.splits if_splits)
  have "\<exists>e. checkpoint_run run plan' fp' state' bindings' (Some seen) res' now' db' = (db', Inl e)"
    using row assms(2) by (auto simp: checkpoint_run_def split: option.split)
  then show ?thesis using old row by (simp add: load_run_checkpoint_def)
qed

theorem checkpoint_single_winner_witness:
  "\<exists>e db'. checkpoint_run ''r'' ''p'' (replicate 64 (CHR ''0'')) ''s3'' (replicate 64 (CHR ''0''))
     (Some ''s1'') None ''n3'' db' = (db', Inl e)"
proof -
  define d where "d = replicate 64 (CHR ''0'')"
  define db1 where "db1 = fst (checkpoint_run ''r'' ''p'' d ''s1'' d None None ''n1'' created_db)"
  define r2 where "r2 = checkpoint_run ''r'' ''p'' d ''s2'' d (Some ''s1'') None ''n2'' db1"
  have "case snd r2 of Inl e \<Rightarrow> False | Inr row \<Rightarrow> True"
    unfolding r2_def db1_def d_def by code_simp
  then obtain row where "r2 = (fst r2, Inr row)" by (cases r2) (auto split: sum.splits)
  then show ?thesis
    using checkpoint_single_winner [of "''r''" "''p''" d "''s2''" d "''s1''" None "''n2''" db1 "fst r2" row
        "''p''" d "''s3''" d None "''n3''"]
    unfolding r2_def d_def by auto
qed

section \<open>Dependency graphs, resource limits and canonical JSON\<close>

text \<open>On a graph without unknown dependencies the depth-first check of \<^verbatim>\<open>_validate_acyclic\<close>
  accepts exactly the acyclic graphs and raises the documented error on the others.\<close>

theorem acyclic_validation_exact:
  assumes "closed_graph g"
  shows "validate_acyclic g =
     (if acyclic (depends g) then None
      else Some (Exn ValidationError ''action dependency graph contains a cycle''))"
proof (cases "validate_acyclic g")
  case None
  then show ?thesis using assms by (simp add: validate_acyclic_None)
next
  case (Some e)
  then have v: "validate_visit g [] [] (map fst g) = Inl e"
    by (simp add: validate_acyclic_def split: sum.splits)
  then have "e \<noteq> Exn KeyError ''dependency''"
    using validate_visit_no_KeyError [OF assms, of "map fst g"] by (auto simp: nodes_def)
  then have "e = Exn ValidationError ''action dependency graph contains a cycle''"
    using validate_visit_errors [OF v] by blast
  then show ?thesis using Some assms validate_acyclic_None by fastforce
qed

theorem acyclic_validation_exact_witness:
  "validate_acyclic [(1::nat, [2]), (2, [1])] =
     Some (Exn ValidationError ''action dependency graph contains a cycle'')"
proof -
  have "closed_graph [(1::nat, [2]), (2, [1])]" by (simp add: closed_graph_def nodes_def)
  moreover have "validate_acyclic [(1::nat, [2]), (2, [1])] \<noteq> None" by code_simp
  ultimately show ?thesis using acyclic_validation_exact [of "[(1::nat, [2]), (2, [1])]"] by auto
qed

text \<open>C25: Every constructed plan has an execution order: \<^verbatim>\<open>_topological_order\<close> returns each
  action of the plan exactly once, and every action after all its dependencies.\<close>

theorem plan_dependencies_ordered:
  assumes "mk_plan h p = Inr q"
  shows "\<exists>ids. topological_ids (action_graph (cp_actions q)) = Some (Inr ids)
     \<and> distinct ids \<and> set ids = ac_action_id ` set (cp_actions q)
     \<and> deps_first (action_graph (cp_actions q)) ids"
proof -
  have "closed_graph (action_graph (cp_actions q))" "acyclic (depends (action_graph (cp_actions q)))"
    using mk_plan_wf [OF assms] by (simp_all add: plan_wf_def)
  from topological_ids_correct [OF this] show ?thesis by (metis nodes_action_graph)
qed

theorem plan_dependencies_ordered_witness:
  "\<exists>ids. topological_ids (action_graph (cp_actions sample_plan)) = Some (Inr ids)
     \<and> distinct ids \<and> set ids = ac_action_id ` set (cp_actions sample_plan)
     \<and> deps_first (action_graph (cp_actions sample_plan)) ids"
  by (rule plan_dependencies_ordered [OF mk_sample_plan])

text \<open>\<^verbatim>\<open>_dependency_ancestors\<close> of an action of a plan terminates without an error and
  returns exactly the transitive dependencies of the action.\<close>

theorem ancestors_exact:
  assumes "mk_plan h p = Inr q" and "a \<in> set (cp_actions q)"
  shows "\<exists>ids. dependency_ancestors (action_graph (cp_actions q)) (ac_dependencies a) = Inr ids
     \<and> set ids = {d. (d, ac_action_id a) \<in> (depends (action_graph (cp_actions q)))\<^sup>+}"
proof -
  let ?g = "action_graph (cp_actions q)"
  have wf: "closed_graph ?g" "distinct (map ac_action_id (cp_actions q))"
    using mk_plan_wf [OF assms(1)] by (simp_all add: plan_wf_def)
  have node: "map_of ?g (ac_action_id a) = Some (ac_dependencies a)"
    using wf(2) assms(2) by (intro map_of_is_SomeI) (auto simp: action_graph_def o_def)
  then have "set (ac_dependencies a) \<subseteq> nodes ?g" using closed_graphD [OF wf(1)] by blast
  from dependency_ancestors_correct [OF wf(1) this] obtain ids
    where ids: "dependency_ancestors ?g (ac_dependencies a) = Inr ids"
      "set ids = {y. \<exists>x \<in> set (ac_dependencies a). (y, x) \<in> (depends ?g)\<^sup>*}" .
  have "(\<exists>x \<in> set (ac_dependencies a). (d, x) \<in> (depends ?g)\<^sup>*) \<longleftrightarrow> (d, ac_action_id a) \<in> (depends ?g)\<^sup>+" for d
    using node by (auto simp: trancl_unfold_right depends_def relcomp_unfold)
  then show ?thesis using ids by auto
qed

theorem ancestors_exact_witness:
  "\<exists>ids. dependency_ancestors (action_graph (cp_actions sample_plan)) (ac_dependencies sample_action) = Inr ids
     \<and> set ids = {d. (d, ac_action_id sample_action) \<in> (depends (action_graph (cp_actions sample_plan)))\<^sup>+}"
  using ancestors_exact [OF mk_sample_plan] by (simp add: sample_plan_def)

text \<open>C29: The iterative measurement of \<^verbatim>\<open>measure_json_resources\<close> succeeds exactly on the values whose
  recursively defined node count, depth, byte count, collection sizes and scalar types are within
  the limits, and returns those recursive measures.\<close>

theorem resource_measure_exact:
  assumes "0 \<le> max_bytes"
  shows "measure_json_resources v max_bytes = Inr u \<longleftrightarrow>
     admissible_json v \<and> json_nodes v \<le> MAX_JSON_NODES \<and> json_depth v \<le> MAX_JSON_DEPTH
     \<and> json_scalar_bytes v \<le> max_bytes
     \<and> u = \<lparr>usage_nodes = json_nodes v, usage_scalar_bytes = json_scalar_bytes v,
            usage_maximum_depth = json_depth v\<rparr>"
  using assms by (rule measure_json_resources_Inr)

theorem resource_measure_exact_witness:
  "measure_json_resources (JObj [(''a'', JList [JInt 7, JNull])]) 100 =
     Inr \<lparr>usage_nodes = 4, usage_scalar_bytes = 6, usage_maximum_depth = 3\<rparr>"
proof -
  let ?v = "JObj [(''a'', JList [JInt 7, JNull])]"
  have "admissible_json ?v \<and> json_nodes ?v \<le> MAX_JSON_NODES \<and> json_depth ?v \<le> MAX_JSON_DEPTH
      \<and> json_scalar_bytes ?v \<le> 100 \<and> json_nodes ?v = 4 \<and> json_scalar_bytes ?v = 6 \<and> json_depth ?v = 3"
    by code_simp
  then show ?thesis using resource_measure_exact [of 100 ?v] by simp
qed

text \<open>The byte estimate for an integer, computed from its bit length with 30103/100000 for the
  decimal logarithm of two, is never below the number of characters the integer is written with.\<close>

theorem integer_estimate_sufficient:
  "int (length (render_int i)) \<le> integer_characters i"
  by (rule render_int_within_bound)

text \<open>Two JSON values have the same canonical text exactly when they are equal up to the order of
  the members of their objects.\<close>

theorem canonical_json_unambiguous:
  assumes "plain_json a" and "plain_json b"
  shows "stable_json a = stable_json b \<longleftrightarrow> sort_keys a = sort_keys b"
  using stable_json_unambiguous [OF assms] stable_json_sort_keys by metis

theorem canonical_json_unambiguous_witness:
  "stable_json (JObj [(''b'', JInt 1), (''a'', JStr ''x'')]) = stable_json (JObj [(''a'', JStr ''x''), (''b'', JInt 1)])"
proof -
  have "plain_json (JObj [(''b'', JInt 1), (''a'', JStr ''x'')])" "plain_json (JObj [(''a'', JStr ''x''), (''b'', JInt 1)])"
    by simp_all
  moreover have "sort_keys (JObj [(''b'', JInt 1), (''a'', JStr ''x'')]) = sort_keys (JObj [(''a'', JStr ''x''), (''b'', JInt 1)])"
    by code_simp
  ultimately show ?thesis using canonical_json_unambiguous by blast
qed

section \<open>Plans and approvals\<close>

text \<open>C24: A plan that satisfies its own constructor is read back from its serialized form unchanged,
  and the execution snapshot of an admitted plan is that plan with its admission.\<close>

theorem plan_round_trip:
  assumes "plan_valid h p"
  shows "plan_from_dict h (plan_to_dict h p) = Inr p
    \<and> execution_snapshot h (with_trusted_admission p) = Inr (with_trusted_admission p)"
proof -
  have "p\<lparr>cp_trusted_admission := False\<rparr> = p" using assms mk_plan_Inr by (metis plan_valid_def)
  then have "plan_valid h ((with_trusted_admission p)\<lparr>cp_trusted_admission := False\<rparr>)"
    using assms by (simp add: with_trusted_admission_def)
  then show ?thesis using assms by (simp add: plan_from_to_dict execution_snapshot_same)
qed

theorem plan_round_trip_witness:
  "plan_from_dict sample_host (plan_to_dict sample_host sample_plan) = Inr sample_plan
   \<and> execution_snapshot sample_host (with_trusted_admission sample_plan) = Inr (with_trusted_admission sample_plan)"
  by (rule plan_round_trip [OF sample_plan_valid])

text \<open>C22: An approval authorises one plan. Two plans covered by one approval, whose dictionaries are JSON data with
  finite numbers, agree on every action, the goal, the author, the creation time as written, the identifiers,
  the compensation switch, the execution context, the strategy traces, the coherence review, the systems assessment and the
  decision on it, or their canonical texts are two texts with one SHA-256 digest.\<close>

theorem approval_covers_one_plan:
  assumes "covers h ap p a now" and "covers h ap q b now'"
    and "plain_json (JObj (plan_to_dict h p))" and "plain_json (JObj (plan_to_dict h q))"
  shows "same_plan h p q \<or> collision (h_sha256 h) {plan_text h p, plan_text h q}"
  using assms fingerprint_binds_plan by (simp add: covers_def)

theorem approval_covers_one_plan_witness:
  "same_plan sample_host sample_change sample_change
   \<or> collision (h_sha256 sample_host) {plan_text sample_host sample_change, plan_text sample_host sample_change}"
proof -
  have "plain_json (JObj (plan_to_dict sample_host sample_change))" by code_simp
  then show ?thesis by (intro approval_covers_one_plan [OF sample_covers sample_covers])
qed

text \<open>C23: An approval issued from a key ring is authenticated by that key ring as the principal of
  the issuing authority, and covers exactly the named actions from the instant it was issued until,
  and not at, the instant it expires.\<close>

theorem issued_approval_accepted:
  assumes "mk_key_ring ring = Inr ring" and "map_of ring key_id = Some authority"
    and "mk_authority h authority = Inr authority"
    and "issue h ring plan ids key_id issued expires aid = Inr ap"
    and "\<not> is_revoked authority ap" and "ascii_text (ap_signature ap)"
  shows "authenticated_subject h ring ap = Inr (Some (principal_id h authority))
    \<and> (covers h ap plan act now \<longleftrightarrow>
        ac_action_id act \<in> set ids \<and> instant_of issued \<le> now \<and> now < instant_of expires)"
proof -
  have "ap_approval_id ap = aid" "ap_issued_at ap = issued" using issue_fields [OF assms(4)] by metis+
  then have current: "aid \<notin> set (au_revoked_approval_ids authority)"
      "case au_revoked_before authority of None \<Rightarrow> True | Some d \<Rightarrow> instant_of d < instant_of issued"
    using assms(5) by (auto simp: is_revoked_def split: option.splits)
  have "au_key_id authority = key_id"
    using assms(1) map_of_SomeD [OF assms(2)] by (auto simp: mk_key_ring_def checked_Inr)
  then have "authenticated_subject h ring ap = Inr (Some (principal_id h authority))"
    using issued_authenticates [OF assms(4,2) _ mk_authority_roles [OF assms(3)] current assms(6)] by simp
  then show ?thesis using issued_covers [OF assms(4)] by simp
qed

theorem issued_approval_accepted_witness:
  "authenticated_subject sample_host sample_ring sample_approval
     = Inr (Some (principal_id sample_host sample_authority))
   \<and> covers sample_host sample_approval sample_change sample_write 5"
proof -
  have "mk_key_ring sample_ring = Inr sample_ring" by code_simp
  moreover have "map_of sample_ring ''k'' = Some sample_authority" by (simp add: sample_ring_def)
  moreover have "mk_authority sample_host sample_authority = Inr sample_authority" by code_simp
  moreover have "\<not> is_revoked sample_authority sample_approval"
    by (simp add: is_revoked_def sample_authority_def)
  ultimately show ?thesis
    using issued_approval_accepted [OF _ _ _ sample_issue _ sample_signature_ascii, of sample_authority sample_write 5]
    by (simp add: sample_time_def instant_of_def)
qed

text \<open>An approval that passes every check before the signature is not always answered: a lone surrogate in its
  claims raises when the payload is encoded, and otherwise a signature that is not ASCII text raises \<^verbatim>\<open>TypeError\<close> when it
  is compared.\<close>

theorem non_ascii_signature_raises:
  assumes "ap_signature_scheme ap = hmac_scheme" and "map_of ring (ap_key_id ap) = Some authority"
    and "claims_match authority ap" and "\<not> is_revoked authority ap" and "\<not> ascii_text (ap_signature ap)"
  shows "\<exists>m. authenticated_subject h ring ap
    = Inl (Exn (case signing_payload h ap of Inl _ \<Rightarrow> ValueError | Inr _ \<Rightarrow> TypeError) m)"
  using assms by (simp add: authenticated_subject_def compare_digest_def signing_payload_def Let_def)

section \<open>Policy\<close>

text \<open>C7: Where an action needs approval, the policy permits it only if at least the required number
  of distinct principals hold unrevoked, correctly signed approvals among those submitted that cover
  exactly this plan and this action now.\<close>

theorem permission_needs_trusted_approvals:
  assumes "evaluate h e p a approvals now minimum = Inr d" and "pd_permitted d"
    and "needs_approval e a minimum" and "pe_authenticator e = Some (authenticated_subject h ring)"
  shows "\<exists>subjects. finite subjects \<and> int (card subjects) \<ge> max 1 minimum
    \<and> (\<forall>k \<in> subjects. \<exists>ap \<in> set approvals. \<exists>s. k = h_casefold h s \<and> genuine h ring ap s \<and> covers h ap p a now)"
proof -
  obtain covered where c: "covering_approvals h e p a approvals now = Inr covered"
    and n: "int (length covered) \<ge> max 1 minimum"
    using evaluate_permitted [OF assms(1)] assms(2,3) by auto
  have trusted: "\<forall>(k, ap) \<in> set covered. \<exists>s. k = h_casefold h s \<and> genuine h ring ap s \<and> covers h ap p a now"
    and keys: "distinct (map fst covered)"
    using covering_trusted [OF hmac.approval_authenticator_axioms assms(4) c] by blast+
  have members: "snd ` set covered \<subseteq> set approvals"
    using c assms(4) collect_members by (fastforce simp: covering_approvals_def)
  have "card (fst ` set covered) = length covered"
    using keys by (metis distinct_card length_map list.set_map)
  moreover have "\<exists>ap \<in> set approvals. \<exists>s. k = h_casefold h s \<and> genuine h ring ap s \<and> covers h ap p a now"
    if "k \<in> fst ` set covered" for k
    using that trusted members by fastforce
  ultimately show ?thesis using n by (intro exI [of _ "fst ` set covered"]) auto
qed

theorem permission_needs_trusted_approvals_witness:
  "\<exists>subjects. finite subjects \<and> int (card subjects) \<ge> max 1 0
    \<and> (\<forall>k \<in> subjects. \<exists>ap \<in> set [sample_approval]. \<exists>s. k = h_casefold sample_host s
         \<and> genuine sample_host sample_ring ap s \<and> covers sample_host ap sample_change sample_write 5)"
  by (rule permission_needs_trusted_approvals [OF sample_decision])
     (simp_all add: needs_approval_def sample_write_def sample_engine_def)

text \<open>C30: Retrieved content never authorises a write: whatever approvals are submitted, an action
  whose authority is retrieved content and that is a write by risk or by capability is not
  permitted.\<close>

theorem retrieved_content_never_writes:
  assumes "ac_authority_source a \<in> {RETRIEVED_INTERNAL_CONTENT, RETRIEVED_EXTERNAL_CONTENT}"
    and "is_write (pe_config e) a" and "evaluate h e p a approvals now minimum = Inr d"
  shows "\<not> pd_permitted d"
  using assms evaluate_permitted [OF assms(3)] by (auto simp: prohibited_by_def untrusted_authority_def)

theorem retrieved_content_never_writes_witness:
  "\<exists>d. evaluate sample_host sample_engine sample_change
      (sample_write\<lparr>ac_authority_source := RETRIEVED_EXTERNAL_CONTENT\<rparr>) [sample_approval] 5 0 = Inr d
    \<and> \<not> pd_permitted d"
proof -
  let ?a = "sample_write\<lparr>ac_authority_source := RETRIEVED_EXTERNAL_CONTENT\<rparr>"
  have "is_write (pe_config sample_engine) ?a" by (simp add: is_write_def sample_write_def)
  moreover have "capsule_for sample_change ?a = None" "\<not> any_match (ac_capability ?a) [''*.delete'']" by code_simp+
  then obtain d where "evaluate sample_host sample_engine sample_change ?a [sample_approval] 5 0 = Inr d"
    by (simp add: evaluate_def sample_engine_def sample_write_def is_write_def untrusted_authority_def)
  ultimately show ?thesis
    using retrieved_content_never_writes [of ?a sample_engine sample_host sample_change "[sample_approval]" 5 0 d] by auto
qed

text \<open>The budget count of \<^verbatim>\<open>_collection_items\<close>, an explicit stack walk, is the number of JSON
  values strictly inside the parameters.\<close>

theorem collection_count_exact: "Suc (collection_items v) = json_nodes v"
  by (simp add: collection_items_size collection_size_nodes)

section \<open>Capabilities, connectors and governance\<close>

text \<open>Whatever connectors were registered, a capability of a system is served by exactly the one
  connector that names it; another capability goes to the system's wildcard connector if there is
  one, and the resolution never finds two connectors.\<close>

theorem registry_resolution_exact:
  assumes "register_all cs [] = Inr reg"
  shows "(\<forall>c \<in> set (connectors_of reg s). n \<in> set (ce_capabilities c) \<longrightarrow> resolve reg s (Some n) = Inr c)
    \<and> (\<forall>c. resolve reg s (Some n) = Inr c \<longrightarrow>
         c \<in> set (connectors_of reg s)
         \<and> (n \<in> set (ce_capabilities c)
            \<or> wildcard c \<and> (\<forall>d \<in> set (connectors_of reg s). n \<notin> set (ce_capabilities d))))
    \<and> resolve reg s (Some n) \<noteq> Inl (Exn ConnectorError ''multiple connectors registered for capability'')"
proof -
  have ok: "registry_ok reg" using assms by (rule register_all_ok [rotated]) (simp add: registry_ok_def connectors_of_def)
  show ?thesis using resolve_named [OF ok] resolve_Inr [of reg s n] never_ambiguous [OF ok] by blast
qed

theorem registry_resolution_exact_witness:
  "resolve sample_registry ''jira'' (Some ''jira.search'') = Inr (hd sample_connectors)
   \<and> resolve sample_registry ''jira'' (Some ''jira.x'') = Inr (hd (tl sample_connectors))"
proof -
  have "hd sample_connectors \<in> set (connectors_of sample_registry ''jira'')" by code_simp
  moreover have "''jira.search'' \<in> set (ce_capabilities (hd sample_connectors))" by code_simp
  moreover have "resolve sample_registry ''jira'' (Some ''jira.x'') = Inr (hd (tl sample_connectors))" by code_simp
  ultimately show ?thesis
    using registry_resolution_exact [OF sample_register_all, of "''jira''" "''jira.search''"] by blast
qed

text \<open>C31: A capability catalog that loads holds only well-formed definitions, each under its own name:
  a known authentication contract, a target system, typed parameters, quotas exactly for local
  generation, version preconditions for modifying capabilities, and read result contracts without
  reserved or overlapping names.\<close>

theorem loaded_catalog_well_formed:
  "catalog_from_toml h raw = Inr catalog \<Longrightarrow> catalog_ok h catalog"
  by (rule catalog_from_toml_ok)

theorem loaded_catalog_well_formed_witness:
  "catalog_ok sample_host sample_catalog \<and> map fst sample_catalog = [''jira.search'']"
proof -
  have "map fst sample_catalog = [''jira.search'']" by code_simp
  then show ?thesis using loaded_catalog_well_formed [OF sample_catalog_loads] by simp
qed

text \<open>An action that governance admits asks for zero, one or two approvers, and a write asks for at
  least one, whatever rules overlap.\<close>

theorem governed_writes_need_approvers:
  assumes "fst (governance_validate_action p a)"
  shows "\<exists>n. minimum_approvers p (ac_capability a) = Inr n \<and> 0 \<le> n \<and> n \<le> 2
    \<and> (ac_risk a \<noteq> READ_ONLY \<longrightarrow> ac_risk a \<noteq> LOCAL_GENERATION \<longrightarrow> 1 \<le> n)"
  by (rule governed_approvers [OF assms])

theorem governed_writes_need_approvers_witness:
  "\<exists>n. minimum_approvers sample_profile (ac_capability sample_write) = Inr n \<and> 1 \<le> n \<and> n \<le> 2"
proof -
  have "fst (governance_validate_action sample_profile sample_write)" by code_simp
  moreover have "ac_risk sample_write = REVERSIBLE_WRITE" by (simp add: sample_write_def)
  ultimately show ?thesis using governed_writes_need_approvers [of sample_profile sample_write] by auto
qed

text \<open>C32: A source-of-truth check that passes means: a write to a governed projection depends,
  transitively, on a write to its canonical source that carries the same single governed value.\<close>

theorem projection_follows_source:
  assumes "mk_plan h p = Inr q" and "validate_sources h rules q a = Inr (True, m)" and "a \<in> set (cp_actions q)"
    and "r \<in> set rules" and "action_identity a \<in> set (sr_projection_resources r)" and "ac_risk a \<noteq> READ_ONLY"
  shows "follows_source h r q a"
  using validate_sources_sound [OF assms(2) mk_plan_wf [OF assms(1)] assms(3-5)] assms(6) by blast

theorem projection_follows_source_witness:
  "follows_source sample_host sample_source sample_projection_plan sample_projection"
proof (rule projection_follows_source)
  show "mk_plan sample_host sample_projection_plan = Inr sample_projection_plan" by code_simp
  show "validate_sources sample_host [sample_source] sample_projection_plan sample_projection
      = Inr (True, ''source-of-truth policy satisfied'')" by code_simp
  show "sample_projection \<in> set (cp_actions sample_projection_plan)" by (simp add: sample_projection_plan_def)
  show "sample_source \<in> set [sample_source]" by simp
  show "action_identity sample_projection \<in> set (sr_projection_resources sample_source)" by code_simp
  show "ac_risk sample_projection \<noteq> READ_ONLY" by (simp add: sample_projection_def sample_write_def)
qed

section \<open>The systems gate\<close>

text \<open>C33: A plan the gate bound within its automatic complexity budget is never found stale, forged, denied or in
  need of a human review later. With its trusted admission the enforcement returns exactly the decision that was
  bound, whatever policy, approvals and time it is run with. Without the admission, as after a reload from JSON, it
  returns that decision exactly if the authentication of the submitted approvals does not raise and the plan is
  not gated, trusted coherence is not asked for, or the authentication found the whole plan approved.\<close>

theorem bound_plan_stays_enforceable:
  assumes "bind_systems_governance h budget p a = Inr q" and "complexity_score a \<le> budget"
  shows "enforce_systems_governance h budget (with_trusted_admission q) policy approvals require now
      = Inr (the (cp_systems_decision q))
    \<and> (enforce_systems_governance h budget q policy approvals require now = Inr (the (cp_systems_decision q)) \<longleftrightarrow>
        (\<exists>trusted. strategy_coherence_execution_authenticated h q policy approvals now = Inr trusted
           \<and> (gd_route (the (cp_systems_decision q)) = GATED \<longrightarrow> require \<longrightarrow> trusted)))"
proof
  show "enforce_systems_governance h budget (with_trusted_admission q) policy approvals require now
      = Inr (the (cp_systems_decision q))" by (rule bound_plan_enforced [OF assms])
  show "enforce_systems_governance h budget q policy approvals require now = Inr (the (cp_systems_decision q)) \<longleftrightarrow>
      (\<exists>trusted. strategy_coherence_execution_authenticated h q policy approvals now = Inr trusted
         \<and> (gd_route (the (cp_systems_decision q)) = GATED \<longrightarrow> require \<longrightarrow> trusted))"
    unfolding bound_plan_unmarked [OF assms]
    by (cases "strategy_coherence_execution_authenticated h q policy approvals now") auto
qed

theorem bound_plan_stays_enforceable_witness:
  "enforce_systems_governance sample_host default_gate (with_trusted_admission sample_bound) None [] True 0
    = Inr (the (cp_systems_decision sample_bound))
   \<and> (enforce_systems_governance sample_host default_gate sample_bound None [] False 0
        = Inr (the (cp_systems_decision sample_bound)))"
proof -
  have small: "complexity_score sample_assessment \<le> default_gate" by code_simp
  have "\<not> isl (strategy_coherence_execution_authenticated sample_host sample_bound None [] 0)"
    by (simp add: strategy_coherence_execution_authenticated_def split: option.split)
  then show ?thesis
    using bound_plan_stays_enforceable [OF sample_binds small, of None "[]" True 0]
      bound_plan_stays_enforceable [OF sample_binds small, of None "[]" False 0]
    by (cases "strategy_coherence_execution_authenticated sample_host sample_bound None [] 0") simp_all
qed

text \<open>C34: A plan that passes the enforcement carries the decision of the gate on its own assessment and has no
  objection. A plan above the complexity budget, and a gated plan without trusted admission where trusted coherence
  is asked for, also has, among the approvals that were submitted, one that the policy's authenticator
  accepts and that covers every action of the plan now.\<close>

theorem enforced_plan_reviewed:
  assumes "enforce_systems_governance h budget p policy approvals require now = Inr d"
  shows "\<exists>a. cp_systems_assessment p = Some a \<and> cp_systems_decision p = Some d
    \<and> gate_objections h p a = [] \<and> gd_route d = route_of a
    \<and> (gd_route d = GATED \<longrightarrow> require \<longrightarrow> \<not> cp_trusted_admission p \<longrightarrow>
         (\<exists>e. policy = Some e \<and> (\<exists>ap \<in> set approvals. whole_plan_approval h e p now ap)))
    \<and> (complexity_score a > budget \<longrightarrow>
         (\<exists>e. policy = Some e \<and> (\<exists>ap \<in> set approvals. whole_plan_approval h e p now ap)))"
  using enforced_plan [OF assms] by metis

theorem enforced_plan_reviewed_witness:
  "\<exists>a. cp_systems_assessment sample_bound = Some a
     \<and> cp_systems_decision sample_bound = Some (the (cp_systems_decision sample_bound))
     \<and> gate_objections sample_host sample_bound a = []"
proof -
  have "enforce_systems_governance sample_host default_gate sample_bound None [] True 0
      = Inr (the (cp_systems_decision sample_bound))" by code_simp
  then show ?thesis using enforced_plan_reviewed [of sample_host default_gate sample_bound] by blast
qed

text \<open>A post-execution review drops the demand for reassessment only for a real run in which every
  action succeeded and an observer delivered evidence bound to this assessment and decision: the
  metric changed, no unintended effect, the stop condition checked and not triggered, and no growth
  in complexity.\<close>

theorem review_cleared_needs_evidence:
  assumes "build_systems_post_execution_review h a d states dry_run observer = Inr r"
    and "\<not> pr_reassessment_required r"
  shows "\<not> dry_run \<and> (\<forall>s \<in> set states. s \<in> set successful_states)
    \<and> (\<exists>observe e. observer = Some observe \<and> observe a d states = Some e
         \<and> oe_assessment_fingerprint e = assessment_fingerprint h a
         \<and> oe_decision_fingerprint e = decision_fingerprint h d
         \<and> oe_metric_status e \<noteq> CONFIRMED_UNCHANGED \<and> \<not> oe_unintended_effects_detected e
         \<and> oe_stop_condition_checked e \<and> oe_stop_condition_triggered e \<noteq> Some True
         \<and> (\<exists>n. oe_observed_complexity_score e = Some n \<and> n \<le> complexity_score a))"
  by (rule post_review_cleared [OF assms])

theorem review_cleared_needs_evidence_witness:
  "VERIFIED \<in> set successful_states \<and> oe_stop_condition_checked sample_outcome
   \<and> (\<exists>n. oe_observed_complexity_score sample_outcome = Some n \<and> n \<le> complexity_score sample_assessment)"
  using review_cleared_needs_evidence [OF sample_review_built sample_review_cleared] by simp

section \<open>Data that leaves the program\<close>

text \<open>The summary of a result that goes to the audit log does not depend on anything stored under a
  sensitive key, at any depth of the states before and after the action.\<close>

theorem audit_summary_hides_secrets:
  assumes "same_visible h b (er_before r)" and "same_visible h a (er_after r)"
    and "\<forall>k \<in> set reported_keys. h_lower h k \<notin> set sensitive_keys"
  shows "result_audit_summary h (r\<lparr>er_before := b, er_after := a\<rparr>) = result_audit_summary h r"
  by (rule audit_summary_hides [OF assms])

theorem audit_summary_hides_secrets_witness:
  "result_audit_summary sample_host (sample_result\<lparr>er_before := None, er_after := Some [(''token'', JStr ''other'')]\<rparr>)
   = result_audit_summary sample_host sample_result"
  by (rule audit_summary_hides_secrets; code_simp)

text \<open>C35: Under every policy that loads, confidential and restricted provider data leaves only on the
  audited route with an audit sink, by a rule that names the fields it releases.\<close>

theorem high_sensitivity_stays_audited:
  assumes "egress_policy_from_mapping h value = Inr p"
    and "ed_permitted (egress_evaluate p provider capability classification route audit)"
    and "classification = CONFIDENTIAL \<or> classification = RESTRICTED"
  shows "route = AUDITED \<and> audit
    \<and> (\<exists>r. ed_rule (egress_evaluate p provider capability classification route audit) = Some r
          \<and> ''*'' \<notin> set (mr_allowed_fields r))"
  by (rule high_sensitivity_audited [OF assms])

theorem high_sensitivity_stays_audited_witness:
  "\<exists>r. ed_rule (egress_evaluate sample_egress ''jira'' ''jira.search'' CONFIDENTIAL AUDITED True) = Some r
     \<and> ''*'' \<notin> set (mr_allowed_fields r)"
proof -
  have "ed_permitted (egress_evaluate sample_egress ''jira'' ''jira.search'' CONFIDENTIAL AUDITED True)" by code_simp
  then show ?thesis using high_sensitivity_stays_audited [OF sample_egress_loads] by blast
qed

text \<open>C36: A binding made for a read stays inside the one most specific rule of its policy (fields, item
  limit, bytes, redactions), and it survives serialisation unchanged.\<close>

theorem egress_binding_within_policy:
  assumes "egress_policy_from_mapping h value = Inr p"
    and "bind_provider_data_egress h p a d binding route audit mode = Inr b"
  shows "binding_within h p a d b \<and> eb_route b = route
    \<and> egress_binding_from_dict h (egress_binding_to_dict b) = Inr b"
  using bind_within [OF assms(2)] egress_binding_roundtrip [OF bound_binding_valid [OF assms]] by blast

theorem egress_binding_within_policy_witness:
  "binding_within sample_host sample_egress sample_read sample_read_definition sample_read_binding
   \<and> eb_route sample_read_binding = AUDITED
   \<and> egress_binding_from_dict sample_host (egress_binding_to_dict sample_read_binding) = Inr sample_read_binding"
  by (rule egress_binding_within_policy [OF sample_egress_loads sample_egress_binds])

text \<open>C37: In every sanitised provider result the value under a sensitive name is masked at every depth,
  and under a declared resource only the requested fields and no reserved names appear.\<close>

theorem sanitized_output_masked:
  assumes "folds_plain h" and "mk_egress_binding h b = Inr b" and "sanitize_provider_mapping h value b = Inr r"
  shows "masked h (mark_or_reference h) (JObj r) \<and> (\<forall>kv \<in> set r. resource_exposed h b kv)"
  using sanitized_masked [OF assms(1,3)] sanitized_resources [OF assms] by blast

theorem sanitized_output_masked_witness:
  "masked sample_host (mark_or_reference sample_host) (JObj sample_sanitized)
   \<and> resource_exposed sample_host sample_binding (hd sample_sanitized)"
proof -
  have "hd sample_sanitized \<in> set sample_sanitized" by code_simp
  then show ?thesis
    using sanitized_output_masked [OF sample_folds sample_binding_mk sample_sanitizes] by blast
qed

text \<open>C38: A sanitised provider result fits the byte limit of its binding, and no list of objects and no
  count in it exceeds the requested item limit.\<close>

theorem sanitized_output_bounded:
  assumes "sanitize_provider_mapping h value b = Inr r"
  shows "int (length (stable_json (JObj r))) \<le> eb_max_output_bytes b
    \<and> (\<forall>n k js. eb_requested_item_limit b = Some n \<and> (k, ''object_list'') \<in> set (eb_output_resources b)
         \<and> obj_get r k = Some (JList js) \<longrightarrow> int (length js) \<le> n)
    \<and> (\<forall>n k i. eb_requested_item_limit b = Some n \<and> k \<in> {''count'', ''returned''}
         \<and> obj_get r k = Some (JInt i) \<longrightarrow> i \<le> n)"
  by (rule sanitized_bounds [OF assms])

theorem sanitized_output_bounded_witness:
  "int (length (stable_json (JObj sample_sanitized))) \<le> eb_max_output_bytes sample_binding"
  using sanitized_output_bounded [OF sample_sanitizes] by (rule conjunct1)

section \<open>Properties of a run\<close>

text \<open>C1: Every call into a connector is justified by what happened before it. A run that calls a connector was
  admitted: its plan is the validated snapshot and passed the systems gate, and the approvals of the whole plan
  were authenticated. An action is executed at most once, only if the capability catalog, governance, the
  source-of-truth rules and the policy engine clear it outside a dry run, and after all its dependencies were
  verified or reconciled; it is verified only after it was executed; and compensation is called only for an executed
  reversible write of a plan that asks for it. This holds whether the run returns or raises.\<close>

theorem run_calls_justified:
  "rs_calls (snd (run_internal en run_id plan approvals dry_run (initial_state w db))) = []
   \<or> (\<exists>cx. admitted en plan approvals dry_run cx
        \<and> justified en cx (rs_calls (snd (run_internal en run_id plan approvals dry_run (initial_state w db)))))"
proof (cases "run_internal en run_id plan approvals dry_run (initial_state w db)")
  case (Pair r s)
  then show ?thesis using run_accounted [OF Pair] by (auto simp: accounted_def)
qed

text \<open>C2: A dry run has no effects: no connector is called, the world outside is the same, and neither a
  reservation nor a checkpoint changes, whatever the plan, the approvals and the failures of the storage.\<close>

theorem dry_run_has_no_effects:
  assumes "run_internal en run_id plan approvals True (initial_state w db) = (r, s)"
  shows "rs_calls s = [] \<and> rs_world s = w \<and> db_claims (rs_db s) = db_claims db
    \<and> db_checkpoints (rs_db s) = db_checkpoints db"
proof -
  have "ran en plan approvals True (initial_state w db) s"
    by (rule run_internal_ran [OF _ assms]) simp
  then have "inert (initial_state w db) s"
    by (rule run_invariant [rotated 2], intro inert_steps) (auto simp: cleared_def admitted_def inert_def)
  then show ?thesis by (simp add: inert_def)
qed

theorem dry_run_has_no_effects_witness:
  "rs_calls (snd (run_internal sample_orchestrator (sample_uuid (CHR ''e'')) sample_bound [] True
      (initial_state 0 created_db))) = []"
  by (cases "run_internal sample_orchestrator (sample_uuid (CHR ''e'')) sample_bound [] True (initial_state 0 created_db)")
     (use dry_run_has_no_effects [of sample_orchestrator "sample_uuid (CHR ''e'')" sample_bound "[]" 0 created_db] in simp)

text \<open>C3: A side effect is not repeated: a write whose idempotency key has a completed or an indeterminate outcome
  when the run starts is not executed in the run, and its key stays settled, also when other actions of the plan are
  compensated.\<close>

theorem settled_actions_never_reexecuted:
  assumes "execution_snapshot (or_host en) plan = Inr p" and "a \<in> set (cp_actions p)" and "uses_idempotency a"
    and "phase_of db (ac_idempotency_key a) \<in> {Succeeded, Uncertain}"
    and "run_internal en run_id plan approvals dry_run (initial_state w db) = (r, s)"
  shows "ExecuteCall a \<notin> set (rs_calls s) \<and> phase_of (rs_db s) (ac_idempotency_key a) \<in> {Succeeded, Uncertain}"
proof -
  have "ran en plan approvals dry_run (initial_state w db) s"
    by (rule run_internal_ran [OF _ assms(5)]) simp
  moreover have "barred cx a (initial_state w db)" for cx
    using assms(4) by (auto simp: barred_def settled_def)
  moreover have "steady (run_step en cx) (barred cx a)" if "admitted en plan approvals dry_run cx" for cx
    using that assms(1-3) by (intro barred_steps admitted_wf [OF that]) (auto simp: admitted_def)
  moreover have "barred cx a s" if "untouched (initial_state w db) s" for cx
    using calculation(2) [of cx] that by (simp add: barred_def untouched_simps)
  ultimately obtain cx where "barred cx a s"
    unfolding ran_def using steady_star by metis
  then show ?thesis by (auto simp: barred_def settled_def)
qed

theorem settled_actions_never_reexecuted_witness:
  "ExecuteCall sample_write \<notin> set (rs_calls (snd (run_internal sample_orchestrator (sample_uuid (CHR ''e''))
      sample_change [] False (initial_state 0 sample_settled))))"
proof -
  have "execution_snapshot (or_host sample_orchestrator) sample_change = Inr sample_change"
    using sample_change_snapshot by (simp add: sample_orchestrator_def)
  moreover have "sample_write \<in> set (cp_actions sample_change)" "uses_idempotency sample_write"
    "phase_of sample_settled (ac_idempotency_key sample_write) \<in> {Succeeded, Uncertain}"
    by (simp_all add: sample_change_def uses_idempotency_def sample_write_def sample_action_def sample_settled_def phase_of_def)
  ultimately show ?thesis
    using settled_actions_never_reexecuted [where en = sample_orchestrator and plan = sample_change and p = sample_change]
    by (metis surjective_pairing)
qed

text \<open>C4: A run that returns reports exactly the actions of its plan, each of them. An action it reports as verified
  was executed and its connector answered the verification positively; for one it reports as reused the connector
  confirmed the earlier outcome. Compensation replaces the report of the action it undoes and never that of another one.\<close>

theorem run_reports_every_action:
  "case run_internal en run_id plan approvals dry_run (initial_state w db) of
     (Inl e, s) \<Rightarrow> True
   | (Inr report, s) \<Rightarrow> \<exists>p. execution_snapshot (or_host en) plan = Inr p
       \<and> rp_action_id ` set (rn_actions report) = ac_action_id ` set (cp_actions p)
       \<and> rp_action_id ` {r \<in> set (rn_actions report). rp_state r = VERIFIED}
           \<subseteq> ac_action_id ` {b \<in> set (cp_actions p). ExecuteCall b \<in> set (rs_calls s) \<and> VerifyCall b \<in> set (rs_confirmed s)}
       \<and> rp_action_id ` {r \<in> set (rn_actions report). rp_state r = REUSED}
           \<subseteq> ac_action_id ` {b \<in> set (cp_actions p). ReconcileCall b \<in> set (rs_confirmed s)}"
proof -
  let ?run = "run_internal en run_id plan approvals dry_run (initial_state w db)"
  have "\<exists>p. execution_snapshot (or_host en) plan = Inr p
       \<and> rp_action_id ` set (rn_actions report) = ac_action_id ` set (cp_actions p)
       \<and> rp_action_id ` {r \<in> set (rn_actions report). rp_state r = VERIFIED}
           \<subseteq> ac_action_id ` {b \<in> set (cp_actions p). ExecuteCall b \<in> set (rs_calls s) \<and> VerifyCall b \<in> set (rs_confirmed s)}
       \<and> rp_action_id ` {r \<in> set (rn_actions report). rp_state r = REUSED}
           \<subseteq> ac_action_id ` {b \<in> set (cp_actions p). ReconcileCall b \<in> set (rs_confirmed s)}" if run: "?run = (Inr report, s)" for report s
  proof -
    from run_internal_covers [OF _ run] obtain p where p: "rn_actions report = rs_reports s"
      "execution_snapshot (or_host en) plan = Inr p" "ac_action_id ` set (cp_actions p) \<subseteq> rp_action_id ` set (rs_reports s)"
      by (auto simp: initial_state_def)
    have part: "rp_action_id ` {r \<in> set (rs_reports s). rp_state r = st} \<subseteq> ac_action_id ` {b \<in> set (cp_actions p). P b}"
      if "\<And>r. r \<in> set (rs_reports s) \<Longrightarrow> rp_state r = st \<Longrightarrow> \<exists>b \<in> set (cp_actions p). ac_action_id b = rp_action_id r \<and> P b" for st P
      using that by force
    have at: "\<exists>b \<in> set (cp_actions p). ac_action_id b = rp_action_id r
        \<and> (rp_state r = VERIFIED \<longrightarrow> ExecuteCall b \<in> set (rs_calls s) \<and> VerifyCall b \<in> set (rs_confirmed s))
        \<and> (rp_state r = REUSED \<longrightarrow> ReconcileCall b \<in> set (rs_confirmed s))" if r: "r \<in> set (rs_reports s)" for r
    proof -
      from run_accounted [OF run] r obtain cx where cx: "admitted en plan approvals dry_run cx" "accounted en cx s" by auto
      then have "cx_plan cx = p" using p(2) by (simp add: admitted_def)
      moreover have "ExecuteCall b \<in> set (rs_calls s)" if "VerifyCall b \<in> set (rs_confirmed s)" for b
        using that cx(2) by (auto simp: accounted_def intro: verified_executed)
      ultimately show ?thesis using cx(2) r unfolding accounted_def attested_def by metis
    qed
    have "rp_action_id ` set (rs_reports s) \<subseteq> ac_action_id ` set (cp_actions p)" using at by force
    then have "rp_action_id ` set (rs_reports s) = ac_action_id ` set (cp_actions p)" using p(3) by (rule subset_antisym)
    with p(2) show ?thesis
      unfolding p(1) by (intro exI [of _ p] conjI part) (use at in \<open>blast+\<close>)
  qed
  then show ?thesis by (auto split: prod.splits sum.splits)
qed

text \<open>C5: A run on a verified trail leaves a verified trail that extends it, whether the run returns or raises.\<close>

theorem run_keeps_audit_trail:
  assumes "verify_connection (h_sha256 (or_host en)) db = Verified n"
    and "run_internal en run_id plan approvals dry_run (initial_state w db) = (r, s)"
  shows "prefix (db_events db) (db_events (rs_db s))
    \<and> verify_connection (h_sha256 (or_host en)) (rs_db s) = Verified (length (db_events (rs_db s)))"
proof -
  have ran: "ran en plan approvals dry_run (initial_state w db) s"
    by (rule run_internal_ran [OF _ assms(2)]) simp
  have "chain_ok (h_sha256 (or_host en)) db" using assms(1) by (simp add: verify_connection_Verified)
  then have "chain_ok (h_sha256 (or_host en)) (rs_db s)"
    by (intro run_invariant [OF chain_steps _ ran]) simp
  moreover have "prefix (db_events db) (db_events (rs_db s))"
    by (rule run_invariant [OF prefix_steps _ ran]) simp
  ultimately show ?thesis using assms(1) by (auto simp: verify_connection_Verified)
qed

theorem run_keeps_audit_trail_witness:
  "prefix (db_events sample_trail) (db_events (rs_db (snd (run_internal sample_orchestrator (sample_uuid (CHR ''e''))
      sample_bound [] True (initial_state 0 sample_trail)))))"
proof -
  have "verify_connection (h_sha256 (or_host sample_orchestrator)) sample_trail = Verified 1" by code_simp
  then show ?thesis using run_keeps_audit_trail by (metis surjective_pairing)
qed

section \<open>Direct reads\<close>


text \<open>C12: The report of a direct read has one entry for each action of the plan, in order. The content of an entry was
  returned by the connector for this action, confirmed by the verification that followed, and sanitised under
  the ephemeral egress binding of the action to no more than its output limit; each action was executed and
  verified once.\<close>

theorem direct_report_verified:
  "case execute_direct_read s snapshot p st of
     (Inl e, st') \<Rightarrow> True
   | (Inr report, st') \<Rightarrow> \<exists>q. execution_snapshot (dn_host s) p = Inr q
       \<and> list_all2 (safe_entry s) (cp_actions q) (dt_actions report)
       \<and> ds_calls st' = ds_calls st @ concat (map read_calls (cp_actions q))"
  using execute_direct_read_Inr by (auto split: prod.split sum.split)

section \<open>Compensation plans, routing and sessions\<close>

text \<open>C6: A compensation plan is complete. If one is built from the report of a run, its actions are, in reverse
  order, exactly one undo action for every reported effect of a reversible write, on the resource and with the
  parameters of its descriptor, each needing an approval and depending on the one before it; and the plan
  passes the systems gate under every policy, with every approval and at every time.\<close>

theorem compensation_plan_complete:
  "case build_compensation_plan h original report created_by fresh plan_id now of
     Inl e \<Rightarrow> True
   | Inr q \<Rightarrow> list_all2 (undoes original) (left_effects original (rev (rn_actions report))) (cp_actions q)
       \<and> cp_actions q \<noteq> [] \<and> chained None (cp_actions q)
       \<and> (\<exists>d. enforce_systems_governance h default_gate q policy approvals trusted later = Inr d)"
  using compensation_complete [of h original report created_by fresh plan_id now] by (auto split: sum.splits)

text \<open>C40: The router never widens the policy: it selects at least one and at most the requested number of cards, each
  from the offered ones, allowed by the policy and routable: none of its intent words is negated in the prompt,
  none of its negative phrases occurs, and a card that writes is not selected for a prompt that only reads.\<close>

theorem routing_respects_policy:
  assumes "route_intent h prompt cards policy_allows n = Inr d"
  shows "rd_cards d \<noteq> [] \<and> int (length (rd_cards d)) \<le> n
    \<and> (\<forall>c \<in> set (rd_cards d). c \<in> set cards \<and> policy_allows c \<and> routable h prompt c)"
  by (rule route_intent_selects [OF assms])

theorem routing_respects_policy_witness:
  "rd_cards sample_route \<noteq> [] \<and> int (length (rd_cards sample_route)) \<le> 3"
  using routing_respects_policy [OF sample_routed] by blast

text \<open>C39: A session never exceeds its budget. After any sequence of calls, granted or refused, the calls and bytes
  used are the sums over the granted calls and within the limits of the session, its grant is unchanged, and
  every granted call was made before the expiry, for the plan of the session and one of its exact capabilities.\<close>

theorem session_within_budget:
  assumes "mk_session s = Inr s0" and "cs_calls s = 0" and "cs_bytes s = 0" and "authorize_all qs s0 = (s', rs)"
  shows "cs_calls s' \<le> cs_maximum_calls s \<and> cs_bytes s' \<le> cs_maximum_total_bytes s
    \<and> cs_calls s' = int (length (filter (\<lambda>r. r = Inr ()) rs)) \<and> cs_bytes s' = sum_list (map2 spent qs rs)
    \<and> same_grant s s' \<and> list_all2 (\<lambda>q r. r = Inr () \<longrightarrow> within_session s q) qs rs"
proof -
  have s0: "s0 = s" "session_valid s" using assms(1-3) by (auto simp: mk_session_def checked_Inr session_valid_def)
  with assms(4) have "authorize_all qs s = (s', rs)" by simp
  from authorize_all_budget [OF s0(2) this] show ?thesis
    using assms(2,3) same_grant_simps(2,3) unfolding session_valid_def by auto
qed

theorem session_within_budget_witness:
  "cs_calls (fst (authorize_all [sample_request, sample_request] sample_session)) \<le> 1"
proof -
  have "mk_session sample_session = Inr sample_session" "cs_calls sample_session = 0" "cs_bytes sample_session = 0"
    "cs_maximum_calls sample_session = 1" by code_simp+
  then show ?thesis using session_within_budget [of sample_session sample_session] by (metis surjective_pairing)
qed

section \<open>Work memory\<close>

text \<open>C13: Whatever calls of \<^verbatim>\<open>start\<close> and \<^verbatim>\<open>record\<close> follow the creation of a work journal, accepted or refused, the
  journal can be read, the rows it holds at any moment are kept unchanged and in place by all later calls, and every
  work record has run through the stages of the lifecycle in order and without a gap up to its current one; it was
  started once.\<close>

theorem work_records_follow_lifecycle:
  assumes "work_initialize h True empty_work_db = (db0, Inr ())"
    and "db1 = run_work_calls h earlier db0" and "db = run_work_calls h later db1"
  shows "\<exists>rp rows. replay h True db = Inr rp \<and> wd_events db = wd_events db1 @ rows
    \<and> (case map_of (rp_by_work rp) w of None \<Rightarrow> True
       | Some es \<Rightarrow>
           remdups_adj (map we_stage es) = take (stage_order (we_stage (last es)) + 1) work_stages
           \<and> we_kind (hd es) = Started \<and> list_all (\<lambda>e. we_kind e \<noteq> Started) (tl es))"
proof -
  have "readable h db0" using initialized_readable [of h True empty_work_db] assms(1) by simp
  then have "readable h db1" using run_work_calls_readable assms(2) by blast
  then obtain rp rows where r: "replay h True db = Inr rp" "wd_events db = wd_events db1 @ rows"
    using run_work_calls_readable [of h db1 later] assms(3)
    by (cases "replay h True db") (auto simp: readable_def)
  then obtain es where "journal h es" "rp = replay_of es" unfolding replay_exact by blast
  then show ?thesis
    using r journal_lifecycle [of h es w] lifecycle_stages lifecycle_single_start
    by (auto simp: map_of_group_works)
qed

theorem work_records_follow_lifecycle_witness:
  "\<exists>rp rows. replay work_host True (run_work_calls work_host
        [StartWork sample_event_id 6 ''task-2'' ''issue 8'' ''Try it'' (\<lambda>_. None)] (run_work_calls work_host
        [StartWork sample_event_id 5 ''task-1'' ''issue 7'' ''Fix it'' (\<lambda>_. None)] created_journal)) = Inr rp
    \<and> wd_events (run_work_calls work_host
        [StartWork sample_event_id 6 ''task-2'' ''issue 8'' ''Try it'' (\<lambda>_. None)] (run_work_calls work_host
        [StartWork sample_event_id 5 ''task-1'' ''issue 7'' ''Fix it'' (\<lambda>_. None)] created_journal))
      = wd_events (run_work_calls work_host
        [StartWork sample_event_id 5 ''task-1'' ''issue 7'' ''Fix it'' (\<lambda>_. None)] created_journal) @ rows
    \<and> (case map_of (rp_by_work rp) ''task-1'' of None \<Rightarrow> True
       | Some es \<Rightarrow>
           remdups_adj (map we_stage es) = take (stage_order (we_stage (last es)) + 1) work_stages
           \<and> we_kind (hd es) = Started \<and> list_all (\<lambda>e. we_kind e \<noteq> Started) (tl es))"
  by (rule work_records_follow_lifecycle [OF created_journal_ready refl refl])

text \<open>C14: A call of \<^verbatim>\<open>record\<close> that keeps the stage of an unmerged record or moves it to the next one, with valid
  fields, an identifier that is new, and room in the journal, succeeds: it returns the history of the record with the
  new event, and the journal afterwards reads as before with that event at its end.\<close>

theorem work_record_accepted:
  assumes "host_laws h" and "canonical_uuid i" and "validate_work_schema db = None"
    and "replay h False db = Inr rp" and "map_of (rp_by_work rp) w = Some es" and "i \<notin> we_event_id ` set (rp_events rp)"
    and "length (rp_events rp) < max_events" and "validate_work_id h w = Inr w" and "validate_summary h s = Inr s"
    and "case r of None \<Rightarrow> k \<noteq> ReferenceKind | Some x \<Rightarrow> validate_reference h ''reference'' x = Inr x"
    and "k \<noteq> Started" and "we_stage (last es) \<noteq> Merged"
    and "stage_order st \<in> {stage_order (we_stage (last es)), stage_order (we_stage (last es)) + 1}"
  shows "\<exists>db' snap rp'. work_record h i now w k s (Some st) r (\<lambda>_. None) db = (db', Inr snap)
    \<and> replay h False db' = Inr rp' \<and> rp_events rp' = rp_events rp @ [new_event h i now rp w k st s r]
    \<and> ws_events snap = es @ [new_event h i now rp w k st s r] \<and> ws_stage snap = st"
proof -
  obtain all where "rp = replay_of all"
    using assms(4) unfolding replay_exact by blast
  then have es: "es = work_of w all" "work_of w all \<noteq> []"
    using assms(5) by (auto simp: map_of_group_works split: if_splits)
  note all_events = \<open>rp = replay_of all\<close>
  have reference: "\<not> (k = ReferenceKind \<and> r = None)"
    "case r of None \<Rightarrow> True | Some x \<Rightarrow> validate_reference h ''reference'' x = Inr x"
    using assms(10) by (auto split: option.splits)
  show ?thesis
  proof (rule work_record_accepts [OF assms(1-3), where es = all and w = w and s = s and r = r and k = k and st = st
        and e = "new_event h i now rp w k st s r" and now = now])
    fix db' snap
    assume "work_record h i now w k s (Some st) r (\<lambda>_. None) db = (db', Inr snap)"
      and "replay h False db' = Inr (replay_of (all @ [new_event h i now rp w k st s r]))"
      and "ws_events snap = work_of w all @ [new_event h i now rp w k st s r]" and "ws_stage snap = st"
    then show ?thesis
      using es all_events by (intro exI [of _ db'] exI [of _ snap] exI) auto
  qed (use assms es all_events reference in simp_all)
qed

theorem work_record_accepted_witness:
  "\<exists>db' snap rp'. work_record work_host second_event_id 6 ''task-1'' CheckpointKind ''Plan it'' (Some Planned) None (\<lambda>_. None)
        started_journal = (db', Inr snap)
    \<and> replay work_host False db' = Inr rp'
    \<and> rp_events rp' = rp_events (replay_of [started_event]) @ [new_event work_host second_event_id 6
        (replay_of [started_event]) ''task-1'' CheckpointKind Planned ''Plan it'' None]
    \<and> ws_events snap = [started_event] @ [new_event work_host second_event_id 6
        (replay_of [started_event]) ''task-1'' CheckpointKind Planned ''Plan it'' None] \<and> ws_stage snap = Planned"
  by (rule work_record_accepted [OF work_host_laws sample_event_ids(2) started_journal_state(2,1)])
    (simp_all add: map_of_group_works started_event_record sample_fields max_events_def
      sample_event_id_def second_event_id_def)

text \<open>C15: The work journal is tamper evident. Two databases that can be read and have the same checkpoint row
  hold the same events, or the texts of two different events among them have one SHA-256 digest. The
  texts are Unicode without lone surrogates.\<close>

theorem work_journal_tamper_evident:
  assumes "replay h True db = Inr rp" and "replay h True db' = Inr rp'" and "wd_state db' = wd_state db"
    and "list_all (scalar_event h) (rp_events rp)" and "list_all (scalar_event h) (rp_events rp')"
  shows "rp_events rp' = rp_events rp
    \<or> collision (h_sha256 h) (work_event_material h ` (set (rp_events rp') \<union> set (rp_events rp)))"
  using assms by (rule replayed_journals)

theorem work_journal_tamper_evident_witness:
  "rp_events (replay_of [started_event]) = rp_events (replay_of [started_event])
   \<or> collision (h_sha256 work_host) (work_event_material work_host `
       (set (rp_events (replay_of [started_event])) \<union> set (rp_events (replay_of [started_event]))))"
  using started_event_scalar
  by (intro work_journal_tamper_evident [of work_host started_journal _ started_journal]
      replay_weaken started_journal_state) simp_all

section \<open>Advisory delegation\<close>

text \<open>C16: However many sessions and processes delegate for one goal over the same durable budget, and whatever the
  workers answer, at most three research tasks and one plan review complete. A row that was tampered
  with grants nothing.\<close>

theorem advisory_attempts_bounded:
  assumes "ab_budget b = Some (stored_budget h st)" and "goal_digest h goal = Inr g"
  shows "int (length (filter (completed_for goal ResearchRole) (snd (delegate_all h b calls w)))) \<le> 3
    \<and> int (length (filter (completed_for goal PlanReviewRole) (snd (delegate_all h b calls w)))) \<le> 1"
proof -
  obtain rows v where w: "w = (rows, v)" by fastforce
  obtain w' answers where d: "delegate_all h b calls (rows, v) = (w', answers)" by fastforce
  show ?thesis
    using delegations_within_limit [OF assms(1) d assms(2), of ResearchRole]
      delegations_within_limit [OF assms(1) d assms(2), of PlanReviewRole]
    by (simp add: w d role_maximum_def MAX_RESEARCH_TASKS_def MAX_PLAN_REVIEWS_def)
qed

theorem advisory_attempts_bounded_witness:
  "int (length (filter (completed_for ''goal'' ResearchRole) (snd (delegate_all work_host advisory_sample_broker
      (replicate 5 (advisory_sample_session, ResearchRole, [], Some advisory_sample_worker, 0)) ([], ()))))) \<le> 3
   \<and> int (length (filter (completed_for ''goal'' PlanReviewRole) (snd (delegate_all work_host advisory_sample_broker
      (replicate 5 (advisory_sample_session, ResearchRole, [], Some advisory_sample_worker, 0)) ([], ()))))) \<le> 1"
proof (rule advisory_attempts_bounded)
  show "ab_budget advisory_sample_broker = Some (stored_budget work_host sample_store)"
    by (simp add: advisory_sample_broker_def)
  show "goal_digest work_host ''goal'' = Inr (h_sha256 work_host ''goal'')" by code_simp
qed

text \<open>The attempts are really available: equal requests on a readable row are granted one after the other until
  the counter of the role is at its limit, and none afterwards.\<close>

theorem advisory_attempts_granted:
  assumes "goal_digest h goal = Inr g" and "0 < m" and "0 < n" and "\<And>key msg. is_sha256 (h_hmac h key msg)"
    and "held h st g role rows = Some c"
  shows "int (length (filter (granted goal role) (snd (reserve_all h st (replicate k (goal, role, m, n)) rows))))
    = min (int k) (max 0 ((if role = ResearchRole then m else n) - c))"
proof -
  obtain rows' answers where "reserve_all h st (replicate k (goal, role, m, n)) rows = (rows', answers)" by fastforce
  then show ?thesis
    using grants_reach_limit [OF assms] by (cases role) (auto simp: role_limit_def role_count_def)
qed

theorem advisory_attempts_granted_witness:
  "int (length (filter (granted ''goal'' ResearchRole)
      (snd (reserve_all work_host sample_store (replicate 5 (''goal'', ResearchRole, 3, 1)) []))))
   = min (int 5) (max 0 ((if ResearchRole = ResearchRole then 3 else 1) - 0))"
proof (rule advisory_attempts_granted)
  show "goal_digest work_host ''goal'' = Inr (h_sha256 work_host ''goal'')" by code_simp
  show "is_sha256 (h_hmac work_host key msg)" for key msg
    by (simp add: work_host_def sample_host_def sample_digest_sha256)
  show "held work_host sample_store (h_sha256 work_host ''goal'') ResearchRole [] = Some 0"
    by (simp add: held_def budget_counts_def MAX_GOAL_RECORDS_def role_count_def)
qed simp_all

text \<open>C17: A worker is only ever called on a checked envelope: for its role and child profile, at depth zero, with the
  route of the session, and with a payload that holds no forbidden key and no secret-like text at any
  depth and stays within the limits. Two workers that agree on such envelopes give the same delegation.\<close>

theorem worker_sees_checked_payload:
  assumes "\<And>envelope w.
      en_depth envelope = 0 \<and> en_role envelope = role \<and> as_semantic_route s = Some (en_semantic_route envelope)
      \<and> clean_payload h 0 (JObj (en_payload envelope)) \<and> payload_items (JObj (en_payload envelope)) \<le> 256
      \<and> length (stable_json (JObj (en_payload envelope))) \<le> MAX_PAYLOAD_BYTES \<Longrightarrow>
      run envelope (advisory_dispatch h (child_profile (ab_inventory b) role) (ab_repository b)) w
      = run' envelope (advisory_dispatch h (child_profile (ab_inventory b) role) (ab_repository b)) w"
  shows "delegate h b role payload (Some run) depth s w = delegate h b role payload (Some run') depth s w"
proof (cases "sanitize_payload h payload")
  case (Inl e)
  then show ?thesis by (simp add: delegate_def split: option.splits)
next
  case (Inr p)
  note checked_payload = sanitized_payload [OF Inr]
  have "call_worker h b role \<lparr>en_task_id = t, en_role = role, en_profile_name = nm, en_depth = 0,
        en_semantic_route = route, en_payload = p\<rparr> run w'
      = call_worker h b role \<lparr>en_task_id = t, en_role = role, en_profile_name = nm, en_depth = 0,
        en_semantic_route = route, en_payload = p\<rparr> run' w'"
    if "as_semantic_route s = Some route" for t nm route w'
    using assms [of "\<lparr>en_task_id = t, en_role = role, en_profile_name = nm, en_depth = 0,
        en_semantic_route = route, en_payload = p\<rparr>" w'] checked_payload that
    by (simp add: call_worker_def del: clean_payload.simps payload_items.simps stable_json.simps)
  then show ?thesis
    using Inr by (simp add: delegate_def split: option.splits sum.splits prod.splits)
qed

theorem worker_sees_checked_payload_witness:
  "delegate work_host advisory_sample_broker ResearchRole [(''token'', JStr ''x'')]
     (Some advisory_sample_worker) 0 advisory_sample_session ([], ())
   = delegate work_host advisory_sample_broker ResearchRole [(''token'', JStr ''x'')]
     (Some (\<lambda>envelope dispatch w. if clean_payload work_host 0 (JObj (en_payload envelope))
        then advisory_sample_worker envelope dispatch w else (w, Inl ''CopilotScopeRejected''))) 0
     advisory_sample_session ([], ())"
  by (rule worker_sees_checked_payload) simp

text \<open>C18: A child of an inventory that was loaded from profile texts can only read and search: every call that its
  dispatcher answers is one of the two, and every excerpt it returns is from a file of the repository
  view, at most twenty of them. The child cannot be invoked directly by the user or the host.\<close>

theorem loaded_child_only_reads:
  "case load_inventory_from_texts h texts of
     Inl e \<Rightarrow> True
   | Inr inventory \<Rightarrow>
       \<not> apf_user_invocable (child_profile inventory role) \<and> apf_disable_model_invocation (child_profile inventory role)
       \<and> (case advisory_dispatch h (child_profile inventory role) repo tool arguments of
            Inl e \<Rightarrow> exn_kind e = AdvisoryDispatchDenied
          | Inr (t, citations) \<Rightarrow> t \<in> {''read'', ''search''} \<and> length citations \<le> 20
              \<and> ci_path ` set citations \<subseteq> fst ` set repo)"
proof (cases "load_inventory_from_texts h texts")
  case (Inr inventory)
  note contract = inventory_contract(3,4) [OF Inr, of role]
  show ?thesis
  proof (cases "advisory_dispatch h (child_profile inventory role) repo tool arguments")
    case (Inl e)
    then have "exn_kind e = AdvisoryDispatchDenied" by (rule dispatch_refuses)
    then show ?thesis using Inr Inl contract by simp
  next
    case (Inr answer)
    obtain t cs where "answer = (t, cs)" by fastforce
    then show ?thesis
      using dispatch_reads_repository [OF Inr [unfolded \<open>answer = (t, cs)\<close>]] contract Inr
        \<open>load_inventory_from_texts h texts = Inr inventory\<close>
      by (auto simp: MAX_RESULTS_def)
  qed
qed simp

text \<open>Evidence that the parent accepts makes no claim to authority: the report proposed no target, approval or
  plan and holds no secret-like text, and its citations are exactly the reported paths, sorted, without
  duplicates, each a file of the repository view.\<close>

theorem accepted_evidence_checked:
  "case recheck_report h repo report of
     Inl e \<Rightarrow> True
   | Inr e \<Rightarrow>
       rep_proposed_target report = None \<and> rep_claimed_approval report = None \<and> rep_proposed_plan report = None
       \<and> \<not> secret_text h (ve_summary e) \<and> list_all (\<lambda>f. \<not> secret_text h f) (ve_findings e)
       \<and> set (ve_citations e) = set (rep_citations report) \<and> sorted (ve_citations e) \<and> distinct (ve_citations e)
       \<and> set (ve_citations e) \<subseteq> fst ` set repo"
proof (cases "recheck_report h repo report")
  case (Inr e)
  note checked_report = rechecked_report [OF Inr]
  show ?thesis
    using checked_report validated_report [OF checked_report(1)] Inr by (simp add: list_all_iff)
qed simp

section \<open>Recurring work\<close>

definition new_scheduler :: recurring_db where
  "new_scheduler = \<lparr>rd_runs = [], rd_occurrences = []\<rparr>"

text \<open>C19: Whatever operations run on the scheduler tables, a fence that was granted for an artifact is lost for
  good once a later reservation or resume of the artifact is granted: its generation is smaller, it validates
  under no token, and blocking, finalising or renewing the lease under it is refused and changes nothing.\<close>

theorem occurrence_fence_exclusive:
  assumes "granted_fence h fp op1 (play_occurrences h ops0 new_scheduler) = Some (g1, t1)"
    and "before = play_occurrences h (ops0 @ op1 # ops1) new_scheduler"
    and "granted_fence h fp op2 before = Some (g2, t2)"
    and "db = play_occurrences h (op2 # ops2) before"
  shows "g1 < g2 \<and> validate_occurrence_fence h fp g1 t now db \<noteq> Inr ()
    \<and> transition_running_occurrence h fp g1 t status request finished db
        = (db, Inl (config_error ''recurring occurrence claim fence was lost''))
    \<and> renew_occurrence_fence h lease fp g1 t renewed db = (db, False)"
proof -
  have start: "unique_artifacts (play_occurrences h ops0 new_scheduler)"
    by (rule play_unique) (simp add: unique_artifacts_def new_scheduler_def)
  show ?thesis
    using assms stale_fence_rejected [OF start assms(1)] by (simp add: play_occurrences_def)
qed

definition registered_ops :: "occurrence_op list" where
  "registered_ops = [OccRegister ''weekly'' 0 ''fp'' ''sha'' ''registration'' ''key'' 90]"

definition reclaimed_occurrence :: recurring_db where
  "reclaimed_occurrence = play_occurrences sample_host
     (registered_ops @ OccReserve 5 ''t1'' ''fp'' 10 # [OccReconcile ''fp'' OccRecoverable 16]) new_scheduler"

lemma occurrence_reserved:
  "granted_fence sample_host ''fp'' (OccReserve 5 ''t1'' ''fp'' 10)
     (play_occurrences sample_host registered_ops new_scheduler) = Some (1, ''t1'')"
  by code_simp

lemma occurrence_reserved_again:
  "granted_fence sample_host ''fp'' (OccReserve 5 ''t2'' ''fp'' 20) reclaimed_occurrence = Some (2, ''t2'')"
  by code_simp

theorem occurrence_fence_exclusive_witness:
  "validate_occurrence_fence sample_host ''fp'' 1 ''t1'' 21
     (play_occurrences sample_host [OccReserve 5 ''t2'' ''fp'' 20] reclaimed_occurrence) \<noteq> Inr ()"
  using occurrence_fence_exclusive [OF occurrence_reserved reclaimed_occurrence_def occurrence_reserved_again refl] by blast

text \<open>C20: A scheduled occurrence that was claimed is not claimed again, whatever operations the store meets, unless
  an operator marks it recoverable. A later run of its workflow, forced or not, is skipped whatever the callback
  is, and leaves the tables as its due check left them.\<close>

theorem scheduled_occurrence_runs_once:
  assumes "claim_run h lease token name scheduled started db0 = (db1, Some t)"
    and "\<forall>x \<in> set ops. \<not> recovers h name scheduled x"
    and "map_of (rcf_workflows cfg) name = Some w" and "wf_enabled w"
    and "due_status h zs w (rw_due_at wd) (play_runs h ops db1) = (db2, Inr status)"
    and "utc_time (wd_scheduled_at status) = scheduled"
  shows "claim_run h lease' token' name scheduled started' (play_runs h ops db1) = (play_runs h ops db1, None)
    \<and> run_workflow h zs lease' cfg wd name force (play_runs h ops db1)
       = (db2, Inr (skipped_result
           (if force \<or> wd_due status then ''latest scheduled occurrence is already claimed'' else wd_reason status)))"
proof -
  have "run_taken h name (utc_time (wd_scheduled_at status)) (play_runs h ops db1)"
    unfolding assms(6) by (rule play_taken [OF claim_takes [OF assms(1)] assms(2)])
  then show ?thesis
    using taken_run_skipped [OF assms(3) assms(5)] scheduled_run_claimed_once [OF assms(1,2)] assms(4) by simp
qed

definition monday_schedule :: weekly_schedule where
  "monday_schedule = \<lparr>sc_weekday = 0, sc_hour = 0, sc_minute = 0, sc_timezone = ''UTC'',
     sc_max_lateness_minutes = 1440, sc_fold_policy = FoldReject\<rparr>"

definition weekly_workflow :: registered_workflow where
  "weekly_workflow = \<lparr>wf_name = ''weekly'', wf_enabled = True, wf_kind = WeeklyStatusPackage,
     wf_schedule = monday_schedule, wf_delivery_mode = LocalOnly, wf_output_dir = ''out'',
     wf_integration_config = ''i'', wf_workflow_config = ''w'', wf_identity_config = None, wf_retention_config = None,
     wf_allowed_capabilities = [''jira.read''], wf_allowed_recipients = [], wf_canonical_sources = [''jira''],
     wf_generation = 1, wf_revoked = False, wf_catch_up_policy = LatestOnly, wf_approval_resume_minutes = 1440\<rparr>"

definition weekly_config :: recurring_config where
  "weekly_config = \<lparr>rcf_state_database = ''db'', rcf_lock_dir = ''locks'',
     rcf_workflows = [(''weekly'', weekly_workflow)], rcf_occurrence_root = None\<rparr>"

definition weekly_world :: run_world where
  "weekly_world = \<lparr>rw_callback = (\<lambda>w. Inr \<lparr>rs_successful = True, rs_summary = []\<rparr>), rw_locked = False,
     rw_lease_lost = False, rw_meanwhile = id, rw_due_at = 20, rw_started = 20, rw_finished = 30, rw_token = ''t2'',
     rw_type_name = (\<lambda>e. [])\<rparr>"

definition claimed_week :: recurring_db where
  "claimed_week = fst (claim_run sample_host 50 ''t1'' ''weekly'' (utc_time 0) (utc_time 10) new_scheduler)"

lemma week_claimed:
  "claim_run sample_host 50 ''t1'' ''weekly'' (utc_time 0) (utc_time 10) new_scheduler = (claimed_week, Some ''t1'')"
  by code_simp

definition week_status :: workflow_due where
  "week_status = \<lparr>wd_name = ''weekly'', wd_enabled = True, wd_due = False, wd_scheduled_at = 0, wd_last_success = None,
     wd_reason = ''latest scheduled occurrence is already claimed (running)''\<rparr>"

lemma week_due:
  "due_status sample_host (\<lambda>k. Inr (fixed_zone 0)) weekly_workflow (rw_due_at weekly_world)
     (play_runs sample_host [] claimed_week) = (claimed_week, Inr week_status)"
  by code_simp

theorem scheduled_occurrence_runs_once_witness:
  "snd (run_workflow sample_host (\<lambda>k. Inr (fixed_zone 0)) 50 weekly_config weekly_world ''weekly'' True
     (play_runs sample_host [] claimed_week))
   = Inr (skipped_result ''latest scheduled occurrence is already claimed'')"
  using scheduled_occurrence_runs_once [OF week_claimed, of "[]" weekly_config weekly_workflow _ weekly_world _ _ 50 _ _ True]
    week_due by (simp add: weekly_config_def weekly_workflow_def week_status_def)

text \<open>C21: The instant that a valid weekly schedule selects is not in the future and less than nine days back, and its
  wall clock reading has the scheduled weekday, hour and minute, in any zone whose offsets stay within a day.
  In a zone of a constant offset one is always selected, less than seven days back.\<close>

theorem schedule_selects_past_instant:
  assumes "mk_schedule zs s = Inr s'" and "zone_law z" and "scheduled_at_or_before z s now = Inr t"
  shows "t \<le> now \<and> now - t < 9 * day_us
    \<and> wall_weekday (fst (tz_local z t)) = sc_weekday s
    \<and> fst (tz_local z t) mod day_us = (sc_hour s * 60 + sc_minute s) * minute_us
    \<and> (\<exists>t'. scheduled_at_or_before (fixed_zone off) s now = Inr t' \<and> t' \<le> now \<and> now < t' + 7 * day_us)"
  using scheduled_instant [OF assms(2,1,3)] fixed_zone_schedule [OF assms(1)] by simp

theorem schedule_selects_past_instant_witness:
  "\<exists>t'. scheduled_at_or_before (fixed_zone 60) monday_schedule 20 = Inr t' \<and> t' \<le> 20 \<and> 20 < t' + 7 * day_us"
proof -
  have "mk_schedule (\<lambda>k. Inr (fixed_zone 0)) monday_schedule = Inr monday_schedule"
    by (simp add: mk_schedule_def guarded_def monday_schedule_def)
  moreover have "zone_law (fixed_zone 0)" by (simp add: zone_law_def fixed_zone_def)
  moreover have "scheduled_at_or_before (fixed_zone 0) monday_schedule 20 = Inr 0" by code_simp
  ultimately show ?thesis using schedule_selects_past_instant by blast
qed

end
